(* ===== verification/Prelude.thy ===== *)
theory Prelude
  imports Main "HOL-Library.Word" "HOL-Library.Monad_Syntax"
begin

unbundle bit_operations_syntax

text \<open>
  Shared vocabulary of the XtratuM development: the machine types of
  core/include/arch/arch_types.h, the return codes of core/include/hypercalls.h, the
  assertion macro of core/include/assert.h, and the lemmas on options, lists and flag words
  that the component theories use. The lemma collection xm_panic gathers the facts about
  assertions, flag_simps the facts about single-bit masks.
\<close>

named_theorems xm_panic "facts about assertions and panics"
named_theorems flag_simps "facts about flag words"

section \<open>Machine types\<close>

type_synonym u8 = "8 word"
type_synonym u16 = "16 word"
type_synonym u32 = "32 word"
type_synonym s32 = int
type_synonym xmTime = int
type_synonym xmId = u32
type_synonym addr = nat

abbreviation NULL :: addr where
  "NULL \<equiv> 0"

text \<open>The range of the signed 64-bit time values (MAX_XMTIME is MAX_S64).\<close>

definition MAX_XMTIME :: xmTime where
  "MAX_XMTIME = 0x7FFFFFFFFFFFFFFF"

text \<open>C division of signed integers truncates towards zero.\<close>

definition cdiv :: "int \<Rightarrow> int \<Rightarrow> int" where
  "cdiv a b = sgn a * sgn b * (\<bar>a\<bar> div \<bar>b\<bar>)"

lemma cdiv_nonneg [simp]: "0 \<le> a \<Longrightarrow> 0 \<le> b \<Longrightarrow> cdiv a b = a div b"
  by (auto simp: cdiv_def sgn_if)

section \<open>Return codes\<close>

definition XM_OK :: s32 where "XM_OK = 0"
definition XM_NO_ACTION :: s32 where "XM_NO_ACTION = - 1"
definition XM_UNKNOWN_HYPERCALL :: s32 where "XM_UNKNOWN_HYPERCALL = - 2"
definition XM_INVALID_PARAM :: s32 where "XM_INVALID_PARAM = - 3"
definition XM_PERM_ERROR :: s32 where "XM_PERM_ERROR = - 4"
definition XM_INVALID_CONFIG :: s32 where "XM_INVALID_CONFIG = - 5"
definition XM_INVALID_MODE :: s32 where "XM_INVALID_MODE = - 6"
definition XM_OP_NOT_ALLOWED :: s32 where "XM_OP_NOT_ALLOWED = - 7"
definition XM_MULTICALL_ERROR :: s32 where "XM_MULTICALL_ERROR = - 8"

lemmas ret_defs = XM_OK_def XM_NO_ACTION_def XM_UNKNOWN_HYPERCALL_def XM_INVALID_PARAM_def
  XM_PERM_ERROR_def XM_INVALID_CONFIG_def XM_INVALID_MODE_def XM_OP_NOT_ALLOWED_def
  XM_MULTICALL_ERROR_def

lemma ret_codes_negative:
  "XM_NO_ACTION < 0" "XM_UNKNOWN_HYPERCALL < 0" "XM_INVALID_PARAM < 0" "XM_PERM_ERROR < 0"
  "XM_INVALID_CONFIG < 0" "XM_INVALID_MODE < 0" "XM_OP_NOT_ALLOWED < 0" "XM_MULTICALL_ERROR < 0"
  by (simp_all add: ret_defs)

section \<open>Assertions\<close>

text \<open>
  The default configuration has CONFIG_DEBUG set, so a failed ASSERT calls SystemPanic and the
  hypervisor stops. An operation that can panic returns an option: None is the panic.
\<close>

definition ASSERT :: "bool \<Rightarrow> unit option" where
  "ASSERT b = (if b then Some () else None)"

lemma ASSERT_simps [simp, xm_panic]: "ASSERT True = Some ()" "ASSERT False = None"
  by (simp_all add: ASSERT_def)

lemma ASSERT_eq_Some [simp, xm_panic]: "ASSERT b = Some u \<longleftrightarrow> b"
  by (simp add: ASSERT_def)

lemma ASSERT_bind [xm_panic]: "(ASSERT b \<bind> f) = (if b then f () else None)"
  by (simp add: ASSERT_def)

lemma bind_eq_Some_iff: "(m \<bind> f) = Some y \<longleftrightarrow> (\<exists>x. m = Some x \<and> f x = Some y)"
  by (cases m) auto

section \<open>Flag words\<close>

text \<open>
  The kernel sets a flag with \<open>x |= f\<close>, clears it with \<open>x &= ~f\<close> and tests it with
  \<open>x & f\<close>.
\<close>

definition set_flag :: "'a::len word \<Rightarrow> 'a word \<Rightarrow> 'a word" where
  "set_flag x f = x OR f"

definition clr_flag :: "'a::len word \<Rightarrow> 'a word \<Rightarrow> 'a word" where
  "clr_flag x f = x AND NOT f"

definition has_flag :: "'a::len word \<Rightarrow> 'a word \<Rightarrow> bool" where
  "has_flag x f \<longleftrightarrow> x AND f \<noteq> 0"

lemma set_flag_bit: "bit (set_flag x f) n \<longleftrightarrow> bit x n \<or> bit f n"
  by (simp add: set_flag_def bit_or_iff)

lemma clr_flag_bit: "bit (clr_flag x f) n \<longleftrightarrow> bit x n \<and> \<not> bit f n"
  by (auto simp: clr_flag_def bit_and_iff bit_not_iff dest: bit_imp_le_length)

lemma has_flag_bit: "has_flag x f \<longleftrightarrow> (\<exists>n. bit x n \<and> bit f n)"
  by (auto simp: has_flag_def bit_eq_iff bit_and_iff dest: bit_imp_le_length)

lemma has_flag_clr [flag_simps]: "\<not> has_flag (clr_flag x f) f"
  by (auto simp: has_flag_bit clr_flag_bit)

lemma has_flag_set [flag_simps]: "f \<noteq> 0 \<Longrightarrow> has_flag (set_flag x f) f"
  by (auto simp: has_flag_bit set_flag_bit bit_eq_iff)

lemma has_flag_zero [flag_simps]: "\<not> has_flag 0 f" "\<not> has_flag x 0"
  by (simp_all add: has_flag_def)

lemma has_flag_set_disj [flag_simps]:
  "f AND g = 0 \<Longrightarrow> has_flag (set_flag x f) g = has_flag x g"
  by (auto simp: has_flag_bit set_flag_bit bit_eq_iff bit_and_iff dest: bit_imp_le_length)

lemma has_flag_clr_disj [flag_simps]:
  "f AND g = 0 \<Longrightarrow> has_flag (clr_flag x f) g = has_flag x g"
  by (auto simp: has_flag_bit clr_flag_bit bit_eq_iff bit_and_iff dest: bit_imp_le_length)

lemma has_flag_or: "has_flag x (f OR g) \<longleftrightarrow> has_flag x f \<or> has_flag x g"
  by (auto simp: has_flag_bit bit_or_iff)

lemma has_flag_set_mono [flag_simps]: "has_flag x g \<Longrightarrow> has_flag (set_flag x f) g"
  by (auto simp: has_flag_bit set_flag_bit)

section \<open>Lists\<close>

lemma last_in_butlast_distinct: "distinct xs \<Longrightarrow> xs \<noteq> [] \<Longrightarrow> last xs \<notin> set (butlast xs)"
  by (induction xs) (auto dest: in_set_butlastD)

lemma in_set_tlD: "x \<in> set (tl xs) \<Longrightarrow> x \<in> set xs"
  by (cases xs) auto

lemma hd_notin_tl_distinct: "distinct xs \<Longrightarrow> xs \<noteq> [] \<Longrightarrow> hd xs \<notin> set (tl xs)"
  by (cases xs) auto

lemma unat_u32 [simp]: "i < 2 ^ 32 \<Longrightarrow> unat (word_of_nat i :: u32) = i"
  by (simp add: unsigned_of_nat take_bit_nat_eq_self)

lemma bit_exp_u32: "bit ((2 :: u32) ^ b) n \<longleftrightarrow> n = b \<and> b < 32"
  by (auto simp: bit_exp_iff)

text \<open>Array reads of the C code: None when the index is outside the table.\<close>

definition aget :: "'a list \<Rightarrow> nat \<Rightarrow> 'a option" where
  "aget xs i = (if i < length xs then Some (xs ! i) else None)"

lemma aget_eq_Some: "aget xs i = Some x \<longleftrightarrow> i < length xs \<and> xs ! i = x"
  by (auto simp: aget_def)

lemma aget_in_set: "aget xs i = Some x \<Longrightarrow> x \<in> set xs"
  by (auto simp: aget_def split: if_splits)

text \<open>A loop over a list whose body can panic.\<close>

fun ofold :: "('a \<Rightarrow> 's \<Rightarrow> 's option) \<Rightarrow> 'a list \<Rightarrow> 's \<Rightarrow> 's option" where
  "ofold f [] s = Some s"
| "ofold f (x # xs) s = do { s \<leftarrow> f x s; ofold f xs s }"

lemma ofold_inv:
  "\<lbrakk>ofold f xs s = Some s'; P s; \<And>x s s'. \<lbrakk>x \<in> set xs; f x s = Some s'; P s\<rbrakk> \<Longrightarrow> P s'\<rbrakk> \<Longrightarrow> P s'"
proof (induction xs arbitrary: s)
  case (Cons x xs)
  from Cons.prems(1) obtain t where t: "f x s = Some t" "ofold f xs t = Some s'"
    by (auto simp: bind_eq_Some_iff)
  have "P t" using Cons.prems(2,3) t(1) by auto
  then show ?case using Cons.IH [OF t(2)] Cons.prems(3) by auto
qed auto

lemma ofold_append: "ofold f (xs @ ys) s = (ofold f xs s \<bind> ofold f ys)"
  by (induction xs arbitrary: s) (auto split: Option.bind_splits)

section \<open>Bytes\<close>

text \<open>Words are little endian.\<close>

definition u32_bytes :: "u32 \<Rightarrow> u8 list" where
  "u32_bytes w = [ucast w, ucast (drop_bit 8 w), ucast (drop_bit 16 w), ucast (drop_bit 24 w)]"

definition bytes_u32 :: "u8 list \<Rightarrow> u32" where
  "bytes_u32 bs = ucast (bs ! 0) OR push_bit 8 (ucast (bs ! 1)) OR push_bit 16 (ucast (bs ! 2)) OR
     push_bit 24 (ucast (bs ! 3))"

lemma u32_bytes_inverse [simp]: "bytes_u32 (u32_bytes w) = w"
  unfolding bytes_u32_def u32_bytes_def
proof (rule bit_word_eqI)
  fix n assume "n < LENGTH(32)"
  then consider "n < 8" | "8 \<le> n" "n < 16" | "16 \<le> n" "n < 24" | "24 \<le> n" "n < 32" by fastforce
  then show "bit (ucast ([ucast w, ucast (drop_bit 8 w), ucast (drop_bit 16 w), ucast (drop_bit 24 w)] ! 0 :: u8) OR
      push_bit 8 (ucast ([ucast w, ucast (drop_bit 8 w), ucast (drop_bit 16 w), ucast (drop_bit 24 w)] ! 1 :: u8)) OR
      push_bit 16 (ucast ([ucast w, ucast (drop_bit 8 w), ucast (drop_bit 16 w), ucast (drop_bit 24 w)] ! 2 :: u8)) OR
      push_bit 24 (ucast ([ucast w, ucast (drop_bit 8 w), ucast (drop_bit 16 w), ucast (drop_bit 24 w)] ! 3 :: u8)) :: u32) n =
      bit w n"
    by cases (auto simp: bit_simps)
qed

end
