(* ===== verification/DynList.thy ===== *)
theory DynList
  imports Prelude
begin

text \<open>
  The intrusive circular doubly linked lists of core/include/list.h. Nodes and list headers
  live in an explicit store (a map from addresses to records), as the C code links nodes
  that are embedded in timers and messages. Every pointer assignment of the source is one
  store update, in the source's order. The spin locks guard the operations against other
  CPUs; each operation is one atomic step here. The second half states the contract: the
  store represents one sequence of nodes per list, and each operation is the corresponding
  operation on sequences; the locale deque is that contract for the clients.
\<close>

section \<open>The store\<close>

record dl_node =
  nd_list :: addr
  nd_prev :: addr
  nd_next :: addr

record dl_head =
  l_head :: addr
  l_noElem :: s32

record dl_store =
  dnode :: "addr \<Rightarrow> dl_node"
  dlist :: "addr \<Rightarrow> dl_head"

definition set_next :: "addr \<Rightarrow> addr \<Rightarrow> 'a dl_store_scheme \<Rightarrow> 'a dl_store_scheme" where
  "set_next e v s = s\<lparr>dnode := (dnode s)(e := (dnode s e)\<lparr>nd_next := v\<rparr>)\<rparr>"

definition set_prev :: "addr \<Rightarrow> addr \<Rightarrow> 'a dl_store_scheme \<Rightarrow> 'a dl_store_scheme" where
  "set_prev e v s = s\<lparr>dnode := (dnode s)(e := (dnode s e)\<lparr>nd_prev := v\<rparr>)\<rparr>"

definition set_list :: "addr \<Rightarrow> addr \<Rightarrow> 'a dl_store_scheme \<Rightarrow> 'a dl_store_scheme" where
  "set_list e v s = s\<lparr>dnode := (dnode s)(e := (dnode s e)\<lparr>nd_list := v\<rparr>)\<rparr>"

definition set_head :: "addr \<Rightarrow> addr \<Rightarrow> 'a dl_store_scheme \<Rightarrow> 'a dl_store_scheme" where
  "set_head l v s = s\<lparr>dlist := (dlist s)(l := (dlist s l)\<lparr>l_head := v\<rparr>)\<rparr>"

definition add_no :: "addr \<Rightarrow> s32 \<Rightarrow> 'a dl_store_scheme \<Rightarrow> 'a dl_store_scheme" where
  "add_no l d s = s\<lparr>dlist := (dlist s)(l := (dlist s l)\<lparr>l_noElem := l_noElem (dlist s l) + d\<rparr>)\<rparr>"

lemmas dl_set_defs = set_next_def set_prev_def set_list_def set_head_def add_no_def

section \<open>The operations of list.h\<close>

definition DynListInit :: "addr \<Rightarrow> 'a dl_store_scheme \<Rightarrow> 'a dl_store_scheme" where
  "DynListInit l s = s\<lparr>dlist := (dlist s)(l := \<lparr>l_head = NULL, l_noElem = 0\<rparr>)\<rparr>"

text \<open>The four pointer writes that put a node between the last node and the head.\<close>

definition dl_link_before :: "addr \<Rightarrow> addr \<Rightarrow> 'a dl_store_scheme \<Rightarrow> 'a dl_store_scheme" where
  "dl_link_before h e s =
     (let s = set_next e h s;
          s = set_prev e (nd_prev (dnode s h)) s;
          s = set_next (nd_prev (dnode s h)) e s
      in set_prev h e s)"

definition DynListInsertHead :: "addr \<Rightarrow> addr \<Rightarrow> 'a dl_store_scheme \<Rightarrow> (s32 \<times> 'a dl_store_scheme) option"
where
  "DynListInsertHead l e s =
     (if nd_list (dnode s e) \<noteq> NULL then do {
        ASSERT (nd_list (dnode s e) = l);
        Some (0, s)
      } else do {
        ASSERT (nd_next (dnode s e) = NULL \<and> nd_prev (dnode s e) = NULL);
        s \<leftarrow> (if l_head (dlist s l) \<noteq> NULL then do {
                ASSERT (l_noElem (dlist s l) > 0);
                Some (dl_link_before (l_head (dlist s l)) e s)
              } else do {
                ASSERT (l_noElem (dlist s l) = 0);
                Some (set_prev e e (set_next e e s))
              });
        let s = set_list e l (add_no l 1 (set_head l e s));
        ASSERT (l_noElem (dlist s l) \<ge> 0);
        Some (0, s)
      })"

definition DynListInsertTail :: "addr \<Rightarrow> addr \<Rightarrow> 'a dl_store_scheme \<Rightarrow> (s32 \<times> 'a dl_store_scheme) option"
where
  "DynListInsertTail l e s =
     (if nd_list (dnode s e) \<noteq> NULL then do {
        ASSERT (nd_list (dnode s e) = l);
        Some (0, s)
      } else do {
        ASSERT (nd_next (dnode s e) = NULL \<and> nd_prev (dnode s e) = NULL);
        let s = (if l_head (dlist s l) \<noteq> NULL
                 then dl_link_before (l_head (dlist s l)) e s
                 else set_head l e (set_prev e e (set_next e e s)));
        let s = set_list e l (add_no l 1 s);
        ASSERT (l_noElem (dlist s l) \<ge> 0);
        Some (0, s)
      })"

text \<open>\<open>e->prev->next=e->next; e->next->prev=e->prev;\<close>\<close>

definition dl_unlink :: "addr \<Rightarrow> 'a dl_store_scheme \<Rightarrow> 'a dl_store_scheme" where
  "dl_unlink e s =
     (let s = set_next (nd_prev (dnode s e)) (nd_next (dnode s e)) s
      in set_prev (nd_next (dnode s e)) (nd_prev (dnode s e)) s)"

text \<open>\<open>e->prev=e->next=0; e->list=0; l->noElem--; if (!l->noElem) l->head=0;\<close>\<close>

definition dl_release :: "addr \<Rightarrow> addr \<Rightarrow> 'a dl_store_scheme \<Rightarrow> 'a dl_store_scheme" where
  "dl_release l e s =
     (let s = add_no l (- 1) (set_list e NULL (set_prev e NULL (set_next e NULL s)))
      in if l_noElem (dlist s l) = 0 then set_head l NULL s else s)"

definition DynListRemoveHead :: "addr \<Rightarrow> 'a dl_store_scheme \<Rightarrow> (addr \<times> 'a dl_store_scheme) option"
where
  "DynListRemoveHead l s =
     (let e = l_head (dlist s l);
          s = (if e \<noteq> NULL
               then dl_release l e (dl_unlink e (set_head l (nd_next (dnode s e)) s))
               else s)
      in do { ASSERT (l_noElem (dlist s l) \<ge> 0); Some (e, s) })"

definition DynListRemoveTail :: "addr \<Rightarrow> 'a dl_store_scheme \<Rightarrow> (addr \<times> 'a dl_store_scheme) option"
where
  "DynListRemoveTail l s =
     (let h = l_head (dlist s l);
          e = (if h \<noteq> NULL then nd_prev (dnode s h) else NULL);
          s = (if h \<noteq> NULL then dl_release l e (dl_unlink e s) else s)
      in do { ASSERT (l_noElem (dlist s l) \<ge> 0); Some (e, s) })"

definition DynListRemoveElement ::
  "addr \<Rightarrow> addr \<Rightarrow> 'a dl_store_scheme \<Rightarrow> (s32 \<times> 'a dl_store_scheme) option" where
  "DynListRemoveElement l e s = do {
     ASSERT (nd_list (dnode s e) = l);
     ASSERT (nd_prev (dnode s e) \<noteq> NULL \<and> nd_next (dnode s e) \<noteq> NULL);
     let s = dl_unlink e s;
     let s = (if l_head (dlist s l) = e then set_head l (nd_next (dnode s e)) s else s);
     let s = dl_release l e s;
     ASSERT (l_noElem (dlist s l) \<ge> 0);
     Some (0, s)
   }"

text \<open>
  DYNLIST_FOR_EACH_ELEMENT: \<open>noElem\<close> rounds from the head along the next pointers, which are
  read after the body has run. The body is a state transformer that gets the node.
\<close>

fun dl_for_each :: "(addr \<Rightarrow> 'a dl_store_scheme \<Rightarrow> 'a dl_store_scheme) \<Rightarrow> nat \<Rightarrow> addr \<Rightarrow>
    'a dl_store_scheme \<Rightarrow> 'a dl_store_scheme" where
  "dl_for_each f 0 n s = s"
| "dl_for_each f (Suc k) n s = (let s = f n s in dl_for_each f k (nd_next (dnode s n)) s)"

definition DynListForEach :: "addr \<Rightarrow> (addr \<Rightarrow> 'a dl_store_scheme \<Rightarrow> 'a dl_store_scheme) \<Rightarrow>
    'a dl_store_scheme \<Rightarrow> 'a dl_store_scheme" where
  "DynListForEach l f s = dl_for_each f (nat (l_noElem (dlist s l))) (l_head (dlist s l)) s"

section \<open>Links and cycles\<close>

definition dl_lnk :: "'a dl_store_scheme \<Rightarrow> addr \<Rightarrow> addr \<Rightarrow> bool" where
  "dl_lnk s a b \<longleftrightarrow> nd_next (dnode s a) = b \<and> nd_prev (dnode s b) = a"

fun dl_path :: "'a dl_store_scheme \<Rightarrow> addr list \<Rightarrow> bool" where
  "dl_path s [] = True"
| "dl_path s [x] = True"
| "dl_path s (x # y # zs) = (dl_lnk s x y \<and> dl_path s (y # zs))"

definition dl_cyc :: "'a dl_store_scheme \<Rightarrow> addr list \<Rightarrow> bool" where
  "dl_cyc s xs \<longleftrightarrow> xs = [] \<or> dl_path s (xs @ [hd xs])"

lemma dl_path_append: "dl_path s (xs @ y # ys) \<longleftrightarrow> dl_path s (xs @ [y]) \<and> dl_path s (y # ys)"
proof (induction xs)
  case Nil
  then show ?case by simp
next
  case (Cons x xs)
  then show ?case by (cases xs) auto
qed

lemma dl_path_snoc: "xs \<noteq> [] \<Longrightarrow> dl_path s (xs @ [y]) \<longleftrightarrow> dl_path s xs \<and> dl_lnk s (last xs) y"
  by (induction s xs rule: dl_path.induct) auto

lemma dl_path_cong:
  "\<lbrakk>\<And>x. x \<in> set (butlast xs) \<Longrightarrow> nd_next (dnode s' x) = nd_next (dnode s x);
    \<And>x. x \<in> set (tl xs) \<Longrightarrow> nd_prev (dnode s' x) = nd_prev (dnode s x)\<rbrakk>
   \<Longrightarrow> dl_path s' xs = dl_path s xs"
proof (induction s xs rule: dl_path.induct)
  case (3 s x y zs)
  have "dl_lnk s' x y = dl_lnk s x y"
    using 3(2)[of x] 3(3)[of y] by (simp add: dl_lnk_def)
  moreover have "dl_path s' (y # zs) = dl_path s (y # zs)"
    using 3(1) 3(2) 3(3) by (metis butlast.simps(2) list.sel(3) list.set_intros(2) neq_Nil_conv)
  ultimately show ?case by simp
qed simp_all

lemma dl_cyc_cong:
  "\<lbrakk>\<And>x. x \<in> set xs \<Longrightarrow> nd_next (dnode s' x) = nd_next (dnode s x) \<and>
                       nd_prev (dnode s' x) = nd_prev (dnode s x)\<rbrakk>
   \<Longrightarrow> dl_cyc s' xs = dl_cyc s xs"
  unfolding dl_cyc_def
  by (cases xs) (auto intro!: dl_path_cong)

lemma dl_cyc_rotate:
  assumes "dl_cyc s (as @ bs)"
  shows "dl_cyc s (bs @ as)"
proof (cases "as = [] \<or> bs = []")
  case True
  with assms show ?thesis by auto
next
  case False
  then obtain a as' b bs' where ab: "as = a # as'" "bs = b # bs'"
    by (auto simp: neq_Nil_conv)
  have "dl_path s (as @ b # (bs' @ [a]))"
    using assms ab by (simp add: dl_cyc_def)
  then have "dl_path s (as @ [b])" "dl_path s (bs @ [a])"
    using dl_path_append [of s as b "bs' @ [a]"] ab by auto
  then have "dl_path s (bs @ a # (as' @ [b]))"
    using dl_path_append [of s bs a "as' @ [b]"] ab by simp
  then show ?thesis
    using ab by (simp add: dl_cyc_def)
qed

lemma dl_cyc_snoc_head: "xs \<noteq> [] \<Longrightarrow> dl_cyc s xs \<longleftrightarrow> dl_path s xs \<and> dl_lnk s (last xs) (hd xs)"
  by (simp add: dl_cyc_def dl_path_snoc)

lemma dl_cyc_prev_hd: "xs \<noteq> [] \<Longrightarrow> dl_cyc s xs \<Longrightarrow> nd_prev (dnode s (hd xs)) = last xs"
  by (simp add: dl_cyc_snoc_head dl_lnk_def)

lemma dl_cyc_next_hd: "dl_cyc s (x # y # zs) \<Longrightarrow> nd_next (dnode s x) = y"
  by (simp add: dl_cyc_def dl_lnk_def)

section \<open>The sequence a list represents\<close>

text \<open>
  \<open>dl_rep s l xs\<close>: the header \<open>l\<close> represents the nodes \<open>xs\<close>, head first. A node belongs to
  \<open>l\<close> exactly when its back pointer says so. \<open>dl_free\<close>: a node in no list.
\<close>

definition dl_rep :: "'a dl_store_scheme \<Rightarrow> addr \<Rightarrow> addr list \<Rightarrow> bool" where
  "dl_rep s l xs \<longleftrightarrow> l \<noteq> NULL \<and> distinct xs \<and> NULL \<notin> set xs \<and> dl_cyc s xs \<and>
     (\<forall>x. nd_list (dnode s x) = l \<longleftrightarrow> x \<in> set xs) \<and>
     l_head (dlist s l) = (if xs = [] then NULL else hd xs) \<and>
     l_noElem (dlist s l) = int (length xs)"

definition dl_free :: "'a dl_store_scheme \<Rightarrow> addr \<Rightarrow> bool" where
  "dl_free s e \<longleftrightarrow> e \<noteq> NULL \<and>
     dnode s e = \<lparr>nd_list = NULL, nd_prev = NULL, nd_next = NULL\<rparr>"

text \<open>What an operation on \<open>l\<close> with nodes \<open>A\<close> leaves alone.\<close>

definition dl_frame :: "addr \<Rightarrow> addr set \<Rightarrow> 'a dl_store_scheme \<Rightarrow> 'a dl_store_scheme \<Rightarrow> bool" where
  "dl_frame l A s s' \<longleftrightarrow> (\<forall>x. x \<notin> A \<longrightarrow> dnode s' x = dnode s x) \<and>
     (\<forall>m. m \<noteq> l \<longrightarrow> dlist s' m = dlist s m) \<and> dl_store.more s' = dl_store.more s"

lemma dl_rep_frame:
  assumes "dl_rep s m ys" "dl_frame l A s s'" "m \<noteq> l" "A \<inter> set ys = {}"
    and "\<And>x. x \<in> A \<Longrightarrow> nd_list (dnode s' x) \<noteq> m"
  shows "dl_rep s' m ys"
proof -
  have same: "dnode s' x = dnode s x" if "x \<in> set ys" for x
    using that assms(2,4) by (auto simp: dl_frame_def)
  then have "dl_cyc s' ys"
    using assms(1) dl_cyc_cong [of ys s' s] by (simp add: dl_rep_def)
  moreover have "nd_list (dnode s' x) = m \<longleftrightarrow> x \<in> set ys" for x
    using assms by (cases "x \<in> A") (auto simp: dl_rep_def dl_frame_def)
  ultimately show ?thesis
    using assms(1-3) by (simp add: dl_rep_def dl_frame_def)
qed

lemma dl_rep_unique: "dl_rep s l xs \<Longrightarrow> dl_rep s l ys \<Longrightarrow> set xs = set ys"
  by (auto simp: dl_rep_def)

section \<open>Linking and unlinking\<close>

lemma dl_link_before_fields:
  assumes "e \<noteq> h" "e \<noteq> nd_prev (dnode s h)"
  shows "nd_next (dnode (dl_link_before h e s) x) =
      (if x = nd_prev (dnode s h) then e else if x = e then h else nd_next (dnode s x))"
    and "nd_prev (dnode (dl_link_before h e s) x) =
      (if x = h then e else if x = e then nd_prev (dnode s h) else nd_prev (dnode s x))"
  using assms by (auto simp: dl_link_before_def dl_set_defs Let_def)

lemma dl_link_before_cyc:
  assumes cyc: "dl_cyc s xs" and ne: "xs \<noteq> []" and dist: "distinct (e # xs)"
  shows "dl_cyc (dl_link_before (hd xs) e s) (e # xs)"
proof -
  define h p s' where "h = hd xs" and "p = last xs" and "s' = dl_link_before h e s"
  have p: "nd_prev (dnode s h) = p" and path: "dl_path s xs"
    using cyc ne dl_cyc_prev_hd [of xs s] by (simp_all add: h_def p_def dl_cyc_snoc_head)
  have neq: "e \<noteq> h" "e \<noteq> p" "p \<notin> set (butlast xs)" "h \<notin> set (tl xs)" "e \<notin> set xs"
    using ne dist last_in_butlast_distinct [of xs] hd_notin_tl_distinct [of xs]
    by (auto simp: h_def p_def)
  note fld = dl_link_before_fields [of e h s, unfolded p, folded s'_def, OF neq(1,2)]
  have "dl_path s' xs = dl_path s xs"
    using neq by (intro dl_path_cong) (auto simp: fld dest: in_set_butlastD in_set_tlD)
  moreover have "dl_lnk s' e h" "dl_lnk s' p e"
    using neq by (auto simp: dl_lnk_def fld)
  moreover have "dl_path s' (e # xs) = (dl_lnk s' e h \<and> dl_path s' xs)"
    using ne by (cases xs) (auto simp: h_def)
  ultimately have "dl_path s' ((e # xs) @ [e])"
    using path ne by (subst dl_path_snoc) (auto simp: p_def)
  then show ?thesis by (simp add: dl_cyc_def s'_def h_def)
qed

lemma dl_link_before_frame:
  assumes "nd_prev (dnode s h) \<in> A" "h \<in> A" "e \<in> A"
  shows "x \<notin> A \<Longrightarrow> dnode (dl_link_before h e s) x = dnode s x"
    and "dlist (dl_link_before h e s) = dlist s"
    and "dl_store.more (dl_link_before h e s) = dl_store.more s"
    and "nd_list (dnode (dl_link_before h e s) y) = nd_list (dnode s y)"
  using assms by (auto simp: dl_link_before_def dl_set_defs Let_def)

lemma dl_unlink_fields:
  assumes "nd_prev (dnode s e) \<noteq> e"
  shows "nd_next (dnode (dl_unlink e s) x) =
      (if x = nd_prev (dnode s e) then nd_next (dnode s e) else nd_next (dnode s x))"
    and "nd_prev (dnode (dl_unlink e s) x) =
      (if x = nd_next (dnode s e) then nd_prev (dnode s e) else nd_prev (dnode s x))"
  using assms by (auto simp: dl_unlink_def dl_set_defs Let_def)

lemma dl_unlink_frame:
  "nd_list (dnode (dl_unlink e s) x) = nd_list (dnode s x)"
  "dlist (dl_unlink e s) = dlist s"
  "dl_store.more (dl_unlink e s) = dl_store.more s"
  by (auto simp: dl_unlink_def dl_set_defs Let_def)

lemma dl_unlink_other:
  assumes "dl_cyc s (e # ws)" "x \<notin> set (e # ws)"
  shows "dnode (dl_unlink e s) x = dnode s x"
proof -
  have "nd_prev (dnode s e) \<in> set (e # ws)"
    using dl_cyc_prev_hd [of "e # ws" s] assms(1) by auto
  moreover have "nd_next (dnode s e) \<in> set (e # ws)"
    using assms(1) by (cases ws) (auto simp: dl_cyc_def dl_lnk_def)
  ultimately show ?thesis
    using assms(2) by (auto simp: dl_unlink_def dl_set_defs Let_def)
qed

lemma dl_unlink_cyc:
  assumes "dl_cyc s (e # ws)" "distinct (e # ws)"
  shows "dl_cyc (dl_unlink e s) ws"
proof (cases "ws = []")
  case False
  then obtain h vs where ws: "ws = h # vs" by (cases ws) auto
  have p: "nd_prev (dnode s e) = last ws" and n: "nd_next (dnode s e) = h"
    using assms(1) dl_cyc_prev_hd [of "e # ws" s] dl_cyc_next_hd [of s e h vs] False ws by auto
  have path: "dl_path s ws"
    using assms(1) ws dl_path_append [of s "[e]" h "vs @ [e]"] dl_path_snoc [of ws s e]
    by (simp add: dl_cyc_def)
  have ne: "last ws \<noteq> e" "last ws \<notin> set (butlast ws)" "h \<notin> set (tl ws)"
    using assms(2) False ws last_in_butlast_distinct [of ws] by auto
  have pe: "nd_prev (dnode s e) \<noteq> e" using ne p by simp
  have "dl_path (dl_unlink e s) ws = dl_path s ws"
    using ne by (intro dl_path_cong) (auto simp: dl_unlink_fields [OF pe] p n)
  moreover have "dl_lnk (dl_unlink e s) (last ws) h"
    using ne by (auto simp: dl_lnk_def dl_unlink_fields [OF pe] p n)
  ultimately show ?thesis
    using False path ws by (simp add: dl_cyc_snoc_head)
qed (simp add: dl_cyc_def)

section \<open>The operations represent sequence operations\<close>

lemma dl_rep_cycD: "dl_rep s l xs \<Longrightarrow> dl_cyc s xs"
  unfolding dl_rep_def by blast

lemma dl_rep_mem: "dl_rep s l xs \<Longrightarrow> nd_list (dnode s x) = l \<longleftrightarrow> x \<in> set xs"
  unfolding dl_rep_def by blast

lemma dl_rep_dist: "dl_rep s l xs \<Longrightarrow> distinct xs"
  unfolding dl_rep_def by blast

lemma dl_rep_null: "dl_rep s l xs \<Longrightarrow> NULL \<notin> set xs" "dl_rep s l xs \<Longrightarrow> l \<noteq> NULL"
  unfolding dl_rep_def by blast+

lemma dl_rep_head: "dl_rep s l xs \<Longrightarrow> l_head (dlist s l) = (if xs = [] then NULL else hd xs)"
  unfolding dl_rep_def by blast

lemma dl_rep_no: "dl_rep s l xs \<Longrightarrow> l_noElem (dlist s l) = int (length xs)"
  unfolding dl_rep_def by blast

lemma dl_rep_hd_null: "dl_rep s l xs \<Longrightarrow> xs \<noteq> [] \<Longrightarrow> hd xs \<noteq> NULL"
  using dl_rep_null(1) [of s l xs] by (cases xs) auto

lemma dl_freeD: "dl_free s e \<Longrightarrow> e \<noteq> NULL" "dl_free s e \<Longrightarrow> nd_list (dnode s e) = NULL"
  "dl_free s e \<Longrightarrow> nd_prev (dnode s e) = NULL" "dl_free s e \<Longrightarrow> nd_next (dnode s e) = NULL"
  by (simp_all add: dl_free_def)

lemma dl_free_notin:
  assumes "dl_rep s l xs" "dl_free s e" shows "e \<notin> set xs"
  using dl_rep_mem [OF assms(1), of e] dl_freeD [OF assms(2)] dl_rep_null [OF assms(1)] by simp

text \<open>The last writes of an insertion: the element count and the back pointer.\<close>

lemma dl_insert_finish:
  assumes "dl_cyc s zs" "distinct zs" "NULL \<notin> set zs" "e \<in> set zs" "l \<noteq> NULL"
    and "\<And>x. nd_list (dnode s x) = l \<longleftrightarrow> x \<in> set zs - {e}"
    and "l_head (dlist s l) = hd zs" "l_noElem (dlist s l) + 1 = int (length zs)"
  shows "dl_rep (set_list e l (add_no l 1 s)) l zs"
proof -
  let ?s = "set_list e l (add_no l 1 s)"
  have "dl_cyc ?s zs"
    using assms(1) by (subst dl_cyc_cong [of zs ?s s]) (auto simp: dl_set_defs)
  moreover have "nd_list (dnode ?s x) = l \<longleftrightarrow> x \<in> set zs" for x
    using assms(4,6) by (auto simp: dl_set_defs)
  ultimately show ?thesis
    using assms by (auto simp: dl_rep_def dl_set_defs)
qed

text \<open>The last writes of a removal: the freed node, the count and the empty head.\<close>

lemma dl_release_finish:
  assumes "dl_cyc s ws" "distinct (e # ws)" "NULL \<notin> set (e # ws)" "l \<noteq> NULL"
    and "\<And>x. nd_list (dnode s x) = l \<longleftrightarrow> x \<in> set (e # ws)"
    and "ws \<noteq> [] \<Longrightarrow> l_head (dlist s l) = hd ws" "l_noElem (dlist s l) = int (length ws) + 1"
  shows "dl_rep (dl_release l e s) l ws" "dl_free (dl_release l e s) e"
proof -
  let ?s = "dl_release l e s"
  have fld: "dnode ?s x = (if x = e then \<lparr>nd_list = NULL, nd_prev = NULL, nd_next = NULL\<rparr> else dnode s x)"
    for x by (simp add: dl_release_def dl_set_defs Let_def)
  have "dl_cyc ?s ws"
    using assms(1,2) by (subst dl_cyc_cong [of ws ?s s]) (auto simp: fld)
  moreover have "nd_list (dnode ?s x) = l \<longleftrightarrow> x \<in> set ws" for x
    using assms(2,4,5) by (auto simp: fld)
  moreover have "l_head (dlist ?s l) = (if ws = [] then NULL else hd ws)"
    "l_noElem (dlist ?s l) = int (length ws)"
    using assms(6,7) by (auto simp: dl_release_def dl_set_defs Let_def)
  ultimately show "dl_rep ?s l ws"
    using assms(2-4) by (auto simp: dl_rep_def)
  show "dl_free ?s e"
    using assms(3) by (simp add: dl_free_def fld)
qed

lemma dl_release_frame:
  "x \<noteq> e \<Longrightarrow> dnode (dl_release l e s) x = dnode s x"
  "m \<noteq> l \<Longrightarrow> dlist (dl_release l e s) m = dlist s m"
  "dl_store.more (dl_release l e s) = dl_store.more s"
  by (auto simp: dl_release_def dl_set_defs Let_def)

lemma dl_release_noElem: "l_noElem (dlist (dl_release l e s) l) = l_noElem (dlist s l) - 1"
  by (auto simp: dl_release_def dl_set_defs Let_def)

lemma DynListInit_rep:
  assumes "l \<noteq> NULL" "\<And>x. nd_list (dnode s x) \<noteq> l"
  shows "dl_rep (DynListInit l s) l []"
  using assms by (simp add: dl_rep_def DynListInit_def dl_cyc_def)

lemma DynListInsert_link:
  assumes "dl_rep s l xs" "dl_free s e" "xs \<noteq> []"
  defines "s1 \<equiv> dl_link_before (hd xs) e s"
  shows "dl_cyc s1 (e # xs)" "distinct (e # xs)" "NULL \<notin> set (e # xs)" "l \<noteq> NULL"
    and "nd_list (dnode s1 x) = l \<longleftrightarrow> x \<in> set (e # xs) - {e}"
    and "l_head (dlist s1 l) = hd xs" "l_noElem (dlist s1 l) = int (length xs)"
    and "x \<notin> insert e (set xs) \<Longrightarrow> dnode s1 x = dnode s x"
    and "dlist s1 = dlist s" "dl_store.more s1 = dl_store.more s"
proof -
  have e: "e \<notin> set xs" "e \<noteq> NULL" "distinct (e # xs)"
    using dl_free_notin [OF assms(1,2)] dl_freeD [OF assms(2)] dl_rep_dist [OF assms(1)] by auto
  have "nd_prev (dnode s (hd xs)) = last xs"
    using assms(3) dl_rep_cycD [OF assms(1)] by (rule dl_cyc_prev_hd)
  then have A: "nd_prev (dnode s (hd xs)) \<in> insert e (set xs)" "hd xs \<in> insert e (set xs)"
    "e \<in> insert e (set xs)"
    using assms(3) by auto
  note fr = dl_link_before_frame [OF A]
  show "dl_cyc s1 (e # xs)"
    unfolding s1_def using dl_rep_cycD [OF assms(1)] assms(3) e(3) by (rule dl_link_before_cyc)
  show "distinct (e # xs)" "NULL \<notin> set (e # xs)" "l \<noteq> NULL"
    using e dl_rep_null [OF assms(1)] by auto
  show "nd_list (dnode s1 x) = l \<longleftrightarrow> x \<in> set (e # xs) - {e}"
    using dl_rep_mem [OF assms(1)] e(1) by (auto simp: s1_def fr)
  show "l_head (dlist s1 l) = hd xs" "l_noElem (dlist s1 l) = int (length xs)"
    using assms(3) by (simp_all add: s1_def fr dl_rep_head [OF assms(1)] dl_rep_no [OF assms(1)])
  show "dnode s1 x = dnode s x" if "x \<notin> insert e (set xs)"
    using fr(1) [OF that] by (simp add: s1_def)
  show "dlist s1 = dlist s" "dl_store.more s1 = dl_store.more s"
    by (simp_all add: s1_def fr)
qed

lemma DynListInsert_single:
  assumes "dl_rep s l []" "dl_free s e"
  shows "dl_rep (set_list e l (add_no l 1 (set_head l e (set_prev e e (set_next e e s))))) l [e]"
  using dl_rep_mem [OF assms(1)] dl_rep_no [OF assms(1)] dl_rep_null [OF assms(1)] dl_freeD [OF assms(2)]
  by (intro dl_insert_finish) (auto simp: dl_cyc_def dl_lnk_def dl_set_defs)

lemma DynListInsertHead_rep:
  assumes rep: "dl_rep s l xs" and free: "dl_free s e"
  shows "\<exists>s'. DynListInsertHead l e s = Some (0, s') \<and> dl_rep s' l (e # xs) \<and>
           dl_frame l (insert e (set xs)) s s'"
proof (cases "xs = []")
  case True
  let ?s = "set_list e l (add_no l 1 (set_head l e (set_prev e e (set_next e e s))))"
  have "DynListInsertHead l e s = Some (0, ?s)"
    using True dl_rep_head [OF rep] dl_rep_no [OF rep] dl_freeD [OF free]
    by (simp add: DynListInsertHead_def dl_set_defs Let_def)
  moreover have "dl_frame l (insert e (set xs)) s ?s"
    by (simp add: dl_frame_def dl_set_defs)
  ultimately show ?thesis
    using DynListInsert_single [of s l e] rep free True by blast
next
  case False
  note L = DynListInsert_link [OF rep free False]
  let ?s1 = "dl_link_before (hd xs) e s"
  let ?s = "set_list e l (add_no l 1 (set_head l e ?s1))"
  have "dl_rep ?s l (e # xs)"
  proof (rule dl_insert_finish)
    show "dl_cyc (set_head l e ?s1) (e # xs)"
      using L(1) by (subst dl_cyc_cong [of _ _ ?s1]) (auto simp: dl_set_defs)
    show "\<And>x. nd_list (dnode (set_head l e ?s1) x) = l \<longleftrightarrow> x \<in> set (e # xs) - {e}"
      using L(5) by (simp add: set_head_def)
  qed (use L in \<open>auto simp: set_head_def\<close>)
  moreover have "DynListInsertHead l e s = Some (0, ?s)"
    using False L(7) dl_rep_hd_null [OF rep False] dl_rep_head [OF rep] dl_rep_no [OF rep] dl_freeD [OF free]
    by (simp add: DynListInsertHead_def dl_set_defs Let_def)
  moreover have "dl_frame l (insert e (set xs)) s ?s"
    using L(8-10) by (auto simp: dl_frame_def dl_set_defs)
  ultimately show ?thesis by blast
qed

lemma DynListInsertTail_rep:
  assumes rep: "dl_rep s l xs" and free: "dl_free s e"
  shows "\<exists>s'. DynListInsertTail l e s = Some (0, s') \<and> dl_rep s' l (xs @ [e]) \<and>
           dl_frame l (insert e (set xs)) s s'"
proof (cases "xs = []")
  case True
  let ?s = "set_list e l (add_no l 1 (set_head l e (set_prev e e (set_next e e s))))"
  have "DynListInsertTail l e s = Some (0, ?s)"
    using True dl_rep_head [OF rep] dl_rep_no [OF rep] dl_freeD [OF free]
    by (simp add: DynListInsertTail_def dl_set_defs Let_def)
  moreover have "dl_frame l (insert e (set xs)) s ?s"
    by (simp add: dl_frame_def dl_set_defs)
  ultimately show ?thesis
    using DynListInsert_single [of s l e] rep free True by auto
next
  case False
  note L = DynListInsert_link [OF rep free False]
  let ?s1 = "dl_link_before (hd xs) e s"
  let ?s = "set_list e l (add_no l 1 ?s1)"
  have "dl_rep ?s l (xs @ [e])"
  proof (rule dl_insert_finish)
    show "dl_cyc ?s1 (xs @ [e])"
      using dl_cyc_rotate [of ?s1 "[e]" xs] L(1) by simp
  qed (use L False in auto)
  moreover have "DynListInsertTail l e s = Some (0, ?s)"
    using False L(7) dl_rep_hd_null [OF rep False] dl_rep_head [OF rep] dl_rep_no [OF rep] dl_freeD [OF free]
    by (simp add: DynListInsertTail_def dl_set_defs Let_def)
  moreover have "dl_frame l (insert e (set xs)) s ?s"
    using L(8-10) by (auto simp: dl_frame_def dl_set_defs)
  ultimately show ?thesis by blast
qed

text \<open>
  All removals go through this lemma: \<open>e\<close> is rotated to the front of the cycle, unlinked and
  released; the head has moved to the first remaining node.
\<close>

lemma dl_remove_core:
  assumes rep: "dl_rep s l (as @ e # bs)"
    and hd: "as @ bs \<noteq> [] \<Longrightarrow> l_head (dlist t l) = hd (as @ bs)"
    and t: "dnode t = dnode (dl_unlink e s)" "l_noElem (dlist t l) = l_noElem (dlist s l)"
      "\<And>m. m \<noteq> l \<Longrightarrow> dlist t m = dlist s m" "dl_store.more t = dl_store.more s"
  shows "dl_rep (dl_release l e t) l (as @ bs)" "dl_free (dl_release l e t) e"
    and "dl_frame l (set (as @ e # bs)) s (dl_release l e t)"
proof -
  have cyc: "dl_cyc s (e # bs @ as)"
    using dl_cyc_rotate [of s as "e # bs"] dl_rep_cycD [OF rep] by simp
  have dist: "distinct (e # bs @ as)"
    using dl_rep_dist [OF rep] by auto
  have "dl_cyc (dl_unlink e s) (as @ bs)"
    using dl_cyc_rotate [of "dl_unlink e s" bs as] dl_unlink_cyc [OF cyc dist] by simp
  then have c: "dl_cyc t (as @ bs)"
    using dl_cyc_cong [of "as @ bs" t "dl_unlink e s"] t(1) by simp
  have m: "nd_list (dnode t x) = l \<longleftrightarrow> x \<in> set (e # as @ bs)" for x
    using dl_rep_mem [OF rep, of x] by (auto simp: t(1) dl_unlink_frame)
  note fin = dl_release_finish [of t "as @ bs" e l, OF c _ _ dl_rep_null(2) [OF rep] m hd]
  have n: "l_noElem (dlist t l) = int (length (as @ bs)) + 1"
    using dl_rep_no [OF rep] t(2) by simp
  show "dl_rep (dl_release l e t) l (as @ bs)" "dl_free (dl_release l e t) e"
    using fin dist dl_rep_null(1) [OF rep] n by auto
  have "dnode (dl_release l e t) x = dnode s x" if "x \<notin> set (as @ e # bs)" for x
    using that dl_unlink_other [OF cyc, of x] by (auto simp: dl_release_frame t(1))
  then show "dl_frame l (set (as @ e # bs)) s (dl_release l e t)"
    using t(3,4) by (simp add: dl_frame_def dl_release_frame)
qed

lemma dl_rep_next:
  assumes "dl_rep s l (as @ e # bs)"
  shows "nd_next (dnode s e) = hd (bs @ as @ [e])" "nd_prev (dnode s e) = last (e # bs @ as)"
proof -
  have cyc: "dl_cyc s (e # bs @ as)"
    using dl_cyc_rotate [of s as "e # bs"] dl_rep_cycD [OF assms] by simp
  show "nd_prev (dnode s e) = last (e # bs @ as)"
    using dl_cyc_prev_hd [OF _ cyc] by simp
  show "nd_next (dnode s e) = hd (bs @ as @ [e])"
    using cyc by (cases "bs @ as") (auto simp: dl_cyc_def dl_lnk_def append_eq_Cons_conv)
qed

lemma dl_rep_linked:
  assumes "dl_rep s l (as @ e # bs)"
  shows "nd_next (dnode s e) \<in> set (as @ e # bs)" "nd_prev (dnode s e) \<in> set (as @ e # bs)"
proof -
  have "hd (bs @ as @ [e]) \<in> set (bs @ as @ [e])" "last (e # bs @ as) \<in> set (e # bs @ as)"
    by (rule hd_in_set, simp, rule last_in_set, simp)
  then show "nd_next (dnode s e) \<in> set (as @ e # bs)" "nd_prev (dnode s e) \<in> set (as @ e # bs)"
    unfolding dl_rep_next [OF assms] by auto
qed

lemma DynListRemoveHead_rep:
  assumes rep: "dl_rep s l (e # xs)"
  shows "\<exists>s'. DynListRemoveHead l s = Some (e, s') \<and> dl_rep s' l xs \<and> dl_free s' e \<and>
           dl_frame l (set (e # xs)) s s'"
proof -
  let ?h = "set_head l (nd_next (dnode s e)) s"
  let ?t = "dl_unlink e ?h"
  have un: "dnode (dl_unlink e ?h) = dnode (dl_unlink e s)"
    by (rule ext) (simp add: dl_unlink_def dl_set_defs Let_def)
  have nx: "nd_next (dnode s e) = hd (xs @ [e])"
    using dl_rep_next(1) [of s l "[]" e xs] rep by simp
  have "l_head (dlist ?t l) = hd xs" if "xs \<noteq> []"
    using nx that by (simp add: dl_unlink_frame set_head_def)
  then have "dl_rep (dl_release l e ?t) l xs" "dl_free (dl_release l e ?t) e"
    "dl_frame l (set (e # xs)) s (dl_release l e ?t)"
    using dl_remove_core [of s l "[]" e xs ?t] rep un
    by (simp_all add: dl_unlink_frame set_head_def)
  moreover have "l_noElem (dlist (dl_release l e ?t) l) \<ge> 0"
    using dl_rep_no [OF rep] by (simp add: dl_release_noElem dl_unlink_frame set_head_def)
  moreover have "l_head (dlist s l) = e" "e \<noteq> NULL"
    using dl_rep_head [OF rep] dl_rep_null(1) [OF rep] by auto
  ultimately show ?thesis
    by (simp add: DynListRemoveHead_def Let_def)
qed

lemma DynListRemoveHead_empty:
  "dl_rep s l [] \<Longrightarrow> DynListRemoveHead l s = Some (NULL, s)"
  using dl_rep_head [of s l "[]"] dl_rep_no [of s l "[]"] by (simp add: DynListRemoveHead_def Let_def)

lemma DynListRemoveTail_rep:
  assumes rep: "dl_rep s l (xs @ [e])"
  shows "\<exists>s'. DynListRemoveTail l s = Some (e, s') \<and> dl_rep s' l xs \<and> dl_free s' e \<and>
           dl_frame l (set (xs @ [e])) s s'"
proof -
  let ?t = "dl_unlink e s"
  have hd: "l_head (dlist s l) = hd (xs @ [e])" "hd (xs @ [e]) \<noteq> NULL"
    using dl_rep_head [OF rep] dl_rep_hd_null [OF rep] by auto
  have pv: "nd_prev (dnode s (hd (xs @ [e]))) = e"
    using dl_cyc_prev_hd [OF _ dl_rep_cycD [OF rep]] by simp
  have "l_head (dlist ?t l) = hd xs" if "xs \<noteq> []"
    using hd(1) that by (simp add: dl_unlink_frame hd_append)
  then have "dl_rep (dl_release l e ?t) l xs" "dl_free (dl_release l e ?t) e"
    "dl_frame l (set (xs @ [e])) s (dl_release l e ?t)"
    using dl_remove_core [of s l xs e "[]" ?t] rep by (simp_all add: dl_unlink_frame)
  moreover have "l_noElem (dlist (dl_release l e ?t) l) \<ge> 0"
    using dl_rep_no [OF rep] by (simp add: dl_release_noElem dl_unlink_frame)
  ultimately show ?thesis
    using hd pv by (simp add: DynListRemoveTail_def Let_def)
qed

lemma DynListRemoveTail_empty:
  "dl_rep s l [] \<Longrightarrow> DynListRemoveTail l s = Some (NULL, s)"
  using dl_rep_head [of s l "[]"] dl_rep_no [of s l "[]"] by (simp add: DynListRemoveTail_def Let_def)

lemma DynListRemoveElement_rep:
  assumes rep: "dl_rep s l (as @ e # bs)"
  shows "\<exists>s'. DynListRemoveElement l e s = Some (0, s') \<and> dl_rep s' l (as @ bs) \<and> dl_free s' e \<and>
           dl_frame l (set (as @ e # bs)) s s'"
proof -
  let ?u = "dl_unlink e s"
  let ?t = "if l_head (dlist ?u l) = e then set_head l (nd_next (dnode ?u e)) ?u else ?u"
  have nn: "nd_prev (dnode s e) \<noteq> NULL" "nd_next (dnode s e) \<noteq> NULL" "nd_list (dnode s e) = l"
    using dl_rep_linked [OF rep] dl_rep_null(1) [OF rep] dl_rep_mem [OF rep, of e]
    by (metis, metis, simp)
  have un: "nd_next (dnode ?u e) = nd_next (dnode s e)" if "as @ bs \<noteq> []"
  proof -
    have "last (bs @ as) \<in> set (bs @ as)" using that by (intro last_in_set) auto
    then have "nd_prev (dnode s e) \<noteq> e"
      using dl_rep_next(2) [OF rep] dl_rep_dist [OF rep] that by auto
    then show ?thesis by (subst dl_unlink_fields(1)) auto
  qed
  have hd: "l_head (dlist ?t l) = hd (as @ bs)" if "as @ bs \<noteq> []"
    using dl_rep_head [OF rep] un [OF that] dl_rep_next(1) [OF rep] dl_rep_dist [OF rep] that
    by (cases as) (auto simp: dl_unlink_frame set_head_def hd_append)
  have "dl_rep (dl_release l e ?t) l (as @ bs)" "dl_free (dl_release l e ?t) e"
    "dl_frame l (set (as @ e # bs)) s (dl_release l e ?t)"
    using dl_remove_core [of s l as e bs ?t, OF rep hd]
    by (simp_all add: dl_unlink_frame set_head_def)
  moreover have "l_noElem (dlist (dl_release l e ?t) l) \<ge> 0"
    using dl_rep_no [OF rep] by (simp add: dl_release_noElem dl_unlink_frame set_head_def)
  ultimately show ?thesis
    using nn by (simp add: DynListRemoveElement_def Let_def)
qed

section \<open>Traversal\<close>

lemma dl_path_next_only: "dnode s' = dnode s \<Longrightarrow> dl_path s' xs = dl_path s xs"
  by (rule dl_path_cong) simp_all

lemma dl_for_each_fold:
  "\<lbrakk>\<And>x s. dnode (f x s) = dnode s; dl_path s (x # xs)\<rbrakk>
   \<Longrightarrow> dl_for_each f (length (x # xs)) x s = fold f (x # xs) s"
proof (induction xs arbitrary: x s)
  case (Cons y ys)
  have nx: "nd_next (dnode s x) = y" and path: "dl_path (f x s) (y # ys)"
    using Cons.prems dl_path_next_only [of "f x s" s "y # ys"] by (simp_all add: dl_lnk_def)
  show ?case
    using Cons.IH [OF Cons.prems(1) path] nx Cons.prems(1) by simp
qed simp

lemma DynListForEach_fold:
  assumes "dl_rep s l xs" "\<And>x s. dnode (f x s) = dnode s"
  shows "DynListForEach l f s = fold f xs s"
proof (cases xs)
  case Nil
  then show ?thesis using dl_rep_no [OF assms(1)] by (simp add: DynListForEach_def)
next
  case (Cons y ys)
  then have "dl_path s (y # ys)"
    using dl_rep_cycD [OF assms(1)] by (simp add: dl_cyc_snoc_head)
  from dl_for_each_fold [OF assms(2) this] show ?thesis
    using dl_rep_no [OF assms(1)] dl_rep_head [OF assms(1)] Cons
    by (simp add: DynListForEach_def nat_add_distrib)
qed

section \<open>The contract: a store of double-ended queues\<close>

text \<open>
  The state represents a finite map of sequences; a node is free or in one sequence. This is
  all the clients (kernel timers, message pools) know of the lists.
\<close>

locale deque =
  fixes inv :: "'s \<Rightarrow> ('l \<Rightarrow> 'e list option) \<Rightarrow> bool"
    and free :: "'s \<Rightarrow> 'e \<Rightarrow> bool"
    and ins_head :: "'l \<Rightarrow> 'e \<Rightarrow> 's \<Rightarrow> (s32 \<times> 's) option"
    and ins_tail :: "'l \<Rightarrow> 'e \<Rightarrow> 's \<Rightarrow> (s32 \<times> 's) option"
    and rem_head :: "'l \<Rightarrow> 's \<Rightarrow> ('e \<times> 's) option"
    and rem_tail :: "'l \<Rightarrow> 's \<Rightarrow> ('e \<times> 's) option"
    and rem_elem :: "'l \<Rightarrow> 'e \<Rightarrow> 's \<Rightarrow> (s32 \<times> 's) option"
    and nil :: 'e
  assumes ins_head: "\<lbrakk>inv s f; f l = Some xs; free s e\<rbrakk> \<Longrightarrow>
      \<exists>s'. ins_head l e s = Some (0, s') \<and> inv s' (f(l \<mapsto> e # xs)) \<and>
        (\<forall>x. free s' x \<longleftrightarrow> free s x \<and> x \<noteq> e)"
    and ins_tail: "\<lbrakk>inv s f; f l = Some xs; free s e\<rbrakk> \<Longrightarrow>
      \<exists>s'. ins_tail l e s = Some (0, s') \<and> inv s' (f(l \<mapsto> xs @ [e])) \<and>
        (\<forall>x. free s' x \<longleftrightarrow> free s x \<and> x \<noteq> e)"
    and rem_head: "\<lbrakk>inv s f; f l = Some (e # xs)\<rbrakk> \<Longrightarrow>
      \<exists>s'. rem_head l s = Some (e, s') \<and> inv s' (f(l \<mapsto> xs)) \<and>
        (\<forall>x. free s' x \<longleftrightarrow> free s x \<or> x = e)"
    and rem_tail: "\<lbrakk>inv s f; f l = Some (xs @ [e])\<rbrakk> \<Longrightarrow>
      \<exists>s'. rem_tail l s = Some (e, s') \<and> inv s' (f(l \<mapsto> xs)) \<and>
        (\<forall>x. free s' x \<longleftrightarrow> free s x \<or> x = e)"
    and rem_elem: "\<lbrakk>inv s f; f l = Some (as @ e # bs)\<rbrakk> \<Longrightarrow>
      \<exists>s'. rem_elem l e s = Some (0, s') \<and> inv s' (f(l \<mapsto> as @ bs)) \<and>
        (\<forall>x. free s' x \<longleftrightarrow> free s x \<or> x = e)"
    and rem_empty: "\<lbrakk>inv s f; f l = Some []\<rbrakk> \<Longrightarrow>
      rem_head l s = Some (nil, s) \<and> rem_tail l s = Some (nil, s)"

text \<open>Client programs over any such operations: enqueue a list, dequeue a number of nodes.\<close>

fun enq_all :: "('l \<Rightarrow> 'e \<Rightarrow> 's \<Rightarrow> (s32 \<times> 's) option) \<Rightarrow> 'l \<Rightarrow> 'e list \<Rightarrow> 's \<Rightarrow> 's option" where
  "enq_all ins l [] s = Some s"
| "enq_all ins l (e # es) s = do { (_, s) \<leftarrow> ins l e s; enq_all ins l es s }"

fun deq_n :: "('l \<Rightarrow> 's \<Rightarrow> ('e \<times> 's) option) \<Rightarrow> 'l \<Rightarrow> nat \<Rightarrow> 's \<Rightarrow> ('e list \<times> 's) option" where
  "deq_n rem l 0 s = Some ([], s)"
| "deq_n rem l (Suc n) s = do { (e, s) \<leftarrow> rem l s; (es, s) \<leftarrow> deq_n rem l n s; Some (e # es, s) }"

context deque begin

lemma move_tail_head:
  assumes "inv s f" "f a = Some (xs @ [e])" "f b = Some ys" "a \<noteq> b"
  shows "\<exists>s1 s2. rem_tail a s = Some (e, s1) \<and> ins_head b e s1 = Some (0, s2) \<and>
    inv s2 (f(a \<mapsto> xs, b \<mapsto> e # ys)) \<and> (\<forall>x. x \<noteq> e \<longrightarrow> free s2 x = free s x)"
proof -
  obtain s1 where s1: "rem_tail a s = Some (e, s1)" "inv s1 (f(a \<mapsto> xs))"
    "\<forall>x. free s1 x \<longleftrightarrow> free s x \<or> x = e"
    using rem_tail [OF assms(1,2)] by blast
  moreover have "(f(a \<mapsto> xs)) b = Some ys" using assms(3,4) by simp
  ultimately show ?thesis
    using ins_head [of s1 "f(a \<mapsto> xs)" b ys e] by auto
qed

lemma enq_all_inv:
  assumes "inv s f" "f l = Some xs" "\<forall>e \<in> set es. free s e" "distinct es"
  shows "\<exists>s'. enq_all ins_head l es s = Some s' \<and> inv s' (f(l \<mapsto> rev es @ xs))"
  using assms
proof (induction es arbitrary: s f xs)
  case Nil
  then show ?case by (simp add: map_upd_triv)
next
  case (Cons e es)
  obtain s1 where s1: "ins_head l e s = Some (0, s1)" "inv s1 (f(l \<mapsto> e # xs))"
    "\<forall>x. free s1 x \<longleftrightarrow> free s x \<and> x \<noteq> e"
    using ins_head [OF Cons.prems(1,2)] Cons.prems(3) by force
  have "\<forall>x \<in> set es. free s1 x"
    using s1(3) Cons.prems(3,4) by auto
  then have "\<exists>s'. enq_all ins_head l es s1 = Some s' \<and> inv s' ((f(l \<mapsto> e # xs))(l \<mapsto> rev es @ e # xs))"
    using Cons.prems(4) by (intro Cons.IH s1(2)) simp_all
  then show ?case using s1(1) by (simp only: fun_upd_upd) (auto simp: fun_upd_def)
qed

lemma deq_n_inv:
  assumes "inv s f" "f l = Some (xs @ rev es)"
  shows "\<exists>s'. deq_n rem_tail l (length es) s = Some (es, s') \<and> inv s' (f(l \<mapsto> xs))"
  using assms
proof (induction es arbitrary: s f)
  case Nil
  then show ?case by (simp add: map_upd_triv)
next
  case (Cons e es)
  obtain s1 where s1: "rem_tail l s = Some (e, s1)" "inv s1 (f(l \<mapsto> xs @ rev es))"
    using rem_tail [OF Cons.prems(1), of l "xs @ rev es" e] Cons.prems(2) by auto
  then have "\<exists>s'. deq_n rem_tail l (length es) s1 = Some (es, s') \<and>
      inv s' ((f(l \<mapsto> xs @ rev es))(l \<mapsto> xs))"
    by (intro Cons.IH s1(2)) simp
  then show ?case using s1(1) by (simp only: fun_upd_upd) (auto simp: fun_upd_def)
qed

text \<open>Insertion at the head and removal at the tail is a first-in first-out queue.\<close>

lemma fifo:
  assumes "inv s f" "f l = Some []" "\<forall>e \<in> set es. free s e" "distinct es"
  shows "\<exists>s' s''. enq_all ins_head l es s = Some s' \<and>
    deq_n rem_tail l (length es) s' = Some (es, s'')"
proof -
  obtain s' where s': "enq_all ins_head l es s = Some s'" "inv s' (f(l \<mapsto> rev es @ []))"
    using enq_all_inv [OF assms] by blast
  then show ?thesis
    using deq_n_inv [of s' "f(l \<mapsto> rev es @ [])" l "[]" es] by auto
qed

end

section \<open>The store of list.h provides the contract\<close>

definition dl_inv :: "'a dl_store_scheme \<Rightarrow> (addr \<Rightarrow> addr list option) \<Rightarrow> bool" where
  "dl_inv s f \<longleftrightarrow> (\<forall>l xs. f l = Some xs \<longrightarrow> dl_rep s l xs)"

lemma dl_inv_update:
  assumes inv: "dl_inv s f" and l: "f l = Some xs" and rep: "dl_rep s' l ys"
    and fr: "dl_frame l A s s'" and A: "A = insert e (set xs)" "A = insert e (set ys)"
    and e: "e \<in> set xs \<or> dl_free s e" "e \<in> set ys \<or> dl_free s' e"
  shows "dl_inv s' (f(l \<mapsto> ys))"
    and "dl_free s' x \<longleftrightarrow> (if x = e then dl_free s' e else dl_free s x)"
proof -
  have repx: "dl_rep s l xs" using inv l by (simp add: dl_inv_def)
  have nl: "l \<noteq> NULL" using dl_rep_null(2) [OF repx] .
  have inA: "nd_list (dnode s' x) \<in> {l, NULL}" "nd_list (dnode s x) \<in> {l, NULL}" if "x \<in> A" for x
  proof -
    have "x \<in> set xs \<or> x = e" "x \<in> set ys \<or> x = e" using that A by blast+
    then show "nd_list (dnode s' x) \<in> {l, NULL}" "nd_list (dnode s x) \<in> {l, NULL}"
      using e by (metis insertCI dl_rep_mem [OF rep] dl_freeD(2),
        metis insertCI dl_rep_mem [OF repx] dl_freeD(2))
  qed
  have "dl_rep s' m zs" if m: "f m = Some zs" "m \<noteq> l" for m zs
  proof -
    have repz: "dl_rep s m zs" using inv m by (simp add: dl_inv_def)
    have nm: "m \<noteq> NULL" using dl_rep_null(2) [OF repz] .
    show ?thesis
      using inA m(2) nm dl_rep_mem [OF repz]
      by (intro dl_rep_frame [OF repz fr m(2)]) fastforce+
  qed
  then show "dl_inv s' (f(l \<mapsto> ys))"
    using rep by (simp add: dl_inv_def)
  show "dl_free s' x \<longleftrightarrow> (if x = e then dl_free s' e else dl_free s x)"
  proof (cases "x \<in> A \<and> x \<noteq> e")
    case True
    then have "x \<in> set xs" "x \<in> set ys" using A by auto
    then show ?thesis
      using True nl dl_rep_mem [OF rep] dl_rep_mem [OF repx] dl_freeD(2) by metis
  next
    case False
    then show ?thesis using fr by (auto simp: dl_frame_def dl_free_def)
  qed
qed

lemma dl_inv_rep: "dl_inv s f \<Longrightarrow> f l = Some xs \<Longrightarrow> dl_rep s l xs"
  by (simp add: dl_inv_def)

lemma dl_inv_ins_head:
  assumes "dl_inv s f" "f l = Some xs" "dl_free s e"
  shows "\<exists>s'. DynListInsertHead l e s = Some (0, s') \<and> dl_inv s' (f(l \<mapsto> e # xs)) \<and>
    (\<forall>x. dl_free s' x \<longleftrightarrow> dl_free s x \<and> x \<noteq> e) \<and> dl_store.more s' = dl_store.more s"
proof -
  obtain s' where s': "DynListInsertHead l e s = Some (0, s')" "dl_rep s' l (e # xs)"
    "dl_frame l (insert e (set xs)) s s'"
    using DynListInsertHead_rep [OF dl_inv_rep [OF assms(1,2)] assms(3)] by blast
  have nf: "\<not> dl_free s' e" using dl_free_notin [OF s'(2), of e] by auto
  have A: "insert e (set xs) = insert e (set (e # xs))" and e: "e \<in> set (e # xs) \<or> dl_free s' e"
    by auto
  note u = dl_inv_update [OF assms(1,2) s'(2,3) refl A disjI2 [OF assms(3)] e]
  have "dl_free s' x \<longleftrightarrow> dl_free s x \<and> x \<noteq> e" for x
    using u(2) [of x] nf by (cases "x = e") auto
  moreover have "dl_store.more s' = dl_store.more s" using s'(3) by (simp add: dl_frame_def)
  ultimately show ?thesis using s'(1) u(1) by (intro exI [of _ s'] conjI allI)
qed

lemma dl_inv_ins_tail:
  assumes "dl_inv s f" "f l = Some xs" "dl_free s e"
  shows "\<exists>s'. DynListInsertTail l e s = Some (0, s') \<and> dl_inv s' (f(l \<mapsto> xs @ [e])) \<and>
    (\<forall>x. dl_free s' x \<longleftrightarrow> dl_free s x \<and> x \<noteq> e) \<and> dl_store.more s' = dl_store.more s"
proof -
  obtain s' where s': "DynListInsertTail l e s = Some (0, s')" "dl_rep s' l (xs @ [e])"
    "dl_frame l (insert e (set xs)) s s'"
    using DynListInsertTail_rep [OF dl_inv_rep [OF assms(1,2)] assms(3)] by blast
  have nf: "\<not> dl_free s' e" using dl_free_notin [OF s'(2), of e] by auto
  have A: "insert e (set xs) = insert e (set (xs @ [e]))" and e: "e \<in> set (xs @ [e]) \<or> dl_free s' e"
    by auto
  note u = dl_inv_update [OF assms(1,2) s'(2,3) refl A disjI2 [OF assms(3)] e]
  have "dl_free s' x \<longleftrightarrow> dl_free s x \<and> x \<noteq> e" for x
    using u(2) [of x] nf by (cases "x = e") auto
  moreover have "dl_store.more s' = dl_store.more s" using s'(3) by (simp add: dl_frame_def)
  ultimately show ?thesis using s'(1) u(1) by (intro exI [of _ s'] conjI allI)
qed

lemma dl_inv_removed:
  assumes "dl_inv s f" "f l = Some (as @ e # bs)" "dl_rep s' l (as @ bs)" "dl_free s' e"
    and "dl_frame l (set (as @ e # bs)) s s'"
  shows "dl_inv s' (f(l \<mapsto> as @ bs))" "dl_free s' x \<longleftrightarrow> dl_free s x \<or> x = e"
    and "dl_store.more s' = dl_store.more s"
proof -
  have A: "set (as @ e # bs) = insert e (set (as @ e # bs))"
    "set (as @ e # bs) = insert e (set (as @ bs))" by auto
  have e: "e \<in> set (as @ e # bs) \<or> dl_free s e" by simp
  note u = dl_inv_update [OF assms(1,2,3,5) A e disjI2 [OF assms(4)]]
  show "dl_inv s' (f(l \<mapsto> as @ bs))" by (rule u(1))
  show "dl_free s' x \<longleftrightarrow> dl_free s x \<or> x = e"
    using u(2) [of x] assms(4) by (cases "x = e") auto
  show "dl_store.more s' = dl_store.more s" using assms(5) by (simp add: dl_frame_def)
qed

lemma dl_inv_rem_head:
  assumes "dl_inv s f" "f l = Some (e # xs)"
  shows "\<exists>s'. DynListRemoveHead l s = Some (e, s') \<and> dl_inv s' (f(l \<mapsto> xs)) \<and>
    (\<forall>x. dl_free s' x \<longleftrightarrow> dl_free s x \<or> x = e) \<and> dl_store.more s' = dl_store.more s"
  using DynListRemoveHead_rep [OF dl_inv_rep [OF assms]] dl_inv_removed [of s f l "[]" e xs] assms
  by (metis append_Nil)

lemma dl_inv_rem_tail:
  assumes "dl_inv s f" "f l = Some (xs @ [e])"
  shows "\<exists>s'. DynListRemoveTail l s = Some (e, s') \<and> dl_inv s' (f(l \<mapsto> xs)) \<and>
    (\<forall>x. dl_free s' x \<longleftrightarrow> dl_free s x \<or> x = e) \<and> dl_store.more s' = dl_store.more s"
  using DynListRemoveTail_rep [OF dl_inv_rep [OF assms]] dl_inv_removed [of s f l xs e "[]"] assms
  by (metis append_Nil2)

lemma dl_inv_rem_elem:
  assumes "dl_inv s f" "f l = Some (as @ e # bs)"
  shows "\<exists>s'. DynListRemoveElement l e s = Some (0, s') \<and> dl_inv s' (f(l \<mapsto> as @ bs)) \<and>
    (\<forall>x. dl_free s' x \<longleftrightarrow> dl_free s x \<or> x = e) \<and> dl_store.more s' = dl_store.more s"
  using DynListRemoveElement_rep [OF dl_inv_rep [OF assms]] dl_inv_removed [of s f l as e bs] assms
  by metis

lemma dl_rep_cong: "dnode s' = dnode s \<Longrightarrow> dlist s' = dlist s \<Longrightarrow> dl_rep s' l xs = dl_rep s l xs"
  by (simp add: dl_rep_def dl_cyc_def dl_path_next_only [of s' s])

lemma dl_inv_cong: "dnode s' = dnode s \<Longrightarrow> dlist s' = dlist s \<Longrightarrow> dl_inv s' f = dl_inv s f"
  by (simp add: dl_inv_def dl_rep_cong [of s' s])

interpretation dlq: deque dl_inv dl_free DynListInsertHead DynListInsertTail
  DynListRemoveHead DynListRemoveTail DynListRemoveElement NULL
proof unfold_locales
  fix s :: "'a dl_store_scheme" and f l
  assume "dl_inv s f" "f l = Some []"
  then show "DynListRemoveHead l s = Some (NULL, s) \<and> DynListRemoveTail l s = Some (NULL, s)"
    using DynListRemoveHead_empty DynListRemoveTail_empty dl_inv_rep by blast
next
  fix s :: "'a dl_store_scheme" and f l e xs
  assume a: "dl_inv s f" "f l = Some xs" "dl_free s e"
  from dl_inv_ins_head [OF a] show "\<exists>s'. DynListInsertHead l e s = Some (0, s') \<and>
      dl_inv s' (f(l \<mapsto> e # xs)) \<and> (\<forall>x. dl_free s' x \<longleftrightarrow> dl_free s x \<and> x \<noteq> e)"
    by (elim exE conjE) (intro exI conjI)
  from dl_inv_ins_tail [OF a] show "\<exists>s'. DynListInsertTail l e s = Some (0, s') \<and>
      dl_inv s' (f(l \<mapsto> xs @ [e])) \<and> (\<forall>x. dl_free s' x \<longleftrightarrow> dl_free s x \<and> x \<noteq> e)"
    by (elim exE conjE) (intro exI conjI)
next
  fix s :: "'a dl_store_scheme" and f l e xs
  assume a: "dl_inv s f" "f l = Some (e # xs)"
  from dl_inv_rem_head [OF a] show "\<exists>s'. DynListRemoveHead l s = Some (e, s') \<and>
      dl_inv s' (f(l \<mapsto> xs)) \<and> (\<forall>x. dl_free s' x \<longleftrightarrow> dl_free s x \<or> x = e)"
    by (elim exE conjE) (intro exI conjI)
next
  fix s :: "'a dl_store_scheme" and f l e xs
  assume a: "dl_inv s f" "f l = Some (xs @ [e])"
  from dl_inv_rem_tail [OF a] show "\<exists>s'. DynListRemoveTail l s = Some (e, s') \<and>
      dl_inv s' (f(l \<mapsto> xs)) \<and> (\<forall>x. dl_free s' x \<longleftrightarrow> dl_free s x \<or> x = e)"
    by (elim exE conjE) (intro exI conjI)
next
  fix s :: "'a dl_store_scheme" and f l e as bs
  assume a: "dl_inv s f" "f l = Some (as @ e # bs)"
  from dl_inv_rem_elem [OF a] show "\<exists>s'. DynListRemoveElement l e s = Some (0, s') \<and>
      dl_inv s' (f(l \<mapsto> as @ bs)) \<and> (\<forall>x. dl_free s' x \<longleftrightarrow> dl_free s x \<or> x = e)"
    by (elim exE conjE) (intro exI conjI)
qed

end
