(* ===== verification/KThread.thy ===== *)
theory KThread
  imports DynList
begin

text \<open>
  The kernel state that timers, scheduler and ports share, and the operations of
  core/include/kthread.h on it: kernel thread flags, the partition control table (PCT) and
  the pending virtual interrupts; the guest bitmaps of core/include/guest.h; and the VCPU and
  partition state changes of core/include/sched.h that need no scheduling. Configuration: one
  CPU, CONFIG_DEBUG, CONFIG_CYCLIC_SCHED and CONFIG_FP_SCHED (kernel/arch/defconfig). Threads
  and timers are named by their addresses. None is a failed assertion or a null dereference.
\<close>

section \<open>Data\<close>

text \<open>\<open>kTimer_t\<close>: the action is the function pointer with its argument.\<close>

datatype timer_action = ActVTimer addr | ActKThrTimer addr | ActWatchdog addr | ActSchedPending

record kTimer_t =
  kt_value :: xmTime
  kt_interval :: xmTime
  kt_flags :: u32
  kt_action :: "timer_action option"

record vTimer_t =
  vt_value :: xmTime
  vt_interval :: xmTime
  vt_flags :: u32
  vt_kTimer :: addr

record vClock_t =
  vc_acc :: xmTime
  vc_delta :: xmTime
  vc_flags :: u32

record schedInfo =
  si_noSlot :: u32
  si_id :: u32
  si_slotDuration :: u32

text \<open>The words of the partition control table that the kernel reads or writes at run time, and the
  words that follow the table: the map of the physical memory areas, then the port bitmap.\<close>

record partitionControlTable_t =
  pct_resetCounter :: u32
  pct_resetStatus :: u32
  pct_flags :: u32
  pct_hwIrqs :: u32
  pct_hwIrqsPend :: u32
  pct_hwIrqsMask :: u32
  pct_extIrqsPend :: u32
  pct_extIrqsMask :: u32
  pct_noCommPorts :: s32
  pct_iFlags :: u32
  pct_schedInfo :: schedInfo
  pct_trap2Vector :: "u16 list"
  pct_hwIrq2Vector :: "u16 list"
  pct_extIrq2Vector :: "u16 list"
  pct_tail :: "u32 list"

record guest =
  g_id :: xmId
  g_vTimer :: vTimer_t
  g_kTimer :: addr
  g_watchdogTimer :: addr
  g_vClock :: vClock_t
  g_opMode :: u32
  g_swTrap :: u32
  g_partCtrlTab :: "partitionControlTable_t option"

record kThread_t =
  k_flags :: u32
  k_localActiveKTimers :: addr
  k_g :: "guest option"
  k_irqMask :: u32

record partition_t =
  p_kThread :: "addr list"
  p_opMode :: u32
  p_cfg :: nat

text \<open>The static configuration tables of core/include/xmconf.h (the parts the kernel code reads).\<close>

record xmcSchedCyclicSlot =
  slot_id :: xmId
  slot_partitionId :: xmId
  slot_vCpuId :: xmId
  slot_sExec :: u32
  slot_eExec :: u32

record xmcSchedCyclicPlan =
  plan_nameOffset :: u32
  plan_id :: xmId
  plan_majorFrame :: u32
  plan_noSlots :: s32
  plan_slotsOffset :: u32

record xmcFpSched =
  fps_partitionId :: xmId
  fps_vCpuId :: xmId
  fps_priority :: u32

datatype sched_policy = CYCLIC_SCHED | FP_SCHED

record xmcCpu =
  cpu_schedPolicy :: sched_policy
  cpu_schedCyclicPlansOffset :: u32
  cpu_noSchedCyclicPlans :: s32
  cpu_schedFpTabOffset :: u32
  cpu_noFpEntries :: s32

record xmcHmSlot =
  hms_action :: u32
  hms_log :: bool

record xmcPartIpvi =
  ipvi_dstOffset :: u32
  ipvi_noDsts :: s32

record xmcPartition =
  pc_id :: xmId
  pc_nameOffset :: u32
  pc_flags :: u32
  pc_noVCpus :: u32
  pc_hwIrqs :: u32
  pc_noPhysicalMemoryAreas :: s32
  pc_physicalMemoryAreasOffset :: u32
  pc_commPortsOffset :: u32
  pc_noPorts :: s32
  pc_hmTab :: "xmcHmSlot list"
  pc_traceBitmap :: u32
  pc_ipviTab :: "xmcPartIpvi list"

record xmcMemoryArea =
  ma_nameOffset :: u32
  ma_startAddr :: u32
  ma_mappedAt :: u32
  ma_size :: u32
  ma_flags :: u32
  ma_memoryRegionOffset :: u32

record xmcMemoryRegion =
  mr_startAddr :: u32
  mr_size :: u32
  mr_flags :: u32

record xmcCommPort =
  cp_nameOffset :: u32
  cp_channelId :: s32
  cp_direction :: s32
  cp_type :: s32

text \<open>A channel: the type tag with its arm of the union.\<close>

datatype xmcCommChannel =
    SamplingChannel (ch_maxLength: s32) (chs_validPeriod: u32) (chs_noReceivers: s32)
  | QueuingChannel (ch_maxLength: s32) (chq_maxNoMsgs: s32)

record xmc =
  xmcPartitionTab :: "xmcPartition list"
  xmcCpuCfg :: xmcCpu
  xmcHpvHmTab :: "xmcHmSlot list"
  xmcHpvTraceBitmap :: u32
  xmcHwIrqOwner :: "s32 list"
  xmcSchedCyclicSlotTab :: "xmcSchedCyclicSlot list"
  xmcSchedCyclicPlanTab :: "xmcSchedCyclicPlan list"
  xmcFpSchedTab :: "xmcFpSched list"
  xmcDstIpvi :: "u8 list"
  xmcPhysMemAreaTab :: "xmcMemoryArea list"
  xmcMemRegTab :: "xmcMemoryRegion list"
  xmcCommPorts :: "xmcCommPort list"
  xmcCommChannelTab :: "xmcCommChannel list"
  xmcStringTab :: "u8 list"

text \<open>
  The kernel state of the CPU. \<open>clk\<close> is the sequence of values the hardware clock returns and
  \<open>clk_n\<close> the number of reads so far; \<open>hw_min\<close>, \<open>hw_max\<close> are what the timer driver returns
  for GetMinInterval and GetMaxInterval, \<open>hw_prog\<close> the last interval programmed.
\<close>

record kstate = dl_store +
  cfg :: xmc
  clk :: "nat \<Rightarrow> xmTime"
  clk_n :: nat
  kthreads :: "addr \<Rightarrow> kThread_t"
  ktimers :: "addr \<Rightarrow> kTimer_t"
  partitionTab :: "partition_t list"
  cKThread :: addr
  idleKThread :: addr
  irqNestingCounter :: u32
  lt_flags :: u32
  lt_nextAct :: xmTime
  lt_globalActiveKTimers :: addr
  hw_min :: xmTime
  hw_max :: xmTime
  hw_prog :: "xmTime option"

definition KTIMER_ARMED :: u32 where "KTIMER_ARMED = 1"
definition VTIMER_ARMED :: u32 where "VTIMER_ARMED = 1"
definition VCLOCK_ENABLED :: u32 where "VCLOCK_ENABLED = 1"
definition KTHREAD_FP_F :: u32 where "KTHREAD_FP_F = 2"
definition KTHREAD_HALTED_F :: u32 where "KTHREAD_HALTED_F = 4"
definition KTHREAD_SUSPENDED_F :: u32 where "KTHREAD_SUSPENDED_F = 8"
definition KTHREAD_READY_F :: u32 where "KTHREAD_READY_F = 16"

lemmas kthread_flag_defs = KTHREAD_FP_F_def KTHREAD_HALTED_F_def KTHREAD_SUSPENDED_F_def
  KTHREAD_READY_F_def

definition KTHREAD_TRAP_PENDING_F :: u32 where "KTHREAD_TRAP_PENDING_F = 0x80000000"
definition XM_PART_SYSTEM :: u32 where "XM_PART_SYSTEM = 0x100"
definition XM_PART_FP :: u32 where "XM_PART_FP = 0x200"

definition XM_OPMODE_IDLE :: u32 where "XM_OPMODE_IDLE = 0"
definition XM_OPMODE_COLD_RESET :: u32 where "XM_OPMODE_COLD_RESET = 1"
definition XM_OPMODE_WARM_RESET :: u32 where "XM_OPMODE_WARM_RESET = 2"
definition XM_OPMODE_NORMAL :: u32 where "XM_OPMODE_NORMAL = 3"

definition XM_VT_EXT_HW_TIMER :: nat where "XM_VT_EXT_HW_TIMER = 0"
definition XM_VT_EXT_EXEC_TIMER :: nat where "XM_VT_EXT_EXEC_TIMER = 1"
definition XM_VT_EXT_WATCHDOG_TIMER :: nat where "XM_VT_EXT_WATCHDOG_TIMER = 2"
definition XM_VT_EXT_SHUTDOWN :: nat where "XM_VT_EXT_SHUTDOWN = 3"
definition XM_VT_EXT_SAMPLING_PORT :: nat where "XM_VT_EXT_SAMPLING_PORT = 4"
definition XM_VT_EXT_QUEUING_PORT :: nat where "XM_VT_EXT_QUEUING_PORT = 5"
definition XM_VT_EXT_CYCLIC_SLOT_START :: nat where "XM_VT_EXT_CYCLIC_SLOT_START = 8"
definition XM_VT_EXT_LAST :: nat where "XM_VT_EXT_LAST = 31"

lemmas ext_irq_defs = XM_VT_EXT_HW_TIMER_def XM_VT_EXT_EXEC_TIMER_def XM_VT_EXT_WATCHDOG_TIMER_def
  XM_VT_EXT_SHUTDOWN_def XM_VT_EXT_SAMPLING_PORT_def XM_VT_EXT_QUEUING_PORT_def
  XM_VT_EXT_CYCLIC_SLOT_START_def XM_VT_EXT_LAST_def

section \<open>Thread ids\<close>

text \<open>Bits 15..8 of a thread id are the VCPU, bits 7..0 the partition.\<close>

definition PART_VCPU_ID2KID :: "xmId \<Rightarrow> xmId \<Rightarrow> xmId" where
  "PART_VCPU_ID2KID partId vCpuId = push_bit 8 vCpuId OR (partId AND 0xff)"

definition KID2PARTID :: "xmId \<Rightarrow> xmId" where
  "KID2PARTID i = i AND 0xff"

definition KID2VCPUID :: "xmId \<Rightarrow> xmId" where
  "KID2VCPUID i = drop_bit 8 i"

section \<open>Thread flags\<close>

definition kt_upd :: "addr \<Rightarrow> (kThread_t \<Rightarrow> kThread_t) \<Rightarrow> 'a kstate_scheme \<Rightarrow> 'a kstate_scheme" where
  "kt_upd k f s = s\<lparr>kthreads := (kthreads s)(k := f (kthreads s k))\<rparr>"

definition g_upd :: "(guest \<Rightarrow> guest) \<Rightarrow> kThread_t \<Rightarrow> kThread_t" where
  "g_upd f t = t\<lparr>k_g := map_option f (k_g t)\<rparr>"

definition pct_upd :: "(partitionControlTable_t \<Rightarrow> partitionControlTable_t) \<Rightarrow> kThread_t \<Rightarrow> kThread_t" where
  "pct_upd f = g_upd (\<lambda>g. g\<lparr>g_partCtrlTab := map_option f (g_partCtrlTab g)\<rparr>)"

text \<open>\<open>k->ctrl.g->partCtrlTab\<close>: None when either pointer is null.\<close>

definition k_pct :: "kThread_t \<Rightarrow> partitionControlTable_t option" where
  "k_pct t = (k_g t \<bind> g_partCtrlTab)"

definition SetKThreadFlags :: "addr \<Rightarrow> u32 \<Rightarrow> 'a kstate_scheme \<Rightarrow> 'a kstate_scheme" where
  "SetKThreadFlags k f s =
     kt_upd k (\<lambda>t. pct_upd (\<lambda>p. p\<lparr>pct_flags := set_flag (pct_flags p) f\<rparr>)
                 (t\<lparr>k_flags := set_flag (k_flags t) f\<rparr>)) s"

definition ClearKThreadFlags :: "addr \<Rightarrow> u32 \<Rightarrow> 'a kstate_scheme \<Rightarrow> 'a kstate_scheme" where
  "ClearKThreadFlags k f s =
     kt_upd k (\<lambda>t. pct_upd (\<lambda>p. p\<lparr>pct_flags := clr_flag (pct_flags p) f\<rparr>)
                 (t\<lparr>k_flags := clr_flag (k_flags t) f\<rparr>)) s"

definition AreKThreadFlagsSet :: "addr \<Rightarrow> u32 \<Rightarrow> 'a kstate_scheme \<Rightarrow> u32" where
  "AreKThreadFlagsSet k f s = k_flags (kthreads s k) AND f"

text \<open>\<open>GetPartition(k)\<close>, as an index of \<open>partitionTab\<close>.\<close>

definition GetPartition :: "addr \<Rightarrow> 'a kstate_scheme \<Rightarrow> nat option" where
  "GetPartition k s = map_option (\<lambda>g. unat (KID2PARTID (g_id g))) (k_g (kthreads s k))"

section \<open>Pending virtual interrupts\<close>

text \<open>\<open>1<<irq\<close>\<close>

definition irq_bit :: "nat \<Rightarrow> u32" where
  "irq_bit irq = push_bit irq 1"

definition SetHwIrqPending :: "addr \<Rightarrow> nat \<Rightarrow> 'a kstate_scheme \<Rightarrow> 'a kstate_scheme option" where
  "SetHwIrqPending k irq s = do {
     ASSERT (k_g (kthreads s k) \<noteq> None);
     ASSERT (irq \<le> 31);
     if AreKThreadFlagsSet k KTHREAD_HALTED_F s \<noteq> 0 then Some s
     else do {
       ASSERT (k_pct (kthreads s k) \<noteq> None);
       Some (SetKThreadFlags k KTHREAD_READY_F
         (kt_upd k (pct_upd (\<lambda>p. p\<lparr>pct_hwIrqsPend := set_flag (pct_hwIrqsPend p) (irq_bit irq)\<rparr>)) s))
     }
   }"

definition SetExtIrqPending :: "addr \<Rightarrow> nat \<Rightarrow> 'a kstate_scheme \<Rightarrow> 'a kstate_scheme option" where
  "SetExtIrqPending k irq s = do {
     ASSERT (k_g (kthreads s k) \<noteq> None);
     ASSERT (irq \<le> XM_VT_EXT_LAST);
     if AreKThreadFlagsSet k KTHREAD_HALTED_F s \<noteq> 0 then Some s
     else do {
       ASSERT (k_pct (kthreads s k) \<noteq> None);
       Some (SetKThreadFlags k KTHREAD_READY_F
         (kt_upd k (pct_upd (\<lambda>p. p\<lparr>pct_extIrqsPend := set_flag (pct_extIrqsPend p) (irq_bit irq)\<rparr>)) s))
     }
   }"

text \<open>The loops over the VCPUs of a partition: the body of one round, then all of them.\<close>

definition part_vcpus :: "partition_t \<Rightarrow> 'a kstate_scheme \<Rightarrow> addr list option" where
  "part_vcpus p s = do {
     c \<leftarrow> aget (xmcPartitionTab (cfg s)) (p_cfg p);
     ASSERT (unat (pc_noVCpus c) \<le> length (p_kThread p));
     Some (take (unat (pc_noVCpus c)) (p_kThread p))
   }"

definition vcpu_pend_ext :: "nat \<Rightarrow> addr \<Rightarrow> 'a kstate_scheme \<Rightarrow> 'a kstate_scheme option" where
  "vcpu_pend_ext irq k s =
     (if AreKThreadFlagsSet k KTHREAD_HALTED_F s \<noteq> 0 then Some s
      else do {
        ASSERT (k_pct (kthreads s k) \<noteq> None);
        Some (SetKThreadFlags k KTHREAD_READY_F
          (kt_upd k (pct_upd (\<lambda>p. p\<lparr>pct_extIrqsPend := set_flag (pct_extIrqsPend p) (irq_bit irq)\<rparr>)) s))
      })"

definition SetPartitionExtIrqPending :: "partition_t \<Rightarrow> nat \<Rightarrow> 'a kstate_scheme \<Rightarrow> 'a kstate_scheme option"
where
  "SetPartitionExtIrqPending p irq s = do {
     ASSERT (irq \<le> XM_VT_EXT_LAST);
     ks \<leftarrow> part_vcpus p s;
     ofold (vcpu_pend_ext irq) ks s
   }"

definition vcpu_pend_hw :: "nat \<Rightarrow> addr \<Rightarrow> 'a kstate_scheme \<Rightarrow> 'a kstate_scheme option" where
  "vcpu_pend_hw irq k s =
     (if AreKThreadFlagsSet k KTHREAD_HALTED_F s \<noteq> 0 then Some s
      else do {
        ASSERT (k_pct (kthreads s k) \<noteq> None);
        Some (SetKThreadFlags k KTHREAD_READY_F
          (kt_upd k (pct_upd (\<lambda>p. p\<lparr>pct_hwIrqsPend := set_flag (pct_hwIrqsPend p) (irq_bit irq)\<rparr>)) s))
      })"

definition SetPartitionHwIrqPending :: "partition_t \<Rightarrow> nat \<Rightarrow> 'a kstate_scheme \<Rightarrow> 'a kstate_scheme option"
where
  "SetPartitionHwIrqPending p irq s = do {
     ASSERT (irq \<le> 31);
     ks \<leftarrow> part_vcpus p s;
     ofold (vcpu_pend_hw irq) ks s
   }"

definition AreExtIrqPendingSet :: "addr \<Rightarrow> nat \<Rightarrow> 'a kstate_scheme \<Rightarrow> bool option" where
  "AreExtIrqPendingSet k irq s = do {
     ASSERT (irq \<le> XM_VT_EXT_LAST);
     p \<leftarrow> k_pct (kthreads s k);
     Some (has_flag (pct_extIrqsPend p) (irq_bit irq))
   }"

fun all_ext_pending :: "nat \<Rightarrow> addr list \<Rightarrow> 'a kstate_scheme \<Rightarrow> bool option" where
  "all_ext_pending irq [] s = Some True"
| "all_ext_pending irq (k # ks) s = do {
     p \<leftarrow> k_pct (kthreads s k);
     if \<not> has_flag (pct_extIrqsPend p) (irq_bit irq) then Some False
     else all_ext_pending irq ks s
   }"

definition ArePartitionExtIrqPendingSet :: "partition_t \<Rightarrow> nat \<Rightarrow> 'a kstate_scheme \<Rightarrow> bool option" where
  "ArePartitionExtIrqPendingSet p irq s = do {
     ASSERT (irq \<le> XM_VT_EXT_LAST);
     ks \<leftarrow> part_vcpus p s;
     all_ext_pending irq ks s
   }"

section \<open>What the thread operations change\<close>

text \<open>\<open>kthreads_only s s'\<close>: only the threads differ.\<close>

definition kthreads_only :: "'a kstate_scheme \<Rightarrow> 'a kstate_scheme \<Rightarrow> bool" where
  "kthreads_only s s' \<longleftrightarrow> s' = s\<lparr>kthreads := kthreads s'\<rparr>"

lemma kthreads_only_refl [simp]: "kthreads_only s s"
  by (simp add: kthreads_only_def)

lemma kthreads_only_upd [simp]: "kthreads_only s (s\<lparr>kthreads := f\<rparr>)"
  by (simp add: kthreads_only_def)

lemma kthreads_only_trans:
  assumes "kthreads_only s t" "kthreads_only t u" shows "kthreads_only s u"
proof -
  have "u = (s\<lparr>kthreads := kthreads t\<rparr>)\<lparr>kthreads := kthreads u\<rparr>"
    using assms unfolding kthreads_only_def by metis
  then show ?thesis by (simp add: kthreads_only_def)
qed

lemma kthreads_only_fields:
  assumes "kthreads_only s s'"
  shows "dnode s' = dnode s" "dlist s' = dlist s" "cfg s' = cfg s" "clk s' = clk s"
    "clk_n s' = clk_n s" "ktimers s' = ktimers s" "partitionTab s' = partitionTab s"
    "cKThread s' = cKThread s" "idleKThread s' = idleKThread s"
    "irqNestingCounter s' = irqNestingCounter s" "lt_flags s' = lt_flags s"
    "lt_nextAct s' = lt_nextAct s" "lt_globalActiveKTimers s' = lt_globalActiveKTimers s"
    "hw_min s' = hw_min s" "hw_max s' = hw_max s" "hw_prog s' = hw_prog s"
    "kstate.more s' = kstate.more s"
  by (subst assms [unfolded kthreads_only_def], simp)+

lemma kt_upd_only [simp]: "kthreads_only s (kt_upd k f s)"
  by (simp add: kt_upd_def)

lemma kthreads_kt_upd [simp]: "kthreads (kt_upd k f s) = (kthreads s)(k := f (kthreads s k))"
  by (simp add: kt_upd_def)

lemma SetKThreadFlags_only [simp]: "kthreads_only s (SetKThreadFlags k f s)"
  by (simp add: SetKThreadFlags_def)

lemma ClearKThreadFlags_only [simp]: "kthreads_only s (ClearKThreadFlags k f s)"
  by (simp add: ClearKThreadFlags_def)

lemma pct_upd_sel [simp]: "k_flags (pct_upd f t) = k_flags t"
  "k_localActiveKTimers (pct_upd f t) = k_localActiveKTimers t"
  "k_irqMask (pct_upd f t) = k_irqMask t"
  by (simp_all add: pct_upd_def g_upd_def)

lemma k_pct_upd [simp]: "k_pct (pct_upd f t) = map_option f (k_pct t)"
  by (cases "k_g t") (simp_all add: k_pct_def pct_upd_def g_upd_def)

lemma k_pct_flags_upd [simp]: "k_pct (t\<lparr>k_flags := v\<rparr>) = k_pct t"
  by (simp add: k_pct_def)

text \<open>The pending step of one thread, shared by the four operations that raise interrupts.\<close>

definition pend_ext :: "nat \<Rightarrow> kThread_t \<Rightarrow> kThread_t" where
  "pend_ext irq t = pct_upd (\<lambda>p. p\<lparr>pct_extIrqsPend := set_flag (pct_extIrqsPend p) (irq_bit irq),
      pct_flags := set_flag (pct_flags p) KTHREAD_READY_F\<rparr>)
      (t\<lparr>k_flags := set_flag (k_flags t) KTHREAD_READY_F\<rparr>)"

definition k_halted :: "kThread_t \<Rightarrow> bool" where
  "k_halted t \<longleftrightarrow> has_flag (k_flags t) KTHREAD_HALTED_F"

lemma AreKThreadFlagsSet_iff: "AreKThreadFlagsSet k f s \<noteq> 0 \<longleftrightarrow> has_flag (k_flags (kthreads s k)) f"
  by (simp add: AreKThreadFlagsSet_def has_flag_def)

lemma SetKThreadFlags_pend_ext:
  "SetKThreadFlags k KTHREAD_READY_F
     (kt_upd k (pct_upd (\<lambda>p. p\<lparr>pct_extIrqsPend := set_flag (pct_extIrqsPend p) (irq_bit irq)\<rparr>)) s)
   = kt_upd k (pend_ext irq) s"
  by (cases "k_g (kthreads s k)")
    (simp_all add: SetKThreadFlags_def kt_upd_def pend_ext_def pct_upd_def g_upd_def
      option.map_comp comp_def)

lemma k_pct_g: "k_pct t \<noteq> None \<Longrightarrow> k_g t \<noteq> None"
  by (cases "k_g t") (simp_all add: k_pct_def)

lemma SetExtIrqPending_eq:
  assumes "k_pct (kthreads s k) \<noteq> None" "irq \<le> XM_VT_EXT_LAST"
  shows "SetExtIrqPending k irq s =
    Some (if k_halted (kthreads s k) then s else kt_upd k (pend_ext irq) s)"
  using assms k_pct_g [OF assms(1)]
  by (simp add: SetExtIrqPending_def AreKThreadFlagsSet_iff k_halted_def SetKThreadFlags_pend_ext ASSERT_def)

lemma SetExtIrqPending_only:
  "SetExtIrqPending k irq s = Some s' \<Longrightarrow> kthreads_only s s'"
  by (auto simp: SetExtIrqPending_def bind_eq_Some_iff SetKThreadFlags_pend_ext split: if_splits)

lemma vcpu_pend_ext_eq:
  "k_pct (kthreads s k) \<noteq> None \<Longrightarrow>
     vcpu_pend_ext irq k s = Some (if k_halted (kthreads s k) then s else kt_upd k (pend_ext irq) s)"
  by (simp add: vcpu_pend_ext_def AreKThreadFlagsSet_iff k_halted_def SetKThreadFlags_pend_ext ASSERT_def)

lemma vcpu_pend_ext_only: "vcpu_pend_ext irq k s = Some s' \<Longrightarrow> kthreads_only s s'"
  by (auto simp: vcpu_pend_ext_def bind_eq_Some_iff SetKThreadFlags_pend_ext split: if_splits)

text \<open>The pending step raises exactly its interrupt and makes the thread ready.\<close>

lemma pend_ext_pct:
  "k_pct (pend_ext irq t) = map_option (\<lambda>p. p\<lparr>pct_extIrqsPend := set_flag (pct_extIrqsPend p) (irq_bit irq),
      pct_flags := set_flag (pct_flags p) KTHREAD_READY_F\<rparr>) (k_pct t)"
  "k_flags (pend_ext irq t) = set_flag (k_flags t) KTHREAD_READY_F"
  "k_localActiveKTimers (pend_ext irq t) = k_localActiveKTimers t"
  by (simp_all add: pend_ext_def)

lemma pend_ext_g: "k_g (pend_ext irq t) = None \<longleftrightarrow> k_g t = None"
  by (simp add: pend_ext_def pct_upd_def g_upd_def)

lemma pend_ext_halted [simp]: "k_halted (pend_ext irq t) = k_halted t"
  unfolding k_halted_def pend_ext_pct by (rule has_flag_set_disj) (simp add: kthread_flag_defs)

lemma ext_pend_bit: "bit (set_flag w (irq_bit irq)) j \<longleftrightarrow> bit w j \<or> (j = irq \<and> irq < 32)"
  by (auto simp: set_flag_bit irq_bit_def bit_exp_u32)

text \<open>The loop over the VCPUs of a partition.\<close>

definition pend_all :: "nat \<Rightarrow> addr list \<Rightarrow> (addr \<Rightarrow> kThread_t) \<Rightarrow> addr \<Rightarrow> kThread_t" where
  "pend_all irq ks th k = (if k \<in> set ks \<and> \<not> k_halted (th k) then pend_ext irq (th k) else th k)"

lemma pend_loop:
  assumes "distinct ks" "\<forall>k \<in> set ks. k_pct (kthreads s k) \<noteq> None"
  shows "ofold (vcpu_pend_ext irq) ks s = Some (s\<lparr>kthreads := pend_all irq ks (kthreads s)\<rparr>)"
  using assms
proof (induction ks arbitrary: s)
  case Nil
  then show ?case by (simp add: pend_all_def)
next
  case (Cons k ks)
  let ?s = "if k_halted (kthreads s k) then s else kt_upd k (pend_ext irq) s"
  have "vcpu_pend_ext irq k s = Some ?s"
    using Cons.prems(2) by (intro vcpu_pend_ext_eq) simp
  moreover have "ofold (vcpu_pend_ext irq) ks ?s = Some (?s\<lparr>kthreads := pend_all irq ks (kthreads ?s)\<rparr>)"
    using Cons.prems by (intro Cons.IH) auto
  moreover have "?s\<lparr>kthreads := pend_all irq ks (kthreads ?s)\<rparr> =
      s\<lparr>kthreads := pend_all irq (k # ks) (kthreads s)\<rparr>"
  proof -
    have "pend_all irq ks (kthreads ?s) = pend_all irq (k # ks) (kthreads s)"
      using Cons.prems(1) by (auto simp: pend_all_def fun_eq_iff)
    then show ?thesis by (simp add: kt_upd_def)
  qed
  ultimately show ?case by (simp only: ofold.simps bind.bind_lunit) 
qed

lemma SetPartitionExtIrqPending_eq:
  assumes "part_vcpus p s = Some ks" "distinct ks" "irq \<le> XM_VT_EXT_LAST"
    and "\<forall>k \<in> set ks. k_pct (kthreads s k) \<noteq> None"
  shows "SetPartitionExtIrqPending p irq s = Some (s\<lparr>kthreads := pend_all irq ks (kthreads s)\<rparr>)"
  using pend_loop [OF assms(2,4)] assms(1,3) by (simp add: SetPartitionExtIrqPending_def)

lemma SetPartitionExtIrqPending_only:
  assumes "SetPartitionExtIrqPending p irq s = Some s'" shows "kthreads_only s s'"
proof -
  obtain ks where "ofold (vcpu_pend_ext irq) ks s = Some s'"
    using assms by (auto simp: SetPartitionExtIrqPending_def bind_eq_Some_iff)
  then show ?thesis
    by (rule ofold_inv [where P = "kthreads_only s"])
      (auto dest: vcpu_pend_ext_only intro: kthreads_only_trans)
qed

section \<open>The mirror of the thread flags in the control table\<close>

text \<open>
  SetKThreadFlags and ClearKThreadFlags write the thread's own flag word and the copy the
  guest sees; the copies agree as long as flags are changed through them.
\<close>

definition flags_mirrored :: "'a kstate_scheme \<Rightarrow> bool" where
  "flags_mirrored s \<longleftrightarrow> (\<forall>k p. k_pct (kthreads s k) = Some p \<longrightarrow> pct_flags p = k_flags (kthreads s k))"

lemma flags_mirrored_upd:
  assumes "flags_mirrored s"
    and "\<And>p. k_pct (f (kthreads s k)) = Some p \<Longrightarrow> pct_flags p = k_flags (f (kthreads s k))"
  shows "flags_mirrored (kt_upd k f s)"
  using assms by (auto simp: flags_mirrored_def)

lemma SetKThreadFlags_mirrored: "flags_mirrored s \<Longrightarrow> flags_mirrored (SetKThreadFlags k f s)"
  unfolding SetKThreadFlags_def by (rule flags_mirrored_upd) (auto simp: flags_mirrored_def)

lemma ClearKThreadFlags_mirrored: "flags_mirrored s \<Longrightarrow> flags_mirrored (ClearKThreadFlags k f s)"
  unfolding ClearKThreadFlags_def by (rule flags_mirrored_upd) (auto simp: flags_mirrored_def)

lemma pend_ext_mirrored: "flags_mirrored s \<Longrightarrow> flags_mirrored (kt_upd k (pend_ext irq) s)"
  by (rule flags_mirrored_upd) (auto simp: flags_mirrored_def pend_ext_pct)

lemma SetPartitionExtIrqPending_mirrored:
  assumes "SetPartitionExtIrqPending p irq s = Some s'" "flags_mirrored s"
  shows "flags_mirrored s'"
proof -
  obtain ks where "ofold (vcpu_pend_ext irq) ks s = Some s'"
    using assms by (auto simp: SetPartitionExtIrqPending_def bind_eq_Some_iff)
  then show ?thesis
    by (rule ofold_inv [where P = flags_mirrored])
      (use assms(2) in \<open>auto simp: vcpu_pend_ext_def bind_eq_Some_iff SetKThreadFlags_pend_ext
         pend_ext_mirrored split: if_splits\<close>)
qed

lemma KID2PARTID_KID: "unat p < 256 \<Longrightarrow> KID2PARTID (PART_VCPU_ID2KID p v) = p"
proof -
  assume p: "unat p < 256"
  have m: "(0xff :: u32) = mask 8" by (simp add: mask_eq_exp_minus_1)
  have "n < 8" if "bit p n" for n
  proof (rule ccontr)
    assume "\<not> n < 8"
    then have "(2 :: nat) ^ 8 \<le> 2 ^ n" by (intro power_increasing) auto
    then have "unat p div 2 ^ n = 0" using p by simp
    then have "\<not> bit (unat p) n" by (simp add: bit_iff_odd)
    then show False using that by (simp add: bit_unsigned_iff bit_imp_possible_bit)
  qed
  then show ?thesis
    unfolding KID2PARTID_def PART_VCPU_ID2KID_def m
    by (auto simp: bit_eq_iff bit_and_iff bit_or_iff bit_push_bit_iff bit_mask_iff
        dest: bit_imp_le_length)
qed

end
