(* ===== verification/KTimer.thy ===== *)
theory KTimer
  imports KThread
begin

text \<open>
  The timer interface of core/kernel/ktimer.c and core/include/ktimer.h, with the timer
  handlers of core/kernel/kthread.c. A timer queue is a DynList whose nodes are the timers.
  The clock is read once per GetSysClockUsec of the source. SetHwTimer and TimerHandler call
  each other; a fuel argument counts the calls of TimerHandler. RaiseHmPartEvent, which the
  watchdog handler calls, is the argument \<open>hm\<close> here (objects/hm.c is a component of its own,
  above the scheduler). ASSERT(!HwIsSti()) is not modelled: interrupts are not part of the
  state, each operation runs with them disabled.
\<close>

definition SCHED_PENDING :: u32 where "SCHED_PENDING = 0x80000000"
definition IRQ_IN_PROGRESS :: u32 where "IRQ_IN_PROGRESS = NOT SCHED_PENDING"
definition NEXT_ACT_IS_VALID :: u32 where "NEXT_ACT_IS_VALID = 1"

type_synonym 's hm_event = "addr \<Rightarrow> 's \<Rightarrow> 's option"

definition GetSysClockUsec :: "'a kstate_scheme \<Rightarrow> xmTime \<times> 'a kstate_scheme" where
  "GetSysClockUsec s = (clk s (clk_n s), s\<lparr>clk_n := Suc (clk_n s)\<rparr>)"

definition tm_upd :: "addr \<Rightarrow> (kTimer_t \<Rightarrow> kTimer_t) \<Rightarrow> 'a kstate_scheme \<Rightarrow> 'a kstate_scheme" where
  "tm_upd t f s = s\<lparr>ktimers := (ktimers s)(t := f (ktimers s t))\<rparr>"

section \<open>Timer handlers\<close>

definition SetSchedPending :: "'a kstate_scheme \<Rightarrow> 'a kstate_scheme" where
  "SetSchedPending s = s\<lparr>irqNestingCounter := set_flag (irqNestingCounter s) SCHED_PENDING\<rparr>"

definition VTimerHndl :: "addr \<Rightarrow> 'a kstate_scheme \<Rightarrow> 'a kstate_scheme option" where
  "VTimerHndl k s = do {
     g \<leftarrow> k_g (kthreads s k);
     ASSERT (has_flag (vc_flags (g_vClock g)) VCLOCK_ENABLED);
     ASSERT (has_flag (vt_flags (g_vTimer g)) VTIMER_ARMED);
     let vt = (if vt_interval (g_vTimer g) > 0
               then (g_vTimer g)\<lparr>vt_value := vt_value (g_vTimer g) + vt_interval (g_vTimer g)\<rparr>
               else (g_vTimer g)\<lparr>vt_flags := clr_flag (vt_flags (g_vTimer g)) VTIMER_ARMED\<rparr>);
     SetExtIrqPending k XM_VT_EXT_EXEC_TIMER (kt_upd k (g_upd (\<lambda>g. g\<lparr>g_vTimer := vt\<rparr>)) s)
   }"

definition KThrTimerHndl :: "addr \<Rightarrow> 'a kstate_scheme \<Rightarrow> 'a kstate_scheme option" where
  "KThrTimerHndl k s = SetExtIrqPending k XM_VT_EXT_HW_TIMER s"

definition KThrWatchdogTimerHndl ::
  "'a kstate_scheme hm_event \<Rightarrow> addr \<Rightarrow> 'a kstate_scheme \<Rightarrow> 'a kstate_scheme option" where
  "KThrWatchdogTimerHndl hm k s = do {
     s \<leftarrow> SetExtIrqPending k XM_VT_EXT_WATCHDOG_TIMER s;
     hm k s
   }"

text \<open>The call through the Action pointer.\<close>

definition timer_act ::
  "'a kstate_scheme hm_event \<Rightarrow> timer_action \<Rightarrow> 'a kstate_scheme \<Rightarrow> 'a kstate_scheme option" where
  "timer_act hm a s = (case a of
     ActVTimer k \<Rightarrow> VTimerHndl k s
   | ActKThrTimer k \<Rightarrow> KThrTimerHndl k s
   | ActWatchdog k \<Rightarrow> KThrWatchdogTimerHndl hm k s
   | ActSchedPending \<Rightarrow> Some (SetSchedPending s))"

section \<open>The timer queue\<close>

text \<open>\<open>do { value += interval; } while (value <= cTime);\<close> run only with a positive interval.\<close>

function catch_up :: "xmTime \<Rightarrow> xmTime \<Rightarrow> xmTime \<Rightarrow> xmTime" where
  "catch_up v i c = (if v + i \<le> c \<and> i > 0 then catch_up (v + i) i c else v + i)"
  by pat_completeness auto
termination
  by (relation "measure (\<lambda>(v, i, c). nat (c - v))") auto

declare catch_up.simps [simp del]

definition armed :: "'a kstate_scheme \<Rightarrow> addr \<Rightarrow> bool" where
  "armed s t \<longleftrightarrow> has_flag (kt_flags (ktimers s t)) KTIMER_ARMED"

text \<open>The body of the loop of TraverseKTimerQueue for one timer.\<close>

definition ktimer_visit :: "'a kstate_scheme hm_event \<Rightarrow> xmTime \<Rightarrow> addr \<Rightarrow> xmTime \<Rightarrow>
    'a kstate_scheme \<Rightarrow> (xmTime \<times> 'a kstate_scheme) option" where
  "ktimer_visit hm cTime t nextAct s =
     (if armed s t then
        if kt_value (ktimers s t) \<le> cTime then do {
          s \<leftarrow> (case kt_action (ktimers s t) of None \<Rightarrow> Some s | Some a \<Rightarrow> timer_act hm a s);
          if kt_interval (ktimers s t) > 0 then do {
            let v = catch_up (kt_value (ktimers s t)) (kt_interval (ktimers s t)) cTime;
            Some (if nextAct > v then v else nextAct, tm_upd t (\<lambda>x. x\<lparr>kt_value := v\<rparr>) s)
          } else Some (nextAct, tm_upd t (\<lambda>x. x\<lparr>kt_flags := clr_flag (kt_flags x) KTIMER_ARMED\<rparr>) s)
        }
        else Some (if nextAct > kt_value (ktimers s t) then kt_value (ktimers s t) else nextAct, s)
      else Some (nextAct, s))"

fun traverse_loop :: "'a kstate_scheme hm_event \<Rightarrow> xmTime \<Rightarrow> nat \<Rightarrow> addr \<Rightarrow> xmTime \<Rightarrow>
    'a kstate_scheme \<Rightarrow> (xmTime \<times> 'a kstate_scheme) option" where
  "traverse_loop hm cTime 0 t nextAct s = Some (nextAct, s)"
| "traverse_loop hm cTime (Suc n) t nextAct s = do {
     ASSERT (t \<noteq> NULL);
     (nextAct, s) \<leftarrow> ktimer_visit hm cTime t nextAct s;
     traverse_loop hm cTime n (nd_next (dnode s t)) nextAct s
   }"

definition TraverseKTimerQueue :: "'a kstate_scheme hm_event \<Rightarrow> addr \<Rightarrow> xmTime \<Rightarrow>
    'a kstate_scheme \<Rightarrow> (xmTime \<times> 'a kstate_scheme) option" where
  "TraverseKTimerQueue hm l cTime s =
     traverse_loop hm cTime (nat (l_noElem (dlist s l))) (l_head (dlist s l)) MAX_XMTIME s"

section \<open>The hardware timer\<close>

text \<open>TimerHandler up to the call of SetHwTimer: the global queue and the running thread's own.\<close>

definition timer_scan :: "'a kstate_scheme hm_event \<Rightarrow> 'a kstate_scheme \<Rightarrow>
    (xmTime \<times> 'a kstate_scheme) option" where
  "timer_scan hm s = do {
     let s = s\<lparr>lt_flags := clr_flag (lt_flags s) NEXT_ACT_IS_VALID\<rparr>;
     let (cTime, s) = GetSysClockUsec s;
     (nextAct, s) \<leftarrow> TraverseKTimerQueue hm (lt_globalActiveKTimers s) cTime s;
     if k_g (kthreads s (cKThread s)) \<noteq> None then do {
       (nLocalAct, s) \<leftarrow> TraverseKTimerQueue hm (k_localActiveKTimers (kthreads s (cKThread s))) cTime s;
       Some (if nLocalAct \<noteq> 0 \<and> nLocalAct < nextAct then nLocalAct else nextAct, s)
     } else Some (nextAct, s)
   }"

text \<open>The interval the driver is programmed with.\<close>

definition hw_clamp :: "'a kstate_scheme \<Rightarrow> xmTime \<Rightarrow> xmTime" where
  "hw_clamp s nextTime =
     (let t = (if nextTime < hw_min s then hw_min s else nextTime)
      in if t > hw_max s then hw_max s else t)"

fun SetHwTimer :: "'a kstate_scheme hm_event \<Rightarrow> nat \<Rightarrow> xmTime \<Rightarrow> 'a kstate_scheme \<Rightarrow>
    'a kstate_scheme option" where
  "SetHwTimer hm fuel nextAct s = do {
     ASSERT (nextAct \<ge> 0);
     if nextAct = 0 then Some s
     else if has_flag (lt_flags s) NEXT_ACT_IS_VALID \<and> nextAct \<ge> lt_nextAct s then Some s
     else do {
       let s = s\<lparr>lt_flags := set_flag (lt_flags s) NEXT_ACT_IS_VALID, lt_nextAct := nextAct\<rparr>;
       let (cTime, s) = GetSysClockUsec s;
       if nextAct - cTime \<ge> 0 then do {
         let nextTime = hw_clamp s (nextAct - cTime);
         Some (s\<lparr>lt_nextAct := nextTime + cTime, hw_prog := Some nextTime\<rparr>)
       } else (case fuel of 0 \<Rightarrow> None
               | Suc n \<Rightarrow> do { (na, s) \<leftarrow> timer_scan hm s; SetHwTimer hm n na s })
     }
   }"

declare SetHwTimer.simps [simp del]

definition TimerHandler :: "'a kstate_scheme hm_event \<Rightarrow> nat \<Rightarrow> 'a kstate_scheme \<Rightarrow>
    'a kstate_scheme option" where
  "TimerHandler hm fuel s = do { (nextAct, s) \<leftarrow> timer_scan hm s; SetHwTimer hm fuel nextAct s }"

section \<open>Timers\<close>

text \<open>\<open>kThread\<close> is NULL for the queue of the CPU. The node's own fields are zeroed by the memset.\<close>

definition InitKTimer :: "addr \<Rightarrow> timer_action \<Rightarrow> addr \<Rightarrow> 'a kstate_scheme \<Rightarrow> 'a kstate_scheme option"
where
  "InitKTimer t act k s = do {
     let s = s\<lparr>ktimers := (ktimers s)(t := \<lparr>kt_value = 0, kt_interval = 0, kt_flags = 0,
                                             kt_action = Some act\<rparr>),
               dnode := (dnode s)(t := \<lparr>nd_list = NULL, nd_prev = NULL, nd_next = NULL\<rparr>)\<rparr>;
     (r, s) \<leftarrow> DynListInsertHead (if k \<noteq> NULL then k_localActiveKTimers (kthreads s k)
                                  else lt_globalActiveKTimers s) t s;
     ASSERT (r = 0);
     Some s
   }"

definition UninitKTimer :: "addr \<Rightarrow> addr \<Rightarrow> 'a kstate_scheme \<Rightarrow> 'a kstate_scheme option" where
  "UninitKTimer t k s = do {
     let s = tm_upd t (\<lambda>x. x\<lparr>kt_flags := 0\<rparr>) s;
     (r, s) \<leftarrow> DynListRemoveElement (if k \<noteq> NULL then k_localActiveKTimers (kthreads s k)
                                     else lt_globalActiveKTimers s) t s;
     ASSERT (r = 0);
     Some s
   }"

definition ArmKTimer :: "'a kstate_scheme hm_event \<Rightarrow> nat \<Rightarrow> addr \<Rightarrow> xmTime \<Rightarrow> xmTime \<Rightarrow>
    'a kstate_scheme \<Rightarrow> (s32 \<times> 'a kstate_scheme) option" where
  "ArmKTimer hm fuel t value interval s = do {
     ASSERT (t \<noteq> NULL);
     s \<leftarrow> SetHwTimer hm fuel value (tm_upd t (\<lambda>x. x\<lparr>kt_value := value, kt_interval := interval,
            kt_flags := set_flag (kt_flags x) KTIMER_ARMED\<rparr>) s);
     Some (0, s)
   }"

definition DisarmKTimer :: "addr \<Rightarrow> 'a kstate_scheme \<Rightarrow> (s32 \<times> 'a kstate_scheme) option" where
  "DisarmKTimer t s = do {
     ASSERT (t \<noteq> NULL);
     if \<not> armed s t then Some (- 1, s)
     else Some (0, tm_upd t (\<lambda>x. x\<lparr>kt_flags := clr_flag (kt_flags x) VTIMER_ARMED\<rparr>) s)
   }"

definition InitVTimer :: "addr \<Rightarrow> addr \<Rightarrow> 'a kstate_scheme \<Rightarrow> 'a kstate_scheme option" where
  "InitVTimer t k s =
     InitKTimer t (ActVTimer k) (if cpu_schedPolicy (xmcCpuCfg (cfg s)) = CYCLIC_SCHED then k else NULL) s"

section \<open>Virtual clocks and virtual timers of a thread\<close>

definition GetTimeUsecVClock :: "vClock_t \<Rightarrow> 'a kstate_scheme \<Rightarrow> xmTime \<times> 'a kstate_scheme" where
  "GetTimeUsecVClock vc s =
     (if has_flag (vc_flags vc) VCLOCK_ENABLED
      then let (now, s) = GetSysClockUsec s in (vc_acc vc + (now - vc_delta vc), s)
      else (vc_acc vc, s))"

definition ArmVTimer :: "'a kstate_scheme hm_event \<Rightarrow> nat \<Rightarrow> addr \<Rightarrow> xmTime \<Rightarrow> xmTime \<Rightarrow>
    'a kstate_scheme \<Rightarrow> (s32 \<times> 'a kstate_scheme) option" where
  "ArmVTimer hm fuel k value interval s = do {
     g \<leftarrow> k_g (kthreads s k);
     let vt = (g_vTimer g)\<lparr>vt_value := value, vt_interval := interval,
                            vt_flags := set_flag (vt_flags (g_vTimer g)) VTIMER_ARMED\<rparr>;
     let s = kt_upd k (g_upd (\<lambda>g. g\<lparr>g_vTimer := vt\<rparr>)) s;
     if has_flag (vc_flags (g_vClock g)) VCLOCK_ENABLED
     then do {
       (_, s) \<leftarrow> ArmKTimer hm fuel (vt_kTimer vt) (value - vc_acc (g_vClock g) + vc_delta (g_vClock g)) interval s;
       Some (0, s)
     } else Some (0, s)
   }"

definition DisarmVTimer :: "addr \<Rightarrow> 'a kstate_scheme \<Rightarrow> (s32 \<times> 'a kstate_scheme) option" where
  "DisarmVTimer k s = do {
     g \<leftarrow> k_g (kthreads s k);
     if \<not> has_flag (vt_flags (g_vTimer g)) KTIMER_ARMED then Some (- 1, s)
     else Some (0, kt_upd k (g_upd (\<lambda>g. g\<lparr>g_vTimer := (g_vTimer g)
            \<lparr>vt_flags := clr_flag (vt_flags (g_vTimer g)) KTIMER_ARMED\<rparr>\<rparr>)) s)
   }"

definition InitVClock :: vClock_t where
  "InitVClock = \<lparr>vc_acc = 0, vc_delta = 0, vc_flags = 0\<rparr>"

definition StopVClock :: "addr \<Rightarrow> 'a kstate_scheme \<Rightarrow> 'a kstate_scheme option" where
  "StopVClock k s = do {
     g \<leftarrow> k_g (kthreads s k);
     s \<leftarrow> (if has_flag (vt_flags (g_vTimer g)) VTIMER_ARMED
           then do { (_, s) \<leftarrow> DisarmKTimer (vt_kTimer (g_vTimer g)) s; Some s } else Some s);
     let (now, s) = GetSysClockUsec s;
     Some (kt_upd k (g_upd (\<lambda>g. g\<lparr>g_vClock := (g_vClock g)
        \<lparr>vc_flags := clr_flag (vc_flags (g_vClock g)) VCLOCK_ENABLED,
         vc_acc := vc_acc (g_vClock g) + (now - vc_delta (g_vClock g))\<rparr>\<rparr>)) s)
   }"

definition ResumeVClock :: "'a kstate_scheme hm_event \<Rightarrow> nat \<Rightarrow> addr \<Rightarrow> 'a kstate_scheme \<Rightarrow>
    'a kstate_scheme option" where
  "ResumeVClock hm fuel k s = do {
     g \<leftarrow> k_g (kthreads s k);
     let (now, s) = GetSysClockUsec s;
     let s = kt_upd k (g_upd (\<lambda>g. g\<lparr>g_vClock := (g_vClock g)
        \<lparr>vc_delta := now, vc_flags := set_flag (vc_flags (g_vClock g)) VCLOCK_ENABLED\<rparr>\<rparr>)) s;
     if has_flag (vt_flags (g_vTimer g)) VTIMER_ARMED
     then do {
       (_, s) \<leftarrow> ArmKTimer hm fuel (vt_kTimer (g_vTimer g))
         (vt_value (g_vTimer g) - vc_acc (g_vClock g) + now) (vt_interval (g_vTimer g)) s;
       Some s
     } else Some s
   }"

section \<open>Time conversions\<close>

text \<open>Hardware ticks at \<open>hz\<close> per second and microseconds.\<close>

definition USECS_PER_SEC :: xmTime where "USECS_PER_SEC = 1000000"

definition HwTime2Duration :: "xmTime \<Rightarrow> xmTime \<Rightarrow> xmTime" where
  "HwTime2Duration t hz =
     (let s = cdiv t hz in s * USECS_PER_SEC + cdiv ((t - s * hz) * USECS_PER_SEC) hz)"

definition Duration2HwTime :: "xmTime \<Rightarrow> xmTime \<Rightarrow> xmTime" where
  "Duration2HwTime d hz =
     (let s = cdiv d USECS_PER_SEC
      in s * hz + cdiv ((d - s * USECS_PER_SEC) * hz) USECS_PER_SEC)"

section \<open>Catching up\<close>

lemma catch_up_bounds:
  "i > 0 \<Longrightarrow> v \<le> c \<Longrightarrow> c < catch_up v i c \<and> catch_up v i c \<le> c + i"
proof (induction v i c rule: catch_up.induct)
  case (1 v i c)
  then show ?case by (cases "v + i \<le> c") (simp_all add: catch_up.simps [of v i c])
qed

lemma catch_up_mod: "i > 0 \<Longrightarrow> \<exists>n \<ge> 1. catch_up v i c = v + n * i"
proof (induction v i c rule: catch_up.induct)
  case (1 v i c)
  show ?case
  proof (cases "v + i \<le> c")
    case True
    with 1 obtain n where "n \<ge> 1" "catch_up (v + i) i c = (v + i) + n * i" by auto
    with True 1(2) have "catch_up v i c = v + (n + 1) * i"
      by (simp add: catch_up.simps [of v i c] algebra_simps)
    with \<open>n \<ge> 1\<close> show ?thesis by (intro exI [of _ "n + 1"]) auto
  next
    case False
    then show ?thesis by (intro exI [of _ 1]) (simp add: catch_up.simps [of v i c])
  qed
qed

lemma catch_up_closed:
  assumes "i > 0" "v \<le> c"
  shows "catch_up v i c = v + ((c - v) div i + 1) * i"
proof -
  obtain n where n: "catch_up v i c = v + n * i" using catch_up_mod [OF assms(1)] by blast
  have "(n - 1) * i \<le> c - v" "c - v < (n - 1) * i + i"
    using catch_up_bounds [OF assms] n by (auto simp: algebra_simps)
  then have "(c - v) div i = n - 1"
    by (intro int_div_pos_eq [of _ _ _ "c - v - i * (n - 1)"]) (auto simp: algebra_simps)
  with n show ?thesis by simp
qed

section \<open>What the handlers change\<close>

text \<open>Interrupt \<open>irq\<close> is pending for thread \<open>k\<close>.\<close>

definition ext_pending :: "'a kstate_scheme \<Rightarrow> addr \<Rightarrow> nat \<Rightarrow> bool" where
  "ext_pending s k irq \<longleftrightarrow> (\<exists>p. k_pct (kthreads s k) = Some p \<and> bit (pct_extIrqsPend p) irq)"

text \<open>
  A handler leaves the lists, the timers and the running thread alone, loses no pending
  interrupt and revives no halted thread.
\<close>

definition act_frame :: "'a kstate_scheme \<Rightarrow> 'a kstate_scheme \<Rightarrow> bool" where
  "act_frame s s' \<longleftrightarrow> dnode s' = dnode s \<and> dlist s' = dlist s \<and> ktimers s' = ktimers s \<and>
     cKThread s' = cKThread s \<and>
     (\<forall>k. k_localActiveKTimers (kthreads s' k) = k_localActiveKTimers (kthreads s k)) \<and>
     (\<forall>k irq. ext_pending s k irq \<longrightarrow> ext_pending s' k irq) \<and>
     (\<forall>k. k_halted (kthreads s k) \<longrightarrow> k_halted (kthreads s' k))"

definition hm_frame :: "'a kstate_scheme hm_event \<Rightarrow> bool" where
  "hm_frame hm \<longleftrightarrow> (\<forall>k s s'. hm k s = Some s' \<longrightarrow> act_frame s s')"

lemma act_frame_refl [simp]: "act_frame s s"
  by (simp add: act_frame_def)

lemma act_frame_trans: "act_frame s t \<Longrightarrow> act_frame t u \<Longrightarrow> act_frame s u"
  by (auto simp: act_frame_def)

lemma act_frame_kt_upd:
  assumes "\<And>p irq. k_pct (kthreads s k) = Some p \<Longrightarrow> bit (pct_extIrqsPend p) irq \<Longrightarrow>
      \<exists>p'. k_pct (f (kthreads s k)) = Some p' \<and> bit (pct_extIrqsPend p') irq"
    and "k_halted (kthreads s k) \<Longrightarrow> k_halted (f (kthreads s k))"
    and "k_localActiveKTimers (f (kthreads s k)) = k_localActiveKTimers (kthreads s k)"
  shows "act_frame s (kt_upd k f s)"
  using assms by (auto simp: act_frame_def ext_pending_def kt_upd_def)

lemma act_frame_pend: "act_frame s (kt_upd k (pend_ext irq) s)"
  by (rule act_frame_kt_upd) (auto simp: pend_ext_pct ext_pend_bit)

lemma SetExtIrqPending_frame: "SetExtIrqPending k irq s = Some s' \<Longrightarrow> act_frame s s'"
  by (auto simp: SetExtIrqPending_def bind_eq_Some_iff SetKThreadFlags_pend_ext act_frame_pend
      split: if_splits)

lemma k_pct_g_upd: "(\<And>g. g_partCtrlTab (f g) = g_partCtrlTab g) \<Longrightarrow> k_pct (g_upd f t) = k_pct t"
  by (cases "k_g t") (simp_all add: k_pct_def g_upd_def)

lemma k_flags_g_upd [simp]: "k_flags (g_upd f t) = k_flags t"
  "k_localActiveKTimers (g_upd f t) = k_localActiveKTimers t"
  by (simp_all add: g_upd_def)

lemma VTimerHndl_frame:
  assumes "VTimerHndl k s = Some s'" shows "act_frame s s'"
proof -
  obtain vt where "SetExtIrqPending k XM_VT_EXT_EXEC_TIMER
      (kt_upd k (g_upd (\<lambda>g. g\<lparr>g_vTimer := vt\<rparr>)) s) = Some s'"
    using assms by (auto simp: VTimerHndl_def bind_eq_Some_iff Let_def split: if_splits)
  moreover have "act_frame s (kt_upd k (g_upd (\<lambda>g. g\<lparr>g_vTimer := vt\<rparr>)) s)"
    by (rule act_frame_kt_upd) (simp_all add: k_pct_g_upd k_halted_def)
  ultimately show ?thesis
    using SetExtIrqPending_frame act_frame_trans by blast
qed

lemma timer_act_frame:
  assumes "timer_act hm a s = Some s'" "hm_frame hm"
  shows "act_frame s s'"
proof (cases a)
  case (ActWatchdog k)
  with assms show ?thesis
    by (auto simp: timer_act_def KThrWatchdogTimerHndl_def bind_eq_Some_iff hm_frame_def
        intro: act_frame_trans SetExtIrqPending_frame)
next
  case ActSchedPending
  with assms show ?thesis
    by (auto simp: timer_act_def SetSchedPending_def act_frame_def ext_pending_def)
qed (use assms in \<open>auto simp: timer_act_def KThrTimerHndl_def
      intro: VTimerHndl_frame SetExtIrqPending_frame\<close>)

text \<open>The handler of a thread's own timer leaves the interrupt pending unless it is halted.\<close>

lemma SetExtIrqPending_pends:
  assumes "SetExtIrqPending k irq s = Some s'"
  shows "k_halted (kthreads s' k) \<or> ext_pending s' k irq"
proof -
  have irq: "irq \<le> 31" using assms by (auto simp: SetExtIrqPending_def bind_eq_Some_iff ext_irq_defs)
  show ?thesis
  proof (cases "k_halted (kthreads s k)")
    case True
    then show ?thesis using SetExtIrqPending_frame [OF assms] by (simp add: act_frame_def)
  next
    case False
    then have p: "k_pct (kthreads s k) \<noteq> None" and s': "s' = kt_upd k (pend_ext irq) s"
      using assms by (auto simp: SetExtIrqPending_def bind_eq_Some_iff SetKThreadFlags_pend_ext
          AreKThreadFlagsSet_iff k_halted_def split: if_splits)
    then show ?thesis
      using irq by (auto simp: ext_pending_def pend_ext_pct ext_pend_bit)
  qed
qed

section \<open>What the timer engine keeps\<close>

text \<open>
  A relation between states that every write of the timer engine respects: then the engine
  respects it, whatever timers fire, as long as the health monitor does. The components above
  state what they rely on across a call of ArmKTimer as such a relation.
\<close>

locale engine_frame =
  fixes R :: "'a kstate_scheme \<Rightarrow> 'a kstate_scheme \<Rightarrow> bool"
  assumes refl: "R s s"
    and trans: "R s t \<Longrightarrow> R t u \<Longrightarrow> R s u"
    and kthreads: "R s (s\<lparr>kthreads := th\<rparr>)"
    and ktimers: "R s (s\<lparr>ktimers := tm\<rparr>)"
    and clock: "R s (s\<lparr>clk_n := n\<rparr>)"
    and cpu: "R s (s\<lparr>lt_flags := f, lt_nextAct := a\<rparr>)" "R s (s\<lparr>irqNestingCounter := i\<rparr>)"
    and hw: "R s (s\<lparr>hw_prog := p\<rparr>)"
begin

lemma flags: "R s (s\<lparr>lt_flags := f\<rparr>)"
  using cpu(1) [where s = s and f = f and a = "lt_nextAct s"] by simp

lemma upd: "R s (kt_upd k f s)" "R s (tm_upd t g s)"
  by (simp_all add: kt_upd_def tm_upd_def kthreads ktimers)

lemma only: "kthreads_only s s' \<Longrightarrow> R s s'"
  by (metis kthreads kthreads_only_def)

lemma ext_irq: "SetExtIrqPending k irq s = Some s' \<Longrightarrow> R s s'"
  by (rule only) (rule SetExtIrqPending_only)

lemma vtimer: "VTimerHndl k s = Some s' \<Longrightarrow> R s s'"
  by (auto simp: VTimerHndl_def bind_eq_Some_iff Let_def split: if_splits
      intro: trans [OF upd(1) ext_irq])

lemma act:
  assumes "timer_act hm a s = Some s'" "\<And>k s s'. hm k s = Some s' \<Longrightarrow> R s s'"
  shows "R s s'"
  using assms
  by (auto simp: timer_act_def KThrTimerHndl_def KThrWatchdogTimerHndl_def SetSchedPending_def
      bind_eq_Some_iff cpu(2) split: timer_action.splits intro: vtimer ext_irq trans [OF ext_irq])

lemma visit:
  assumes "ktimer_visit hm c t n s = Some (n', s')" "\<And>k s s'. hm k s = Some s' \<Longrightarrow> R s s'"
  shows "R s s'"
proof -
  have a: "R s u" if "(case kt_action (ktimers s t) of None \<Rightarrow> Some s | Some a \<Rightarrow> timer_act hm a s) = Some u" for u
    using that assms(2) by (auto split: option.splits intro: refl act)
  show ?thesis
    using assms(1)
    by (auto simp: ktimer_visit_def bind_eq_Some_iff Let_def refl split: if_splits dest!: a intro: trans [OF _ upd(2)])
qed

lemma loop:
  assumes "traverse_loop hm c m t n s = Some (n', s')" "\<And>k s s'. hm k s = Some s' \<Longrightarrow> R s s'"
  shows "R s s'"
  using assms(1)
proof (induction m arbitrary: t n s)
  case (Suc m)
  then obtain n1 s1 where "ktimer_visit hm c t n s = Some (n1, s1)"
    "traverse_loop hm c m (nd_next (dnode s1 t)) n1 s1 = Some (n', s')"
    by (auto simp: bind_eq_Some_iff)
  then show ?case using Suc.IH visit assms(2) trans by blast
qed (simp add: refl)

lemma traverse:
  assumes "TraverseKTimerQueue hm l c s = Some (n', s')" "\<And>k s s'. hm k s = Some s' \<Longrightarrow> R s s'"
  shows "R s s'"
  using assms unfolding TraverseKTimerQueue_def by (rule loop)

lemma scan:
  assumes "timer_scan hm s = Some (n, s')" and hm: "\<And>k s s'. hm k s = Some s' \<Longrightarrow> R s s'"
  shows "R s s'"
proof -
  have f: "R s (s\<lparr>lt_flags := x, clk_n := m\<rparr>)" for x m
    using trans [OF flags clock] by simp
  show ?thesis
    using assms(1)
    by (auto simp: timer_scan_def GetSysClockUsec_def Let_def bind_eq_Some_iff split: if_splits
        dest!: traverse [OF _ hm] intro: trans [OF f] trans)
qed

lemma programmed: "R s (s\<lparr>lt_flags := x, clk_n := m, lt_nextAct := a, hw_prog := p\<rparr>)"
proof -
  have "s\<lparr>lt_flags := x, clk_n := m, lt_nextAct := a, hw_prog := p\<rparr> =
      s\<lparr>lt_flags := x, lt_nextAct := a, clk_n := m, hw_prog := p\<rparr>" by simp
  then show ?thesis using trans [OF trans [OF cpu(1) clock] hw] by (simp only:)
qed

lemma set_hw:
  assumes "SetHwTimer hm fuel n s = Some s'" and hm: "\<And>k s s'. hm k s = Some s' \<Longrightarrow> R s s'"
  shows "R s s'"
  using assms(1)
proof (induction fuel arbitrary: n s)
  case 0
  show ?case
    using 0
    by (auto simp: SetHwTimer.simps [of hm 0] GetSysClockUsec_def Let_def bind_eq_Some_iff refl programmed
        split: if_splits)
next
  case (Suc fuel)
  have f2: "R s (s\<lparr>lt_flags := x, lt_nextAct := a, clk_n := m\<rparr>)" for x a m
    using trans [OF cpu(1) clock] by simp
  show ?case
    using Suc.prems
    by (auto simp: SetHwTimer.simps [of hm "Suc fuel"] GetSysClockUsec_def Let_def bind_eq_Some_iff refl programmed
        split: if_splits dest!: Suc.IH scan [OF _ hm] intro: trans [OF trans [OF f2]])
qed

lemma arm:
  assumes "ArmKTimer hm fuel t v i s = Some (r, s')" and hm: "\<And>k s s'. hm k s = Some s' \<Longrightarrow> R s s'"
  shows "R s s'"
  using assms(1)
  by (auto simp: ArmKTimer_def bind_eq_Some_iff dest!: set_hw [OF _ hm] intro: trans [OF upd(2)])

end

section \<open>One pass over the queue\<close>

text \<open>What a pass at time \<open>c\<close> makes of one timer.\<close>

definition due :: "xmTime \<Rightarrow> kTimer_t \<Rightarrow> bool" where
  "due c x \<longleftrightarrow> has_flag (kt_flags x) KTIMER_ARMED \<and> kt_value x \<le> c"

definition fired :: "xmTime \<Rightarrow> kTimer_t \<Rightarrow> kTimer_t" where
  "fired c x = (if \<not> due c x then x
     else if kt_interval x > 0 then x\<lparr>kt_value := catch_up (kt_value x) (kt_interval x) c\<rparr>
     else x\<lparr>kt_flags := clr_flag (kt_flags x) KTIMER_ARMED\<rparr>)"

definition next_of :: "kTimer_t \<Rightarrow> xmTime \<Rightarrow> xmTime" where
  "next_of x n = (if has_flag (kt_flags x) KTIMER_ARMED then min n (kt_value x) else n)"

lemma fired_not_due: "\<not> due c (fired c x)"
  using catch_up_bounds [of "kt_interval x" "kt_value x" c]
  by (auto simp: fired_def due_def flag_simps)

lemma ktimer_visit_eq:
  assumes "ktimer_visit hm c t n s = Some (n', s')" "hm_frame hm"
  shows "n' = next_of (fired c (ktimers s t)) n"
    and "ktimers s' = (ktimers s)(t := fired c (ktimers s t))"
    and "dnode s' = dnode s" "dlist s' = dlist s"
    and "cKThread s' = cKThread s"
      "\<And>k. k_localActiveKTimers (kthreads s' k) = k_localActiveKTimers (kthreads s k)"
    and "\<And>k irq. ext_pending s k irq \<Longrightarrow> ext_pending s' k irq"
    and "\<And>k. k_halted (kthreads s k) \<Longrightarrow> k_halted (kthreads s' k)"
    and "\<And>k. \<lbrakk>due c (ktimers s t); kt_action (ktimers s t) = Some (ActKThrTimer k)\<rbrakk> \<Longrightarrow>
      k_halted (kthreads s' k) \<or> ext_pending s' k XM_VT_EXT_HW_TIMER"
proof -
  let ?x = "ktimers s t"
  have "n' = next_of (fired c ?x) n \<and> ktimers s' = (ktimers s)(t := fired c ?x) \<and>
    dnode s' = dnode s \<and> dlist s' = dlist s \<and> cKThread s' = cKThread s \<and>
    (\<forall>k. k_localActiveKTimers (kthreads s' k) = k_localActiveKTimers (kthreads s k)) \<and>
    (\<forall>k irq. ext_pending s k irq \<longrightarrow> ext_pending s' k irq) \<and>
    (\<forall>k. k_halted (kthreads s k) \<longrightarrow> k_halted (kthreads s' k)) \<and>
    (\<forall>k. due c ?x \<and> kt_action ?x = Some (ActKThrTimer k) \<longrightarrow>
      k_halted (kthreads s' k) \<or> ext_pending s' k XM_VT_EXT_HW_TIMER)"
  proof (cases "due c ?x")
    case False
    then show ?thesis
      using assms(1) by (auto simp: ktimer_visit_def armed_def due_def fired_def next_of_def split: if_splits)
  next
    case True
    then obtain s1 where s1: "(case kt_action ?x of None \<Rightarrow> Some s | Some a \<Rightarrow> timer_act hm a s) = Some s1"
      and res: "(n', s') = (if kt_interval (ktimers s1 t) > 0
          then (let v = catch_up (kt_value (ktimers s1 t)) (kt_interval (ktimers s1 t)) c
                in (if n > v then v else n, tm_upd t (\<lambda>x. x\<lparr>kt_value := v\<rparr>) s1))
          else (n, tm_upd t (\<lambda>x. x\<lparr>kt_flags := clr_flag (kt_flags x) KTIMER_ARMED\<rparr>) s1))"
      using assms(1) by (auto simp: ktimer_visit_def armed_def due_def bind_eq_Some_iff Let_def split: if_splits)
    have fr: "act_frame s s1"
      using s1 timer_act_frame [OF _ assms(2)] by (auto split: option.splits)
    have pend: "k_halted (kthreads s1 k) \<or> ext_pending s1 k XM_VT_EXT_HW_TIMER"
      if "kt_action ?x = Some (ActKThrTimer k)" for k
      using s1 that by (auto simp: timer_act_def KThrTimerHndl_def dest: SetExtIrqPending_pends)
    have same: "ext_pending s' k irq = ext_pending s1 k irq" "kthreads s' = kthreads s1"
      "dnode s' = dnode s1" "dlist s' = dlist s1" "cKThread s' = cKThread s1" for k irq
      using res by (auto simp: ext_pending_def tm_upd_def Let_def split: if_splits)
    have "n' = next_of (fired c ?x) n \<and> ktimers s' = (ktimers s)(t := fired c ?x)"
      using True fr res
      by (auto simp: act_frame_def fired_def next_of_def due_def tm_upd_def Let_def flag_simps min_def
          split: if_splits)
    then show ?thesis using same fr pend by (simp add: act_frame_def)
  qed
  then show "n' = next_of (fired c ?x) n" "ktimers s' = (ktimers s)(t := fired c ?x)"
    "dnode s' = dnode s" "dlist s' = dlist s" "cKThread s' = cKThread s"
    "\<And>k. k_localActiveKTimers (kthreads s' k) = k_localActiveKTimers (kthreads s k)"
    "\<And>k irq. ext_pending s k irq \<Longrightarrow> ext_pending s' k irq"
    "\<And>k. k_halted (kthreads s k) \<Longrightarrow> k_halted (kthreads s' k)"
    "\<And>k. \<lbrakk>due c ?x; kt_action ?x = Some (ActKThrTimer k)\<rbrakk> \<Longrightarrow>
      k_halted (kthreads s' k) \<or> ext_pending s' k XM_VT_EXT_HW_TIMER"
    by blast+
qed

text \<open>The specification of a pass over the timers \<open>xs\<close>, each once.\<close>

definition pass_ok :: "xmTime \<Rightarrow> addr list \<Rightarrow> xmTime \<Rightarrow> 'a kstate_scheme \<Rightarrow> xmTime \<Rightarrow>
    'a kstate_scheme \<Rightarrow> bool" where
  "pass_ok c xs n s n' s' \<longleftrightarrow>
     ktimers s' = (\<lambda>t. if t \<in> set xs then fired c (ktimers s t) else ktimers s t) \<and>
     n' = fold next_of (map (\<lambda>t. fired c (ktimers s t)) xs) n \<and>
     dnode s' = dnode s \<and> dlist s' = dlist s \<and> cKThread s' = cKThread s \<and>
     (\<forall>k. k_localActiveKTimers (kthreads s' k) = k_localActiveKTimers (kthreads s k)) \<and>
     (\<forall>k irq. ext_pending s k irq \<longrightarrow> ext_pending s' k irq) \<and>
     (\<forall>k. k_halted (kthreads s k) \<longrightarrow> k_halted (kthreads s' k)) \<and>
     (\<forall>t \<in> set xs. \<forall>k. due c (ktimers s t) \<and> kt_action (ktimers s t) = Some (ActKThrTimer k) \<longrightarrow>
        k_halted (kthreads s' k) \<or> ext_pending s' k XM_VT_EXT_HW_TIMER)"

lemma traverse_loop_spec:
  assumes "traverse_loop hm c (length xs) (hd (xs @ [NULL])) n s = Some (n', s')" "hm_frame hm"
    and "dl_path s xs" "distinct xs"
  shows "pass_ok c xs n s n' s'"
  using assms
proof (induction xs arbitrary: n s)
  case Nil
  then show ?case by (simp add: pass_ok_def)
next
  case (Cons t ts)
  obtain n1 s1 where v: "ktimer_visit hm c t n s = Some (n1, s1)"
    and rest: "traverse_loop hm c (length ts) (nd_next (dnode s1 t)) n1 s1 = Some (n', s')"
    using Cons.prems(1) by (auto simp: bind_eq_Some_iff)
  note vis = ktimer_visit_eq [OF v Cons.prems(2)]
  have path: "dl_path s1 ts"
    using Cons.prems(3) dl_path_next_only [OF vis(3)] by (cases ts) auto
  have "traverse_loop hm c (length ts) (hd (ts @ [NULL])) n1 s1 = Some (n', s')"
    using rest vis(3) Cons.prems(3) by (cases ts) (auto simp: dl_lnk_def)
  from Cons.IH [OF this Cons.prems(2) path] Cons.prems(4)
  have ih: "pass_ok c ts n1 s1 n' s'" by simp
  have notin: "t \<notin> set ts" using Cons.prems(4) by simp
  have m: "map (\<lambda>t. fired c (ktimers s1 t)) ts = map (\<lambda>t. fired c (ktimers s t)) ts"
    using notin by (auto simp: vis(2))
  show ?case
    unfolding pass_ok_def
  proof (intro conjI)
    show "ktimers s' = (\<lambda>u. if u \<in> set (t # ts) then fired c (ktimers s u) else ktimers s u)"
      using ih notin by (auto simp: pass_ok_def vis(2) fun_eq_iff)
    show "n' = fold next_of (map (\<lambda>t. fired c (ktimers s t)) (t # ts)) n"
      using ih m vis(1) by (simp add: pass_ok_def)
    show "dnode s' = dnode s" "dlist s' = dlist s" "cKThread s' = cKThread s"
      "\<forall>k. k_localActiveKTimers (kthreads s' k) = k_localActiveKTimers (kthreads s k)"
      using ih vis(3-6) by (auto simp: pass_ok_def)
    show "\<forall>k irq. ext_pending s k irq \<longrightarrow> ext_pending s' k irq"
      "\<forall>k. k_halted (kthreads s k) \<longrightarrow> k_halted (kthreads s' k)"
      using ih vis(7,8) by (auto simp: pass_ok_def)
    show "\<forall>u \<in> set (t # ts). \<forall>k. due c (ktimers s u) \<and> kt_action (ktimers s u) = Some (ActKThrTimer k) \<longrightarrow>
        k_halted (kthreads s' k) \<or> ext_pending s' k XM_VT_EXT_HW_TIMER"
    proof (intro ballI allI impI)
      fix u k assume u: "u \<in> set (t # ts)"
        and d: "due c (ktimers s u) \<and> kt_action (ktimers s u) = Some (ActKThrTimer k)"
      show "k_halted (kthreads s' k) \<or> ext_pending s' k XM_VT_EXT_HW_TIMER"
      proof (cases "u = t")
        case True
        then show ?thesis using vis(9) d ih unfolding pass_ok_def by blast
      next
        case False
        then show ?thesis using u d ih vis(2) by (auto simp: pass_ok_def)
      qed
    qed
  qed
qed

lemma TraverseKTimerQueue_spec:
  assumes "TraverseKTimerQueue hm l c s = Some (n, s')" "hm_frame hm" "dl_rep s l xs"
  shows "pass_ok c xs MAX_XMTIME s n s'"
proof -
  have "traverse_loop hm c (length xs) (hd (xs @ [NULL])) MAX_XMTIME s = Some (n, s')"
    using assms(1) dl_rep_no [OF assms(3)] dl_rep_head [OF assms(3)]
    by (auto simp: TraverseKTimerQueue_def split: if_splits)
  moreover have "dl_path s xs"
    using dl_rep_cycD [OF assms(3)] by (cases xs) (auto simp: dl_cyc_snoc_head)
  ultimately show ?thesis
    using traverse_loop_spec assms(2) dl_rep_dist [OF assms(3)] by blast
qed

lemma fold_next_le:
  "fold next_of xs n \<le> n \<and>
   (\<forall>x \<in> set xs. has_flag (kt_flags x) KTIMER_ARMED \<longrightarrow> fold next_of xs n \<le> kt_value x)"
proof (induction xs arbitrary: n)
  case (Cons x xs)
  have "fold next_of xs (next_of x n) \<le> next_of x n" using Cons.IH by blast
  then show ?case using Cons.IH [of "next_of x n"] by (auto simp: next_of_def)
qed simp

lemma fold_next_attained:
  "fold next_of xs n = n \<or>
   (\<exists>x \<in> set xs. has_flag (kt_flags x) KTIMER_ARMED \<and> fold next_of xs n = kt_value x)"
proof (induction xs arbitrary: n)
  case (Cons x xs)
  then show ?case using Cons.IH [of "next_of x n"] by (auto simp: next_of_def min_def split: if_splits)
qed simp

lemma pass_next:
  assumes "pass_ok c xs n s n' s'" "c < n"
  shows "c < n'" "n' \<le> n"
    and "t \<in> set xs \<Longrightarrow> armed s' t \<Longrightarrow> n' \<le> kt_value (ktimers s' t)"
    and "n' = n \<or> (\<exists>t \<in> set xs. armed s' t \<and> n' = kt_value (ktimers s' t))"
proof -
  let ?ys = "map (\<lambda>t. fired c (ktimers s t)) xs"
  have n': "n' = fold next_of ?ys n" and k: "ktimers s' u = fired c (ktimers s u)" if "u \<in> set xs" for u
    using assms(1) that by (auto simp: pass_ok_def)
  have n': "n' = fold next_of ?ys n" using assms(1) by (simp add: pass_ok_def)
  show at: "n' = n \<or> (\<exists>t \<in> set xs. armed s' t \<and> n' = kt_value (ktimers s' t))"
    using fold_next_attained [of ?ys n] k n' by (auto simp: armed_def)
  show "n' \<le> n" using fold_next_le [of ?ys n] n' by simp
  show "n' \<le> kt_value (ktimers s' t)" if "t \<in> set xs" "armed s' t"
    using fold_next_le [of ?ys n] n' k that by (auto simp: armed_def)
  have "c < kt_value (ktimers s' t)" if "t \<in> set xs" "armed s' t" for t
    using fired_not_due [of c "ktimers s t"] k [OF that(1)] that(2) by (auto simp: due_def armed_def)
  then show "c < n'" using at assms(2) by auto
qed

section \<open>Programming the hardware timer\<close>

text \<open>
  The next expiry lies in the future: the driver is programmed once with the clamped
  distance, and the recorded deadline is the programmed one.
\<close>

lemma SetHwTimer_future:
  assumes "nextAct > 0" "clk s (clk_n s) \<le> nextAct"
    and "\<not> (has_flag (lt_flags s) NEXT_ACT_IS_VALID \<and> nextAct \<ge> lt_nextAct s)"
  shows "SetHwTimer hm fuel nextAct s = Some (s\<lparr>clk_n := Suc (clk_n s),
      lt_flags := set_flag (lt_flags s) NEXT_ACT_IS_VALID,
      lt_nextAct := hw_clamp s (nextAct - clk s (clk_n s)) + clk s (clk_n s),
      hw_prog := Some (hw_clamp s (nextAct - clk s (clk_n s)))\<rparr>)"
proof -
  have c: "(has_flag (lt_flags s) NEXT_ACT_IS_VALID \<and> nextAct \<ge> lt_nextAct s) = False"
    using assms(3) by blast
  show ?thesis
    using assms(1,2) by (simp add: SetHwTimer.simps c GetSysClockUsec_def Let_def hw_clamp_def)
qed

lemma SetHwTimer_kept:
  assumes "nextAct > 0" "has_flag (lt_flags s) NEXT_ACT_IS_VALID" "nextAct \<ge> lt_nextAct s"
  shows "SetHwTimer hm fuel nextAct s = Some s"
  using assms by (simp add: SetHwTimer.simps)

lemma SetHwTimer_zero: "SetHwTimer hm fuel 0 s = Some s"
  by (simp add: SetHwTimer.simps)

lemma hw_clamp_bounds: "hw_min s \<le> hw_max s \<Longrightarrow> hw_min s \<le> hw_clamp s t \<and> hw_clamp s t \<le> hw_max s"
  by (auto simp: hw_clamp_def Let_def)

lemma hw_clamp_le: "hw_min s \<le> t \<Longrightarrow> hw_clamp s t \<le> t"
  by (auto simp: hw_clamp_def Let_def)

text \<open>SetHwTimer touches the clock position and the CPU's timer fields only.\<close>

definition hw_frame :: "'a kstate_scheme \<Rightarrow> 'a kstate_scheme \<Rightarrow> bool" where
  "hw_frame s s' \<longleftrightarrow> (\<exists>n f a p. s' = s\<lparr>clk_n := n, lt_flags := f, lt_nextAct := a, hw_prog := p\<rparr>)"

lemma hw_frame_refl [simp]: "hw_frame s s"
  unfolding hw_frame_def
  by (intro exI [of _ "clk_n s"] exI [of _ "lt_flags s"] exI [of _ "lt_nextAct s"] exI [of _ "hw_prog s"]) simp

lemma SetHwTimer_future_frame:
  assumes "nextAct \<ge> 0" "clk s (clk_n s) \<le> nextAct"
  shows "\<exists>s'. SetHwTimer hm fuel nextAct s = Some s' \<and> hw_frame s s'"
proof (cases "nextAct = 0 \<or> (has_flag (lt_flags s) NEXT_ACT_IS_VALID \<and> nextAct \<ge> lt_nextAct s)")
  case True
  then have "SetHwTimer hm fuel nextAct s = Some s"
    using assms(1) by (auto simp: SetHwTimer.simps)
  then show ?thesis by simp
next
  case False
  then show ?thesis
    using SetHwTimer_future [of nextAct s hm fuel] assms by (auto simp: hw_frame_def)
qed

text \<open>
  The scan of TimerHandler reads the clock once; the deadline it returns is later than that
  reading, so the handler returns without calling itself as long as the clock has not passed
  the deadline when SetHwTimer reads it.
\<close>

lemma timer_scan_future:
  assumes scan: "timer_scan hm s = Some (n, s')" and hm: "hm_frame hm"
    and inv: "dl_inv s f" "f (lt_globalActiveKTimers s) = Some xs"
      "f (k_localActiveKTimers (kthreads s (cKThread s))) = Some ys"
    and c: "clk s (clk_n s) < MAX_XMTIME"
  shows "clk s (clk_n s) < n" "n \<le> MAX_XMTIME"
proof -
  let ?c = "clk s (clk_n s)"
  let ?s0 = "s\<lparr>lt_flags := clr_flag (lt_flags s) NEXT_ACT_IS_VALID, clk_n := Suc (clk_n s)\<rparr>"
  obtain n1 s1 where g: "TraverseKTimerQueue hm (lt_globalActiveKTimers s) ?c ?s0 = Some (n1, s1)"
    and l: "if k_g (kthreads s1 (cKThread s1)) \<noteq> None
      then \<exists>n2. TraverseKTimerQueue hm (k_localActiveKTimers (kthreads s1 (cKThread s1))) ?c s1 = Some (n2, s')
             \<and> n = (if n2 \<noteq> 0 \<and> n2 < n1 then n2 else n1)
      else n = n1"
    using scan by (auto simp: timer_scan_def GetSysClockUsec_def Let_def bind_eq_Some_iff split: if_splits)
  have rep0: "dl_inv ?s0 f" using inv(1) dl_inv_cong [of ?s0 s f] by simp
  then have xs: "dl_rep ?s0 (lt_globalActiveKTimers s) xs"
    using inv(2) by (simp add: dl_inv_def)
  note p1 = TraverseKTimerQueue_spec [OF g hm xs]
  have n1: "?c < n1" "n1 \<le> MAX_XMTIME" using pass_next [OF p1 c] by auto
  show "?c < n" "n \<le> MAX_XMTIME"
  proof -
    have "?c < n \<and> n \<le> MAX_XMTIME"
    proof (cases "k_g (kthreads s1 (cKThread s1)) = None")
      case True
      then show ?thesis using l n1 by simp
    next
      case False
      let ?l = "k_localActiveKTimers (kthreads s1 (cKThread s1))"
      obtain n2 where n2: "TraverseKTimerQueue hm ?l ?c s1 = Some (n2, s')"
        "n = (if n2 \<noteq> 0 \<and> n2 < n1 then n2 else n1)" using l False by auto
      have "dl_inv s1 f" and l: "?l = k_localActiveKTimers (kthreads s (cKThread s))"
        using rep0 p1 dl_inv_cong [of s1 ?s0 f] by (simp_all add: pass_ok_def)
      then have "dl_rep s1 ?l ys"
        using inv(3) by (simp add: dl_inv_def)
      from pass_next [OF TraverseKTimerQueue_spec [OF n2(1) hm this] c] n1 n2(2)
      show ?thesis by auto
    qed
    then show "?c < n" "n \<le> MAX_XMTIME" by auto
  qed
qed

end
