(* ===== verification/Pic.thy ===== *)
theory Pic
  imports Prelude
begin

text \<open>
  The interrupt controller, core/kernel/arch/pic.c: two chained 8259 chips of eight lines each,
  the mask bytes the kernel keeps for them, the table of the controller's operations of
  core/include/irqs.h and the mask word of core/kernel/arch/irqs.c. The writes to the I/O ports
  are recorded; the last byte written to the data port of a chip is the mask the chip has.
\<close>

section \<open>State\<close>

text \<open>The functions an entry of \<open>hwIrqCtrl\<close> can point to.\<close>

datatype pic_fn = FnEnableIrq | FnDisableIrq | FnMaskAndAckIrq

record hwIrqCtrl_t =
  hc_Enable :: "pic_fn option"
  hc_Disable :: "pic_fn option"
  hc_Ack :: "pic_fn option"
  hc_End :: "pic_fn option"
  hc_Force :: "pic_fn option"
  hc_Clear :: "pic_fn option"

text \<open>\<open>pic_out\<close> is the sequence of port writes, the last one first.\<close>

record pic =
  cMasterMask :: u8
  cSlaveMask :: u8
  x86HwIrqsMask :: u32
  hwIrqCtrl :: "hwIrqCtrl_t list"
  pic_out :: "(u8 \<times> u16) list"

definition CTLR2_IRQ :: nat where "CTLR2_IRQ = 2"
definition LAST_IRQ_IN_MASTER :: nat where "LAST_IRQ_IN_MASTER = 7"
definition PIC_IRQS :: nat where "PIC_IRQS = 16"
definition CONFIG_NO_HWIRQS :: nat where "CONFIG_NO_HWIRQS = 16"
definition master_icw :: u16 where "master_icw = 0x20"
definition master_ocw :: u16 where "master_ocw = 0x21"
definition slave_icw :: u16 where "slave_icw = 0xa0"
definition slave_ocw :: u16 where "slave_ocw = 0xa1"
definition NON_SPEC_EOI :: u8 where "NON_SPEC_EOI = 0x20"

lemmas port_defs = master_icw_def master_ocw_def slave_icw_def slave_ocw_def

definition OutB :: "u8 \<Rightarrow> u16 \<Rightarrow> pic \<Rightarrow> pic" where
  "OutB v port p = p\<lparr>pic_out := (v, port) # pic_out p\<rparr>"

text \<open>\<open>1<<irq\<close>\<close>

definition line8 :: "nat \<Rightarrow> u8" where "line8 i = push_bit i 1"
definition line32 :: "nat \<Rightarrow> u32" where "line32 i = push_bit i 1"

section \<open>Operations\<close>

definition PicEnableIrq :: "nat \<Rightarrow> pic \<Rightarrow> pic" where
  "PicEnableIrq irq p =
     (let p = (if irq \<le> LAST_IRQ_IN_MASTER then
                 let p = p\<lparr>cMasterMask := clr_flag (cMasterMask p) (line8 irq)\<rparr>
                 in OutB (cMasterMask p) master_ocw p
               else
                 let p = p\<lparr>cMasterMask := clr_flag (cMasterMask p) (line8 CTLR2_IRQ)\<rparr>;
                     p = p\<lparr>cSlaveMask := clr_flag (cSlaveMask p) (line8 (irq - LAST_IRQ_IN_MASTER - 1))\<rparr>;
                     p = OutB (cMasterMask p) master_ocw p
                 in OutB (cSlaveMask p) slave_ocw p)
      in p\<lparr>x86HwIrqsMask := clr_flag (x86HwIrqsMask p) (line32 irq)\<rparr>)"

definition HwIrqSetMask :: "u32 \<Rightarrow> pic \<Rightarrow> pic" where
  "HwIrqSetMask m p =
     (let p = p\<lparr>cMasterMask := ucast (m AND 0xff)\<rparr>;
          p = p\<lparr>cSlaveMask := ucast (drop_bit 8 m AND 0xff)\<rparr>;
          p = (if cSlaveMask p \<noteq> 0xff then p\<lparr>cMasterMask := clr_flag (cMasterMask p) (line8 CTLR2_IRQ)\<rparr> else p);
          p = OutB (cMasterMask p) master_ocw p
      in OutB (cSlaveMask p) slave_ocw p)"

definition HwIrqGetMask :: "pic \<Rightarrow> u32" where
  "HwIrqGetMask p = x86HwIrqsMask p"

definition PicDisableIrq :: "nat \<Rightarrow> pic \<Rightarrow> pic" where
  "PicDisableIrq irq p =
     (let p = (if irq \<le> LAST_IRQ_IN_MASTER then
                 let p = p\<lparr>cMasterMask := set_flag (cMasterMask p) (line8 irq)\<rparr>
                 in OutB (cMasterMask p) master_ocw p
               else
                 let p = p\<lparr>cSlaveMask := set_flag (cSlaveMask p) (line8 (irq - LAST_IRQ_IN_MASTER - 1))\<rparr>;
                     p = (if cSlaveMask p = 0
                          then let p = p\<lparr>cMasterMask := set_flag (cMasterMask p) (line8 CTLR2_IRQ)\<rparr>
                               in OutB (cMasterMask p) master_ocw p
                          else p)
                 in OutB (cSlaveMask p) slave_ocw p)
      in p\<lparr>x86HwIrqsMask := set_flag (x86HwIrqsMask p) (line32 irq)\<rparr>)"

definition PicMaskAndAckIrq :: "nat \<Rightarrow> pic \<Rightarrow> pic" where
  "PicMaskAndAckIrq irq p =
     (let p = (if irq \<le> LAST_IRQ_IN_MASTER then
                 let p = p\<lparr>cMasterMask := set_flag (cMasterMask p) (line8 irq)\<rparr>;
                     p = OutB (cMasterMask p) master_ocw p
                 in OutB NON_SPEC_EOI master_icw p
               else
                 let p = p\<lparr>cSlaveMask := set_flag (cSlaveMask p) (line8 (irq - LAST_IRQ_IN_MASTER - 1))\<rparr>;
                     p = (if cSlaveMask p = 0
                          then let p = p\<lparr>cMasterMask := set_flag (cMasterMask p) (line8 CTLR2_IRQ)\<rparr>
                               in OutB (cMasterMask p) master_ocw p
                          else p);
                     p = OutB (cSlaveMask p) slave_ocw p;
                     p = OutB NON_SPEC_EOI slave_icw p
                 in OutB NON_SPEC_EOI master_icw p)
      in p\<lparr>x86HwIrqsMask := set_flag (x86HwIrqsMask p) (line32 irq)\<rparr>)"

definition PIC_ICW1 :: u8 where "PIC_ICW1 = 0x11"
definition PICM_ICW3 :: u8 where "PICM_ICW3 = 4"
definition PICS_ICW3 :: u8 where "PICS_ICW3 = 2"
definition PIC_ICW4 :: u8 where "PIC_ICW4 = 1"

definition pic_ctrl :: hwIrqCtrl_t where
  "pic_ctrl = \<lparr>hc_Enable = Some FnEnableIrq, hc_Disable = Some FnDisableIrq, hc_Ack = Some FnMaskAndAckIrq,
     hc_End = Some FnEnableIrq, hc_Force = None, hc_Clear = None\<rparr>"

definition InitPic :: "u8 \<Rightarrow> u8 \<Rightarrow> pic \<Rightarrow> pic" where
  "InitPic master_base slave_base p =
     (let p = OutB PIC_ICW1 master_icw p; p = OutB master_base master_ocw p;
          p = OutB PICM_ICW3 master_ocw p; p = OutB PIC_ICW4 master_ocw p;
          p = OutB PIC_ICW1 slave_icw p; p = OutB slave_base slave_ocw p;
          p = OutB PICS_ICW3 slave_ocw p; p = OutB PIC_ICW4 slave_ocw p;
          p = OutB NON_SPEC_EOI master_icw p; p = OutB NON_SPEC_EOI slave_icw p;
          p = OutB (cMasterMask p) master_ocw p; p = OutB (cSlaveMask p) slave_ocw p
      in p\<lparr>hwIrqCtrl := replicate PIC_IRQS pic_ctrl @ drop PIC_IRQS (hwIrqCtrl p)\<rparr>)"

section \<open>The table of operations\<close>

fun pic_run :: "pic_fn \<Rightarrow> nat \<Rightarrow> pic \<Rightarrow> pic" where
  "pic_run FnEnableIrq irq p = PicEnableIrq irq p"
| "pic_run FnDisableIrq irq p = PicDisableIrq irq p"
| "pic_run FnMaskAndAckIrq irq p = PicMaskAndAckIrq irq p"

text \<open>The shape of the six calls: nothing for a line outside the table or without the operation.\<close>

definition hw_call :: "(hwIrqCtrl_t \<Rightarrow> pic_fn option) \<Rightarrow> nat \<Rightarrow> pic \<Rightarrow> pic" where
  "hw_call op irq p =
     (if irq < CONFIG_NO_HWIRQS then
        (case aget (hwIrqCtrl p) irq of None \<Rightarrow> p
         | Some c \<Rightarrow> (case op c of None \<Rightarrow> p | Some f \<Rightarrow> pic_run f irq p))
      else p)"

definition HwDisableIrq :: "nat \<Rightarrow> pic \<Rightarrow> pic" where "HwDisableIrq = hw_call hc_Disable"
definition HwEnableIrq :: "nat \<Rightarrow> pic \<Rightarrow> pic" where "HwEnableIrq = hw_call hc_Enable"
definition HwAckIrq :: "nat \<Rightarrow> pic \<Rightarrow> pic" where "HwAckIrq = hw_call hc_Ack"
definition HwEndIrq :: "nat \<Rightarrow> pic \<Rightarrow> pic" where "HwEndIrq = hw_call hc_End"
definition HwForceIrq :: "nat \<Rightarrow> pic \<Rightarrow> pic" where "HwForceIrq = hw_call hc_Force"
definition HwClearIrq :: "nat \<Rightarrow> pic \<Rightarrow> pic" where "HwClearIrq = hw_call hc_Clear"

section \<open>What the chips see\<close>

text \<open>The mask of a chip is the last byte written to its data port; a line of the second chip also
  needs the line the chips are chained by.\<close>

definition chip_mask :: "u16 \<Rightarrow> pic \<Rightarrow> u8 option" where
  "chip_mask port p = map_option fst (List.find (\<lambda>(v, q). q = port) (pic_out p))"

definition line_open :: "nat \<Rightarrow> pic \<Rightarrow> bool" where
  "line_open irq p = (if irq \<le> LAST_IRQ_IN_MASTER then \<not> bit (the (chip_mask master_ocw p)) irq
     else \<not> bit (the (chip_mask master_ocw p)) CTLR2_IRQ \<and>
          \<not> bit (the (chip_mask slave_ocw p)) (irq - LAST_IRQ_IN_MASTER - 1))"

text \<open>The kernel's copies are the masks of the chips, and every line has the operations of the controller.\<close>

definition pic_inv :: "pic \<Rightarrow> bool" where
  "pic_inv p \<longleftrightarrow> chip_mask master_ocw p = Some (cMasterMask p) \<and> chip_mask slave_ocw p = Some (cSlaveMask p) \<and>
     length (hwIrqCtrl p) = CONFIG_NO_HWIRQS \<and> (\<forall>i < CONFIG_NO_HWIRQS. hwIrqCtrl p ! i = pic_ctrl)"

lemmas pic_defs = line8_def line32_def CTLR2_IRQ_def LAST_IRQ_IN_MASTER_def CONFIG_NO_HWIRQS_def PIC_IRQS_def

lemma chip_mask_OutB [simp]: "chip_mask port (OutB v port' p) = (if port = port' then Some v else chip_mask port p)"
  by (simp add: chip_mask_def OutB_def)

lemma chip_mask_more [simp]: "chip_mask port (p\<lparr>cMasterMask := m\<rparr>) = chip_mask port p"
  "chip_mask port (p\<lparr>cSlaveMask := m\<rparr>) = chip_mask port p" "chip_mask port (p\<lparr>x86HwIrqsMask := w\<rparr>) = chip_mask port p"
  "chip_mask port (p\<lparr>hwIrqCtrl := t\<rparr>) = chip_mask port p"
  by (simp_all add: chip_mask_def)

lemma OutB_fields [simp]: "cMasterMask (OutB v q p) = cMasterMask p" "cSlaveMask (OutB v q p) = cSlaveMask p"
  "x86HwIrqsMask (OutB v q p) = x86HwIrqsMask p" "hwIrqCtrl (OutB v q p) = hwIrqCtrl p"
  by (simp_all add: OutB_def)

lemma line8_bit: "bit (line8 i) n \<longleftrightarrow> n = i \<and> i < 8"
  unfolding line8_def by (simp add: bit_exp_iff) (metis bit_exp_iff mult_1 possible_bit_word push_bit_of_1)

lemma set_nonzero: "i < 8 \<Longrightarrow> set_flag x (line8 i) \<noteq> 0"
  by (metis bit_0_eq bot_apply bot_bool_def line8_bit set_flag_bit)

lemma PicEnableIrq_inv: "pic_inv p \<Longrightarrow> pic_inv (PicEnableIrq irq p)"
  by (simp add: pic_inv_def PicEnableIrq_def Let_def port_defs)

lemma PicDisableIrq_inv: "pic_inv p \<Longrightarrow> pic_inv (PicDisableIrq irq p)"
  by (simp add: pic_inv_def PicDisableIrq_def Let_def port_defs)

lemma PicMaskAndAckIrq_inv: "pic_inv p \<Longrightarrow> pic_inv (PicMaskAndAckIrq irq p)"
  by (simp add: pic_inv_def PicMaskAndAckIrq_def Let_def port_defs)

lemma HwIrqSetMask_inv: "pic_inv p \<Longrightarrow> pic_inv (HwIrqSetMask m p)"
  by (simp add: pic_inv_def HwIrqSetMask_def Let_def port_defs)

lemma InitPic_inv: "length (hwIrqCtrl p) = CONFIG_NO_HWIRQS \<Longrightarrow> pic_inv (InitPic mb sb p)"
  by (simp add: pic_inv_def InitPic_def Let_def port_defs PIC_IRQS_def CONFIG_NO_HWIRQS_def)

lemma hw_call_inv: "pic_inv p \<Longrightarrow> pic_inv (hw_call op irq p)"
proof -
  assume inv: "pic_inv p"
  have "pic_inv (pic_run f irq p)" for f
    using inv by (cases f) (simp_all add: PicEnableIrq_inv PicDisableIrq_inv PicMaskAndAckIrq_inv)
  then show ?thesis using inv by (simp add: hw_call_def split: option.split)
qed

lemma hw_call_eq: "pic_inv p \<Longrightarrow> irq < CONFIG_NO_HWIRQS \<Longrightarrow>
    hw_call op irq p = (case op pic_ctrl of None \<Rightarrow> p | Some f \<Rightarrow> pic_run f irq p)"
  by (simp add: pic_inv_def hw_call_def aget_def)

text \<open>Opening a line opens it and closes nothing; closing it closes it alone.\<close>

lemma line_open_inv: "pic_inv p \<Longrightarrow> line_open irq p \<longleftrightarrow> (if irq \<le> LAST_IRQ_IN_MASTER then \<not> bit (cMasterMask p) irq
     else \<not> bit (cMasterMask p) CTLR2_IRQ \<and> \<not> bit (cSlaveMask p) (irq - LAST_IRQ_IN_MASTER - 1))"
  by (simp add: line_open_def pic_inv_def)

lemma enable_masks:
  "cMasterMask (PicEnableIrq irq p) = clr_flag (cMasterMask p) (line8 (if irq \<le> LAST_IRQ_IN_MASTER then irq else CTLR2_IRQ))"
  "cSlaveMask (PicEnableIrq irq p) = (if irq \<le> LAST_IRQ_IN_MASTER then cSlaveMask p
     else clr_flag (cSlaveMask p) (line8 (irq - LAST_IRQ_IN_MASTER - 1)))"
  by (simp_all add: PicEnableIrq_def Let_def)

lemma disable_masks:
  assumes "irq < CONFIG_NO_HWIRQS"
  shows "cMasterMask (PicDisableIrq irq p) = (if irq \<le> LAST_IRQ_IN_MASTER then set_flag (cMasterMask p) (line8 irq) else cMasterMask p)"
    "cSlaveMask (PicDisableIrq irq p) = (if irq \<le> LAST_IRQ_IN_MASTER then cSlaveMask p
     else set_flag (cSlaveMask p) (line8 (irq - LAST_IRQ_IN_MASTER - 1)))"
  using assms set_nonzero [of "irq - 8" "cSlaveMask p"]
  by (auto simp: PicDisableIrq_def Let_def LAST_IRQ_IN_MASTER_def CONFIG_NO_HWIRQS_def)

lemma enable_line:
  assumes "pic_inv p" "irq < CONFIG_NO_HWIRQS"
  shows "line_open irq (PicEnableIrq irq p)"
    "line_open j p \<Longrightarrow> line_open j (PicEnableIrq irq p)"
    "j \<noteq> irq \<Longrightarrow> j < 8 \<Longrightarrow> irq < 8 \<or> j \<noteq> CTLR2_IRQ \<Longrightarrow> line_open j (PicEnableIrq irq p) = line_open j p"
  using assms(2) by (auto simp: line_open_inv [OF PicEnableIrq_inv [OF assms(1)]] line_open_inv [OF assms(1)]
      enable_masks clr_flag_bit line8_bit LAST_IRQ_IN_MASTER_def CTLR2_IRQ_def CONFIG_NO_HWIRQS_def)

lemma disable_line:
  assumes "pic_inv p" "irq < CONFIG_NO_HWIRQS"
  shows "\<not> line_open irq (PicDisableIrq irq p)"
    "j \<noteq> irq \<Longrightarrow> j < CONFIG_NO_HWIRQS \<Longrightarrow> irq \<noteq> CTLR2_IRQ \<Longrightarrow> line_open j (PicDisableIrq irq p) = line_open j p"
  using assms(2) by (auto simp: line_open_inv [OF PicDisableIrq_inv [OF assms(1)]] line_open_inv [OF assms(1)]
      disable_masks set_flag_bit line8_bit LAST_IRQ_IN_MASTER_def CTLR2_IRQ_def CONFIG_NO_HWIRQS_def)

end
