(* ===== verification/Sched.thy ===== *)
theory Sched
  imports KTimer Pic
begin

text \<open>
  The scheduler of core/kernel/sched.c: the cyclic policy (plans, slots, major frames), the
  fixed-priority policy, plan switches, and Schedule, on one CPU. A function that does not
  return (a failed assertion, a null pointer, the endless loop of IdleTask) is None. The audit
  events go to a log. SwitchKThreadArchPre, CONTEXT_SWITCH and SwitchKThreadArchPost reload
  machine registers; here the switch is the change of cKThread, and the lines after
  CONTEXT_SWITCH run for the new thread, as they do when it is resumed.
\<close>

section \<open>Data\<close>

text \<open>A plan pointer: null, the static idle plan, or an entry of xmcSchedCyclicPlanTab.\<close>

datatype plan_ptr = PlanNull | PlanIdle | PlanTab nat

record cyclicData =
  cy_kTimer :: addr
  cy_current :: plan_ptr
  cy_new :: plan_ptr
  cy_prev :: plan_ptr
  cy_slot :: s32
  cy_mjf :: xmTime
  cy_sExec :: xmTime
  cy_planSwitchTime :: xmTime
  cy_nextAct :: xmTime
  cy_kThread :: addr
  cy_flags :: u32

datatype audit_event = AuditPlanSwitchReq s32 | AuditPlanSwitchDone xmId xmId | AuditContextSwitch s32
  | AuditVCpuSuspend xmId | AuditVCpuResume xmId | AuditVCpuHalt xmId | AuditVCpuReset xmId
  | AuditPartSuspend xmId | AuditPartResume xmId | AuditPartHalt xmId | AuditPartShutdown xmId
  | AuditPartIdle xmId | AuditHmEvent u32 u32 | AuditHmHpvAction u32 bool | AuditHmPartAction u32 bool
  | AuditVmmNoPage u32 | AuditVmmNotOwned u32 | AuditVmmCounted u32 u32 | AuditVmmInvalidPtde u32
  | AuditIrqRaised u32 | AuditTrapRaised u32 u32 | AuditIrqEmul u32
  | AuditHypHalt | AuditHypReset u32
  | AuditHCallBegin "u32 list" | AuditHCallMore "u32 list" | AuditHCallEnd u32

record sstate = kstate +
  cyclic :: cyclicData
  sched_flags :: u32
  hw_pic :: pic
  audit :: "audit_event list"

definition RESCHED_ENABLED :: u32 where "RESCHED_ENABLED = 1"
definition LOCAL_SCHED_ENABLED :: u32 where "LOCAL_SCHED_ENABLED = 1"

definition idleCyclicPlanTab :: xmcSchedCyclicPlan where
  "idleCyclicPlanTab = \<lparr>plan_nameOffset = 0, plan_id = 0,
    plan_majorFrame = 0, plan_noSlots = 0, plan_slotsOffset = 0\<rparr>"

definition plan_of :: "xmc \<Rightarrow> plan_ptr \<Rightarrow> xmcSchedCyclicPlan option" where
  "plan_of c p = (case p of PlanNull \<Rightarrow> None | PlanIdle \<Rightarrow> Some idleCyclicPlanTab
     | PlanTab i \<Rightarrow> aget (xmcSchedCyclicPlanTab c) i)"

definition cy_upd :: "(cyclicData \<Rightarrow> cyclicData) \<Rightarrow> 'a sstate_scheme \<Rightarrow> 'a sstate_scheme" where
  "cy_upd f s = s\<lparr>cyclic := f (cyclic s)\<rparr>"

definition log_audit :: "audit_event \<Rightarrow> 'a sstate_scheme \<Rightarrow> 'a sstate_scheme" where
  "log_audit e s = s\<lparr>audit := e # audit s\<rparr>"

text \<open>The test both policies make of a thread: not halted, not suspended, ready.\<close>

definition runnable :: "'a kstate_scheme \<Rightarrow> addr \<Rightarrow> bool" where
  "runnable s k \<longleftrightarrow> AreKThreadFlagsSet k (KTHREAD_HALTED_F OR KTHREAD_SUSPENDED_F) s = 0 \<and>
     AreKThreadFlagsSet k KTHREAD_READY_F s \<noteq> 0"

text \<open>\<open>partitionTab[partitionId].kThread[vCpuId]\<close>, non-null.\<close>

definition vcpu_of :: "xmId \<Rightarrow> xmId \<Rightarrow> 'a kstate_scheme \<Rightarrow> addr option" where
  "vcpu_of pid vid s = do {
     p \<leftarrow> aget (partitionTab s) (unat pid);
     k \<leftarrow> aget (p_kThread p) (unat vid);
     ASSERT (k \<noteq> NULL);
     Some k
   }"

section \<open>Plan switches\<close>

definition SwitchSchedPlan :: "s32 \<Rightarrow> 'a sstate_scheme \<Rightarrow> (s32 \<times> s32 \<times> 'a sstate_scheme) option" where
  "SwitchSchedPlan newPlanId s = do {
     oldPlanId \<leftarrow> (case cy_current (cyclic s) of PlanNull \<Rightarrow> Some (- 1)
        | p \<Rightarrow> map_option (\<lambda>pl. sint (plan_id pl)) (plan_of (cfg s) p));
     let c = xmcCpuCfg (cfg s);
     let new = (if newPlanId < cpu_noSchedCyclicPlans c
                then PlanTab (unat (cpu_schedCyclicPlansOffset c + word_of_int newPlanId))
                else PlanIdle);
     Some (0, oldPlanId, log_audit (AuditPlanSwitchReq newPlanId)
                           (cy_upd (\<lambda>cy. cy\<lparr>cy_new := new\<rparr>) s))
   }"

definition MakePlanSwitch :: "xmTime \<Rightarrow> 'a sstate_scheme \<Rightarrow> 'a sstate_scheme option" where
  "MakePlanSwitch cTime s =
     (if cy_current (cyclic s) \<noteq> cy_new (cyclic s) then do {
        let s = cy_upd (\<lambda>cy. cy\<lparr>cy_prev := cy_current cy, cy_current := cy_new cy,
                               cy_planSwitchTime := cTime, cy_slot := - 1, cy_mjf := 0\<rparr>) s;
        new \<leftarrow> plan_of (cfg s) (cy_new (cyclic s));
        ASSERT (plan_majorFrame new \<noteq> 0);
        cur \<leftarrow> plan_of (cfg s) (cy_current (cyclic s));
        Some (log_audit (AuditPlanSwitchDone (plan_id cur) (plan_id new)) s)
      } else Some s)"

section \<open>The cyclic policy\<close>

text \<open>\<open>while (mjf <= cTime) { sExec = mjf; mjf += majorFrame; }\<close>: None if it does not end.\<close>

partial_function (option) advance_maf ::
  "xmTime \<Rightarrow> xmTime \<Rightarrow> xmTime \<Rightarrow> xmTime \<Rightarrow> (xmTime \<times> xmTime) option" where
  "advance_maf cTime maf sExec mjf =
     (if mjf \<le> cTime then advance_maf cTime maf mjf (mjf + maf) else Some (sExec, mjf))"

declare advance_maf.simps [code]

text \<open>
  \<open>while (t >= slotTab[slotsOffset+slot].eExec)\<close>, at most \<open>n\<close> rounds. The result is the
  slot number and whether the loop ended at a slot (not at the end of the plan).
\<close>

fun slot_loop :: "xmcSchedCyclicSlot list \<Rightarrow> xmcSchedCyclicPlan \<Rightarrow> u32 \<Rightarrow> nat \<Rightarrow> s32 \<Rightarrow>
    (s32 \<times> bool) option" where
  "slot_loop tab plan t 0 slot = None"
| "slot_loop tab plan t (Suc n) slot = do {
     e \<leftarrow> aget tab (unat (plan_slotsOffset plan + word_of_int slot));
     if t \<ge> slot_eExec e then
       (if slot + 1 \<ge> plan_noSlots plan then Some (slot + 1, False)
        else slot_loop tab plan t n (slot + 1))
     else Some (slot, True)
   }"

text \<open>Lines 154 to 183: the slot of offset \<open>t\<close>, the thread (NULL for idle) and the next offset.\<close>

definition pick_slot :: "xmcSchedCyclicPlan \<Rightarrow> u32 \<Rightarrow> s32 \<Rightarrow> 'a sstate_scheme \<Rightarrow>
    (s32 \<times> addr \<times> u32) option" where
  "pick_slot plan t slot s =
     (if slot \<ge> plan_noSlots plan then Some (slot, NULL, plan_majorFrame plan)
      else do {
        (slot, found) \<leftarrow> slot_loop (xmcSchedCyclicSlotTab (cfg s)) plan t (nat (plan_noSlots plan - slot)) slot;
        if \<not> found then Some (slot, NULL, plan_majorFrame plan)
        else do {
          e \<leftarrow> aget (xmcSchedCyclicSlotTab (cfg s)) (unat (plan_slotsOffset plan + word_of_int slot));
          if t \<ge> slot_sExec e then do {
            k \<leftarrow> vcpu_of (slot_partitionId e) (slot_vCpuId e) s;
            if runnable s k then Some (slot, k, slot_eExec e)
            else if slot + 1 < plan_noSlots plan then do {
              e' \<leftarrow> aget (xmcSchedCyclicSlotTab (cfg s)) (Suc (unat (plan_slotsOffset plan + word_of_int slot)));
              Some (slot, NULL, slot_sExec e')
            } else Some (slot, NULL, plan_majorFrame plan)
          } else Some (slot, NULL, slot_sExec e)
        }
      })"

text \<open>Lines 119 to 147: at the end of the major frame, the plan switch and the next frame.\<close>

definition next_frame :: "xmTime \<Rightarrow> 'a sstate_scheme \<Rightarrow> 'a sstate_scheme option" where
  "next_frame cTime s =
     (if cy_mjf (cyclic s) \<le> cTime then do {
        s \<leftarrow> MakePlanSwitch cTime s;
        plan \<leftarrow> plan_of (cfg s) (cy_current (cyclic s));
        (sExec, mjf) \<leftarrow>
          (if cy_slot (cyclic s) \<ge> 0
           then advance_maf cTime (uint (plan_majorFrame plan)) (cy_sExec (cyclic s)) (cy_mjf (cyclic s))
           else Some (cTime, uint (plan_majorFrame plan) + cTime));
        Some (cy_upd (\<lambda>cy. cy\<lparr>cy_sExec := sExec, cy_mjf := mjf, cy_slot := 0\<rparr>) s)
      } else Some s)"

text \<open>Lines 203 to 210: what the chosen thread is told about its slot.\<close>

definition announce_slot :: "xmcSchedCyclicPlan \<Rightarrow> s32 \<Rightarrow> addr \<Rightarrow> 'a sstate_scheme \<Rightarrow> 'a sstate_scheme option"
where
  "announce_slot plan slot k s =
     (if k \<noteq> NULL \<and> k_g (kthreads s k) \<noteq> None then do {
        e \<leftarrow> aget (xmcSchedCyclicSlotTab (cfg s)) (unat (plan_slotsOffset plan + word_of_int slot));
        ASSERT (k_pct (kthreads s k) \<noteq> None);
        SetExtIrqPending k XM_VT_EXT_CYCLIC_SLOT_START
          (kt_upd k (\<lambda>th. pct_upd (\<lambda>p. p\<lparr>pct_schedInfo := \<lparr>si_noSlot = word_of_int slot,
               si_id = slot_id e, si_slotDuration = slot_eExec e - slot_sExec e\<rparr>\<rparr>)
             (g_upd (\<lambda>g. g\<lparr>g_opMode := XM_OPMODE_NORMAL\<rparr>) th)) s)
      } else Some s)"

definition GetReadyKThreadCyclic :: "'a sstate_ext kstate_scheme hm_event \<Rightarrow> nat \<Rightarrow> 'a sstate_scheme \<Rightarrow>
    (addr \<times> 'a sstate_scheme) option" where
  "GetReadyKThreadCyclic hm fuel s = do {
     let (cTime, s) = GetSysClockUsec s;
     if cy_nextAct (cyclic s) > cTime \<and> \<not> has_flag (cy_flags (cyclic s)) RESCHED_ENABLED
     then Some (if cy_kThread (cyclic s) \<noteq> NULL \<and> runnable s (cy_kThread (cyclic s))
                then cy_kThread (cyclic s) else NULL, s)
     else do {
       s \<leftarrow> next_frame cTime (cy_upd (\<lambda>cy. cy\<lparr>cy_flags := clr_flag (cy_flags cy) RESCHED_ENABLED\<rparr>) s);
       plan \<leftarrow> plan_of (cfg s) (cy_current (cyclic s));
       (slot, newK, nextTime) \<leftarrow> pick_slot plan (word_of_int (cTime - cy_sExec (cyclic s))) (cy_slot (cyclic s)) s;
       let s = cy_upd (\<lambda>cy. cy\<lparr>cy_slot := slot, cy_nextAct := uint nextTime + cy_sExec cy\<rparr>) s;
       (_, s) \<leftarrow> ArmKTimer hm fuel (cy_kTimer (cyclic s)) (cy_nextAct (cyclic s)) 0 s;
       s \<leftarrow> announce_slot plan (cy_slot (cyclic s)) newK s;
       Some (newK, cy_upd (\<lambda>cy. cy\<lparr>cy_kThread := newK\<rparr>) s)
     }
   }"

section \<open>The fixed-priority policy\<close>

fun fp_loop :: "xmcFpSched list \<Rightarrow> 'a kstate_scheme \<Rightarrow> (addr \<times> 'a kstate_scheme) option" where
  "fp_loop [] s = Some (NULL, s)"
| "fp_loop (e # es) s = do {
     k \<leftarrow> vcpu_of (fps_partitionId e) (fps_vCpuId e) s;
     if runnable s k then do {
       ASSERT (k_g (kthreads s k) \<noteq> None);
       Some (k, kt_upd k (g_upd (\<lambda>g. g\<lparr>g_opMode := XM_OPMODE_NORMAL\<rparr>)) s)
     } else fp_loop es s
   }"

definition fp_entries :: "xmc \<Rightarrow> xmcFpSched list option" where
  "fp_entries c = (let o' = unat (cpu_schedFpTabOffset (xmcCpuCfg c));
       n = nat (cpu_noFpEntries (xmcCpuCfg c))
     in if o' + n \<le> length (xmcFpSchedTab c) then Some (take n (drop o' (xmcFpSchedTab c))) else None)"

definition GetReadyKThreadFP :: "'a kstate_scheme \<Rightarrow> (addr \<times> 'a kstate_scheme) option" where
  "GetReadyKThreadFP s = do { es \<leftarrow> fp_entries (cfg s); fp_loop es s }"

section \<open>Schedule\<close>

text \<open>The function pointer \<open>sched->GetReadyKThread\<close> that InitSchedLocal sets from the policy.\<close>

definition GetReadyKThread :: "'a sstate_ext kstate_scheme hm_event \<Rightarrow> nat \<Rightarrow> 'a sstate_scheme \<Rightarrow>
    (addr \<times> 'a sstate_scheme) option" where
  "GetReadyKThread hm fuel s = (case cpu_schedPolicy (xmcCpuCfg (cfg s)) of
     CYCLIC_SCHED \<Rightarrow> GetReadyKThreadCyclic hm fuel s
   | FP_SCHED \<Rightarrow> GetReadyKThreadFP s)"

text \<open>The switch to another thread: the old thread's clock stops, the new thread's timers run.\<close>

definition switch_leave :: "addr \<Rightarrow> 'a sstate_scheme \<Rightarrow> 'a sstate_scheme option" where
  "switch_leave newK s = do {
     ev \<leftarrow> (if newK \<noteq> idleKThread s then map_option (\<lambda>g. sint (g_id g)) (k_g (kthreads s newK)) else Some (- 1));
     let s = log_audit (AuditContextSwitch ev) s;
     if k_g (kthreads s (cKThread s)) \<noteq> None then StopVClock (cKThread s) s else Some s
   }"

definition switch_enter :: "'a sstate_ext kstate_scheme hm_event \<Rightarrow> nat \<Rightarrow> addr \<Rightarrow> 'a sstate_scheme \<Rightarrow>
    'a sstate_scheme option" where
  "switch_enter hm fuel newK s =
     (if k_g (kthreads s newK) \<noteq> None then do {
        let (now, s) = GetSysClockUsec s;
        (n, s) \<leftarrow> TraverseKTimerQueue hm (k_localActiveKTimers (kthreads s newK)) now s;
        SetHwTimer hm fuel n s
      } else Some s)"

definition switch_cpu :: "addr \<Rightarrow> 'a sstate_scheme \<Rightarrow> 'a sstate_scheme" where
  "switch_cpu newK s =
     (let s = (if cpu_schedPolicy (xmcCpuCfg (cfg s)) = CYCLIC_SCHED
               then kt_upd (cKThread s) (\<lambda>t. t\<lparr>k_irqMask := HwIrqGetMask (hw_pic s)\<rparr>) s else s)
      in s\<lparr>hw_pic := HwIrqSetMask (k_irqMask (kthreads s newK)) (hw_pic s), cKThread := newK\<rparr>)"

definition switch_to :: "'a sstate_ext kstate_scheme hm_event \<Rightarrow> nat \<Rightarrow> addr \<Rightarrow> 'a sstate_scheme \<Rightarrow>
    'a sstate_scheme option" where
  "switch_to hm fuel newK s = do {
     s \<leftarrow> switch_leave newK s;
     s \<leftarrow> switch_enter hm fuel newK s;
     let s = switch_cpu newK s;
     if k_g (kthreads s newK) \<noteq> None then ResumeVClock hm fuel newK s else Some s
   }"

definition Schedule :: "'a sstate_ext kstate_scheme hm_event \<Rightarrow> nat \<Rightarrow> 'a sstate_scheme \<Rightarrow>
    'a sstate_scheme option" where
  "Schedule hm fuel s =
     (if \<not> has_flag (sched_flags s) LOCAL_SCHED_ENABLED
      then Some (s\<lparr>irqNestingCounter := clr_flag (irqNestingCounter s) SCHED_PENDING\<rparr>)
      else if has_flag (irqNestingCounter s) IRQ_IN_PROGRESS
      then Some (s\<lparr>irqNestingCounter := set_flag (irqNestingCounter s) SCHED_PENDING\<rparr>)
      else do {
        (newK, s) \<leftarrow> GetReadyKThread hm fuel
           (s\<lparr>irqNestingCounter := clr_flag (irqNestingCounter s) SCHED_PENDING\<rparr>);
        let newK = (if newK = NULL then idleKThread s else newK);
        if newK \<noteq> cKThread s then switch_to hm fuel newK s else Some s
      })"

definition SchedYield :: "'a sstate_ext kstate_scheme hm_event \<Rightarrow> nat \<Rightarrow> addr \<Rightarrow> 'a sstate_scheme \<Rightarrow>
    'a sstate_scheme option" where
  "SchedYield hm fuel k s = Schedule hm fuel (cy_upd (\<lambda>cy. cy\<lparr>cy_kThread := k\<rparr>) s)"

section \<open>Well-formed plans\<close>

definition slot_at :: "xmc \<Rightarrow> xmcSchedCyclicPlan \<Rightarrow> nat \<Rightarrow> xmcSchedCyclicSlot" where
  "slot_at c plan i = xmcSchedCyclicSlotTab c ! (unat (plan_slotsOffset plan) + i)"

text \<open>
  What the configuration compiler checks of a plan: its slots are inside the table, in order,
  disjoint and inside the major frame.
\<close>

definition wf_plan :: "xmc \<Rightarrow> xmcSchedCyclicPlan \<Rightarrow> bool" where
  "wf_plan c plan \<longleftrightarrow>
     (let n = nat (plan_noSlots plan) in
       0 \<le> plan_noSlots plan \<and>
       unat (plan_slotsOffset plan) + n \<le> length (xmcSchedCyclicSlotTab c) \<and>
       unat (plan_slotsOffset plan) + n < 2 ^ 32 \<and>
       (\<forall>i < n. slot_sExec (slot_at c plan i) < slot_eExec (slot_at c plan i) \<and>
                slot_eExec (slot_at c plan i) \<le> plan_majorFrame plan) \<and>
       (\<forall>i < n. \<forall>j < n. i < j \<longrightarrow> slot_eExec (slot_at c plan i) \<le> slot_sExec (slot_at c plan j)))"

lemma wf_planD:
  assumes "wf_plan c plan" "i < nat (plan_noSlots plan)"
  shows "aget (xmcSchedCyclicSlotTab c) (unat (plan_slotsOffset plan + word_of_int (int i))) = Some (slot_at c plan i)"
    and "unat (plan_slotsOffset plan + word_of_int (int i)) = unat (plan_slotsOffset plan) + i"
    and "slot_sExec (slot_at c plan i) < slot_eExec (slot_at c plan i)"
    and "slot_eExec (slot_at c plan i) \<le> plan_majorFrame plan"
    and "j < nat (plan_noSlots plan) \<Longrightarrow> i < j \<Longrightarrow> slot_eExec (slot_at c plan i) \<le> slot_sExec (slot_at c plan j)"
proof -
  have b: "unat (plan_slotsOffset plan) + i < 2 ^ 32"
    "unat (plan_slotsOffset plan) + i < length (xmcSchedCyclicSlotTab c)"
    using assms by (auto simp: wf_plan_def Let_def)
  then have "unat (word_of_nat i :: u32) = i" by simp
  then show u: "unat (plan_slotsOffset plan + word_of_int (int i)) = unat (plan_slotsOffset plan) + i"
    using b(1) by (simp add: unat_word_ariths)
  then show "aget (xmcSchedCyclicSlotTab c) (unat (plan_slotsOffset plan + word_of_int (int i))) = Some (slot_at c plan i)"
    using b(2) by (simp add: aget_def slot_at_def)
  show "slot_sExec (slot_at c plan i) < slot_eExec (slot_at c plan i)"
    "slot_eExec (slot_at c plan i) \<le> plan_majorFrame plan"
    "j < nat (plan_noSlots plan) \<Longrightarrow> i < j \<Longrightarrow> slot_eExec (slot_at c plan i) \<le> slot_sExec (slot_at c plan j)"
    using assms by (auto simp: wf_plan_def Let_def)
qed

section \<open>Choosing the slot\<close>

lemma slot_loop_spec:
  assumes "wf_plan c plan" "i < nat (plan_noSlots plan)"
  shows "\<exists>j. i \<le> j \<and> j \<le> nat (plan_noSlots plan) \<and>
     slot_loop (xmcSchedCyclicSlotTab c) plan t (nat (plan_noSlots plan) - i) (int i) =
       Some (int j, j < nat (plan_noSlots plan)) \<and>
     (\<forall>m. i \<le> m \<and> m < j \<longrightarrow> slot_eExec (slot_at c plan m) \<le> t) \<and>
     (j < nat (plan_noSlots plan) \<longrightarrow> t < slot_eExec (slot_at c plan j))"
  using assms(2)
proof (induction "nat (plan_noSlots plan) - i" arbitrary: i)
  case (Suc d)
  have fuel: "nat (plan_noSlots plan) - i = Suc d" using Suc.hyps(2) by simp
  have d: "d = nat (plan_noSlots plan) - Suc i" using fuel by simp
  note g = wf_planD(1) [OF assms(1) Suc.prems]
  show ?case
  proof (cases "t < slot_eExec (slot_at c plan i)")
    case True
    then show ?thesis
      using fuel g Suc.prems by (intro exI [of _ i]) (auto simp: not_le)
  next
    case False
    then have le: "slot_eExec (slot_at c plan i) \<le> t" by simp
    show ?thesis
    proof (cases "Suc i < nat (plan_noSlots plan)")
      case True
      then obtain j where j: "Suc i \<le> j" "j \<le> nat (plan_noSlots plan)"
        "slot_loop (xmcSchedCyclicSlotTab c) plan t d (int (Suc i)) = Some (int j, j < nat (plan_noSlots plan))"
        "\<forall>m. Suc i \<le> m \<and> m < j \<longrightarrow> slot_eExec (slot_at c plan m) \<le> t"
        "j < nat (plan_noSlots plan) \<longrightarrow> t < slot_eExec (slot_at c plan j)"
        using Suc.hyps(1) [OF d True] unfolding d [symmetric] by blast
      have "\<forall>m. i \<le> m \<and> m < j \<longrightarrow> slot_eExec (slot_at c plan m) \<le> t"
        using j(4) le by (metis Suc_leI le_neq_implies_less)
      moreover have "\<not> int i + 1 \<ge> plan_noSlots plan" using True by linarith
      ultimately show ?thesis
        using j fuel g le by (intro exI [of _ j]) (auto simp: add.commute)
    next
      case False
      then have e: "Suc i = nat (plan_noSlots plan)" using Suc.prems by simp
      then have "int i + 1 \<ge> plan_noSlots plan" "int i + 1 = int (Suc i)" by linarith+
      moreover have "\<forall>m. i \<le> m \<and> m < Suc i \<longrightarrow> slot_eExec (slot_at c plan m) \<le> t"
        using le by (metis le_less_Suc_eq)
      ultimately show ?thesis
        using e fuel g le by (intro exI [of _ "Suc i"]) (simp del: of_nat_Suc)
    qed
  qed
qed simp

text \<open>The three cases of pick_slot, over the first slot from \<open>i\<close> that has not ended.\<close>

lemma pick_slot_cases:
  assumes wf: "wf_plan (cfg s) plan" and res: "pick_slot plan t (int i) s = Some (slot, k, nx)"
  obtains (past) "k = NULL" "nx = plan_majorFrame plan"
      "\<And>m. \<lbrakk>i \<le> m; m < nat (plan_noSlots plan)\<rbrakk> \<Longrightarrow> slot_eExec (slot_at (cfg s) plan m) \<le> t"
      "int i \<le> slot"
  | (slot) j where "i \<le> j" "j < nat (plan_noSlots plan)" "slot = int j"
      "t < slot_eExec (slot_at (cfg s) plan j)"
      "\<And>m. \<lbrakk>i \<le> m; m < j\<rbrakk> \<Longrightarrow> slot_eExec (slot_at (cfg s) plan m) \<le> t"
      "if slot_sExec (slot_at (cfg s) plan j) \<le> t
       then \<exists>k'. vcpu_of (slot_partitionId (slot_at (cfg s) plan j)) (slot_vCpuId (slot_at (cfg s) plan j)) s = Some k' \<and>
          (if runnable s k' then k = k' \<and> nx = slot_eExec (slot_at (cfg s) plan j)
           else k = NULL \<and> nx = (if Suc j < nat (plan_noSlots plan)
              then slot_sExec (slot_at (cfg s) plan (Suc j)) else plan_majorFrame plan))
       else k = NULL \<and> nx = slot_sExec (slot_at (cfg s) plan j)"
proof (cases "int i \<ge> plan_noSlots plan")
  case True
  with res show ?thesis by (intro past) (auto simp: pick_slot_def)
next
  case False
  then have i: "i < nat (plan_noSlots plan)" by linarith
  have n: "nat (plan_noSlots plan - int i) = nat (plan_noSlots plan) - i" by linarith
  obtain j where j: "i \<le> j" "j \<le> nat (plan_noSlots plan)"
    "slot_loop (xmcSchedCyclicSlotTab (cfg s)) plan t (nat (plan_noSlots plan) - i) (int i) =
       Some (int j, j < nat (plan_noSlots plan))"
    "\<And>m. \<lbrakk>i \<le> m; m < j\<rbrakk> \<Longrightarrow> slot_eExec (slot_at (cfg s) plan m) \<le> t"
    "j < nat (plan_noSlots plan) \<Longrightarrow> t < slot_eExec (slot_at (cfg s) plan j)"
    using slot_loop_spec [OF wf i, of t] by blast
  show ?thesis
  proof (cases "j < nat (plan_noSlots plan)")
    case False
    then show ?thesis
      using res j n \<open>\<not> int i \<ge> plan_noSlots plan\<close> by (intro past) (auto simp: pick_slot_def)
  next
    case True
    note g = wf_planD(1,2) [OF wf True]
    have nxt: "aget (xmcSchedCyclicSlotTab (cfg s)) (Suc (unat (plan_slotsOffset plan + word_of_int (int j)))) =
        Some (slot_at (cfg s) plan (Suc j))" if "Suc j < nat (plan_noSlots plan)"
      using wf_planD(1,2) [OF wf that] g(2) by (metis add_Suc_right)
    have lt: "int j + 1 < plan_noSlots plan \<longleftrightarrow> Suc j < nat (plan_noSlots plan)" by linarith
    show ?thesis
    proof (rule slot [of j])
      show "slot = int j"
        using res j(3) True n g \<open>\<not> int i \<ge> plan_noSlots plan\<close>
        by (auto simp: pick_slot_def bind_eq_Some_iff split: if_splits)
      show "if slot_sExec (slot_at (cfg s) plan j) \<le> t
       then \<exists>k'. vcpu_of (slot_partitionId (slot_at (cfg s) plan j)) (slot_vCpuId (slot_at (cfg s) plan j)) s = Some k' \<and>
          (if runnable s k' then k = k' \<and> nx = slot_eExec (slot_at (cfg s) plan j)
           else k = NULL \<and> nx = (if Suc j < nat (plan_noSlots plan)
              then slot_sExec (slot_at (cfg s) plan (Suc j)) else plan_majorFrame plan))
       else k = NULL \<and> nx = slot_sExec (slot_at (cfg s) plan j)"
        using res j(3) True n g(1) nxt lt \<open>\<not> int i \<ge> plan_noSlots plan\<close>
        by (auto simp: pick_slot_def bind_eq_Some_iff split: if_splits)
    qed (use j True in auto)
  qed
qed

lemma pick_slot_sound:
  assumes "wf_plan (cfg s) plan" "pick_slot plan t (int i) s = Some (slot, k, nx)" "k \<noteq> NULL"
  shows "\<exists>j. j < nat (plan_noSlots plan) \<and> slot = int j \<and>
    slot_sExec (slot_at (cfg s) plan j) \<le> t \<and> t < slot_eExec (slot_at (cfg s) plan j) \<and>
    vcpu_of (slot_partitionId (slot_at (cfg s) plan j)) (slot_vCpuId (slot_at (cfg s) plan j)) s = Some k \<and>
    runnable s k \<and> nx = slot_eExec (slot_at (cfg s) plan j)"
  using assms(1,2)
proof (cases rule: pick_slot_cases)
  case past
  with assms(3) show ?thesis by simp
next
  case (slot j)
  with assms(3) show ?thesis by (intro exI [of _ j]) (auto split: if_splits)
qed

lemma pick_slot_complete:
  assumes "wf_plan (cfg s) plan" "pick_slot plan t (int i) s = Some (slot, k, nx)"
    and "i \<le> j" "j < nat (plan_noSlots plan)"
    and "slot_sExec (slot_at (cfg s) plan j) \<le> t" "t < slot_eExec (slot_at (cfg s) plan j)"
    and "vcpu_of (slot_partitionId (slot_at (cfg s) plan j)) (slot_vCpuId (slot_at (cfg s) plan j)) s = Some k'"
    and "runnable s k'"
  shows "k = k'" "slot = int j"
proof -
  have "k = k' \<and> slot = int j"
    using assms(1,2)
  proof (cases rule: pick_slot_cases)
    case past
    with assms(3,4,6) show ?thesis by (meson leD)
  next
    case (slot m)
    have "m = j"
    proof (rule ccontr)
      assume "m \<noteq> j"
      then consider "m < j" | "j < m" by linarith
      then show False
      proof cases
        case 1
        then show False using wf_planD(5) [OF assms(1) slot(2) assms(4)] slot(4) assms(5) by force
      next
        case 2
        then show False using slot(5) [OF assms(3)] assms(6) by (meson leD)
      qed
    qed
    with slot assms(5,7,8) show ?thesis by auto
  qed
  then show "k = k'" "slot = int j" by auto
qed

lemma pick_slot_progress:
  assumes "wf_plan (cfg s) plan" "pick_slot plan t (int i) s = Some (slot, k, nx)"
    and "t < plan_majorFrame plan"
  shows "t < nx" "int i \<le> slot"
proof -
  have "t < nx \<and> int i \<le> slot"
    using assms(1,2)
  proof (cases rule: pick_slot_cases)
    case past
    with assms(3) show ?thesis by simp
  next
    case (slot j)
    have "t < slot_sExec (slot_at (cfg s) plan (Suc j))" if "Suc j < nat (plan_noSlots plan)"
      using wf_planD(5) [OF assms(1) slot(2) that] slot(4) by (meson lessI less_le_trans)
    with slot assms(3) show ?thesis by (auto split: if_splits)
  qed
  then show "t < nx" "int i \<le> slot" by auto
qed

section \<open>Major frames\<close>

lemma advance_maf_eq:
  "\<lbrakk>maf > 0; mjf \<le> c\<rbrakk> \<Longrightarrow>
     advance_maf c maf e mjf = Some (catch_up mjf maf c - maf, catch_up mjf maf c)"
proof (induction mjf maf c arbitrary: e rule: catch_up.induct)
  case (1 v i c)
  show ?case
  proof (cases "v + i \<le> c")
    case True
    then show ?thesis
      using 1 by (simp add: advance_maf.simps [of c i e] catch_up.simps [of v])
  next
    case False
    then show ?thesis
      using 1 by (simp add: advance_maf.simps [of c i e] advance_maf.simps [of c i v] catch_up.simps [of v])
  qed
qed

text \<open>
  What the cyclic data says at time \<open>t\<close>: before the first frame nothing is chosen; then the
  frame of the current plan has started, slots before \<open>slot\<close> are over, and a chosen thread
  (other than the idle thread, which SchedYield stores) belongs to a slot that has started,
  the next activation being no later than its end.
\<close>

definition cyc_inv :: "xmTime \<Rightarrow> 'a sstate_scheme \<Rightarrow> bool" where
  "cyc_inv t s \<longleftrightarrow> (let cy = cyclic s in
     (cy_slot cy < 0 \<and> cy_mjf cy = 0 \<and> cy_current cy = PlanNull \<and> cy_new cy \<noteq> PlanNull \<and>
        cy_kThread cy \<in> {NULL, idleKThread s}) \<or>
     (0 \<le> cy_slot cy \<and> (\<exists>plan. plan_of (cfg s) (cy_current cy) = Some plan \<and> plan_majorFrame plan \<noteq> 0 \<and>
        cy_mjf cy = cy_sExec cy + uint (plan_majorFrame plan) \<and> cy_sExec cy \<le> t \<and>
        (\<forall>m. m < nat (plan_noSlots plan) \<and> int m < cy_slot cy \<longrightarrow>
           cy_sExec cy + uint (slot_eExec (slot_at (cfg s) plan m)) \<le> t) \<and>
        (cy_kThread cy \<in> {NULL, idleKThread s} \<or>
         (\<exists>j < nat (plan_noSlots plan).
            vcpu_of (slot_partitionId (slot_at (cfg s) plan j)) (slot_vCpuId (slot_at (cfg s) plan j)) s =
              Some (cy_kThread cy) \<and>
            cy_sExec cy + uint (slot_sExec (slot_at (cfg s) plan j)) \<le> t \<and>
            cy_nextAct cy \<le> cy_sExec cy + uint (slot_eExec (slot_at (cfg s) plan j)))))))"

definition wf_plans :: "xmc \<Rightarrow> bool" where
  "wf_plans c \<longleftrightarrow> (\<forall>plan \<in> set (xmcSchedCyclicPlanTab c). wf_plan c plan)"

lemma wf_plans_of: "wf_plans c \<Longrightarrow> plan_of c p = Some plan \<Longrightarrow> wf_plan c plan \<or> plan_majorFrame plan = 0"
  by (auto simp: wf_plans_def plan_of_def idleCyclicPlanTab_def dest: aget_in_set split: plan_ptr.splits)

lemma MakePlanSwitch_eq:
  assumes "MakePlanSwitch c s = Some s'"
  shows "if cy_current (cyclic s) = cy_new (cyclic s) then s' = s
    else \<exists>plan. plan_of (cfg s) (cy_new (cyclic s)) = Some plan \<and> plan_majorFrame plan \<noteq> 0 \<and>
      s' = log_audit (AuditPlanSwitchDone (plan_id plan) (plan_id plan))
        (cy_upd (\<lambda>cy. cy\<lparr>cy_prev := cy_current cy, cy_current := cy_new cy,
                 cy_planSwitchTime := c, cy_slot := - 1, cy_mjf := 0\<rparr>) s)"
  using assms by (auto simp: MakePlanSwitch_def bind_eq_Some_iff cy_upd_def Let_def)

text \<open>
  At the end of a major frame: without a plan change the new frame starts a whole number of
  frames after the old one (the schedule does not drift, however late the scheduler runs);
  with one it starts now.
\<close>

definition frame_step :: "xmTime \<Rightarrow> 'a sstate_scheme \<Rightarrow> 'a sstate_scheme \<Rightarrow> bool" where
  "frame_step c s s' \<longleftrightarrow> (\<exists>plan. plan_of (cfg s) (cy_new (cyclic s)) = Some plan \<and> plan_majorFrame plan \<noteq> 0 \<and>
     cy_current (cyclic s') = cy_new (cyclic s) \<and> cy_slot (cyclic s') = 0 \<and>
     cy_sExec (cyclic s') \<le> c \<and> c < cy_mjf (cyclic s') \<and>
     cy_mjf (cyclic s') = cy_sExec (cyclic s') + uint (plan_majorFrame plan) \<and>
     (if cy_current (cyclic s) = cy_new (cyclic s) \<and> 0 \<le> cy_slot (cyclic s)
      then \<exists>n \<ge> 0. cy_sExec (cyclic s') = cy_mjf (cyclic s) + n * uint (plan_majorFrame plan)
      else cy_sExec (cyclic s') = c))"

lemma uint_pos: "(w :: 'a::len word) \<noteq> 0 \<Longrightarrow> 0 < uint w"
  using uint_ge_0 [of w] uint_0_iff [of w] by linarith

lemma frame_start:
  assumes "maf > 0" "mjf \<le> c" "advance_maf c maf e mjf = Some (e', m')"
  shows "e' \<le> c" "c < m'" "m' = e' + maf" "\<exists>n \<ge> 0. e' = mjf + n * maf"
proof -
  have e: "e' = catch_up mjf maf c - maf" "m' = catch_up mjf maf c"
    using assms(3) advance_maf_eq [OF assms(1,2), of e] by auto
  then show "e' \<le> c" "c < m'" "m' = e' + maf"
    using catch_up_bounds [OF assms(1,2)] by auto
  obtain n where "n \<ge> 1" "catch_up mjf maf c = mjf + n * maf"
    using catch_up_mod [OF assms(1)] by blast
  then show "\<exists>n \<ge> 0. e' = mjf + n * maf"
    using e by (intro exI [of _ "n - 1"]) (auto simp: algebra_simps)
qed

lemma next_frame_step:
  assumes res: "next_frame c s = Some s'" and due: "cy_mjf (cyclic s) \<le> c"
    and maf: "0 \<le> cy_slot (cyclic s) \<Longrightarrow> \<exists>plan. plan_of (cfg s) (cy_current (cyclic s)) = Some plan \<and> plan_majorFrame plan \<noteq> 0"
    and start: "cy_slot (cyclic s) < 0 \<Longrightarrow> cy_current (cyclic s) \<noteq> cy_new (cyclic s)"
  shows "frame_step c s s'"
proof -
  obtain s1 plan e m where s1: "MakePlanSwitch c s = Some s1"
    and plan: "plan_of (cfg s1) (cy_current (cyclic s1)) = Some plan"
    and em: "(if cy_slot (cyclic s1) \<ge> 0
           then advance_maf c (uint (plan_majorFrame plan)) (cy_sExec (cyclic s1)) (cy_mjf (cyclic s1))
           else Some (c, uint (plan_majorFrame plan) + c)) = Some (e, m)"
    and s': "s' = cy_upd (\<lambda>cy. cy\<lparr>cy_sExec := e, cy_mjf := m, cy_slot := 0\<rparr>) s1"
    using res due by (auto simp: next_frame_def bind_eq_Some_iff Let_def split: prod.splits)
  show ?thesis
  proof (cases "cy_current (cyclic s) = cy_new (cyclic s)")
    case True
    then have "s1 = s" using MakePlanSwitch_eq [OF s1] by simp
    moreover have "0 \<le> cy_slot (cyclic s)" using start True by force
    moreover have "0 < uint (plan_majorFrame plan)"
      using maf [OF \<open>0 \<le> cy_slot (cyclic s)\<close>] plan \<open>s1 = s\<close> by (auto intro: uint_pos)
    ultimately show ?thesis
      using True em plan s' frame_start [of "uint (plan_majorFrame plan)", OF _ due]
      by (auto simp: frame_step_def cy_upd_def)
  next
    case False
    then obtain pl where pl: "plan_of (cfg s) (cy_new (cyclic s)) = Some pl" "plan_majorFrame pl \<noteq> 0"
      and s1': "s1 = log_audit (AuditPlanSwitchDone (plan_id pl) (plan_id pl))
        (cy_upd (\<lambda>cy. cy\<lparr>cy_prev := cy_current cy, cy_current := cy_new cy,
                 cy_planSwitchTime := c, cy_slot := - 1, cy_mjf := 0\<rparr>) s)"
      using MakePlanSwitch_eq [OF s1] by auto
    then have "plan = pl" "e = c" "m = uint (plan_majorFrame pl) + c"
      using plan em by (auto simp: cy_upd_def log_audit_def)
    then show ?thesis
      using pl s' s1' False uint_pos [OF pl(2)] by (auto simp: frame_step_def cy_upd_def log_audit_def)
  qed
qed

lemma MakePlanSwitch_only:
  assumes "MakePlanSwitch c s = Some s'"
  shows "\<exists>cy au. s' = s\<lparr>cyclic := cy, audit := au\<rparr>"
proof (cases "cy_current (cyclic s) = cy_new (cyclic s)")
  case True
  then have "s' = s" using MakePlanSwitch_eq [OF assms] by simp
  then show ?thesis by (intro exI [of _ "cyclic s"] exI [of _ "audit s"]) simp
next
  case False
  then obtain cy e where "s' = log_audit e (cy_upd cy s)"
    using MakePlanSwitch_eq [OF assms] by auto
  then show ?thesis
    by (intro exI [of _ "cy (cyclic s)"] exI [of _ "e # audit s"]) (simp add: log_audit_def cy_upd_def)
qed

lemma next_frame_only:
  assumes "next_frame c s = Some s'"
  shows "\<exists>cy au. s' = s\<lparr>cyclic := cy, audit := au\<rparr>"
proof (cases "cy_mjf (cyclic s) \<le> c")
  case True
  then obtain s1 f where "MakePlanSwitch c s = Some s1" "s' = cy_upd f s1"
    using assms by (auto simp: next_frame_def bind_eq_Some_iff split: prod.splits)
  then obtain cy au where "s1 = s\<lparr>cyclic := cy, audit := au\<rparr>" using MakePlanSwitch_only by blast
  then show ?thesis
    using \<open>s' = cy_upd f s1\<close> by (intro exI [of _ "f cy"] exI [of _ au]) (simp add: cy_upd_def)
next
  case False
  then have "s' = s" using assms by (simp add: next_frame_def)
  then show ?thesis by (intro exI [of _ "cyclic s"] exI [of _ "audit s"]) simp
qed

lemma next_frame_fields:
  assumes "next_frame c s = Some s'"
  shows "cfg s' = cfg s" "partitionTab s' = partitionTab s" "idleKThread s' = idleKThread s"
    "kthreads s' = kthreads s"
  using next_frame_only [OF assms] by auto

lemma vcpu_of_cong: "partitionTab s' = partitionTab s \<Longrightarrow> vcpu_of p v s' = vcpu_of p v s"
  by (simp add: vcpu_of_def)

lemma runnable_cong: "kthreads s' = kthreads s \<Longrightarrow> runnable s' k = runnable s k"
  by (simp add: runnable_def AreKThreadFlagsSet_def)

text \<open>The scheduler relies on the timer engine to leave its own data alone.\<close>

definition sched_same :: "'a sstate_scheme \<Rightarrow> 'a sstate_scheme \<Rightarrow> bool" where
  "sched_same s s' \<longleftrightarrow> cyclic s' = cyclic s \<and> cfg s' = cfg s \<and> partitionTab s' = partitionTab s \<and>
     idleKThread s' = idleKThread s \<and> cKThread s' = cKThread s \<and>
     sched_flags s' = sched_flags s \<and> hw_pic s' = hw_pic s"

interpretation eng: engine_frame sched_same
  by unfold_locales (simp_all add: sched_same_def)

definition hm_sched :: "'a sstate_ext kstate_scheme hm_event \<Rightarrow> bool" where
  "hm_sched hm \<longleftrightarrow> (\<forall>k s s'. hm k s = Some s' \<longrightarrow> sched_same s s')"

lemma announce_slot_same: "announce_slot plan slot k s = Some s' \<Longrightarrow> sched_same s s'"
  by (auto simp: announce_slot_def bind_eq_Some_iff sched_same_def kt_upd_def
      split: if_splits dest!: eng.ext_irq)

text \<open>The evaluation of GetReadyKThreadCyclic, when the last decision has expired.\<close>

definition keeps_decision :: "'a sstate_scheme \<Rightarrow> xmTime \<Rightarrow> bool" where
  "keeps_decision s c \<longleftrightarrow> cy_nextAct (cyclic s) > c \<and> \<not> has_flag (cy_flags (cyclic s)) RESCHED_ENABLED"

lemma cyclic_steps:
  assumes "GetReadyKThreadCyclic hm fuel s = Some (k, s')" "\<not> keeps_decision s (clk s (clk_n s))" "hm_sched hm"
  obtains s0 s1 plan slot nx where "s0 = cy_upd (\<lambda>cy. cy\<lparr>cy_flags := clr_flag (cy_flags cy) RESCHED_ENABLED\<rparr>)
        (s\<lparr>clk_n := Suc (clk_n s)\<rparr>)"
    "next_frame (clk s (clk_n s)) s0 = Some s1" "plan_of (cfg s1) (cy_current (cyclic s1)) = Some plan"
    "pick_slot plan (word_of_int (clk s (clk_n s) - cy_sExec (cyclic s1))) (cy_slot (cyclic s1)) s1 = Some (slot, k, nx)"
    "cyclic s' = (cyclic s1)\<lparr>cy_slot := slot, cy_nextAct := uint nx + cy_sExec (cyclic s1), cy_kThread := k\<rparr>"
    "cfg s' = cfg s1" "partitionTab s' = partitionTab s1" "idleKThread s' = idleKThread s1"
proof -
  let ?c = "clk s (clk_n s)"
  let ?s0 = "cy_upd (\<lambda>cy. cy\<lparr>cy_flags := clr_flag (cy_flags cy) RESCHED_ENABLED\<rparr>) (s\<lparr>clk_n := Suc (clk_n s)\<rparr>)"
  obtain s1 plan slot nx s2 r s3 s4 where st: "next_frame ?c ?s0 = Some s1"
    "plan_of (cfg s1) (cy_current (cyclic s1)) = Some plan"
    "pick_slot plan (word_of_int (?c - cy_sExec (cyclic s1))) (cy_slot (cyclic s1)) s1 = Some (slot, k, nx)"
    "s2 = cy_upd (\<lambda>cy. cy\<lparr>cy_slot := slot, cy_nextAct := uint nx + cy_sExec cy\<rparr>) s1"
    "ArmKTimer hm fuel (cy_kTimer (cyclic s2)) (cy_nextAct (cyclic s2)) 0 s2 = Some (r, s3)"
    "announce_slot plan (cy_slot (cyclic s3)) k s3 = Some s4" "s' = cy_upd (\<lambda>cy. cy\<lparr>cy_kThread := k\<rparr>) s4"
    using assms(1,2)
    by (auto simp: GetReadyKThreadCyclic_def keeps_decision_def GetSysClockUsec_def bind_eq_Some_iff Let_def
        split: prod.splits)
  have "sched_same s2 s3" using assms(3) by (intro eng.arm [OF st(5)]) (auto simp: hm_sched_def)
  moreover have "sched_same s3 s4" by (rule announce_slot_same [OF st(6)])
  ultimately have "sched_same s2 s4" by (rule eng.trans)
  then show ?thesis
    using that [OF _ st(1-3)] st(4,7) by (simp add: sched_same_def cy_upd_def)
qed

text \<open>The slot of plan \<open>plan\<close> that contains offset \<open>t\<close>.\<close>

definition in_slot :: "xmc \<Rightarrow> xmcSchedCyclicPlan \<Rightarrow> nat \<Rightarrow> xmTime \<Rightarrow> bool" where
  "in_slot c plan j t \<longleftrightarrow> j < nat (plan_noSlots plan) \<and>
     uint (slot_sExec (slot_at c plan j)) \<le> t \<and> t < uint (slot_eExec (slot_at c plan j))"

definition slot_vcpu :: "xmcSchedCyclicPlan \<Rightarrow> nat \<Rightarrow> 'a kstate_scheme \<Rightarrow> addr option" where
  "slot_vcpu plan j s = vcpu_of (slot_partitionId (slot_at (cfg s) plan j)) (slot_vCpuId (slot_at (cfg s) plan j)) s"

text \<open>The state in which pick_slot runs.\<close>

definition in_frame :: "xmTime \<Rightarrow> 'a sstate_scheme \<Rightarrow> xmcSchedCyclicPlan \<Rightarrow> bool" where
  "in_frame c s plan \<longleftrightarrow> plan_of (cfg s) (cy_current (cyclic s)) = Some plan \<and> plan_majorFrame plan \<noteq> 0 \<and>
     0 \<le> cy_slot (cyclic s) \<and> cy_mjf (cyclic s) = cy_sExec (cyclic s) + uint (plan_majorFrame plan) \<and>
     cy_sExec (cyclic s) \<le> c \<and> c < cy_mjf (cyclic s) \<and>
     (\<forall>m. m < nat (plan_noSlots plan) \<and> int m < cy_slot (cyclic s) \<longrightarrow>
        uint (slot_eExec (slot_at (cfg s) plan m)) \<le> c - cy_sExec (cyclic s))"

lemma next_frame_in_frame:
  assumes "next_frame c s = Some s'" "cyc_inv t s" "t \<le> c" "0 \<le> c"
  shows "\<exists>plan. in_frame c s' plan"
proof (cases "cy_mjf (cyclic s) \<le> c")
  case True
  have "frame_step c s s'"
    by (rule next_frame_step [OF assms(1) True]) (use assms(2) in \<open>auto simp: cyc_inv_def Let_def\<close>)
  then show ?thesis
    using next_frame_fields(1) [OF assms(1)] by (auto simp: frame_step_def in_frame_def)
next
  case False
  then have s': "s' = s" using assms(1) by (simp add: next_frame_def)
  then obtain plan where "plan_of (cfg s) (cy_current (cyclic s)) = Some plan" "plan_majorFrame plan \<noteq> 0"
     "0 \<le> cy_slot (cyclic s)" "cy_mjf (cyclic s) = cy_sExec (cyclic s) + uint (plan_majorFrame plan)"
     "cy_sExec (cyclic s) \<le> t"
     "\<forall>m. m < nat (plan_noSlots plan) \<and> int m < cy_slot (cyclic s) \<longrightarrow>
        cy_sExec (cyclic s) + uint (slot_eExec (slot_at (cfg s) plan m)) \<le> t"
    using assms(2,4) False by (auto simp: cyc_inv_def Let_def)
  then show ?thesis using assms(3) False s' by (auto simp: in_frame_def intro!: exI [of _ plan]) 
qed

lemma in_frame_offset:
  assumes "in_frame c s plan"
  shows "uint (word_of_int (c - cy_sExec (cyclic s)) :: u32) = c - cy_sExec (cyclic s)"
    "(word_of_int (c - cy_sExec (cyclic s)) :: u32) < plan_majorFrame plan"
proof -
  have b: "0 \<le> c - cy_sExec (cyclic s)" "c - cy_sExec (cyclic s) < uint (plan_majorFrame plan)"
    using assms by (auto simp: in_frame_def)
  moreover have "uint (plan_majorFrame plan) < 2 ^ 32" using uint_lt2p [of "plan_majorFrame plan"] by simp
  ultimately show u: "uint (word_of_int (c - cy_sExec (cyclic s)) :: u32) = c - cy_sExec (cyclic s)"
    by (simp add: uint_word_of_int take_bit_eq_mod del: of_int_diff)
  show "(word_of_int (c - cy_sExec (cyclic s)) :: u32) < plan_majorFrame plan"
    using u b(2) by (simp add: word_less_def)
qed

lemma pick_slot_cong:
  assumes "cfg s' = cfg s" "partitionTab s' = partitionTab s" "kthreads s' = kthreads s"
  shows "pick_slot plan t i s' = pick_slot plan t i s"
  unfolding pick_slot_def assms(1) vcpu_of_cong [OF assms(2)] runnable_cong [OF assms(3)] by (rule HOL.refl)

lemma cyclic_evaluated:
  assumes res: "GetReadyKThreadCyclic hm fuel s = Some (k, s')"
    and ev: "\<not> keeps_decision s (clk s (clk_n s))" and hm: "hm_sched hm"
    and inv: "cyc_inv t s" and t: "t \<le> clk s (clk_n s)" "0 \<le> clk s (clk_n s)" and wf: "wf_plans (cfg s)"
  obtains plan slot nx i where "plan_of (cfg s) (cy_current (cyclic s')) = Some plan" "wf_plan (cfg s) plan"
    "plan_majorFrame plan \<noteq> 0"
    "pick_slot plan (word_of_int (clk s (clk_n s) - cy_sExec (cyclic s'))) (int i) s = Some (slot, k, nx)"
    "cy_sExec (cyclic s') \<le> clk s (clk_n s)" "clk s (clk_n s) < cy_mjf (cyclic s')"
    "cy_mjf (cyclic s') = cy_sExec (cyclic s') + uint (plan_majorFrame plan)"
    "\<And>m. \<lbrakk>m < nat (plan_noSlots plan); m < i\<rbrakk> \<Longrightarrow>
        uint (slot_eExec (slot_at (cfg s) plan m)) \<le> clk s (clk_n s) - cy_sExec (cyclic s')"
    "cy_slot (cyclic s') = slot" "cy_nextAct (cyclic s') = uint nx + cy_sExec (cyclic s')" "cy_kThread (cyclic s') = k"
    "uint (word_of_int (clk s (clk_n s) - cy_sExec (cyclic s')) :: u32) = clk s (clk_n s) - cy_sExec (cyclic s')"
    "(word_of_int (clk s (clk_n s) - cy_sExec (cyclic s')) :: u32) < plan_majorFrame plan"
    "cfg s' = cfg s" "partitionTab s' = partitionTab s" "idleKThread s' = idleKThread s"
proof -
  let ?c = "clk s (clk_n s)"
  obtain s0 s1 plan slot nx where s0: "s0 = cy_upd (\<lambda>cy. cy\<lparr>cy_flags := clr_flag (cy_flags cy) RESCHED_ENABLED\<rparr>)
        (s\<lparr>clk_n := Suc (clk_n s)\<rparr>)"
    and nf: "next_frame ?c s0 = Some s1" and pl: "plan_of (cfg s1) (cy_current (cyclic s1)) = Some plan"
    and pick: "pick_slot plan (word_of_int (?c - cy_sExec (cyclic s1))) (cy_slot (cyclic s1)) s1 = Some (slot, k, nx)"
    and s': "cyclic s' = (cyclic s1)\<lparr>cy_slot := slot, cy_nextAct := uint nx + cy_sExec (cyclic s1), cy_kThread := k\<rparr>"
    "cfg s' = cfg s1" "partitionTab s' = partitionTab s1" "idleKThread s' = idleKThread s1"
    using cyclic_steps [OF res ev hm] by blast
  have inv0: "cyc_inv t s0" using inv by (simp add: s0 cyc_inv_def cy_upd_def Let_def vcpu_of_def)
  from next_frame_in_frame [OF nf inv0 t] pl have fr: "in_frame ?c s1 plan" by (auto simp: in_frame_def)
  note same = next_frame_fields [OF nf]
  have same1: "cfg s1 = cfg s" "partitionTab s1 = partitionTab s" "idleKThread s1 = idleKThread s" "kthreads s1 = kthreads s"
    using same by (simp_all add: s0 cy_upd_def)
  define i where "i = nat (cy_slot (cyclic s1))"
  have i: "int i = cy_slot (cyclic s1)" using fr by (simp add: in_frame_def i_def)
  have "pick_slot plan (word_of_int (?c - cy_sExec (cyclic s1))) (int i) s = Some (slot, k, nx)"
    using pick pick_slot_cong [OF same1(1,2,4)] unfolding i by metis
  moreover have "wf_plan (cfg s) plan"
    using wf_plans_of [OF wf] pl fr same1(1) by (auto simp: in_frame_def)
  ultimately show ?thesis
    using fr s' same1 pl i in_frame_offset [OF fr]
    by (intro that [of plan i slot nx]) (auto simp: in_frame_def)
qed

section \<open>Temporal isolation\<close>

lemma wf_plan_mono:
  assumes "wf_plan c plan" "i \<le> j" "j < nat (plan_noSlots plan)"
  shows "slot_sExec (slot_at c plan i) \<le> slot_sExec (slot_at c plan j)"
proof (cases "i = j")
  case False
  then have "slot_eExec (slot_at c plan i) \<le> slot_sExec (slot_at c plan j)"
    using wf_planD(5) [OF assms(1) _ assms(3), of i] assms(2,3) by auto
  then show ?thesis
    using wf_planD(3) [OF assms(1), of i] assms(2,3) by (meson less_imp_le order.strict_trans2 order.trans le_less_trans)
qed simp

lemma pick_slot_deadline:
  assumes "wf_plan (cfg s) plan" "pick_slot plan t (int i) s = Some (slot, k, nx)"
    and past: "\<And>m. m < nat (plan_noSlots plan) \<Longrightarrow> m < i \<Longrightarrow> slot_eExec (slot_at (cfg s) plan m) \<le> t"
  shows "nx \<le> plan_majorFrame plan"
    and "\<And>j. j < nat (plan_noSlots plan) \<Longrightarrow> t < slot_sExec (slot_at (cfg s) plan j) \<Longrightarrow>
        nx \<le> slot_sExec (slot_at (cfg s) plan j)"
    and "\<And>m. m < nat (plan_noSlots plan) \<Longrightarrow> int m < slot \<Longrightarrow> slot_eExec (slot_at (cfg s) plan m) \<le> t"
proof -
  have all: "nx \<le> plan_majorFrame plan \<and>
    (\<forall>j < nat (plan_noSlots plan). t < slot_sExec (slot_at (cfg s) plan j) \<longrightarrow> nx \<le> slot_sExec (slot_at (cfg s) plan j)) \<and>
    (\<forall>m < nat (plan_noSlots plan). int m < slot \<longrightarrow> slot_eExec (slot_at (cfg s) plan m) \<le> t)"
    using assms(1,2)
  proof (cases rule: pick_slot_cases)
    case past': past
    have le: "slot_eExec (slot_at (cfg s) plan m) \<le> t" if "m < nat (plan_noSlots plan)" for m
      using past [OF that] past'(3) [OF _ that] by (cases "m < i") auto
    then have "\<not> t < slot_sExec (slot_at (cfg s) plan m)" if "m < nat (plan_noSlots plan)" for m
      using wf_planD(3) [OF assms(1) that] that by (meson less_le_trans order.asym order.strict_trans2)
    then show ?thesis using past'(2) le by auto
  next
    case (slot j)
    have le: "slot_eExec (slot_at (cfg s) plan m) \<le> t" if "m < j" for m
      using past [of m] slot(5) [OF _ that] that slot(2) by (cases "m < i") auto
    then have lt: "j \<le> m" if "m < nat (plan_noSlots plan)" "t < slot_sExec (slot_at (cfg s) plan m)" for m
      using wf_planD(3) [OF assms(1) that(1)] that(2) by (meson leI less_le_trans order.asym)
    have bnd: "slot_eExec (slot_at (cfg s) plan m) \<le> plan_majorFrame plan"
      "slot_sExec (slot_at (cfg s) plan m) < slot_eExec (slot_at (cfg s) plan m)" if "m < nat (plan_noSlots plan)" for m
      using wf_planD(3,4) [OF assms(1) that] by auto
    have smaf: "slot_sExec (slot_at (cfg s) plan m) \<le> plan_majorFrame plan" if "m < nat (plan_noSlots plan)" for m
      using bnd [OF that] by (meson less_imp_le order.trans)
    show ?thesis
    proof (cases "slot_sExec (slot_at (cfg s) plan j) \<le> t")
      case False
      then have "nx = slot_sExec (slot_at (cfg s) plan j)" using slot(6) by simp
      then show ?thesis using lt wf_plan_mono [OF assms(1)] le smaf slot(2,3) by auto
    next
      case True
      have after: "Suc j \<le> m" if "m < nat (plan_noSlots plan)" "t < slot_sExec (slot_at (cfg s) plan m)" for m
        using lt [OF that] True that(2) by (metis Suc_leI le_neq_implies_less leD)
      have "nx = slot_eExec (slot_at (cfg s) plan j) \<or> (Suc j < nat (plan_noSlots plan) \<and>
          nx = slot_sExec (slot_at (cfg s) plan (Suc j))) \<or> (\<not> Suc j < nat (plan_noSlots plan) \<and> nx = plan_majorFrame plan)"
        using slot(6) True by (auto split: if_splits)
      then show ?thesis
      proof (elim disjE conjE)
        assume "nx = slot_eExec (slot_at (cfg s) plan j)"
        then show ?thesis
          using bnd(1) [OF slot(2)] le slot(3) wf_planD(5) [OF assms(1) slot(2)] after
          by (auto simp: Suc_le_eq)
      next
        assume a: "Suc j < nat (plan_noSlots plan)" "nx = slot_sExec (slot_at (cfg s) plan (Suc j))"
        then show ?thesis
          using smaf [OF a(1)] le slot(3) wf_plan_mono [OF assms(1)] after by auto
      next
        assume "\<not> Suc j < nat (plan_noSlots plan)" "nx = plan_majorFrame plan"
        then show ?thesis using le slot(3) after by fastforce
      qed
    qed
  qed
  then show "nx \<le> plan_majorFrame plan" by simp
  from all show "\<And>j. j < nat (plan_noSlots plan) \<Longrightarrow> t < slot_sExec (slot_at (cfg s) plan j) \<Longrightarrow>
        nx \<le> slot_sExec (slot_at (cfg s) plan j)" by simp
  from all show "\<And>m. m < nat (plan_noSlots plan) \<Longrightarrow> int m < slot \<Longrightarrow> slot_eExec (slot_at (cfg s) plan m) \<le> t"
    by simp
qed

text \<open>What the decision at time \<open>c\<close> owes to the plan.\<close>

definition slot_owner :: "xmTime \<Rightarrow> 'a sstate_scheme \<Rightarrow> 'a sstate_scheme \<Rightarrow> addr \<Rightarrow> bool" where
  "slot_owner c s s' k \<longleftrightarrow> (\<exists>plan j. plan_of (cfg s) (cy_current (cyclic s')) = Some plan \<and>
     in_slot (cfg s) plan j (c - cy_sExec (cyclic s')) \<and> slot_vcpu plan j s = Some k \<and> runnable s k)"

lemma cyclic_kept:
  assumes "GetReadyKThreadCyclic hm fuel s = Some (k, s')" "keeps_decision s (clk s (clk_n s))"
  shows "s' = s\<lparr>clk_n := Suc (clk_n s)\<rparr>"
    "k = (if cy_kThread (cyclic s) \<noteq> NULL \<and> runnable s (cy_kThread (cyclic s)) then cy_kThread (cyclic s) else NULL)"
  using assms by (auto simp: GetReadyKThreadCyclic_def keeps_decision_def GetSysClockUsec_def Let_def
      runnable_def AreKThreadFlagsSet_def)

lemma cyc_inv_mono: "cyc_inv t s \<Longrightarrow> t \<le> t' \<Longrightarrow> cyc_inv t' s"
  unfolding cyc_inv_def Let_def by (elim disjE) (force+)

lemma cyclic_sound:
  assumes res: "GetReadyKThreadCyclic hm fuel s = Some (k, s')"
    and hm: "hm_sched hm" and inv: "cyc_inv t s"
    and t: "t \<le> clk s (clk_n s)" "0 \<le> clk s (clk_n s)" and wf: "wf_plans (cfg s)"
  shows "cyc_inv (clk s (clk_n s)) s'" "k \<in> {NULL, idleKThread s} \<or> slot_owner (clk s (clk_n s)) s s' k"
proof -
  let ?c = "clk s (clk_n s)"
  have "cyc_inv ?c s' \<and> (k \<in> {NULL, idleKThread s} \<or> slot_owner ?c s s' k)"
  proof (cases "keeps_decision s ?c")
    case True
    note kept = cyclic_kept [OF res True]
    have "cyc_inv ?c s'"
      using cyc_inv_mono [OF inv t(1)] by (simp add: kept(1) cyc_inv_def vcpu_of_def)
    moreover have "slot_owner ?c s s' k" if nk: "k \<notin> {NULL, idleKThread s}"
    proof -
      have k: "k = cy_kThread (cyclic s)" "runnable s k" "k \<noteq> NULL" using nk kept(2) by (auto split: if_splits)
      then obtain plan j where "plan_of (cfg s) (cy_current (cyclic s)) = Some plan" "j < nat (plan_noSlots plan)"
        "vcpu_of (slot_partitionId (slot_at (cfg s) plan j)) (slot_vCpuId (slot_at (cfg s) plan j)) s = Some k"
        "cy_sExec (cyclic s) + uint (slot_sExec (slot_at (cfg s) plan j)) \<le> t"
        "cy_nextAct (cyclic s) \<le> cy_sExec (cyclic s) + uint (slot_eExec (slot_at (cfg s) plan j))"
        using inv nk by (auto simp: cyc_inv_def Let_def)
      moreover have "?c < cy_nextAct (cyclic s)" using True by (simp add: keeps_decision_def)
      ultimately show ?thesis
        using k t(1) by (auto simp: slot_owner_def kept(1) in_slot_def slot_vcpu_def intro!: exI [of _ plan] exI [of _ j])
    qed
    ultimately show ?thesis by blast
  next
    case False
    obtain plan slot nx i where ev: "plan_of (cfg s) (cy_current (cyclic s')) = Some plan" "wf_plan (cfg s) plan"
      "plan_majorFrame plan \<noteq> 0"
      "pick_slot plan (word_of_int (?c - cy_sExec (cyclic s'))) (int i) s = Some (slot, k, nx)"
      "cy_sExec (cyclic s') \<le> ?c" "?c < cy_mjf (cyclic s')"
      "cy_mjf (cyclic s') = cy_sExec (cyclic s') + uint (plan_majorFrame plan)"
      "\<And>m. \<lbrakk>m < nat (plan_noSlots plan); m < i\<rbrakk> \<Longrightarrow>
          uint (slot_eExec (slot_at (cfg s) plan m)) \<le> ?c - cy_sExec (cyclic s')"
      "cy_slot (cyclic s') = slot" "cy_nextAct (cyclic s') = uint nx + cy_sExec (cyclic s')" "cy_kThread (cyclic s') = k"
      "uint (word_of_int (?c - cy_sExec (cyclic s')) :: u32) = ?c - cy_sExec (cyclic s')"
      "(word_of_int (?c - cy_sExec (cyclic s')) :: u32) < plan_majorFrame plan"
      "cfg s' = cfg s" "partitionTab s' = partitionTab s" "idleKThread s' = idleKThread s"
      by (rule cyclic_evaluated [OF res False hm inv t wf]) blast
    let ?t = "word_of_int (?c - cy_sExec (cyclic s')) :: u32"
    have past: "slot_eExec (slot_at (cfg s) plan m) \<le> ?t" if "m < nat (plan_noSlots plan)" "m < i" for m
      unfolding word_le_def ev(12) by (rule ev(8) [OF that])
    have dl: "slot_eExec (slot_at (cfg s) plan m) \<le> ?t" if "m < nat (plan_noSlots plan)" "int m < slot" for m
      by (rule pick_slot_deadline(3) [OF ev(2,4)]) (use past that in auto)
    have dl': "cy_sExec (cyclic s') + uint (slot_eExec (slot_at (cfg s) plan m)) \<le> ?c"
      if "m < nat (plan_noSlots plan)" "int m < slot" for m
      using dl [OF that(1,2)] unfolding word_le_def ev(12) by linarith
    have own: "\<exists>j. in_slot (cfg s) plan j (?c - cy_sExec (cyclic s')) \<and> slot_vcpu plan j s = Some k \<and> runnable s k \<and>
        nx = slot_eExec (slot_at (cfg s) plan j)" if "k \<noteq> NULL"
      using pick_slot_sound [OF ev(2,4) that]
      unfolding in_slot_def slot_vcpu_def word_le_def word_less_def ev(12) by blast
    have own': "cy_kThread (cyclic s') \<in> {NULL, idleKThread s'} \<or> (\<exists>j < nat (plan_noSlots plan).
            vcpu_of (slot_partitionId (slot_at (cfg s) plan j)) (slot_vCpuId (slot_at (cfg s) plan j)) s' =
              Some (cy_kThread (cyclic s')) \<and>
            cy_sExec (cyclic s') + uint (slot_sExec (slot_at (cfg s) plan j)) \<le> ?c \<and>
            cy_nextAct (cyclic s') \<le> cy_sExec (cyclic s') + uint (slot_eExec (slot_at (cfg s) plan j)))"
    proof (cases "k = NULL")
      case False
      from own [OF this] obtain j where "in_slot (cfg s) plan j (?c - cy_sExec (cyclic s'))"
        "slot_vcpu plan j s = Some k" "nx = slot_eExec (slot_at (cfg s) plan j)" by blast
      then show ?thesis
        using ev(10,11) by (intro disjI2 exI [of _ j]) (auto simp: in_slot_def slot_vcpu_def vcpu_of_cong [OF ev(15)])
    qed (use ev(11) in simp)
    have slot0: "0 \<le> cy_slot (cyclic s')" using pick_slot_progress(2) [OF ev(2,4,13)] ev(9) by simp
    have "cyc_inv ?c s'"
      unfolding cyc_inv_def Let_def ev(14)
      by (rule disjI2, intro conjI exI [of _ plan]) (use slot0 ev(1,3,5,7,9) dl' own' in auto)
    then show ?thesis using own ev(1) by (auto simp: slot_owner_def)
  qed
  then show "cyc_inv ?c s'" "k \<in> {NULL, idleKThread s} \<or> slot_owner ?c s s' k" by auto
qed

text \<open>
  The converse, when the decision is taken anew: a runnable owner of the current slot gets the
  processor, and the timer is armed in the future, no later than the start of the next slot
  and the end of the frame.
\<close>

lemma cyclic_complete:
  assumes res: "GetReadyKThreadCyclic hm fuel s = Some (k, s')"
    and ev: "\<not> keeps_decision s (clk s (clk_n s))"
    and hm: "hm_sched hm" and inv: "cyc_inv t s"
    and t: "t \<le> clk s (clk_n s)" "0 \<le> clk s (clk_n s)" and wf: "wf_plans (cfg s)"
    and plan: "plan_of (cfg s) (cy_current (cyclic s')) = Some plan"
  shows "\<lbrakk>in_slot (cfg s) plan j (clk s (clk_n s) - cy_sExec (cyclic s')); slot_vcpu plan j s = Some k'; runnable s k'\<rbrakk>
      \<Longrightarrow> k = k'"
    and "clk s (clk_n s) < cy_nextAct (cyclic s')" "cy_nextAct (cyclic s') \<le> cy_mjf (cyclic s')"
    and "\<lbrakk>i < nat (plan_noSlots plan); clk s (clk_n s) < cy_sExec (cyclic s') + uint (slot_sExec (slot_at (cfg s) plan i))\<rbrakk>
      \<Longrightarrow> cy_nextAct (cyclic s') \<le> cy_sExec (cyclic s') + uint (slot_sExec (slot_at (cfg s) plan i))"
proof -
  let ?c = "clk s (clk_n s)"
  let ?t = "word_of_int (?c - cy_sExec (cyclic s')) :: u32"
  obtain slot nx m where ev: "wf_plan (cfg s) plan"
    "pick_slot plan ?t (int m) s = Some (slot, k, nx)"
    "cy_mjf (cyclic s') = cy_sExec (cyclic s') + uint (plan_majorFrame plan)"
    "\<And>j. \<lbrakk>j < nat (plan_noSlots plan); j < m\<rbrakk> \<Longrightarrow>
        uint (slot_eExec (slot_at (cfg s) plan j)) \<le> ?c - cy_sExec (cyclic s')"
    "cy_nextAct (cyclic s') = uint nx + cy_sExec (cyclic s')"
    "uint ?t = ?c - cy_sExec (cyclic s')" "?t < plan_majorFrame plan"
    by (rule cyclic_evaluated [OF res ev hm inv t wf]) (use plan in auto)
  have past: "slot_eExec (slot_at (cfg s) plan j) \<le> ?t" if "j < nat (plan_noSlots plan)" "j < m" for j
    unfolding word_le_def ev(6) by (rule ev(4) [OF that])
  show "k = k'" if "in_slot (cfg s) plan j (?c - cy_sExec (cyclic s'))" "slot_vcpu plan j s = Some k'" "runnable s k'"
  proof -
    have j: "j < nat (plan_noSlots plan)" "slot_sExec (slot_at (cfg s) plan j) \<le> ?t" "?t < slot_eExec (slot_at (cfg s) plan j)"
      using that(1) unfolding in_slot_def word_le_def word_less_def ev(6) by auto
    have "m \<le> j" using past [OF j(1)] j(3) by (meson leI leD)
    then show ?thesis
      using pick_slot_complete(1) [OF ev(1,2) _ j] that(2,3) by (simp add: slot_vcpu_def)
  qed
  show "?c < cy_nextAct (cyclic s')"
    using pick_slot_progress(1) [OF ev(1,2,7)] ev(5,6) by (simp add: word_less_def)
  show "cy_nextAct (cyclic s') \<le> cy_mjf (cyclic s')"
    using pick_slot_deadline(1) [OF ev(1,2)] past ev(3,5) by (simp add: word_le_def)
  show "cy_nextAct (cyclic s') \<le> cy_sExec (cyclic s') + uint (slot_sExec (slot_at (cfg s) plan i))"
    if "i < nat (plan_noSlots plan)" "?c < cy_sExec (cyclic s') + uint (slot_sExec (slot_at (cfg s) plan i))"
  proof -
    have "?t < slot_sExec (slot_at (cfg s) plan i)" using that(2) ev(6) by (simp add: word_less_def)
    then have "nx \<le> slot_sExec (slot_at (cfg s) plan i)"
      using pick_slot_deadline(2) [OF ev(1,2)] past that(1) by blast
    then show ?thesis using ev(5) by (simp add: word_le_def)
  qed
qed

section \<open>Fixed priorities\<close>

lemma runnable_opMode:
  "runnable (kt_upd k' (g_upd (\<lambda>g. g\<lparr>g_opMode := m\<rparr>)) s) k = runnable s k"
  by (simp add: runnable_def AreKThreadFlagsSet_def)

lemma fp_loop_spec:
  assumes "fp_loop es s = Some (k, s')"
  shows "(k = NULL \<and> s' = s \<and> (\<forall>e \<in> set es. \<exists>k'. vcpu_of (fps_partitionId e) (fps_vCpuId e) s = Some k' \<and> \<not> runnable s k')) \<or>
    (\<exists>i < length es. vcpu_of (fps_partitionId (es ! i)) (fps_vCpuId (es ! i)) s = Some k \<and> k \<noteq> NULL \<and> runnable s k \<and>
       s' = kt_upd k (g_upd (\<lambda>g. g\<lparr>g_opMode := XM_OPMODE_NORMAL\<rparr>)) s \<and>
       (\<forall>j < i. \<exists>k'. vcpu_of (fps_partitionId (es ! j)) (fps_vCpuId (es ! j)) s = Some k' \<and> \<not> runnable s k'))"
  using assms
proof (induction es arbitrary: s)
  case (Cons e es)
  obtain k1 where k1: "vcpu_of (fps_partitionId e) (fps_vCpuId e) s = Some k1"
    using Cons.prems by (auto simp: bind_eq_Some_iff)
  then have nn: "k1 \<noteq> NULL" by (auto simp: vcpu_of_def bind_eq_Some_iff)
  show ?case
  proof (cases "runnable s k1")
    case True
    with Cons.prems k1 nn show ?thesis
      by (intro disjI2 exI [of _ 0]) (auto simp: bind_eq_Some_iff)
  next
    case False
    then have "fp_loop es s = Some (k, s')" using Cons.prems k1 by simp
    from Cons.IH [OF this] show ?thesis
    proof (elim disjE exE conjE)
      fix i assume i: "i < length es" "vcpu_of (fps_partitionId (es ! i)) (fps_vCpuId (es ! i)) s = Some k" "k \<noteq> NULL"
        "runnable s k" "s' = kt_upd k (g_upd (\<lambda>g. g\<lparr>g_opMode := XM_OPMODE_NORMAL\<rparr>)) s"
        "\<forall>j < i. \<exists>k'. vcpu_of (fps_partitionId (es ! j)) (fps_vCpuId (es ! j)) s = Some k' \<and> \<not> runnable s k'"
      have "\<exists>k'. vcpu_of (fps_partitionId ((e # es) ! j)) (fps_vCpuId ((e # es) ! j)) s = Some k' \<and> \<not> runnable s k'"
        if "j < Suc i" for j
        using that i(6) k1 False by (cases j) auto
      then show ?thesis using i by (intro disjI2 exI [of _ "Suc i"]) auto
    qed (use k1 False in auto)
  qed
qed simp

section \<open>What every policy owes to Schedule\<close>

text \<open>
  The contract behind the function pointer GetReadyKThread: the answer is NULL, the idle
  thread, or a thread that was runnable; and the answer does not move the processor.
\<close>

locale ready_policy =
  fixes pick :: "'a sstate_scheme \<Rightarrow> (addr \<times> 'a sstate_scheme) option"
    and okst :: "'a sstate_scheme \<Rightarrow> bool"
  assumes ready: "\<lbrakk>pick s = Some (k, s'); okst s\<rbrakk> \<Longrightarrow> k = NULL \<or> k = idleKThread s \<or> runnable s k"
    and same_idle: "\<lbrakk>pick s = Some (k, s'); okst s\<rbrakk> \<Longrightarrow> idleKThread s' = idleKThread s"
begin

text \<open>The thread Schedule goes to: the answer, or the idle thread.\<close>

definition target :: "addr \<Rightarrow> 'a sstate_scheme \<Rightarrow> addr" where
  "target k s = (if k = NULL then idleKThread s else k)"

lemma target_ready:
  "\<lbrakk>pick s = Some (k, s'); okst s\<rbrakk> \<Longrightarrow> target k s' = idleKThread s \<or> runnable s (target k s')"
  using ready same_idle by (fastforce simp: target_def)

end

definition cyclic_ok :: "'a sstate_scheme \<Rightarrow> bool" where
  "cyclic_ok s \<longleftrightarrow> wf_plans (cfg s) \<and> 0 \<le> clk s (clk_n s) \<and> (\<exists>t \<le> clk s (clk_n s). cyc_inv t s)"

lemma cyclic_idle:
  assumes "GetReadyKThreadCyclic hm fuel s = Some (k, s')" "hm_sched hm"
  shows "idleKThread s' = idleKThread s" "cKThread s' = cKThread s" "cfg s' = cfg s"
proof -
  have "idleKThread s' = idleKThread s \<and> cKThread s' = cKThread s \<and> cfg s' = cfg s"
  proof (cases "keeps_decision s (clk s (clk_n s))")
    case True
    then show ?thesis using cyclic_kept(1) [OF assms(1)] by simp
  next
    case False
    let ?c = "clk s (clk_n s)"
    let ?s0 = "cy_upd (\<lambda>cy. cy\<lparr>cy_flags := clr_flag (cy_flags cy) RESCHED_ENABLED\<rparr>) (s\<lparr>clk_n := Suc (clk_n s)\<rparr>)"
    obtain s1 plan slot f g r s3 s4 where st: "next_frame ?c ?s0 = Some s1"
      "ArmKTimer hm fuel (cy_kTimer (cyclic (cy_upd f s1))) (cy_nextAct (cyclic (cy_upd f s1))) 0 (cy_upd f s1) = Some (r, s3)"
      "announce_slot plan slot k s3 = Some s4" "s' = cy_upd g s4"
      using assms(1) False
      by (auto simp: GetReadyKThreadCyclic_def keeps_decision_def GetSysClockUsec_def bind_eq_Some_iff Let_def
          split: prod.splits)
    have "sched_same (cy_upd f s1) s3" using assms(2) by (intro eng.arm [OF st(2)]) (auto simp: hm_sched_def)
    moreover have "sched_same s3 s4" by (rule announce_slot_same [OF st(3)])
    moreover obtain cy au where "s1 = ?s0\<lparr>cyclic := cy, audit := au\<rparr>" using next_frame_only [OF st(1)] by blast
    ultimately show ?thesis using st(4) by (simp add: sched_same_def cy_upd_def)
  qed
  then show "idleKThread s' = idleKThread s" "cKThread s' = cKThread s" "cfg s' = cfg s" by auto
qed

lemma cyclic_ready:
  assumes "GetReadyKThreadCyclic hm fuel s = Some (k, s')" "hm_sched hm" "cyclic_ok s"
  shows "k = NULL \<or> k = idleKThread s \<or> runnable s k"
proof -
  obtain t where "t \<le> clk s (clk_n s)" "0 \<le> clk s (clk_n s)" "cyc_inv t s" "wf_plans (cfg s)"
    using assms(3) by (auto simp: cyclic_ok_def)
  from cyclic_sound(2) [OF assms(1,2) this(3,1,2,4)] show ?thesis by (auto simp: slot_owner_def)
qed

lemma fp_ready:
  assumes "GetReadyKThreadFP s = Some (k, s')"
  shows "k = NULL \<or> runnable s k" "idleKThread s' = idleKThread s" "cKThread s' = cKThread s" "cfg s' = cfg s"
  using assms by (auto simp: GetReadyKThreadFP_def bind_eq_Some_iff kt_upd_def dest!: fp_loop_spec)

definition policy_ok :: "'a sstate_ext kstate_scheme hm_event \<Rightarrow> 'a sstate_scheme \<Rightarrow> bool" where
  "policy_ok hm s \<longleftrightarrow> (cpu_schedPolicy (xmcCpuCfg (cfg s)) = CYCLIC_SCHED \<longrightarrow> hm_sched hm \<and> cyclic_ok s)"

interpretation cyc: ready_policy "GetReadyKThreadCyclic hm fuel" "\<lambda>s. hm_sched hm \<and> cyclic_ok s"
  for hm :: "'a sstate_ext kstate_scheme hm_event" and fuel
  by unfold_locales (auto dest: cyclic_ready cyclic_idle)

interpretation fp: ready_policy GetReadyKThreadFP "\<lambda>s. True"
  by unfold_locales (auto dest: fp_ready)

interpretation rdy: ready_policy "GetReadyKThread hm fuel" "policy_ok hm"
  for hm :: "'a sstate_ext kstate_scheme hm_event" and fuel
proof unfold_locales
  fix s s' :: "'a sstate_scheme" and k
  assume a: "GetReadyKThread hm fuel s = Some (k, s')" "policy_ok hm s"
  show "k = NULL \<or> k = idleKThread s \<or> runnable s k"
    using a by (auto simp: GetReadyKThread_def policy_ok_def split: sched_policy.splits
        dest: cyc.ready fp_ready)
  show "idleKThread s' = idleKThread s"
    using a by (auto simp: GetReadyKThread_def policy_ok_def split: sched_policy.splits
        dest: cyc.same_idle fp_ready)
qed

lemma StopVClock_same: "StopVClock k s = Some s' \<Longrightarrow> sched_same s s'"
  by (auto simp: StopVClock_def DisarmKTimer_def GetSysClockUsec_def bind_eq_Some_iff Let_def sched_same_def
      kt_upd_def tm_upd_def split: if_splits)

lemma hm_sched_arm: "ArmKTimer hm fuel t v i s = Some (r, s') \<Longrightarrow> hm_sched hm \<Longrightarrow> sched_same s s'"
  by (erule eng.arm) (simp add: hm_sched_def)

lemma ResumeVClock_same:
  assumes "ResumeVClock hm fuel k s = Some s'" "hm_sched hm"
  shows "sched_same s s'"
proof -
  have u: "sched_same s (kt_upd k f (s\<lparr>clk_n := n\<rparr>))" for f n by (simp add: sched_same_def kt_upd_def)
  let ?f = "g_upd (\<lambda>g. g\<lparr>g_vClock := (g_vClock g)
        \<lparr>vc_delta := clk s (clk_n s), vc_flags := set_flag (vc_flags (g_vClock g)) VCLOCK_ENABLED\<rparr>\<rparr>)"
  have "s' = kt_upd k ?f (s\<lparr>clk_n := Suc (clk_n s)\<rparr>) \<or>
     (\<exists>t v i r. ArmKTimer hm fuel t v i (kt_upd k ?f (s\<lparr>clk_n := Suc (clk_n s)\<rparr>)) = Some (r, s'))"
    using assms(1)
    by (auto simp: ResumeVClock_def GetSysClockUsec_def bind_eq_Some_iff Let_def split: if_splits)
  then show ?thesis using u eng.trans [OF u] hm_sched_arm [OF _ assms(2)] by blast
qed

text \<open>A switch ends on the new thread.\<close>

lemma switch_to_cKThread:
  assumes "switch_to hm fuel newK s = Some s'" "hm_sched hm"
  shows "cKThread s' = newK"
proof -
  obtain s1 where "s' = switch_cpu newK s1 \<or> ResumeVClock hm fuel newK (switch_cpu newK s1) = Some s'"
    using assms(1) by (auto simp: switch_to_def bind_eq_Some_iff Let_def split: if_splits)
  moreover have "cKThread (switch_cpu newK s1) = newK" by (simp add: switch_cpu_def Let_def)
  ultimately show ?thesis using ResumeVClock_same [OF _ assms(2)] by (auto simp: sched_same_def)
qed

lemma switch_leave_same:
  assumes "switch_leave newK s = Some s'" shows "sched_same s s'"
proof -
  have l: "sched_same s (log_audit e s)" for e by (simp add: log_audit_def sched_same_def)
  show ?thesis
    using assms
    by (auto simp: switch_leave_def bind_eq_Some_iff Let_def l split: if_splits
        dest!: StopVClock_same intro: eng.trans [OF l])
qed

lemma switch_enter_same:
  assumes "switch_enter hm fuel newK s = Some s'" "hm_sched hm"
  shows "sched_same s s'"
proof -
  have hm: "\<And>k s s'. hm k s = Some s' \<Longrightarrow> sched_same s s'" using assms(2) by (auto simp: hm_sched_def)
  show ?thesis
    using assms(1)
    by (auto simp: switch_enter_def GetSysClockUsec_def bind_eq_Some_iff Let_def eng.refl split: if_splits
        dest!: eng.traverse [OF _ hm] eng.set_hw [OF _ hm] intro: eng.trans [OF eng.trans [OF eng.clock]])
qed

text \<open>Schedule leaves the processor to the idle thread or to a thread that was runnable.\<close>

lemma Schedule_ready:
  assumes res: "Schedule hm fuel s = Some s'" and en: "has_flag (sched_flags s) LOCAL_SCHED_ENABLED"
    and irq: "\<not> has_flag (irqNestingCounter s) IRQ_IN_PROGRESS"
    and hm: "hm_sched hm" and ok: "policy_ok hm s"
  shows "cKThread s' = idleKThread s \<or> runnable s (cKThread s')"
proof -
  let ?s = "s\<lparr>irqNestingCounter := clr_flag (irqNestingCounter s) SCHED_PENDING\<rparr>"
  obtain k s1 where k: "GetReadyKThread hm fuel ?s = Some (k, s1)"
    and sw: "if rdy.target k s1 = cKThread s1 then s' = s1 else switch_to hm fuel (rdy.target k s1) s1 = Some s'"
    using res en irq by (auto simp: Schedule_def rdy.target_def bind_eq_Some_iff Let_def split: if_splits prod.splits)
  have "policy_ok hm ?s" using ok by (simp add: policy_ok_def cyclic_ok_def cyc_inv_def vcpu_of_def)
  from rdy.target_ready [OF k this]
  have "rdy.target k s1 = idleKThread s \<or> runnable s (rdy.target k s1)"
    by (simp add: runnable_def AreKThreadFlagsSet_def)
  moreover have "cKThread s' = rdy.target k s1"
    using sw switch_to_cKThread [OF _ hm] by (auto split: if_splits)
  ultimately show ?thesis by simp
qed

end
