(* ===== verification/Bitmap.thy ===== *)
theory Bitmap
  imports Prelude
begin

text \<open>
  The port bitmaps of core/include/guest.h: arrays of 32-bit words in the guest's control
  table, indexed by bit number, with the bound passed by the caller. A read or write outside
  the array is None. The lemmas give the read-after-write laws and the array length that
  makes every access safe.
\<close>

definition XM_LOG2_WORD_SZ :: nat where "XM_LOG2_WORD_SZ = 5"

definition xmSetBit :: "u32 list \<Rightarrow> u32 \<Rightarrow> s32 \<Rightarrow> u32 list option" where
  "xmSetBit bm bp maxBits =
     (let e = unat (drop_bit XM_LOG2_WORD_SZ bp); b = unat (bp AND 31)
      in if bp \<ge> word_of_int maxBits then Some bm
         else do { w \<leftarrow> aget bm e; Some (bm[e := w OR push_bit b 1]) })"

definition xmClearBit :: "u32 list \<Rightarrow> u32 \<Rightarrow> s32 \<Rightarrow> u32 list option" where
  "xmClearBit bm bp maxBits =
     (let e = unat (drop_bit XM_LOG2_WORD_SZ bp); b = unat (bp AND 31)
      in if bp \<ge> word_of_int maxBits then Some bm
         else do { w \<leftarrow> aget bm e; Some (bm[e := w AND NOT (push_bit b 1)]) })"

text \<open>The number of words the loops of xmClearBitmap and xmSetBitmap run over.\<close>

definition bitmap_words :: "s32 \<Rightarrow> nat" where
  "bitmap_words maxBits = unat (word_of_int
     (if maxBits AND 31 \<noteq> 0 then drop_bit XM_LOG2_WORD_SZ maxBits + 1
      else drop_bit XM_LOG2_WORD_SZ maxBits) :: u32)"

fun fill_words :: "u32 \<Rightarrow> nat \<Rightarrow> nat \<Rightarrow> u32 list \<Rightarrow> u32 list option" where
  "fill_words v e 0 bm = Some bm"
| "fill_words v e (Suc n) bm = do { _ \<leftarrow> aget bm e; fill_words v (Suc e) n (bm[e := v]) }"

definition xmClearBitmap :: "u32 list \<Rightarrow> s32 \<Rightarrow> u32 list option" where
  "xmClearBitmap bm maxBits = fill_words 0 0 (bitmap_words maxBits) bm"

definition xmSetBitmap :: "u32 list \<Rightarrow> s32 \<Rightarrow> u32 list option" where
  "xmSetBitmap bm maxBits = fill_words (NOT 0) 0 (bitmap_words maxBits) bm"

definition xmIsBitSet :: "u32 list \<Rightarrow> s32 \<Rightarrow> s32 \<Rightarrow> s32 option" where
  "xmIsBitSet bm bp maxBits =
     (let e = unat (word_of_int (drop_bit XM_LOG2_WORD_SZ bp) :: u32);
          b = unat (word_of_int bp AND 31 :: u32)
      in if bp \<ge> maxBits then Some (- 1)
         else do { w \<leftarrow> aget bm e; Some (if w AND push_bit b 1 \<noteq> 0 then 1 else 0) })"

section \<open>The abstract bitmap\<close>

text \<open>Bit \<open>i\<close> of the array, and the array size that covers \<open>n\<close> bits.\<close>

definition bm_bit :: "u32 list \<Rightarrow> nat \<Rightarrow> bool" where
  "bm_bit bm i \<longleftrightarrow> i div 32 < length bm \<and> bit (bm ! (i div 32)) (i mod 32)"

definition bm_ok :: "u32 list \<Rightarrow> nat \<Rightarrow> bool" where
  "bm_ok bm n \<longleftrightarrow> n \<le> 32 * length bm \<and> n < 2 ^ 31"

lemma bm_ok_index: "bm_ok bm n \<Longrightarrow> i < n \<Longrightarrow> i div 32 < length bm"
  by (auto simp: bm_ok_def)

lemma bit_word_index:
  assumes "i < 2 ^ 32"
  shows "unat (drop_bit XM_LOG2_WORD_SZ (word_of_nat i :: u32)) = i div 32"
    and "unat ((word_of_nat i :: u32) AND 31) = i mod 32"
proof -
  have u: "unat (word_of_nat i :: u32) = i"
    using assms by simp
  show "unat (drop_bit XM_LOG2_WORD_SZ (word_of_nat i :: u32)) = i div 32"
    unfolding XM_LOG2_WORD_SZ_def unat_drop_bit_eq u by (simp add: drop_bit_eq_div)
  have "(31 :: u32) = mask 5" by (simp add: mask_eq_exp_minus_1)
  then have "(word_of_nat i :: u32) AND 31 = take_bit 5 (word_of_nat i)"
    by (simp only: take_bit_eq_mask)
  then show "unat ((word_of_nat i :: u32) AND 31) = i mod 32"
    by (simp only: unsigned_take_bit_eq u) (simp add: take_bit_eq_mod)
qed

lemma bm_guard:
  assumes "i < 2 ^ 31" "n < 2 ^ 31"
  shows "(word_of_nat i :: u32) \<ge> word_of_int (int n) \<longleftrightarrow> n \<le> i"
proof -
  have "(word_of_int (int n) :: u32) = word_of_nat n" by simp
  then show ?thesis
    using assms by (simp add: word_le_nat_alt)
qed

lemma xmSetBit_in:
  assumes "bm_ok bm n" "i < n"
  shows "xmSetBit bm (word_of_nat i) (int n) =
    Some (bm[i div 32 := bm ! (i div 32) OR push_bit (i mod 32) 1])"
  using assms bm_ok_index [OF assms] bit_word_index [of i] bm_guard [of i n]
  by (simp add: xmSetBit_def Let_def aget_def bm_ok_def)

lemma xmClearBit_in:
  assumes "bm_ok bm n" "i < n"
  shows "xmClearBit bm (word_of_nat i) (int n) =
    Some (bm[i div 32 := bm ! (i div 32) AND NOT (push_bit (i mod 32) 1)])"
  using assms bm_ok_index [OF assms] bit_word_index [of i] bm_guard [of i n]
  by (simp add: xmClearBit_def Let_def aget_def bm_ok_def)

lemma xmSetBit_out: "word_of_int n \<le> bp \<Longrightarrow> xmSetBit bm bp n = Some bm"
  by (simp add: xmSetBit_def Let_def)

lemma xmClearBit_out: "word_of_int n \<le> bp \<Longrightarrow> xmClearBit bm bp n = Some bm"
  by (simp add: xmClearBit_def Let_def)

lemma div_mod_eq_iff: "(i :: nat) div 32 = j div 32 \<Longrightarrow> i mod 32 = j mod 32 \<longleftrightarrow> i = j"
  by (metis div_mult_mod_eq)

text \<open>Setting and clearing change exactly one abstract bit and keep the array size.\<close>

lemma bm_bit_update:
  assumes "i div 32 < length bm"
  shows "bm_bit (bm[i div 32 := bm ! (i div 32) OR push_bit (i mod 32) 1]) j \<longleftrightarrow> j = i \<or> bm_bit bm j"
    and "bm_bit (bm[i div 32 := bm ! (i div 32) AND NOT (push_bit (i mod 32) 1)]) j \<longleftrightarrow>
      j \<noteq> i \<and> bm_bit bm j"
proof -
  have m: "j mod 32 < 32" by simp
  show "bm_bit (bm[i div 32 := bm ! (i div 32) OR push_bit (i mod 32) 1]) j \<longleftrightarrow> j = i \<or> bm_bit bm j"
    using assms m div_mod_eq_iff [of i j]
    by (cases "i div 32 = j div 32") (auto simp: bm_bit_def bit_or_iff bit_exp_u32)
  show "bm_bit (bm[i div 32 := bm ! (i div 32) AND NOT (push_bit (i mod 32) 1)]) j \<longleftrightarrow>
      j \<noteq> i \<and> bm_bit bm j"
    using assms m div_mod_eq_iff [of i j]
    by (cases "i div 32 = j div 32") (auto simp: bm_bit_def bit_and_iff bit_not_iff bit_exp_u32)
qed

lemma xmSetBit_bit:
  assumes "bm_ok bm n" "i < n"
  shows "\<exists>bm'. xmSetBit bm (word_of_nat i) (int n) = Some bm' \<and> bm_ok bm' n \<and>
    (\<forall>j. bm_bit bm' j \<longleftrightarrow> j = i \<or> bm_bit bm j)"
  using xmSetBit_in [OF assms] bm_bit_update(1) [OF bm_ok_index [OF assms]] assms(1)
  by (auto simp: bm_ok_def)

lemma xmClearBit_bit:
  assumes "bm_ok bm n" "i < n"
  shows "\<exists>bm'. xmClearBit bm (word_of_nat i) (int n) = Some bm' \<and> bm_ok bm' n \<and>
    (\<forall>j. bm_bit bm' j \<longleftrightarrow> j \<noteq> i \<and> bm_bit bm j)"
  using xmClearBit_in [OF assms] bm_bit_update(2) [OF bm_ok_index [OF assms]] assms(1)
  by (auto simp: bm_ok_def)

lemma and_push1: "(w :: u32) AND 2 ^ b \<noteq> 0 \<longleftrightarrow> b < 32 \<and> bit w b"
  using has_flag_bit [of w "2 ^ b"] by (auto simp: has_flag_def bit_exp_u32)

lemma xmIsBitSet_bit:
  assumes "bm_ok bm n" "i < n"
  shows "xmIsBitSet bm (int i) (int n) = Some (if bm_bit bm i then 1 else 0)"
proof -
  have "unat (word_of_int (drop_bit XM_LOG2_WORD_SZ (int i)) :: u32) = i div 32"
  proof -
    have "drop_bit XM_LOG2_WORD_SZ (int i) = int (i div 32)"
      by (simp add: XM_LOG2_WORD_SZ_def drop_bit_eq_div zdiv_int)
    moreover have "i div 32 < 2 ^ 32"
    proof (rule le_less_trans)
      show "i div 32 \<le> i" by simp
      show "i < 2 ^ 32" using assms by (simp add: bm_ok_def)
    qed
    ultimately show ?thesis by simp
  qed
  moreover have "unat ((word_of_int (int i) :: u32) AND 31) = i mod 32"
    using bit_word_index(2) [of i] assms by (simp add: bm_ok_def)
  ultimately show ?thesis
    using assms bm_ok_index [OF assms]
    using and_push1 [of "bm ! (i div 32)" "i mod 32"]
    by (simp add: xmIsBitSet_def Let_def aget_def bm_bit_def)
qed

lemma fill_words_nth:
  "e + n \<le> length bm \<Longrightarrow> \<exists>bm'. fill_words v e n bm = Some bm' \<and> length bm' = length bm \<and>
     (\<forall>i < length bm. bm' ! i = (if e \<le> i \<and> i < e + n then v else bm ! i))"
proof (induction n arbitrary: e bm)
  case (Suc n)
  from Suc.IH [of "Suc e" "bm[e := v]"] Suc.prems obtain bm' where
    "fill_words v (Suc e) n (bm[e := v]) = Some bm'" "length bm' = length bm"
    "\<forall>i < length bm. bm' ! i = (if Suc e \<le> i \<and> i < Suc e + n then v else bm[e := v] ! i)"
    by auto
  with Suc.prems show ?case by (auto simp: aget_def nth_list_update)
qed auto

lemma bitmap_words_eq: "n < 2 ^ 31 \<Longrightarrow> bitmap_words (int n) = (n + 31) div 32"
proof -
  assume n: "n < 2 ^ 31"
  have a: "int n AND 31 = int (n mod 32)"
    using take_bit_eq_mask [of 5 "int n"] by (simp add: take_bit_eq_mod mask_eq_exp_minus_1 zmod_int)
  have d: "drop_bit XM_LOG2_WORD_SZ (int n) = int (n div 32)"
    by (simp add: XM_LOG2_WORD_SZ_def drop_bit_eq_div zdiv_int)
  have k: "(n + 31) div 32 = (if n mod 32 \<noteq> 0 then n div 32 + 1 else n div 32)"
  proof -
    obtain q r where n: "n = 32 * q + r" "r < 32"
      by (metis div_mod_decomp mod_less_divisor mult.commute zero_less_numeral)
    then have "n div 32 = q" "n mod 32 = r" by auto
    then show ?thesis using n by (auto intro!: div_nat_eqI)
  qed
  have "(if int n AND 31 \<noteq> 0 then drop_bit XM_LOG2_WORD_SZ (int n) + 1
      else drop_bit XM_LOG2_WORD_SZ (int n)) = int ((n + 31) div 32)"
    unfolding a d k by simp
  then have "bitmap_words (int n) = unat (word_of_nat ((n + 31) div 32) :: u32)"
    unfolding bitmap_words_def by (simp only: of_int_of_nat_eq)
  also have "\<dots> = (n + 31) div 32"
  proof (rule unat_u32, rule le_less_trans)
    show "(n + 31) div 32 \<le> n + 31" by simp
    show "n + 31 < 2 ^ 32" using n by simp
  qed
  finally show ?thesis .
qed

lemma xmClearBitmap_bits:
  assumes "bm_ok bm n"
  shows "\<exists>bm'. xmClearBitmap bm (int n) = Some bm' \<and> bm_ok bm' n \<and> (\<forall>i < n. \<not> bm_bit bm' i)"
proof -
  have w: "bitmap_words (int n) = (n + 31) div 32" and le: "(n + 31) div 32 \<le> length bm"
    using assms bitmap_words_eq by (auto simp: bm_ok_def)
  from fill_words_nth [of 0 "(n + 31) div 32" bm 0] le obtain bm' where
    b: "fill_words 0 0 ((n + 31) div 32) bm = Some bm'" "length bm' = length bm"
    "\<forall>i < length bm. bm' ! i = (if i < (n + 31) div 32 then 0 else bm ! i)" by auto
  have "\<not> bm_bit bm' i" if "i < n" for i
    using b that by (auto simp: bm_bit_def)
  then show ?thesis
    using b assms w by (auto simp: xmClearBitmap_def bm_ok_def)
qed

end
