(* ===== verification/Klibc.thy ===== *)
theory Klibc
  imports Prelude
begin

text \<open>
  The freestanding C library of the kernel: the memory and string routines of
  core/klibc/string.c and the number parsers of core/klibc/stdlib.c. A memory maps addresses to
  bytes; an address it does not map is outside every object, and touching it is None. Loops whose
  number of rounds is a parameter are recursions on it; loops that look for a terminator are
  partial functions, and their results are proved for terminated strings. The lemmas give the
  lists of bytes the routines leave behind, and the values the parsers return.
\<close>

type_synonym mem = "nat \<Rightarrow> u8 option"

definition mstore :: "mem \<Rightarrow> nat \<Rightarrow> u8 \<Rightarrow> mem option" where
  "mstore m a v = (if m a = None then None else Some (m(a \<mapsto> v)))"

section \<open>Memory blocks\<close>

fun memset :: "mem \<Rightarrow> nat \<Rightarrow> u8 \<Rightarrow> nat \<Rightarrow> mem option" where
  "memset m dst v 0 = Some m"
| "memset m dst v (Suc n) = do { m \<leftarrow> mstore m dst v; memset m (Suc dst) v n }"

fun memcpy :: "mem \<Rightarrow> nat \<Rightarrow> nat \<Rightarrow> nat \<Rightarrow> mem option" where
  "memcpy m dst src 0 = Some m"
| "memcpy m dst src (Suc n) = do { b \<leftarrow> m src; m \<leftarrow> mstore m dst b; memcpy m (Suc dst) (Suc src) n }"

text \<open>The second loop of memmove: from the last byte down.\<close>

fun memcpy_down :: "mem \<Rightarrow> nat \<Rightarrow> nat \<Rightarrow> nat \<Rightarrow> mem option" where
  "memcpy_down m dst src 0 = Some m"
| "memcpy_down m dst src (Suc n) =
     do { b \<leftarrow> m (src + n); m \<leftarrow> mstore m (dst + n) b; memcpy_down m dst src n }"

definition memmove :: "mem \<Rightarrow> nat \<Rightarrow> nat \<Rightarrow> nat \<Rightarrow> mem option" where
  "memmove m dst src n =
     (if src \<noteq> dst then (if src > dst then memcpy m dst src n else memcpy_down m dst src n)
      else Some m)"

text \<open>The bytes are signed characters.\<close>

fun memcmp :: "mem \<Rightarrow> nat \<Rightarrow> nat \<Rightarrow> nat \<Rightarrow> s32 option" where
  "memcmp m d s 0 = Some 0"
| "memcmp m d s (Suc n) = do { x \<leftarrow> m d; y \<leftarrow> m s;
     if sint x - sint y \<noteq> 0 then Some (sint x - sint y) else memcmp m (Suc d) (Suc s) n }"

section \<open>Strings\<close>

text \<open>\<open>while ((*aux++ = *src++));\<close>\<close>

partial_function (option) strcpy :: "mem \<Rightarrow> nat \<Rightarrow> nat \<Rightarrow> mem option" where
  "strcpy m dst src = do { b \<leftarrow> m src; m \<leftarrow> mstore m dst b;
     if b = 0 then Some m else strcpy m (Suc dst) (Suc src) }"

text \<open>The loop of strncpy with \<open>j\<close> counting up to \<open>n\<close>; the result has the final \<open>j\<close>.\<close>

fun strncpy_loop :: "mem \<Rightarrow> nat \<Rightarrow> nat \<Rightarrow> nat \<Rightarrow> nat \<Rightarrow> (nat \<times> mem) option" where
  "strncpy_loop m dest src j 0 = Some (j, m)"
| "strncpy_loop m dest src j (Suc k) = do { b \<leftarrow> m (src + j);
     if b = 0 then Some (j, m)
     else do { m \<leftarrow> mstore m (dest + j) b; strncpy_loop m dest src (Suc j) k } }"

text \<open>\<open>dest[n-1]\<close> for \<open>n = 0\<close> has the unsigned index 4294967295: in 32-bit addresses, the byte
  before \<open>dest\<close>.\<close>

definition strncpy :: "mem \<Rightarrow> nat \<Rightarrow> nat \<Rightarrow> u32 \<Rightarrow> mem option" where
  "strncpy m dest src n = do {
     m \<leftarrow> memset m dest 0 (unat n);
     (j, m) \<leftarrow> strncpy_loop m dest src 0 (unat n);
     if j \<ge> unat n then mstore m ((dest + unat (n - 1)) mod 2 ^ 32) 0 else Some m
   }"

partial_function (option) strlen_loop :: "mem \<Rightarrow> nat \<Rightarrow> nat \<Rightarrow> nat option" where
  "strlen_loop m s i = do { b \<leftarrow> m s; if b = 0 then Some i else strlen_loop m (Suc s) (Suc i) }"

definition strlen :: "mem \<Rightarrow> nat \<Rightarrow> nat option" where
  "strlen m s = (if s = NULL then Some 0 else strlen_loop m s 0)"

definition strcat :: "mem \<Rightarrow> nat \<Rightarrow> nat \<Rightarrow> mem option" where
  "strcat m s t = do { l \<leftarrow> strlen m s; strcpy m (s + l) t }"

text \<open>The loop of strncat: it ends at the terminator of \<open>t\<close> or at \<open>max\<close>, \<open>k\<close> bytes ahead.\<close>

fun strncat_loop :: "mem \<Rightarrow> nat \<Rightarrow> nat \<Rightarrow> nat \<Rightarrow> (nat \<times> mem) option" where
  "strncat_loop m s t 0 = Some (s, m)"
| "strncat_loop m s t (Suc k) = do { b \<leftarrow> m t; m \<leftarrow> mstore m s b;
     if b = 0 then Some (s, m) else strncat_loop m (Suc s) (Suc t) k }"

definition strncat :: "mem \<Rightarrow> nat \<Rightarrow> nat \<Rightarrow> nat \<Rightarrow> mem option" where
  "strncat m s t n = do { l \<leftarrow> strlen m s;
     if n = 0 then Some m
     else do { (e, m) \<leftarrow> strncat_loop m (s + l) t n; mstore m e 0 } }"

text \<open>The comparisons read the two strings through their own readers: one of them may be in the
  memory of a partition.\<close>

partial_function (option) strcmp :: "(nat \<Rightarrow> u8 option) \<Rightarrow> (nat \<Rightarrow> u8 option) \<Rightarrow> nat \<Rightarrow> s32 option" where
  "strcmp s t i = do { x \<leftarrow> s i; y \<leftarrow> t i;
     if x \<noteq> y \<or> x = 0 then Some (sint x - sint y) else strcmp s t (Suc i) }"

fun strncmp :: "(nat \<Rightarrow> u8 option) \<Rightarrow> (nat \<Rightarrow> u8 option) \<Rightarrow> nat \<Rightarrow> nat \<Rightarrow> s32 option" where
  "strncmp s t i 0 = Some 0"
| "strncmp s t i (Suc n) = do { x \<leftarrow> s i; y \<leftarrow> t i;
     if uint x - uint y \<noteq> 0 then Some (uint x - uint y)
     else if x = 0 then Some 0 else strncmp s t (Suc i) n }"

partial_function (option) strrchr_loop :: "mem \<Rightarrow> nat \<Rightarrow> u8 \<Rightarrow> nat \<Rightarrow> nat option" where
  "strrchr_loop m t ch l = do { b \<leftarrow> m t;
     let l = (if b = ch then t else l);
     if b = 0 then Some l else strrchr_loop m (Suc t) ch l }"

definition strrchr :: "mem \<Rightarrow> nat \<Rightarrow> s32 \<Rightarrow> nat option" where
  "strrchr m t c = strrchr_loop m t (word_of_int c) NULL"

partial_function (option) strchr_loop :: "mem \<Rightarrow> nat \<Rightarrow> u8 \<Rightarrow> nat option" where
  "strchr_loop m t ch = do { b \<leftarrow> m t;
     if b = ch then Some t else if b = 0 then Some NULL else strchr_loop m (Suc t) ch }"

definition strchr :: "mem \<Rightarrow> nat \<Rightarrow> s32 \<Rightarrow> nat option" where
  "strchr m t c = strchr_loop m t (word_of_int c)"

fun strstr_loop :: "mem \<Rightarrow> nat \<Rightarrow> nat \<Rightarrow> nat \<Rightarrow> nat \<Rightarrow> nat option" where
  "strstr_loop m h needle nl 0 = Some NULL"
| "strstr_loop m h needle nl (Suc i) = do { x \<leftarrow> m h; y \<leftarrow> m needle;
     r \<leftarrow> (if x = y then memcmp m h needle nl else Some 1);
     if r = 0 then Some h else strstr_loop m (Suc h) needle nl i }"

definition strstr :: "mem \<Rightarrow> nat \<Rightarrow> nat \<Rightarrow> nat option" where
  "strstr m haystack needle = do { nl \<leftarrow> strlen m needle; hl \<leftarrow> strlen m haystack;
     if nl = 0 then Some haystack
     else if nl > hl then Some NULL
     else strstr_loop m haystack needle nl (hl - nl + 1) }"

declare strcpy.simps [code] strlen_loop.simps [code] strcmp.simps [code]
  strrchr_loop.simps [code] strchr_loop.simps [code]

section \<open>Numbers\<close>

text \<open>The classification macros of core/include/stdc.h on (signed) characters.\<close>

definition isspace :: "u8 \<Rightarrow> bool" where
  "isspace ch \<longleftrightarrow> (word_of_int (sint ch - 9) :: u32) < 5 \<or> ch = 32"

definition isdigit :: "u8 \<Rightarrow> bool" where
  "isdigit ch \<longleftrightarrow> (word_of_int (sint ch - 48) :: u32) < 10"

definition isxdigit :: "u8 \<Rightarrow> bool" where
  "isxdigit ch \<longleftrightarrow> isdigit ch \<or> (word_of_int ((sint ch OR 32) - 97) :: u32) < 6"

definition isalnum :: "u8 \<Rightarrow> bool" where
  "isalnum ch \<longleftrightarrow> (word_of_int ((sint ch OR 32) - 97) :: u32) < 26 \<or> isdigit ch"

text \<open>The digit of an unsigned character, and the value of one step in 32 bits, split at bit 8
  to see the overflow.\<close>

definition digit_of :: "u8 \<Rightarrow> u8" where
  "digit_of c = (if c \<ge> 97 then c - 97 + 10 else if c \<ge> 65 then c - 65 + 10
     else if c \<le> 57 then c - 48 else 0xff)"

definition strtoul_step :: "u32 \<Rightarrow> u8 \<Rightarrow> u32 \<Rightarrow> bool \<times> u32" where
  "strtoul_step base c v =
     (let x = (v AND 0xff) * base + ucast c;
          w = drop_bit 8 v * base + drop_bit 8 x
      in (w > 0xFFFFFF, push_bit 8 w + (x AND 0xff)))"

text \<open>strtoull keeps the value in a signed 64-bit variable; its mask is 0x1ff.\<close>

definition strtoull_step :: "u32 \<Rightarrow> u8 \<Rightarrow> 64 word \<Rightarrow> bool \<times> 64 word" where
  "strtoull_step base c v =
     (let x = ucast ((v AND 0x1ff) * ucast base + ucast c) :: u32;
          w = signed_drop_bit 8 v * ucast base + ucast (drop_bit 8 x)
      in (w > 0xFFFFFFFFFFFFFF, push_bit 8 w + ucast (x AND 0xff)))"

text \<open>The loop over the digits; the result is the end pointer, the overflow flag and the value.\<close>

partial_function (option) strto_loop :: "(u32 \<Rightarrow> u8 \<Rightarrow> 'v \<Rightarrow> bool \<times> 'v) \<Rightarrow> mem \<Rightarrow> u32 \<Rightarrow> nat \<Rightarrow>
    bool \<Rightarrow> 'v \<Rightarrow> (nat \<times> bool \<times> 'v) option" where
  "strto_loop step m base nptr ov v = do { c \<leftarrow> m nptr;
     if c = 0 then Some (nptr, ov, v)
     else if uint (digit_of c) \<ge> sint base then Some (nptr, ov, v)
     else let (o1, v) = step base (digit_of c) v in strto_loop step m base (Suc nptr) (ov \<or> o1) v }"

partial_function (option) skip_space :: "mem \<Rightarrow> nat \<Rightarrow> nat option" where
  "skip_space m p = do { c \<leftarrow> m p; if isspace c then skip_space m (Suc p) else Some p }"

declare strto_loop.simps [code] skip_space.simps [code]

text \<open>The sign, then the prefix: the number starts after \<open>0x\<close> for base 16 or no base. The result
  for a base out of range is None inside.\<close>

definition strto_sign :: "mem \<Rightarrow> nat \<Rightarrow> (bool \<times> nat) option" where
  "strto_sign m p = do { c \<leftarrow> m p;
     Some (if c = 45 then (True, Suc p) else if c = 43 then (False, Suc p) else (False, p)) }"

definition skip0x :: "mem \<Rightarrow> nat \<Rightarrow> u32 \<Rightarrow> (nat \<times> u32) option" where
  "skip0x m p base = do { c1 \<leftarrow> m (p + 1);
     if c1 = 120 \<or> c1 = 88 then do { c2 \<leftarrow> m (p + 2);
       Some (if isxdigit c2 then (p + 2, 16) else (p, base)) }
     else Some (p, base) }"

definition strto_prefix :: "mem \<Rightarrow> nat \<Rightarrow> u32 \<Rightarrow> (nat \<times> u32) option option" where
  "strto_prefix m p base = do { c0 \<leftarrow> m p;
     if base = 16 \<and> c0 = 48 then map_option Some (skip0x m p base)
     else if base \<noteq> 0 then Some (if base - 2 > 34 then None else Some (p, base))
     else if c0 = 48 then map_option Some (skip0x m p 8)
     else Some (Some (p, 10)) }"

text \<open>The common text of the unsigned parsers: the end pointer (None when \<open>*endptr\<close> is not
  written), whether the value overflowed, the sign and the value.\<close>

definition strto_common :: "(u32 \<Rightarrow> u8 \<Rightarrow> 'v \<Rightarrow> bool \<times> 'v) \<Rightarrow> mem \<Rightarrow> nat \<Rightarrow> u32 \<Rightarrow> 'v \<Rightarrow>
    (nat option \<times> bool \<times> bool \<times> 'v) option" where
  "strto_common step m ptr base zero = do {
     p \<leftarrow> skip_space m ptr;
     (neg, orig) \<leftarrow> strto_sign m p;
     pre \<leftarrow> strto_prefix m orig base;
     case pre of None \<Rightarrow> Some (None, False, False, zero)
     | Some (p, base) \<Rightarrow> do {
         (e, ov, v) \<leftarrow> strto_loop step m base p False zero;
         Some (if e = orig then (Some ptr, ov, neg, zero) else (Some e, ov, neg, v)) } }"

definition strtoul :: "mem \<Rightarrow> nat \<Rightarrow> u32 \<Rightarrow> (nat option \<times> u32) option" where
  "strtoul m ptr base = do {
     (e, ov, neg, v) \<leftarrow> strto_common strtoul_step m ptr base 0;
     Some (e, if ov then - 1 else if neg then - v else v) }"

definition strtoull :: "mem \<Rightarrow> nat \<Rightarrow> u32 \<Rightarrow> (nat option \<times> 64 word) option" where
  "strtoull m ptr base = do {
     (e, ov, neg, v) \<leftarrow> strto_common strtoull_step m ptr base 0;
     Some (e, if ov then - 1 else if neg then - v else v) }"

text \<open>The signed parsers. A missing end pointer of the caller only drops the first component.\<close>

definition strtol :: "mem \<Rightarrow> nat \<Rightarrow> u32 \<Rightarrow> (nat option \<times> u32) option" where
  "strtol m orig base = do {
     p \<leftarrow> skip_space m orig;
     c \<leftarrow> m p;
     neg \<leftarrow> (if c = 45 then map_option isalnum (m (p + 1)) else Some False);
     let nptr = (if neg then Suc p else p);
     (e, v) \<leftarrow> strtoul m nptr base;
     let e = (if e = Some nptr then Some orig else e);
     Some (e, if v \<ge> 0x80000000 then (if v = 0x80000000 \<and> neg then v
                else if neg then 0x80000000 else 0x7FFFFFFF)
              else if neg then - v else v) }"

definition strtoll :: "mem \<Rightarrow> nat \<Rightarrow> u32 \<Rightarrow> (nat option \<times> 64 word) option" where
  "strtoll m orig base = do {
     p \<leftarrow> skip_space m orig;
     c \<leftarrow> m p;
     neg \<leftarrow> (if c = 45 then map_option isalnum (m (p + 1)) else Some False);
     let nptr = (if neg then Suc p else p);
     (e, v) \<leftarrow> strtoull m nptr base;
     let e = (if e = Some nptr then Some orig else e);
     Some (e, if v > 0x7FFFFFFFFFFFFFFF then (if v = 0x8000000000000000 \<and> neg then v
                else if neg then 0x8000000000000000 else 0x7FFFFFFFFFFFFFFF)
              else if neg then - v else v) }"

text \<open>basename removes trailing slashes in place.\<close>

partial_function (option) basename :: "mem \<Rightarrow> nat \<Rightarrow> (nat \<times> mem) option" where
  "basename m path = do { c \<leftarrow> strrchr m path 47;
     if c = NULL then Some (path, m)
     else do { b \<leftarrow> m (c + 1);
       if b = 0 then (if c = path then Some (c, m)
                      else do { m \<leftarrow> mstore m c 0; basename m path })
       else Some (c + 1, m) } }"

declare basename.simps [code]

section \<open>Blocks as lists\<close>

definition bytes_at :: "mem \<Rightarrow> nat \<Rightarrow> u8 list \<Rightarrow> bool" where
  "bytes_at m a xs \<longleftrightarrow> (\<forall>i < length xs. m (a + i) = Some (xs ! i))"

definition mapped :: "mem \<Rightarrow> nat \<Rightarrow> nat \<Rightarrow> bool" where
  "mapped m a n \<longleftrightarrow> (\<forall>i < n. m (a + i) \<noteq> None)"

definition cstr :: "mem \<Rightarrow> nat \<Rightarrow> u8 list \<Rightarrow> bool" where
  "cstr m a xs \<longleftrightarrow> bytes_at m a (xs @ [0]) \<and> 0 \<notin> set xs"

text \<open>The memory with a block replaced.\<close>

definition put_bytes :: "mem \<Rightarrow> nat \<Rightarrow> u8 list \<Rightarrow> mem" where
  "put_bytes m a xs = (\<lambda>p. if a \<le> p \<and> p < a + length xs then Some (xs ! (p - a)) else m p)"

lemma bytes_at_Nil [simp]: "bytes_at m a []"
  by (simp add: bytes_at_def)

lemma bytes_at_Cons: "bytes_at m a (x # xs) \<longleftrightarrow> m a = Some x \<and> bytes_at m (Suc a) xs"
  unfolding bytes_at_def by (auto simp: nth_Cons less_Suc_eq_0_disj split: nat.splits)

lemma bytes_at_append:
  "bytes_at m a (xs @ ys) \<longleftrightarrow> bytes_at m a xs \<and> bytes_at m (a + length xs) ys"
  by (induction xs arbitrary: a) (simp_all add: bytes_at_Cons)

lemma mapped_Suc: "mapped m a (Suc n) \<longleftrightarrow> m a \<noteq> None \<and> mapped m (Suc a) n"
  unfolding mapped_def by (auto simp: less_Suc_eq_0_disj)

lemma mapped_Suc_top: "mapped m a (Suc n) \<longleftrightarrow> m (a + n) \<noteq> None \<and> mapped m a n"
  unfolding mapped_def by (auto simp: less_Suc_eq)

lemma put_bytes_Nil [simp]: "put_bytes m a [] = m"
  by (auto simp: put_bytes_def fun_eq_iff)

lemma put_bytes_Cons: "put_bytes m a (x # xs) = put_bytes (m(a \<mapsto> x)) (Suc a) xs"
  by (auto simp: put_bytes_def fun_eq_iff nth_Cons' Suc_diff_Suc)

lemma put_bytes_snoc: "put_bytes m a (xs @ [x]) = put_bytes (m(a + length xs \<mapsto> x)) a xs"
  by (auto simp: put_bytes_def fun_eq_iff nth_append)

lemma bytes_at_put: "bytes_at (put_bytes m a xs) a xs"
  by (simp add: bytes_at_def put_bytes_def)

lemma mapped_upd [simp]: "mapped m a n \<Longrightarrow> mapped (m(p \<mapsto> v)) a n"
  by (simp add: mapped_def)

lemma mstore_mapped: "m a \<noteq> None \<Longrightarrow> mstore m a v = Some (m(a \<mapsto> v))"
  by (simp add: mstore_def)

lemma memset_bytes: "mapped m a n \<Longrightarrow> memset m a v n = Some (put_bytes m a (replicate n v))"
  by (induction n arbitrary: m a) (simp_all add: mapped_Suc mstore_mapped put_bytes_Cons)

text \<open>Copying up is right when the destination does not start inside the source.\<close>

lemma memcpy_bytes:
  assumes "bytes_at m src xs" "mapped m dst (length xs)" "dst \<le> src \<or> src + length xs \<le> dst"
  shows "memcpy m dst src (length xs) = Some (put_bytes m dst xs)"
  using assms
proof (induction xs arbitrary: m src dst)
  case (Cons x xs)
  have b: "m src = Some x" "bytes_at m (Suc src) xs" and d: "m dst \<noteq> None" "mapped m (Suc dst) (length xs)"
    using Cons.prems by (simp_all add: bytes_at_Cons mapped_Suc)
  have "bytes_at (m(dst \<mapsto> x)) (Suc src) xs"
    using b(2) Cons.prems(3) by (auto simp: bytes_at_def)
  then have "memcpy (m(dst \<mapsto> x)) (Suc dst) (Suc src) (length xs) =
      Some (put_bytes (m(dst \<mapsto> x)) (Suc dst) xs)"
    using Cons.prems(3) by (intro Cons.IH mapped_upd d(2)) (assumption, auto)
  then show ?case
    using b(1) d(1) by (simp add: mstore_mapped put_bytes_Cons)
qed simp

lemma memcpy_down_bytes:
  assumes "bytes_at m src xs" "mapped m dst (length xs)" "src \<le> dst"
  shows "memcpy_down m dst src (length xs) = Some (put_bytes m dst xs)"
  using assms
proof (induction xs arbitrary: m rule: rev_induct)
  case (snoc x xs)
  have b: "m (src + length xs) = Some x" "bytes_at m src xs"
    and d: "m (dst + length xs) \<noteq> None" "mapped m dst (length xs)"
    using snoc.prems by (simp_all add: bytes_at_append bytes_at_Cons mapped_Suc_top)
  have "bytes_at (m(dst + length xs \<mapsto> x)) src xs"
    using b(2) snoc.prems(3) by (auto simp: bytes_at_def)
  then have "memcpy_down (m(dst + length xs \<mapsto> x)) dst src (length xs) =
      Some (put_bytes (m(dst + length xs \<mapsto> x)) dst xs)"
    using snoc.prems(3) by (intro snoc.IH mapped_upd d(2)) (assumption, simp)
  then show ?case
    using b(1) d(1) by (simp add: mstore_mapped put_bytes_snoc)
qed simp

lemma put_bytes_same: "bytes_at m a xs \<Longrightarrow> put_bytes m a xs = m"
  unfolding put_bytes_def bytes_at_def fun_eq_iff by (metis le_add_diff_inverse nat_add_left_cancel_less)

lemma memmove_bytes:
  assumes "bytes_at m src xs" "mapped m dst (length xs)"
  shows "memmove m dst src (length xs) = Some (put_bytes m dst xs)"
  using memcpy_bytes [OF assms] memcpy_down_bytes [OF assms] put_bytes_same [OF assms(1)]
  by (auto simp: memmove_def)

section \<open>Strings as lists\<close>

lemma cstr_Nil: "cstr m a [] \<longleftrightarrow> m a = Some 0"
  by (simp add: cstr_def bytes_at_Cons)

lemma cstr_Cons: "cstr m a (x # xs) \<longleftrightarrow> m a = Some x \<and> x \<noteq> 0 \<and> cstr m (Suc a) xs"
  by (auto simp: cstr_def bytes_at_Cons)

lemma strlen_loop_cstr: "cstr m s xs \<Longrightarrow> strlen_loop m s i = Some (i + length xs)"
proof (induction xs arbitrary: s i)
  case (Cons x xs)
  then show ?case by (subst strlen_loop.simps) (simp add: cstr_Cons)
qed (subst strlen_loop.simps, simp add: cstr_Nil)

lemma strlen_cstr: "cstr m s xs \<Longrightarrow> s \<noteq> NULL \<Longrightarrow> strlen m s = Some (length xs)"
  by (simp add: strlen_def strlen_loop_cstr)

text \<open>A comparison of \<open>n\<close> bytes is zero exactly for equal bytes up to the first terminator.\<close>

definition same_str :: "(nat \<Rightarrow> u8) \<Rightarrow> (nat \<Rightarrow> u8) \<Rightarrow> nat \<Rightarrow> nat \<Rightarrow> bool" where
  "same_str s t i n \<longleftrightarrow> (\<forall>j. i \<le> j \<longrightarrow> j < i + n \<longrightarrow> (\<forall>l. i \<le> l \<longrightarrow> l < j \<longrightarrow> s l \<noteq> 0) \<longrightarrow> s j = t j)"

lemma strncmp_zero:
  "\<lbrakk>\<And>j. s j = Some (f j); \<And>j. t j = Some (g j)\<rbrakk> \<Longrightarrow>
     \<exists>r. strncmp s t i n = Some r \<and> (r = 0 \<longleftrightarrow> same_str f g i n)"
proof (induction n arbitrary: i)
  case 0
  then show ?case by (simp add: same_str_def)
next
  case (Suc n)
  note IH = Suc.IH [OF Suc.prems, of "Suc i"]
  show ?case
  proof (cases "f i = g i \<and> f i \<noteq> 0")
    case True
    have "same_str f g i (Suc n) \<longleftrightarrow> same_str f g (Suc i) n"
      using True unfolding same_str_def by (metis Suc_leD Suc_leI add_Suc add_Suc_right nat_less_le)
    then show ?thesis using IH True Suc.prems by auto
  next
    case False
    have "same_str f g i (Suc n)" if "f i = g i"
      using False that unfolding same_str_def by (metis le_neq_implies_less order_refl)
    moreover have "f i = g i" if "same_str f g i (Suc n)"
      using that unfolding same_str_def by auto
    ultimately have "same_str f g i (Suc n) \<longleftrightarrow> f i = g i" by blast
    then show ?thesis using False Suc.prems by (auto simp: word_uint_eq_iff)
  qed
qed

section \<open>The values of the parsers\<close>

lemma and_ff: "unat ((v :: u32) AND 0xff) = unat v mod 256"
proof -
  have "(0xff :: u32) = mask 8" by (simp add: mask_eq_exp_minus_1)
  then have "v AND 0xff = take_bit 8 v" by (simp only: take_bit_eq_mask)
  then show ?thesis by (simp only: unsigned_take_bit_eq) (simp add: take_bit_eq_mod)
qed

lemma strtoul_step_exact:
  assumes "unat base \<le> 36" "unat c < 36"
  shows "strtoul_step base c v = (2 ^ 32 \<le> unat v * unat base + unat c,
    word_of_nat (unat v * unat base + unat c))"
proof -
  define V B C X W where "V = unat v" and "B = unat base" and "C = unat c"
    and "X = V mod 256 * B + C" and "W = V div 256 * B + X div 256"
  note V_B_C_X_W_def = V_def B_def C_def X_def W_def
  have vb: "V < 2 ^ 32" unfolding V_def by (rule order.strict_trans2 [OF unsigned_less]) simp
  have b: "B \<le> 36" "C < 36" using assms by (simp_all add: V_B_C_X_W_def)
  have xb: "V mod 256 * B \<le> 255 * 36" using b by (intro mult_le_mono) auto
  have wb: "V div 256 * B \<le> 16777215 * 36" using b vb by (intro mult_le_mono) auto
  have x: "unat ((v AND 0xff) * base + ucast c) = X"
    using xb b by (simp add: unat_word_ariths and_ff unsigned_ucast_eq V_B_C_X_W_def take_bit_nat_eq_self
        take_bit_eq_mod)
  have q: "V div 256 mod 4294967296 = V div 256" "V div 256 * B mod 4294967296 = V div 256 * B"
    "X div 256 mod 4294967296 = X div 256" "(V div 256 * B + X div 256) mod 4294967296 = W"
    using vb wb xb b by (simp_all add: X_def W_def)
  have w: "unat (drop_bit 8 v * base + drop_bit 8 ((v AND 0xff) * base + ucast c)) = W"
    using x by (simp add: unat_word_ariths unat_drop_bit_eq drop_bit_eq_div q
      flip: V_def B_def C_def)
  have total: "V * B + C = 256 * W + X mod 256"
  proof -
    have "V * B = (256 * (V div 256) + V mod 256) * B" by simp
    also have "\<dots> = 256 * (V div 256 * B) + V mod 256 * B" by (simp only: distrib_right mult.assoc)
    finally have "V * B + C = 256 * (V div 256 * B) + X" by (simp add: V_B_C_X_W_def(4))
    moreover have "X = 256 * (X div 256) + X mod 256" by simp
    ultimately show ?thesis by (simp only: V_B_C_X_W_def(5) distrib_left)
  qed
  have big: "drop_bit 8 v * base + drop_bit 8 ((v AND 0xff) * base + ucast c) > 0xFFFFFF \<longleftrightarrow> 2 ^ 32 \<le> V * B + C"
  proof -
    have "X mod 256 < 256" by simp
    then show ?thesis unfolding word_less_nat_alt w total by (simp, linarith)
  qed
  have "push_bit 8 (word_of_nat W :: u32) + (((v AND 0xff) * base + ucast c) AND 0xff) = word_of_nat (V * B + C)"
  proof -
    have "((v AND 0xff) * base + ucast c) AND 0xff = word_of_nat (X mod 256)"
      by (subst word_unat_eq_iff) (simp add: and_ff x unsigned_of_nat take_bit_nat_eq_self)
    moreover have "push_bit 8 (word_of_nat W :: u32) + word_of_nat (X mod 256) = word_of_nat (256 * W + X mod 256)"
      by (simp add: push_bit_eq_mult)
    ultimately show ?thesis by (simp only: total)
  qed
  moreover have "drop_bit 8 v * base + drop_bit 8 ((v AND 0xff) * base + ucast c) = (word_of_nat W :: u32)"
    by (simp flip: w)
  ultimately show ?thesis
    using big by (simp add: strtoul_step_def Let_def V_B_C_X_W_def)
qed

definition dec_val :: "nat list \<Rightarrow> nat" where
  "dec_val ds = foldl (\<lambda>v d. v * 10 + d) 0 ds"

definition dec_str :: "nat list \<Rightarrow> u8 list" where
  "dec_str ds = map (\<lambda>d. word_of_nat (48 + d)) ds"

lemma foldl_dec_mono: "v \<le> foldl (\<lambda>v d. v * 10 + d) v (ds :: nat list)"
proof (induction ds arbitrary: v)
  case (Cons d ds)
  show ?case using Cons.IH [of "v * 10 + d"] by simp
qed simp

lemma small_digit: "d < 10 \<Longrightarrow> d = 0 \<or> d = 1 \<or> d = 2 \<or> d = 3 \<or> d = 4 \<or> d = 5 \<or> d = 6 \<or> d = 7 \<or> d = 8 \<or> d = (9::nat)"
  by auto

lemma digit_char:
  assumes "d < 10"
  shows "digit_of (word_of_nat (48 + d)) = word_of_nat d" "(word_of_nat (48 + d) :: u8) \<noteq> 0"
    "\<not> isspace (word_of_nat (48 + d))" "(word_of_nat (48 + d) :: u8) \<noteq> 45" "(word_of_nat (48 + d) :: u8) \<noteq> 43"
  using small_digit [OF assms] by (auto simp: digit_of_def isspace_def)

lemma strto_loop_digits:
  assumes "cstr m p (dec_str ds)" "list_all (\<lambda>d. d < 10) ds" "ov \<longleftrightarrow> 2 ^ 32 \<le> n" "v = word_of_nat n"
  shows "\<exists>v'. strto_loop strtoul_step m 10 p ov v = Some (p + length ds,
       2 ^ 32 \<le> foldl (\<lambda>v d. v * 10 + d) n ds, v') \<and>
     (foldl (\<lambda>v d. v * 10 + d) n ds < 2 ^ 32 \<longrightarrow> v' = word_of_nat (foldl (\<lambda>v d. v * 10 + d) n ds))"
  using assms
proof (induction ds arbitrary: p ov v n)
  case Nil
  then show ?case by (subst strto_loop.simps) (auto simp: dec_str_def cstr_Nil not_le)
next
  case (Cons d ds)
  let ?c = "word_of_nat (48 + d) :: u8"
  have d: "d < 10" and ds: "list_all (\<lambda>d. d < 10) ds" using Cons.prems(2) by simp_all
  have c: "m p = Some ?c" "cstr m (Suc p) (dec_str ds)" using Cons.prems(1) by (simp_all add: dec_str_def cstr_Cons)
  have ud: "unat (word_of_nat d :: u8) = d" using d by (simp add: unsigned_of_nat take_bit_nat_eq_self)
  define k where "k = unat v * 10 + d"
  have step: "strtoul_step 10 (word_of_nat d) v = (2 ^ 32 \<le> k, word_of_nat k)"
    using strtoul_step_exact [of 10 "word_of_nat d" v] ud d by (simp add: k_def)
  have "(word_of_nat k :: u32) = word_of_nat (n * 10 + d)" by (simp add: k_def Cons.prems(4))
  moreover have "ov \<or> 2 ^ 32 \<le> k \<longleftrightarrow> 2 ^ 32 \<le> n * 10 + d"
    using Cons.prems(3,4) by (cases "n < 2 ^ 32") (simp_all add: k_def)
  ultimately have "\<exists>v'. strto_loop strtoul_step m 10 (Suc p) (ov \<or> 2 ^ 32 \<le> k) (word_of_nat k) =
      Some (Suc p + length ds, 2 ^ 32 \<le> foldl (\<lambda>v d. v * 10 + d) (n * 10 + d) ds, v') \<and>
      (foldl (\<lambda>v d. v * 10 + d) (n * 10 + d) ds < 2 ^ 32 \<longrightarrow>
        v' = word_of_nat (foldl (\<lambda>v d. v * 10 + d) (n * 10 + d) ds))"
    by (intro Cons.IH c(2) ds) (simp_all add: \<open>ov \<or> 2 ^ 32 \<le> k \<longleftrightarrow> 2 ^ 32 \<le> n * 10 + d\<close>)
  moreover have "strto_loop strtoul_step m 10 p ov v =
      strto_loop strtoul_step m 10 (Suc p) (ov \<or> 2 ^ 32 \<le> k) (word_of_nat k)"
  proof -
    have "uint (word_of_nat d :: u8) < 10" using ud d by (metis of_nat_less_iff of_nat_numeral uint_nat)
    then show ?thesis
      using digit_char [OF d] c(1) step by (subst strto_loop.simps) (simp add: not_le)
  qed
  ultimately show ?case by simp
qed

text \<open>Reading a decimal numeral gives its value, or all ones when it does not fit, and the end of
  the digits.\<close>

lemma strtoul_decimal:
  assumes "cstr m p (dec_str ds)" "list_all (\<lambda>d. d < 10) ds" "ds \<noteq> []"
  shows "strtoul m p 10 = Some (Some (p + length ds),
    if dec_val ds < 2 ^ 32 then word_of_nat (dec_val ds) else - 1)"
proof -
  obtain d es where ds: "ds = d # es" using assms(3) by (cases ds) auto
  have d: "d < 10" and c: "m p = Some (word_of_nat (48 + d))"
    using assms(1,2) by (simp_all add: ds dec_str_def cstr_Cons)
  have sp: "skip_space m p = Some p"
    using digit_char(3) [OF d] c by (subst skip_space.simps) simp
  have sg: "strto_sign m p = Some (False, p)"
    using digit_char(4,5) [OF d] c by (simp add: strto_sign_def)
  have pre: "strto_prefix m p 10 = Some (Some (p, 10))"
    using c by (simp add: strto_prefix_def)
  obtain v' where "strto_loop strtoul_step m 10 p False 0 = Some (p + length ds, 2 ^ 32 \<le> dec_val ds, v')"
    "dec_val ds < 2 ^ 32 \<longrightarrow> v' = word_of_nat (dec_val ds)"
    using strto_loop_digits [OF assms(1,2), of False 0 0] by (auto simp: dec_val_def)
  then show ?thesis
    using ds by (simp add: strtoul_def strto_common_def sp sg pre not_le)
qed

end
