(* ===== verification/Guest.thy ===== *)
theory Guest
  imports Sched Bitmap Klibc
begin

text \<open>
  What the kernel shares with the partitions. The memory of the partition that runs the current
  thread, with the access check of core/include/gaccess.h and core/include/arch/asm.h and the
  copies in and out; object descriptors (core/include/objdir.h); names; the port bitmap behind
  the partition control table. Touching guest memory that is not mapped is None, as is an index
  outside a kernel table.
\<close>

section \<open>Guest memory\<close>

text \<open>For each partition its memory by address and, by page number, which pages the kernel can
  read and write while the partition's page tables are loaded.\<close>

record gstate = sstate +
  gmem :: "nat \<Rightarrow> u32 \<Rightarrow> u8"
  g_readable :: "nat \<Rightarrow> int \<Rightarrow> bool"
  g_writable :: "nat \<Rightarrow> int \<Rightarrow> bool"

definition PAGE_SIZE :: int where "PAGE_SIZE = 4096"
definition CONFIG_XM_OFFSET :: u32 where "CONFIG_XM_OFFSET = 0xFC000000"
definition PFLAG_RW :: u32 where "PFLAG_RW = 1"
definition PFLAG_NOT_NULL :: u32 where "PFLAG_NOT_NULL = 2"

text \<open>The loops of AsmRWCheck and AsmROnlyCheck probe one byte of each page. The caller has checked
  that the end is below CONFIG_XM_OFFSET, so the next page never wraps.\<close>

function probe :: "(int \<Rightarrow> bool) \<Rightarrow> int \<Rightarrow> int \<Rightarrow> bool" where
  "probe ok a e =
     (if a < e then (if \<not> ok (a div PAGE_SIZE) then False
                     else probe ok (a div PAGE_SIZE * PAGE_SIZE + PAGE_SIZE) e)
      else True)"
  by pat_completeness auto

termination probe
proof (relation "measure (\<lambda>(ok, a, e). nat (e - a))", goal_cases)
  case (2 ok a e)
  have "a < a div PAGE_SIZE * PAGE_SIZE + PAGE_SIZE"
    using pos_mod_bound [of PAGE_SIZE a] div_mult_mod_eq [of a PAGE_SIZE]
    by (simp add: PAGE_SIZE_def)
  then show ?case using 2(1) by auto
qed simp

declare probe.simps [simp del]

definition AsmRWCheck :: "nat \<Rightarrow> u32 \<Rightarrow> u32 \<Rightarrow> 'a gstate_scheme \<Rightarrow> s32" where
  "AsmRWCheck part param sz s =
     (if probe (\<lambda>p. g_readable s part p \<and> g_writable s part p) (uint param) (uint (param + sz)) then 0 else - 1)"

definition AsmROnlyCheck :: "nat \<Rightarrow> u32 \<Rightarrow> u32 \<Rightarrow> 'a gstate_scheme \<Rightarrow> s32" where
  "AsmROnlyCheck part param sz s =
     (if probe (g_readable s part) (uint param) (uint (param + sz)) then 0 else - 1)"

text \<open>The alignment is not used on this processor.\<close>

definition CheckGParam :: "u32 \<Rightarrow> u32 \<Rightarrow> u32 \<Rightarrow> u32 \<Rightarrow> 'a gstate_scheme \<Rightarrow> s32 option" where
  "CheckGParam param sz aligment flags s = do {
     part \<leftarrow> GetPartition (cKThread s) s;
     Some (if has_flag flags PFLAG_NOT_NULL \<and> param = 0 then - 1
           else if param \<ge> CONFIG_XM_OFFSET \<or> param + sz \<ge> CONFIG_XM_OFFSET then - 1
           else if has_flag flags PFLAG_RW then AsmRWCheck part param sz s
           else AsmROnlyCheck part param sz s)
   }"

section \<open>Reading and writing guest memory\<close>

definition page_of :: "u32 \<Rightarrow> int" where
  "page_of a = uint a div PAGE_SIZE"

definition gread :: "u32 \<Rightarrow> 'a gstate_scheme \<Rightarrow> u8 option" where
  "gread a s = do {
     part \<leftarrow> GetPartition (cKThread s) s;
     if a < CONFIG_XM_OFFSET \<and> g_readable s part (page_of a) then Some (gmem s part a) else None }"

definition gwrite :: "u32 \<Rightarrow> u8 \<Rightarrow> 'a gstate_scheme \<Rightarrow> 'a gstate_scheme option" where
  "gwrite a v s = do {
     part \<leftarrow> GetPartition (cKThread s) s;
     if a < CONFIG_XM_OFFSET \<and> g_readable s part (page_of a) \<and> g_writable s part (page_of a)
     then Some (s\<lparr>gmem := (gmem s)(part := (gmem s part)(a := v))\<rparr>) else None }"

text \<open>memcpy from and to guest memory.\<close>

fun gread_bytes :: "u32 \<Rightarrow> nat \<Rightarrow> 'a gstate_scheme \<Rightarrow> u8 list option" where
  "gread_bytes a 0 s = Some []"
| "gread_bytes a (Suc n) s = do { b \<leftarrow> gread a s; bs \<leftarrow> gread_bytes (a + 1) n s; Some (b # bs) }"

fun gwrite_bytes :: "u32 \<Rightarrow> u8 list \<Rightarrow> 'a gstate_scheme \<Rightarrow> 'a gstate_scheme option" where
  "gwrite_bytes a [] s = Some s"
| "gwrite_bytes a (b # bs) s = do { s \<leftarrow> gwrite a b s; gwrite_bytes (a + 1) bs s }"

definition gread_u32 :: "u32 \<Rightarrow> 'a gstate_scheme \<Rightarrow> u32 option" where
  "gread_u32 a s = map_option bytes_u32 (gread_bytes a 4 s)"

definition gwrite_u32 :: "u32 \<Rightarrow> u32 \<Rightarrow> 'a gstate_scheme \<Rightarrow> 'a gstate_scheme option" where
  "gwrite_u32 a w s = gwrite_bytes a (u32_bytes w) s"

definition s64_words :: "xmTime \<Rightarrow> u32 list" where
  "s64_words t = [word_of_int t, word_of_int (t div 2 ^ 32)]"

definition gwrite_s64 :: "u32 \<Rightarrow> xmTime \<Rightarrow> 'a gstate_scheme \<Rightarrow> 'a gstate_scheme option" where
  "gwrite_s64 a t s = gwrite_bytes a (concat (map u32_bytes (s64_words t))) s"

definition gread_s64 :: "u32 \<Rightarrow> 'a gstate_scheme \<Rightarrow> xmTime option" where
  "gread_s64 a s = do { lo \<leftarrow> gread_u32 a s; hi \<leftarrow> gread_u32 (a + 4) s; Some (sint hi * 2 ^ 32 + uint lo) }"

section \<open>Object descriptors and names\<close>

definition OBJDESC_GET_CLASS :: "u32 \<Rightarrow> u32" where
  "OBJDESC_GET_CLASS d = drop_bit 24 d AND 0x7f"

definition OBJDESC_GET_VCPUID :: "u32 \<Rightarrow> u32" where
  "OBJDESC_GET_VCPUID d = drop_bit 20 d AND 0xf"

definition OBJDESC_GET_PARTITIONID :: "u32 \<Rightarrow> u32" where
  "OBJDESC_GET_PARTITIONID d = drop_bit 10 d AND 0x3ff"

definition OBJDESC_GET_ID :: "u32 \<Rightarrow> u32" where
  "OBJDESC_GET_ID d = d AND 0x3ff"

definition OBJDESC_BUILD :: "u32 \<Rightarrow> u32 \<Rightarrow> u32 \<Rightarrow> u32" where
  "OBJDESC_BUILD cl partitionId i =
     push_bit 24 (cl AND 0x7f) OR push_bit 20 (0 AND 0xf) OR push_bit 10 (partitionId AND 0x3ff) OR (i AND 0x3ff)"

definition CONFIG_ID_STRING_LENGTH :: nat where "CONFIG_ID_STRING_LENGTH = 16"

text \<open>The bytes of xmcStringTab from an offset, and of a name in guest memory.\<close>

definition tab_str :: "xmc \<Rightarrow> u32 \<Rightarrow> nat \<Rightarrow> u8 option" where
  "tab_str c off i = aget (xmcStringTab c) (unat off + i)"

definition guest_str :: "u32 \<Rightarrow> 'a gstate_scheme \<Rightarrow> nat \<Rightarrow> u8 option" where
  "guest_str a s i = gread (a + word_of_nat i) s"

section \<open>The current thread\<close>

text \<open>\<open>KID2PARTID(sched->cKThread->ctrl.g->id)\<close> and \<open>GetPartition(sched->cKThread)->cfg\<close>.\<close>

definition cur_partid :: "'a kstate_scheme \<Rightarrow> xmId option" where
  "cur_partid s = map_option (\<lambda>g. KID2PARTID (g_id g)) (k_g (kthreads s (cKThread s)))"

definition cur_partition :: "'a kstate_scheme \<Rightarrow> partition_t option" where
  "cur_partition s = do { i \<leftarrow> GetPartition (cKThread s) s; aget (partitionTab s) i }"

definition cur_cfg :: "'a kstate_scheme \<Rightarrow> xmcPartition option" where
  "cur_cfg s = do { p \<leftarrow> cur_partition s; aget (xmcPartitionTab (cfg s)) (p_cfg p) }"

section \<open>The port bitmap\<close>

text \<open>
  The kernel computes the bitmap's address from the control table of a thread and the number of
  memory areas of the current partition: sizeof(struct xmPhysicalMemMap) is 8 words.
\<close>

definition mem_map_words :: nat where "mem_map_words = 8"

definition on_port_bitmap :: "(u32 list \<Rightarrow> u32 list option) \<Rightarrow> addr \<Rightarrow> 'a kstate_scheme \<Rightarrow> 'a kstate_scheme option" where
  "on_port_bitmap f k s = do {
     c \<leftarrow> cur_cfg s;
     p \<leftarrow> k_pct (kthreads s k);
     let base = mem_map_words * nat (pc_noPhysicalMemoryAreas c);
     bm \<leftarrow> f (drop base (pct_tail p));
     Some (kt_upd k (pct_upd (\<lambda>p. p\<lparr>pct_tail := take base (pct_tail p) @ bm\<rparr>)) s)
   }"

definition set_port_bit :: "u32 \<Rightarrow> addr \<Rightarrow> 'a kstate_scheme \<Rightarrow> 'a kstate_scheme option" where
  "set_port_bit b k s = do {
     p \<leftarrow> k_pct (kthreads s k);
     on_port_bitmap (\<lambda>bm. xmSetBit bm b (pct_noCommPorts p)) k s }"

definition clear_port_bit :: "u32 \<Rightarrow> addr \<Rightarrow> 'a kstate_scheme \<Rightarrow> 'a kstate_scheme option" where
  "clear_port_bit b k s = do {
     p \<leftarrow> k_pct (kthreads s k);
     on_port_bitmap (\<lambda>bm. xmClearBit bm b (pct_noCommPorts p)) k s }"

section \<open>What the check guarantees\<close>

lemma page_step: "a < a div PAGE_SIZE * PAGE_SIZE + PAGE_SIZE"
  using pos_mod_bound [of PAGE_SIZE a] div_mult_mod_eq [of a PAGE_SIZE] by (simp add: PAGE_SIZE_def)

lemma same_page: "a \<le> x \<Longrightarrow> x < a div PAGE_SIZE * PAGE_SIZE + PAGE_SIZE \<Longrightarrow> x div PAGE_SIZE = a div PAGE_SIZE"
  by (simp add: PAGE_SIZE_def)

lemma probe_iff: "probe ok a e \<longleftrightarrow> (\<forall>x. a \<le> x \<longrightarrow> x < e \<longrightarrow> ok (x div PAGE_SIZE))"
proof (induction ok a e rule: probe.induct)
  case (1 ok a e)
  let ?n = "a div PAGE_SIZE * PAGE_SIZE + PAGE_SIZE"
  show ?case
  proof (cases "a < e \<and> ok (a div PAGE_SIZE)")
    case True
    then have IH: "probe ok ?n e \<longleftrightarrow> (\<forall>x. ?n \<le> x \<longrightarrow> x < e \<longrightarrow> ok (x div PAGE_SIZE))"
      using "1.IH" by blast
    have "probe ok a e \<longleftrightarrow> probe ok ?n e" using True by (subst probe.simps) simp
    moreover have "(\<forall>x. a \<le> x \<longrightarrow> x < e \<longrightarrow> ok (x div PAGE_SIZE)) \<longleftrightarrow>
        (\<forall>x. ?n \<le> x \<longrightarrow> x < e \<longrightarrow> ok (x div PAGE_SIZE))"
    proof (intro iffI allI impI)
      fix x assume h: "\<forall>x. ?n \<le> x \<longrightarrow> x < e \<longrightarrow> ok (x div PAGE_SIZE)" and x: "a \<le> x" "x < e"
      show "ok (x div PAGE_SIZE)"
      proof (cases "x < ?n")
        case True
        then show ?thesis using same_page [OF x(1)] \<open>a < e \<and> ok (a div PAGE_SIZE)\<close> by simp
      qed (use h x in auto)
    next
      fix x assume h: "\<forall>x. a \<le> x \<longrightarrow> x < e \<longrightarrow> ok (x div PAGE_SIZE)" and "?n \<le> x" "x < e"
      then have "a \<le> x" using page_step [of a] by (meson less_imp_le order_trans)
      then show "ok (x div PAGE_SIZE)" using h \<open>x < e\<close> by blast
    qed
    ultimately show ?thesis using IH by simp
  next
    case False
    then show ?thesis by (subst probe.simps) auto
  qed
qed

definition readable_at :: "u32 \<Rightarrow> nat \<Rightarrow> 'a gstate_scheme \<Rightarrow> bool" where
  "readable_at a n s \<longleftrightarrow> (\<exists>part. GetPartition (cKThread s) s = Some part \<and> unat a + n < unat CONFIG_XM_OFFSET \<and>
     (\<forall>x. uint a \<le> x \<longrightarrow> x < uint a + int n \<longrightarrow> g_readable s part (x div PAGE_SIZE)))"

definition writable_at :: "u32 \<Rightarrow> nat \<Rightarrow> 'a gstate_scheme \<Rightarrow> bool" where
  "writable_at a n s \<longleftrightarrow> (\<exists>part. GetPartition (cKThread s) s = Some part \<and> unat a + n < unat CONFIG_XM_OFFSET \<and>
     (\<forall>x. uint a \<le> x \<longrightarrow> x < uint a + int n \<longrightarrow>
        g_readable s part (x div PAGE_SIZE) \<and> g_writable s part (x div PAGE_SIZE)))"

lemma offset_unat: "unat CONFIG_XM_OFFSET = 0xFC000000"
  by (simp add: CONFIG_XM_OFFSET_def)

lemma check_bounds:
  assumes "unat param + unat sz < 2 ^ 32" "\<not> (param \<ge> CONFIG_XM_OFFSET \<or> param + sz \<ge> CONFIG_XM_OFFSET)"
  shows "unat (param + sz) = unat param + unat sz" "unat param + unat sz < unat CONFIG_XM_OFFSET"
    "uint (param + sz) = uint param + int (unat sz)"
proof -
  show e: "unat (param + sz) = unat param + unat sz"
    using assms(1) by (simp add: unat_word_ariths)
  show "uint (param + sz) = uint param + int (unat sz)"
    by (simp only: uint_nat e of_nat_add)
  show "unat param + unat sz < unat CONFIG_XM_OFFSET"
    using assms(2) by (simp add: word_le_nat_alt e not_le)
qed

text \<open>A parameter that passes the check can be read (and written) over its whole size, unless the
  size wraps around the address space.\<close>

lemma CheckGParam_readable:
  assumes "CheckGParam param sz al fl s = Some 0" "unat param + unat sz < 2 ^ 32"
  shows "readable_at param (unat sz) s"
  using assms check_bounds [OF assms(2)]
  by (auto simp: CheckGParam_def bind_eq_Some_iff AsmRWCheck_def AsmROnlyCheck_def probe_iff readable_at_def
      split: if_splits)

lemma CheckGParam_writable:
  assumes "CheckGParam param sz al fl s = Some 0" "unat param + unat sz < 2 ^ 32" "has_flag fl PFLAG_RW"
  shows "writable_at param (unat sz) s"
  using assms check_bounds [OF assms(2)]
  by (auto simp: CheckGParam_def bind_eq_Some_iff AsmRWCheck_def probe_iff writable_at_def
      split: if_splits)

lemma uint_Suc:
  assumes "Suc (unat (a :: u32)) < 2 ^ 32"
  shows "unat (a + 1) = Suc (unat a)" "uint (a + 1) = uint a + 1"
proof -
  show e: "unat (a + 1) = Suc (unat a)" using assms by (simp add: unat_word_ariths)
  show "uint (a + 1) = uint a + 1" by (simp only: uint_nat e of_nat_Suc)
qed

lemma readable_Suc:
  assumes "readable_at a (Suc n) s"
  shows "\<exists>b. gread a s = Some b" "readable_at (a + 1) n s"
proof -
  obtain part where p: "GetPartition (cKThread s) s = Some part" "unat a + Suc n < unat CONFIG_XM_OFFSET"
    "\<forall>x. uint a \<le> x \<longrightarrow> x < uint a + int (Suc n) \<longrightarrow> g_readable s part (x div PAGE_SIZE)"
    using assms by (auto simp: readable_at_def)
  have "unat (a + 1) = Suc (unat a)" "uint (a + 1) = uint a + 1" using uint_Suc [of a] p(2) offset_unat by simp_all
  then show "readable_at (a + 1) n s" using p by (auto simp: readable_at_def)
  show "\<exists>b. gread a s = Some b" using p by (simp add: gread_def word_less_nat_alt page_of_def)
qed

lemma writable_readable: "writable_at a n s \<Longrightarrow> readable_at a n s"
  by (auto simp: writable_at_def readable_at_def)

lemma gread_bytes_length: "gread_bytes a n s = Some bs \<Longrightarrow> length bs = n"
  by (induction n arbitrary: a bs) (auto simp: bind_eq_Some_iff)

lemma gread_bytes_ok: "readable_at a n s \<Longrightarrow> \<exists>bs. gread_bytes a n s = Some bs \<and> length bs = n"
proof (induction n arbitrary: a)
  case (Suc n)
  then show ?case using readable_Suc [OF Suc.prems] by fastforce
qed simp

lemma gwrite_fields:
  assumes "gwrite a v s = Some s'"
  shows "sstate.truncate s' = sstate.truncate s" "g_readable s' = g_readable s" "g_writable s' = g_writable s"
    "gstate.more s' = gstate.more s" "cKThread s' = cKThread s" "kthreads s' = kthreads s"
    "\<exists>m. s' = s\<lparr>gmem := m\<rparr>"
  using assms by (auto simp: gwrite_def bind_eq_Some_iff sstate.defs split: if_splits)

lemma gwrite_bytes_only: "gwrite_bytes a bs s = Some s' \<Longrightarrow> \<exists>m. s' = s\<lparr>gmem := m\<rparr>"
proof (induction bs arbitrary: a s)
  case Nil
  then have "s' = s\<lparr>gmem := gmem s\<rparr>" by simp
  then show ?case by blast
next
  case (Cons b bs)
  then obtain t where t: "gwrite a b s = Some t" "gwrite_bytes (a + 1) bs t = Some s'"
    by (auto simp: bind_eq_Some_iff)
  obtain m where "t = s\<lparr>gmem := m\<rparr>" using gwrite_fields(7) [OF t(1)] by blast
  then show ?case using Cons.IH [OF t(2)] by auto
qed

lemma GetPartition_gmem [simp]: "GetPartition k (s\<lparr>gmem := m\<rparr>) = GetPartition k s"
  by (simp add: GetPartition_def)

lemma writable_Suc:
  assumes "writable_at a (Suc n) s"
  shows "\<exists>s'. gwrite a b s = Some s' \<and> writable_at (a + 1) n s'"
proof -
  obtain part where p: "GetPartition (cKThread s) s = Some part" "unat a + Suc n < unat CONFIG_XM_OFFSET"
    "\<forall>x. uint a \<le> x \<longrightarrow> x < uint a + int (Suc n) \<longrightarrow>
      g_readable s part (x div PAGE_SIZE) \<and> g_writable s part (x div PAGE_SIZE)"
    using assms by (auto simp: writable_at_def)
  have "unat (a + 1) = Suc (unat a)" "uint (a + 1) = uint a + 1" using uint_Suc [of a] p(2) offset_unat by simp_all
  then show ?thesis using p by (auto simp: gwrite_def writable_at_def word_less_nat_alt page_of_def)
qed

lemma gwrite_bytes_ok: "writable_at a (length bs) s \<Longrightarrow> \<exists>s'. gwrite_bytes a bs s = Some s'"
proof (induction bs arbitrary: a s)
  case (Cons b bs)
  then show ?case using writable_Suc [of a "length bs" s b] by fastforce
qed simp

text \<open>The memory that a write leaves, and reading it back.\<close>

lemma gwrite_bytes_mem:
  assumes "gwrite_bytes a bs s = Some s'" "GetPartition (cKThread s) s = Some part"
    "unat a + length bs < 2 ^ 32"
  shows "gmem s' part x = (if unat a \<le> unat x \<and> unat x < unat a + length bs then bs ! (unat x - unat a)
    else gmem s part x)"
  using assms
proof (induction bs arbitrary: a s)
  case (Cons b bs)
  obtain t where t: "gwrite a b s = Some t" "gwrite_bytes (a + 1) bs t = Some s'"
    using Cons.prems(1) by (auto simp: bind_eq_Some_iff)
  have a1: "unat (a + 1) = Suc (unat a)" using Cons.prems(3) by (simp add: unat_word_ariths)
  have tt: "t = s\<lparr>gmem := (gmem s)(part := (gmem s part)(a := b))\<rparr>"
    using t(1) Cons.prems(2) by (simp add: gwrite_def split: if_splits)
  have "gmem s' part x = (if unat (a + 1) \<le> unat x \<and> unat x < unat (a + 1) + length bs
      then bs ! (unat x - unat (a + 1)) else gmem t part x)"
    using Cons.prems(2,3) by (intro Cons.IH t(2)) (simp_all add: tt a1)
  moreover have "unat x = unat a \<longleftrightarrow> x = a" by (simp add: word_unat_eq_iff)
  ultimately show ?case by (auto simp: tt a1 nth_Cons' Suc_diff_Suc)
qed auto

lemma gread_bytes_mem:
  assumes "gread_bytes a n s = Some bs" "GetPartition (cKThread s) s = Some part" "unat a + n < 2 ^ 32"
  shows "bs = map (\<lambda>i. gmem s part (word_of_nat (unat a + i))) [0..<n]"
  using assms
proof (induction n arbitrary: a bs)
  case (Suc n)
  obtain b cs where c: "gread a s = Some b" "gread_bytes (a + 1) n s = Some cs" "bs = b # cs"
    using Suc.prems(1) by (auto simp: bind_eq_Some_iff)
  have a1: "unat (a + 1) = Suc (unat a)" using Suc.prems(3) by (simp add: unat_word_ariths)
  have "cs = map (\<lambda>i. gmem s part (word_of_nat (unat (a + 1) + i))) [0..<n]"
    using Suc.prems(2,3) by (intro Suc.IH c(2)) (simp_all add: a1)
  moreover have "b = gmem s part a" using c(1) Suc.prems(2) by (simp add: gread_def split: if_splits)
  ultimately show ?case
    by (simp add: c(3) a1 upt_conv_Cons map_Suc_upt [symmetric] del: upt_Suc) (simp add: comp_def ac_simps)
qed simp

lemma gwrite_gread:
  assumes "writable_at a (length bs) s"
  shows "\<exists>s'. gwrite_bytes a bs s = Some s' \<and> gread_bytes a (length bs) s' = Some bs"
proof -
  obtain part where p: "GetPartition (cKThread s) s = Some part" "unat a + length bs < unat CONFIG_XM_OFFSET"
    using assms by (auto simp: writable_at_def)
  obtain s' where s': "gwrite_bytes a bs s = Some s'" using gwrite_bytes_ok [OF assms] by blast
  obtain m where m: "s' = s\<lparr>gmem := m\<rparr>" using gwrite_bytes_only [OF s'] by blast
  have "readable_at a (length bs) s'" using writable_readable [OF assms] by (simp add: m readable_at_def)
  then obtain cs where cs: "gread_bytes a (length bs) s' = Some cs" using gread_bytes_ok by blast
  have b: "unat a + length bs < 2 ^ 32" using p(2) by (simp add: offset_unat)
  have "cs = map (\<lambda>i. gmem s' part (word_of_nat (unat a + i))) [0..<length bs]"
    using p(1) by (intro gread_bytes_mem [OF cs _ b]) (simp add: m)
  also have "\<dots> = map (\<lambda>i. bs ! i) [0..<length bs]"
  proof (intro map_cong refl)
    fix i assume "i \<in> set [0..<length bs]"
    then have "i < length bs" by simp
    then have "unat (word_of_nat (unat a + i) :: u32) = unat a + i" using b by (intro unat_u32) simp
    then show "gmem s' part (word_of_nat (unat a + i)) = bs ! i"
      using gwrite_bytes_mem [OF s' p(1) b, of "word_of_nat (unat a + i)"] \<open>i < length bs\<close> by simp
  qed
  also have "\<dots> = bs" by (simp add: map_nth)
  finally show ?thesis using s' cs by blast
qed

lemma writable_mono:
  assumes "writable_at a n s" "k \<le> n" shows "writable_at a k s"
proof -
  have "x < uint a + int k \<Longrightarrow> x < uint a + int n" for x using assms(2) by simp
  then show ?thesis using assms unfolding writable_at_def by fastforce
qed

text \<open>What lies outside the bytes written is unchanged.\<close>

lemma gread_bytes_cong:
  assumes "\<And>x :: u32. unat a \<le> unat x \<Longrightarrow> unat x < unat a + n \<Longrightarrow> gread x s' = gread x s" "unat a + n < 2 ^ 32"
  shows "gread_bytes a n s' = gread_bytes a n s"
  using assms
proof (induction n arbitrary: a)
  case (Suc n)
  have a1: "unat (a + 1) = Suc (unat a)" using Suc.prems(2) by (simp add: unat_word_ariths)
  have "gread_bytes (a + 1) n s' = gread_bytes (a + 1) n s"
    using Suc.prems by (intro Suc.IH) (simp_all add: a1)
  moreover have "gread a s' = gread a s" by (rule Suc.prems(1)) simp_all
  ultimately show ?case by simp
qed simp

lemma gwrite_disjoint:
  assumes "gwrite_bytes a bs s = Some s'" "unat a + length bs < 2 ^ 32" "unat b + n < 2 ^ 32"
    and "unat b + n \<le> unat a \<or> unat a + length bs \<le> unat b"
  shows "gread_bytes b n s' = gread_bytes b n s"
proof (rule gread_bytes_cong [OF _ assms(3)])
  fix x :: u32 assume x: "unat b \<le> unat x" "unat x < unat b + n"
  obtain m where m: "s' = s\<lparr>gmem := m\<rparr>" using gwrite_bytes_only [OF assms(1)] by blast
  show "gread x s' = gread x s"
  proof (cases "GetPartition (cKThread s) s")
    case (Some part)
    have "gmem s' part x = gmem s part x"
      using gwrite_bytes_mem [OF assms(1) Some assms(2), of x] x assms(4) by auto
    then show ?thesis using Some by (simp add: gread_def m)
  qed (simp add: gread_def m)
qed

lemma gwrite_writable:
  assumes "gwrite_bytes a bs s = Some s'"
  shows "writable_at b n s' = writable_at b n s" "readable_at b n s' = readable_at b n s"
  using gwrite_bytes_only [OF assms] by (auto simp: writable_at_def readable_at_def)

lemma gwrite_gread_u32:
  assumes "writable_at a 4 s"
  shows "\<exists>s'. gwrite_u32 a w s = Some s' \<and> gread_u32 a s' = Some w"
proof -
  have l: "length (u32_bytes w) = 4" by (simp add: u32_bytes_def)
  show ?thesis
    using gwrite_gread [of a "u32_bytes w" s, unfolded l, OF assms] by (auto simp: gwrite_u32_def gread_u32_def)
qed

end
