(* ===== verification/PartState.thy ===== *)
theory PartState
  imports Sched
begin

text \<open>
  The state changes of VCPUs and partitions in core/include/sched.h (suspend, resume, halt,
  shutdown) and the start of the scheduler in core/kernel/sched.c and core/kernel/kthread.c.
  A partition id or VCPU id outside the tables is a null dereference: None.
\<close>

section \<open>VCPUs\<close>

definition SUSPEND_VCPU :: "xmId \<Rightarrow> xmId \<Rightarrow> 'a sstate_scheme \<Rightarrow> 'a sstate_scheme option" where
  "SUSPEND_VCPU partId vCpuId s = do {
     k \<leftarrow> vcpu_of partId vCpuId s;
     Some (SetKThreadFlags k KTHREAD_SUSPENDED_F (log_audit (AuditVCpuSuspend (PART_VCPU_ID2KID partId vCpuId)) s))
   }"

definition RESUME_VCPU :: "xmId \<Rightarrow> xmId \<Rightarrow> 'a sstate_scheme \<Rightarrow> 'a sstate_scheme option" where
  "RESUME_VCPU partId vCpuId s = do {
     k \<leftarrow> vcpu_of partId vCpuId s;
     Some (ClearKThreadFlags k KTHREAD_SUSPENDED_F (log_audit (AuditVCpuResume (PART_VCPU_ID2KID partId vCpuId)) s))
   }"

text \<open>The lines HALT_VCPU and HALT_PARTITION share for one thread.\<close>

definition halt_kthread :: "addr \<Rightarrow> 'a kstate_scheme \<Rightarrow> 'a kstate_scheme option" where
  "halt_kthread k s = do {
     let s = SetKThreadFlags k KTHREAD_HALTED_F s;
     g \<leftarrow> k_g (kthreads s k);
     let s = kt_upd k (g_upd (\<lambda>g. g\<lparr>g_opMode := XM_OPMODE_IDLE\<rparr>)) s;
     if cpu_schedPolicy (xmcCpuCfg (cfg s)) = FP_SCHED
     then do {
       (_, s) \<leftarrow> DisarmKTimer (g_kTimer g) s;
       (_, s) \<leftarrow> DisarmKTimer (g_watchdogTimer g) s;
       Some s
     } else Some s
   }"

definition HALT_VCPU :: "xmId \<Rightarrow> xmId \<Rightarrow> 'a sstate_scheme \<Rightarrow> 'a sstate_scheme option" where
  "HALT_VCPU partId vCpuId s = do {
     k \<leftarrow> vcpu_of partId vCpuId s;
     halt_kthread k (log_audit (AuditVCpuHalt (PART_VCPU_ID2KID partId vCpuId)) s)
   }"

section \<open>Partitions\<close>

text \<open>The threads the loops over \<open>partitionTab[id].cfg->noVCpus\<close> visit.\<close>

definition threads_of :: "xmId \<Rightarrow> 'a kstate_scheme \<Rightarrow> addr list option" where
  "threads_of i s = do { p \<leftarrow> aget (partitionTab s) (unat i); part_vcpus p s }"

definition SUSPEND_PARTITION :: "xmId \<Rightarrow> 'a sstate_scheme \<Rightarrow> 'a sstate_scheme option" where
  "SUSPEND_PARTITION i s = do {
     let s = log_audit (AuditPartSuspend i) s;
     ks \<leftarrow> threads_of i s;
     Some (fold (\<lambda>k. SetKThreadFlags k KTHREAD_SUSPENDED_F) ks s)
   }"

definition RESUME_PARTITION :: "xmId \<Rightarrow> 'a sstate_scheme \<Rightarrow> 'a sstate_scheme option" where
  "RESUME_PARTITION i s = do {
     let s = log_audit (AuditPartResume i) s;
     ks \<leftarrow> threads_of i s;
     Some (fold (\<lambda>k. ClearKThreadFlags k KTHREAD_SUSPENDED_F) ks s)
   }"

definition SHUTDOWN_PARTITION :: "xmId \<Rightarrow> 'a sstate_scheme \<Rightarrow> 'a sstate_scheme option" where
  "SHUTDOWN_PARTITION i s = do {
     p \<leftarrow> aget (partitionTab s) (unat i);
     SetPartitionExtIrqPending p XM_VT_EXT_SHUTDOWN (log_audit (AuditPartShutdown i) s)
   }"

definition HALT_PARTITION :: "xmId \<Rightarrow> 'a sstate_scheme \<Rightarrow> 'a sstate_scheme option" where
  "HALT_PARTITION i s = do {
     let s = log_audit (AuditPartHalt i) s;
     ks \<leftarrow> threads_of i s;
     s \<leftarrow> ofold halt_kthread ks s;
     Some (s\<lparr>partitionTab := (partitionTab s)[unat i := (partitionTab s ! unat i)\<lparr>p_opMode := XM_OPMODE_IDLE\<rparr>]\<rparr>)
   }"

section \<open>The start of the scheduler\<close>

definition KTHREAD_DCACHE_ENABLED_F :: u32 where "KTHREAD_DCACHE_ENABLED_F = 0x80"
definition KTHREAD_ICACHE_ENABLED_F :: u32 where "KTHREAD_ICACHE_ENABLED_F = 0x100"

definition InitIdle :: "addr \<Rightarrow> u32 \<Rightarrow> 'a sstate_scheme \<Rightarrow> 'a sstate_scheme option" where
  "InitIdle idle globalIrqMask s = do {
     ASSERT (idle \<noteq> NULL);
     let s = DynListInit (k_localActiveKTimers (kthreads s idle)) s;
     let s = kt_upd idle (\<lambda>t. t\<lparr>k_g := None, k_irqMask := HwIrqGetMask (hw_pic s) AND globalIrqMask\<rparr>) s;
     let s = SetKThreadFlags idle (KTHREAD_DCACHE_ENABLED_F OR KTHREAD_ICACHE_ENABLED_F) s;
     let s = SetKThreadFlags idle KTHREAD_READY_F s;
     Some (ClearKThreadFlags idle KTHREAD_HALTED_F s)
   }"

definition InitSchedLocal :: "addr \<Rightarrow> u32 \<Rightarrow> 'a sstate_scheme \<Rightarrow> 'a sstate_scheme option" where
  "InitSchedLocal idle globalIrqMask s = do {
     s \<leftarrow> InitIdle idle globalIrqMask s;
     let s = s\<lparr>cKThread := idle, idleKThread := idle\<rparr>;
     let s = cy_upd (\<lambda>cy. \<lparr>cy_kTimer = cy_kTimer cy, cy_current = PlanNull, cy_new = PlanNull, cy_prev = PlanNull,
               cy_slot = 0, cy_mjf = 0, cy_sExec = 0, cy_planSwitchTime = 0, cy_nextAct = 0, cy_kThread = NULL,
               cy_flags = 0\<rparr>) s;
     s \<leftarrow> InitKTimer (cy_kTimer (cyclic s)) ActSchedPending NULL s;
     Some (cy_upd (\<lambda>cy. cy\<lparr>cy_slot := - 1, cy_new := PlanTab (unat (cpu_schedCyclicPlansOffset (xmcCpuCfg (cfg s)))),
               cy_current := PlanNull, cy_prev := PlanNull\<rparr>) s)
   }"

section \<open>Flags of one thread and of many\<close>

lemma SetKThreadFlags_flags [simp]:
  "k_flags (kthreads (SetKThreadFlags k f s) k') = (if k' = k then set_flag (k_flags (kthreads s k)) f else k_flags (kthreads s k'))"
  by (simp add: SetKThreadFlags_def)

lemma ClearKThreadFlags_flags [simp]:
  "k_flags (kthreads (ClearKThreadFlags k f s) k') = (if k' = k then clr_flag (k_flags (kthreads s k)) f else k_flags (kthreads s k'))"
  by (simp add: ClearKThreadFlags_def)

lemma SetKThreadFlags_other [simp]:
  "k' \<noteq> k \<Longrightarrow> kthreads (SetKThreadFlags k f s) k' = kthreads s k'"
  "k' \<noteq> k \<Longrightarrow> kthreads (ClearKThreadFlags k f s) k' = kthreads s k'"
  by (simp_all add: SetKThreadFlags_def ClearKThreadFlags_def)

lemma set_flag_idem [simp]: "set_flag (set_flag x f) f = set_flag x f"
  by (simp add: set_flag_def or.assoc)

lemma clr_flag_idem [simp]: "clr_flag (clr_flag x f) f = clr_flag x f"
  by (simp add: clr_flag_def and.assoc)

lemma fold_set_flags:
  "k_flags (kthreads (fold (\<lambda>k. SetKThreadFlags k f) ks s) k') =
     (if k' \<in> set ks then set_flag (k_flags (kthreads s k')) f else k_flags (kthreads s k'))"
  "kthreads_only s (fold (\<lambda>k. SetKThreadFlags k f) ks s)"
  "k' \<notin> set ks \<Longrightarrow> kthreads (fold (\<lambda>k. SetKThreadFlags k f) ks s) k' = kthreads s k'"
proof -
  show "k_flags (kthreads (fold (\<lambda>k. SetKThreadFlags k f) ks s) k') =
     (if k' \<in> set ks then set_flag (k_flags (kthreads s k')) f else k_flags (kthreads s k'))"
    by (induction ks arbitrary: s) simp_all
  show "kthreads_only s (fold (\<lambda>k. SetKThreadFlags k f) ks s)"
    by (induction ks arbitrary: s) (auto intro: kthreads_only_trans [OF SetKThreadFlags_only])
  show "k' \<notin> set ks \<Longrightarrow> kthreads (fold (\<lambda>k. SetKThreadFlags k f) ks s) k' = kthreads s k'"
    by (induction ks arbitrary: s) simp_all
qed

lemma fold_clear_flags:
  "k_flags (kthreads (fold (\<lambda>k. ClearKThreadFlags k f) ks s) k') =
     (if k' \<in> set ks then clr_flag (k_flags (kthreads s k')) f else k_flags (kthreads s k'))"
  "kthreads_only s (fold (\<lambda>k. ClearKThreadFlags k f) ks s)"
  "k' \<notin> set ks \<Longrightarrow> kthreads (fold (\<lambda>k. ClearKThreadFlags k f) ks s) k' = kthreads s k'"
proof -
  show "k_flags (kthreads (fold (\<lambda>k. ClearKThreadFlags k f) ks s) k') =
     (if k' \<in> set ks then clr_flag (k_flags (kthreads s k')) f else k_flags (kthreads s k'))"
    by (induction ks arbitrary: s) simp_all
  show "kthreads_only s (fold (\<lambda>k. ClearKThreadFlags k f) ks s)"
    by (induction ks arbitrary: s) (auto intro: kthreads_only_trans [OF ClearKThreadFlags_only])
  show "k' \<notin> set ks \<Longrightarrow> kthreads (fold (\<lambda>k. ClearKThreadFlags k f) ks s) k' = kthreads s k'"
    by (induction ks arbitrary: s) simp_all
qed

lemma threads_of_cong:
  "partitionTab s' = partitionTab s \<Longrightarrow> cfg s' = cfg s \<Longrightarrow> threads_of i s' = threads_of i s"
  by (simp add: threads_of_def part_vcpus_def)

lemma runnable_iff:
  "runnable s k \<longleftrightarrow> \<not> has_flag (k_flags (kthreads s k)) KTHREAD_HALTED_F \<and>
     \<not> has_flag (k_flags (kthreads s k)) KTHREAD_SUSPENDED_F \<and> has_flag (k_flags (kthreads s k)) KTHREAD_READY_F"
  using AreKThreadFlagsSet_iff [of k "KTHREAD_HALTED_F OR KTHREAD_SUSPENDED_F" s]
    AreKThreadFlagsSet_iff [of k KTHREAD_READY_F s]
  by (auto simp: runnable_def has_flag_or)

section \<open>Suspended and halted partitions\<close>

lemma log_audit_sel [simp]: "kthreads (log_audit e s) = kthreads s" "cfg (log_audit e s) = cfg s"
  "partitionTab (log_audit e s) = partitionTab s" "ktimers (log_audit e s) = ktimers s"
  "cyclic (log_audit e s) = cyclic s" "cKThread (log_audit e s) = cKThread s"
  by (simp_all add: log_audit_def)

lemma threads_of_log [simp]: "threads_of i (log_audit e s) = threads_of i s"
  by (rule threads_of_cong) simp_all

lemma SUSPEND_PARTITION_spec:
  assumes "SUSPEND_PARTITION i s = Some s'" "threads_of i s = Some ks"
  shows "k \<in> set ks \<Longrightarrow> \<not> runnable s' k" "k \<notin> set ks \<Longrightarrow> kthreads s' k = kthreads s k"
    and "k_flags (kthreads s' k) = (if k \<in> set ks then set_flag (k_flags (kthreads s k)) KTHREAD_SUSPENDED_F else k_flags (kthreads s k))"
proof -
  have s': "s' = fold (\<lambda>k. SetKThreadFlags k KTHREAD_SUSPENDED_F) ks (log_audit (AuditPartSuspend i) s)"
    using assms by (auto simp: SUSPEND_PARTITION_def bind_eq_Some_iff Let_def)
  show "k_flags (kthreads s' k) = (if k \<in> set ks then set_flag (k_flags (kthreads s k)) KTHREAD_SUSPENDED_F else k_flags (kthreads s k))"
    by (simp add: s' fold_set_flags(1))
  then show "\<not> runnable s' k" if "k \<in> set ks"
    using that by (simp add: runnable_iff has_flag_set kthread_flag_defs)
  show "kthreads s' k = kthreads s k" if "k \<notin> set ks"
    by (simp add: s' fold_set_flags(3) that)
qed

text \<open>Resuming undoes a suspension: a thread that was not suspended before has its flags back.\<close>

lemma clr_set_flag: "\<not> has_flag x f \<Longrightarrow> clr_flag (set_flag x f) f = x"
  by (auto simp: bit_eq_iff clr_flag_bit set_flag_bit has_flag_bit)

lemma suspend_resume:
  assumes "SUSPEND_PARTITION i s = Some s1" "RESUME_PARTITION i s1 = Some s2" "threads_of i s = Some ks"
    and "\<forall>k \<in> set ks. \<not> has_flag (k_flags (kthreads s k)) KTHREAD_SUSPENDED_F"
  shows "k_flags (kthreads s2 k) = k_flags (kthreads s k)"
proof -
  have s1: "s1 = fold (\<lambda>k. SetKThreadFlags k KTHREAD_SUSPENDED_F) ks (log_audit (AuditPartSuspend i) s)"
    using assms(1,3) by (auto simp: SUSPEND_PARTITION_def bind_eq_Some_iff Let_def)
  then have "threads_of i (log_audit (AuditPartResume i) s1) = Some ks"
    by (simp add: threads_of_cong [OF kthreads_only_fields(7,3) [OF fold_set_flags(2)]] assms(3))
  then have "s2 = fold (\<lambda>k. ClearKThreadFlags k KTHREAD_SUSPENDED_F) ks (log_audit (AuditPartResume i) s1)"
    using assms(2) by (auto simp: RESUME_PARTITION_def bind_eq_Some_iff Let_def)
  then show ?thesis
    using assms(4) by (simp add: fold_clear_flags(1) s1 fold_set_flags(1) clr_set_flag)
qed

text \<open>What halting one thread does.\<close>

lemma DisarmKTimer_spec:
  "DisarmKTimer t s = Some (r, s') \<Longrightarrow> \<not> armed s' t \<and> kthreads s' = kthreads s \<and> cfg s' = cfg s \<and>
     partitionTab s' = partitionTab s \<and> (\<forall>t'. armed s' t' \<longrightarrow> armed s t')"
  by (auto simp: DisarmKTimer_def bind_eq_Some_iff armed_def tm_upd_def VTIMER_ARMED_def KTIMER_ARMED_def
      has_flag_clr split: if_splits)

lemma halt_kthread_spec:
  assumes "halt_kthread k s = Some s'"
  shows "kthreads s' = kthreads (kt_upd k (g_upd (\<lambda>g. g\<lparr>g_opMode := XM_OPMODE_IDLE\<rparr>)) (SetKThreadFlags k KTHREAD_HALTED_F s))"
    and "cfg s' = cfg s" "partitionTab s' = partitionTab s" "\<And>t. armed s' t \<Longrightarrow> armed s t"
    and "\<lbrakk>cpu_schedPolicy (xmcCpuCfg (cfg s)) = FP_SCHED; k_g (kthreads s k) = Some g\<rbrakk> \<Longrightarrow>
      \<not> armed s' (g_kTimer g) \<and> \<not> armed s' (g_watchdogTimer g)"
proof -
  let ?s = "kt_upd k (g_upd (\<lambda>g. g\<lparr>g_opMode := XM_OPMODE_IDLE\<rparr>)) (SetKThreadFlags k KTHREAD_HALTED_F s)"
  have f: "cfg ?s = cfg s" "partitionTab ?s = partitionTab s" "armed ?s t = armed s t" for t
    using kthreads_only_fields [OF SetKThreadFlags_only [of s k KTHREAD_HALTED_F]] by (simp_all add: kt_upd_def armed_def)
  have g: "map_option g_kTimer (k_g (kthreads (SetKThreadFlags k KTHREAD_HALTED_F s) k)) = map_option g_kTimer (k_g (kthreads s k))"
    "map_option g_watchdogTimer (k_g (kthreads (SetKThreadFlags k KTHREAD_HALTED_F s) k)) = map_option g_watchdogTimer (k_g (kthreads s k))"
    by (cases "k_g (kthreads s k)"; simp add: SetKThreadFlags_def pct_upd_def g_upd_def)+
  obtain gg where k: "k_g (kthreads (SetKThreadFlags k KTHREAD_HALTED_F s) k) = Some gg"
    and r: "if cpu_schedPolicy (xmcCpuCfg (cfg s)) = FP_SCHED
      then \<exists>r1 s1 r2. DisarmKTimer (g_kTimer gg) ?s = Some (r1, s1) \<and> DisarmKTimer (g_watchdogTimer gg) s1 = Some (r2, s')
      else s' = ?s"
    using assms f(1) by (auto simp: halt_kthread_def bind_eq_Some_iff Let_def split: if_splits)
  show "kthreads s' = kthreads ?s" "cfg s' = cfg s" "partitionTab s' = partitionTab s" "\<And>t. armed s' t \<Longrightarrow> armed s t"
    using r f by (auto split: if_splits dest!: DisarmKTimer_spec)
  have "\<not> armed s' (g_kTimer g') \<and> \<not> armed s' (g_watchdogTimer g')"
    if "cpu_schedPolicy (xmcCpuCfg (cfg s)) = FP_SCHED" "k_g (kthreads s k) = Some g'" for g'
    using r that g k by (auto dest!: DisarmKTimer_spec)
  then show "\<lbrakk>cpu_schedPolicy (xmcCpuCfg (cfg s)) = FP_SCHED; k_g (kthreads s k) = Some g\<rbrakk> \<Longrightarrow>
      \<not> armed s' (g_kTimer g) \<and> \<not> armed s' (g_watchdogTimer g)" .
qed

lemma g_upd_halted: "k_flags (kthreads (kt_upd k (g_upd f) (SetKThreadFlags k h s)) k') =
    (if k' = k then set_flag (k_flags (kthreads s k)) h else k_flags (kthreads s k'))"
  by simp

lemma halt_loop_spec:
  assumes "ofold halt_kthread ks s = Some s'"
  shows "cfg s' = cfg s" "partitionTab s' = partitionTab s" "\<And>t. armed s' t \<Longrightarrow> armed s t"
    and "k \<in> set ks \<Longrightarrow> k_halted (kthreads s' k)" "k \<notin> set ks \<Longrightarrow> kthreads s' k = kthreads s k"
proof -
  have "cfg s' = cfg s \<and> partitionTab s' = partitionTab s \<and> (\<forall>t. armed s' t \<longrightarrow> armed s t) \<and>
    (k \<in> set ks \<or> k_halted (kthreads s k) \<longrightarrow> k_halted (kthreads s' k)) \<and> (k \<notin> set ks \<longrightarrow> kthreads s' k = kthreads s k)"
    using assms
  proof (induction ks arbitrary: s)
    case (Cons x ks)
    then obtain s1 where s1: "halt_kthread x s = Some s1" "ofold halt_kthread ks s1 = Some s'"
      by (auto simp: bind_eq_Some_iff)
    note h = halt_kthread_spec [OF s1(1)]
    have "k_halted (kthreads s1 k)" if "k = x \<or> k_halted (kthreads s k)"
      using that unfolding k_halted_def h(1) g_upd_halted by (auto simp: flag_simps kthread_flag_defs)
    moreover have "kthreads s1 k = kthreads s k" if "k \<noteq> x"
      using that by (simp add: h(1))
    ultimately show ?case using Cons.IH [OF s1(2)] h(2-4) by auto
  qed simp
  then show "cfg s' = cfg s" "partitionTab s' = partitionTab s" "\<And>t. armed s' t \<Longrightarrow> armed s t"
    "k \<in> set ks \<Longrightarrow> k_halted (kthreads s' k)" "k \<notin> set ks \<Longrightarrow> kthreads s' k = kthreads s k"
    by auto
qed

lemma HALT_PARTITION_spec:
  assumes "HALT_PARTITION i s = Some s'" "threads_of i s = Some ks"
  shows "k \<in> set ks \<Longrightarrow> k_halted (kthreads s' k)" "k \<notin> set ks \<Longrightarrow> kthreads s' k = kthreads s k"
    and "unat i < length (partitionTab s) \<Longrightarrow> p_opMode (partitionTab s' ! unat i) = XM_OPMODE_IDLE"
    and "armed s' t \<Longrightarrow> armed s t"
proof -
  obtain s1 where s1: "ofold halt_kthread ks (log_audit (AuditPartHalt i) s) = Some s1"
    and s': "s' = s1\<lparr>partitionTab := (partitionTab s1)[unat i := (partitionTab s1 ! unat i)\<lparr>p_opMode := XM_OPMODE_IDLE\<rparr>]\<rparr>"
    using assms by (auto simp: HALT_PARTITION_def bind_eq_Some_iff Let_def)
  note h = halt_loop_spec [OF s1]
  show "k \<in> set ks \<Longrightarrow> k_halted (kthreads s' k)" "k \<notin> set ks \<Longrightarrow> kthreads s' k = kthreads s k"
    "unat i < length (partitionTab s) \<Longrightarrow> p_opMode (partitionTab s' ! unat i) = XM_OPMODE_IDLE"
    using h by (simp_all add: s')
  show "armed s' t \<Longrightarrow> armed s t" using h(3) by (simp add: s' armed_def)
qed

lemma k_halted_not_runnable: "k_halted (kthreads s k) \<Longrightarrow> \<not> runnable s k"
  by (simp add: runnable_iff k_halted_def)

section \<open>The first state of the scheduler\<close>

lemma DynListInsertHead_more:
  "DynListInsertHead l e s = Some (r, s') \<Longrightarrow> dl_store.more s' = dl_store.more s"
  by (auto simp: DynListInsertHead_def dl_set_defs dl_link_before_def bind_eq_Some_iff Let_def split: if_splits)

lemma dl_more_sched:
  fixes s s' :: "'a sstate_scheme"
  assumes "dl_store.more s' = dl_store.more s"
  shows "cyclic s' = cyclic s" "cKThread s' = cKThread s" "idleKThread s' = idleKThread s" "cfg s' = cfg s"
  by (cases s; cases s'; use assms in simp)+

lemma InitKTimer_sched:
  fixes s s' :: "'a sstate_scheme"
  assumes "InitKTimer t a k s = Some s'"
  shows "cyclic s' = cyclic s" "cKThread s' = cKThread s" "idleKThread s' = idleKThread s"
proof -
  obtain l r tm dn where "DynListInsertHead l t (s\<lparr>ktimers := tm, dnode := dn\<rparr>) = Some (r, s')"
    using assms by (auto simp: InitKTimer_def bind_eq_Some_iff Let_def)
  from dl_more_sched [OF DynListInsertHead_more [OF this]]
  show "cyclic s' = cyclic s" "cKThread s' = cKThread s" "idleKThread s' = idleKThread s" by simp_all
qed

text \<open>The invariant of the cyclic policy holds when InitSchedLocal returns.\<close>

lemma InitSchedLocal_cyc_inv:
  assumes "InitSchedLocal idle m s = Some s'"
  shows "cyc_inv t s'" "cKThread s' = idle" "idleKThread s' = idle"
proof -
  obtain s1 f s3 n where s3: "InitKTimer (cy_kTimer (cyclic (cy_upd f (s1\<lparr>cKThread := idle, idleKThread := idle\<rparr>)))) ActSchedPending NULL
      (cy_upd f (s1\<lparr>cKThread := idle, idleKThread := idle\<rparr>)) = Some s3"
    and f: "cy_mjf (f (cyclic s1)) = 0" "cy_kThread (f (cyclic s1)) = NULL"
    and s': "s' = cy_upd (\<lambda>cy. cy\<lparr>cy_slot := - 1, cy_new := PlanTab n, cy_current := PlanNull, cy_prev := PlanNull\<rparr>) s3"
    using assms by (auto simp: InitSchedLocal_def bind_eq_Some_iff Let_def)
  note i = InitKTimer_sched [OF s3]
  show "cyc_inv t s'" "cKThread s' = idle" "idleKThread s' = idle"
    using i f by (auto simp: s' cyc_inv_def cy_upd_def Let_def)
qed

end
