(* ===== verification/CommPorts.thy ===== *)
theory CommPorts
  imports Guest PartState
begin

text \<open>
  Inter-partition communication, core/objects/commports.c with core/include/objects/commports.h:
  sampling ports (one buffer per channel, overwritten by each write) and queuing ports (a pool of
  messages that moves between a free list and a receive list), for a configuration without
  CONFIG_DEV_TTNOC and CONFIG_OBJ_STATUS_ACC. Partition pointers are indices of partitionTab, a
  message is the pool entry of its list node. Every operation returns its code with the new
  state; None is a failed assertion or panic, or an access outside a table, a buffer or the
  guest's memory. The spin locks have no effect on one processor.
\<close>

section \<open>Data\<close>

record port =
  po_flags :: u32
  po_partitionId :: xmId

record schannel =
  sc_buffer :: "u8 list"
  sc_length :: s32
  sc_timestamp :: xmTime
  sc_receiverTab :: "nat option list"
  sc_receiverPortTab :: "s32 list"
  sc_noReceivers :: s32
  sc_sender :: "nat option"
  sc_senderPort :: s32

record msg =
  m_buffer :: "u8 list"
  m_length :: s32

text \<open>\<open>q_pool\<close> is the address of the list node of the first message; the nodes follow each other.\<close>

record qchannel =
  q_msgPool :: "msg list"
  q_pool :: addr
  q_freeMsgs :: addr
  q_recvMsgs :: addr
  q_usedMsgs :: s32
  q_receiver :: "nat option"
  q_receiverPort :: s32
  q_sender :: "nat option"
  q_senderPort :: s32

datatype channel = SChan schannel | QChan qchannel

record cstate = gstate +
  channelTab :: "channel list"
  portTab :: "port list"

definition COMM_PORT_OPENED :: u32 where "COMM_PORT_OPENED = 1"
definition COMM_PORT_EMPTY :: u32 where "COMM_PORT_EMPTY = 0"
definition COMM_PORT_NEW_MSG :: u32 where "COMM_PORT_NEW_MSG = 2"
definition COMM_PORT_CONSUMED_MSG :: u32 where "COMM_PORT_CONSUMED_MSG = 4"
definition COMM_PORT_MSG_MASK :: u32 where "COMM_PORT_MSG_MASK = 6"
definition XM_SAMPLING_PORT :: s32 where "XM_SAMPLING_PORT = 0"
definition XM_QUEUING_PORT :: s32 where "XM_QUEUING_PORT = 1"
definition XM_SOURCE_PORT :: u32 where "XM_SOURCE_PORT = 2"
definition XM_DESTINATION_PORT :: u32 where "XM_DESTINATION_PORT = 1"
definition XM_NULL_CHANNEL :: s32 where "XM_NULL_CHANNEL = - 1"
definition XM_INFINITE_TIME :: u32 where "XM_INFINITE_TIME = 0xFFFFFFFF"
definition XM_COMM_MSG_VALID :: u32 where "XM_COMM_MSG_VALID = 1"
definition XM_COMM_EMPTY_PORT :: u32 where "XM_COMM_EMPTY_PORT = 0"
definition XM_COMM_CONSUMED_MSG :: u32 where "XM_COMM_CONSUMED_MSG = 2"
definition XM_COMM_NEW_MSG :: u32 where "XM_COMM_NEW_MSG = 4"
definition XM_COMM_CREATE_PORT :: u32 where "XM_COMM_CREATE_PORT = 0"
definition XM_COMM_GET_PORT_STATUS :: u32 where "XM_COMM_GET_PORT_STATUS = 1"
definition XM_COMM_GET_PORT_INFO :: u32 where "XM_COMM_GET_PORT_INFO = 2"

lemmas comm_defs = COMM_PORT_OPENED_def COMM_PORT_EMPTY_def COMM_PORT_NEW_MSG_def
  COMM_PORT_CONSUMED_MSG_def COMM_PORT_MSG_MASK_def XM_SAMPLING_PORT_def XM_QUEUING_PORT_def
  XM_SOURCE_PORT_def XM_DESTINATION_PORT_def XM_NULL_CHANNEL_def

section \<open>Tables\<close>

definition port_upd :: "nat \<Rightarrow> (port \<Rightarrow> port) \<Rightarrow> 'a cstate_scheme \<Rightarrow> 'a cstate_scheme option" where
  "port_upd i f s = do { po \<leftarrow> aget (portTab s) i; Some (s\<lparr>portTab := (portTab s)[i := f po]\<rparr>) }"

text \<open>The arms of the union and of the configuration entry, by the index in a port's configuration.\<close>

definition cidx :: "s32 \<Rightarrow> nat option" where
  "cidx i = (if 0 \<le> i then Some (nat i) else None)"

definition sampling_cfg :: "s32 \<Rightarrow> 'a kstate_scheme \<Rightarrow> (s32 \<times> u32 \<times> s32) option" where
  "sampling_cfg i s = do { e \<leftarrow> cidx i; c \<leftarrow> aget (xmcCommChannelTab (cfg s)) e;
     (case c of SamplingChannel l v n \<Rightarrow> Some (l, v, n) | QueuingChannel _ _ \<Rightarrow> None) }"

definition queuing_cfg :: "s32 \<Rightarrow> 'a kstate_scheme \<Rightarrow> (s32 \<times> s32) option" where
  "queuing_cfg i s = do { e \<leftarrow> cidx i; c \<leftarrow> aget (xmcCommChannelTab (cfg s)) e;
     (case c of QueuingChannel l n \<Rightarrow> Some (l, n) | SamplingChannel _ _ _ \<Rightarrow> None) }"

definition get_schan :: "s32 \<Rightarrow> 'a cstate_scheme \<Rightarrow> schannel option" where
  "get_schan i s = do { e \<leftarrow> cidx i; c \<leftarrow> aget (channelTab s) e;
     (case c of SChan x \<Rightarrow> Some x | QChan _ \<Rightarrow> None) }"

definition get_qchan :: "s32 \<Rightarrow> 'a cstate_scheme \<Rightarrow> qchannel option" where
  "get_qchan i s = do { e \<leftarrow> cidx i; c \<leftarrow> aget (channelTab s) e;
     (case c of QChan x \<Rightarrow> Some x | SChan _ \<Rightarrow> None) }"

definition put_chan :: "s32 \<Rightarrow> channel \<Rightarrow> 'a cstate_scheme \<Rightarrow> 'a cstate_scheme" where
  "put_chan i c s = s\<lparr>channelTab := (channelTab s)[nat i := c]\<rparr>"

text \<open>memcpy into a buffer of the kernel, and out of it.\<close>

definition buf_put :: "u8 list \<Rightarrow> u8 list \<Rightarrow> u8 list option" where
  "buf_put buf bs = (if length bs \<le> length buf then Some (bs @ drop (length bs) buf) else None)"

definition buf_get :: "u8 list \<Rightarrow> nat \<Rightarrow> u8 list option" where
  "buf_get buf n = (if n \<le> length buf then Some (take n buf) else None)"

section \<open>Looking up a port by name\<close>

text \<open>The loop over the ports of a partition. Without a match the result is the first index behind
  them.\<close>

fun find_port :: "(nat \<Rightarrow> s32 option) \<Rightarrow> nat \<Rightarrow> nat \<Rightarrow> nat option" where
  "find_port cmp port 0 = Some port"
| "find_port cmp port (Suc n) = do { r \<leftarrow> cmp port; if r = 0 then Some port else find_port cmp (Suc port) n }"

definition lookup_port_n :: "u32 \<Rightarrow> xmcPartition \<Rightarrow> 'a gstate_scheme \<Rightarrow> nat option" where
  "lookup_port_n name c s = find_port (\<lambda>i. do { p \<leftarrow> aget (xmcCommPorts (cfg s)) i;
       strncmp (guest_str name s) (tab_str (cfg s) (cp_nameOffset p)) 0 CONFIG_ID_STRING_LENGTH })
     (unat (pc_commPortsOffset c)) (nat (pc_noPorts c))"

definition lookup_port :: "u32 \<Rightarrow> xmcPartition \<Rightarrow> 'a gstate_scheme \<Rightarrow> nat option" where
  "lookup_port name c s = find_port (\<lambda>i. do { p \<leftarrow> aget (xmcCommPorts (cfg s)) i;
       strcmp (guest_str name s) (tab_str (cfg s) (cp_nameOffset p)) 0 })
     (unat (pc_commPortsOffset c)) (nat (pc_noPorts c))"

text \<open>\<open>port-partition->commPortsOffset\<close>\<close>

definition rel_port :: "nat \<Rightarrow> xmcPartition \<Rightarrow> s32" where
  "rel_port port c = int port - uint (pc_commPortsOffset c)"

section \<open>Sampling ports\<close>

text \<open>CreateSamplingPort, the part that enters the partition in the channel; XM_OK goes on.\<close>

definition attach_sampling :: "xmcPartition \<Rightarrow> nat \<Rightarrow> xmcCommPort \<Rightarrow> u32 \<Rightarrow> u32 \<Rightarrow> xmTime \<Rightarrow> 'a cstate_scheme \<Rightarrow>
    (s32 \<times> 'a cstate_scheme) option" where
  "attach_sampling c port p maxMsgSize direction validPeriod s =
     (if cp_channelId p = XM_NULL_CHANNEL then Some (XM_OK, s)
      else do {
        ASSERT (0 \<le> cp_channelId p \<and> nat (cp_channelId p) < length (xmcCommChannelTab (cfg s)));
        (len, period, nr) \<leftarrow> sampling_cfg (cp_channelId p) s;
        if word_of_int len \<noteq> maxMsgSize then Some (XM_INVALID_CONFIG, s)
        else if uint period \<noteq> validPeriod then Some (XM_INVALID_CONFIG, s)
        else do {
          ch \<leftarrow> get_schan (cp_channelId p) s;
          me \<leftarrow> GetPartition (cKThread s) s;
          if direction = XM_DESTINATION_PORT then do {
            ASSERT (sc_noReceivers ch < nr);
            e \<leftarrow> cidx (sc_noReceivers ch);
            _ \<leftarrow> aget (sc_receiverTab ch) e;
            _ \<leftarrow> aget (sc_receiverPortTab ch) e;
            Some (XM_OK, put_chan (cp_channelId p) (SChan (ch\<lparr>sc_receiverTab := (sc_receiverTab ch)[e := Some me],
              sc_receiverPortTab := (sc_receiverPortTab ch)[e := rel_port port c],
              sc_noReceivers := sc_noReceivers ch + 1\<rparr>)) s)
          } else
            Some (XM_OK, put_chan (cp_channelId p) (SChan (ch\<lparr>sc_sender := Some me,
              sc_senderPort := rel_port port c\<rparr>)) s)
        }
      })"

definition open_port :: "nat \<Rightarrow> u32 \<Rightarrow> 'a cstate_scheme \<Rightarrow> (s32 \<times> 'a cstate_scheme) option" where
  "open_port port fl s = do {
     i \<leftarrow> cur_partid s;
     s \<leftarrow> port_upd port (\<lambda>po. po\<lparr>po_flags := po_flags po OR fl, po_partitionId := i\<rparr>) s;
     Some (int port, s)
   }"

text \<open>The guards that CreateSamplingPort and CreateQueuingPort share: an error code, or XM_OK with
  the port found and its configuration.\<close>

definition create_guards :: "u32 \<Rightarrow> u32 \<Rightarrow> u32 \<Rightarrow> s32 \<Rightarrow> 'a cstate_scheme \<Rightarrow> (s32 \<times> nat \<times> xmcPartition) option" where
  "create_guards desc portName direction ty s = do {
     c \<leftarrow> cur_cfg s;
     if OBJDESC_GET_PARTITIONID desc \<noteq> pc_id c then Some (XM_PERM_ERROR, 0, c)
     else do {
       r \<leftarrow> CheckGParam portName (word_of_nat CONFIG_ID_STRING_LENGTH) 1 PFLAG_NOT_NULL s;
       if r < 0 then Some (XM_INVALID_PARAM, 0, c)
       else if direction \<noteq> XM_SOURCE_PORT \<and> direction \<noteq> XM_DESTINATION_PORT then Some (XM_INVALID_PARAM, 0, c)
       else do {
         port \<leftarrow> lookup_port_n portName c s;
         if port \<ge> length (xmcCommPorts (cfg s)) then Some (XM_INVALID_PARAM, port, c)
         else do {
           p \<leftarrow> aget (xmcCommPorts (cfg s)) port;
           if cp_type p \<noteq> ty then Some (XM_INVALID_CONFIG, port, c)
           else if direction \<noteq> word_of_int (cp_direction p) then Some (XM_INVALID_CONFIG, port, c)
           else do {
             po \<leftarrow> aget (portTab s) port;
             if has_flag (po_flags po) COMM_PORT_OPENED then Some (XM_NO_ACTION, port, c)
             else Some (XM_OK, port, c)
           }
         }
       }
     }
   }"

definition CreateSamplingPort :: "u32 \<Rightarrow> u32 \<Rightarrow> u32 \<Rightarrow> u32 \<Rightarrow> xmTime \<Rightarrow> 'a cstate_scheme \<Rightarrow>
    (s32 \<times> 'a cstate_scheme) option" where
  "CreateSamplingPort desc portName maxMsgSize direction validPeriod s = do {
     (r, port, c) \<leftarrow> create_guards desc portName direction XM_SAMPLING_PORT s;
     if r \<noteq> XM_OK then Some (r, s)
     else do {
       p \<leftarrow> aget (xmcCommPorts (cfg s)) port;
       (r, s) \<leftarrow> attach_sampling c port p maxMsgSize direction validPeriod s;
       if r \<noteq> XM_OK then Some (r, s)
       else open_port port (COMM_PORT_OPENED OR COMM_PORT_EMPTY) s
     }
   }"

text \<open>The checks of the four transfer operations, in their order, after the descriptor's.\<close>

definition transfer_guards :: "nat \<Rightarrow> s32 \<Rightarrow> u32 \<Rightarrow> u32 \<Rightarrow> 'a cstate_scheme \<Rightarrow> s32 option" where
  "transfer_guards port ty dir msgSize s = do {
     me \<leftarrow> cur_partid s;
     po \<leftarrow> aget (portTab s) port;
     if po_partitionId po \<noteq> me then Some XM_INVALID_PARAM
     else if \<not> has_flag (po_flags po) COMM_PORT_OPENED then Some XM_INVALID_PARAM
     else do {
       p \<leftarrow> aget (xmcCommPorts (cfg s)) port;
       if cp_type p \<noteq> ty then Some XM_INVALID_PARAM
       else if word_of_int (cp_direction p) \<noteq> dir then Some XM_INVALID_PARAM
       else if msgSize = 0 then Some XM_INVALID_CONFIG
       else Some XM_OK
     }
   }"

text \<open>The loops that set or clear a bit of the control tables of a partition's VCPUs.\<close>

definition part_by_index :: "nat \<Rightarrow> 'a kstate_scheme \<Rightarrow> addr list option" where
  "part_by_index i s = do { p \<leftarrow> aget (partitionTab s) i; part_vcpus p s }"

definition notify_part :: "nat \<Rightarrow> nat \<Rightarrow> 'a kstate_scheme \<Rightarrow> 'a kstate_scheme option" where
  "notify_part i irq s = do { p \<leftarrow> aget (partitionTab s) i; SetPartitionExtIrqPending p irq s }"

definition clear_bits :: "nat \<Rightarrow> u32 \<Rightarrow> 'a kstate_scheme \<Rightarrow> 'a kstate_scheme option" where
  "clear_bits i b s = do { ks \<leftarrow> part_by_index i s; ofold (clear_port_bit b) ks s }"

definition set_bits :: "nat \<Rightarrow> u32 \<Rightarrow> 'a kstate_scheme \<Rightarrow> 'a kstate_scheme option" where
  "set_bits i b s = do { ks \<leftarrow> part_by_index i s; ofold (set_port_bit b) ks s }"

text \<open>The loops that assert the port's range for each thread.\<close>

definition set_bit_in_range :: "s32 \<Rightarrow> addr \<Rightarrow> 'a kstate_scheme \<Rightarrow> 'a kstate_scheme option" where
  "set_bit_in_range b k s = do { p \<leftarrow> k_pct (kthreads s k); ASSERT (b < pct_noCommPorts p);
     set_port_bit (word_of_int b) k s }"

definition clear_bit_in_range :: "s32 \<Rightarrow> addr \<Rightarrow> 'a kstate_scheme \<Rightarrow> 'a kstate_scheme option" where
  "clear_bit_in_range b k s = do { p \<leftarrow> k_pct (kthreads s k); ASSERT (b < pct_noCommPorts p);
     clear_port_bit (word_of_int b) k s }"

text \<open>ReadSamplingPort after the copy: the port's flags, the bits, the sender's interrupt.\<close>

definition sampling_consumed :: "nat \<Rightarrow> schannel \<Rightarrow> 'a cstate_scheme \<Rightarrow> 'a cstate_scheme option" where
  "sampling_consumed port ch s = do {
     s \<leftarrow> port_upd port (\<lambda>po. po\<lparr>po_flags := set_flag (clr_flag (po_flags po) COMM_PORT_MSG_MASK)
            COMM_PORT_CONSUMED_MSG\<rparr>) s;
     c \<leftarrow> cur_cfg s;
     p \<leftarrow> k_pct (kthreads s (cKThread s));
     ASSERT ((word_of_nat port - pc_commPortsOffset c :: u32) < word_of_int (pct_noCommPorts p));
     s \<leftarrow> clear_port_bit (word_of_nat port - pc_commPortsOffset c) (cKThread s) s;
     case sc_sender ch of None \<Rightarrow> Some s
     | Some i \<Rightarrow> do {
         s \<leftarrow> clear_bits i (word_of_int (sc_senderPort ch)) s;
         notify_part i XM_VT_EXT_SAMPLING_PORT s }
   }"

text \<open>\<open>retSize&&(validPeriod!=XM_INFINITE_TIME)&&(timestamp+validPeriod)>GetSysClockUsec()\<close>: the clock
  is read only when the first two hold.\<close>

definition sampling_valid :: "bool \<Rightarrow> u32 \<Rightarrow> schannel \<Rightarrow> 'a cstate_scheme \<Rightarrow> bool \<times> 'a cstate_scheme" where
  "sampling_valid nonempty period ch s =
     (if nonempty \<and> period \<noteq> XM_INFINITE_TIME
      then let (t, s) = GetSysClockUsec s in (sc_timestamp ch + uint period > t, s)
      else (False, s))"

definition ReadSamplingPort :: "u32 \<Rightarrow> u32 \<Rightarrow> u32 \<Rightarrow> u32 \<Rightarrow> 'a cstate_scheme \<Rightarrow> (s32 \<times> 'a cstate_scheme) option" where
  "ReadSamplingPort desc msgPtr msgSize flags s = do {
     let port = unat (OBJDESC_GET_ID desc);
     me \<leftarrow> cur_partid s;
     if OBJDESC_GET_PARTITIONID desc \<noteq> me then Some (XM_PERM_ERROR, s)
     else do {
       r \<leftarrow> CheckGParam flags 4 4 PFLAG_RW s;
       if r < 0 then Some (XM_INVALID_PARAM, s)
       else do {
         r \<leftarrow> transfer_guards port XM_SAMPLING_PORT XM_DESTINATION_PORT msgSize s;
         if r \<noteq> XM_OK then Some (r, s)
         else do {
           p \<leftarrow> aget (xmcCommPorts (cfg s)) port;
           if cp_channelId p = XM_NULL_CHANNEL then Some (0, s)
           else do {
             (len, period, nr) \<leftarrow> sampling_cfg (cp_channelId p) s;
             if msgSize > word_of_int len then Some (XM_INVALID_CONFIG, s)
             else do {
               r \<leftarrow> CheckGParam msgPtr msgSize 1 (PFLAG_NOT_NULL OR PFLAG_RW) s;
               if r < 0 then Some (XM_INVALID_PARAM, s)
               else do {
                 ch \<leftarrow> get_schan (cp_channelId p) s;
                 let retSize = (if msgSize < word_of_int (sc_length ch) then msgSize else word_of_int (sc_length ch));
                 bs \<leftarrow> buf_get (sc_buffer ch) (unat retSize);
                 s \<leftarrow> gwrite_bytes msgPtr bs s;
                 s \<leftarrow> sampling_consumed port ch s;
                 if flags = 0 then Some (sint retSize, s)
                 else do {
                   s \<leftarrow> gwrite_u32 flags 0 s;
                   let (valid, s) = sampling_valid (retSize \<noteq> 0) period ch s;
                   s \<leftarrow> (if valid then gwrite_u32 flags XM_COMM_MSG_VALID s else Some s);
                   Some (sint retSize, s)
                 }
               }
             }
           }
         }
       }
     }
   }"

text \<open>WriteSamplingPort, what one receiver gets: for each of its VCPUs the bit and the flags of the
  port with the number of the receiver's port, then the interrupt.\<close>

definition receiver_new_msg :: "s32 \<Rightarrow> addr \<Rightarrow> 'a cstate_scheme \<Rightarrow> 'a cstate_scheme option" where
  "receiver_new_msg rport k s = do {
     s \<leftarrow> set_bit_in_range rport k s;
     i \<leftarrow> cidx rport;
     port_upd i (\<lambda>po. po\<lparr>po_flags := set_flag (clr_flag (po_flags po) COMM_PORT_MSG_MASK)
            COMM_PORT_NEW_MSG\<rparr>) s
   }"

definition notify_receiver :: "nat option \<times> s32 \<Rightarrow> 'a cstate_scheme \<Rightarrow> 'a cstate_scheme option" where
  "notify_receiver r s = (case fst r of None \<Rightarrow> Some s
     | Some i \<Rightarrow> do {
         ks \<leftarrow> part_by_index i s;
         s \<leftarrow> ofold (receiver_new_msg (snd r)) ks s;
         notify_part i XM_VT_EXT_SAMPLING_PORT s })"

definition sampling_written :: "nat \<Rightarrow> schannel \<Rightarrow> 'a cstate_scheme \<Rightarrow> 'a cstate_scheme option" where
  "sampling_written port ch s = do {
     me \<leftarrow> GetPartition (cKThread s) s;
     ASSERT (sc_sender ch = Some me);
     s \<leftarrow> set_bits me (word_of_nat port) s;
     ASSERT (nat (sc_noReceivers ch) \<le> length (sc_receiverTab ch) \<and>
             nat (sc_noReceivers ch) \<le> length (sc_receiverPortTab ch));
     ofold notify_receiver (take (nat (sc_noReceivers ch)) (zip (sc_receiverTab ch) (sc_receiverPortTab ch))) s
   }"

definition WriteSamplingPort :: "u32 \<Rightarrow> u32 \<Rightarrow> u32 \<Rightarrow> 'a cstate_scheme \<Rightarrow> (s32 \<times> 'a cstate_scheme) option" where
  "WriteSamplingPort desc msgPtr msgSize s = do {
     let port = unat (OBJDESC_GET_ID desc);
     me \<leftarrow> cur_partid s;
     if OBJDESC_GET_PARTITIONID desc \<noteq> me then Some (XM_PERM_ERROR, s)
     else do {
       r \<leftarrow> transfer_guards port XM_SAMPLING_PORT XM_SOURCE_PORT msgSize s;
       if r \<noteq> XM_OK then Some (r, s)
       else do {
         p \<leftarrow> aget (xmcCommPorts (cfg s)) port;
         if cp_channelId p = XM_NULL_CHANNEL then Some (XM_OK, s)
         else do {
           (len, period, nr) \<leftarrow> sampling_cfg (cp_channelId p) s;
           if msgSize > word_of_int len then Some (XM_INVALID_CONFIG, s)
           else do {
             r \<leftarrow> CheckGParam msgPtr msgSize 1 PFLAG_NOT_NULL s;
             if r < 0 then Some (XM_INVALID_PARAM, s)
             else do {
               ch \<leftarrow> get_schan (cp_channelId p) s;
               bs \<leftarrow> gread_bytes msgPtr (unat msgSize) s;
               buf \<leftarrow> buf_put (sc_buffer ch) bs;
               s \<leftarrow> sampling_written port ch s;
               let (t, s) = GetSysClockUsec s;
               Some (XM_OK, put_chan (cp_channelId p) (SChan (ch\<lparr>sc_buffer := buf,
                 sc_length := sint msgSize, sc_timestamp := t\<rparr>)) s)
             }
           }
         }
       }
     }
   }"

text \<open>Layout of the command blocks in guest memory (32-bit, 4-byte alignment): the creation block has
  the name at 0 and then its parameters; xmSamplingPortStatus_t is the time stamp at 0, lastMsgSize
  at 8, flags at 12; xmSamplingPortInfo_t the name at 0, validPeriod at 4, maxMsgSize at 12,
  direction at 16.\<close>

definition GetSPortInfo :: "u32 \<Rightarrow> u32 \<Rightarrow> 'a cstate_scheme \<Rightarrow> (s32 \<times> 'a cstate_scheme) option" where
  "GetSPortInfo desc info s = do {
     c \<leftarrow> cur_cfg s;
     if OBJDESC_GET_PARTITIONID desc \<noteq> pc_id c then Some (XM_PERM_ERROR, s)
     else do {
       name \<leftarrow> gread_u32 info s;
       r \<leftarrow> CheckGParam name (word_of_nat CONFIG_ID_STRING_LENGTH) 1 PFLAG_NOT_NULL s;
       if r < 0 then Some (XM_INVALID_PARAM, s)
       else do {
         port \<leftarrow> lookup_port name c s;
         if port \<ge> length (xmcCommPorts (cfg s)) then Some (XM_INVALID_PARAM, s)
         else do {
           p \<leftarrow> aget (xmcCommPorts (cfg s)) port;
           if cp_type p \<noteq> XM_SAMPLING_PORT then Some (XM_INVALID_PARAM, s)
           else if cp_channelId p \<noteq> XM_NULL_CHANNEL then do {
             (len, period, nr) \<leftarrow> sampling_cfg (cp_channelId p) s;
             s \<leftarrow> gwrite_s64 (info + 4) (uint period) s;
             s \<leftarrow> gwrite_u32 (info + 12) (word_of_int len) s;
             s \<leftarrow> gwrite_u32 (info + 16) (word_of_int (cp_direction p)) s;
             Some (XM_OK, s)
           } else do {
             s \<leftarrow> gwrite_s64 (info + 4) (uint XM_INFINITE_TIME) s;
             s \<leftarrow> gwrite_u32 (info + 12) 0 s;
             s \<leftarrow> gwrite_u32 (info + 16) 0 s;
             Some (XM_OK, s)
           }
         }
       }
     }
   }"

text \<open>The checks of the two status commands after the descriptor's.\<close>

definition status_guards :: "nat \<Rightarrow> s32 \<Rightarrow> 'a cstate_scheme \<Rightarrow> s32 option" where
  "status_guards port ty s = do {
     me \<leftarrow> cur_partid s;
     po \<leftarrow> aget (portTab s) port;
     if po_partitionId po \<noteq> me then Some XM_INVALID_PARAM
     else if \<not> has_flag (po_flags po) COMM_PORT_OPENED then Some XM_INVALID_PARAM
     else do {
       p \<leftarrow> aget (xmcCommPorts (cfg s)) port;
       if cp_type p \<noteq> ty then Some XM_INVALID_PARAM else Some XM_OK
     }
   }"

definition port_status_flags :: "u32 \<Rightarrow> u32" where
  "port_status_flags fl = (if has_flag fl COMM_PORT_NEW_MSG then XM_COMM_NEW_MSG
     else if has_flag fl COMM_PORT_CONSUMED_MSG then XM_COMM_CONSUMED_MSG else XM_COMM_EMPTY_PORT)"

definition GetSPortStatus :: "u32 \<Rightarrow> u32 \<Rightarrow> 'a cstate_scheme \<Rightarrow> (s32 \<times> 'a cstate_scheme) option" where
  "GetSPortStatus desc status s = do {
     let port = unat (OBJDESC_GET_ID desc);
     me \<leftarrow> cur_partid s;
     if OBJDESC_GET_PARTITIONID desc \<noteq> me then Some (XM_PERM_ERROR, s)
     else do {
       r \<leftarrow> status_guards port XM_SAMPLING_PORT s;
       if r \<noteq> XM_OK then Some (r, s)
       else do {
         p \<leftarrow> aget (xmcCommPorts (cfg s)) port;
         if cp_channelId p \<noteq> XM_NULL_CHANNEL then do {
           (len, period, nr) \<leftarrow> sampling_cfg (cp_channelId p) s;
           ch \<leftarrow> get_schan (cp_channelId p) s;
           po \<leftarrow> aget (portTab s) port;
           s \<leftarrow> gwrite_u32 (status + 8) (word_of_int (sc_length ch)) s;
           s \<leftarrow> gwrite_s64 status (sc_timestamp ch) s;
           let fl = port_status_flags (po_flags po);
           let (valid, s) = sampling_valid (sc_timestamp ch \<noteq> 0) period ch s;
           s \<leftarrow> gwrite_u32 (status + 12) (if valid then fl OR XM_COMM_MSG_VALID else fl) s;
           Some (XM_OK, s)
         } else do {
           s \<leftarrow> gwrite_bytes status (replicate 16 0) s;
           Some (XM_OK, s)
         }
       }
     }
   }"

definition CtrlSamplingPort :: "u32 \<Rightarrow> u32 \<Rightarrow> u32 \<Rightarrow> 'a cstate_scheme \<Rightarrow> (s32 \<times> 'a cstate_scheme) option" where
  "CtrlSamplingPort desc cmd args s = do {
     r \<leftarrow> CheckGParam args 20 4 (PFLAG_NOT_NULL OR PFLAG_RW) s;
     if r < 0 then Some (XM_INVALID_PARAM, s)
     else if cmd = XM_COMM_CREATE_PORT then do {
       name \<leftarrow> gread_u32 args s;
       r \<leftarrow> (if name = 0 then Some (- 1)
             else CheckGParam name (word_of_nat CONFIG_ID_STRING_LENGTH) 1 PFLAG_NOT_NULL s);
       if r < 0 then Some (XM_INVALID_PARAM, s)
       else do {
         maxMsgSize \<leftarrow> gread_u32 (args + 4) s;
         direction \<leftarrow> gread_u32 (args + 8) s;
         validPeriod \<leftarrow> gread_s64 (args + 12) s;
         CreateSamplingPort desc name maxMsgSize direction validPeriod s
       }
     }
     else if cmd = XM_COMM_GET_PORT_STATUS then GetSPortStatus desc args s
     else if cmd = XM_COMM_GET_PORT_INFO then GetSPortInfo desc args s
     else Some (XM_INVALID_PARAM, s)
   }"

definition ResetPartPorts :: "xmcPartition \<Rightarrow> 'a cstate_scheme \<Rightarrow> 'a cstate_scheme option" where
  "ResetPartPorts c s =
     ofold (\<lambda>port. port_upd port (\<lambda>po. po\<lparr>po_flags := clr_flag (po_flags po) COMM_PORT_OPENED\<rparr>))
       [unat (pc_commPortsOffset c)..<unat (pc_commPortsOffset c) + nat (pc_noPorts c)] s"

section \<open>Queuing ports\<close>

text \<open>The channel gets the partition before the sizes of the request are checked.\<close>

definition attach_queuing :: "xmcPartition \<Rightarrow> nat \<Rightarrow> xmcCommPort \<Rightarrow> s32 \<Rightarrow> s32 \<Rightarrow> u32 \<Rightarrow> 'a cstate_scheme \<Rightarrow>
    (s32 \<times> 'a cstate_scheme) option" where
  "attach_queuing c port p maxNoMsgs maxMsgSize direction s =
     (if cp_channelId p = XM_NULL_CHANNEL then Some (XM_OK, s)
      else do {
        ASSERT (0 \<le> cp_channelId p \<and> nat (cp_channelId p) < length (xmcCommChannelTab (cfg s)));
        ch \<leftarrow> get_qchan (cp_channelId p) s;
        me \<leftarrow> GetPartition (cKThread s) s;
        let s = put_chan (cp_channelId p) (QChan
              (if direction = XM_DESTINATION_PORT
               then ch\<lparr>q_receiver := Some me, q_receiverPort := rel_port port c\<rparr>
               else ch\<lparr>q_sender := Some me, q_senderPort := rel_port port c\<rparr>)) s;
        (len, no) \<leftarrow> queuing_cfg (cp_channelId p) s;
        if no \<noteq> maxNoMsgs then Some (XM_INVALID_CONFIG, s)
        else if len \<noteq> maxMsgSize then Some (XM_INVALID_CONFIG, s)
        else Some (XM_OK, s)
      })"

definition CreateQueuingPort :: "u32 \<Rightarrow> u32 \<Rightarrow> s32 \<Rightarrow> s32 \<Rightarrow> u32 \<Rightarrow> 'a cstate_scheme \<Rightarrow>
    (s32 \<times> 'a cstate_scheme) option" where
  "CreateQueuingPort desc portName maxNoMsgs maxMsgSize direction s = do {
     (r, port, c) \<leftarrow> create_guards desc portName direction XM_QUEUING_PORT s;
     if r \<noteq> XM_OK then Some (r, s)
     else do {
       p \<leftarrow> aget (xmcCommPorts (cfg s)) port;
       (r, s) \<leftarrow> attach_queuing c port p maxNoMsgs maxMsgSize direction s;
       if r \<noteq> XM_OK then Some (r, s)
       else open_port port COMM_PORT_OPENED s
     }
   }"

text \<open>SendQueuingPort, the message: a free entry gets the bytes and moves to the receive list. The
  caller has checked that the channel is not full; no free entry is a panic.\<close>

definition msg_index :: "qchannel \<Rightarrow> addr \<Rightarrow> nat option" where
  "msg_index ch a = (if q_pool ch \<le> a \<and> a < q_pool ch + length (q_msgPool ch) then Some (a - q_pool ch) else None)"

definition queue_put :: "s32 \<Rightarrow> u8 list \<Rightarrow> 'a cstate_scheme \<Rightarrow> 'a cstate_scheme option" where
  "queue_put i bs s = do {
     ch \<leftarrow> get_qchan i s;
     (a, s) \<leftarrow> DynListRemoveTail (q_freeMsgs ch) s;
     ASSERT (a \<noteq> NULL);
     e \<leftarrow> msg_index ch a;
     buf \<leftarrow> buf_put (m_buffer (q_msgPool ch ! e)) bs;
     (_, s) \<leftarrow> DynListInsertHead (q_recvMsgs ch) a s;
     Some (put_chan i (QChan (ch\<lparr>q_msgPool := (q_msgPool ch)[e := \<lparr>m_buffer = buf, m_length = int (length bs)\<rparr>],
       q_usedMsgs := q_usedMsgs ch + 1\<rparr>)) s)
   }"

text \<open>Then the bits and the interrupt of the receiver, and the bits of the sender.\<close>

definition queuing_sent :: "s32 \<Rightarrow> 'a cstate_scheme \<Rightarrow> 'a cstate_scheme option" where
  "queuing_sent i s = do {
     ch \<leftarrow> get_qchan i s;
     s \<leftarrow> (case q_receiver ch of None \<Rightarrow> Some s
       | Some r \<Rightarrow> do {
           ks \<leftarrow> part_by_index r s;
           s \<leftarrow> ofold (set_bit_in_range (q_receiverPort ch)) ks s;
           notify_part r XM_VT_EXT_QUEUING_PORT s });
     me \<leftarrow> GetPartition (cKThread s) s;
     ks \<leftarrow> part_by_index me s;
     ofold (\<lambda>k s. do { ASSERT (q_sender ch = Some me); set_port_bit (word_of_int (q_senderPort ch)) k s }) ks s
   }"

definition SendQueuingPort :: "u32 \<Rightarrow> u32 \<Rightarrow> u32 \<Rightarrow> 'a cstate_scheme \<Rightarrow> (s32 \<times> 'a cstate_scheme) option" where
  "SendQueuingPort desc msgPtr msgSize s = do {
     let port = unat (OBJDESC_GET_ID desc);
     me \<leftarrow> cur_partid s;
     if OBJDESC_GET_PARTITIONID desc \<noteq> me then Some (XM_PERM_ERROR, s)
     else do {
       r \<leftarrow> transfer_guards port XM_QUEUING_PORT XM_SOURCE_PORT msgSize s;
       if r \<noteq> XM_OK then Some (r, s)
       else do {
         p \<leftarrow> aget (xmcCommPorts (cfg s)) port;
         if cp_channelId p = XM_NULL_CHANNEL then Some (XM_OK, s)
         else do {
           (len, no) \<leftarrow> queuing_cfg (cp_channelId p) s;
           if msgSize > word_of_int len then Some (XM_INVALID_CONFIG, s)
           else do {
             r \<leftarrow> CheckGParam msgPtr msgSize 1 PFLAG_NOT_NULL s;
             if r < 0 then Some (XM_INVALID_PARAM, s)
             else do {
               ch \<leftarrow> get_qchan (cp_channelId p) s;
               if q_usedMsgs ch < no then do {
                 bs \<leftarrow> gread_bytes msgPtr (unat msgSize) s;
                 s \<leftarrow> queue_put (cp_channelId p) bs s;
                 s \<leftarrow> queuing_sent (cp_channelId p) s;
                 Some (XM_OK, s)
               } else Some (XM_OP_NOT_ALLOWED, s)
             }
           }
         }
       }
     }
   }"

text \<open>ReceiveQueuingPort, the message: the oldest entry gives its bytes (at most \<open>n\<close>) and moves to
  the free list.\<close>

definition queue_get :: "s32 \<Rightarrow> u32 \<Rightarrow> 'a cstate_scheme \<Rightarrow> (u8 list \<times> 'a cstate_scheme) option" where
  "queue_get i n s = do {
     ch \<leftarrow> get_qchan i s;
     (a, s) \<leftarrow> DynListRemoveTail (q_recvMsgs ch) s;
     ASSERT (a \<noteq> NULL);
     e \<leftarrow> msg_index ch a;
     let m = q_msgPool ch ! e;
     let retSize = (if n < word_of_int (m_length m) then n else word_of_int (m_length m));
     bs \<leftarrow> buf_get (m_buffer m) (unat retSize);
     (_, s) \<leftarrow> DynListInsertHead (q_freeMsgs ch) a s;
     Some (bs, put_chan i (QChan (ch\<lparr>q_usedMsgs := q_usedMsgs ch - 1\<rparr>)) s)
   }"

text \<open>Then the sender's interrupt, and for an empty channel the bits: the current partition's loop
  clears the bit with the number of its first port.\<close>

definition queuing_received :: "nat \<Rightarrow> s32 \<Rightarrow> 'a cstate_scheme \<Rightarrow> 'a cstate_scheme option" where
  "queuing_received port i s = do {
     ch \<leftarrow> get_qchan i s;
     s \<leftarrow> (case q_sender ch of None \<Rightarrow> Some s | Some x \<Rightarrow> notify_part x XM_VT_EXT_QUEUING_PORT s);
     if q_usedMsgs ch \<noteq> 0 then Some s
     else do {
       me \<leftarrow> GetPartition (cKThread s) s;
       c \<leftarrow> cur_cfg s;
       ks \<leftarrow> part_by_index me s;
       s \<leftarrow> ofold (\<lambda>k s. do { p \<leftarrow> k_pct (kthreads s k);
              ASSERT ((word_of_nat port - pc_commPortsOffset c :: u32) < word_of_int (pct_noCommPorts p));
              clear_port_bit (pc_commPortsOffset c) k s }) ks s;
       case q_sender ch of None \<Rightarrow> Some s
       | Some x \<Rightarrow> do { ks \<leftarrow> part_by_index x s; ofold (clear_bit_in_range (q_senderPort ch)) ks s }
     }
   }"

definition ReceiveQueuingPort :: "u32 \<Rightarrow> u32 \<Rightarrow> u32 \<Rightarrow> 'a cstate_scheme \<Rightarrow> (s32 \<times> 'a cstate_scheme) option" where
  "ReceiveQueuingPort desc msgPtr msgSize s = do {
     let port = unat (OBJDESC_GET_ID desc);
     me \<leftarrow> cur_partid s;
     if OBJDESC_GET_PARTITIONID desc \<noteq> me then Some (XM_PERM_ERROR, s)
     else do {
       r \<leftarrow> transfer_guards port XM_QUEUING_PORT XM_DESTINATION_PORT msgSize s;
       if r \<noteq> XM_OK then Some (r, s)
       else do {
         p \<leftarrow> aget (xmcCommPorts (cfg s)) port;
         if cp_channelId p = XM_NULL_CHANNEL then Some (0, s)
         else do {
           (len, no) \<leftarrow> queuing_cfg (cp_channelId p) s;
           if msgSize > word_of_int len then Some (XM_INVALID_CONFIG, s)
           else do {
             r \<leftarrow> CheckGParam msgPtr msgSize 1 (PFLAG_NOT_NULL OR PFLAG_RW) s;
             if r < 0 then Some (XM_INVALID_PARAM, s)
             else do {
               ch \<leftarrow> get_qchan (cp_channelId p) s;
               if q_usedMsgs ch > 0 then do {
                 (bs, s) \<leftarrow> queue_get (cp_channelId p) msgSize s;
                 s \<leftarrow> gwrite_bytes msgPtr bs s;
                 s \<leftarrow> queuing_received port (cp_channelId p) s;
                 Some (int (length bs), s)
               } else Some (XM_OP_NOT_ALLOWED, s)
             }
           }
         }
       }
     }
   }"

definition GetQPortStatus :: "u32 \<Rightarrow> u32 \<Rightarrow> 'a cstate_scheme \<Rightarrow> (s32 \<times> 'a cstate_scheme) option" where
  "GetQPortStatus desc status s = do {
     let port = unat (OBJDESC_GET_ID desc);
     me \<leftarrow> cur_partid s;
     if OBJDESC_GET_PARTITIONID desc \<noteq> me then Some (XM_PERM_ERROR, s)
     else do {
       r \<leftarrow> status_guards port XM_QUEUING_PORT s;
       if r \<noteq> XM_OK then Some (r, s)
       else do {
         p \<leftarrow> aget (xmcCommPorts (cfg s)) port;
         s \<leftarrow> (if cp_channelId p \<noteq> XM_NULL_CHANNEL then do {
                ch \<leftarrow> get_qchan (cp_channelId p) s;
                gwrite_u32 status (word_of_int (q_usedMsgs ch)) s
              } else gwrite_bytes status (replicate 16 0) s);
         Some (XM_OK, s)
       }
     }
   }"

text \<open>xmQueuingPortInfo_t: the name at 0, maxMsgSize at 4, maxNoMsgs at 8, direction at 12.\<close>

definition GetQPortInfo :: "u32 \<Rightarrow> u32 \<Rightarrow> 'a cstate_scheme \<Rightarrow> (s32 \<times> 'a cstate_scheme) option" where
  "GetQPortInfo desc info s = do {
     c \<leftarrow> cur_cfg s;
     if OBJDESC_GET_PARTITIONID desc \<noteq> pc_id c then Some (XM_PERM_ERROR, s)
     else do {
       name \<leftarrow> gread_u32 info s;
       r \<leftarrow> CheckGParam name (word_of_nat CONFIG_ID_STRING_LENGTH) 1 PFLAG_NOT_NULL s;
       if r < 0 then Some (XM_INVALID_PARAM, s)
       else do {
         port \<leftarrow> lookup_port name c s;
         if port \<ge> length (xmcCommPorts (cfg s)) then Some (XM_INVALID_PARAM, s)
         else do {
           p \<leftarrow> aget (xmcCommPorts (cfg s)) port;
           if cp_type p \<noteq> XM_QUEUING_PORT then Some (XM_INVALID_PARAM, s)
           else do {
             (len, no, dir) \<leftarrow> (if cp_channelId p \<noteq> XM_NULL_CHANNEL
               then map_option (\<lambda>(len, no). (len, no, cp_direction p)) (queuing_cfg (cp_channelId p) s)
               else Some (0, 0, 0));
             s \<leftarrow> gwrite_u32 (info + 8) (word_of_int no) s;
             s \<leftarrow> gwrite_u32 (info + 4) (word_of_int len) s;
             s \<leftarrow> gwrite_u32 (info + 12) (word_of_int dir) s;
             Some (XM_OK, s)
           }
         }
       }
     }
   }"

definition CtrlQueuingPort :: "u32 \<Rightarrow> u32 \<Rightarrow> u32 \<Rightarrow> 'a cstate_scheme \<Rightarrow> (s32 \<times> 'a cstate_scheme) option" where
  "CtrlQueuingPort desc cmd args s = do {
     r \<leftarrow> CheckGParam args 24 4 (PFLAG_NOT_NULL OR PFLAG_RW) s;
     if r < 0 then Some (XM_INVALID_PARAM, s)
     else if cmd = XM_COMM_CREATE_PORT then do {
       name \<leftarrow> gread_u32 args s;
       r \<leftarrow> (if name = 0 then Some (- 1)
             else CheckGParam name (word_of_nat CONFIG_ID_STRING_LENGTH) 1 PFLAG_NOT_NULL s);
       if r < 0 then Some (XM_INVALID_PARAM, s)
       else do {
         maxNoMsgs \<leftarrow> gread_u32 (args + 4) s;
         maxMsgSize \<leftarrow> gread_u32 (args + 8) s;
         direction \<leftarrow> gread_u32 (args + 12) s;
         CreateQueuingPort desc name (sint maxNoMsgs) (sint maxMsgSize) direction s
       }
     }
     else if cmd = XM_COMM_GET_PORT_STATUS then GetQPortStatus desc args s
     else if cmd = XM_COMM_GET_PORT_INFO then GetQPortInfo desc args s
     else Some (XM_INVALID_PARAM, s)
   }"

section \<open>Start-up\<close>

text \<open>GET_MEMZ returns zeroed memory; \<open>al e\<close> gives the addresses of the two list heads and of the
  pool of channel \<open>e\<close>.\<close>

definition zero_nodes :: "addr \<Rightarrow> nat \<Rightarrow> 'a dl_store_scheme \<Rightarrow> 'a dl_store_scheme" where
  "zero_nodes a n s = s\<lparr>dnode := (\<lambda>x. if a \<le> x \<and> x < a + n then \<lparr>nd_list = NULL, nd_prev = NULL, nd_next = NULL\<rparr>
     else dnode s x)\<rparr>"

fun fill_pool :: "addr \<Rightarrow> addr list \<Rightarrow> 'a dl_store_scheme \<Rightarrow> 'a dl_store_scheme option" where
  "fill_pool l [] s = Some s"
| "fill_pool l (a # as) s = do { (r, s) \<leftarrow> DynListInsertHead l a s; ASSERT (r = 0); fill_pool l as s }"

definition setup_channel :: "(nat \<Rightarrow> addr \<times> addr \<times> addr) \<Rightarrow> nat \<Rightarrow> 'a cstate_scheme \<Rightarrow> 'a cstate_scheme option" where
  "setup_channel al e s = do {
     c \<leftarrow> aget (xmcCommChannelTab (cfg s)) e;
     (case c of
        SamplingChannel len period nr \<Rightarrow>
          Some (s\<lparr>channelTab := channelTab s @ [SChan \<lparr>sc_buffer = replicate (nat len) 0, sc_length = 0,
            sc_timestamp = 0, sc_receiverTab = replicate (nat nr) None, sc_receiverPortTab = replicate (nat nr) 0,
            sc_noReceivers = 0, sc_sender = None, sc_senderPort = 0\<rparr>]\<rparr>)
      | QueuingChannel len no \<Rightarrow> (let (fr, rc, pool) = al e in do {
          let s = zero_nodes pool (nat no) s;
          let s = DynListInit rc (DynListInit fr s);
          s \<leftarrow> fill_pool fr [pool..<pool + nat no] s;
          Some (s\<lparr>channelTab := channelTab s @ [QChan \<lparr>q_msgPool = replicate (nat no)
              \<lparr>m_buffer = replicate (nat len) 0, m_length = 0\<rparr>, q_pool = pool, q_freeMsgs = fr, q_recvMsgs = rc,
            q_usedMsgs = 0, q_receiver = None, q_receiverPort = 0, q_sender = None, q_senderPort = 0\<rparr>]\<rparr>) }))
   }"

definition SetupComm :: "(nat \<Rightarrow> addr \<times> addr \<times> addr) \<Rightarrow> 'a cstate_scheme \<Rightarrow> 'a cstate_scheme option" where
  "SetupComm al s =
     ofold (setup_channel al) [0..<length (xmcCommChannelTab (cfg s))]
       (s\<lparr>channelTab := [], portTab := replicate (length (xmcCommPorts (cfg s))) \<lparr>po_flags = 0, po_partitionId = 0\<rparr>\<rparr>)"

end
