(* ===== verification/PhysMM.thy ===== *)
theory PhysMM
  imports CommPorts
begin

text \<open>
  Physical memory: core/kernel/mmu/physmm.c, core/kernel/mmu/virtmm.c, core/kernel/arch/physmm.c
  and VmMapPage of core/kernel/arch/vmmap.c. The binary searches over the memory regions and the
  areas of a partition, the descriptors of the pages, the cache of pages mapped in the kernel's
  address space with its list of the least recently used, and the access to physical words through
  it. A page is named by its region and its index there. The areas and regions are read from the
  compiled configuration. None is a failed assertion, a null pointer or an index outside a table.
\<close>

section \<open>State\<close>

record physPage =
  pg_node :: addr
  pg_vAddr :: u32
  pg_mapped :: bool
  pg_unlocked :: bool
  pg_type :: u32
  pg_counter :: "27 word"

type_synonym page = "nat \<times> nat"

text \<open>
  \<open>pmem\<close> is the physical memory by bytes. The kernel's own address space is \<open>kptd\<close>, the entries of
  the page directory \<open>_pgTables\<close>, with \<open>kpt\<close>, the entry behind it for each virtual page.
  \<open>pctAddr\<close> and \<open>pctSize\<close> are \<open>g->partCtrlTab\<close> and its field partCtrlTabSize.
\<close>

record mstate = cstate +
  physPageTab :: "physPage list option list"
  cacheLRU :: addr
  vmmStartAddr :: u32
  noFrames :: s32
  kptd :: "nat \<Rightarrow> u32"
  kpt :: "u32 \<Rightarrow> u32"
  pmem :: "u32 \<Rightarrow> u8"
  pctAddr :: "addr \<Rightarrow> u32"
  pctSize :: "addr \<Rightarrow> u32"

definition PAGE_MASK :: u32 where "PAGE_MASK = 0xFFFFF000"
definition PAGE_BYTES :: u32 where "PAGE_BYTES = 4096"
definition XM_OFFSET :: u32 where "XM_OFFSET = 0xFC000000"
definition XM_LOAD_ADDR :: u32 where "XM_LOAD_ADDR = 0x1000000"
definition XMC_REG_FLAG_PGTAB :: u32 where "XMC_REG_FLAG_PGTAB = 1"
definition PPAG_STD :: u32 where "PPAG_STD = 0"
definition PPAG_PTDL1 :: u32 where "PPAG_PTDL1 = 1"
definition PPAG_PTDL2 :: u32 where "PPAG_PTDL2 = 2"

definition page_get :: "page \<Rightarrow> 'a mstate_scheme \<Rightarrow> physPage option" where
  "page_get pg s = do { ps \<leftarrow> aget (physPageTab s) (fst pg); ps \<leftarrow> ps; aget ps (snd pg) }"

definition page_upd :: "page \<Rightarrow> (physPage \<Rightarrow> physPage) \<Rightarrow> 'a mstate_scheme \<Rightarrow> 'a mstate_scheme" where
  "page_upd pg f s = s\<lparr>physPageTab := (physPageTab s)[fst pg :=
     map_option (\<lambda>ps. ps[snd pg := f (ps ! snd pg)]) (physPageTab s ! fst pg)]\<rparr>"

text \<open>The list node is the first field of the descriptor: the page of a node.\<close>

definition all_pages :: "'a mstate_scheme \<Rightarrow> (page \<times> physPage) list" where
  "all_pages s = concat (map (\<lambda>(r, ps). case ps of None \<Rightarrow> [] | Some ps \<Rightarrow> map (\<lambda>(i, x). ((r, i), x)) (enumerate 0 ps))
     (enumerate 0 (physPageTab s)))"

definition page_of_node :: "addr \<Rightarrow> 'a mstate_scheme \<Rightarrow> page option" where
  "page_of_node n s = map_option fst (List.find (\<lambda>(pg, x). pg_node x = n) (all_pages s))"

section \<open>Binary search\<close>

text \<open>The loop that the four searches share: the probe of the middle index says where to go on.\<close>

datatype probe_result = GoLeft | GoRight | Found

function bsearch :: "(nat \<Rightarrow> probe_result option) \<Rightarrow> int \<Rightarrow> int \<Rightarrow> nat option option" where
  "bsearch f l r =
     (if l \<le> r then do {
        p \<leftarrow> f (nat ((l + r) div 2));
        (case p of GoLeft \<Rightarrow> bsearch f l ((l + r) div 2 - 1)
         | GoRight \<Rightarrow> bsearch f ((l + r) div 2 + 1) r
         | Found \<Rightarrow> Some (Some (nat ((l + r) div 2))))
      } else Some None)"
  by pat_completeness auto

termination bsearch
  by (relation "measure (\<lambda>(f, l, r). nat (r - l + 1))") auto

declare bsearch.simps [simp del]

text \<open>\<open>a = start; b = a+size-1\<close>, the comparisons of an address, and of the two ends of a span.\<close>

definition probe_addr :: "u32 \<Rightarrow> u32 \<Rightarrow> u32 \<Rightarrow> probe_result" where
  "probe_addr pAddr a sz = (if pAddr < a then GoLeft else if pAddr > a + sz - 1 then GoRight else Found)"

definition probe_span :: "u32 \<Rightarrow> u32 \<Rightarrow> u32 \<Rightarrow> u32 \<Rightarrow> probe_result" where
  "probe_span pAddr n a sz = (if pAddr < a then GoLeft else if pAddr + n - 1 > a + sz - 1 then GoRight else Found)"

definition part_cfg :: "partition_t \<Rightarrow> 'a kstate_scheme \<Rightarrow> xmcPartition option" where
  "part_cfg p s = aget (xmcPartitionTab (cfg s)) (p_cfg p)"

definition area_at :: "xmcPartition \<Rightarrow> xmc \<Rightarrow> nat \<Rightarrow> xmcMemoryArea option" where
  "area_at c x i = aget (xmcPhysMemAreaTab x) (i + unat (pc_physicalMemoryAreasOffset c))"

definition find_area :: "u32 \<Rightarrow> xmcPartition \<Rightarrow> xmc \<Rightarrow> xmcMemoryArea option option" where
  "find_area pAddr c x = do {
     r \<leftarrow> bsearch (\<lambda>i. map_option (\<lambda>m. probe_addr pAddr (ma_startAddr m) (ma_size m)) (area_at c x i))
            0 (pc_noPhysicalMemoryAreas c - 1);
     (case r of None \<Rightarrow> Some None | Some i \<Rightarrow> map_option Some (area_at c x i))
   }"

definition PmmFindAnonymousPage :: "u32 \<Rightarrow> 'a mstate_scheme \<Rightarrow> (page option \<times> 'a mstate_scheme) option" where
  "PmmFindAnonymousPage pAddr s = do {
     let pAddr = pAddr AND PAGE_MASK;
     r \<leftarrow> bsearch (\<lambda>i. map_option (\<lambda>m. probe_addr pAddr (mr_startAddr m) (mr_size m)) (aget (xmcMemRegTab (cfg s)) i))
            0 (int (length (xmcMemRegTab (cfg s))) - 1);
     (case r of None \<Rightarrow> Some (None, log_audit (AuditVmmNoPage pAddr) s)
      | Some i \<Rightarrow> do {
          m \<leftarrow> aget (xmcMemRegTab (cfg s)) i;
          ASSERT (pAddr + PAGE_BYTES - 1 \<le> mr_startAddr m + mr_size m - 1);
          Some (if \<not> has_flag (mr_flags m) XMC_REG_FLAG_PGTAB then None
                else Some (i, unat (drop_bit 12 (pAddr - mr_startAddr m))), s)
        })
   }"

text \<open>The flags of the area come with the page; without a page the caller's variable keeps its value.\<close>

definition PmmFindPage :: "u32 \<Rightarrow> partition_t \<Rightarrow> 'a mstate_scheme \<Rightarrow> ((page \<times> u32) option \<times> 'a mstate_scheme) option" where
  "PmmFindPage pAddr p s = do {
     let pAddr = pAddr AND PAGE_MASK;
     c \<leftarrow> part_cfg p s;
     r \<leftarrow> find_area pAddr c (cfg s);
     (case r of None \<Rightarrow> Some (None, log_audit (AuditVmmNotOwned pAddr) s)
      | Some m \<Rightarrow> do {
          g \<leftarrow> aget (xmcMemRegTab (cfg s)) (unat (ma_memoryRegionOffset m));
          ASSERT (pAddr + PAGE_BYTES - 1 \<le> ma_startAddr m + ma_size m - 1);
          Some (if \<not> has_flag (mr_flags g) XMC_REG_FLAG_PGTAB then None
                else Some ((unat (ma_memoryRegionOffset m), unat (drop_bit 12 (pAddr - mr_startAddr g))), ma_flags m), s)
        })
   }"

definition PmmFindAddr :: "u32 \<Rightarrow> partition_t \<Rightarrow> 'a mstate_scheme \<Rightarrow> (u32 option \<times> 'a mstate_scheme) option" where
  "PmmFindAddr pAddr p s = do {
     let pAddr = pAddr AND PAGE_MASK;
     c \<leftarrow> part_cfg p s;
     r \<leftarrow> find_area pAddr c (cfg s);
     (case r of None \<Rightarrow> Some (None, log_audit (AuditVmmNotOwned pAddr) s)
      | Some m \<Rightarrow> do {
          ASSERT (pAddr + PAGE_BYTES - 1 \<le> ma_startAddr m + ma_size m - 1);
          Some (Some (ma_flags m), s)
        })
   }"

definition PmmFindArea :: "u32 \<Rightarrow> u32 \<Rightarrow> partition_t option \<Rightarrow> 'a kstate_scheme \<Rightarrow> u32 option option" where
  "PmmFindArea pAddr n p s = (case p of
       Some p \<Rightarrow> do {
         c \<leftarrow> part_cfg p s;
         r \<leftarrow> bsearch (\<lambda>i. map_option (\<lambda>m. probe_span pAddr n (ma_startAddr m) (ma_size m)) (area_at c (cfg s) i))
                0 (pc_noPhysicalMemoryAreas c - 1);
         (case r of None \<Rightarrow> Some None | Some i \<Rightarrow> map_option (\<lambda>m. Some (ma_flags m)) (area_at c (cfg s) i)) }
     | None \<Rightarrow> do {
         r \<leftarrow> bsearch (\<lambda>i. map_option (\<lambda>m. probe_span pAddr n (mr_startAddr m) (mr_size m)) (aget (xmcMemRegTab (cfg s)) i))
                0 (int (length (xmcMemRegTab (cfg s))) - 1);
         (case r of None \<Rightarrow> Some None | Some i \<Rightarrow> map_option (\<lambda>m. Some (mr_flags m)) (aget (xmcMemRegTab (cfg s)) i)) })"

section \<open>The kernel's address space\<close>

definition PG_ARCH_PRESENT :: u32 where "PG_ARCH_PRESENT = 1"
definition PG_ARCH_RW :: u32 where "PG_ARCH_RW = 2"
definition PG_ARCH_USER :: u32 where "PG_ARCH_USER = 4"
definition PG_ARCH_PCD :: u32 where "PG_ARCH_PCD = 0x10"
definition PG_ARCH_PSE :: u32 where "PG_ARCH_PSE = 0x80"
definition PG_ATTR_PRESENT :: u32 where "PG_ATTR_PRESENT = 0x10000"
definition PG_ATTR_USER :: u32 where "PG_ATTR_USER = 0x20000"
definition PG_ATTR_RW :: u32 where "PG_ATTR_RW = 0x40000"
definition PG_ATTR_CACHED :: u32 where "PG_ATTR_CACHED = 0x80000"

lemmas pg_defs = PG_ARCH_PRESENT_def PG_ARCH_RW_def PG_ARCH_USER_def PG_ARCH_PCD_def PG_ARCH_PSE_def
  PG_ATTR_PRESENT_def PG_ATTR_USER_def PG_ATTR_RW_def PG_ATTR_CACHED_def PAGE_MASK_def PAGE_BYTES_def

definition VmArchAttr2Attr :: "u32 \<Rightarrow> u32" where
  "VmArchAttr2Attr entry =
     (let flags = entry AND (PAGE_BYTES - 1);
          attr = (if has_flag flags PG_ARCH_PRESENT then PG_ATTR_PRESENT else 0);
          attr = (if has_flag flags PG_ARCH_USER then attr OR PG_ATTR_USER else attr);
          attr = (if has_flag flags PG_ARCH_RW then attr OR PG_ATTR_RW else attr);
          attr = (if \<not> has_flag flags PG_ARCH_PCD then attr OR PG_ATTR_CACHED else attr)
      in attr OR (flags AND NOT (PG_ARCH_PRESENT OR PG_ARCH_USER OR PG_ARCH_RW OR PG_ARCH_PCD)))"

definition VmAttr2ArchAttr :: "u32 \<Rightarrow> u32" where
  "VmAttr2ArchAttr flags =
     (let attr = (if has_flag flags PG_ATTR_PRESENT then PG_ARCH_PRESENT else 0);
          attr = (if has_flag flags PG_ATTR_USER then attr OR PG_ARCH_USER else attr);
          attr = (if has_flag flags PG_ATTR_RW then attr OR PG_ARCH_RW else attr);
          attr = (if \<not> has_flag flags PG_ATTR_CACHED then attr OR PG_ARCH_PCD else attr)
      in attr OR (flags AND 0xffff))"

definition VA2PtdL1 :: "u32 \<Rightarrow> nat" where
  "VA2PtdL1 v = unat (drop_bit 22 (v AND 0xffc00000))"

definition VA2PtdL2 :: "u32 \<Rightarrow> nat" where
  "VA2PtdL2 v = unat (drop_bit 12 (v AND 0x3ff000))"

definition VIRT2PHYS :: "u32 \<Rightarrow> u32" where
  "VIRT2PHYS v = v - XM_OFFSET + XM_LOAD_ADDR"

text \<open>The table behind a directory entry is kernel memory outside the memory of the partitions.\<close>

definition VmMapPage :: "u32 \<Rightarrow> u32 \<Rightarrow> u32 \<Rightarrow> 'a mstate_scheme \<Rightarrow> 'a mstate_scheme option" where
  "VmMapPage pAddr vAddr flags s = do {
     ASSERT (pAddr AND (PAGE_BYTES - 1) = 0);
     ASSERT (vAddr AND (PAGE_BYTES - 1) = 0);
     ASSERT (vAddr \<ge> XM_OFFSET);
     ASSERT (has_flag (kptd s (VA2PtdL1 vAddr)) PG_ARCH_PRESENT);
     Some (s\<lparr>kpt := (kpt s)(vAddr := pAddr OR VmAttr2ArchAttr flags)\<rparr>)
   }"

text \<open>What the processor makes of a kernel address: a large page, or the entry of a small one.\<close>

definition kphys :: "u32 \<Rightarrow> 'a mstate_scheme \<Rightarrow> u32 option" where
  "kphys v s = (let d = kptd s (VA2PtdL1 v); e = kpt s (v AND PAGE_MASK) in
     if \<not> has_flag d PG_ARCH_PRESENT then None
     else if has_flag d PG_ARCH_PSE then Some ((d AND 0xffc00000) OR (v AND 0x3fffff))
     else if \<not> has_flag e PG_ARCH_PRESENT then None
     else Some ((e AND PAGE_MASK) OR (v AND (PAGE_BYTES - 1))))"

definition kread :: "u32 \<Rightarrow> 'a mstate_scheme \<Rightarrow> u8 option" where
  "kread v s = map_option (pmem s) (kphys v s)"

definition kwrite :: "u32 \<Rightarrow> u8 \<Rightarrow> 'a mstate_scheme \<Rightarrow> 'a mstate_scheme option" where
  "kwrite v b s = map_option (\<lambda>p. s\<lparr>pmem := (pmem s)(p := b)\<rparr>) (kphys v s)"

fun kread_bytes :: "u32 \<Rightarrow> nat \<Rightarrow> 'a mstate_scheme \<Rightarrow> u8 list option" where
  "kread_bytes v 0 s = Some []"
| "kread_bytes v (Suc n) s = do { b \<leftarrow> kread v s; bs \<leftarrow> kread_bytes (v + 1) n s; Some (b # bs) }"

fun kwrite_bytes :: "u32 \<Rightarrow> u8 list \<Rightarrow> 'a mstate_scheme \<Rightarrow> 'a mstate_scheme option" where
  "kwrite_bytes v [] s = Some s"
| "kwrite_bytes v (b # bs) s = do { s \<leftarrow> kwrite v b s; kwrite_bytes (v + 1) bs s }"

definition kread_u32 :: "u32 \<Rightarrow> 'a mstate_scheme \<Rightarrow> u32 option" where
  "kread_u32 v s = map_option bytes_u32 (kread_bytes v 4 s)"

definition kwrite_u32 :: "u32 \<Rightarrow> u32 \<Rightarrow> 'a mstate_scheme \<Rightarrow> 'a mstate_scheme option" where
  "kwrite_u32 v w s = kwrite_bytes v (u32_bytes w) s"

section \<open>The cache of mapped pages\<close>

definition VmmAlloc :: "s32 \<Rightarrow> 'a mstate_scheme \<Rightarrow> (u32 \<times> 'a mstate_scheme) option" where
  "VmmAlloc nPag s =
     (if noFrames s - nPag < 0 then Some (0, s)
      else do {
        ASSERT (noFrames s - nPag \<ge> 0);
        Some (vmmStartAddr s, s\<lparr>vmmStartAddr := vmmStartAddr s + word_of_int (nPag * 4096), noFrames := noFrames s - nPag\<rparr>)
      })"

definition VmmGetNoFreeFrames :: "'a mstate_scheme \<Rightarrow> s32 option" where
  "VmmGetNoFreeFrames s = do { ASSERT (noFrames s \<ge> 0); Some (noFrames s) }"

text \<open>The frame a page gets: that of the last page of the list, or a fresh one.\<close>

definition take_frame :: "'a mstate_scheme \<Rightarrow> (u32 \<times> 'a mstate_scheme) option" where
  "take_frame s = do {
     n \<leftarrow> VmmGetNoFreeFrames s;
     if n \<le> 0 then do {
       (e, s) \<leftarrow> DynListRemoveTail (cacheLRU s) s;
       ASSERT (e \<noteq> NULL);
       victim \<leftarrow> page_of_node e s;
       x \<leftarrow> page_get victim s;
       Some (pg_vAddr x, page_upd victim (\<lambda>x. x\<lparr>pg_unlocked := False, pg_mapped := False, pg_vAddr := - 1\<rparr>) s)
     } else VmmAlloc 1 s
   }"

definition VCacheMapPage :: "u32 \<Rightarrow> page \<Rightarrow> 'a mstate_scheme \<Rightarrow> (u32 \<times> 'a mstate_scheme) option" where
  "VCacheMapPage pAddr pg s = do {
     x \<leftarrow> page_get pg s;
     if pg_mapped x then Some (pg_vAddr x + (pAddr AND (PAGE_BYTES - 1)), s)
     else do {
       (v, s) \<leftarrow> take_frame s;
       let s = page_upd pg (\<lambda>x. x\<lparr>pg_vAddr := v, pg_mapped := True\<rparr>) s;
       s \<leftarrow> VmMapPage (pAddr AND PAGE_MASK) v (PG_ATTR_PRESENT OR PG_ATTR_RW OR PG_ATTR_CACHED) s;
       Some (v + (pAddr AND (PAGE_BYTES - 1)), s)
     }
   }"

definition VCacheUnlockPage :: "page \<Rightarrow> 'a mstate_scheme \<Rightarrow> 'a mstate_scheme option" where
  "VCacheUnlockPage pg s = do {
     x \<leftarrow> page_get pg s;
     ASSERT (pg_mapped x);
     if pg_unlocked x then Some s
     else do {
       let s = page_upd pg (\<lambda>x. x\<lparr>pg_unlocked := True\<rparr>) s;
       (_, s) \<leftarrow> DynListInsertHead (cacheLRU s) (pg_node x) s;
       Some s
     }
   }"

section \<open>Physical words\<close>

text \<open>An address above CONFIG_XM_OFFSET is used as it is.\<close>

definition ReadByPassMmuWord :: "u32 \<Rightarrow> 'a mstate_scheme \<Rightarrow> (u32 \<times> 'a mstate_scheme) option" where
  "ReadByPassMmuWord pAddr s =
     (if pAddr > XM_OFFSET then do { w \<leftarrow> kread_u32 pAddr s; Some (w, s) }
      else do {
        (pg, s) \<leftarrow> PmmFindAnonymousPage pAddr s;
        pg \<leftarrow> pg;
        (v, s) \<leftarrow> VCacheMapPage pAddr pg s;
        w \<leftarrow> kread_u32 v s;
        s \<leftarrow> VCacheUnlockPage pg s;
        Some (w, s)
      })"

definition ReadByPassMmuByte :: "u32 \<Rightarrow> 'a mstate_scheme \<Rightarrow> (u8 \<times> 'a mstate_scheme) option" where
  "ReadByPassMmuByte pAddr s =
     (if pAddr > XM_OFFSET then do { w \<leftarrow> kread pAddr s; Some (w, s) }
      else do {
        (pg, s) \<leftarrow> PmmFindAnonymousPage pAddr s;
        pg \<leftarrow> pg;
        (v, s) \<leftarrow> VCacheMapPage pAddr pg s;
        w \<leftarrow> kread v s;
        s \<leftarrow> VCacheUnlockPage pg s;
        Some (w, s)
      })"

definition WriteByPassMmuWord :: "u32 \<Rightarrow> u32 \<Rightarrow> 'a mstate_scheme \<Rightarrow> 'a mstate_scheme option" where
  "WriteByPassMmuWord pAddr val s =
     (if pAddr > XM_OFFSET then kwrite_u32 pAddr val s
      else do {
        (pg, s) \<leftarrow> PmmFindAnonymousPage pAddr s;
        pg \<leftarrow> pg;
        (v, s) \<leftarrow> VCacheMapPage pAddr pg s;
        s \<leftarrow> kwrite_u32 v val s;
        VCacheUnlockPage pg s
      })"

section \<open>Counters and the reset of a partition's pages\<close>

text \<open>The counter has 27 bits, so the old value is never ~0: the overflow test cannot succeed. After an
  underflow the partition panics.\<close>

definition PPagIncCounter :: "page \<Rightarrow> 'a mstate_scheme \<Rightarrow> 'a mstate_scheme option" where
  "PPagIncCounter pg s = do {
     x \<leftarrow> page_get pg s;
     ASSERT ((ucast (pg_counter x) :: u32) \<noteq> - 1);
     Some (page_upd pg (\<lambda>x. x\<lparr>pg_counter := pg_counter x + 1\<rparr>) s)
   }"

definition PPagDecCounter :: "page \<Rightarrow> 'a mstate_scheme \<Rightarrow> 'a mstate_scheme option" where
  "PPagDecCounter pg s = do {
     x \<leftarrow> page_get pg s;
     ASSERT (pg_counter x \<noteq> 0);
     Some (page_upd pg (\<lambda>x. x\<lparr>pg_counter := pg_counter x - 1\<rparr>) s)
   }"

text \<open>The pages of one area. An end in the last page of the address space lets the loop run for ever.\<close>

definition reset_page :: "page \<Rightarrow> 'a mstate_scheme \<Rightarrow> 'a mstate_scheme option" where
  "reset_page pg s = do {
     x \<leftarrow> page_get pg s;
     let s = page_upd pg (\<lambda>x. x\<lparr>pg_type := PPAG_STD, pg_counter := 0\<rparr>) s;
     if pg_mapped x then VCacheUnlockPage pg s else Some s
   }"

definition reset_area :: "nat \<Rightarrow> u32 \<Rightarrow> u32 \<Rightarrow> u32 \<Rightarrow> 'a mstate_scheme \<Rightarrow> 'a mstate_scheme option" where
  "reset_area r start addr end s = do {
     ASSERT (end \<le> 0xFFFFF000);
     ofold (\<lambda>i. reset_page (r, unat (drop_bit 12 (addr + word_of_nat (4096 * i) - start))))
       [0..<(unat end - unat addr + 4095) div 4096] s }"

definition PmmResetPartition :: "partition_t \<Rightarrow> 'a mstate_scheme \<Rightarrow> 'a mstate_scheme option" where
  "PmmResetPartition p s = do {
     c \<leftarrow> part_cfg p s;
     ofold (\<lambda>i s. do {
         m \<leftarrow> area_at c (cfg s) i;
         g \<leftarrow> aget (xmcMemRegTab (cfg s)) (unat (ma_memoryRegionOffset m));
         if has_flag (mr_flags g) XMC_REG_FLAG_PGTAB
         then reset_area (unat (ma_memoryRegionOffset m)) (mr_startAddr g) (ma_startAddr m)
                (ma_startAddr m + ma_size m) s
         else Some s })
       [0..<nat (pc_noPhysicalMemoryAreas c)] s
   }"

text \<open>The descriptors at boot; the addresses of their nodes come from the allocator.\<close>

definition SetupPhysMM :: "addr \<Rightarrow> (nat \<Rightarrow> nat \<Rightarrow> addr) \<Rightarrow> 'a mstate_scheme \<Rightarrow> 'a mstate_scheme option" where
  "SetupPhysMM lru node s = do {
     let s = DynListInit lru (s\<lparr>cacheLRU := lru\<rparr>);
     ASSERT (list_all (\<lambda>m. mr_size m AND (PAGE_BYTES - 1) = 0 \<and> mr_startAddr m AND (PAGE_BYTES - 1) = 0)
       (xmcMemRegTab (cfg s)));
     Some (s\<lparr>physPageTab := map (\<lambda>(r, m). if has_flag (mr_flags m) XMC_REG_FLAG_PGTAB
        then Some (map (\<lambda>i. \<lparr>pg_node = node r i, pg_vAddr = 0, pg_mapped = False, pg_unlocked = False,
                              pg_type = 0, pg_counter = 0\<rparr>) [0..<unat (mr_size m div PAGE_BYTES)])
        else None) (enumerate 0 (xmcMemRegTab (cfg s)))\<rparr>)
   }"

end
