(* ===== verification/PhysInv.thy ===== *)
theory PhysInv
  imports PhysMM
begin

text \<open>
  What the physical memory manager guarantees: the binary search agrees with a linear search on
  sorted areas; the attributes of a page entry survive the conversion; and the cache of mapped
  pages gives every page a window of the kernel's address space of its own, through which the
  kernel reads and writes exactly that page.
\<close>

section \<open>Binary search\<close>

lemma bsearch_result:
  assumes "\<And>i. l \<le> i \<Longrightarrow> i \<le> r \<Longrightarrow> f (nat i) = Some (g i)" "0 \<le> l"
    and "\<And>i j. l \<le> i \<Longrightarrow> i < j \<Longrightarrow> j \<le> r \<Longrightarrow> g i = GoLeft \<Longrightarrow> g j \<noteq> Found"
    and "\<And>i j. l \<le> i \<Longrightarrow> i < j \<Longrightarrow> j \<le> r \<Longrightarrow> g j = GoRight \<Longrightarrow> g i \<noteq> Found"
  shows "(\<exists>k. bsearch f l r = Some (Some k) \<and> l \<le> int k \<and> int k \<le> r \<and> g (int k) = Found) \<or>
    (bsearch f l r = Some None \<and> (\<forall>i. l \<le> i \<longrightarrow> i \<le> r \<longrightarrow> g i \<noteq> Found))"
  using assms
proof (induction f l r rule: bsearch.induct)
  case (1 f l r)
  let ?c = "(l + r) div 2"
  show ?case
  proof (cases "l \<le> r")
    case lr: True
    then have c: "l \<le> ?c" "?c \<le> r" by auto
    have fc: "f (nat ?c) = Some (g ?c)" using "1.prems"(1) c by blast
    show ?thesis
    proof (cases "g ?c")
      case GoLeft
      have none: "g j \<noteq> Found" if "?c \<le> j" "j \<le> r" for j
        using "1.prems"(3) [OF c(1) _ that(2) GoLeft] GoLeft that by (cases "j = ?c") auto
      have "(\<exists>k. bsearch f l (?c - 1) = Some (Some k) \<and> l \<le> int k \<and> int k \<le> ?c - 1 \<and> g (int k) = Found) \<or>
        (bsearch f l (?c - 1) = Some None \<and> (\<forall>i. l \<le> i \<longrightarrow> i \<le> ?c - 1 \<longrightarrow> g i \<noteq> Found))"
        by (rule "1.IH"(1) [OF lr fc GoLeft]) (use "1.prems" c in auto)
      moreover have "bsearch f l r = bsearch f l (?c - 1)" using lr fc GoLeft by (subst bsearch.simps) simp
      moreover have "g i \<noteq> Found" if "\<forall>i. l \<le> i \<longrightarrow> i \<le> ?c - 1 \<longrightarrow> g i \<noteq> Found" "l \<le> i" "i \<le> r" for i
        using that none [of i] by (cases "?c \<le> i") auto
      ultimately show ?thesis using c by auto
    next
      case GoRight
      have none: "g j \<noteq> Found" if "l \<le> j" "j \<le> ?c" for j
        using "1.prems"(4) [OF that(1) _ c(2) GoRight] GoRight that by (cases "j = ?c") auto
      have "(\<exists>k. bsearch f (?c + 1) r = Some (Some k) \<and> ?c + 1 \<le> int k \<and> int k \<le> r \<and> g (int k) = Found) \<or>
        (bsearch f (?c + 1) r = Some None \<and> (\<forall>i. ?c + 1 \<le> i \<longrightarrow> i \<le> r \<longrightarrow> g i \<noteq> Found))"
      proof (rule "1.IH"(2) [OF lr fc GoRight])
        fix i assume "?c + 1 \<le> i" "i \<le> r"
        then show "f (nat i) = Some (g i)" using "1.prems"(1) c by simp
      next
        fix i j assume "?c + 1 \<le> i" "i < j" "j \<le> r" "g i = GoLeft"
        then show "g j \<noteq> Found" using "1.prems"(3) [of i j] c by simp
      next
        fix i j assume "?c + 1 \<le> i" "i < j" "j \<le> r" "g j = GoRight"
        then show "g i \<noteq> Found" using "1.prems"(4) [of i j] c by simp
      qed (use "1.prems"(2) c in simp)
      moreover have "bsearch f l r = bsearch f (?c + 1) r" using lr fc GoRight by (subst bsearch.simps) simp
      moreover have "g i \<noteq> Found" if "\<forall>i. ?c + 1 \<le> i \<longrightarrow> i \<le> r \<longrightarrow> g i \<noteq> Found" "l \<le> i" "i \<le> r" for i
        using that none [of i] by (cases "i \<le> ?c") auto
      ultimately show ?thesis using c by auto
    next
      case Found
      then have "bsearch f l r = Some (Some (nat ?c))" using lr fc by (subst bsearch.simps) simp
      then show ?thesis using Found c "1.prems"(2) by simp
    qed
  qed (subst (1 2) bsearch.simps, simp)
qed

text \<open>The areas of a partition, sorted and apart, as the configuration compiler lays them out.\<close>

definition areas_of :: "xmcPartition \<Rightarrow> xmc \<Rightarrow> xmcMemoryArea list" where
  "areas_of c x = take (nat (pc_noPhysicalMemoryAreas c))
     (drop (unat (pc_physicalMemoryAreasOffset c)) (xmcPhysMemAreaTab x))"

definition in_area :: "u32 \<Rightarrow> xmcMemoryArea \<Rightarrow> bool" where
  "in_area p m \<longleftrightarrow> ma_startAddr m \<le> p \<and> p \<le> ma_startAddr m + ma_size m - 1"

definition areas_ok :: "xmcPartition \<Rightarrow> xmc \<Rightarrow> bool" where
  "areas_ok c x \<longleftrightarrow> unat (pc_physicalMemoryAreasOffset c) + nat (pc_noPhysicalMemoryAreas c) \<le> length (xmcPhysMemAreaTab x) \<and>
     (\<forall>m \<in> set (areas_of c x). ma_startAddr m \<le> ma_startAddr m + ma_size m - 1) \<and>
     sorted_wrt (\<lambda>m m'. ma_startAddr m + ma_size m - 1 < ma_startAddr m') (areas_of c x)"

lemma area_at_nth:
  assumes "areas_ok c x" "i < nat (pc_noPhysicalMemoryAreas c)"
  shows "area_at c x i = Some (areas_of c x ! i)" "i < length (areas_of c x)"
  using assms by (auto simp: area_at_def aget_def areas_of_def areas_ok_def add.commute min_def)

lemma probe_addr_cases:
  "probe_addr p (ma_startAddr m) (ma_size m) = Found \<longleftrightarrow> in_area p m"
  "probe_addr p (ma_startAddr m) (ma_size m) = GoLeft \<longleftrightarrow> p < ma_startAddr m"
  by (auto simp: probe_addr_def in_area_def not_less)

lemma find_unique:
  assumes "k < length xs" "P (xs ! k)" "\<And>i. i < k \<Longrightarrow> \<not> P (xs ! i)"
  shows "List.find P xs = Some (xs ! k)"
  using assms by (auto simp: find_Some_iff)

lemma find_area_linear:
  assumes "areas_ok c x"
  shows "find_area p c x = Some (List.find (in_area p) (areas_of c x))"
proof -
  let ?n = "pc_noPhysicalMemoryAreas c"
  define g where "g i = probe_addr p (ma_startAddr (areas_of c x ! nat i)) (ma_size (areas_of c x ! nat i))" for i
  let ?f = "\<lambda>i. map_option (\<lambda>m. probe_addr p (ma_startAddr m) (ma_size m)) (area_at c x i)"
  have len: "length (areas_of c x) = nat ?n" using assms by (auto simp: areas_of_def areas_ok_def)
  have ord: "ma_startAddr (areas_of c x ! nat i) + ma_size (areas_of c x ! nat i) - 1 < ma_startAddr (areas_of c x ! nat j)"
    if "0 \<le> i" "i < j" "j \<le> ?n - 1" for i j
    using assms that len by (auto simp: areas_ok_def sorted_wrt_iff_nth_less)
  have pos: "ma_startAddr (areas_of c x ! nat i) \<le> ma_startAddr (areas_of c x ! nat i) + ma_size (areas_of c x ! nat i) - 1"
    if "0 \<le> i" "i \<le> ?n - 1" for i
    using assms that len by (auto simp: areas_ok_def)
  have left: "g j \<noteq> Found" if "0 \<le> i" "i < j" "j \<le> ?n - 1" "g i = GoLeft" for i j
    using ord [OF that(1-3)] pos [of i] that by (auto simp: g_def probe_addr_cases in_area_def)
  have right: "g i \<noteq> Found" if "0 \<le> i" "i < j" "j \<le> ?n - 1" "g j = GoRight" for i j
    using ord [OF that(1-3)] that by (auto simp: g_def probe_addr_def split: if_splits)
  have "(\<exists>k. bsearch ?f 0 (?n - 1) = Some (Some k) \<and> 0 \<le> int k \<and> int k \<le> ?n - 1 \<and> g (int k) = Found) \<or>
    (bsearch ?f 0 (?n - 1) = Some None \<and> (\<forall>i. 0 \<le> i \<longrightarrow> i \<le> ?n - 1 \<longrightarrow> g i \<noteq> Found))"
    by (rule bsearch_result) (use area_at_nth(1) [OF assms] left right in \<open>auto simp: g_def\<close>)
  then show ?thesis
  proof (elim disjE exE conjE)
    fix k assume k: "bsearch ?f 0 (?n - 1) = Some (Some k)" "int k \<le> ?n - 1" "g (int k) = Found"
    have "List.find (in_area p) (areas_of c x) = Some (areas_of c x ! k)"
    proof (rule find_unique)
      show "k < length (areas_of c x)" using k(2) len by simp
      show "in_area p (areas_of c x ! k)" using k(3) by (simp add: g_def probe_addr_cases)
      fix i assume i: "i < k"
      have "ma_startAddr (areas_of c x ! i) + ma_size (areas_of c x ! i) - 1 < ma_startAddr (areas_of c x ! k)"
        using ord [of "int i" "int k"] i k(2) by simp
      then show "\<not> in_area p (areas_of c x ! i)" using k(3) by (auto simp: g_def probe_addr_cases in_area_def)
    qed
    then show ?thesis using k area_at_nth(1) [OF assms, of k] by (simp add: find_area_def)
  next
    assume n: "bsearch ?f 0 (?n - 1) = Some None" "\<forall>i. 0 \<le> i \<longrightarrow> i \<le> ?n - 1 \<longrightarrow> g i \<noteq> Found"
    have "List.find (in_area p) (areas_of c x) = None"
    proof -
      have "\<not> in_area p (areas_of c x ! i)" if "i < length (areas_of c x)" for i
        using n(2) [THEN spec, of "int i"] that len by (simp add: g_def probe_addr_cases)
      then show ?thesis by (auto simp: find_None_iff in_set_conv_nth)
    qed
    then show ?thesis using n(1) by (simp add: find_area_def)
  qed
qed

section \<open>Attributes\<close>

text \<open>Converting the flags of an entry to attributes and back loses nothing.\<close>

lemma has_flag_exp: "k < 32 \<Longrightarrow> has_flag (x :: u32) (2 ^ k) \<longleftrightarrow> bit x k"
  by (auto simp: has_flag_bit bit_exp_iff)

lemma pg_exps:
  "PG_ARCH_PRESENT = 2 ^ 0" "PG_ARCH_RW = 2 ^ 1" "PG_ARCH_USER = 2 ^ 2" "PG_ARCH_PCD = 2 ^ 4" "PG_ARCH_PSE = 2 ^ 7"
  "PG_ATTR_PRESENT = 2 ^ 16" "PG_ATTR_USER = 2 ^ 17" "PG_ATTR_RW = 2 ^ 18" "PG_ATTR_CACHED = 2 ^ 19"
  by (simp_all add: pg_defs)

lemma pg_masks: "PAGE_BYTES - 1 = mask 12" "PAGE_MASK = NOT (mask 12)" "0xffff = (mask 16 :: u32)"
  by (simp_all add: pg_defs mask_eq_exp_minus_1)

lemma pg_flags:
  "has_flag x PG_ARCH_PRESENT \<longleftrightarrow> bit x 0"
  "has_flag x PG_ARCH_RW \<longleftrightarrow> bit x 1"
  "has_flag x PG_ARCH_USER \<longleftrightarrow> bit x 2"
  "has_flag x PG_ARCH_PCD \<longleftrightarrow> bit x 4"
  "has_flag x PG_ARCH_PSE \<longleftrightarrow> bit x 7"
  "has_flag x PG_ATTR_PRESENT \<longleftrightarrow> bit x 16"
  "has_flag x PG_ATTR_USER \<longleftrightarrow> bit x 17"
  "has_flag x PG_ATTR_RW \<longleftrightarrow> bit x 18"
  "has_flag x PG_ATTR_CACHED \<longleftrightarrow> bit x 19"
  by (simp_all only: pg_exps has_flag_exp)

lemma pg_bits:
  "bit PG_ARCH_PRESENT n \<longleftrightarrow> n = 0"
  "bit PG_ARCH_RW n \<longleftrightarrow> n = 1"
  "bit PG_ARCH_USER n \<longleftrightarrow> n = 2"
  "bit PG_ARCH_PCD n \<longleftrightarrow> n = 4"
  "bit PG_ARCH_PSE n \<longleftrightarrow> n = 7"
  "bit PG_ATTR_PRESENT n \<longleftrightarrow> n = 16"
  "bit PG_ATTR_USER n \<longleftrightarrow> n = 17"
  "bit PG_ATTR_RW n \<longleftrightarrow> n = 18"
  "bit PG_ATTR_CACHED n \<longleftrightarrow> n = 19"
  by (auto simp only: pg_exps bit_exp_u32)

lemmas page_bits = pg_bits bit_or_iff bit_and_iff bit_not_iff bit_mask_iff

lemma attr_bit:
  "bit (VmArchAttr2Attr e) n \<longleftrightarrow>
     (n = 16 \<and> bit e 0) \<or> (n = 17 \<and> bit e 2) \<or> (n = 18 \<and> bit e 1) \<or> (n = 19 \<and> \<not> bit e 4) \<or>
     (n < 12 \<and> n \<notin> {0, 1, 2, 4} \<and> bit e n)"
proof -
  have b: "bit e n \<Longrightarrow> n < 32" using bit_imp_le_length [of e n] by simp
  show ?thesis
    unfolding VmArchAttr2Attr_def Let_def pg_masks
    by (cases "bit e 0"; cases "bit e 1"; cases "bit e 2"; cases "bit e 4")
      (simp_all add: pg_flags page_bits, (use b in auto)+)
qed

lemma arch_bit:
  "bit (VmAttr2ArchAttr a) n \<longleftrightarrow>
     (n = 0 \<and> bit a 16) \<or> (n = 2 \<and> bit a 17) \<or> (n = 1 \<and> bit a 18) \<or> (n = 4 \<and> \<not> bit a 19) \<or> (n < 16 \<and> bit a n)"
  unfolding VmAttr2ArchAttr_def Let_def pg_masks
  by (cases "bit a 16"; cases "bit a 17"; cases "bit a 18"; cases "bit a 19")
    (simp_all add: pg_flags page_bits, auto)

lemma attr_roundtrip: "VmAttr2ArchAttr (VmArchAttr2Attr e) = e AND (PAGE_BYTES - 1)"
proof (rule bit_word_eqI)
  fix n
  have "bit (VmAttr2ArchAttr (VmArchAttr2Attr e)) n \<longleftrightarrow> n < 12 \<and> bit e n"
  proof (cases "n \<in> {0, 1, 2, 4}")
    case False
    then show ?thesis by (simp add: arch_bit attr_bit) (auto simp: less_le_trans)
  qed (auto simp: arch_bit attr_bit)
  then show "bit (VmAttr2ArchAttr (VmArchAttr2Attr e)) n = bit (e AND (PAGE_BYTES - 1)) n"
    unfolding pg_masks by (auto simp: bit_and_iff bit_mask_iff)
qed

end
