(* ===== verification/VCache.thy ===== *)
theory VCache
  imports PhysInv
begin

text \<open>
  The cache of mapped pages: every mapped page has a window of the kernel's address space of its
  own whose entry names the page, the unlocked pages are exactly those on the list, and mapping
  and unlocking keep this. Reading and writing through a window reaches exactly the page.
\<close>

section \<open>Pages\<close>

lemma page_get_upd:
  "page_get pg' (page_upd pg f s) = (if pg' = pg then map_option f (page_get pg s) else page_get pg' s)"
proof (cases "fst pg < length (physPageTab s)")
  case True
  then show ?thesis
    by (cases "physPageTab s ! fst pg"; cases pg; cases pg')
      (auto simp: page_get_def page_upd_def aget_def nth_list_update split: if_splits)
next
  case False
  then have "page_upd pg f s = s" by (simp add: page_upd_def not_less list_update_beyond)
  then show ?thesis using False by (auto simp: page_get_def aget_def)
qed

lemma page_get_cong: "physPageTab s' = physPageTab s \<Longrightarrow> page_get pg s' = page_get pg s"
  by (simp add: page_get_def)

lemma in_all_pages: "(pg, x) \<in> set (all_pages s) \<longleftrightarrow> page_get pg s = Some x"
proof -
  obtain r i where pg: "pg = (r, i)" by (cases pg)
  have one: "((r, i), x) \<in> set (case po of None \<Rightarrow> [] | Some ps \<Rightarrow> map (\<lambda>(i, x). ((r', i), x)) (enumerate 0 ps)) \<longleftrightarrow>
      r' = r \<and> (\<exists>ps. po = Some ps \<and> (i, x) \<in> set (enumerate 0 ps))" for r' po
    by (cases po) auto
  have "(pg, x) \<in> set (all_pages s) \<longleftrightarrow> (\<exists>(r', po) \<in> set (enumerate 0 (physPageTab s)).
      r' = r \<and> (\<exists>ps. po = Some ps \<and> (i, x) \<in> set (enumerate 0 ps)))"
    unfolding all_pages_def pg by (simp only: set_concat set_map UN_iff bex_simps split_beta one) (simp add: split_beta)
  also have "\<dots> \<longleftrightarrow> (\<exists>ps. (r, Some ps) \<in> set (enumerate 0 (physPageTab s)) \<and> (i, x) \<in> set (enumerate 0 ps))"
    by auto
  also have "\<dots> \<longleftrightarrow> page_get pg s = Some x"
    by (auto simp: pg page_get_def aget_def in_set_enumerate_eq bind_eq_Some_iff)
  finally show ?thesis .
qed

definition page_phys :: "page \<Rightarrow> 'a kstate_scheme \<Rightarrow> u32" where
  "page_phys pg s = mr_startAddr (xmcMemRegTab (cfg s) ! fst pg) + 4096 * word_of_nat (snd pg)"

definition page_core :: "physPage \<Rightarrow> addr \<times> u32 \<times> 27 word" where
  "page_core x = (pg_node x, pg_type x, pg_counter x)"

definition cache_attrs :: u32 where
  "cache_attrs = PG_ATTR_PRESENT OR PG_ATTR_RW OR PG_ATTR_CACHED"

text \<open>An address that VmMapPage can map, and the invariant of the cache.\<close>

definition frame_ok :: "u32 \<Rightarrow> 'a mstate_scheme \<Rightarrow> bool" where
  "frame_ok v s \<longleftrightarrow> v AND (PAGE_BYTES - 1) = 0 \<and> XM_OFFSET < v \<and> has_flag (kptd s (VA2PtdL1 v)) PG_ARCH_PRESENT \<and>
     \<not> has_flag (kptd s (VA2PtdL1 v)) PG_ARCH_PSE"

definition free_frames :: "'a mstate_scheme \<Rightarrow> u32 set" where
  "free_frames s = (\<lambda>k. vmmStartAddr s + 4096 * word_of_nat k) ` {..<nat (noFrames s)}"

definition page_ok :: "page \<Rightarrow> physPage \<Rightarrow> 'a mstate_scheme \<Rightarrow> bool" where
  "page_ok pg x s \<longleftrightarrow> page_phys pg s AND (PAGE_BYTES - 1) = 0 \<and> pg_node x \<noteq> NULL \<and> (pg_unlocked x \<longrightarrow> pg_mapped x) \<and>
     (\<not> pg_unlocked x \<longrightarrow> dl_free s (pg_node x)) \<and>
     (pg_mapped x \<longrightarrow> frame_ok (pg_vAddr x) s \<and> pg_vAddr x \<notin> free_frames s \<and>
        kpt s (pg_vAddr x) = page_phys pg s OR VmAttr2ArchAttr cache_attrs)"

definition vc_inv :: "(addr \<Rightarrow> addr list option) \<Rightarrow> 'a mstate_scheme \<Rightarrow> bool" where
  "vc_inv f s \<longleftrightarrow> dl_inv s f \<and> 0 \<le> noFrames s \<and> noFrames s \<le> 2 ^ 19 \<and> (\<forall>v \<in> free_frames s. frame_ok v s) \<and>
     (\<exists>ns. f (cacheLRU s) = Some ns \<and> set ns = {pg_node x | pg x. page_get pg s = Some x \<and> pg_unlocked x}) \<and>
     (\<forall>pg x. page_get pg s = Some x \<longrightarrow> page_ok pg x s) \<and>
     (\<forall>pg x pg' x'. page_get pg s = Some x \<longrightarrow> page_get pg' s = Some x' \<longrightarrow> pg \<noteq> pg' \<longrightarrow>
        pg_node x \<noteq> pg_node x' \<and> (pg_mapped x \<longrightarrow> pg_mapped x' \<longrightarrow> pg_vAddr x \<noteq> pg_vAddr x'))"

text \<open>A frame is left when a page is unmapped or can be.\<close>

definition frame_left :: "(addr \<Rightarrow> addr list option) \<Rightarrow> 'a mstate_scheme \<Rightarrow> bool" where
  "frame_left f s \<longleftrightarrow> 0 < noFrames s \<or> f (cacheLRU s) \<noteq> Some []"

text \<open>What the cache operations change: the lists, the windows, no page's type or counter.\<close>

definition vc_same :: "'a mstate_scheme \<Rightarrow> 'a mstate_scheme \<Rightarrow> bool" where
  "vc_same s s' \<longleftrightarrow> s' = s\<lparr>dnode := dnode s', dlist := dlist s', physPageTab := physPageTab s',
      vmmStartAddr := vmmStartAddr s', noFrames := noFrames s', kpt := kpt s'\<rparr> \<and>
     (\<forall>pg. map_option page_core (page_get pg s') = map_option page_core (page_get pg s))"

lemma vc_same_refl [simp]: "vc_same s s"
  by (simp add: vc_same_def)

lemma vc_same_trans:
  assumes "vc_same s t" "vc_same t u" shows "vc_same s u"
proof -
  have "u = (s\<lparr>dnode := dnode t, dlist := dlist t, physPageTab := physPageTab t,
      vmmStartAddr := vmmStartAddr t, noFrames := noFrames t, kpt := kpt t\<rparr>)\<lparr>dnode := dnode u, dlist := dlist u,
      physPageTab := physPageTab u, vmmStartAddr := vmmStartAddr u, noFrames := noFrames u, kpt := kpt u\<rparr>"
    using assms unfolding vc_same_def by metis
  then have "u = s\<lparr>dnode := dnode u, dlist := dlist u, physPageTab := physPageTab u,
      vmmStartAddr := vmmStartAddr u, noFrames := noFrames u, kpt := kpt u\<rparr>" by (cases s, cases u) simp
  then show ?thesis using assms by (simp add: vc_same_def)
qed

lemma vc_same_fields:
  assumes "vc_same s s'"
  shows "cfg s' = cfg s" "partitionTab s' = partitionTab s" "kthreads s' = kthreads s" "cKThread s' = cKThread s"
    "pmem s' = pmem s" "kptd s' = kptd s" "cacheLRU s' = cacheLRU s" "pctAddr s' = pctAddr s" "pctSize s' = pctSize s"
    "audit s' = audit s"
proof -
  have e: "s' = s\<lparr>dnode := dnode s', dlist := dlist s', physPageTab := physPageTab s',
      vmmStartAddr := vmmStartAddr s', noFrames := noFrames s', kpt := kpt s'\<rparr>"
    using assms by (simp add: vc_same_def)
  show "cfg s' = cfg s" "partitionTab s' = partitionTab s" "kthreads s' = kthreads s" "cKThread s' = cKThread s"
    "pmem s' = pmem s" "kptd s' = kptd s" "cacheLRU s' = cacheLRU s" "pctAddr s' = pctAddr s" "pctSize s' = pctSize s"
    "audit s' = audit s"
    by (subst e, simp)+
qed

lemma vc_same_core:
  assumes "vc_same s s'" "page_get pg s = Some x"
  obtains x' where "page_get pg s' = Some x'" "page_core x' = page_core x"
proof -
  have "map_option page_core (page_get pg s') = Some (page_core x)"
    using assms(1) [unfolded vc_same_def, THEN conjunct2, THEN spec, of pg] assms(2) by simp
  then show ?thesis using that by auto
qed

lemma page_phys_same: "vc_same s s' \<Longrightarrow> page_phys pg s' = page_phys pg s"
  by (simp add: page_phys_def vc_same_fields)

lemma vc_invD:
  assumes "vc_inv f s"
  shows "dl_inv s f" "0 \<le> noFrames s" "v \<in> free_frames s \<Longrightarrow> frame_ok v s"
    "page_get pg s = Some x \<Longrightarrow> page_ok pg x s"
    "\<lbrakk>page_get pg s = Some x; page_get pg' s = Some x'; pg \<noteq> pg'\<rbrakk> \<Longrightarrow> pg_node x \<noteq> pg_node x'"
    "\<lbrakk>page_get pg s = Some x; page_get pg' s = Some x'; pg \<noteq> pg'; pg_mapped x; pg_mapped x'\<rbrakk> \<Longrightarrow> pg_vAddr x \<noteq> pg_vAddr x'"
  using assms unfolding vc_inv_def by blast+

lemma page_of_node_eq:
  assumes "vc_inv f s" "page_get pg s = Some x"
  shows "page_of_node (pg_node x) s = Some pg"
proof (cases "List.find (\<lambda>(pg', y). pg_node y = pg_node x) (all_pages s)")
  case None
  then show ?thesis using assms(2) in_all_pages [of pg x s] by (cases pg) (auto simp: find_None_iff)
next
  case (Some a)
  obtain pg' y where a: "a = (pg', y)" by (cases a)
  have "a \<in> set (all_pages s)" "pg_node y = pg_node x"
    using Some a by (auto simp: find_Some_iff in_set_conv_nth)
  then have "pg' = pg" using vc_invD(5) [OF assms(1,2)] by (metis a in_all_pages)
  then show ?thesis using Some a by (simp add: page_of_node_def)
qed

section \<open>Windows\<close>

lemma add_is_or:
  assumes "a AND (PAGE_BYTES - 1) = 0" "o' AND PAGE_MASK = 0"
  shows "a + o' = a OR (o' :: u32)"
proof (rule disjunctive_add)
  fix n
  have "bit (a AND (PAGE_BYTES - 1)) n = False" "bit (o' AND PAGE_MASK) n = False" by (simp_all add: assms)
  then show "\<not> bit a n \<or> \<not> bit o' n"
    unfolding pg_masks by (auto simp: bit_and_iff bit_mask_iff bit_not_iff dest: bit_imp_le_length)
qed

lemma page_split:
  assumes "a AND (PAGE_BYTES - 1) = 0" "o' AND PAGE_MASK = 0"
  shows "(a + o') AND PAGE_MASK = a" "(a + o') AND (PAGE_BYTES - 1) = (o' :: u32)"
proof -
  have b: "bit (a AND (PAGE_BYTES - 1)) n = False" "bit (o' AND PAGE_MASK) n = False" for n
    by (simp_all add: assms)
  show "(a + o') AND PAGE_MASK = a" "(a + o') AND (PAGE_BYTES - 1) = o'"
    unfolding add_is_or [OF assms] by (rule bit_word_eqI, use b in \<open>auto simp: pg_masks bit_and_iff bit_or_iff bit_mask_iff bit_not_iff\<close>)+
qed

lemma VA2PtdL1_page:
  assumes "a AND (PAGE_BYTES - 1) = 0" "o' AND PAGE_MASK = 0"
  shows "VA2PtdL1 (a + o') = VA2PtdL1 a"
proof -
  have "v AND 0xffc00000 = (v AND PAGE_MASK) AND (0xffc00000 :: u32)" for v :: u32
    by (simp add: PAGE_MASK_def and.assoc)
  then show ?thesis unfolding VA2PtdL1_def using page_split(1) [OF assms] by metis
qed

lemma cache_entry:
  assumes "P AND (PAGE_BYTES - 1) = 0"
  shows "has_flag (P OR VmAttr2ArchAttr cache_attrs) PG_ARCH_PRESENT" "(P OR VmAttr2ArchAttr cache_attrs) AND PAGE_MASK = P"
proof -
  have e: "VmAttr2ArchAttr cache_attrs = 3"
    by (simp add: VmAttr2ArchAttr_def cache_attrs_def pg_defs has_flag_def)
  show "has_flag (P OR VmAttr2ArchAttr cache_attrs) PG_ARCH_PRESENT"
    by (simp add: e pg_flags bit_or_iff)
  have "3 AND PAGE_MASK = 0" by (simp add: PAGE_MASK_def)
  then show "(P OR VmAttr2ArchAttr cache_attrs) AND PAGE_MASK = P"
    using add_is_or [OF assms, of 3] page_split(1) [OF assms, of 3] by (simp add: e)
qed

lemma kphys_window:
  assumes "vc_inv f s" "page_get pg s = Some x" "pg_mapped x" "o' AND PAGE_MASK = 0"
  shows "kphys (pg_vAddr x + o') s = Some (page_phys pg s + o')"
proof -
  have ok: "page_ok pg x s" by (rule vc_invD(4) [OF assms(1,2)])
  have fr: "frame_ok (pg_vAddr x) s" and e: "kpt s (pg_vAddr x) = page_phys pg s OR VmAttr2ArchAttr cache_attrs"
    and pa: "page_phys pg s AND (PAGE_BYTES - 1) = 0"
    using ok assms(3) by (simp_all add: page_ok_def)
  have va: "pg_vAddr x AND (PAGE_BYTES - 1) = 0" using fr by (simp add: frame_ok_def)
  show ?thesis
    using fr by (simp add: kphys_def page_split [OF va assms(4)] VA2PtdL1_page [OF va assms(4)] e cache_entry [OF pa]
        add_is_or [OF pa assms(4)] frame_ok_def Let_def)
qed

section \<open>Mapping and unlocking\<close>

lemma lists_only:
  assumes "dl_store.more s' = dl_store.more s"
  shows "s' = s\<lparr>dnode := dnode s', dlist := dlist s'\<rparr>"
  using assms by (cases s, cases s') (simp add: dl_store.defs)

text \<open>What a frame costs the others: no locked page outside \<open>A\<close>, no other list.\<close>

definition locked_kept :: "page set \<Rightarrow> 'a mstate_scheme \<Rightarrow> 'a mstate_scheme \<Rightarrow> bool" where
  "locked_kept A s s' \<longleftrightarrow> (\<forall>pg x. pg \<notin> A \<longrightarrow> page_get pg s = Some x \<longrightarrow> \<not> pg_unlocked x \<longrightarrow> page_get pg s' = Some x)"

definition same_lists :: "addr \<Rightarrow> (addr \<Rightarrow> addr list option) \<Rightarrow> (addr \<Rightarrow> addr list option) \<Rightarrow> bool" where
  "same_lists l f f' \<longleftrightarrow> (\<forall>m. m \<noteq> l \<longrightarrow> f' m = f m)"

lemma same_lists_refl [simp]: "same_lists l f f"
  by (simp add: same_lists_def)

lemma same_lists_trans: "same_lists l f g \<Longrightarrow> same_lists l g h \<Longrightarrow> same_lists l f h"
  by (simp add: same_lists_def)

lemma locked_keptD: "\<lbrakk>locked_kept A s s'; pg \<notin> A; page_get pg s = Some x; \<not> pg_unlocked x\<rbrakk> \<Longrightarrow> page_get pg s' = Some x"
  by (simp add: locked_kept_def del: split_paired_All)

definition own_frame :: "u32 \<Rightarrow> 'a mstate_scheme \<Rightarrow> bool" where
  "own_frame v s \<longleftrightarrow> frame_ok v s \<and> v \<notin> free_frames s \<and> (\<forall>pg x. page_get pg s = Some x \<longrightarrow> pg_mapped x \<longrightarrow> pg_vAddr x \<noteq> v)"

lemma free_frames_step:
  assumes "0 < noFrames s" "noFrames s \<le> 2 ^ 19"
  defines "t \<equiv> s\<lparr>vmmStartAddr := vmmStartAddr s + word_of_int (1 * 4096), noFrames := noFrames s - 1\<rparr>"
  shows "vmmStartAddr s \<in> free_frames s" "free_frames t \<subseteq> free_frames s" "vmmStartAddr s \<notin> free_frames t"
proof -
  show "vmmStartAddr s \<in> free_frames s"
    unfolding free_frames_def using assms(1) by (intro image_eqI [of _ _ 0]) auto
  have e: "vmmStartAddr t + 4096 * word_of_nat k = vmmStartAddr s + 4096 * word_of_nat (Suc k)" for k
    by (simp add: t_def algebra_simps)
  show "free_frames t \<subseteq> free_frames s"
  proof
    fix v assume "v \<in> free_frames t"
    then obtain k where k: "k < nat (noFrames s - 1)" "v = vmmStartAddr s + 4096 * word_of_nat (Suc k)"
      by (auto simp: free_frames_def e) (simp add: t_def)
    then show "v \<in> free_frames s" unfolding free_frames_def by (intro image_eqI [of _ _ "Suc k"]) auto
  qed
  show "vmmStartAddr s \<notin> free_frames t"
  proof
    assume "vmmStartAddr s \<in> free_frames t"
    then obtain k where k: "k < nat (noFrames s - 1)" "4096 * (word_of_nat (Suc k) :: u32) = 0"
      by (auto simp: free_frames_def e) (simp add: t_def)
    have "unat (word_of_nat (4096 * Suc k) :: u32) = 4096 * Suc k"
      using k(1) assms(2) by (simp only: unat_of_nat) (simp add: take_bit_nat_eq_self)
    moreover have "(word_of_nat (4096 * Suc k) :: u32) = 0"
      using k(2) by (simp only: of_nat_mult of_nat_numeral)
    ultimately show False by simp
  qed
qed

lemma page_ok_mono:
  assumes "page_ok pg x s" "cfg t = cfg s" "kptd t = kptd s" "kpt t (pg_vAddr x) = kpt s (pg_vAddr x)"
    "free_frames t \<subseteq> free_frames s" "\<not> pg_unlocked x \<Longrightarrow> dl_free s (pg_node x) \<Longrightarrow> dl_free t (pg_node x)"
  shows "page_ok pg x t"
  using assms by (auto simp: page_ok_def page_phys_def frame_ok_def)

lemma frame_ok_mono: "kptd t = kptd s \<Longrightarrow> frame_ok v t = frame_ok v s"
  by (simp add: frame_ok_def)

text \<open>Recycling the least recently used page.\<close>

lemma take_frame_recycle:
  assumes inv: "vc_inv f s" and left: "f (cacheLRU s) \<noteq> Some []" and n: "noFrames s = 0"
  obtains v s' f' where "take_frame s = Some (v, s')" "vc_inv f' s'" "vc_same s s'" "own_frame v s'"
    "locked_kept {} s s'" "same_lists (cacheLRU s) f f'" "kpt s' = kpt s"
proof -
  obtain ns where ns: "f (cacheLRU s) = Some ns" "set ns = {pg_node x | pg x. page_get pg s = Some x \<and> pg_unlocked x}"
    using inv unfolding vc_inv_def by blast
  then have "ns \<noteq> []" using left by auto
  then obtain xs e where nse: "ns = xs @ [e]" by (cases ns rule: rev_cases) auto
  have dinv: "dl_inv s f" by (rule vc_invD(1) [OF inv])
  obtain s1 where s1: "DynListRemoveTail (cacheLRU s) s = Some (e, s1)" "dl_inv s1 (f(cacheLRU s \<mapsto> xs))"
    "\<And>x. dl_free s1 x \<longleftrightarrow> dl_free s x \<or> x = e" "dl_store.more s1 = dl_store.more s"
    using dl_inv_rem_tail [OF dinv, of "cacheLRU s" xs e] ns(1) nse by auto
  have es: "s1 = s\<lparr>dnode := dnode s1, dlist := dlist s1\<rparr>" by (rule lists_only [OF s1(4)])
  have fld: "physPageTab s1 = physPageTab s" "cfg s1 = cfg s" "kptd s1 = kptd s" "kpt s1 = kpt s"
    "vmmStartAddr s1 = vmmStartAddr s" "noFrames s1 = noFrames s" "cacheLRU s1 = cacheLRU s"
    by (subst es, simp)+
  have dist: "distinct (xs @ [e])" using dl_rep_dist [OF dl_inv_rep [OF dinv ns(1)]] nse by simp
  have "e \<in> set ns" by (simp add: nse)
  then obtain pg x where pg: "page_get pg s = Some x" "pg_unlocked x" "e = pg_node x" unfolding ns(2) by blast
  have ok: "page_ok pg x s" by (rule vc_invD(4) [OF inv pg(1)])
  have mapped: "pg_mapped x" and en: "e \<noteq> NULL" and fr: "frame_ok (pg_vAddr x) s" "pg_vAddr x \<notin> free_frames s"
    using ok pg(2,3) by (simp_all add: page_ok_def)
  define t where "t = page_upd pg (\<lambda>x. x\<lparr>pg_unlocked := False, pg_mapped := False, pg_vAddr := - 1\<rparr>) s1"
  have pt: "page_get pg' t = (if pg' = pg then Some (x\<lparr>pg_unlocked := False, pg_mapped := False, pg_vAddr := - 1\<rparr>) else page_get pg' s)" for pg'
    using pg(1) by (simp add: t_def page_get_upd page_get_cong [OF fld(1)])
  have ft: "cfg t = cfg s" "kptd t = kptd s" "kpt t = kpt s" "vmmStartAddr t = vmmStartAddr s"
    "noFrames t = noFrames s" "cacheLRU t = cacheLRU s" "dnode t = dnode s1" "dlist t = dlist s1"
    by (simp_all add: t_def page_upd_def fld)
  have fft: "free_frames t = free_frames s" by (simp add: free_frames_def ft)
  have dft: "dl_free t y \<longleftrightarrow> dl_free s y \<or> y = e" for y using s1(3) [of y] by (simp add: dl_free_def ft)
  have nodes: "set xs = {pg_node x | pg x. page_get pg t = Some x \<and> pg_unlocked x}" (is "_ = ?R")
  proof (intro equalityI subsetI)
    fix m assume m: "m \<in> set xs"
    then have "m \<noteq> e" "m \<in> set ns" using dist nse by auto
    then obtain pg' y where "page_get pg' s = Some y" "pg_unlocked y" "m = pg_node y" unfolding ns(2) by blast
    moreover from this \<open>m \<noteq> e\<close> have "pg' \<noteq> pg" using pg by auto
    ultimately have "page_get pg' t = Some y" "pg_unlocked y" "m = pg_node y" by (simp_all add: pt)
    then show "m \<in> ?R" by blast
  next
    fix m assume "m \<in> ?R"
    then obtain pg' y where y: "page_get pg' s = Some y" "pg_unlocked y" "m = pg_node y" "pg' \<noteq> pg"
      by (auto simp: pt split: if_splits)
    then have "m \<in> set ns" unfolding ns(2) by blast
    moreover have "m \<noteq> e" using vc_invD(5) [OF inv y(1) pg(1) y(4)] y(3) pg(3) by simp
    ultimately show "m \<in> set xs" by (simp add: nse)
  qed
  have inv': "vc_inv (f(cacheLRU s \<mapsto> xs)) t"
    unfolding vc_inv_def
  proof (intro conjI allI impI ballI)
    show "dl_inv t (f(cacheLRU s \<mapsto> xs))" using s1(2) dl_inv_cong [of t s1] ft by simp
    show "0 \<le> noFrames t" "noFrames t \<le> 2 ^ 19" using n by (simp_all add: ft)
    show "frame_ok v t" if "v \<in> free_frames t" for v
      using vc_invD(3) [OF inv] that by (simp add: fft frame_ok_mono [OF ft(2)])
    show "\<exists>ns. (f(cacheLRU s \<mapsto> xs)) (cacheLRU t) = Some ns \<and> set ns = {pg_node x | pg x. page_get pg t = Some x \<and> pg_unlocked x}"
      using nodes by (simp add: ft)
    show "page_ok pg' y t" if "page_get pg' t = Some y" for pg' y
    proof (cases "pg' = pg")
      case True
      then show ?thesis using that ok pg(3) by (auto simp: pt page_ok_def page_phys_def ft dft)
    next
      case False
      then have "page_get pg' s = Some y" using that by (simp add: pt)
      then show ?thesis by (intro page_ok_mono [OF vc_invD(4) [OF inv]]) (auto simp: ft fft dft)
    qed
    fix pg1 x1 pg2 x2
    assume a: "page_get pg1 t = Some x1" "page_get pg2 t = Some x2" "pg1 \<noteq> pg2"
    show "pg_node x1 \<noteq> pg_node x2"
      using a vc_invD(5) [OF inv, of pg1 _ pg2] pg(1) by (auto simp: pt split: if_splits)
    assume "pg_mapped x1" "pg_mapped x2"
    then show "pg_vAddr x1 \<noteq> pg_vAddr x2"
      using a vc_invD(6) [OF inv, of pg1 _ pg2] by (auto simp: pt split: if_splits)
  qed
  show thesis
  proof (rule that)
    have "page_of_node e s1 = Some pg"
      using page_of_node_eq [OF inv pg(1)] pg(3) by (simp add: page_of_node_def all_pages_def fld)
    then show "take_frame s = Some (pg_vAddr x, t)"
      using s1(1) en n pg(1) by (simp add: take_frame_def VmmGetNoFreeFrames_def ASSERT_def page_get_cong [OF fld(1)] t_def)
    show "vc_inv (f(cacheLRU s \<mapsto> xs)) t" by (rule inv')
    show "vc_same s t"
    proof -
      have "t = s\<lparr>dnode := dnode s1, dlist := dlist s1, physPageTab := physPageTab t\<rparr>"
        unfolding t_def page_upd_def by (subst es) simp
      then have "t = s\<lparr>dnode := dnode t, dlist := dlist t, physPageTab := physPageTab t, vmmStartAddr := vmmStartAddr t,
          noFrames := noFrames t, kpt := kpt t\<rparr>" by (cases t, cases s) simp
      then show ?thesis using pg(1) by (simp add: vc_same_def pt page_core_def)
    qed
    show "own_frame (pg_vAddr x) t"
      unfolding own_frame_def fft frame_ok_mono [OF ft(2)]
    proof (intro conjI allI impI fr)
      fix pg' y assume "page_get pg' t = Some y" "pg_mapped y"
      then show "pg_vAddr y \<noteq> pg_vAddr x"
        using vc_invD(6) [OF inv pg(1) _ _ mapped, of pg' y] by (auto simp: pt split: if_splits)
    qed
    show "locked_kept {} s t" using pg by (auto simp: locked_kept_def pt simp del: split_paired_All)
    show "same_lists (cacheLRU s) f (f(cacheLRU s \<mapsto> xs))" by (simp add: same_lists_def)
    show "kpt t = kpt s" by (rule ft(3))
  qed
qed

text \<open>A fresh frame.\<close>

lemma take_frame_fresh:
  assumes inv: "vc_inv f s" and n: "0 < noFrames s"
  obtains v s' where "take_frame s = Some (v, s')" "vc_inv f s'" "vc_same s s'" "own_frame v s'"
    "\<And>pg. page_get pg s' = page_get pg s" "kpt s' = kpt s"
proof -
  define t where "t = s\<lparr>vmmStartAddr := vmmStartAddr s + word_of_int (1 * 4096), noFrames := noFrames s - 1\<rparr>"
  have n19: "noFrames s \<le> 2 ^ 19" using inv unfolding vc_inv_def by blast
  note ff = free_frames_step [OF n n19, folded t_def]
  have pt: "page_get pg t = page_get pg s" for pg by (simp add: t_def page_get_def)
  have ft: "cfg t = cfg s" "kptd t = kptd s" "kpt t = kpt s" "cacheLRU t = cacheLRU s" "dnode t = dnode s" "dlist t = dlist s"
    by (simp_all add: t_def)
  have inv': "vc_inv f t"
    unfolding vc_inv_def
  proof (intro conjI allI impI ballI)
    show "dl_inv t f" using vc_invD(1) [OF inv] dl_inv_cong [OF ft(5,6)] by simp
    show "0 \<le> noFrames t" "noFrames t \<le> 2 ^ 19" using n n19 by (simp_all add: t_def)
    show "frame_ok v t" if "v \<in> free_frames t" for v
      using vc_invD(3) [OF inv] that ff(2) by (auto simp: frame_ok_mono [OF ft(2)])
    show "\<exists>ns. f (cacheLRU t) = Some ns \<and> set ns = {pg_node x | pg x. page_get pg t = Some x \<and> pg_unlocked x}"
      using inv unfolding vc_inv_def pt ft(4) by blast
    show "page_ok pg y t" if "page_get pg t = Some y" for pg y
      using that by (intro page_ok_mono [OF vc_invD(4) [OF inv]]) (auto simp: ft pt ff dl_free_def)
    fix pg1 x1 pg2 x2
    assume a: "page_get pg1 t = Some x1" "page_get pg2 t = Some x2" "pg1 \<noteq> pg2"
    show "pg_node x1 \<noteq> pg_node x2" using a vc_invD(5) [OF inv] by (simp add: pt)
    show "pg_vAddr x1 \<noteq> pg_vAddr x2" if "pg_mapped x1" "pg_mapped x2"
      using a that vc_invD(6) [OF inv] by (simp add: pt)
  qed
  show thesis
  proof (rule that)
    show "take_frame s = Some (vmmStartAddr s, t)"
      using n by (simp add: take_frame_def VmmGetNoFreeFrames_def VmmAlloc_def ASSERT_def t_def)
    show "vc_inv f t" by (rule inv')
    show "vc_same s t" by (simp add: vc_same_def pt) (simp add: t_def)
    show "own_frame (vmmStartAddr s) t"
      unfolding own_frame_def pt frame_ok_mono [OF ft(2)]
    proof (intro conjI allI impI ff(3) vc_invD(3) [OF inv ff(1)])
      fix pg x assume "page_get pg s = Some x" "pg_mapped x"
      then show "pg_vAddr x \<noteq> vmmStartAddr s"
        using vc_invD(4) [OF inv, of pg x] ff(1) by (auto simp: page_ok_def)
    qed
    show "page_get pg t = page_get pg s" for pg by (rule pt)
    show "kpt t = kpt s" by (rule ft(3))
  qed
qed

text \<open>What both ways to a frame have in common.\<close>

lemma take_frame_spec:
  assumes inv: "vc_inv f s" and left: "frame_left f s"
  obtains v s' f' where "take_frame s = Some (v, s')" "vc_inv f' s'" "vc_same s s'" "own_frame v s'"
    "locked_kept {} s s'" "same_lists (cacheLRU s) f f'" "kpt s' = kpt s"
proof (cases "0 < noFrames s")
  case True
  then obtain v s' where *: "take_frame s = Some (v, s')" "vc_inv f s'" "vc_same s s'" "own_frame v s'"
    "\<And>pg. page_get pg s' = page_get pg s" "kpt s' = kpt s" using take_frame_fresh [OF inv] by metis
  show thesis by (rule that [OF *(1-4)]) (simp_all add: * locked_kept_def)
next
  case False
  then have n: "noFrames s = 0" using vc_invD(2) [OF inv] by simp
  then have "f (cacheLRU s) \<noteq> Some []" using left by (simp add: frame_left_def)
  from take_frame_recycle [OF inv this n] that show thesis .
qed

lemma page_upd_fields [simp]:
  "cfg (page_upd pg f s) = cfg s" "kptd (page_upd pg f s) = kptd s" "kpt (page_upd pg f s) = kpt s"
  "pmem (page_upd pg f s) = pmem s" "vmmStartAddr (page_upd pg f s) = vmmStartAddr s"
  "noFrames (page_upd pg f s) = noFrames s" "cacheLRU (page_upd pg f s) = cacheLRU s"
  "dnode (page_upd pg f s) = dnode s" "dlist (page_upd pg f s) = dlist s"
  "partitionTab (page_upd pg f s) = partitionTab s" "cKThread (page_upd pg f s) = cKThread s"
  "kthreads (page_upd pg f s) = kthreads s" "pctAddr (page_upd pg f s) = pctAddr s"
  "pctSize (page_upd pg f s) = pctSize s" "audit (page_upd pg f s) = audit s"
  by (simp_all add: page_upd_def)

lemma VmMapPage_ok:
  assumes "frame_ok v s" "p AND (PAGE_BYTES - 1) = 0"
  shows "VmMapPage p v fl s = Some (s\<lparr>kpt := (kpt s)(v := p OR VmAttr2ArchAttr fl)\<rparr>)"
  using assms by (simp add: VmMapPage_def frame_ok_def ASSERT_def less_imp_le)

text \<open>A page that is mapped keeps its window; another one gets a window, and no locked page loses its own.\<close>

definition page_win :: "page \<Rightarrow> u32 \<Rightarrow> 'a mstate_scheme \<Rightarrow> bool" where
  "page_win pg v s \<longleftrightarrow> (\<exists>x. page_get pg s = Some x \<and> pg_mapped x \<and> pg_vAddr x = v)"

lemma page_phys_mask: "page_phys pg s AND (PAGE_BYTES - 1) = 0 \<Longrightarrow> o' AND PAGE_MASK = 0 \<Longrightarrow>
    (page_phys pg s + o') AND PAGE_MASK = page_phys pg s \<and> (page_phys pg s + o') AND (PAGE_BYTES - 1) = o'"
  by (simp add: page_split)

lemma VCacheMapPage_spec:
  assumes inv: "vc_inv f s" and pg: "page_get pg s = Some x" and left: "pg_mapped x \<or> frame_left f s"
    and off: "o' AND PAGE_MASK = 0"
  obtains v s' f' where "VCacheMapPage (page_phys pg s + o') pg s = Some (v + o', s')" "vc_inv f' s'" "vc_same s s'"
    "page_win pg v s'"
    "locked_kept {pg} s s'" "same_lists (cacheLRU s) f f'"
proof (cases "pg_mapped x")
  case True
  have "page_phys pg s AND (PAGE_BYTES - 1) = 0" using vc_invD(4) [OF inv pg] by (simp add: page_ok_def)
  then have "VCacheMapPage (page_phys pg s + o') pg s = Some (pg_vAddr x + o', s)"
    using True by (simp add: VCacheMapPage_def pg page_split off)
  then show thesis using that [of "pg_vAddr x" s f] inv True pg by (auto simp: page_win_def locked_kept_def)
next
  case False
  have pa: "page_phys pg s AND (PAGE_BYTES - 1) = 0" using vc_invD(4) [OF inv pg] by (simp add: page_ok_def)
  have ul: "\<not> pg_unlocked x" using vc_invD(4) [OF inv pg] False by (auto simp: page_ok_def)
  have fl: "frame_left f s" using left False by simp
  obtain v s1 f1 where s1: "take_frame s = Some (v, s1)" "vc_inv f1 s1" "vc_same s s1" "own_frame v s1"
    "locked_kept {} s s1" "same_lists (cacheLRU s) f f1" "kpt s1 = kpt s"
    using take_frame_spec [OF inv fl] .
  have x1: "page_get pg s1 = Some x" by (rule locked_keptD [OF s1(5) _ pg ul]) simp
  define s2 where "s2 = page_upd pg (\<lambda>x. x\<lparr>pg_vAddr := v, pg_mapped := True\<rparr>) s1"
  define s3 where "s3 = s2\<lparr>kpt := (kpt s2)(v := page_phys pg s OR VmAttr2ArchAttr cache_attrs)\<rparr>"
  have fr: "frame_ok v s1" "v \<notin> free_frames s1" using s1(4) by (simp_all add: own_frame_def)
  have p3: "page_get pg' s3 = (if pg' = pg then Some (x\<lparr>pg_vAddr := v, pg_mapped := True\<rparr>) else page_get pg' s1)" for pg'
    using x1 page_get_cong [of s3 s2 pg'] by (simp add: s3_def s2_def page_get_upd)
  have f3: "cfg s3 = cfg s1" "kptd s3 = kptd s1" "noFrames s3 = noFrames s1" "vmmStartAddr s3 = vmmStartAddr s1"
    "cacheLRU s3 = cacheLRU s1" "dnode s3 = dnode s1" "dlist s3 = dlist s1" "physPageTab s3 = physPageTab s2"
    by (simp_all add: s3_def s2_def)
  have ff3: "free_frames s3 = free_frames s1" by (simp add: free_frames_def f3)
  have kpt3: "kpt s3 a = (if a = v then page_phys pg s OR VmAttr2ArchAttr cache_attrs else kpt s1 a)" for a
    by (simp add: s3_def s2_def)
  have ph: "page_phys pg s1 = page_phys pg s" by (rule page_phys_same [OF s1(3)])
  have inv3: "vc_inv f1 s3"
    unfolding vc_inv_def
  proof (intro conjI allI impI ballI)
    show "dl_inv s3 f1" using vc_invD(1) [OF s1(2)] dl_inv_cong [OF f3(6,7)] by simp
    show "0 \<le> noFrames s3" "noFrames s3 \<le> 2 ^ 19" using s1(2) unfolding vc_inv_def f3 by blast+
    show "frame_ok v s3" if "v \<in> free_frames s3" for v
      using vc_invD(3) [OF s1(2)] that by (simp add: ff3 frame_ok_mono [OF f3(2)])
    have "{pg_node x | pg x. page_get pg s3 = Some x \<and> pg_unlocked x} = {pg_node x | pg x. page_get pg s1 = Some x \<and> pg_unlocked x}"
      using ul x1 by (intro Collect_cong iff_exI) (auto simp: p3)
    then show "\<exists>ns. f1 (cacheLRU s3) = Some ns \<and> set ns = {pg_node x | pg x. page_get pg s3 = Some x \<and> pg_unlocked x}"
      using s1(2) unfolding vc_inv_def f3(5) by (auto simp only:)
    show "page_ok pg' y s3" if "page_get pg' s3 = Some y" for pg' y
    proof (cases "pg' = pg")
      case True
      then show ?thesis
        using that vc_invD(4) [OF s1(2) x1] fr pa ph ul
        by (auto simp: p3 page_ok_def page_phys_def f3 ff3 kpt3 dl_free_def frame_ok_mono [OF f3(2)])
    next
      case False
      then have y1: "page_get pg' s1 = Some y" using that by (simp add: p3)
      then have "pg_mapped y \<Longrightarrow> pg_vAddr y \<noteq> v" using s1(4) by (auto simp: own_frame_def simp del: split_paired_All)
      then show ?thesis
        using vc_invD(4) [OF s1(2) y1]
        by (auto simp: page_ok_def page_phys_def f3 ff3 kpt3 dl_free_def frame_ok_mono [OF f3(2)])
    qed
    fix pg1 x1' pg2 x2
    assume a: "page_get pg1 s3 = Some x1'" "page_get pg2 s3 = Some x2" "pg1 \<noteq> pg2"
    show "pg_node x1' \<noteq> pg_node x2"
      using a vc_invD(5) [OF s1(2), of pg1 _ pg2] x1 by (auto simp: p3 split: if_splits)
    assume m: "pg_mapped x1'" "pg_mapped x2"
    have own: "pg_vAddr y \<noteq> v" if "page_get pg' s1 = Some y" "pg_mapped y" for pg' y
      using s1(4) that unfolding own_frame_def by blast
    show "pg_vAddr x1' \<noteq> pg_vAddr x2"
      using a m vc_invD(6) [OF s1(2), of pg1 _ pg2] own [of pg1] own [of pg2] by (auto simp: p3 split: if_splits)
  qed
  have "frame_ok v s2" using fr(1) frame_ok_mono [of s2 s1] by (simp add: s2_def)
  then have vm: "VmMapPage (page_phys pg s) v cache_attrs s2 = Some s3"
    using pa by (simp add: VmMapPage_ok s3_def)
  have map: "VCacheMapPage (page_phys pg s + o') pg s = Some (v + o', s3)"
    unfolding VCacheMapPage_def pg cache_attrs_def [symmetric] page_split [OF pa off]
    using False by (simp only: s1(1) Option.bind.bind_lunit if_False prod.case Let_def s2_def [symmetric] vm)
  have same: "vc_same s1 s3"
    using x1 by (simp add: vc_same_def p3 page_core_def) (simp add: s3_def s2_def page_upd_def)
  show thesis
    by (rule that [OF map inv3 vc_same_trans [OF s1(3) same]]) (use s1 in \<open>auto simp: p3 page_win_def locked_kept_def simp del: split_paired_All\<close>)
qed

lemma VCacheUnlockPage_spec:
  assumes inv: "vc_inv f s" and win: "page_win pg v s"
  obtains s' f' where "VCacheUnlockPage pg s = Some s'" "vc_inv f' s'" "vc_same s s'" "frame_left f' s'"
    "\<And>pg' v. page_win pg' v s \<Longrightarrow> page_win pg' v s'" "same_lists (cacheLRU s) f f'" "kpt s' = kpt s"
proof -
  obtain x where x: "page_get pg s = Some x" "pg_mapped x" using win by (auto simp: page_win_def)
  obtain ns where ns: "f (cacheLRU s) = Some ns" "set ns = {pg_node x | pg x. page_get pg s = Some x \<and> pg_unlocked x}"
    using inv unfolding vc_inv_def by blast
  show thesis
  proof (cases "pg_unlocked x")
    case True
    have "pg_node x \<in> set ns" unfolding ns(2) using x(1) True by blast
    then have "frame_left f s" using ns(1) by (auto simp: frame_left_def)
    moreover have "VCacheUnlockPage pg s = Some s" using x True by (simp add: VCacheUnlockPage_def)
    ultimately show thesis using that inv by simp
  next
    case False
    define s1 where "s1 = page_upd pg (\<lambda>x. x\<lparr>pg_unlocked := True\<rparr>) s"
    have ok: "page_ok pg x s" by (rule vc_invD(4) [OF inv x(1)])
    have lists: "dnode s1 = dnode s" "dlist s1 = dlist s" by (simp_all add: s1_def)
    have "dl_inv s1 f" using vc_invD(1) [OF inv] dl_inv_cong [OF lists] by blast
    moreover have "dl_free s1 (pg_node x)" using ok False by (simp add: lists page_ok_def dl_free_def)
    ultimately
    obtain s2 where s2: "DynListInsertHead (cacheLRU s) (pg_node x) s1 = Some (0, s2)"
      "dl_inv s2 (f(cacheLRU s \<mapsto> pg_node x # ns))" "\<And>y. dl_free s2 y \<longleftrightarrow> dl_free s1 y \<and> y \<noteq> pg_node x"
      "dl_store.more s2 = dl_store.more s1" using dl_inv_ins_head [where f = f and l = "cacheLRU s", OF _ ns(1)] by blast
    have es: "s2 = s1\<lparr>dnode := dnode s2, dlist := dlist s2\<rparr>" by (rule lists_only [OF s2(4)])
    have f2: "physPageTab s2 = physPageTab s1" "cfg s2 = cfg s" "kptd s2 = kptd s" "kpt s2 = kpt s" "noFrames s2 = noFrames s"
      "vmmStartAddr s2 = vmmStartAddr s" "cacheLRU s2 = cacheLRU s"
      by (subst es, simp add: s1_def)+
    have p2: "page_get pg' s2 = (if pg' = pg then Some (x\<lparr>pg_unlocked := True\<rparr>) else page_get pg' s)" for pg'
      using x(1) by (simp add: page_get_cong [OF f2(1)] s1_def page_get_upd)
    have ff: "free_frames s2 = free_frames s" by (simp add: free_frames_def f2)
    have df: "dl_free s2 y \<longleftrightarrow> dl_free s y \<and> y \<noteq> pg_node x" for y
      using s2(3) [of y] by (simp add: s1_def dl_free_def)
    have inv2: "vc_inv (f(cacheLRU s \<mapsto> pg_node x # ns)) s2"
      unfolding vc_inv_def
    proof (intro conjI allI impI ballI)
      show "dl_inv s2 (f(cacheLRU s \<mapsto> pg_node x # ns))" by (rule s2(2))
      show "0 \<le> noFrames s2" "noFrames s2 \<le> 2 ^ 19" using inv unfolding vc_inv_def f2 by blast+
      show "frame_ok v s2" if "v \<in> free_frames s2" for v
        using vc_invD(3) [OF inv] that by (simp add: ff frame_ok_mono [OF f2(3)])
      have "{pg_node x | pg x. page_get pg s2 = Some x \<and> pg_unlocked x} = insert (pg_node x) (set ns)" (is "?L = ?R")
      proof (intro equalityI subsetI)
        fix m assume "m \<in> ?L"
        then obtain pg' y where y: "page_get pg' s2 = Some y" "pg_unlocked y" "m = pg_node y" by blast
        show "m \<in> ?R"
        proof (cases "pg' = pg")
          case True
          then show ?thesis using y by (auto simp: p2)
        next
          case False
          then have "page_get pg' s = Some y" using y(1) by (simp add: p2)
          then show ?thesis unfolding ns(2) using y by blast
        qed
      next
        fix m assume "m \<in> ?R"
        then consider "m = pg_node x" | "m \<in> set ns" by auto
        then show "m \<in> ?L"
        proof cases
          case 1
          have "page_get pg s2 = Some (x\<lparr>pg_unlocked := True\<rparr>)" by (simp add: p2)
          moreover have "m = pg_node (x\<lparr>pg_unlocked := True\<rparr>)" "pg_unlocked (x\<lparr>pg_unlocked := True\<rparr>)" using 1 by simp_all
          ultimately show ?thesis by blast
        next
          case 2
          then obtain pg' y where y: "page_get pg' s = Some y" "pg_unlocked y" "m = pg_node y" unfolding ns(2) by blast
          then have "page_get pg' s2 = Some y" using False x(1) by (auto simp: p2)
          then show ?thesis using y by blast
        qed
      qed
      then show "\<exists>ns'. (f(cacheLRU s \<mapsto> pg_node x # ns)) (cacheLRU s2) = Some ns' \<and>
          set ns' = {pg_node x | pg x. page_get pg s2 = Some x \<and> pg_unlocked x}" by (simp add: f2)
      show "page_ok pg' y s2" if "page_get pg' s2 = Some y" for pg' y
      proof (cases "pg' = pg")
        case True
        then show ?thesis using that ok x(2)
          by (auto simp: p2 page_ok_def page_phys_def f2 ff frame_ok_mono [OF f2(3)])
      next
        case False
        then have y: "page_get pg' s = Some y" using that by (simp add: p2)
        show ?thesis
          using vc_invD(5) [OF inv y x(1) False] by (intro page_ok_mono [OF vc_invD(4) [OF inv y]]) (auto simp: f2 ff df)
      qed
      fix pg1 x1 pg2 x2
      assume a: "page_get pg1 s2 = Some x1" "page_get pg2 s2 = Some x2" "pg1 \<noteq> pg2"
      show "pg_node x1 \<noteq> pg_node x2"
        using a vc_invD(5) [OF inv, of pg1 _ pg2] x(1) by (auto simp: p2 split: if_splits)
      assume "pg_mapped x1" "pg_mapped x2"
      then show "pg_vAddr x1 \<noteq> pg_vAddr x2"
        using a vc_invD(6) [OF inv, of pg1 _ pg2] x by (auto simp: p2 split: if_splits)
    qed
    have same: "vc_same s s2"
    proof -
      have "s2 = s\<lparr>dnode := dnode s2, dlist := dlist s2, physPageTab := physPageTab s2\<rparr>"
        by (subst (1) es) (simp add: f2 s1_def page_upd_def)
      then have "s2 = s\<lparr>dnode := dnode s2, dlist := dlist s2, physPageTab := physPageTab s2, vmmStartAddr := vmmStartAddr s2,
          noFrames := noFrames s2, kpt := kpt s2\<rparr>" by (simp add: f2)
      then show ?thesis using x(1) by (simp add: vc_same_def p2 page_core_def)
    qed
    show thesis
    proof (rule that [OF _ inv2 same])
      show "VCacheUnlockPage pg s = Some s2"
        using x False s2(1) by (simp add: VCacheUnlockPage_def ASSERT_def s1_def)
      show "frame_left (f(cacheLRU s \<mapsto> pg_node x # ns)) s2" by (simp add: frame_left_def f2)
      show "page_win pg' v s2" if "page_win pg' v s" for pg' v
        using that x by (auto simp: page_win_def p2)
    qed (simp_all add: f2 same_lists_def)
  qed
qed

end
