(* ===== verification/MmuCalls.thy ===== *)
theory MmuCalls
  imports VCache
begin

text \<open>
  The hypercalls on page tables, core/kernel/mmu/hypercalls.c. A page of a
  partition has a type: memory, page directory or page table; the kernel checks and rewrites the
  entries of the last two and counts their uses. None is a failed assertion, a null pointer, an
  index outside a table or an access to an address the kernel does not map.
\<close>

definition XM_MEM_AREA_UNMAPPED :: u32 where "XM_MEM_AREA_UNMAPPED = 2"
definition XM_MEM_AREA_READONLY :: u32 where "XM_MEM_AREA_READONLY = 4"
definition XM_MEM_AREA_UNCACHEABLE :: u32 where "XM_MEM_AREA_UNCACHEABLE = 8"

definition cur_part :: "'a kstate_scheme \<Rightarrow> partition_t option" where
  "cur_part s = do { i \<leftarrow> GetPartition (cKThread s) s; aget (partitionTab s) i }"

definition IsPCtrlTabPg :: "u32 \<Rightarrow> addr \<Rightarrow> 'a mstate_scheme \<Rightarrow> bool option" where
  "IsPCtrlTabPg addr k s = do {
     g \<leftarrow> k_g (kthreads s k);
     pct \<leftarrow> g_partCtrlTab g;
     let a = VIRT2PHYS (pctAddr s k);
     let b = a + pctSize s k;
     Some (addr \<ge> a \<and> addr < b)
   }"

definition IS_PRESENT :: "u32 \<Rightarrow> bool" where
  "IS_PRESENT x = has_flag x PG_ARCH_PRESENT"

definition USER_PTD_ENTRIES :: nat where
  "USER_PTD_ENTRIES = VA2PtdL1 XM_OFFSET"

definition IS_VALID_PTD_PTR :: "u32 \<Rightarrow> u32 \<Rightarrow> bool" where
  "IS_VALID_PTD_PTR type pAddr \<longleftrightarrow> type = PPAG_PTDL1 \<and> unat (drop_bit 2 pAddr AND 1023) < USER_PTD_ENTRIES"

definition IS_VALID_PTD_ENTRY :: "u32 \<Rightarrow> bool" where
  "IS_VALID_PTD_ENTRY type \<longleftrightarrow> type = PPAG_PTDL2"

section \<open>One entry\<close>

text \<open>The counter of the page behind an old entry goes down.\<close>

definition drop_entry :: "(u32 \<Rightarrow> bool) \<Rightarrow> page \<Rightarrow> 'a mstate_scheme \<Rightarrow> 'a mstate_scheme option" where
  "drop_entry valid pg s = do {
     x \<leftarrow> page_get pg s;
     ASSERT (valid (pg_type x));
     ASSERT (pg_counter x > 0);
     PPagDecCounter pg s
   }"

definition ptd_install :: "partition_t \<Rightarrow> u32 \<Rightarrow> 'a mstate_scheme \<Rightarrow> (bool \<times> 'a mstate_scheme) option" where
  "ptd_install p val s =
     (if IS_PRESENT val then do {
        (fp, s) \<leftarrow> PmmFindPage (val AND PAGE_MASK) p s;
        (case fp of None \<Rightarrow> Some (False, log_audit (AuditVmmInvalidPtde val) s)
         | Some (pg, _) \<Rightarrow> do {
             y \<leftarrow> page_get pg s;
             if \<not> IS_VALID_PTD_ENTRY (pg_type y) then Some (False, log_audit (AuditVmmInvalidPtde val) s)
             else do { s \<leftarrow> PPagIncCounter pg s; Some (True, s) } })
      } else Some (True, s))"

definition ptd_release :: "partition_t \<Rightarrow> u32 \<Rightarrow> 'a mstate_scheme \<Rightarrow> (bool \<times> 'a mstate_scheme) option" where
  "ptd_release p oldVal s =
     (if IS_PRESENT oldVal then do {
        (fp, s) \<leftarrow> PmmFindPage (oldVal AND PAGE_MASK) p s;
        (case fp of None \<Rightarrow> Some (False, s)
         | Some (pg, _) \<Rightarrow> do { s \<leftarrow> drop_entry IS_VALID_PTD_ENTRY pg s; Some (True, s) })
      } else Some (True, s))"

definition UpdatePtd :: "page \<Rightarrow> u32 \<Rightarrow> u32 \<Rightarrow> 'a mstate_scheme \<Rightarrow> (s32 \<times> u32 \<times> 'a mstate_scheme) option" where
  "UpdatePtd pagePtd pAddr val s = do {
     (vPtd, s) \<leftarrow> VCacheMapPage pAddr pagePtd s;
     x \<leftarrow> page_get pagePtd s;
     if \<not> IS_VALID_PTD_PTR (pg_type x) pAddr then Some (XM_INVALID_PARAM, val, s)
     else do {
       (oldVal, s) \<leftarrow> ReadByPassMmuWord vPtd s;
       s \<leftarrow> VCacheUnlockPage pagePtd s;
       p \<leftarrow> cur_part s;
       (ok, s) \<leftarrow> ptd_install p val s;
       if \<not> ok then Some (XM_INVALID_PARAM, val, s)
       else do {
         (ok, s) \<leftarrow> ptd_release p oldVal s;
         Some (if ok then XM_OK else XM_INVALID_PARAM, val, s)
       }
     }
   }"

text \<open>
  What an entry points to: a page with the flags of its area, the partition's own control table,
  or memory of an area without page descriptors. The variable areaFlags is not initialised in the
  source and keeps its value \<open>junk\<close> for the control table.
\<close>

definition pte_target :: "u32 \<Rightarrow> partition_t \<Rightarrow> u32 \<Rightarrow> 'a mstate_scheme \<Rightarrow>
    ((page option \<times> u32 \<times> bool) option \<times> 'a mstate_scheme) option" where
  "pte_target junk p a s = do {
     (fp, s) \<leftarrow> PmmFindPage a p s;
     (case fp of Some (pg, fl) \<Rightarrow> Some (Some (Some pg, fl, False), s)
      | None \<Rightarrow> do {
          b \<leftarrow> IsPCtrlTabPg a (cKThread s) s;
          if b then Some (Some (None, junk, True), s)
          else do {
            (fa, s) \<leftarrow> PmmFindAddr a p s;
            (case fa of None \<Rightarrow> Some (None, s) | Some fl \<Rightarrow> Some (Some (None, fl, False), s))
          }
        })
   }"

definition clr_attr :: "u32 \<Rightarrow> bool \<Rightarrow> u32 \<Rightarrow> u32" where
  "clr_attr f b attr = (if b then attr AND NOT f else attr)"

text \<open>The entry as it is installed.\<close>

definition pte_value :: "u32 \<Rightarrow> bool \<Rightarrow> u32 \<Rightarrow> u32" where
  "pte_value areaFlags special val =
     (let attr = VmArchAttr2Attr val;
          attr = clr_attr PG_ATTR_RW (has_flag areaFlags XM_MEM_AREA_READONLY) attr;
          attr = clr_attr PG_ATTR_CACHED (has_flag areaFlags XM_MEM_AREA_UNCACHEABLE) attr;
          attr = clr_attr PG_ATTR_RW special attr
      in (val AND PAGE_MASK) OR VmAttr2ArchAttr attr)"

definition pte_install :: "u32 \<Rightarrow> partition_t \<Rightarrow> u32 \<Rightarrow> 'a mstate_scheme \<Rightarrow> (u32 option \<times> 'a mstate_scheme) option" where
  "pte_install junk p val s =
     (if IS_PRESENT val then do {
        (t, s) \<leftarrow> pte_target junk p (val AND PAGE_MASK) s;
        (case t of None \<Rightarrow> Some (None, s)
         | Some (Some pg, fl, _) \<Rightarrow> do {
             y \<leftarrow> page_get pg s;
             s \<leftarrow> PPagIncCounter pg s;
             Some (Some (pte_value fl (pg_type y \<noteq> PPAG_STD) val), s) }
         | Some (None, fl, isPCtrlTab) \<Rightarrow> Some (Some (pte_value fl isPCtrlTab val), s))
      } else Some (Some val, s))"

definition pte_release :: "partition_t \<Rightarrow> u32 \<Rightarrow> 'a mstate_scheme \<Rightarrow> (bool \<times> 'a mstate_scheme) option" where
  "pte_release p oldVal s =
     (if IS_PRESENT oldVal then do {
        (t, s) \<leftarrow> pte_target 0 p (oldVal AND PAGE_MASK) s;
        (case t of None \<Rightarrow> Some (False, s)
         | Some (Some pg, _) \<Rightarrow> do { s \<leftarrow> drop_entry (\<lambda>_. True) pg s; Some (True, s) }
         | Some (None, _) \<Rightarrow> Some (True, s))
      } else Some (True, s))"

definition UpdatePte :: "u32 \<Rightarrow> page \<Rightarrow> u32 \<Rightarrow> u32 \<Rightarrow> 'a mstate_scheme \<Rightarrow> (s32 \<times> u32 \<times> 'a mstate_scheme) option" where
  "UpdatePte junk pagePte pAddr val s = do {
     (vPte, s) \<leftarrow> VCacheMapPage pAddr pagePte s;
     (oldVal, s) \<leftarrow> ReadByPassMmuWord vPte s;
     s \<leftarrow> VCacheUnlockPage pagePte s;
     p \<leftarrow> cur_part s;
     (val', s) \<leftarrow> pte_install junk p val s;
     (case val' of None \<Rightarrow> Some (XM_INVALID_PARAM, val, s)
      | Some val' \<Rightarrow> do {
          (ok, s) \<leftarrow> pte_release p oldVal s;
          Some (if ok then XM_OK else XM_INVALID_PARAM, val', s) })
   }"

section \<open>All entries of a page\<close>

text \<open>A loop over the entries of a table; a body that finds no page returns from the whole function.\<close>

fun each_entry :: "(u32 \<Rightarrow> 'a mstate_scheme \<Rightarrow> (bool \<times> 'a mstate_scheme) option) \<Rightarrow> u32 list \<Rightarrow>
    'a mstate_scheme \<Rightarrow> (bool \<times> 'a mstate_scheme) option" where
  "each_entry f [] s = Some (True, s)"
| "each_entry f (a # as) s = do { (go, s) \<leftarrow> f a s; if go then each_entry f as s else Some (False, s) }"

definition entry_addrs :: "u32 \<Rightarrow> nat \<Rightarrow> nat \<Rightarrow> u32 list" where
  "entry_addrs v a b = map (\<lambda>e. v + 4 * word_of_nat e) [a..<b]"

definition unset_entry :: "(u32 \<Rightarrow> bool) \<Rightarrow> u32 \<Rightarrow> 'a mstate_scheme \<Rightarrow> (bool \<times> 'a mstate_scheme) option" where
  "unset_entry valid a s = do {
     (w, s) \<leftarrow> ReadByPassMmuWord a s;
     if IS_PRESENT w then do {
       p \<leftarrow> cur_part s;
       (fp, s) \<leftarrow> PmmFindPage (w AND PAGE_MASK) p s;
       (case fp of None \<Rightarrow> Some (False, s)
        | Some (pg, _) \<Rightarrow> do { s \<leftarrow> drop_entry valid pg s; Some (True, s) })
     } else Some (True, s)
   }"

definition UnsetPtd :: "u32 \<Rightarrow> page \<Rightarrow> u32 \<Rightarrow> 'a mstate_scheme \<Rightarrow> 'a mstate_scheme option" where
  "UnsetPtd pAddr pagePtd type s = do {
     (vPtd, s) \<leftarrow> VCacheMapPage pAddr pagePtd s;
     (go, s) \<leftarrow> each_entry (unset_entry IS_VALID_PTD_ENTRY) (entry_addrs vPtd 0 USER_PTD_ENTRIES) s;
     if go then VCacheUnlockPage pagePtd s else Some s
   }"

definition UnsetPte :: "u32 \<Rightarrow> page \<Rightarrow> u32 \<Rightarrow> 'a mstate_scheme \<Rightarrow> 'a mstate_scheme option" where
  "UnsetPte pAddr pagePte type s = do {
     (vPte, s) \<leftarrow> VCacheMapPage pAddr pagePte s;
     (go, s) \<leftarrow> each_entry (unset_entry (\<lambda>_. True)) (entry_addrs vPte 0 1024) s;
     if go then VCacheUnlockPage pagePte s else Some s
   }"

definition set_ptd_entry :: "u32 \<Rightarrow> 'a mstate_scheme \<Rightarrow> (bool \<times> 'a mstate_scheme) option" where
  "set_ptd_entry a s = do {
     (w, s) \<leftarrow> ReadByPassMmuWord a s;
     if IS_PRESENT w then do {
       p \<leftarrow> cur_part s;
       (fp, s) \<leftarrow> PmmFindPage (w AND PAGE_MASK) p s;
       (case fp of None \<Rightarrow> Some (False, s)
        | Some (pg, _) \<Rightarrow> do {
            y \<leftarrow> page_get pg s;
            if \<not> IS_VALID_PTD_ENTRY (pg_type y) then do {
              s \<leftarrow> WriteByPassMmuWord a (w AND NOT PG_ARCH_PRESENT) (log_audit (AuditVmmInvalidPtde w) s);
              Some (True, s) }
            else do { s \<leftarrow> PPagIncCounter pg s; Some (True, s) } })
     } else Some (True, s)
   }"

text \<open>The entries of the kernel, above CONFIG_XM_OFFSET, are those of \<open>_pgTables\<close>.\<close>

definition SetupPtdL1 :: "u32 \<Rightarrow> 'a mstate_scheme \<Rightarrow> 'a mstate_scheme option" where
  "SetupPtdL1 ptdL1 s = ofold (\<lambda>e s. kwrite_u32 (ptdL1 + 4 * word_of_nat e) (kptd s e) s) [VA2PtdL1 XM_OFFSET..<1024] s"

definition SetPtd :: "u32 \<Rightarrow> page \<Rightarrow> u32 \<Rightarrow> 'a mstate_scheme \<Rightarrow> 'a mstate_scheme option" where
  "SetPtd pAddr pagePtd type s = do {
     (vPtd, s) \<leftarrow> VCacheMapPage pAddr pagePtd s;
     (go, s) \<leftarrow> each_entry set_ptd_entry (entry_addrs vPtd 0 USER_PTD_ENTRIES) s;
     if go then do {
       s \<leftarrow> (if type = PPAG_PTDL1 then SetupPtdL1 vPtd s else Some s);
       VCacheUnlockPage pagePtd s }
     else Some s
   }"

text \<open>\<open>SET_PTE_UNCACHED(x)\<close> is \<open>x & ~_PG_ARCH_PCD\<close>.\<close>

definition set_pte_entry :: "u32 \<Rightarrow> 'a mstate_scheme \<Rightarrow> (bool \<times> 'a mstate_scheme) option" where
  "set_pte_entry a s = do {
     (w, s) \<leftarrow> ReadByPassMmuWord a s;
     if IS_PRESENT w then do {
       p \<leftarrow> cur_part s;
       (fp, s) \<leftarrow> PmmFindPage (w AND PAGE_MASK) p s;
       (fl, s) \<leftarrow> (case fp of Some (_, fl) \<Rightarrow> Some (Some fl, s) | None \<Rightarrow> PmmFindAddr (w AND PAGE_MASK) p s);
       (case fl of None \<Rightarrow> Some (False, s)
        | Some fl \<Rightarrow> do {
            let w = clr_attr PG_ARCH_RW (has_flag fl XM_MEM_AREA_READONLY) w;
            let w = clr_attr PG_ARCH_PCD (has_flag fl XM_MEM_AREA_UNCACHEABLE) w;
            (w, s) \<leftarrow> (case fp of None \<Rightarrow> Some (w, s)
               | Some (pg, _) \<Rightarrow> do {
                   y \<leftarrow> page_get pg s;
                   s \<leftarrow> PPagIncCounter pg s;
                   Some (clr_attr PG_ARCH_RW (pg_type y \<noteq> PPAG_STD) w, s) });
            s \<leftarrow> WriteByPassMmuWord a w s;
            Some (True, s) })
     } else Some (True, s)
   }"

definition SetPte :: "u32 \<Rightarrow> page \<Rightarrow> u32 \<Rightarrow> 'a mstate_scheme \<Rightarrow> 'a mstate_scheme option" where
  "SetPte pAddr pagePte type s = do {
     (vPte, s) \<leftarrow> VCacheMapPage pAddr pagePte s;
     (go, s) \<leftarrow> each_entry set_pte_entry (entry_addrs vPte 0 1024) s;
     if go then VCacheUnlockPage pagePte s else Some s
   }"

section \<open>The hypercalls\<close>

definition NR_PPAG :: u32 where "NR_PPAG = 3"

text \<open>The tables of handlers by page type; memory has none.\<close>

definition UpdatePPag32Hndl :: "u32 \<Rightarrow> u32 \<Rightarrow> page \<Rightarrow> u32 \<Rightarrow> u32 \<Rightarrow> 'a mstate_scheme \<Rightarrow> (s32 \<times> u32 \<times> 'a mstate_scheme) option" where
  "UpdatePPag32Hndl junk type pg pAddr val s =
     (if type = PPAG_STD then Some (XM_OK, val, s)
      else if type = PPAG_PTDL1 then UpdatePtd pg pAddr val s
      else if type = PPAG_PTDL2 then UpdatePte junk pg pAddr val s
      else None)"

definition UnsetPPagTypeHndl :: "u32 \<Rightarrow> u32 \<Rightarrow> page \<Rightarrow> u32 \<Rightarrow> 'a mstate_scheme \<Rightarrow> 'a mstate_scheme option" where
  "UnsetPPagTypeHndl old pAddr pg type s =
     (if old = PPAG_STD then Some s else if old = PPAG_PTDL1 then UnsetPtd pAddr pg type s
      else if old = PPAG_PTDL2 then UnsetPte pAddr pg type s else None)"

definition SetPPagTypeHndl :: "u32 \<Rightarrow> u32 \<Rightarrow> page \<Rightarrow> 'a mstate_scheme \<Rightarrow> 'a mstate_scheme option" where
  "SetPPagTypeHndl type pAddr pg s =
     (if type = PPAG_STD then Some s else if type = PPAG_PTDL1 then SetPtd pAddr pg type s
      else if type = PPAG_PTDL2 then SetPte pAddr pg type s else None)"

definition UpdatePage32Sys :: "u32 \<Rightarrow> u32 \<Rightarrow> u32 \<Rightarrow> 'a mstate_scheme \<Rightarrow> (s32 \<times> 'a mstate_scheme) option" where
  "UpdatePage32Sys junk pAddr val s =
     (if pAddr AND 3 \<noteq> 0 then Some (XM_INVALID_PARAM, s)
      else do {
        p \<leftarrow> cur_part s;
        (fp, s) \<leftarrow> PmmFindPage pAddr p s;
        (case fp of None \<Rightarrow> Some (XM_INVALID_PARAM, s)
         | Some (pg, _) \<Rightarrow> do {
             x \<leftarrow> page_get pg s;
             (r, val, s) \<leftarrow> UpdatePPag32Hndl junk (pg_type x) pg pAddr val s;
             if r < 0 then Some (XM_INVALID_PARAM, s)
             else do {
               (addr, s) \<leftarrow> VCacheMapPage pAddr pg s;
               s \<leftarrow> WriteByPassMmuWord addr val s;
               s \<leftarrow> VCacheUnlockPage pg s;
               Some (XM_OK, s)
             }
           })
      })"

definition SetPageTypeSys :: "u32 \<Rightarrow> u32 \<Rightarrow> 'a mstate_scheme \<Rightarrow> (s32 \<times> 'a mstate_scheme) option" where
  "SetPageTypeSys pAddr type s =
     (if type \<ge> NR_PPAG then Some (XM_INVALID_PARAM, s)
      else do {
        p \<leftarrow> cur_part s;
        (fp, s) \<leftarrow> PmmFindPage pAddr p s;
        (case fp of None \<Rightarrow> Some (XM_INVALID_PARAM, s)
         | Some (pg, _) \<Rightarrow> do {
             x \<leftarrow> page_get pg s;
             if type = pg_type x then Some (XM_NO_ACTION, s)
             else if pg_counter x \<noteq> 0
             then Some (XM_OP_NOT_ALLOWED, log_audit (AuditVmmCounted pAddr (ucast (pg_counter x))) s)
             else do {
               s \<leftarrow> UnsetPPagTypeHndl (pg_type x) pAddr pg type s;
               s \<leftarrow> SetPPagTypeHndl type pAddr pg s;
               Some (XM_OK, page_upd pg (\<lambda>x. x\<lparr>pg_type := type\<rparr>) s)
             }
           })
      })"

end
