(* ===== verification/Arch.thy ===== *)
theory Arch
  imports MmuCalls
begin

text \<open>
  The x86 state of the virtual processors: the part of the control table of
  core/include/arch/guest.h, the saved machine state of core/include/arch/kthread.h with the
  descriptor tables of core/include/arch/segments.h, and the registers of the processor. The
  switch of core/kernel/arch/kthread.c from one thread to another and the hypercalls of
  core/kernel/arch/hypercalls.c. None is a failed assertion, a null pointer, an index outside a
  table, or an access to guest memory that is not mapped or that lies in the hypervisor.
\<close>

section \<open>Data\<close>

text \<open>A segment descriptor, a gate and a table register.\<close>

record x86Desc =
  d_high :: u32
  d_low :: u32

record x86Gate =
  gt_high0 :: u32
  gt_low0 :: u32

record x86DescReg =
  dr_limit :: u16
  dr_linearBase :: u32

record pctArch =
  pa_gdtr :: x86DescReg
  pa_idtr :: x86DescReg
  pa_maxIdtVec :: u32
  pa_cr4 :: u32
  pa_cr3 :: u32
  pa_cr2 :: u32
  pa_cr0 :: u32

record kThreadArch =
  ka_ptdL1 :: u32
  ka_cr0 :: u32
  ka_cr4 :: u32
  ka_fpCtxt :: "u8 list"
  ka_gdtr :: x86DescReg
  ka_gdtTab :: "x86Desc list"
  ka_idtr :: x86DescReg
  ka_idtTab :: "x86Gate list"
  ka_ss0 :: u16
  ka_sp0 :: u32
  ka_ss1 :: u16
  ka_sp1 :: u32
  ka_ss2 :: u16
  ka_sp2 :: u32
  ka_ioBitmapOffset :: u16
  ka_ioMap :: "u32 list"

text \<open>The context of an interrupted thread: the words the kernel reads or changes.\<close>

record cpuCtxt =
  cx_irqNr :: u32
  cx_eCode :: u32
  cx_ip :: u32
  cx_cs :: u32
  cx_flags :: u32
  cx_sp :: u32
  cx_ss :: u32

text \<open>
  The registers of the processor: the control registers, the FPU image, the table registers and
  the task register. \<open>xmPtd\<close> is the physical address of \<open>_pgTables\<close>; \<open>gdtAddr\<close>, \<open>idtAddr\<close> and
  \<open>kStackTop\<close> are the addresses of the tables in \<open>kArch\<close> and of the end of the kernel stack.
\<close>

record astate = mstate +
  archPct :: "addr \<Rightarrow> pctArch"
  kArch :: "addr \<Rightarrow> kThreadArch"
  irqCpuCtxt :: "addr \<Rightarrow> cpuCtxt option"
  gdtTab :: "x86Desc list"
  idtTab :: "x86Gate list"
  cpu_cr0 :: u32
  cpu_cr2 :: u32
  cpu_cr3 :: u32
  cpu_cr4 :: u32
  cpu_fpu :: "u8 list"
  cpu_gdtr :: x86DescReg
  cpu_idtr :: x86DescReg
  cpu_tr :: u16
  xmPtd :: u32
  gdtAddr :: "addr \<Rightarrow> u32"
  idtAddr :: "addr \<Rightarrow> u32"
  kStackTop :: "addr \<Rightarrow> u32"

definition CR0_PE :: u32 where "CR0_PE = 1"
definition CR0_EM :: u32 where "CR0_EM = 4"
definition CR0_TS :: u32 where "CR0_TS = 8"
definition CR0_ET :: u32 where "CR0_ET = 0x10"
definition CR0_WP :: u32 where "CR0_WP = 0x10000"
definition CR0_NW :: u32 where "CR0_NW = 0x20000000"
definition CR0_CD :: u32 where "CR0_CD = 0x40000000"
definition CR0_PG :: u32 where "CR0_PG = 0x80000000"
definition CR4_PSE :: u32 where "CR4_PSE = 0x10"
definition CR4_PAE :: u32 where "CR4_PAE = 0x20"
definition CR4_PGE :: u32 where "CR4_PGE = 0x80"
definition CPU_FLAG_IF :: u32 where "CPU_FLAG_IF = 0x200"
definition CPU_FLAG_IOPL :: u32 where "CPU_FLAG_IOPL = 0x3000"

lemmas cr_defs = CR0_PE_def CR0_EM_def CR0_TS_def CR0_ET_def CR0_WP_def CR0_NW_def CR0_CD_def CR0_PG_def
  CR4_PSE_def CR4_PAE_def CR4_PGE_def

definition CONFIG_PARTITION_NO_GDT_ENTRIES :: nat where "CONFIG_PARTITION_NO_GDT_ENTRIES = 32"
definition XM_GDT_ENTRIES :: nat where "XM_GDT_ENTRIES = 12"
definition IDT_ENTRIES :: nat where "IDT_ENTRIES = 256"
definition FIRST_EXTERNAL_VECTOR :: nat where "FIRST_EXTERNAL_VECTOR = 0x20"
definition FIRST_USER_IRQ_VECTOR :: int where "FIRST_USER_IRQ_VECTOR = 0x30"
definition PERCPU_IDX :: nat where "PERCPU_IDX = 9 + CONFIG_PARTITION_NO_GDT_ENTRIES"
definition TSS_IDX :: nat where "TSS_IDX = 10 + CONFIG_PARTITION_NO_GDT_ENTRIES"
definition DS_SEL :: u16 where "DS_SEL = 304"
definition TSS_SEL :: u16 where "TSS_SEL = 336"

lemmas seg_defs = CONFIG_PARTITION_NO_GDT_ENTRIES_def XM_GDT_ENTRIES_def IDT_ENTRIES_def PERCPU_IDX_def TSS_IDX_def

definition ka_upd :: "addr \<Rightarrow> (kThreadArch \<Rightarrow> kThreadArch) \<Rightarrow> 'a astate_scheme \<Rightarrow> 'a astate_scheme" where
  "ka_upd k f s = s\<lparr>kArch := (kArch s)(k := f (kArch s k))\<rparr>"

definition pa_upd :: "addr \<Rightarrow> (pctArch \<Rightarrow> pctArch) \<Rightarrow> 'a astate_scheme \<Rightarrow> 'a astate_scheme" where
  "pa_upd k f s = s\<lparr>archPct := (archPct s)(k := f (archPct s k))\<rparr>"

text \<open>\<open>sched->cKThread->ctrl.g\<close> and \<open>->partCtrlTab\<close> are not null.\<close>

definition cur_guest :: "'a kstate_scheme \<Rightarrow> guest option" where
  "cur_guest s = k_g (kthreads s (cKThread s))"

definition cur_pct :: "'a kstate_scheme \<Rightarrow> partitionControlTable_t option" where
  "cur_pct s = k_pct (kthreads s (cKThread s))"

section \<open>The switch between threads\<close>

text \<open>fnsave stores the image and leaves the FPU as fninit does: new control, status and tag words.\<close>

definition fpu_reset :: "u8 list \<Rightarrow> u8 list" where
  "fpu_reset img = [0x7f, 3, 0xff, 0xff, 0, 0, 0xff, 0xff, 0xff, 0xff, 0xff, 0xff] @ replicate 16 0 @ drop 28 img"

definition SaveFpuState :: "addr \<Rightarrow> 'a astate_scheme \<Rightarrow> 'a astate_scheme" where
  "SaveFpuState k s = (ka_upd k (\<lambda>a. a\<lparr>ka_fpCtxt := cpu_fpu s\<rparr>) s)\<lparr>cpu_fpu := fpu_reset (cpu_fpu s)\<rparr>"

text \<open>The busy bit of a task descriptor is bit 1 of its access byte: TssClearBusy clears it, ltr sets it.\<close>

definition TssClearBusy :: "addr \<Rightarrow> 'a astate_scheme \<Rightarrow> 'a astate_scheme" where
  "TssClearBusy k = ka_upd k (\<lambda>a. a\<lparr>ka_gdtTab := (ka_gdtTab a)[TSS_IDX :=
     (ka_gdtTab a ! TSS_IDX)\<lparr>d_low := clr_flag (d_low (ka_gdtTab a ! TSS_IDX)) 0x200\<rparr>]\<rparr>)"

definition LoadTr :: "addr \<Rightarrow> 'a astate_scheme \<Rightarrow> 'a astate_scheme" where
  "LoadTr k s = (ka_upd k (\<lambda>a. a\<lparr>ka_gdtTab := (ka_gdtTab a)[TSS_IDX :=
     (ka_gdtTab a ! TSS_IDX)\<lparr>d_low := set_flag (d_low (ka_gdtTab a ! TSS_IDX)) 0x200\<rparr>]\<rparr>) s)\<lparr>cpu_tr := TSS_SEL\<rparr>"

definition switch_out :: "addr \<Rightarrow> 'a astate_scheme \<Rightarrow> 'a astate_scheme" where
  "switch_out current s =
     (if k_g (kthreads s current) \<noteq> None then
        let s = ka_upd current (\<lambda>a. a\<lparr>ka_ptdL1 := cpu_cr3 s, ka_cr0 := cpu_cr0 s\<rparr>) s
        in if \<not> has_flag (ka_cr0 (kArch s current)) CR0_EM then
             SaveFpuState current
               (if has_flag (cpu_cr0 s) CR0_TS then s\<lparr>cpu_cr0 := clr_flag (cpu_cr0 s) CR0_TS\<rparr> else s)
           else s
      else s)"

definition switch_in :: "addr \<Rightarrow> 'a astate_scheme \<Rightarrow> 'a astate_scheme" where
  "switch_in new s =
     (if k_g (kthreads s new) \<noteq> None then
        let s = s\<lparr>cpu_gdtr := ka_gdtr (kArch s new), cpu_idtr := ka_idtr (kArch s new)\<rparr>;
            s = (if ka_ptdL1 (kArch s new) \<noteq> 0 then s\<lparr>cpu_cr3 := ka_ptdL1 (kArch s new)\<rparr> else s)
        in LoadTr new (TssClearBusy new s)
      else s\<lparr>cpu_cr3 := xmPtd s\<rparr>)"

definition SwitchKThreadArchPre :: "addr \<Rightarrow> addr \<Rightarrow> 'a astate_scheme \<Rightarrow> 'a astate_scheme" where
  "SwitchKThreadArchPre new current s = (switch_in new (switch_out current s))\<lparr>cpu_cr0 := CR0_PE OR CR0_PG\<rparr>"

definition SwitchKThreadArchPost :: "addr \<Rightarrow> 'a astate_scheme \<Rightarrow> 'a astate_scheme" where
  "SwitchKThreadArchPost current s =
     (if k_g (kthreads s current) \<noteq> None then
        (if \<not> has_flag (ka_cr0 (kArch s current)) CR0_EM then s\<lparr>cpu_fpu := ka_fpCtxt (kArch s current)\<rparr> else s)
          \<lparr>cpu_cr0 := ka_cr0 (kArch s current)\<rparr>
      else s)"

text \<open>Schedule with the machine state: between the two halves another thread runs.\<close>

definition ScheduleArch :: "'a astate_scheme hm_event \<Rightarrow> nat \<Rightarrow>
    'a astate_scheme \<Rightarrow> 'a astate_scheme option" where
  "ScheduleArch hm fuel s = do {
     let old = cKThread s;
     s \<leftarrow> Schedule hm fuel s;
     Some (if cKThread s \<noteq> old then SwitchKThreadArchPost (cKThread s) (SwitchKThreadArchPre (cKThread s) old s) else s)
   }"

section \<open>The machine state a thread starts with\<close>

definition KThreadArchInit :: "addr \<Rightarrow> 'a astate_scheme \<Rightarrow> 'a astate_scheme" where
  "KThreadArchInit k s =
     (let s = (if AreKThreadFlagsSet k KTHREAD_FP_F s \<noteq> 0 then
                 let s = s\<lparr>cpu_cr0 := cpu_cr0 s AND NOT (CR0_EM OR CR0_TS)\<rparr>
                 in SaveFpuState k (s\<lparr>cpu_fpu := fpu_reset (cpu_fpu s)\<rparr>)
               else s);
          s = ka_upd k (\<lambda>a. a\<lparr>ka_ss0 := DS_SEL, ka_sp0 := kStackTop s k,
                 ka_gdtTab := (ka_gdtTab a)[PERCPU_IDX := gdtTab s ! PERCPU_IDX]\<rparr>) s
      in s\<lparr>cpu_cr0 := cpu_cr0 s OR CR0_WP\<rparr>)"

text \<open>\<open>io\<close> is the entry of the table of I/O ports a partition with ports has.\<close>

definition SetupKThreadArch :: "u32 list option \<Rightarrow> u32 \<Rightarrow> addr \<Rightarrow> 'a astate_scheme \<Rightarrow> 'a astate_scheme option" where
  "SetupKThreadArch io tssDesc k s = do {
     ASSERT (k_g (kthreads s k) \<noteq> None);
     let fp = AreKThreadFlagsSet k KTHREAD_FP_F s \<noteq> 0;
     let n = XM_GDT_ENTRIES + CONFIG_PARTITION_NO_GDT_ENTRIES;
     Some (ka_upd k (\<lambda>a. a\<lparr>
        ka_gdtTab := (take n (gdtTab s))[TSS_IDX := \<lparr>d_high = push_bit 16 (tssDesc AND 0xffff) OR 0x2067,
            d_low = (tssDesc AND 0xff000000) OR 0x8900 OR (drop_bit 16 tssDesc AND 0xff)\<rparr>],
        ka_gdtr := \<lparr>dr_limit = word_of_nat (8 * n - 1), dr_linearBase = gdtAddr s k\<rparr>,
        ka_cr0 := (if fp then CR0_PE OR CR0_PG else (CR0_PE OR CR0_PG) OR CR0_EM),
        ka_idtTab := take IDT_ENTRIES (idtTab s),
        ka_idtr := \<lparr>dr_limit = word_of_nat (8 * IDT_ENTRIES - 1), dr_linearBase = idtAddr s k\<rparr>,
        ka_ioMap := (case io of Some m \<Rightarrow> take 2048 m | None \<Rightarrow> ka_ioMap a),
        ka_ioBitmapOffset := (case io of Some m \<Rightarrow> 104 | None \<Rightarrow> 0xffff)\<rparr>) s)
   }"

definition SetupPctArch :: "addr \<Rightarrow> 'a astate_scheme \<Rightarrow> 'a astate_scheme" where
  "SetupPctArch k s =
     (let fp = AreKThreadFlagsSet k KTHREAD_FP_F s \<noteq> 0;
          s = pa_upd k (\<lambda>p. p\<lparr>pa_cr3 := ka_ptdL1 (kArch s k),
                 pa_cr0 := (if fp then CR0_PE OR CR0_PG else (CR0_PE OR CR0_PG) OR CR0_EM)\<rparr>) s
      in kt_upd k (pct_upd (\<lambda>p. p\<lparr>pct_trap2Vector := map word_of_nat [0..<32] @ drop 32 (pct_trap2Vector p),
            pct_hwIrq2Vector := map (\<lambda>e. word_of_nat (e + FIRST_EXTERNAL_VECTOR)) [0..<16] @ drop 16 (pct_hwIrq2Vector p),
            pct_extIrq2Vector := map (\<lambda>e. word_of_nat (0x90 + e)) [0..<32] @ drop 32 (pct_extIrq2Vector p)\<rparr>)) s)"

end
