(* ===== verification/ArchCalls.thy ===== *)
theory ArchCalls
  imports Arch
begin

text \<open>
  The hypercalls of core/kernel/arch/hypercalls.c: control registers, segment and interrupt tables,
  stacks of the inner rings, the interrupt flag and the return from an interrupt. The tables the
  partition passes are read where they are, in guest memory; a table that lies in the hypervisor
  or in memory that is not mapped is None.
\<close>

section \<open>Descriptors\<close>

definition EMPTY_SEG :: u32 where "EMPTY_SEG = 0"
definition CODE_DATA_SEG :: u32 where "CODE_DATA_SEG = 1"
definition TSS_SEG :: u32 where "TSS_SEG = 2"
definition X86DESC_LOW_P :: u32 where "X86DESC_LOW_P = 0x8000"
definition X86DESC_LOW_S :: u32 where "X86DESC_LOW_S = 0x1000"

definition GetDescBase :: "x86Desc \<Rightarrow> u32" where
  "GetDescBase d = (d_low d AND 0xff000000) OR push_bit 16 (d_low d AND 0xff) OR drop_bit 16 (d_high d)"

definition GetDescLimit :: "x86Desc \<Rightarrow> u32" where
  "GetDescLimit d = (let l = (d_low d AND 0xf0000) OR (d_high d AND 0xffff)
     in if has_flag (d_low d) 0x800000 then push_bit 12 l + 0xfff else l)"

definition DescDpl :: "x86Desc \<Rightarrow> u32" where
  "DescDpl d = drop_bit 13 (d_low d) AND 3"

text \<open>The verdict, the type, and the descriptor with the change the check makes to it.\<close>

definition IsGdtDescValid :: "x86Desc \<Rightarrow> bool \<times> u32 \<times> x86Desc" where
  "IsGdtDescValid d =
     (if \<not> has_flag (d_low d) X86DESC_LOW_P then (True, CODE_DATA_SEG, d)
      else if GetDescLimit d + GetDescBase d > CONFIG_XM_OFFSET then (False, EMPTY_SEG, d)
      else if has_flag (d_low d) X86DESC_LOW_S then
        (if DescDpl d = 0 then (False, CODE_DATA_SEG, d)
         else (True, CODE_DATA_SEG, d\<lparr>d_low := d_low d OR 0x100\<rparr>))
      else if drop_bit 8 (d_low d) AND 0xf = 9 \<or> drop_bit 8 (d_low d) AND 0xf = 0xb then (True, TSS_SEG, d)
      else (False, EMPTY_SEG, d))"

definition IsGateDescValid :: "x86Gate \<Rightarrow> bool" where
  "IsGateDescValid g =
     (if gt_low0 g AND 0x1fe0 = 0xf00 then
        (if (gt_low0 g AND 0xffff0000) OR (gt_high0 g AND 0xffff) \<ge> CONFIG_XM_OFFSET then False
         else drop_bit 16 (gt_high0 g) AND 3 \<noteq> 0)
      else False)"

definition gread_u16 :: "u32 \<Rightarrow> 'a gstate_scheme \<Rightarrow> u16 option" where
  "gread_u16 a s = do { lo \<leftarrow> gread a s; hi \<leftarrow> gread (a + 1) s; Some (push_bit 8 (ucast hi) OR ucast lo) }"

definition gread_desc :: "u32 \<Rightarrow> 'a gstate_scheme \<Rightarrow> x86Desc option" where
  "gread_desc a s = do { h \<leftarrow> gread_u32 a s; l \<leftarrow> gread_u32 (a + 4) s; Some \<lparr>d_high = h, d_low = l\<rparr> }"

definition gread_gate :: "u32 \<Rightarrow> 'a gstate_scheme \<Rightarrow> x86Gate option" where
  "gread_gate a s = do { h \<leftarrow> gread_u32 a s; l \<leftarrow> gread_u32 (a + 4) s; Some \<lparr>gt_high0 = h, gt_low0 = l\<rparr> }"

definition gread_descreg :: "u32 \<Rightarrow> 'a gstate_scheme \<Rightarrow> x86DescReg option" where
  "gread_descreg a s = do { n \<leftarrow> gread_u16 a s; b \<leftarrow> gread_u32 (a + 2) s; Some \<lparr>dr_limit = n, dr_linearBase = b\<rparr> }"

text \<open>The check of a descriptor in guest memory rewrites it there.\<close>

definition check_gdt_desc :: "u32 \<Rightarrow> 'a gstate_scheme \<Rightarrow> (bool \<times> u32 \<times> x86Desc \<times> 'a gstate_scheme) option" where
  "check_gdt_desc a s = do {
     d \<leftarrow> gread_desc a s;
     let (ok, ty, d') = IsGdtDescValid d;
     s \<leftarrow> (if d' = d then Some s else gwrite_u32 (a + 4) (d_low d') s);
     d \<leftarrow> gread_desc a s;
     Some (ok, ty, d, s)
   }"

section \<open>Control registers\<close>

definition X86LoadCr0Sys :: "u32 \<Rightarrow> 'a astate_scheme \<Rightarrow> (s32 \<times> 'a astate_scheme) option" where
  "X86LoadCr0Sys val s =
     (if val AND (CR0_PG OR CR0_PE) \<noteq> CR0_PG OR CR0_PE then Some (XM_OP_NOT_ALLOWED, s)
      else do {
        let k = cKThread s;
        let val = (if AreKThreadFlagsSet k KTHREAD_FP_F s = 0 then val OR CR0_EM else val);
        ASSERT (cur_pct s \<noteq> None);
        let s = pa_upd k (\<lambda>p. p\<lparr>pa_cr0 := val OR CR0_ET\<rparr>) s;
        let val = val AND NOT (CR0_WP OR CR0_CD OR CR0_NW);
        Some (XM_OK, (ka_upd k (\<lambda>a. a\<lparr>ka_cr0 := val\<rparr>) s)\<lparr>cpu_cr0 := val\<rparr>)
      })"

definition X86LoadCr3Sys :: "u32 \<Rightarrow> 'a astate_scheme \<Rightarrow> (s32 \<times> 'a astate_scheme) option" where
  "X86LoadCr3Sys val s =
     (if cpu_cr3 s = val then Some (XM_OK, s)
      else do {
        p \<leftarrow> cur_part s;
        (old, s) \<leftarrow> PmmFindPage (cpu_cr3 s) p s;
        (case old of None \<Rightarrow> Some (XM_INVALID_PARAM, s)
         | Some (oldPg, _) \<Rightarrow> do {
             (new, s) \<leftarrow> PmmFindPage val p s;
             (case new of None \<Rightarrow> Some (XM_INVALID_PARAM, s)
              | Some (newPg, _) \<Rightarrow> do {
                  x \<leftarrow> page_get newPg s;
                  if pg_type x \<noteq> PPAG_PTDL1 then Some (XM_INVALID_PARAM, s)
                  else do {
                    s \<leftarrow> PPagDecCounter oldPg s;
                    s \<leftarrow> PPagIncCounter newPg s;
                    ASSERT (cur_pct s \<noteq> None);
                    let s = ka_upd (cKThread s) (\<lambda>a. a\<lparr>ka_ptdL1 := val\<rparr>) s;
                    let s = pa_upd (cKThread s) (\<lambda>p. p\<lparr>pa_cr3 := val\<rparr>) s;
                    Some (XM_OK, s\<lparr>cpu_cr3 := val\<rparr>)
                  } }) })
      })"

definition X86LoadCr4Sys :: "u32 \<Rightarrow> 'a astate_scheme \<Rightarrow> (s32 \<times> 'a astate_scheme) option" where
  "X86LoadCr4Sys val s =
     (if has_flag val CR4_PAE then Some (XM_OP_NOT_ALLOWED, s)
      else do {
        ASSERT (cur_pct s \<noteq> None);
        let s = pa_upd (cKThread s) (\<lambda>p. p\<lparr>pa_cr4 := val\<rparr>) s;
        let val = val OR (CR4_PSE OR CR4_PGE);
        Some (XM_OK, (ka_upd (cKThread s) (\<lambda>a. a\<lparr>ka_cr4 := val\<rparr>) s)\<lparr>cpu_cr4 := val\<rparr>)
      })"

section \<open>Stacks and tables\<close>

text \<open>A stack of an inner ring: the selector is not of ring 0 and inside the table, the pointer below
  the hypervisor.\<close>

definition bad_stack :: "u32 \<Rightarrow> u32 \<Rightarrow> bool" where
  "bad_stack ss sp \<longleftrightarrow> ss AND 3 = 0 \<or> unat (drop_bit 3 ss) \<ge> CONFIG_PARTITION_NO_GDT_ENTRIES + XM_GDT_ENTRIES \<or>
     sp \<ge> CONFIG_XM_OFFSET"

definition X86LoadTss32Sys :: "u32 \<Rightarrow> 'a astate_scheme \<Rightarrow> (s32 \<times> 'a astate_scheme) option" where
  "X86LoadTss32Sys t s = do {
     chk \<leftarrow> CheckGParam t 104 4 PFLAG_NOT_NULL s;
     if chk < 0 then Some (XM_INVALID_PARAM, s)
     else do {
       ss1 \<leftarrow> gread_u16 (t + 16) s;
       sp1 \<leftarrow> gread_u32 (t + 12) s;
       if bad_stack (ucast ss1) sp1 then Some (XM_INVALID_PARAM, s)
       else do {
         ss2 \<leftarrow> gread_u16 (t + 24) s;
         sp2 \<leftarrow> gread_u32 (t + 20) s;
         if bad_stack (ucast ss2) sp2 then Some (XM_INVALID_PARAM, s)
         else do {
           ASSERT (cur_pct s \<noteq> None);
           let k = cKThread s;
           let s = ka_upd k (\<lambda>a. a\<lparr>ka_ss1 := ss1, ka_sp1 := sp1, ka_ss2 := ss2, ka_sp2 := sp2\<rparr>) s;
           let s = pa_upd k (\<lambda>p. p\<lparr>pa_cr0 := pa_cr0 p OR CR0_TS\<rparr>) s;
           let s = ka_upd k (\<lambda>a. a\<lparr>ka_cr0 := ka_cr0 a OR CR0_TS\<rparr>) s;
           Some (XM_OK, s\<lparr>cpu_cr0 := ka_cr0 (kArch s k)\<rparr>)
         }
       }
     }
   }"

definition X86UpdateSsSpSys :: "u32 \<Rightarrow> u32 \<Rightarrow> u32 \<Rightarrow> 'a astate_scheme \<Rightarrow> (s32 \<times> 'a astate_scheme) option" where
  "X86UpdateSsSpSys ss sp level s =
     (if bad_stack ss sp then Some (XM_INVALID_PARAM, s)
      else do {
        ASSERT (cur_guest s \<noteq> None);
        if level = 1 then Some (XM_OK, ka_upd (cKThread s) (\<lambda>a. a\<lparr>ka_ss1 := ucast ss, ka_sp1 := sp\<rparr>) s)
        else if level = 2 then Some (XM_OK, ka_upd (cKThread s) (\<lambda>a. a\<lparr>ka_ss2 := ucast ss, ka_sp2 := sp\<rparr>) s)
        else Some (XM_INVALID_PARAM, s)
      })"

text \<open>One entry of the loop of X86LoadGdtSys: an accepted code or data segment goes to the thread's
  table and to the table of the processor.\<close>

definition load_gdt_entry :: "u32 \<Rightarrow> nat \<Rightarrow> 'a astate_scheme \<Rightarrow> 'a astate_scheme option" where
  "load_gdt_entry base e s = do {
     (ok, ty, d, s) \<leftarrow> check_gdt_desc (base + word_of_nat (8 * e)) s;
     if ok \<and> ty = CODE_DATA_SEG
     then Some ((ka_upd (cKThread s) (\<lambda>a. a\<lparr>ka_gdtTab := (ka_gdtTab a)[e := d]\<rparr>) s)\<lparr>gdtTab := (gdtTab s)[e := d]\<rparr>)
     else Some s
   }"

definition X86LoadGdtSys :: "u32 \<Rightarrow> 'a astate_scheme \<Rightarrow> (s32 \<times> 'a astate_scheme) option" where
  "X86LoadGdtSys desc s = do {
     chk \<leftarrow> CheckGParam desc 6 4 PFLAG_NOT_NULL s;
     if chk < 0 then Some (XM_INVALID_PARAM, s)
     else do {
       r \<leftarrow> gread_descreg desc s;
       let n = (unat (dr_limit r) + 1) div 8;
       if n > CONFIG_PARTITION_NO_GDT_ENTRIES then Some (XM_INVALID_PARAM, s)
       else do {
         ASSERT (cur_pct s \<noteq> None);
         let s = pa_upd (cKThread s) (\<lambda>p. p\<lparr>pa_gdtr := r\<rparr>) s;
         let s = ka_upd (cKThread s) (\<lambda>a. a\<lparr>ka_gdtTab :=
                   replicate CONFIG_PARTITION_NO_GDT_ENTRIES \<lparr>d_high = 0, d_low = 0\<rparr>
                   @ drop CONFIG_PARTITION_NO_GDT_ENTRIES (ka_gdtTab a)\<rparr>) s;
         s \<leftarrow> ofold (load_gdt_entry (dr_linearBase r)) [0..<n] s;
         Some (XM_OK, s)
       }
     }
   }"

definition X86LoadIdtrSys :: "u32 \<Rightarrow> 'a astate_scheme \<Rightarrow> (s32 \<times> 'a astate_scheme) option" where
  "X86LoadIdtrSys desc s = do {
     chk \<leftarrow> CheckGParam desc 6 4 PFLAG_NOT_NULL s;
     if chk < 0 then Some (XM_INVALID_PARAM, s)
     else do {
       r \<leftarrow> gread_descreg desc s;
       ASSERT (cur_pct s \<noteq> None);
       Some (XM_OK, pa_upd (cKThread s) (\<lambda>p. p\<lparr>pa_idtr := r,
         pa_maxIdtVec := word_of_nat ((unat (dr_limit r) + 1) div 8)\<rparr>) s)
     }
   }"

text \<open>A negative entry passes the guard and writes before the table.\<close>

definition X86UpdateGdtSys :: "s32 \<Rightarrow> u32 \<Rightarrow> 'a astate_scheme \<Rightarrow> (s32 \<times> 'a astate_scheme) option" where
  "X86UpdateGdtSys e gdt s = do {
     chk \<leftarrow> CheckGParam gdt 8 4 PFLAG_NOT_NULL s;
     if chk < 0 then Some (XM_INVALID_PARAM, s)
     else if e \<ge> int CONFIG_PARTITION_NO_GDT_ENTRIES then Some (XM_INVALID_PARAM, s)
     else do {
       (ok, ty, d, s) \<leftarrow> check_gdt_desc gdt s;
       if ok \<and> ty = CODE_DATA_SEG then do {
         ASSERT (cur_guest s \<noteq> None);
         ASSERT (0 \<le> e);
         Some (XM_OK, ka_upd (cKThread s) (\<lambda>a. a\<lparr>ka_gdtTab := (ka_gdtTab a)[nat e := d]\<rparr>) s)
       } else Some (XM_INVALID_PARAM, s)
     }
   }"

definition X86UpdateIdtSys :: "s32 \<Rightarrow> u32 \<Rightarrow> 'a astate_scheme \<Rightarrow> (s32 \<times> 'a astate_scheme) option" where
  "X86UpdateIdtSys e desc s = do {
     chk \<leftarrow> CheckGParam desc 8 4 PFLAG_NOT_NULL s;
     if chk < 0 then Some (XM_INVALID_PARAM, s)
     else if e < FIRST_USER_IRQ_VECTOR \<or> e \<ge> int IDT_ENTRIES then Some (XM_INVALID_PARAM, s)
     else do {
       g \<leftarrow> gread_gate desc s;
       if has_flag (gt_low0 g) 0x8000 \<and> \<not> IsGateDescValid g then Some (XM_INVALID_PARAM, s)
       else do {
         ASSERT (cur_guest s \<noteq> None);
         Some (XM_OK, ka_upd (cKThread s) (\<lambda>a. a\<lparr>ka_idtTab := (ka_idtTab a)[nat e := g]\<rparr>) s)
       }
     }
   }"

section \<open>The interrupt flag and the return from an interrupt\<close>

definition X86SetIFSys :: "'a astate_scheme \<Rightarrow> 'a astate_scheme option" where
  "X86SetIFSys s = do {
     ASSERT (cur_pct s \<noteq> None);
     Some (kt_upd (cKThread s) (pct_upd (\<lambda>p. p\<lparr>pct_iFlags := set_flag (pct_iFlags p) CPU_FLAG_IF\<rparr>)) s)
   }"

definition X86ClearIFSys :: "'a astate_scheme \<Rightarrow> 'a astate_scheme option" where
  "X86ClearIFSys s = do {
     ASSERT (cur_pct s \<noteq> None);
     Some (kt_upd (cKThread s) (pct_upd (\<lambda>p. p\<lparr>pct_iFlags := clr_flag (pct_iFlags p) CPU_FLAG_IF\<rparr>)) s)
   }"

text \<open>The frame on the guest's stack: ip, cs, flags, and sp and ss when the ring changes.\<close>

definition X86IRetSys :: "'a astate_scheme \<Rightarrow> 'a astate_scheme option" where
  "X86IRetSys s = do {
     let k = cKThread s;
     ctxt \<leftarrow> irqCpuCtxt s k;
     ip \<leftarrow> gread_u32 (cx_sp ctxt) s;
     cs \<leftarrow> gread_u32 (cx_sp ctxt + 4) s;
     flags \<leftarrow> gread_u32 (cx_sp ctxt + 8) s;
     ctxt \<leftarrow> (if cs AND 3 \<noteq> cx_cs ctxt AND 3 then do {
                sp \<leftarrow> gread_u32 (cx_sp ctxt + 12) s;
                ss \<leftarrow> gread_u32 (cx_sp ctxt + 16) s;
                Some (ctxt\<lparr>cx_sp := sp, cx_ss := ss\<rparr>)
              } else Some (ctxt\<lparr>cx_sp := cx_sp ctxt + 12\<rparr>));
     let ctxt = ctxt\<lparr>cx_flags := flags, cx_ip := ip, cx_cs := cs\<rparr>;
     ASSERT (cur_pct s \<noteq> None);
     let s = kt_upd k (pct_upd (\<lambda>p. p\<lparr>pct_iFlags := cx_flags ctxt AND CPU_FLAG_IF\<rparr>)) s;
     let ctxt = ctxt\<lparr>cx_flags := clr_flag (set_flag (cx_flags ctxt) CPU_FLAG_IF) CPU_FLAG_IOPL\<rparr>;
     Some (s\<lparr>irqCpuCtxt := (irqCpuCtxt s)(k := Some ctxt)\<rparr>)
   }"

definition OverrideTrapHndlSys :: "s32 \<Rightarrow> u32 \<Rightarrow> 'a astate_scheme \<Rightarrow> (s32 \<times> 'a astate_scheme) option" where
  "OverrideTrapHndlSys e handler s = Some (XM_OK, s)"

end
