(* ===== verification/VmMap.thy ===== *)
theory VmMap
  imports Arch
begin

text \<open>
  The page tables a partition starts with: core/kernel/mmu/vmmap.c, SetupVmMap and VmMapUserPage
  of core/kernel/arch/vmmap.c, PmmResetPartition of core/kernel/mmu/physmm.c and the window of
  core/kernel/arch/physmm.c. A page table in use is reached through the window of its page in the
  kernel's address space. The pool the tables of a partition are taken from is passed along as its
  next address and its remaining size, a signed word. None is a failed assertion, a null pointer,
  an index outside a table, or a loop over addresses that does not end.
\<close>

section \<open>Data\<close>

record xefCustomFile =
  cf_sAddr :: u32
  cf_size :: u32

record xmcBootPart =
  bp_flags :: u32
  bp_hdrPhysAddr :: u32
  bp_entryPoint :: u32
  bp_imgStart :: u32
  bp_imgSize :: u32
  bp_noCustomFiles :: u32
  bp_customFileTab :: "xefCustomFile list"

text \<open>
  What the loader of partitions adds to the state: the table of boot images, and for each partition
  the array of its control tables, the address of its image and the stack of its loader. \<open>sldr\<close> and
  \<open>eldr\<close> are the ends of the loader's code, \<open>ldrStackMem\<close> the memory GET_MEMA returns for a stack.
\<close>

record vstate = astate +
  xmcBootPartTab :: "xmcBootPart list"
  p_pctArray :: "nat \<Rightarrow> u32"
  p_pctArraySize :: "nat \<Rightarrow> u32"
  p_imgStart :: "nat \<Rightarrow> u32"
  p_vLdrStack :: "nat \<Rightarrow> u32"
  sldr :: u32
  eldr :: u32
  ldrStackMem :: "nat \<Rightarrow> u32"

definition PTDL1SIZE :: u32 where "PTDL1SIZE = 4096"
definition PTDL2SIZE :: u32 where "PTDL2SIZE = 4096"
definition LPAGE_SIZE :: u32 where "LPAGE_SIZE = 0x400000"
definition LPAGE_MASK :: u32 where "LPAGE_MASK = 0xFFC00000"
definition PG_ARCH_GLOBAL :: u32 where "PG_ARCH_GLOBAL = 0x100"
definition XM_PCTRLTAB_ADDR :: u32 where "XM_PCTRLTAB_ADDR = XM_OFFSET - 0x40000"
definition LDR_SIZE :: u32 where "LDR_SIZE = 0x40000"
definition LDR_STACK_SIZE :: u32 where "LDR_STACK_SIZE = 18 * 4096"
definition CONFIG_MAX_NO_CUSTOMFILES :: nat where "CONFIG_MAX_NO_CUSTOMFILES = 3"

definition PHYS2VIRT :: "u32 \<Rightarrow> u32" where
  "PHYS2VIRT x = x + XM_OFFSET - XM_LOAD_ADDR"

definition ROUNDUP :: "u32 \<Rightarrow> u32 \<Rightarrow> u32" where
  "ROUNDUP a p = ((NOT a + 1) AND (p - 1)) + a"

section \<open>The hypervisor's own map\<close>

text \<open>The large pages of the hypervisor: its memory at its own address and at the physical one. The
  directory is \<open>kptd\<close>; \<open>n\<close> pages remain.\<close>

fun map_large :: "nat \<Rightarrow> u32 \<Rightarrow> (nat \<Rightarrow> u32) \<Rightarrow> nat \<Rightarrow> u32" where
  "map_large 0 page d = d"
| "map_large (Suc n) page d =
     (let e = (VIRT2PHYS page AND LPAGE_MASK) OR PG_ARCH_PRESENT OR PG_ARCH_PSE OR PG_ARCH_RW OR PG_ARCH_GLOBAL
      in map_large n (page + LPAGE_SIZE) (d(VA2PtdL1 page := e, VA2PtdL1 (VIRT2PHYS page) := e)))"

fun map_frames :: "nat \<Rightarrow> nat \<Rightarrow> u32 \<Rightarrow> (nat \<Rightarrow> u32) \<Rightarrow> nat \<Rightarrow> u32" where
  "map_frames 0 e rsv d = d"
| "map_frames (Suc n) e rsv d =
     (if e < 1024 then map_frames n (Suc e) (rsv + PTDL2SIZE)
        (d(e := (VIRT2PHYS rsv AND PAGE_MASK) OR PG_ARCH_PRESENT OR PG_ARCH_RW))
      else d)"

text \<open>\<open>rsv\<close> is the reserved memory for the tables of the frames, which GET_MEMAZ clears: no frame is
  mapped. The result has the start and the number of the frames.\<close>

definition SetupVmMap :: "u32 \<Rightarrow> nat \<Rightarrow> 'a mstate_scheme \<Rightarrow> (u32 \<times> s32 \<times> 'a mstate_scheme) option" where
  "SetupVmMap rsv area s = do {
     m \<leftarrow> aget (xmcPhysMemAreaTab (cfg s)) area;
     let st = ma_startAddr m;
     let e = st + ma_size m - 1;
     let frames = ROUNDUP (PHYS2VIRT (e + 1)) LPAGE_SIZE;
     let noFr = sint (drop_bit 12 (0xffffffff - frames + 1));
     let large = (unat (PHYS2VIRT e) - unat (PHYS2VIRT st) + unat LPAGE_SIZE - 1) div unat LPAGE_SIZE;
     let noPages = unat (drop_bit 22 (0xffffffff - frames + 1));
     Some (frames, noFr,
       s\<lparr>kptd := map_frames noPages (VA2PtdL1 frames) rsv (map_large large (PHYS2VIRT st) (kptd s)),
         kpt := (\<lambda>v. if VA2PtdL1 v \<ge> VA2PtdL1 frames then 0 else kpt s v)\<rparr>)
   }"

section \<open>Memory for the tables\<close>

fun VAddr2PAddr :: "xmcMemoryArea list \<Rightarrow> u32 \<Rightarrow> u32" where
  "VAddr2PAddr [] v = - 1"
| "VAddr2PAddr (m # ms) v =
     (if ma_mappedAt m \<le> v \<and> (ma_mappedAt m + ma_size m) - 1 \<ge> v then v - ma_mappedAt m + ma_startAddr m
      else VAddr2PAddr ms v)"

definition cfg_areas :: "xmcPartition \<Rightarrow> xmc \<Rightarrow> xmcMemoryArea list option" where
  "cfg_areas c x = (let o' = unat (pc_physicalMemoryAreasOffset c); n = nat (pc_noPhysicalMemoryAreas c)
     in if o' + n \<le> length (xmcPhysMemAreaTab x) then Some (take n (drop o' (xmcPhysMemAreaTab x))) else None)"

text \<open>The words are cleared at the address of the pool as if it were physical; the result is what
  VAddr2PAddr makes of that address.\<close>

definition AllocMem :: "xmcPartition \<Rightarrow> u32 \<Rightarrow> u32 \<Rightarrow> u32 \<times> u32 \<Rightarrow> 'a mstate_scheme \<Rightarrow>
    (u32 \<times> (u32 \<times> u32) \<times> 'a mstate_scheme) option" where
  "AllocMem c sz align p s = do {
     let (pool, maxSize) = p;
     let off = pool AND (align - 1);
     let maxSize = (if off \<noteq> 0 then maxSize - (align - off) else maxSize);
     let pool = (if off \<noteq> 0 then align + (pool AND NOT (align - 1)) else pool);
     let addr = pool;
     let pool = pool + sz;
     let maxSize = maxSize - sz;
     if sint maxSize < 0 then Some (- 1, (pool, maxSize), s)
     else do {
       s \<leftarrow> ofold (\<lambda>e. WriteByPassMmuWord (addr + 4 * word_of_nat e) 0) [0..<(unat sz + 3) div 4] s;
       ms \<leftarrow> cfg_areas c (cfg s);
       Some (VAddr2PAddr ms addr, (pool, maxSize), s)
     }
   }"

section \<open>One page of a partition\<close>

text \<open>The table for the directory entry: a new one, or the one that is there. False is the failure
  \<open>return -1\<close>.\<close>

definition user_table :: "partition_t \<Rightarrow> u32 \<Rightarrow> u32 \<Rightarrow> u32 \<times> u32 \<Rightarrow> 'a mstate_scheme \<Rightarrow>
    ((page \<times> u32) option \<times> (u32 \<times> u32) \<times> 'a mstate_scheme) option" where
  "user_table p ptd l1 pool s = do {
     d \<leftarrow> kread_u32 (ptd + 4 * l1) s;
     if \<not> has_flag d PG_ARCH_PRESENT then do {
       c \<leftarrow> part_cfg p s;
       (pT, pool, s) \<leftarrow> AllocMem c PTDL2SIZE PTDL2SIZE pool s;
       (fp, s) \<leftarrow> PmmFindPage pT p s;
       (case fp of None \<Rightarrow> Some (None, pool, s)
        | Some (pg, _) \<Rightarrow> do {
            let s = page_upd pg (\<lambda>x. x\<lparr>pg_type := PPAG_PTDL2\<rparr>) s;
            s \<leftarrow> PPagIncCounter pg s;
            (v, s) \<leftarrow> VCacheMapPage pT pg s;
            s \<leftarrow> ofold (\<lambda>e. kwrite_u32 (v + 4 * word_of_nat e) 0) [0..<1024] s;
            s \<leftarrow> kwrite_u32 (ptd + 4 * l1) (pT OR PG_ARCH_PRESENT OR PG_ARCH_RW) s;
            Some (Some (pg, v), pool, s)
          })
     } else do {
       let pT = d AND PAGE_MASK;
       (fp, s) \<leftarrow> PmmFindPage pT p s;
       (pg, _) \<leftarrow> fp;
       x \<leftarrow> page_get pg s;
       ASSERT (pg_type x = PPAG_PTDL2);
       ASSERT (pg_counter x > 0);
       (v, s) \<leftarrow> VCacheMapPage pT pg s;
       Some (Some (pg, v), pool, s)
     }
   }"

definition VmMapUserPage :: "partition_t \<Rightarrow> u32 \<Rightarrow> u32 \<Rightarrow> u32 \<Rightarrow> u32 \<Rightarrow> u32 \<times> u32 \<Rightarrow> 'a mstate_scheme \<Rightarrow>
    (bool \<times> (u32 \<times> u32) \<times> 'a mstate_scheme) option" where
  "VmMapUserPage p ptd pAddr vAddr flags pool s = do {
     ASSERT (pAddr AND (PAGE_BYTES - 1) = 0);
     ASSERT (vAddr AND (PAGE_BYTES - 1) = 0);
     ASSERT (vAddr < XM_OFFSET);
     (t, pool, s) \<leftarrow> user_table p ptd (word_of_nat (VA2PtdL1 vAddr)) pool s;
     (case t of None \<Rightarrow> Some (False, pool, s)
      | Some (pg, v) \<Rightarrow> do {
          s \<leftarrow> kwrite_u32 (v + 4 * word_of_nat (VA2PtdL2 vAddr)) ((pAddr AND PAGE_MASK) OR VmAttr2ArchAttr flags) s;
          s \<leftarrow> VCacheUnlockPage pg s;
          Some (True, pool, s)
        })
   }"

text \<open>The loop \<open>for (addr=a; (addr>=a)&&(addr<b); addr+=PAGE_SIZE, vAddr+=PAGE_SIZE)\<close>. Its body maps a
  page or fails; a loop that wraps around without leaving the range does not end.\<close>

function page_loop :: "(u32 \<Rightarrow> u32 \<Rightarrow> 'p \<Rightarrow> 's \<Rightarrow> (bool \<times> 'p \<times> 's) option) \<Rightarrow> u32 \<Rightarrow> u32 \<Rightarrow> u32 \<Rightarrow> u32 \<Rightarrow> 'p \<Rightarrow> 's \<Rightarrow>
    (bool \<times> u32 \<times> 'p \<times> 's) option" where
  "page_loop f a b addr v p s =
     (if addr \<ge> a \<and> addr < b then do {
        (ok, p, s) \<leftarrow> f addr v p s;
        if \<not> ok then Some (False, v, p, s)
        else if addr + PAGE_BYTES > addr then page_loop f a b (addr + PAGE_BYTES) (v + PAGE_BYTES) p s
        else if addr + PAGE_BYTES \<ge> a then None
        else Some (True, v + PAGE_BYTES, p, s)
      } else Some (True, v, p, s))"
  by pat_completeness auto

termination page_loop
proof (relation "measure (\<lambda>(f, a, b, addr, v, p, s). 2 ^ 32 - unat addr)", goal_cases)
  case (2 f a b addr v p s x y z w)
  then show ?case
    using unsigned_less [of addr] by (auto simp: word_less_nat_alt intro!: diff_less_mono2)
qed simp

declare page_loop.simps [simp del]

definition map_range :: "partition_t \<Rightarrow> u32 \<Rightarrow> u32 \<Rightarrow> u32 \<Rightarrow> u32 \<Rightarrow> u32 \<Rightarrow> u32 \<times> u32 \<Rightarrow> 'a mstate_scheme \<Rightarrow>
    (bool \<times> u32 \<times> (u32 \<times> u32) \<times> 'a mstate_scheme) option" where
  "map_range p ptd a b v flags pool s =
     page_loop (\<lambda>addr v pool s. VmMapUserPage p ptd addr v flags pool s) a b a v pool s"

section \<open>The loader of a partition\<close>

fun map_custom :: "partition_t \<Rightarrow> u32 \<Rightarrow> u32 \<Rightarrow> xefCustomFile list \<Rightarrow> u32 \<Rightarrow> u32 \<times> u32 \<Rightarrow> 'a mstate_scheme \<Rightarrow>
    (bool \<times> (u32 \<times> u32) \<times> 'a mstate_scheme) option" where
  "map_custom p ptd flags [] v pool s = Some (True, pool, s)"
| "map_custom p ptd flags (f # fs) v pool s = do {
     (ok, v, pool, s) \<leftarrow> map_range p ptd (cf_sAddr f) (cf_sAddr f + cf_size f - 1) v flags pool s;
     if ok then map_custom p ptd flags fs v pool s else Some (False, pool, s)
   }"

definition ldr_ro :: u32 where "ldr_ro = PG_ATTR_PRESENT OR PG_ATTR_USER OR PG_ATTR_CACHED"

text \<open>\<open>i\<close> is the index of the partition, \<open>p->cfg->id\<close>.\<close>

definition SetupLdr :: "partition_t \<Rightarrow> nat \<Rightarrow> u32 \<Rightarrow> u32 \<Rightarrow> u32 \<times> u32 \<Rightarrow> 'a vstate_scheme \<Rightarrow> (bool \<times> 'a vstate_scheme) option" where
  "SetupLdr p i ptd at pool s = do {
     ASSERT (eldr s - sldr s \<le> LDR_SIZE);
     bp \<leftarrow> aget (xmcBootPartTab s) i;
     ASSERT (unat (bp_noCustomFiles bp) \<le> CONFIG_MAX_NO_CUSTOMFILES);
     let s = (if p_vLdrStack s i = 0 then s\<lparr>p_vLdrStack := (p_vLdrStack s)(i := ldrStackMem s i)\<rparr> else s);
     let a = VIRT2PHYS (p_vLdrStack s i);
     (ok, _, pool, s) \<leftarrow> map_range p ptd a (a + LDR_STACK_SIZE - 1) (at - LDR_STACK_SIZE) (ldr_ro OR PG_ATTR_RW) pool s;
     if \<not> ok then Some (False, s)
     else do {
       (ok, _, pool, s) \<leftarrow> map_range p ptd (sldr s) (sldr s + LDR_SIZE - 1) at ldr_ro pool s;
       if \<not> ok then Some (False, s)
       else do {
         let s = s\<lparr>p_imgStart := (p_imgStart s)(i := bp_imgStart bp)\<rparr>;
         (ok, v, pool, s) \<leftarrow> map_range p ptd (bp_imgStart bp) (bp_imgStart bp + bp_imgSize bp - 1) (bp_imgStart bp) ldr_ro pool s;
         if \<not> ok then Some (False, s)
         else do {
           (ok, pool, s) \<leftarrow> map_custom p ptd ldr_ro (take (unat (bp_noCustomFiles bp)) (bp_customFileTab bp)) v pool s;
           Some (ok, s)
         }
       }
     }
   }"

section \<open>The page table of a partition\<close>

definition area_attr :: "xmcMemoryArea \<Rightarrow> u32" where
  "area_attr m = (let attr = PG_ATTR_PRESENT OR PG_ATTR_USER;
       attr = (if \<not> has_flag (ma_flags m) XM_MEM_AREA_UNCACHEABLE then attr OR PG_ATTR_CACHED else attr)
     in if \<not> has_flag (ma_flags m) XM_MEM_AREA_READONLY then attr OR PG_ATTR_RW else attr)"

fun map_areas :: "partition_t \<Rightarrow> u32 \<Rightarrow> xmcMemoryArea list \<Rightarrow> u32 \<times> u32 \<Rightarrow> 'a mstate_scheme \<Rightarrow>
    (bool \<times> (u32 \<times> u32) \<times> 'a mstate_scheme) option" where
  "map_areas p ptd [] pool s = Some (True, pool, s)"
| "map_areas p ptd (m # ms) pool s =
     (if has_flag (ma_flags m) XM_MEM_AREA_UNMAPPED then map_areas p ptd ms pool s
      else do {
        (ok, _, pool, s) \<leftarrow> map_range p ptd (ma_startAddr m) (ma_startAddr m + ma_size m - 1) (ma_mappedAt m)
           (area_attr m) pool s;
        if ok then map_areas p ptd ms pool s else Some (False, pool, s)
      })"

text \<open>The control tables of the partition, \<open>addr < b\<close> without the test for the wrap.\<close>

definition map_pct :: "partition_t \<Rightarrow> nat \<Rightarrow> u32 \<Rightarrow> u32 \<times> u32 \<Rightarrow> 'a vstate_scheme \<Rightarrow> (bool \<times> (u32 \<times> u32) \<times> 'a vstate_scheme) option" where
  "map_pct p i ptd pool s = do {
     ASSERT (p_pctArraySize s i \<noteq> 0);
     let a = VIRT2PHYS (p_pctArray s i);
     (ok, _, pool, s) \<leftarrow> page_loop (\<lambda>addr v pool s. VmMapUserPage p ptd addr v (PG_ATTR_PRESENT OR PG_ATTR_USER) pool s)
        0 (a + p_pctArraySize s i) a XM_PCTRLTAB_ADDR pool s;
     Some (ok, pool, s)
   }"

text \<open>The second pass over the areas counts the page and takes the write permission from page tables;
  the attributes are those of the page before, but for the cache.\<close>

definition protect_page :: "partition_t \<Rightarrow> u32 \<Rightarrow> xmcMemoryArea \<Rightarrow> u32 \<Rightarrow> u32 \<Rightarrow> u32 \<times> (u32 \<times> u32) \<Rightarrow> 'a mstate_scheme \<Rightarrow>
    (bool \<times> (u32 \<times> (u32 \<times> u32)) \<times> 'a mstate_scheme) option" where
  "protect_page p ptd m addr v ap s = do {
     let (attr, pool) = ap;
     (fp, s) \<leftarrow> PmmFindPage addr p s;
     (case fp of None \<Rightarrow> Some (True, (attr, pool), s)
      | Some (pg, _) \<Rightarrow> do {
          s \<leftarrow> PPagIncCounter pg s;
          let attr = (if has_flag (ma_flags m) XM_MEM_AREA_UNCACHEABLE then attr AND NOT PG_ATTR_CACHED else attr OR PG_ATTR_CACHED);
          x \<leftarrow> page_get pg s;
          if pg_type x \<noteq> PPAG_STD then do {
            (ok, pool, s) \<leftarrow> VmMapUserPage p ptd addr v attr pool s;
            Some (ok, (attr, pool), s)
          } else Some (True, (attr, pool), s)
        })
   }"

fun protect_areas :: "partition_t \<Rightarrow> u32 \<Rightarrow> xmcMemoryArea list \<Rightarrow> u32 \<times> (u32 \<times> u32) \<Rightarrow> 'a mstate_scheme \<Rightarrow>
    (bool \<times> 'a mstate_scheme) option" where
  "protect_areas p ptd [] ap s = Some (True, s)"
| "protect_areas p ptd (m # ms) ap s =
     (if has_flag (ma_flags m) XM_MEM_AREA_UNMAPPED then protect_areas p ptd ms ap s
      else do {
        (ok, _, ap, s) \<leftarrow> page_loop (protect_page p ptd m) (ma_startAddr m) (ma_startAddr m + ma_size m - 1)
           (ma_startAddr m) (ma_mappedAt m) ap s;
        if ok then protect_areas p ptd ms ap s else Some (False, s)
      })"

text \<open>The page of the directory: typed, counted, mapped in the kernel and cleared.\<close>

definition new_directory :: "partition_t \<Rightarrow> xmcPartition \<Rightarrow> u32 \<times> u32 \<Rightarrow> 'a mstate_scheme \<Rightarrow>
    ((u32 \<times> page \<times> u32) option \<times> (u32 \<times> u32) \<times> 'a mstate_scheme) option" where
  "new_directory p c pool s = do {
     (pT, pool, s) \<leftarrow> AllocMem c PTDL1SIZE PTDL1SIZE pool s;
     if pT = - 1 then Some (None, pool, s)
     else do {
       (fp, s) \<leftarrow> PmmFindPage pT p s;
       (case fp of None \<Rightarrow> Some (None, pool, s)
        | Some (pg, _) \<Rightarrow> do {
            let s = page_upd pg (\<lambda>x. x\<lparr>pg_type := PPAG_PTDL1\<rparr>) s;
            s \<leftarrow> PPagIncCounter pg s;
            (v, s) \<leftarrow> VCacheMapPage pT pg s;
            s \<leftarrow> ofold (\<lambda>e. WriteByPassMmuWord (v + 4 * word_of_nat e) 0) [0..<1024] s;
            Some (Some (pT, pg, v), pool, s)
          })
     }
   }"

text \<open>The result is the physical address of the directory, or ~0.\<close>

definition SetupPageTable :: "partition_t \<Rightarrow> u32 \<Rightarrow> u32 \<Rightarrow> 'a vstate_scheme \<Rightarrow> (u32 \<times> 'a vstate_scheme) option" where
  "SetupPageTable p pgTb sz s = do {
     c \<leftarrow> part_cfg p s;
     let i = unat (pc_id c);
     (d, pool, s) \<leftarrow> new_directory p c (pgTb, sz) s;
     (case d of None \<Rightarrow> Some (- 1, s)
      | Some (pT, pg, ptd) \<Rightarrow> do {
          ms \<leftarrow> cfg_areas c (cfg s);
          (ok, pool, s) \<leftarrow> map_areas p ptd ms pool s;
          if \<not> ok then Some (- 1, s)
          else do {
            (ok, pool, s) \<leftarrow> map_pct p i ptd pool s;
            if \<not> ok then Some (- 1, s)
            else do {
              (ok, s) \<leftarrow> SetupLdr p i ptd (XM_PCTRLTAB_ADDR - LDR_SIZE) pool s;
              if \<not> ok then Some (- 1, s)
              else do {
                (ok, s) \<leftarrow> protect_areas p ptd ms (PG_ATTR_PRESENT OR PG_ATTR_USER, pool) s;
                if \<not> ok then Some (- 1, s)
                else do { s \<leftarrow> VCacheUnlockPage pg s; Some (pT, s) }
              }
            }
          }
        })
   }"

section \<open>The window of core/kernel/arch/physmm.c\<close>

definition EnableByPassMmu :: "u32 \<Rightarrow> partition_t \<Rightarrow> 'a mstate_scheme \<Rightarrow> (u32 \<times> page \<times> 'a mstate_scheme) option" where
  "EnableByPassMmu addr p s = do {
     (fp, s) \<leftarrow> PmmFindPage addr p s;
     (pg, _) \<leftarrow> fp;
     (v, s) \<leftarrow> VCacheMapPage addr pg s;
     Some (v, pg, s)
   }"

definition DisableByPassMmu :: "page \<Rightarrow> 'a mstate_scheme \<Rightarrow> 'a mstate_scheme option" where
  "DisableByPassMmu pg = VCacheUnlockPage pg"

end
