(* ===== verification/Reset.thy ===== *)
theory Reset
  imports ArchCalls VmMap
begin

text \<open>
  The life of partitions and threads in core/kernel/kthread.c: creation, the control table a
  thread starts with, the reset of a thread and of a partition; and the end of the system,
  HaltSystem and ResetSystem of core/kernel/setup.c. An operation that may not come back to its
  caller has an outcome: it returns; or the caller lost the processor, and what follows in its code
  runs when it is scheduled again; or the kernel left for the entry point of a guest on a fresh
  stack; or the system halted or restarted. None is a failed assertion or a null pointer.
\<close>

section \<open>Outcomes\<close>

datatype ('v, 's) outcome = Ret 'v 's | Away 's | Enter u32 's | Halts 's | Resets u32 's

fun and_then :: "('v, 's) outcome option \<Rightarrow> ('v \<Rightarrow> 's \<Rightarrow> ('w, 's) outcome option) \<Rightarrow> ('w, 's) outcome option" where
  "and_then None f = None"
| "and_then (Some (Ret v s)) f = f v s"
| "and_then (Some (Away s)) f = Some (Away s)"
| "and_then (Some (Enter e s)) f = Some (Enter e s)"
| "and_then (Some (Halts s)) f = Some (Halts s)"
| "and_then (Some (Resets m s)) f = Some (Resets m s)"

fun out_state :: "('v, 's) outcome \<Rightarrow> 's" where
  "out_state (Ret v s) = s"
| "out_state (Away s) = s"
| "out_state (Enter e s) = s"
| "out_state (Halts s) = s"
| "out_state (Resets m s) = s"

section \<open>State\<close>

text \<open>The fields of the control table that only describe the partition to itself.\<close>

record pctInfo =
  pi_magic :: u32
  pi_xmVersion :: u32
  pi_xmAbiVersion :: u32
  pi_xmApiVersion :: u32
  pi_cpuKhz :: u32
  pi_id :: xmId
  pi_noVCpus :: u32
  pi_schedPolicy :: u32
  pi_imgStart :: u32
  pi_noPhysicalMemAreas :: s32
  pi_name :: "u8 list"

text \<open>\<open>kStart\<close> is the entry point on the fresh kernel stack SetupKStack makes.\<close>

record rstate = vstate +
  pctInfo_of :: "addr \<Rightarrow> pctInfo"
  kStart :: "addr \<Rightarrow> u32 option"
  cpuKhz :: u32
  ioPortTab :: "nat \<Rightarrow> u32 list option"
  globalIrqMask :: u32
  sysResetCounter :: u32
  resetStatusInit :: u32

definition KTHREAD_MAGIC :: u32 where "KTHREAD_MAGIC = 0xa5a55a5a"
definition XM_PART_BOOT :: u32 where "XM_PART_BOOT = 1"
definition XMEF_PARTITION_MAGIC :: u32 where "XMEF_PARTITION_MAGIC = 0x24584d69"
definition XM_VERSION :: u32 where "XM_VERSION = 0x30701"
definition XM_ABI :: u32 where "XM_ABI = 0x30100"
definition XM_API :: u32 where "XM_API = 0x30102"
definition XM_COLD_RESET :: u32 where "XM_COLD_RESET = 0"
definition XM_WARM_RESET :: u32 where "XM_WARM_RESET = 1"
definition XM_RESET_MODE :: u32 where "XM_RESET_MODE = 1"
definition XM_MEM_AREA_TAGGED :: u32 where "XM_MEM_AREA_TAGGED = 0x200"
definition KTHREAD_NO_PARTITIONS_FIELD :: u32 where "KTHREAD_NO_PARTITIONS_FIELD = 0xff0000"

section \<open>The end of the system\<close>

definition HaltSystem :: "'a sstate_scheme \<Rightarrow> ('v, 'a sstate_scheme) outcome option" where
  "HaltSystem s = Some (Halts (log_audit AuditHypHalt s))"

definition ResetSystem :: "u32 \<Rightarrow> 'a rstate_scheme \<Rightarrow> ('v, 'a rstate_scheme) outcome option" where
  "ResetSystem resetMode s =
     (let s = s\<lparr>sysResetCounter := sysResetCounter s + 1\<rparr>;
          s = log_audit (AuditHypReset resetMode) s
      in if resetMode AND XM_RESET_MODE = XM_WARM_RESET then Some (Resets resetMode s)
         else Some (Resets resetMode (s\<lparr>sysResetCounter := 0\<rparr>)))"

text \<open>Schedule, as its callers see it.\<close>

definition Resched :: "'a astate_scheme hm_event \<Rightarrow> nat \<Rightarrow> 'a astate_scheme \<Rightarrow> (unit, 'a astate_scheme) outcome option" where
  "Resched hm fuel s = map_option (\<lambda>s'. if cKThread s' \<noteq> cKThread s then Away s' else Ret () s') (ScheduleArch hm fuel s)"

section \<open>Creation\<close>

text \<open>The memory GET_MEMAZ gives a thread: the thread, its list of timers and its three timers.\<close>

record threadMem =
  tm_thread :: addr
  tm_timers :: addr
  tm_kTimer :: addr
  tm_watchdog :: addr
  tm_vTimer :: addr

definition AllocKThread :: "threadMem \<Rightarrow> xmId \<Rightarrow> 'a kstate_scheme \<Rightarrow> 'a kstate_scheme" where
  "AllocKThread m i s = DynListInit (tm_timers m) (s\<lparr>kthreads := (kthreads s)(tm_thread m :=
     \<lparr>k_flags = 0, k_localActiveKTimers = tm_timers m,
      k_g = Some \<lparr>g_id = i, g_vTimer = \<lparr>vt_value = 0, vt_interval = 0, vt_flags = 0, vt_kTimer = tm_vTimer m\<rparr>,
              g_kTimer = tm_kTimer m, g_watchdogTimer = tm_watchdog m, g_vClock = InitVClock, g_opMode = 0,
              g_swTrap = 0, g_partCtrlTab = None\<rparr>,
      k_irqMask = 0\<rparr>)\<rparr>)"

text \<open>The interrupts a thread leaves open: those of its partition and, with fixed priorities, those of
  the partitions whose threads have at least its priority.\<close>

definition owned_mask :: "xmc \<Rightarrow> xmId \<Rightarrow> u32 \<Rightarrow> u32" where
  "owned_mask c i m = fold (\<lambda>e m. if aget (xmcHwIrqOwner c) e = Some (sint i) then clr_flag m (line32 e) else m)
     [0..<CONFIG_NO_HWIRQS] m"

definition last_priority :: "xmcFpSched list \<Rightarrow> xmId \<Rightarrow> xmId \<Rightarrow> u32" where
  "last_priority es i v = fold (\<lambda>e p. if fps_partitionId e = i \<and> fps_vCpuId e = v then fps_priority e else p) es (- 1)"

definition fp_mask :: "xmc \<Rightarrow> xmcFpSched list \<Rightarrow> u32 \<Rightarrow> u32 \<Rightarrow> u32 option" where
  "fp_mask c es pr m = ofold (\<lambda>e m. if pr \<ge> fps_priority e then
       map_option (\<lambda>p. clr_flag m (pc_hwIrqs p)) (aget (xmcPartitionTab c) (unat (fps_partitionId e)))
     else Some m) es m"

definition thread_irq_mask :: "xmc \<Rightarrow> xmId \<Rightarrow> xmId \<Rightarrow> u32 \<Rightarrow> u32 option" where
  "thread_irq_mask c i v g =
     (let m = owned_mask c i g
      in if cpu_schedPolicy (xmcCpuCfg c) = FP_SCHED then do {
           es \<leftarrow> fp_entries c;
           fp_mask c es (last_priority es i v) m
         } else Some m)"

definition zero_pct :: "nat \<Rightarrow> partitionControlTable_t" where
  "zero_pct words = \<lparr>pct_resetCounter = 0, pct_resetStatus = 0, pct_flags = 0, pct_hwIrqs = 0, pct_hwIrqsPend = 0,
     pct_hwIrqsMask = 0, pct_extIrqsPend = 0, pct_extIrqsMask = 0, pct_noCommPorts = 0, pct_iFlags = 0,
     pct_schedInfo = \<lparr>si_noSlot = 0, si_id = 0, si_slotDuration = 0\<rparr>, pct_trap2Vector = replicate 32 0,
     pct_hwIrq2Vector = replicate 16 0, pct_extIrq2Vector = replicate 32 0, pct_tail = replicate words 0\<rparr>"

definition sizeof_pct :: u32 where "sizeof_pct = 308"

text \<open>The words behind the table: the map of the memory areas and the bitmap of the ports. The size
  counts one byte for each full word of the bitmap; here the bitmap has all its words.\<close>

definition bitmap_len :: "s32 \<Rightarrow> nat" where
  "bitmap_len n = nat (n div 32) + (if n mod 32 \<noteq> 0 then 1 else 0)"

definition pct_size :: "xmcPartition \<Rightarrow> u32" where
  "pct_size c = sizeof_pct + 32 * word_of_int (pc_noPhysicalMemoryAreas c) + word_of_int (pc_noPorts c div 32)
     + (if pc_noPorts c mod 32 \<noteq> 0 then 4 else 0)"

definition create_vcpu :: "xmcPartition \<Rightarrow> u32 \<Rightarrow> (nat \<Rightarrow> threadMem) \<Rightarrow> (nat \<Rightarrow> u32) \<Rightarrow> nat \<Rightarrow> 'a rstate_scheme \<Rightarrow>
    'a rstate_scheme option" where
  "create_vcpu c pct mem tss i s = do {
     let m = mem i;
     let k = tm_thread m;
     let p = unat (pc_id c);
     let s = AllocKThread m (PART_VCPU_ID2KID (pc_id c) (word_of_nat i)) s;
     let s = s\<lparr>partitionTab := (partitionTab s)[p := (partitionTab s ! p)\<lparr>p_kThread := (p_kThread (partitionTab s ! p))[i := k]\<rparr>]\<rparr>;
     let s = (if has_flag (pc_flags c) XM_PART_SYSTEM then
                SetKThreadFlags k (push_bit 16 (word_of_nat (length (xmcPartitionTab (cfg s)))) AND KTHREAD_NO_PARTITIONS_FIELD)
                  (ClearKThreadFlags k KTHREAD_NO_PARTITIONS_FIELD s)
              else s);
     let s = (if has_flag (pc_flags c) XM_PART_FP then SetKThreadFlags k KTHREAD_FP_F s else s);
     let scK = (if cpu_schedPolicy (xmcCpuCfg (cfg s)) = CYCLIC_SCHED then k else NULL);
     s \<leftarrow> InitKTimer (tm_kTimer m) (ActKThrTimer k) scK s;
     s \<leftarrow> InitKTimer (tm_watchdog m) (ActWatchdog k) scK s;
     s \<leftarrow> InitVTimer (tm_vTimer m) k s;
     let s = SetKThreadFlags k KTHREAD_HALTED_F s;
     mask \<leftarrow> thread_irq_mask (cfg s) (pc_id c) (word_of_nat i) (globalIrqMask s);
     let s = kt_upd k (\<lambda>t. (g_upd (\<lambda>g. g\<lparr>g_partCtrlTab := Some (zero_pct
                (8 * nat (pc_noPhysicalMemoryAreas c) + bitmap_len (pc_noPorts c)))\<rparr>) t)\<lparr>k_irqMask := mask\<rparr>) s;
     let s = s\<lparr>irqCpuCtxt := (irqCpuCtxt s)(k := None), pctAddr := (pctAddr s)(k := pct + pct_size c * word_of_nat i),
               pctSize := (pctSize s)(k := pct_size c)\<rparr>;
     SetupKThreadArch (ioPortTab s p) (tss i) k s
   }"

text \<open>The addresses are what GET_MEMAZ returns: the control tables, the threads, their task segments.\<close>

definition CreatePartition :: "xmcPartition \<Rightarrow> u32 \<Rightarrow> (nat \<Rightarrow> threadMem) \<Rightarrow> (nat \<Rightarrow> u32) \<Rightarrow> 'a rstate_scheme \<Rightarrow>
    'a rstate_scheme option" where
  "CreatePartition c pct mem tss s = do {
     let i = unat (pc_id c);
     ASSERT (i < length (xmcPartitionTab (cfg s)));
     ASSERT (i < length (partitionTab s));
     let s = s\<lparr>partitionTab := (partitionTab s)[i := \<lparr>p_kThread = replicate (unat (pc_noVCpus c)) NULL,
                 p_opMode = p_opMode (partitionTab s ! i), p_cfg = i\<rparr>]\<rparr>;
     let s = s\<lparr>p_pctArraySize := (p_pctArraySize s)(i := pct_size c * pc_noVCpus c), p_pctArray := (p_pctArray s)(i := pct)\<rparr>;
     ofold (create_vcpu c pct mem tss) [0..<unat (pc_noVCpus c)] s
   }"

section \<open>The control table a thread starts with\<close>

text \<open>The bytes strncpy leaves: the name up to its end, then zeros; the last byte is always zero.\<close>

fun take_name :: "(nat \<Rightarrow> u8 option) \<Rightarrow> nat \<Rightarrow> nat \<Rightarrow> u8 list option" where
  "take_name src j 0 = Some []"
| "take_name src j (Suc n) = do { b \<leftarrow> src j; if b = 0 then Some [] else map_option (Cons b) (take_name src (Suc j) n) }"

definition copy_name :: "(nat \<Rightarrow> u8 option) \<Rightarrow> nat \<Rightarrow> u8 list option" where
  "copy_name src n = map_option (\<lambda>t. if length t = n then butlast t @ [0] else t @ replicate (n - length t) 0) (take_name src 0 n)"

fun bytes_words :: "u8 list \<Rightarrow> u32 list" where
  "bytes_words (a # b # c # d # bs) = bytes_u32 [a, b, c, d] # bytes_words bs"
| "bytes_words bs = []"

text \<open>An entry of the memory map; an area without a tag keeps the name that was there.\<close>

definition mem_map_entry :: "xmc \<Rightarrow> xmcMemoryArea \<Rightarrow> u32 list \<Rightarrow> u32 list option" where
  "mem_map_entry c m old = do {
     name \<leftarrow> (if has_flag (ma_flags m) XM_MEM_AREA_TAGGED
              then map_option bytes_words (copy_name (tab_str c (ma_nameOffset m)) CONFIG_ID_STRING_LENGTH)
              else Some (take 4 old));
     Some (name @ [ma_startAddr m, ma_mappedAt m, ma_size m, ma_flags m])
   }"

fun mem_map :: "xmc \<Rightarrow> xmcMemoryArea list \<Rightarrow> u32 list \<Rightarrow> u32 list option" where
  "mem_map c [] tail = Some tail"
| "mem_map c (m # ms) tail = do {
     e \<leftarrow> mem_map_entry c m (take 8 tail);
     map_option (append e) (mem_map c ms (drop 8 tail))
   }"

definition policy_nr :: "sched_policy \<Rightarrow> u32" where
  "policy_nr p = (case p of CYCLIC_SCHED \<Rightarrow> 0 | FP_SCHED \<Rightarrow> 1)"

definition fresh_pct :: "xmcPartition \<Rightarrow> kThread_t \<Rightarrow> u32 \<Rightarrow> u32 list \<Rightarrow> partitionControlTable_t" where
  "fresh_pct c t resetCounter tail = (zero_pct 0)\<lparr>pct_resetCounter := resetCounter, pct_hwIrqs := pc_hwIrqs c,
     pct_flags := k_flags t, pct_hwIrqsMask := - 1, pct_extIrqsMask := - 1, pct_iFlags := clr_flag 0 CPU_FLAG_IF,
     pct_noCommPorts := pc_noPorts c, pct_tail := tail\<rparr>"

definition zero_arch :: pctArch where
  "zero_arch = \<lparr>pa_gdtr = \<lparr>dr_limit = 0, dr_linearBase = 0\<rparr>, pa_idtr = \<lparr>dr_limit = 0, dr_linearBase = 0\<rparr>,
     pa_maxIdtVec = 0, pa_cr4 = 0, pa_cr3 = 0, pa_cr2 = 0, pa_cr0 = 0\<rparr>"

definition SetupPct :: "addr \<Rightarrow> xmcPartition \<Rightarrow> 'a rstate_scheme \<Rightarrow> 'a rstate_scheme option" where
  "SetupPct k c s = do {
     g \<leftarrow> k_g (kthreads s k);
     p \<leftarrow> g_partCtrlTab g;
     i \<leftarrow> GetPartition k s;
     ms \<leftarrow> cfg_areas c (cfg s);
     name \<leftarrow> copy_name (tab_str (cfg s) (pc_nameOffset c)) CONFIG_ID_STRING_LENGTH;
     let base = 8 * length ms;
     mm \<leftarrow> mem_map (cfg s) ms (take base (pct_tail p));
     bm \<leftarrow> xmClearBitmap (drop base (pct_tail p)) (pc_noPorts c);
     let s = s\<lparr>pctInfo_of := (pctInfo_of s)(k := \<lparr>pi_magic = KTHREAD_MAGIC, pi_xmVersion = XM_VERSION,
           pi_xmAbiVersion = XM_ABI, pi_xmApiVersion = XM_API, pi_cpuKhz = cpuKhz s, pi_id = g_id g,
           pi_noVCpus = pc_noVCpus c, pi_schedPolicy = policy_nr (cpu_schedPolicy (xmcCpuCfg (cfg s))),
           pi_imgStart = p_imgStart s i, pi_noPhysicalMemAreas = pc_noPhysicalMemoryAreas c, pi_name = name\<rparr>),
        pctSize := (pctSize s)(k := sizeof_pct + 32 * word_of_int (pc_noPhysicalMemoryAreas c))\<rparr>;
     let s = pa_upd k (\<lambda>_. zero_arch) s;
     let s = kt_upd k (\<lambda>t. pct_upd (\<lambda>_. fresh_pct c t (pct_resetCounter p) (mm @ bm)) t) s;
     let s = pa_upd k (\<lambda>a. a\<lparr>pa_cr3 := ka_ptdL1 (kArch s k)\<rparr>) s;
     Some (SetupPctArch k s)
   }"

section \<open>Resets\<close>

text \<open>SetCacheState does nothing on this processor.\<close>

definition StartUpGuest :: "'a astate_scheme hm_event \<Rightarrow> nat \<Rightarrow> u32 \<Rightarrow> 'a astate_scheme \<Rightarrow> ('v, 'a astate_scheme) outcome option" where
  "StartUpGuest hm fuel e s = do {
     let k = cKThread s;
     let s = KThreadArchInit k s;
     let s = SetKThreadFlags k (KTHREAD_DCACHE_ENABLED_F OR KTHREAD_ICACHE_ENABLED_F) s;
     s \<leftarrow> ResumeVClock hm fuel k s;
     Some (Enter e (SwitchKThreadArchPost k s))
   }"

text \<open>The thread is made ready with a fresh control table.\<close>

definition renew_thread :: "addr \<Rightarrow> u32 \<Rightarrow> u32 \<Rightarrow> 'a rstate_scheme \<Rightarrow> 'a rstate_scheme option" where
  "renew_thread k ptdL1 status s = do {
     i \<leftarrow> GetPartition k s;
     p \<leftarrow> aget (partitionTab s) i;
     c \<leftarrow> part_cfg p s;
     (v, pg, s) \<leftarrow> EnableByPassMmu ptdL1 p s;
     s \<leftarrow> SetupPtdL1 v s;
     s \<leftarrow> DisableByPassMmu pg s;
     s \<leftarrow> SetupPct k c s;
     let s = kt_upd k (pct_upd (\<lambda>p. p\<lparr>pct_resetCounter := pct_resetCounter p + 1, pct_resetStatus := status\<rparr>)) s;
     let s = ka_upd k (\<lambda>a. a\<lparr>ka_ptdL1 := ptdL1\<rparr>) s;
     let s = pa_upd k (\<lambda>a. a\<lparr>pa_cr3 := ptdL1\<rparr>) s;
     let s = SetKThreadFlags k KTHREAD_READY_F s;
     let s = ClearKThreadFlags k KTHREAD_HALTED_F s;
     g \<leftarrow> k_g (kthreads s k);
     Some (log_audit (AuditVCpuReset (g_id g)) s)
   }"

definition LoadPartitionPageTable :: "addr \<Rightarrow> 'a astate_scheme \<Rightarrow> 'a astate_scheme" where
  "LoadPartitionPageTable k s = s\<lparr>cpu_cr3 := ka_ptdL1 (kArch s k)\<rparr>"

definition ResetKThread :: "'a rstate_scheme hm_event \<Rightarrow> nat \<Rightarrow> addr \<Rightarrow> u32 \<Rightarrow> u32 \<Rightarrow> u32 \<Rightarrow> 'a rstate_scheme \<Rightarrow>
    (unit, 'a rstate_scheme) outcome option" where
  "ResetKThread hm fuel k ptdL1 e status s = do {
     s \<leftarrow> renew_thread k ptdL1 status s;
     if k \<noteq> cKThread s then Resched hm fuel (s\<lparr>kStart := (kStart s)(k := Some e)\<rparr>)
     else StartUpGuest hm fuel e (LoadPartitionPageTable k s)
   }"

text \<open>The header of the image: both signatures and the versions it was compiled for. The conditions
  are read in this order, and no further than the first that fails.\<close>

definition image_valid :: "u32 \<Rightarrow> 'a mstate_scheme \<Rightarrow> (bool \<times> 'a mstate_scheme) option" where
  "image_valid hdr s = do {
     (w, s) \<leftarrow> ReadByPassMmuWord hdr s;
     if w \<noteq> XMEF_PARTITION_MAGIC then Some (False, s)
     else do {
       (w, s) \<leftarrow> ReadByPassMmuWord (hdr + 48) s;
       if w \<noteq> XMEF_PARTITION_MAGIC then Some (False, s)
       else do {
         (w, s) \<leftarrow> ReadByPassMmuWord (hdr + 4) s;
         if w \<noteq> XM_ABI then Some (False, s)
         else do {
           (w, s) \<leftarrow> ReadByPassMmuWord (hdr + 8) s;
           Some (w = XM_API, s)
         }
       }
     }
   }"

text \<open>The three cases of the switch on the kind of reset.\<close>

definition start_partition :: "'a rstate_scheme hm_event \<Rightarrow> nat \<Rightarrow> nat \<Rightarrow> xmcPartition \<Rightarrow> addr \<Rightarrow> u32 \<Rightarrow> u32 \<Rightarrow> u32 \<Rightarrow> bool \<Rightarrow>
    'a rstate_scheme \<Rightarrow> (unit, 'a rstate_scheme) outcome option" where
  "start_partition hm fuel i c k ptdL1 e status warm s = do {
     ASSERT (k_g (kthreads s k) \<noteq> None);
     let mode = (if warm then XM_OPMODE_WARM_RESET else XM_OPMODE_COLD_RESET);
     let s = kt_upd k (g_upd (\<lambda>g. g\<lparr>g_opMode := mode\<rparr>)) s;
     let s = s\<lparr>partitionTab := (partitionTab s)[i := (partitionTab s ! i)\<lparr>p_opMode := mode\<rparr>]\<rparr>;
     ASSERT (warm \<or> k_pct (kthreads s k) \<noteq> None);
     let s = (if warm then s else kt_upd k (pct_upd (\<lambda>p. p\<lparr>pct_resetCounter := - 1\<rparr>)) s);
     s \<leftarrow> ResetPartPorts c s;
     ResetKThread hm fuel k ptdL1 e status s
   }"

definition start_mode :: "'a rstate_scheme hm_event \<Rightarrow> nat \<Rightarrow> nat \<Rightarrow> xmcPartition \<Rightarrow> addr \<Rightarrow> u32 \<Rightarrow> u32 \<Rightarrow> u32 \<Rightarrow> u32 \<Rightarrow>
    'a rstate_scheme \<Rightarrow> (unit, 'a rstate_scheme) outcome option" where
  "start_mode hm fuel i c k ptdL1 entryPoint status cold s =
     (if cold = XM_WARM_RESET then start_partition hm fuel i c k ptdL1 entryPoint status True s
      else if cold = XM_COLD_RESET then start_partition hm fuel i c k ptdL1 (XM_PCTRLTAB_ADDR - 0x40000) status False s
      else if cold = 2 then start_partition hm fuel i c k ptdL1 entryPoint status False s
      else Some (Ret () s))"

text \<open>\<open>i\<close> is the index of the partition in \<open>partitionTab\<close>.\<close>

definition ResetPartition :: "'a rstate_scheme hm_event \<Rightarrow> nat \<Rightarrow> nat \<Rightarrow> u32 \<Rightarrow> u32 \<Rightarrow> 'a rstate_scheme \<Rightarrow>
    (s32, 'a rstate_scheme) outcome option" where
  "ResetPartition hm fuel i cold status s = do {
     p \<leftarrow> aget (partitionTab s) i;
     c \<leftarrow> part_cfg p s;
     s \<leftarrow> HALT_PARTITION (pc_id c) s;
     bp \<leftarrow> aget (xmcBootPartTab s) (unat (pc_id c));
     if \<not> has_flag (bp_flags bp) XM_PART_BOOT then Some (Ret (- 1) s)
     else do {
       fl \<leftarrow> PmmFindArea (bp_hdrPhysAddr bp) 52 (Some p) s;
       if fl = None then Some (Ret (- 1) s)
       else do {
         (ok, s) \<leftarrow> image_valid (bp_hdrPhysAddr bp) s;
         if \<not> ok then Some (Ret (- 1) s)
         else do {
           k \<leftarrow> aget (p_kThread p) 0;
           let s = (if cKThread s = k then s\<lparr>cpu_cr3 := xmPtd s\<rparr> else s);
           s \<leftarrow> PmmResetPartition p s;
           (pgTb, s) \<leftarrow> ReadByPassMmuWord (bp_hdrPhysAddr bp + 12) s;
           (pgTbSize, s) \<leftarrow> ReadByPassMmuWord (bp_hdrPhysAddr bp + 16) s;
           (ptdL1, s) \<leftarrow> SetupPageTable p pgTb pgTbSize s;
           if ptdL1 = - 1 then Some (Ret (- 1) s)
           else and_then (start_mode hm fuel i c k ptdL1 (bp_entryPoint bp) status cold s)
             (\<lambda>_ s. Some (Ret 0 (if cKThread s = k then LoadPartitionPageTable k s else s)))
         }
       }
     }
   }"

end
