(* ===== verification/MemBlock.thy ===== *)
theory MemBlock
  imports Prelude
begin

text \<open>
  Kernel devices (core/include/kdevice.h) and the memory-block device of
  core/drivers/memblock.c. A device is a record of function pointers over its own state \<open>'d\<close>;
  the memory block's state is its position and the bytes of its area. Reading returns the
  bytes the call puts in the buffer. The memory is x86's (no CONFIG_ARCH_MMU_BYPASS). The
  contract every log device meets is the locale log_device.
\<close>

section \<open>Kernel devices\<close>

record 'd kDevice_t =
  dev_Reset :: "('d \<Rightarrow> s32 \<times> 'd) option"
  dev_Write :: "(u8 list \<Rightarrow> 'd \<Rightarrow> s32 \<times> 'd) option"
  dev_Read :: "(s32 \<Rightarrow> 'd \<Rightarrow> s32 \<times> u8 list \<times> 'd) option"
  dev_Seek :: "(u32 \<Rightarrow> u32 \<Rightarrow> 'd \<Rightarrow> s32 \<times> 'd) option"

definition KDEV_OP_NOT_ALLOWED :: s32 where "KDEV_OP_NOT_ALLOWED = 1"
definition DEV_SEEK_CURRENT :: u32 where "DEV_SEEK_CURRENT = 0"
definition DEV_SEEK_START :: u32 where "DEV_SEEK_START = 1"
definition DEV_SEEK_END :: u32 where "DEV_SEEK_END = 2"

lemmas seek_defs = DEV_SEEK_CURRENT_def DEV_SEEK_START_def DEV_SEEK_END_def

definition KDevReset :: "'d kDevice_t option \<Rightarrow> 'd \<Rightarrow> s32 \<times> 'd" where
  "KDevReset kDev d = (case kDev \<bind> dev_Reset of None \<Rightarrow> (- KDEV_OP_NOT_ALLOWED, d) | Some f \<Rightarrow> f d)"

definition KDevWrite :: "'d kDevice_t option \<Rightarrow> u8 list \<Rightarrow> 'd \<Rightarrow> s32 \<times> 'd" where
  "KDevWrite kDev buffer d = (case kDev \<bind> dev_Write of None \<Rightarrow> (- KDEV_OP_NOT_ALLOWED, d) | Some f \<Rightarrow> f buffer d)"

definition KDevRead :: "'d kDevice_t option \<Rightarrow> s32 \<Rightarrow> 'd \<Rightarrow> s32 \<times> u8 list \<times> 'd" where
  "KDevRead kDev len d = (case kDev \<bind> dev_Read of None \<Rightarrow> (- KDEV_OP_NOT_ALLOWED, [], d) | Some f \<Rightarrow> f len d)"

definition KDevSeek :: "'d kDevice_t option \<Rightarrow> u32 \<Rightarrow> u32 \<Rightarrow> 'd \<Rightarrow> s32 \<times> 'd" where
  "KDevSeek kDev offset whence d =
     (case kDev \<bind> dev_Seek of None \<Rightarrow> (- KDEV_OP_NOT_ALLOWED, d) | Some f \<Rightarrow> f offset whence d)"

section \<open>The memory-block device\<close>

text \<open>\<open>mb_size\<close> is the size of the physical area of the block's configuration.\<close>

record memBlockData =
  mb_pos :: s32
  mb_size :: u32
  mb_mem :: "u8 list"

text \<open>Bytes \<open>[off, off + length b)\<close> replaced by \<open>b\<close>; \<open>n\<close> bytes from \<open>off\<close>.\<close>

definition splice :: "nat \<Rightarrow> 'b list \<Rightarrow> 'b list \<Rightarrow> 'b list" where
  "splice off b m = take off m @ b @ drop (off + length b) m"

definition chunk :: "nat \<Rightarrow> nat \<Rightarrow> 'b list \<Rightarrow> 'b list" where
  "chunk off n m = take n (drop off m)"

definition ResetMemBlock :: "memBlockData \<Rightarrow> s32 \<times> memBlockData" where
  "ResetMemBlock d = (0, d\<lparr>mb_pos := 0\<rparr>)"

text \<open>The length both transfers use: what is left of the area.\<close>

definition mb_clip :: "s32 \<Rightarrow> memBlockData \<Rightarrow> s32" where
  "mb_clip len d = (if sint (mb_size d) - mb_pos d - len < 0 then sint (mb_size d) - mb_pos d else len)"

definition ReadMemBlock :: "s32 \<Rightarrow> memBlockData \<Rightarrow> s32 \<times> u8 list \<times> memBlockData" where
  "ReadMemBlock len d =
     (let len = mb_clip len d in
      if len \<le> 0 then (0, [], d)
      else (len, chunk (nat (mb_pos d)) (nat len) (mb_mem d), d\<lparr>mb_pos := mb_pos d + len\<rparr>))"

definition WriteMemBlock :: "u8 list \<Rightarrow> memBlockData \<Rightarrow> s32 \<times> memBlockData" where
  "WriteMemBlock buffer d =
     (let len = mb_clip (int (length buffer)) d in
      if len \<le> 0 then (0, d)
      else (len, d\<lparr>mb_mem := splice (nat (mb_pos d)) (take (nat len) buffer) (mb_mem d),
                   mb_pos := mb_pos d + len\<rparr>))"

definition SeekMemBlock :: "u32 \<Rightarrow> u32 \<Rightarrow> memBlockData \<Rightarrow> s32 \<times> memBlockData" where
  "SeekMemBlock offset whence d =
     (let off = (if whence = DEV_SEEK_CURRENT then sint (offset + word_of_int (mb_pos d))
                 else if whence = DEV_SEEK_END then sint (offset + mb_size d)
                 else sint offset);
          off = (if off < 0 then 0 else off);
          off = (if off > uint (mb_size d) then sint (mb_size d) else off)
      in (off, d\<lparr>mb_pos := off\<rparr>))"

definition memBlockTab :: "memBlockData kDevice_t" where
  "memBlockTab = \<lparr>dev_Reset = Some ResetMemBlock, dev_Write = Some WriteMemBlock,
     dev_Read = Some ReadMemBlock, dev_Seek = Some SeekMemBlock\<rparr>"

section \<open>Chunks\<close>

lemma length_splice [simp]: "off + length b \<le> length m \<Longrightarrow> length (splice off b m) = length m"
  by (simp add: splice_def)

lemma length_chunk [simp]: "off + n \<le> length m \<Longrightarrow> length (chunk off n m) = n"
  by (simp add: chunk_def)

lemma splice_nth:
  assumes "off + length b \<le> length m" "i < length m"
  shows "splice off b m ! i = (if off \<le> i \<and> i < off + length b then b ! (i - off) else m ! i)"
  using assms by (auto simp: splice_def nth_append min_def)

lemma chunk_nth: "off + n \<le> length m \<Longrightarrow> i < n \<Longrightarrow> chunk off n m ! i = m ! (off + i)"
  by (simp add: chunk_def)

lemma chunk_splice_same:
  assumes "off + length b \<le> length m" "n = length b"
  shows "chunk off n (splice off b m) = b"
  using assms by (intro nth_equalityI) (auto simp: chunk_nth splice_nth)

lemma chunk_splice_other:
  assumes "off + length b \<le> length m" "off' + n \<le> length m" "off' + n \<le> off \<or> off + length b \<le> off'"
  shows "chunk off' n (splice off b m) = chunk off' n m"
  using assms by (intro nth_equalityI) (auto simp: chunk_nth splice_nth)

section \<open>The contract of a log device\<close>

text \<open>
  What the log streams rely on: seeking sets the position, seeking to the end returns the
  size, and within the size a write replaces exactly its bytes and a read returns them.
\<close>

locale log_device =
  fixes dev :: "'d kDevice_t" and mem :: "'d \<Rightarrow> u8 list" and pos :: "'d \<Rightarrow> nat" and ok :: "'d \<Rightarrow> bool"
  assumes small: "ok d \<Longrightarrow> length (mem d) < 2 ^ 31"
    and seek: "\<lbrakk>ok d; off \<le> length (mem d)\<rbrakk> \<Longrightarrow> \<exists>r d'. KDevSeek (Some dev) (word_of_nat off) DEV_SEEK_START d = (r, d') \<and>
        ok d' \<and> mem d' = mem d \<and> pos d' = off"
    and seek_end: "ok d \<Longrightarrow> \<exists>d'. KDevSeek (Some dev) 0 DEV_SEEK_END d = (int (length (mem d)), d') \<and> ok d' \<and> mem d' = mem d"
    and reset: "ok d \<Longrightarrow> \<exists>r d'. KDevReset (Some dev) d = (r, d') \<and> ok d' \<and> mem d' = mem d"
    and wr: "\<lbrakk>ok d; pos d + length b \<le> length (mem d)\<rbrakk> \<Longrightarrow> \<exists>r d'. KDevWrite (Some dev) b d = (r, d') \<and>
        ok d' \<and> mem d' = splice (pos d) b (mem d)"
    and rd: "\<lbrakk>ok d; pos d + n \<le> length (mem d)\<rbrakk> \<Longrightarrow> \<exists>r d'. KDevRead (Some dev) (int n) d = (r, chunk (pos d) n (mem d), d') \<and>
        ok d' \<and> mem d' = mem d"
begin

text \<open>A write or a read at an absolute offset, as the log streams do them.\<close>

lemma write_at:
  assumes "ok d" "off + length b \<le> length (mem d)"
  shows "\<exists>d'. snd (KDevWrite (Some dev) b (snd (KDevSeek (Some dev) (word_of_nat off) DEV_SEEK_START d))) = d' \<and>
    ok d' \<and> mem d' = splice off b (mem d)"
proof -
  obtain r d1 where d1: "KDevSeek (Some dev) (word_of_nat off) DEV_SEEK_START d = (r, d1)" "ok d1" "mem d1 = mem d" "pos d1 = off"
    using seek [OF assms(1), of off] assms(2) by auto
  then show ?thesis using wr [of d1 b] assms(2) by auto
qed

lemma read_at:
  assumes "ok d" "off + n \<le> length (mem d)"
  shows "\<exists>r d'. KDevRead (Some dev) (int n) (snd (KDevSeek (Some dev) (word_of_nat off) DEV_SEEK_START d)) =
    (r, chunk off n (mem d), d') \<and> ok d' \<and> mem d' = mem d"
proof -
  obtain r d1 where d1: "KDevSeek (Some dev) (word_of_nat off) DEV_SEEK_START d = (r, d1)" "ok d1" "mem d1 = mem d" "pos d1 = off"
    using seek [OF assms(1), of off] assms(2) by auto
  then show ?thesis using rd [of d1 n] assms(2) by auto
qed

end

definition mb_ok :: "memBlockData \<Rightarrow> bool" where
  "mb_ok d \<longleftrightarrow> length (mb_mem d) = unat (mb_size d) \<and> unat (mb_size d) < 2 ^ 31 \<and>
     0 \<le> mb_pos d \<and> nat (mb_pos d) \<le> unat (mb_size d)"

lemma sint_small: "unat (w :: u32) < 2 ^ 31 \<Longrightarrow> sint w = int (unat w)"
proof -
  assume a: "unat w < 2 ^ 31"
  have "uint w < 2 ^ 31" using a by (metis of_nat_less_iff of_nat_numeral of_nat_power uint_nat)
  moreover have "- (2 ^ 31) \<le> uint w" by (rule order.trans [OF _ uint_ge_0]) simp
  ultimately have "signed_take_bit 31 (uint w) = uint w" by (intro signed_take_bit_int_eq_self) auto
  then show ?thesis by (simp add: sint_uint)
qed

lemma mb_clip_fits:
  assumes "mb_ok d" "nat (mb_pos d) + n \<le> length (mb_mem d)"
  shows "mb_clip (int n) d = int n"
proof -
  have "sint (mb_size d) = int (unat (mb_size d))" using assms(1) by (intro sint_small) (simp add: mb_ok_def)
  moreover have "nat (mb_pos d) + n \<le> unat (mb_size d)" "0 \<le> mb_pos d" using assms by (auto simp: mb_ok_def)
  ultimately have "mb_pos d + int n \<le> sint (mb_size d)" by linarith
  then show ?thesis by (simp add: mb_clip_def)
qed

lemma mb_seek:
  assumes "mb_ok d" "off \<le> unat (mb_size d)"
  shows "SeekMemBlock (word_of_nat off) DEV_SEEK_START d = (int off, d\<lparr>mb_pos := int off\<rparr>)"
proof -
  have b: "off < 2 ^ 31" "off < 2 ^ 32" using assms by (auto simp: mb_ok_def)
  then have s: "sint (word_of_nat off :: u32) = int off"
    using sint_small [of "word_of_nat off"] unat_u32 [of off] by simp
  have "int off \<le> uint (mb_size d)" using assms(2) by (metis of_nat_mono uint_nat)
  then show ?thesis using s by (simp add: SeekMemBlock_def seek_defs Let_def)
qed

lemma mb_seek_end:
  assumes "mb_ok d"
  shows "SeekMemBlock 0 DEV_SEEK_END d = (int (unat (mb_size d)), d\<lparr>mb_pos := int (unat (mb_size d))\<rparr>)"
  using assms sint_small [of "mb_size d"] by (simp add: SeekMemBlock_def seek_defs mb_ok_def Let_def)

interpretation mb: log_device memBlockTab mb_mem "\<lambda>d. nat (mb_pos d)" mb_ok
proof unfold_locales
  fix d :: memBlockData and b :: "u8 list" and n off :: nat
  assume ok: "mb_ok d"
  show "length (mb_mem d) < 2 ^ 31" using ok by (simp add: mb_ok_def)
  show "\<exists>d'. KDevSeek (Some memBlockTab) 0 DEV_SEEK_END d = (int (length (mb_mem d)), d') \<and> mb_ok d' \<and> mb_mem d' = mb_mem d"
    using ok mb_seek_end [OF ok] by (simp add: KDevSeek_def memBlockTab_def mb_ok_def)
  show "\<exists>r d'. KDevReset (Some memBlockTab) d = (r, d') \<and> mb_ok d' \<and> mb_mem d' = mb_mem d"
    using ok by (simp add: KDevReset_def memBlockTab_def ResetMemBlock_def mb_ok_def)
  show "\<exists>r d'. KDevSeek (Some memBlockTab) (word_of_nat off) DEV_SEEK_START d = (r, d') \<and> mb_ok d' \<and>
      mb_mem d' = mb_mem d \<and> nat (mb_pos d') = off" if "off \<le> length (mb_mem d)"
    using ok mb_seek [OF ok] that by (simp add: KDevSeek_def memBlockTab_def mb_ok_def)
  show "\<exists>r d'. KDevWrite (Some memBlockTab) b d = (r, d') \<and> mb_ok d' \<and> mb_mem d' = splice (nat (mb_pos d)) b (mb_mem d)"
    if "nat (mb_pos d) + length b \<le> length (mb_mem d)"
    using ok mb_clip_fits [OF ok that] that
    by (auto simp: KDevWrite_def memBlockTab_def WriteMemBlock_def Let_def mb_ok_def splice_def nat_add_distrib)
  show "\<exists>r d'. KDevRead (Some memBlockTab) (int n) d = (r, chunk (nat (mb_pos d)) n (mb_mem d), d') \<and> mb_ok d' \<and> mb_mem d' = mb_mem d"
    if "nat (mb_pos d) + n \<le> length (mb_mem d)"
    using ok mb_clip_fits [OF ok that] that
    by (auto simp: KDevRead_def memBlockTab_def ReadMemBlock_def Let_def mb_ok_def chunk_def nat_add_distrib)
qed

end
