(* ===== verification/LogStream.thy ===== *)
theory LogStream
  imports MemBlock
begin

text \<open>
  The log streams of core/include/logstream.h: a ring of fixed-size records on a device, behind
  a header that holds two copies of the control words, the current one named by cHdr. The
  abstract stream is the list of the records kept, oldest first, with the read cursor.
  Record layouts are those of a little-endian 32-bit machine.
\<close>

section \<open>The header on the device\<close>

record logStreamCtrl =
  lc_tail :: s32
  lc_elem :: s32
  lc_head :: s32
  lc_d :: s32

record logStream =
  li_elemSize :: s32
  li_maxNoElem :: s32
  li_lock :: s32
  li_cHdr :: s32
  ls_ctrl :: logStreamCtrl

record logStreamHdr =
  h_magic1 :: u32
  h_elemSize :: s32
  h_maxNoElem :: s32
  h_lock :: s32
  h_cHdr :: s32
  h_ctrl0 :: logStreamCtrl
  h_ctrl1 :: logStreamCtrl
  h_magic2 :: u32

definition LOGSTREAM_MAGIC1 :: u32 where "LOGSTREAM_MAGIC1 = 0xF9E8D7C6"
definition LOGSTREAM_MAGIC2 :: u32 where "LOGSTREAM_MAGIC2 = 0x1A2B3C4D"

definition le32 :: "u32 \<Rightarrow> u8 list" where
  "le32 w = [ucast w, ucast (drop_bit 8 w), ucast (drop_bit 16 w), ucast (drop_bit 24 w)]"

definition un_le32 :: "u8 list \<Rightarrow> u32" where
  "un_le32 b = ucast (b ! 0) OR push_bit 8 (ucast (b ! 1)) OR push_bit 16 (ucast (b ! 2)) OR push_bit 24 (ucast (b ! 3))"

definition s32_bytes :: "s32 \<Rightarrow> u8 list" where
  "s32_bytes i = le32 (word_of_int i)"

definition bytes_s32 :: "u8 list \<Rightarrow> s32" where
  "bytes_s32 b = sint (un_le32 b)"

definition ctrl_bytes :: "logStreamCtrl \<Rightarrow> u8 list" where
  "ctrl_bytes c = s32_bytes (lc_tail c) @ s32_bytes (lc_elem c) @ s32_bytes (lc_head c) @ s32_bytes (lc_d c)"

definition bytes_ctrl :: "u8 list \<Rightarrow> logStreamCtrl" where
  "bytes_ctrl b = \<lparr>lc_tail = bytes_s32 (chunk 0 4 b), lc_elem = bytes_s32 (chunk 4 4 b),
     lc_head = bytes_s32 (chunk 8 4 b), lc_d = bytes_s32 (chunk 12 4 b)\<rparr>"

definition hdr_bytes :: "logStreamHdr \<Rightarrow> u8 list" where
  "hdr_bytes h = le32 (h_magic1 h) @ s32_bytes (h_elemSize h) @ s32_bytes (h_maxNoElem h) @
     s32_bytes (h_lock h) @ s32_bytes (h_cHdr h) @ ctrl_bytes (h_ctrl0 h) @ ctrl_bytes (h_ctrl1 h) @ le32 (h_magic2 h)"

definition bytes_hdr :: "u8 list \<Rightarrow> logStreamHdr" where
  "bytes_hdr b = \<lparr>h_magic1 = un_le32 (chunk 0 4 b), h_elemSize = bytes_s32 (chunk 4 4 b),
     h_maxNoElem = bytes_s32 (chunk 8 4 b), h_lock = bytes_s32 (chunk 12 4 b), h_cHdr = bytes_s32 (chunk 16 4 b),
     h_ctrl0 = bytes_ctrl (chunk 20 16 b), h_ctrl1 = bytes_ctrl (chunk 36 16 b), h_magic2 = un_le32 (chunk 52 4 b)\<rparr>"

text \<open>\<open>sizeof(struct logStreamHdr)\<close> and the two offsets LogStreamCommit writes at.\<close>

definition HDR_SIZE :: int where "HDR_SIZE = 56"

definition off_ctrl :: "s32 \<Rightarrow> u32" where "off_ctrl c = 20 + 16 * word_of_int c"
definition off_cHdr :: u32 where "off_cHdr = 16"

definition null_ctrl :: logStreamCtrl where
  "null_ctrl = \<lparr>lc_tail = 0, lc_elem = 0, lc_head = 0, lc_d = 0\<rparr>"

definition null_hdr :: logStreamHdr where
  "null_hdr = \<lparr>h_magic1 = 0, h_elemSize = 0, h_maxNoElem = 0, h_lock = 0, h_cHdr = 0,
     h_ctrl0 = null_ctrl, h_ctrl1 = null_ctrl, h_magic2 = 0\<rparr>"

text \<open>The header written when the device holds none for this stream (label INIT_HDR).\<close>

definition fresh_hdr :: "s32 \<Rightarrow> s32 \<Rightarrow> logStreamHdr" where
  "fresh_hdr elemSize m = null_hdr\<lparr>h_magic1 := LOGSTREAM_MAGIC1, h_magic2 := LOGSTREAM_MAGIC2,
     h_maxNoElem := m, h_elemSize := elemSize\<rparr>"

section \<open>Operations\<close>

definition LogStreamCommit :: "'d kDevice_t option \<Rightarrow> logStream \<Rightarrow> 'd \<Rightarrow> logStream \<times> 'd" where
  "LogStreamCommit kDev lS d =
     (if li_maxNoElem lS \<noteq> 0 then
        (let d = snd (KDevSeek kDev (off_ctrl (li_cHdr lS)) DEV_SEEK_START d);
             d = snd (KDevWrite kDev (ctrl_bytes (ls_ctrl lS)) d);
             d = snd (KDevSeek kDev off_cHdr DEV_SEEK_START d);
             d = snd (KDevWrite kDev (s32_bytes (li_cHdr lS)) d)
         in (lS\<lparr>li_cHdr := (if li_cHdr lS = 0 then 1 else 0)\<rparr>, d))
      else (lS, d))"

text \<open>A header that names neither of the two control records as the current one makes the code read
  behind them: None.\<close>

definition LogStreamInit :: "'d kDevice_t option \<Rightarrow> s32 \<Rightarrow> 'd \<Rightarrow> (logStream \<times> 'd) option" where
  "LogStreamInit kDev elemSize d = do {
     ASSERT (elemSize > 0);
     let d = snd (KDevReset kDev d);
     let (r, d) = KDevSeek kDev 0 DEV_SEEK_END d;
     let m = sint (word_of_int (r - HDR_SIZE) :: u32);
     let m = (if m > 0 then m div elemSize else 0);
     let lS = \<lparr>li_elemSize = elemSize, li_maxNoElem = m, li_lock = 0, li_cHdr = 0, ls_ctrl = null_ctrl\<rparr>;
     if m \<noteq> 0 then do {
       let d = snd (KDevSeek kDev 0 DEV_SEEK_START d);
       let (r, b, d) = KDevRead kDev HDR_SIZE d;
       ASSERT (length b = nat HDR_SIZE);
       let hdr = bytes_hdr b;
       if h_magic1 hdr \<noteq> LOGSTREAM_MAGIC1 \<or> h_magic2 hdr \<noteq> LOGSTREAM_MAGIC2 \<or>
          h_maxNoElem hdr \<noteq> m \<or> h_elemSize hdr \<noteq> elemSize
       then do {
         let d = snd (KDevSeek kDev 0 DEV_SEEK_START d);
         Some (lS, snd (KDevWrite kDev (hdr_bytes (fresh_hdr elemSize m)) d))
       }
       else do {
         ASSERT (h_cHdr hdr = 0 \<or> h_cHdr hdr = 1);
         Some (lS\<lparr>li_lock := h_lock hdr, li_cHdr := (if h_cHdr hdr = 0 then 1 else 0),
                  ls_ctrl := (if h_cHdr hdr = 0 then h_ctrl0 hdr else h_ctrl1 hdr)\<rparr>, d)
       }
     } else Some (lS, d)
   }"

text \<open>\<open>x + 1 < maxNoElem ? x + 1 : 0\<close>\<close>

definition ring_next :: "s32 \<Rightarrow> s32 \<Rightarrow> s32" where
  "ring_next m x = (if x + 1 < m then x + 1 else 0)"

text \<open>The oldest record is dropped, and the cursor follows it.\<close>

definition smash :: "logStream \<Rightarrow> logStream" where
  "smash lS = lS\<lparr>ls_ctrl := (ls_ctrl lS)\<lparr>lc_head := ring_next (li_maxNoElem lS) (lc_head (ls_ctrl lS)),
      lc_d := (if lc_d (ls_ctrl lS) > 0 then lc_d (ls_ctrl lS) - 1 else lc_d (ls_ctrl lS)),
      lc_elem := lc_elem (ls_ctrl lS) - 1\<rparr>\<rparr>"

definition LogStreamInsert :: "'d kDevice_t option \<Rightarrow> logStream \<Rightarrow> u8 list \<Rightarrow> 'd \<Rightarrow> (s32 \<times> logStream \<times> 'd) option" where
  "LogStreamInsert kDev lS log d = do {
     ASSERT (li_maxNoElem lS \<ge> 0);
     if li_maxNoElem lS \<noteq> 0 then
       if lc_elem (ls_ctrl lS) \<ge> li_maxNoElem lS \<and> li_lock lS \<noteq> 0 then Some (- 1, lS, d)
       else do {
         let (smashed, lS) = (if lc_elem (ls_ctrl lS) \<ge> li_maxNoElem lS then (1, smash lS) else (0, lS));
         ASSERT (lc_elem (ls_ctrl lS) < li_maxNoElem lS);
         let d = snd (KDevSeek kDev (word_of_int (HDR_SIZE + lc_tail (ls_ctrl lS) * li_elemSize lS)) DEV_SEEK_START d);
         let d = snd (KDevWrite kDev (take (nat (li_elemSize lS)) log) d);
         let lS = lS\<lparr>ls_ctrl := (ls_ctrl lS)\<lparr>lc_tail := ring_next (li_maxNoElem lS) (lc_tail (ls_ctrl lS)),
                                              lc_elem := lc_elem (ls_ctrl lS) + 1\<rparr>\<rparr>;
         let (lS, d) = LogStreamCommit kDev lS d;
         Some (smashed, lS, d)
       }
     else do {
       let d = snd (KDevWrite kDev (take (nat (li_elemSize lS)) log) d);
       let (lS, d) = LogStreamCommit kDev lS d;
       Some (0, lS, d)
     }
   }"

definition LogStreamGet :: "'d kDevice_t option \<Rightarrow> logStream \<Rightarrow> 'd \<Rightarrow> s32 \<times> u8 list \<times> logStream \<times> 'd" where
  "LogStreamGet kDev lS d =
     (if lc_elem (ls_ctrl lS) > 0 \<and> lc_d (ls_ctrl lS) < lc_elem (ls_ctrl lS) then
        (let ptr = (lc_d (ls_ctrl lS) + lc_head (ls_ctrl lS)) mod li_maxNoElem lS;
             lS = lS\<lparr>ls_ctrl := (ls_ctrl lS)\<lparr>lc_d := lc_d (ls_ctrl lS) + 1\<rparr>\<rparr>;
             d = snd (KDevSeek kDev (word_of_int (HDR_SIZE + ptr * li_elemSize lS)) DEV_SEEK_START d);
             (r, b, d) = KDevRead kDev (li_elemSize lS) d;
             (lS, d) = LogStreamCommit kDev lS d
         in (0, b, lS, d))
      else (- 1, [], lS, d))"

definition LogStreamSeek :: "'d kDevice_t option \<Rightarrow> logStream \<Rightarrow> s32 \<Rightarrow> u32 \<Rightarrow> 'd \<Rightarrow> s32 \<times> logStream \<times> 'd" where
  "LogStreamSeek kDev lS offset whence d =
     (if whence \<in> {0, 1, 2} then
        (let off = (if whence = 1 then offset
                    else if whence = 0 then offset + lc_d (ls_ctrl lS)
                    else offset + lc_elem (ls_ctrl lS));
             off = (if off > lc_elem (ls_ctrl lS) then lc_elem (ls_ctrl lS) else off);
             off = (if off < 0 then 0 else off);
             (lS, d) = LogStreamCommit kDev (lS\<lparr>ls_ctrl := (ls_ctrl lS)\<lparr>lc_d := off\<rparr>\<rparr>) d
         in (off, lS, d))
      else (- 1, lS, d))"

definition LogStreamLock :: "logStream \<Rightarrow> logStream" where
  "LogStreamLock lS = lS\<lparr>li_lock := 1\<rparr>"

definition LogStreamUnlock :: "logStream \<Rightarrow> logStream" where
  "LogStreamUnlock lS = lS\<lparr>li_lock := 0\<rparr>"

section \<open>Words as bytes\<close>

lemma length_le32 [simp]: "length (le32 w) = 4" "length (s32_bytes i) = 4" "length (ctrl_bytes c) = 16"
  "length (hdr_bytes h) = 56"
  by (simp_all add: le32_def s32_bytes_def ctrl_bytes_def hdr_bytes_def)

lemma un_le32_le32 [simp]: "un_le32 (le32 w) = w"
proof (rule bit_word_eqI)
  fix n assume n: "n < LENGTH(32)"
  then have "n < 8 \<or> 8 \<le> n \<and> n < 16 \<or> 16 \<le> n \<and> n < 24 \<or> 24 \<le> n \<and> n < 32" by auto
  then show "bit (un_le32 (le32 w)) n = bit w n"
    unfolding un_le32_def le32_def
    by (auto simp: bit_or_iff bit_push_bit_iff bit_ucast_iff bit_drop_bit_eq)
qed

lemma bytes_s32_id [simp]: "- (2 ^ 31) \<le> i \<Longrightarrow> i < 2 ^ 31 \<Longrightarrow> bytes_s32 (s32_bytes i) = i"
  by (simp add: bytes_s32_def s32_bytes_def signed_of_int signed_take_bit_int_eq_self)

lemma chunk_append1: "n \<le> length a \<Longrightarrow> chunk 0 n (a @ b) = take n a"
  by (simp add: chunk_def)

lemma chunk_append2: "length a \<le> off \<Longrightarrow> chunk off n (a @ b) = chunk (off - length a) n b"
  by (simp add: chunk_def)

lemma chunk_all: "length b = n \<Longrightarrow> chunk 0 n b = b"
  by (simp add: chunk_def)

definition s32_range :: "int \<Rightarrow> bool" where
  "s32_range i \<longleftrightarrow> - (2 ^ 31) \<le> i \<and> i < 2 ^ 31"

definition ctrl_range :: "logStreamCtrl \<Rightarrow> bool" where
  "ctrl_range c \<longleftrightarrow> s32_range (lc_tail c) \<and> s32_range (lc_elem c) \<and> s32_range (lc_head c) \<and> s32_range (lc_d c)"

lemma bytes_ctrl_bytes [simp]: "ctrl_range c \<Longrightarrow> bytes_ctrl (ctrl_bytes c) = c"
  by (simp add: bytes_ctrl_def ctrl_bytes_def chunk_append1 chunk_append2 chunk_all ctrl_range_def s32_range_def)

text \<open>The fields of the header, by their place on the device.\<close>

lemma hdr_bytes_chunks:
  "chunk 0 4 (hdr_bytes h) = le32 (h_magic1 h)" "chunk 4 4 (hdr_bytes h) = s32_bytes (h_elemSize h)"
  "chunk 8 4 (hdr_bytes h) = s32_bytes (h_maxNoElem h)" "chunk 12 4 (hdr_bytes h) = s32_bytes (h_lock h)"
  "chunk 16 4 (hdr_bytes h) = s32_bytes (h_cHdr h)" "chunk 20 16 (hdr_bytes h) = ctrl_bytes (h_ctrl0 h)"
  "chunk 36 16 (hdr_bytes h) = ctrl_bytes (h_ctrl1 h)" "chunk 52 4 (hdr_bytes h) = le32 (h_magic2 h)"
  by (simp_all add: hdr_bytes_def chunk_append1 chunk_append2 chunk_all)

lemma bytes_hdr_bytes:
  assumes "s32_range (h_elemSize h)" "s32_range (h_maxNoElem h)" "s32_range (h_lock h)" "s32_range (h_cHdr h)"
    and "ctrl_range (h_ctrl0 h)" "ctrl_range (h_ctrl1 h)"
  shows "bytes_hdr (hdr_bytes h) = h"
  using assms by (simp add: bytes_hdr_def hdr_bytes_chunks s32_range_def)

section \<open>The abstract stream\<close>

definition entry :: "u8 list \<Rightarrow> nat \<Rightarrow> nat \<Rightarrow> u8 list" where
  "entry m es i = chunk (56 + i * es) es m"

text \<open>The records kept, oldest first.\<close>

definition log_abs :: "logStream \<Rightarrow> u8 list \<Rightarrow> u8 list list" where
  "log_abs lS m = map (\<lambda>i. entry m (nat (li_elemSize lS))
     (nat ((lc_head (ls_ctrl lS) + int i) mod li_maxNoElem lS))) [0..<nat (lc_elem (ls_ctrl lS))]"

definition log_inv :: "logStream \<Rightarrow> u8 list \<Rightarrow> bool" where
  "log_inv lS m \<longleftrightarrow> (let c = ls_ctrl lS; n = li_maxNoElem lS in
     0 < n \<and> 0 < li_elemSize lS \<and> 56 + nat n * nat (li_elemSize lS) \<le> length m \<and> length m < 2 ^ 31 \<and>
     0 \<le> lc_elem c \<and> lc_elem c \<le> n \<and> 0 \<le> lc_head c \<and> lc_head c < n \<and>
     lc_tail c = (lc_head c + lc_elem c) mod n \<and> 0 \<le> lc_d c \<and> lc_d c \<le> lc_elem c \<and> li_cHdr lS \<in> {0, 1})"

text \<open>What a reboot finds: the header names this stream and holds its current control words.\<close>

definition log_synced :: "logStream \<Rightarrow> u8 list \<Rightarrow> bool" where
  "log_synced lS m \<longleftrightarrow> (let h = bytes_hdr (chunk 0 56 m) in
     h_magic1 h = LOGSTREAM_MAGIC1 \<and> h_magic2 h = LOGSTREAM_MAGIC2 \<and>
     h_elemSize h = li_elemSize lS \<and> h_maxNoElem h = li_maxNoElem lS \<and> h_cHdr h \<in> {0, 1} \<and>
     (if h_cHdr h = 0 then h_ctrl0 h else h_ctrl1 h) = ls_ctrl lS)"

lemma log_invD:
  assumes "log_inv lS m"
  shows "0 < li_maxNoElem lS" "0 < li_elemSize lS" "56 + nat (li_maxNoElem lS) * nat (li_elemSize lS) \<le> length m"
    "length m < 2 ^ 31" "0 \<le> lc_elem (ls_ctrl lS)" "lc_elem (ls_ctrl lS) \<le> li_maxNoElem lS"
    "0 \<le> lc_head (ls_ctrl lS)" "lc_head (ls_ctrl lS) < li_maxNoElem lS"
    "lc_tail (ls_ctrl lS) = (lc_head (ls_ctrl lS) + lc_elem (ls_ctrl lS)) mod li_maxNoElem lS"
    "0 \<le> lc_d (ls_ctrl lS)" "lc_d (ls_ctrl lS) \<le> lc_elem (ls_ctrl lS)" "li_cHdr lS = 0 \<or> li_cHdr lS = 1"
  using assms by (auto simp: log_inv_def Let_def)

lemma ring_next_mod: "0 \<le> x \<Longrightarrow> x < m \<Longrightarrow> ring_next m x = (x + 1) mod m"
  by (cases "x + 1 = m") (auto simp: ring_next_def)

lemma entry_fits:
  assumes "log_inv lS m" "i < nat (li_maxNoElem lS)"
  shows "56 + i * nat (li_elemSize lS) + nat (li_elemSize lS) \<le> length m"
proof -
  have "Suc i * nat (li_elemSize lS) \<le> nat (li_maxNoElem lS) * nat (li_elemSize lS)"
    using assms(2) by (intro mult_le_mono1) simp
  then show ?thesis using log_invD(3) [OF assms(1)] by simp
qed

lemma entry_off_small:
  assumes "log_inv lS m" "0 \<le> i" "i < li_maxNoElem lS"
  shows "(word_of_int (HDR_SIZE + i * li_elemSize lS) :: u32) = word_of_nat (56 + nat i * nat (li_elemSize lS))"
  using assms log_invD(2) [OF assms(1)] by (simp add: HDR_SIZE_def)

lemma entry_header:
  assumes "off + length b \<le> 56" "56 \<le> length m" "56 + i * es + es \<le> length m"
  shows "entry (splice off b m) es i = entry m es i"
  unfolding entry_def by (rule chunk_splice_other) (use assms in auto)

lemma entry_other:
  assumes "i \<noteq> j" "length b = es" "56 + i * es + es \<le> length m" "56 + j * es + es \<le> length m"
  shows "entry (splice (56 + j * es) b m) es i = entry m es i"
proof -
  have "Suc i * es \<le> j * es \<or> Suc j * es \<le> i * es"
    using assms(1) by (metis mult_le_mono1 Suc_leI nat_neq_iff)
  then show ?thesis
    unfolding entry_def by (intro chunk_splice_other) (use assms in auto)
qed

lemma entry_same: "length b = es \<Longrightarrow> 56 + j * es + es \<le> length m \<Longrightarrow> entry (splice (56 + j * es) b m) es j = b"
  unfolding entry_def by (rule chunk_splice_same) auto

lemma log_abs_cong:
  assumes "\<And>i. i < nat (li_maxNoElem lS) \<Longrightarrow> entry m' (nat (li_elemSize lS)) i = entry m (nat (li_elemSize lS)) i"
    and "0 < li_maxNoElem lS"
  shows "log_abs lS m' = log_abs lS m"
  unfolding log_abs_def by (rule map_cong) (use assms in \<open>auto simp: nat_mod_distrib\<close>)

lemma log_abs_cHdr [simp]: "log_abs (lS\<lparr>li_cHdr := c\<rparr>) m = log_abs lS m"
  by (simp add: log_abs_def)

text \<open>Dropping the oldest record.\<close>

lemma smash_abs:
  assumes "log_inv lS m" "lc_elem (ls_ctrl lS) > 0"
  shows "log_inv (smash lS) m" "log_abs (smash lS) m = tl (log_abs lS m)"
proof -
  note D = log_invD [OF assms(1)]
  let ?n = "li_maxNoElem lS" and ?h = "lc_head (ls_ctrl lS)" and ?e = "lc_elem (ls_ctrl lS)"
  have h: "ring_next ?n ?h = (?h + 1) mod ?n" using ring_next_mod D(7,8) by simp
  have shift: "((?h + 1) mod ?n + x) mod ?n = (?h + (1 + x)) mod ?n" for x
    by (metis mod_add_left_eq add.assoc)
  show "log_inv (smash lS) m"
    using D assms(2) shift [of "?e - 1"] by (auto simp: log_inv_def smash_def h Let_def)
  have "nat ?e = Suc (nat (?e - 1))" using assms(2) by simp
  then have "tl [0..<nat ?e] = map Suc [0..<nat (?e - 1)]"
    by (simp only: map_Suc_upt tl_upt)
  then show "log_abs (smash lS) m = tl (log_abs lS m)"
    by (simp add: log_abs_def smash_def h map_tl [symmetric] shift)
qed

text \<open>Appending a record to a stream that is not full.\<close>

definition put :: "logStream \<Rightarrow> logStream" where
  "put lS = lS\<lparr>ls_ctrl := (ls_ctrl lS)\<lparr>lc_tail := ring_next (li_maxNoElem lS) (lc_tail (ls_ctrl lS)),
                                        lc_elem := lc_elem (ls_ctrl lS) + 1\<rparr>\<rparr>"

lemma put_abs:
  assumes inv: "log_inv lS m" and room: "lc_elem (ls_ctrl lS) < li_maxNoElem lS"
    and b: "length b = nat (li_elemSize lS)"
  defines "m' \<equiv> splice (56 + nat (lc_tail (ls_ctrl lS)) * nat (li_elemSize lS)) b m"
  shows "log_inv (put lS) m'" "log_abs (put lS) m' = log_abs lS m @ [b]"
proof -
  note D = log_invD [OF inv]
  let ?n = "li_maxNoElem lS" and ?h = "lc_head (ls_ctrl lS)" and ?e = "lc_elem (ls_ctrl lS)" and ?es = "nat (li_elemSize lS)"
  let ?t = "lc_tail (ls_ctrl lS)"
  have t: "0 \<le> ?t" "?t < ?n" using D(1,9) by simp_all
  have fit: "56 + i * ?es + ?es \<le> length m" if "i < nat ?n" for i by (rule entry_fits [OF inv that])
  have len: "length m' = length m" unfolding m'_def using fit [of "nat ?t"] t b by simp
  have "ring_next ?n ?t = (?h + (?e + 1)) mod ?n"
    using ring_next_mod [OF t] D(9) by (metis mod_add_left_eq add.assoc)
  then show "log_inv (put lS) m'"
    using D room len by (auto simp: log_inv_def put_def Let_def)
  have ent: "entry m' ?es (nat ((?h + int i) mod ?n)) = entry m ?es (nat ((?h + int i) mod ?n))" if "i < nat ?e" for i
  proof -
    have "(?h + int i) mod ?n \<noteq> ?t"
    proof
      assume "(?h + int i) mod ?n = ?t"
      then have "(?h + int i) mod ?n = (?h + ?e) mod ?n" using D(9) by simp
      then have "?n dvd (?h + ?e) - (?h + int i)" by (metis mod_eq_dvd_iff)
      then have "?n dvd ?e - int i" by simp
      then show False using that room D(5) zdvd_not_zless [of "?e - int i" ?n] by linarith
    qed
    then have "nat ((?h + int i) mod ?n) \<noteq> nat ?t" using t D(1) by (metis nat_eq_iff2 pos_mod_sign)
    then show ?thesis
      unfolding m'_def by (rule entry_other [OF _ b]) (use fit t D(1) in auto)
  qed
  have last: "entry m' ?es (nat ((?h + ?e) mod ?n)) = b"
    using entry_same [OF b] fit [of "nat ?t"] t D(9) unfolding m'_def by auto
  have up: "[0..<nat (?e + 1)] = [0..<nat ?e] @ [nat ?e]" using D(5) by (simp add: nat_add_distrib)
  show "log_abs (put lS) m' = log_abs lS m @ [b]"
    using ent last D(5) by (simp add: log_abs_def put_def up)
qed

text \<open>The two writes of a commit.\<close>

definition committed :: "logStream \<Rightarrow> u8 list \<Rightarrow> u8 list" where
  "committed lS m = splice 16 (s32_bytes (li_cHdr lS)) (splice (20 + 16 * nat (li_cHdr lS)) (ctrl_bytes (ls_ctrl lS)) m)"

definition flip_cHdr :: "logStream \<Rightarrow> logStream" where
  "flip_cHdr lS = lS\<lparr>li_cHdr := (if li_cHdr lS = 0 then 1 else 0)\<rparr>"

lemma log_inv_length: "log_inv lS m \<Longrightarrow> length m' = length m \<Longrightarrow> log_inv lS m'"
  by (simp add: log_inv_def)

lemma committed_length [simp]:
  assumes "log_inv lS m" shows "length (committed lS m) = length m"
proof -
  have "56 \<le> length m" using log_invD(3) [OF assms] by linarith
  then show ?thesis using log_invD(12) [OF assms] by (auto simp: committed_def)
qed

lemma committed_abs:
  assumes "log_inv lS m"
  shows "log_abs lS (committed lS m) = log_abs lS m"
proof (rule log_abs_cong)
  fix i assume "i < nat (li_maxNoElem lS)"
  note fit = entry_fits [OF assms this]
  have "56 \<le> length m" using log_invD(3) [OF assms] by linarith
  then show "entry (committed lS m) (nat (li_elemSize lS)) i = entry m (nat (li_elemSize lS)) i"
    using log_invD(12) [OF assms] fit by (auto simp: committed_def entry_header)
qed (use log_invD(1) [OF assms] in simp)

lemma log_inv_flip: "log_inv lS m \<Longrightarrow> log_inv (flip_cHdr lS) m"
  by (auto simp: log_inv_def flip_cHdr_def Let_def)

text \<open>The parts of the header after the writes of a commit.\<close>

lemma chunk_chunk: "off + n \<le> k \<Longrightarrow> chunk off n (chunk 0 k m) = chunk off n m"
  by (simp add: chunk_def min_def drop_take)

lemma bytes_hdr_sel:
  "h_magic1 (bytes_hdr (chunk 0 56 m)) = un_le32 (chunk 0 4 m)"
  "h_elemSize (bytes_hdr (chunk 0 56 m)) = bytes_s32 (chunk 4 4 m)"
  "h_maxNoElem (bytes_hdr (chunk 0 56 m)) = bytes_s32 (chunk 8 4 m)"
  "h_lock (bytes_hdr (chunk 0 56 m)) = bytes_s32 (chunk 12 4 m)"
  "h_cHdr (bytes_hdr (chunk 0 56 m)) = bytes_s32 (chunk 16 4 m)"
  "h_ctrl0 (bytes_hdr (chunk 0 56 m)) = bytes_ctrl (chunk 20 16 m)"
  "h_ctrl1 (bytes_hdr (chunk 0 56 m)) = bytes_ctrl (chunk 36 16 m)"
  "h_magic2 (bytes_hdr (chunk 0 56 m)) = un_le32 (chunk 52 4 m)"
  by (simp_all add: bytes_hdr_def chunk_chunk)

lemma log_inv_ctrl_range:
  assumes "log_inv lS m" shows "ctrl_range (ls_ctrl lS)"
proof -
  note D = log_invD [OF assms]
  have "nat (li_maxNoElem lS) * 1 \<le> nat (li_maxNoElem lS) * nat (li_elemSize lS)"
    using D(2) by (intro mult_le_mono2) simp
  then have "nat (li_maxNoElem lS) < 2 ^ 31" using D(3,4) by linarith
  then have n: "li_maxNoElem lS < 2 ^ 31" using D(1) by simp
  moreover have "0 \<le> lc_tail (ls_ctrl lS)" "lc_tail (ls_ctrl lS) < li_maxNoElem lS" using D(1,9) by simp_all
  ultimately show ?thesis using n D(5-8,10,11) unfolding ctrl_range_def s32_range_def by linarith
qed

definition hdr_kept :: "logStream \<Rightarrow> u8 list \<Rightarrow> bool" where
  "hdr_kept lS m \<longleftrightarrow> un_le32 (chunk 0 4 m) = LOGSTREAM_MAGIC1 \<and> un_le32 (chunk 52 4 m) = LOGSTREAM_MAGIC2 \<and>
     bytes_s32 (chunk 4 4 m) = li_elemSize lS \<and> bytes_s32 (chunk 8 4 m) = li_maxNoElem lS"

lemma log_synced_kept: "log_synced lS m \<Longrightarrow> hdr_kept lS m"
  by (simp add: log_synced_def hdr_kept_def Let_def bytes_hdr_sel)

lemma committed_synced:
  assumes inv: "log_inv lS m" and kept: "hdr_kept lS m"
  shows "log_synced (flip_cHdr lS) (committed lS m)"
proof -
  have l: "56 \<le> length m" using log_invD(3) [OF inv] by linarith
  let ?m1 = "splice (20 + 16 * nat (li_cHdr lS)) (ctrl_bytes (ls_ctrl lS)) m"
  have c: "li_cHdr lS = 0 \<or> li_cHdr lS = 1" by (rule log_invD(12) [OF inv])
  have l1: "length ?m1 = length m" using l c by auto
  have o: "chunk off n (committed lS m) = chunk off n m" if "off + n \<le> 16 \<or> 52 \<le> off \<and> off + n \<le> 56" for off n
  proof -
    have "chunk off n (committed lS m) = chunk off n ?m1"
      unfolding committed_def by (rule chunk_splice_other) (use that l l1 in auto)
    also have "\<dots> = chunk off n m"
      by (rule chunk_splice_other) (use that l c in auto)
    finally show ?thesis .
  qed
  have h: "chunk 16 4 (committed lS m) = s32_bytes (li_cHdr lS)"
    unfolding committed_def by (rule chunk_splice_same) (use l l1 in auto)
  have "chunk (20 + 16 * nat (li_cHdr lS)) 16 (committed lS m) = chunk (20 + 16 * nat (li_cHdr lS)) 16 ?m1"
    unfolding committed_def by (rule chunk_splice_other) (use l l1 c in auto)
  also have "\<dots> = ctrl_bytes (ls_ctrl lS)"
    by (rule chunk_splice_same) (use l c in auto)
  finally have k: "chunk (20 + 16 * nat (li_cHdr lS)) 16 (committed lS m) = ctrl_bytes (ls_ctrl lS)" .
  have "bytes_ctrl (ctrl_bytes (ls_ctrl lS)) = ls_ctrl lS"
    using log_inv_ctrl_range [OF inv] by simp
  then show ?thesis
    using kept h k c o [of 0 4] o [of 4 4] o [of 8 4] o [of 52 4]
    by (auto simp: log_synced_def Let_def bytes_hdr_sel hdr_kept_def flip_cHdr_def)
qed

section \<open>Log streams on a log device\<close>

context log_device
begin

lemma commit:
  assumes "ok d" "log_inv lS (mem d)"
  shows "\<exists>d'. LogStreamCommit (Some dev) lS d = (flip_cHdr lS, d') \<and> ok d' \<and> mem d' = committed lS (mem d)"
proof -
  have l: "56 \<le> length (mem d)" and n: "li_maxNoElem lS \<noteq> 0" using log_invD(1,3) [OF assms(2)] by linarith+
  have c: "li_cHdr lS = 0 \<or> li_cHdr lS = 1" by (rule log_invD(12) [OF assms(2)])
  have o: "off_ctrl (li_cHdr lS) = word_of_nat (20 + 16 * nat (li_cHdr lS))" "off_cHdr = word_of_nat 16"
    using c by (auto simp: off_ctrl_def off_cHdr_def)
  obtain d1 where d1: "snd (KDevWrite (Some dev) (ctrl_bytes (ls_ctrl lS))
      (snd (KDevSeek (Some dev) (off_ctrl (li_cHdr lS)) DEV_SEEK_START d))) = d1"
    "ok d1" "mem d1 = splice (20 + 16 * nat (li_cHdr lS)) (ctrl_bytes (ls_ctrl lS)) (mem d)"
    unfolding o using write_at [OF assms(1), of "20 + 16 * nat (li_cHdr lS)" "ctrl_bytes (ls_ctrl lS)"] l c by auto
  have "length (mem d1) = length (mem d)" using d1(3) l c by auto
  then obtain d2 where d2: "snd (KDevWrite (Some dev) (s32_bytes (li_cHdr lS))
      (snd (KDevSeek (Some dev) off_cHdr DEV_SEEK_START d1))) = d2"
    "ok d2" "mem d2 = splice 16 (s32_bytes (li_cHdr lS)) (mem d1)"
    unfolding o using write_at [OF d1(2), of 16 "s32_bytes (li_cHdr lS)"] l by auto
  show ?thesis
    using n d1 d2 by (simp add: LogStreamCommit_def Let_def flip_cHdr_def committed_def)
qed

text \<open>What every operation keeps: the invariant, and a header a reboot can use.\<close>

definition good :: "logStream \<Rightarrow> 'd \<Rightarrow> bool" where
  "good lS d \<longleftrightarrow> ok d \<and> log_inv lS (mem d) \<and> log_synced lS (mem d)"

lemma commit_good:
  assumes "ok d" "log_inv lS (mem d)" "hdr_kept lS (mem d)"
  shows "\<exists>lS' d'. LogStreamCommit (Some dev) lS d = (lS', d') \<and> good lS' d' \<and> lS' = flip_cHdr lS \<and>
    log_abs lS' (mem d') = log_abs lS (mem d)"
proof -
  obtain d' where d': "LogStreamCommit (Some dev) lS d = (flip_cHdr lS, d')" "ok d'" "mem d' = committed lS (mem d)"
    using commit [OF assms(1,2)] by blast
  then show ?thesis
    using committed_synced [OF assms(2,3)] committed_abs [OF assms(2)] committed_length [OF assms(2)]
      log_inv_flip [OF log_inv_length [OF assms(2)]]
    by (auto simp: good_def flip_cHdr_def)
qed

lemma hdr_kept_splice:
  assumes "56 \<le> off" "off + length b \<le> length m"
  shows "hdr_kept lS (splice off b m) = hdr_kept lS m"
proof -
  have "chunk o' n (splice off b m) = chunk o' n m" if "o' + n \<le> 56" for o' n
    by (rule chunk_splice_other) (use that assms in auto)
  then show ?thesis by (simp add: hdr_kept_def)
qed

lemma kept_put [simp]: "hdr_kept (put lS) m = hdr_kept lS m" "hdr_kept (smash lS) m = hdr_kept lS m"
  by (simp_all add: hdr_kept_def put_def smash_def)

lemma smash_sel: "li_elemSize (smash lS) = li_elemSize lS" "li_maxNoElem (smash lS) = li_maxNoElem lS"
  "li_lock (smash lS) = li_lock lS" "li_cHdr (smash lS) = li_cHdr lS"
  "lc_elem (ls_ctrl (smash lS)) = lc_elem (ls_ctrl lS) - 1"
  by (simp_all add: smash_def)

text \<open>Inserting: a full stream that is locked refuses, a full one loses its oldest record.\<close>

lemma insert_refines:
  assumes good: "good lS d" and b: "length log = nat (li_elemSize lS)"
  defines "full \<equiv> lc_elem (ls_ctrl lS) = li_maxNoElem lS"
  shows "full \<and> li_lock lS \<noteq> 0 \<Longrightarrow> LogStreamInsert (Some dev) lS log d = Some (- 1, lS, d)"
    and "\<not> (full \<and> li_lock lS \<noteq> 0) \<Longrightarrow> \<exists>lS' d'. LogStreamInsert (Some dev) lS log d = Some (if full then 1 else 0, lS', d') \<and>
      good lS' d' \<and> log_abs lS' (mem d') = (if full then tl (log_abs lS (mem d)) else log_abs lS (mem d)) @ [log] \<and>
      lc_d (ls_ctrl lS') = (if full then max 0 (lc_d (ls_ctrl lS) - 1) else lc_d (ls_ctrl lS)) \<and>
      li_lock lS' = li_lock lS \<and> li_elemSize lS' = li_elemSize lS \<and> li_maxNoElem lS' = li_maxNoElem lS"
proof -
  have ok: "ok d" and inv: "log_inv lS (mem d)" and kept: "hdr_kept lS (mem d)"
    using good log_synced_kept by (auto simp: good_def)
  note D = log_invD [OF inv]
  have fe: "lc_elem (ls_ctrl lS) \<ge> li_maxNoElem lS \<longleftrightarrow> full" using D(6) by (auto simp: full_def)
  show "full \<and> li_lock lS \<noteq> 0 \<Longrightarrow> LogStreamInsert (Some dev) lS log d = Some (- 1, lS, d)"
    using D(1) fe by (auto simp: LogStreamInsert_def)
  assume nl: "\<not> (full \<and> li_lock lS \<noteq> 0)"
  let ?l = "if full then smash lS else lS"
  have inv1: "log_inv ?l (mem d)" and kept1: "hdr_kept ?l (mem d)" and room: "lc_elem (ls_ctrl ?l) < li_maxNoElem ?l"
    and abs1: "log_abs ?l (mem d) = (if full then tl (log_abs lS (mem d)) else log_abs lS (mem d))"
    and sz: "li_elemSize ?l = li_elemSize lS" "li_maxNoElem ?l = li_maxNoElem lS" "li_lock ?l = li_lock lS" "li_cHdr ?l = li_cHdr lS"
    using smash_abs [OF inv] inv kept D(1,6) by (auto simp: full_def smash_sel)
  have t: "0 \<le> lc_tail (ls_ctrl ?l)" "lc_tail (ls_ctrl ?l) < li_maxNoElem ?l"
    using log_invD(1,9) [OF inv1] by simp_all
  let ?off = "56 + nat (lc_tail (ls_ctrl ?l)) * nat (li_elemSize ?l)"
  have fit: "?off + length log \<le> length (mem d)"
    using entry_fits [OF inv1, of "nat (lc_tail (ls_ctrl ?l))"] t b sz by auto
  have off: "(word_of_int (HDR_SIZE + lc_tail (ls_ctrl ?l) * li_elemSize ?l) :: u32) = word_of_nat ?off"
    by (rule entry_off_small [OF inv1 t])
  obtain d1 where d1: "snd (KDevWrite (Some dev) log (snd (KDevSeek (Some dev) (word_of_nat ?off) DEV_SEEK_START d))) = d1"
    "ok d1" "mem d1 = splice ?off log (mem d)"
    using write_at [OF ok fit] by blast
  have inv2: "log_inv (put ?l) (mem d1)" and abs2: "log_abs (put ?l) (mem d1) = log_abs ?l (mem d) @ [log]"
    using put_abs [OF inv1 room] b sz(1) d1(3) by auto
  have "hdr_kept (put ?l) (mem d1)" using kept1 hdr_kept_splice [OF _ fit] d1(3) by simp
  from commit_good [OF d1(2) inv2 this] obtain lS' d'
    where c: "LogStreamCommit (Some dev) (put ?l) d1 = (lS', d')" "good lS' d'" "lS' = flip_cHdr (put ?l)"
      "log_abs lS' (mem d') = log_abs (put ?l) (mem d1)" by blast
  have tk: "take (nat (li_elemSize ?l)) log = log" using b sz(1) by simp
  have "LogStreamInsert (Some dev) lS log d = Some (if full then 1 else 0, lS', d')"
  proof (cases full)
    case True
    then show ?thesis
      using nl D(1) fe room off tk d1(1) c(1)
      by (simp add: LogStreamInsert_def Let_def put_def [symmetric])
  next
    case False
    then show ?thesis
      using nl D(1) fe room off tk d1(1) c(1)
      by (simp add: LogStreamInsert_def Let_def put_def [symmetric])
  qed
  moreover have "lc_d (ls_ctrl lS') = (if full then max 0 (lc_d (ls_ctrl lS) - 1) else lc_d (ls_ctrl lS))"
    using D(10) by (simp add: c(3) flip_cHdr_def put_def smash_def)
  moreover have "li_lock lS' = li_lock lS \<and> li_elemSize lS' = li_elemSize lS \<and> li_maxNoElem lS' = li_maxNoElem lS"
    using sz by (simp add: c(3) flip_cHdr_def put_def)
  ultimately show "\<exists>lS' d'. LogStreamInsert (Some dev) lS log d = Some (if full then 1 else 0, lS', d') \<and>
      good lS' d' \<and> log_abs lS' (mem d') = (if full then tl (log_abs lS (mem d)) else log_abs lS (mem d)) @ [log] \<and>
      lc_d (ls_ctrl lS') = (if full then max 0 (lc_d (ls_ctrl lS) - 1) else lc_d (ls_ctrl lS)) \<and>
      li_lock lS' = li_lock lS \<and> li_elemSize lS' = li_elemSize lS \<and> li_maxNoElem lS' = li_maxNoElem lS"
    using c(2,4) abs1 abs2 by auto
qed

text \<open>Reading: the record under the cursor, or -1 when the cursor is past the last one.\<close>

lemma log_abs_nth:
  assumes "log_inv lS m" "0 \<le> i" "i < lc_elem (ls_ctrl lS)"
  shows "log_abs lS m ! nat i = entry m (nat (li_elemSize lS)) (nat ((i + lc_head (ls_ctrl lS)) mod li_maxNoElem lS))"
  using assms by (simp add: log_abs_def add.commute)

lemma log_inv_d: "log_inv lS m \<Longrightarrow> 0 \<le> x \<Longrightarrow> x \<le> lc_elem (ls_ctrl lS) \<Longrightarrow>
    log_inv (lS\<lparr>ls_ctrl := (ls_ctrl lS)\<lparr>lc_d := x\<rparr>\<rparr>) m"
  by (simp add: log_inv_def Let_def)

lemma log_abs_d [simp]: "log_abs (lS\<lparr>ls_ctrl := (ls_ctrl lS)\<lparr>lc_d := x\<rparr>\<rparr>) m = log_abs lS m"
  "hdr_kept (lS\<lparr>ls_ctrl := (ls_ctrl lS)\<lparr>lc_d := x\<rparr>\<rparr>) m = hdr_kept lS m"
  by (simp_all add: log_abs_def hdr_kept_def)

lemma get_refines:
  assumes good: "good lS d"
  shows "lc_d (ls_ctrl lS) = lc_elem (ls_ctrl lS) \<Longrightarrow> LogStreamGet (Some dev) lS d = (- 1, [], lS, d)"
    and "lc_d (ls_ctrl lS) \<noteq> lc_elem (ls_ctrl lS) \<Longrightarrow> \<exists>lS' d'. LogStreamGet (Some dev) lS d =
        (0, log_abs lS (mem d) ! nat (lc_d (ls_ctrl lS)), lS', d') \<and> good lS' d' \<and>
        log_abs lS' (mem d') = log_abs lS (mem d) \<and> lc_d (ls_ctrl lS') = lc_d (ls_ctrl lS) + 1"
proof -
  have ok: "ok d" and inv: "log_inv lS (mem d)" and kept: "hdr_kept lS (mem d)"
    using good log_synced_kept by (auto simp: good_def)
  note D = log_invD [OF inv]
  show "lc_d (ls_ctrl lS) = lc_elem (ls_ctrl lS) \<Longrightarrow> LogStreamGet (Some dev) lS d = (- 1, [], lS, d)"
    by (simp add: LogStreamGet_def)
  assume ne: "lc_d (ls_ctrl lS) \<noteq> lc_elem (ls_ctrl lS)"
  let ?d = "lc_d (ls_ctrl lS)" and ?es = "nat (li_elemSize lS)"
  let ?p = "(?d + lc_head (ls_ctrl lS)) mod li_maxNoElem lS"
  let ?l = "lS\<lparr>ls_ctrl := (ls_ctrl lS)\<lparr>lc_d := ?d + 1\<rparr>\<rparr>"
  have p: "0 \<le> ?p" "?p < li_maxNoElem lS" using D(1) by simp_all
  have fit: "(56 + nat ?p * ?es) + ?es \<le> length (mem d)" using entry_fits [OF inv, of "nat ?p"] p by simp
  obtain r d1 where d1: "KDevRead (Some dev) (int ?es) (snd (KDevSeek (Some dev) (word_of_nat (56 + nat ?p * ?es)) DEV_SEEK_START d)) =
      (r, chunk (56 + nat ?p * ?es) ?es (mem d), d1)" "ok d1" "mem d1 = mem d"
    using read_at [OF ok fit] by blast
  have inv1: "log_inv ?l (mem d1)" "hdr_kept ?l (mem d1)"
    using log_inv_d [OF inv, of "?d + 1"] D(10,11) ne kept d1(3) by auto
  obtain lS' d' where c: "LogStreamCommit (Some dev) ?l d1 = (lS', d')" "good lS' d'" "lS' = flip_cHdr ?l"
    "log_abs lS' (mem d') = log_abs ?l (mem d1)"
    using commit_good [OF d1(2) inv1] by blast
  have e: "chunk (56 + nat ?p * ?es) ?es (mem d) = log_abs lS (mem d) ! nat ?d"
    using log_abs_nth [OF inv, of ?d] D(10,11) ne by (simp add: entry_def)
  have es: "li_elemSize lS = int ?es" using D(2) by simp
  have "LogStreamGet (Some dev) lS d = (0, log_abs lS (mem d) ! nat ?d, lS', d')"
    using D(10,11) ne d1(1) c(1) e entry_off_small [OF inv p] es
    by (simp add: LogStreamGet_def Let_def)
  then show "\<exists>lS' d'. LogStreamGet (Some dev) lS d = (0, log_abs lS (mem d) ! nat ?d, lS', d') \<and> good lS' d' \<and>
        log_abs lS' (mem d') = log_abs lS (mem d) \<and> lc_d (ls_ctrl lS') = ?d + 1"
    using c d1(3) by (auto simp: flip_cHdr_def)
qed

text \<open>Seeking moves the cursor, clamped to the records kept.\<close>

lemma seek_refines:
  assumes good: "good lS d" and w: "whence \<in> {0, 1, 2}"
  defines "base \<equiv> (if whence = 1 then 0 else if whence = 0 then lc_d (ls_ctrl lS) else lc_elem (ls_ctrl lS))"
  shows "\<exists>lS' d'. LogStreamSeek (Some dev) lS offset whence d =
      (max 0 (min (lc_elem (ls_ctrl lS)) (offset + base)), lS', d') \<and> good lS' d' \<and>
      log_abs lS' (mem d') = log_abs lS (mem d) \<and>
      lc_d (ls_ctrl lS') = max 0 (min (lc_elem (ls_ctrl lS)) (offset + base))"
proof -
  have ok: "ok d" and inv: "log_inv lS (mem d)" and kept: "hdr_kept lS (mem d)"
    using good log_synced_kept by (auto simp: good_def)
  note D = log_invD [OF inv]
  let ?off = "max 0 (min (lc_elem (ls_ctrl lS)) (offset + base))"
  let ?l = "lS\<lparr>ls_ctrl := (ls_ctrl lS)\<lparr>lc_d := ?off\<rparr>\<rparr>"
  have inv1: "log_inv ?l (mem d)" "hdr_kept ?l (mem d)"
    using log_inv_d [OF inv, of ?off] kept D(5) by auto
  obtain lS' d' where c: "LogStreamCommit (Some dev) ?l d = (lS', d')" "good lS' d'" "lS' = flip_cHdr ?l"
    "log_abs lS' (mem d') = log_abs ?l (mem d)"
    using commit_good [OF ok inv1] by blast
  have off: "(let off = (if whence = 1 then offset else if whence = 0 then offset + lc_d (ls_ctrl lS) else offset + lc_elem (ls_ctrl lS));
             off = (if off > lc_elem (ls_ctrl lS) then lc_elem (ls_ctrl lS) else off)
         in if off < 0 then 0 else off) = ?off"
    using D(5) by (auto simp: base_def Let_def)
  then have "LogStreamSeek (Some dev) lS offset whence d =
      (let (lS, d) = LogStreamCommit (Some dev) ?l d in (?off, lS, d))"
    using w by (simp add: LogStreamSeek_def Let_def)
  then show ?thesis using c by (auto simp: flip_cHdr_def)
qed

text \<open>Starting a stream: on a device whose header is current, the stream of before; else an empty one.\<close>

lemma init_size:
  assumes "ok d" "0 < es"
  shows "\<exists>d1. KDevSeek (Some dev) 0 DEV_SEEK_END (snd (KDevReset (Some dev) d)) = (int (length (mem d)), d1) \<and>
      ok d1 \<and> mem d1 = mem d"
    and "sint (word_of_int (int (length (mem d)) - HDR_SIZE) :: u32) = int (length (mem d)) - 56"
proof -
  show "\<exists>d1. KDevSeek (Some dev) 0 DEV_SEEK_END (snd (KDevReset (Some dev) d)) = (int (length (mem d)), d1) \<and>
      ok d1 \<and> mem d1 = mem d"
    using reset [OF assms(1)] seek_end by force
  have "- (2 ^ 31) \<le> int (length (mem d)) - 56" "int (length (mem d)) - 56 < 2 ^ 31"
    using small [OF assms(1)] by auto
  then show "sint (word_of_int (int (length (mem d)) - HDR_SIZE) :: u32) = int (length (mem d)) - 56"
    by (simp add: HDR_SIZE_def signed_of_int signed_take_bit_int_eq_self del: of_int_diff)
qed

lemma init_reload:
  assumes good: "good lS d" and cap: "li_maxNoElem lS = (int (length (mem d)) - 56) div li_elemSize lS"
  shows "\<exists>lS' d'. LogStreamInit (Some dev) (li_elemSize lS) d = Some (lS', d') \<and> good lS' d' \<and>
    ls_ctrl lS' = ls_ctrl lS \<and> mem d' = mem d \<and> log_abs lS' (mem d') = log_abs lS (mem d) \<and>
    li_lock lS' = h_lock (bytes_hdr (chunk 0 56 (mem d)))"
proof -
  have ok: "ok d" and inv: "log_inv lS (mem d)" and syn: "log_synced lS (mem d)"
    using good by (auto simp: good_def)
  note D = log_invD [OF inv]
  let ?h = "bytes_hdr (chunk 0 56 (mem d))"
  have l: "56 \<le> length (mem d)" using D(3) by linarith
  have pos: "int (length (mem d)) - 56 > 0"
  proof (rule ccontr)
    assume "\<not> int (length (mem d)) - 56 > 0"
    then have "(int (length (mem d)) - 56) div li_elemSize lS \<le> 0 div li_elemSize lS"
      using D(2) by (intro zdiv_mono1) auto
    then show False using D(1) cap by simp
  qed
  obtain d1 where d1: "KDevSeek (Some dev) 0 DEV_SEEK_END (snd (KDevReset (Some dev) d)) = (int (length (mem d)), d1)"
    "ok d1" "mem d1 = mem d" using init_size(1) [OF ok D(2)] by blast
  obtain r d2 where d2: "KDevRead (Some dev) HDR_SIZE (snd (KDevSeek (Some dev) 0 DEV_SEEK_START d1)) = (r, chunk 0 56 (mem d), d2)"
    "ok d2" "mem d2 = mem d"
    using read_at [OF d1(2), of 0 56] d1(3) l by (auto simp: HDR_SIZE_def)
  let ?lS = "\<lparr>li_elemSize = li_elemSize lS, li_maxNoElem = li_maxNoElem lS, li_lock = h_lock ?h,
      li_cHdr = (if h_cHdr ?h = 0 then 1 else 0), ls_ctrl = ls_ctrl lS\<rparr>"
  have hh: "h_magic1 ?h = LOGSTREAM_MAGIC1" "h_magic2 ?h = LOGSTREAM_MAGIC2" "h_elemSize ?h = li_elemSize lS"
    "h_maxNoElem ?h = li_maxNoElem lS" "(if h_cHdr ?h = 0 then h_ctrl0 ?h else h_ctrl1 ?h) = ls_ctrl lS"
    "h_cHdr ?h = 0 \<or> h_cHdr ?h = 1"
    using syn by (simp_all add: log_synced_def Let_def)
  have ne: "li_maxNoElem lS \<noteq> 0" using D(1) by simp
  have len: "length (chunk 0 56 (mem d)) = nat HDR_SIZE" using l by (simp add: HDR_SIZE_def)
  have "LogStreamInit (Some dev) (li_elemSize lS) d = Some (?lS, d2)"
    unfolding LogStreamInit_def
    using D(2) d1(1) d2(1) hh ne len init_size(2) [OF ok D(2)] pos cap by (simp add: Let_def)
  moreover have "log_inv ?lS (mem d)" using inv by (auto simp: log_inv_def Let_def)
  moreover have "log_synced ?lS (mem d)" using syn by (simp add: log_synced_def Let_def)
  ultimately show ?thesis using d2 by (auto simp: good_def log_abs_def)
qed

lemma init_fresh:
  assumes ok: "ok d" and es: "0 < es" "es < 2 ^ 31" and room: "56 + nat es \<le> length (mem d)"
    and new: "un_le32 (chunk 0 4 (mem d)) \<noteq> LOGSTREAM_MAGIC1"
  shows "\<exists>lS d'. LogStreamInit (Some dev) es d = Some (lS, d') \<and> good lS d' \<and> log_abs lS (mem d') = [] \<and>
    li_elemSize lS = es \<and> li_maxNoElem lS = (int (length (mem d)) - 56) div es \<and> li_lock lS = 0"
proof -
  let ?n = "(int (length (mem d)) - 56) div es"
  have l: "56 \<le> length (mem d)" using room by simp
  have pos: "int (length (mem d)) - 56 > 0" "es \<le> int (length (mem d)) - 56" using room es(1) by linarith+
  have n: "0 < ?n" using pos(2) es(1) by (simp add: pos_imp_zdiv_pos_iff)
  have nle: "?n * es \<le> int (length (mem d)) - 56" 
    using pos_mod_sign [OF es(1), of "int (length (mem d)) - 56"]
      minus_mod_eq_div_mult [of "int (length (mem d)) - 56" es] by linarith
  have nbound: "?n < 2 ^ 31"
  proof -
    have "?n * 1 \<le> ?n * es" using n es(1) by (intro mult_left_mono) auto
    moreover have "int (length (mem d)) < 2 ^ 31" using small [OF ok] by auto
    ultimately show ?thesis using nle by linarith
  qed
  obtain d1 where d1: "KDevSeek (Some dev) 0 DEV_SEEK_END (snd (KDevReset (Some dev) d)) = (int (length (mem d)), d1)"
    "ok d1" "mem d1 = mem d" using init_size(1) [OF ok es(1)] by blast
  obtain r d2 where d2: "KDevRead (Some dev) HDR_SIZE (snd (KDevSeek (Some dev) 0 DEV_SEEK_START d1)) = (r, chunk 0 56 (mem d), d2)"
    "ok d2" "mem d2 = mem d"
    using read_at [OF d1(2), of 0 56] d1(3) l by (auto simp: HDR_SIZE_def)
  let ?hb = "hdr_bytes (fresh_hdr es ?n)"
  obtain d3 where d3: "snd (KDevWrite (Some dev) ?hb (snd (KDevSeek (Some dev) 0 DEV_SEEK_START d2))) = d3"
    "ok d3" "mem d3 = splice 0 ?hb (mem d)"
    using write_at [OF d2(2), of 0 ?hb] d2(3) l by auto
  let ?lS = "\<lparr>li_elemSize = es, li_maxNoElem = ?n, li_lock = 0, li_cHdr = 0, ls_ctrl = null_ctrl\<rparr>"
  have len: "length (chunk 0 56 (mem d)) = nat HDR_SIZE" using l by (simp add: HDR_SIZE_def)
  have "h_magic1 (bytes_hdr (chunk 0 56 (mem d))) \<noteq> LOGSTREAM_MAGIC1" using new by (simp add: bytes_hdr_sel)
  then have "LogStreamInit (Some dev) es d = Some (?lS, d3)"
    unfolding LogStreamInit_def
    using es(1) d1(1) d2(1) d3(1) n len init_size(2) [OF ok es(1)] pos by (simp add: Let_def)
  moreover have "log_inv ?lS (mem d3)"
  proof -
    have "nat ?n * nat es = nat (?n * es)" using n es(1) by (simp add: nat_mult_distrib)
    then have "56 + nat ?n * nat es \<le> length (mem d)" using nle pos by linarith
    then show ?thesis
      using n es(1) small [OF ok] l d3(3) by (simp add: log_inv_def null_ctrl_def)
  qed
  moreover have "log_synced ?lS (mem d3)"
  proof -
    have "chunk 0 56 (mem d3) = ?hb" unfolding d3(3) by (rule chunk_splice_same) (use l in auto)
    moreover have "bytes_hdr ?hb = fresh_hdr es ?n"
      using n nbound es by (intro bytes_hdr_bytes) (auto simp: fresh_hdr_def null_hdr_def s32_range_def ctrl_range_def null_ctrl_def)
    ultimately show ?thesis by (simp add: log_synced_def fresh_hdr_def null_hdr_def)
  qed
  ultimately show ?thesis using d3(2) by (auto simp: good_def log_abs_def null_ctrl_def)
qed

end

end
