(* ===== verification/HealthMon.thy ===== *)
theory HealthMon
  imports Reset LogStream
begin

text \<open>
  The health monitor, core/objects/hm.c: the event log, the object a system partition reads it
  through, and HmRaiseEvent with the actions of the configuration; the panics of
  core/kernel/panic.c and the checksum of core/include/checksum.h. An event can be raised while
  another is handled (a watchdog timer that expires in Schedule): \<open>hm_level n\<close> handles events nested
  up to n deep.
\<close>

section \<open>Checksums\<close>

text \<open>The sum is a 16-bit variable: the test for a carry above it never holds.\<close>

fun checksum_loop :: "u16 list \<Rightarrow> u16 \<Rightarrow> u16" where
  "checksum_loop [] acc = acc"
| "checksum_loop (h # hs) acc =
     (let acc = acc + h;
          acc = (if (ucast acc :: u32) AND 0xffff0000 \<noteq> 0 then ucast ((ucast acc :: u32) AND 0xffff) + 1 else acc)
      in checksum_loop hs acc)"

definition CalcCheckSum :: "u16 list \<Rightarrow> u16" where
  "CalcCheckSum hs = NOT (checksum_loop hs 0)"

definition IsValidCheckSum :: "u16 list \<Rightarrow> bool" where
  "IsValidCheckSum hs \<longleftrightarrow> checksum_loop hs 0 = 0xffff"

section \<open>The log\<close>

text \<open>A record: the payload is four words, of which the context uses pc, nPc and psr.\<close>

record xmHmLog =
  hl_signature :: u16
  hl_checksum :: u16
  hl_opCodeH :: u32
  hl_opCodeL :: u32
  hl_timestamp :: xmTime
  hl_payload :: "u32 list"

definition word_halves :: "u32 \<Rightarrow> u16 list" where
  "word_halves w = [ucast w, ucast (drop_bit 16 w)]"

definition log_halves :: "xmHmLog \<Rightarrow> u16 list" where
  "log_halves l = [hl_signature l, hl_checksum l] @ word_halves (hl_opCodeH l) @ word_halves (hl_opCodeL l)
     @ concat (map word_halves (s64_words (hl_timestamp l))) @ concat (map word_halves (hl_payload l))"

definition half_bytes :: "u16 \<Rightarrow> u8 list" where
  "half_bytes h = [ucast h, ucast (drop_bit 8 h)]"

definition log_bytes :: "xmHmLog \<Rightarrow> u8 list" where
  "log_bytes l = concat (map half_bytes (log_halves l))"

definition XM_HMLOG_SIGNATURE :: u16 where "XM_HMLOG_SIGNATURE = 0xfecf"
definition HM_LOG_SIZE :: nat where "HM_LOG_SIZE = 36"
definition HMLOG_OPCODE_SYS_MASK :: u32 where "HMLOG_OPCODE_SYS_MASK = 1"
definition HMLOG_OPCODE_VALID_CPUCTXT_MASK :: u32 where "HMLOG_OPCODE_VALID_CPUCTXT_MASK = 2"
definition HMLOG_OPCODE_SEQ_MASK :: u32 where "HMLOG_OPCODE_SEQ_MASK = 0xffffff00"
definition XM_HYPERVISOR_ID :: u32 where "XM_HYPERVISOR_ID = 0xff"

definition XM_HM_MAX_EVENTS :: nat where "XM_HM_MAX_EVENTS = 27"
definition XM_HM_EV_INTERNAL_ERROR :: u32 where "XM_HM_EV_INTERNAL_ERROR = 0"
definition XM_HM_EV_SYSTEM_ERROR :: u32 where "XM_HM_EV_SYSTEM_ERROR = 1"
definition XM_HM_EV_PARTITION_ERROR :: u32 where "XM_HM_EV_PARTITION_ERROR = 2"
definition XM_HM_EV_WATCHDOG_TIMER :: u32 where "XM_HM_EV_WATCHDOG_TIMER = 3"
definition XM_HM_EV_MEM_PROTECTION :: u16 where "XM_HM_EV_MEM_PROTECTION = 5"
definition XM_HM_EV_UNEXPECTED_TRAP :: u32 where "XM_HM_EV_UNEXPECTED_TRAP = 6"
definition XM_HM_MAX_GENERIC_EVENTS :: u32 where "XM_HM_MAX_GENERIC_EVENTS = 7"
definition XM_HM_AC_IGNORE :: u32 where "XM_HM_AC_IGNORE = 0"
definition XM_HM_AC_SHUTDOWN :: u32 where "XM_HM_AC_SHUTDOWN = 1"
definition XM_HM_AC_PARTITION_COLD_RESET :: u32 where "XM_HM_AC_PARTITION_COLD_RESET = 2"
definition XM_HM_AC_PARTITION_WARM_RESET :: u32 where "XM_HM_AC_PARTITION_WARM_RESET = 3"
definition XM_HM_AC_HYPERVISOR_COLD_RESET :: u32 where "XM_HM_AC_HYPERVISOR_COLD_RESET = 4"
definition XM_HM_AC_HYPERVISOR_WARM_RESET :: u32 where "XM_HM_AC_HYPERVISOR_WARM_RESET = 5"
definition XM_HM_AC_SUSPEND :: u32 where "XM_HM_AC_SUSPEND = 6"
definition XM_HM_AC_PARTITION_HALT :: u32 where "XM_HM_AC_PARTITION_HALT = 7"
definition XM_HM_AC_HYPERVISOR_HALT :: u32 where "XM_HM_AC_HYPERVISOR_HALT = 8"
definition XM_HM_AC_PROPAGATE :: u32 where "XM_HM_AC_PROPAGATE = 9"
definition XM_HM_AC_SWITCH_TO_MAINTENANCE :: u32 where "XM_HM_AC_SWITCH_TO_MAINTENANCE = 10"
definition XM_HM_RESET_STATUS_MODULE_RESTART :: u32 where "XM_HM_RESET_STATUS_MODULE_RESTART = 2"

lemmas hm_action_defs = XM_HM_AC_IGNORE_def XM_HM_AC_SHUTDOWN_def XM_HM_AC_PARTITION_COLD_RESET_def
  XM_HM_AC_PARTITION_WARM_RESET_def XM_HM_AC_HYPERVISOR_COLD_RESET_def XM_HM_AC_HYPERVISOR_WARM_RESET_def
  XM_HM_AC_SUSPEND_def XM_HM_AC_PARTITION_HALT_def XM_HM_AC_HYPERVISOR_HALT_def XM_HM_AC_PROPAGATE_def
  XM_HM_AC_SWITCH_TO_MAINTENANCE_def

text \<open>The device is what LookUpKDev finds for the configured one, a block of memory or none.\<close>

record hstate = rstate +
  hmInit :: bool
  hm_seq :: u32
  hmLogStream :: logStream
  hm_kDev :: "memBlockData kDevice_t option"
  hm_dev :: memBlockData

definition hl_event :: "xmHmLog \<Rightarrow> u32" where "hl_event l = drop_bit 16 (hl_opCodeL l AND 0xffff0000)"
definition hl_part :: "xmHmLog \<Rightarrow> u32" where "hl_part l = hl_opCodeL l AND 0xff"
definition hl_system :: "xmHmLog \<Rightarrow> bool" where "hl_system l = has_flag (hl_opCodeH l) HMLOG_OPCODE_SYS_MASK"

text \<open>A record of an event as the callers build it: event, partition, VCPU, system flag and context.\<close>

definition hm_log :: "u32 \<Rightarrow> u32 \<Rightarrow> u32 \<Rightarrow> u32 \<Rightarrow> u32 list \<Rightarrow> xmHmLog" where
  "hm_log event part vcpu opH payload = \<lparr>hl_signature = 0, hl_checksum = 0, hl_opCodeH = opH,
     hl_opCodeL = push_bit 16 event OR push_bit 8 vcpu OR part, hl_timestamp = 0, hl_payload = payload\<rparr>"

text \<open>The entry of the log: a sequence number and the checksum, which is computed over zero.\<close>

definition seal_log :: "u32 \<Rightarrow> xmHmLog \<Rightarrow> xmHmLog" where
  "seal_log n l =
     (let l = l\<lparr>hl_checksum := 0\<rparr>;
          l = l\<lparr>hl_opCodeH := clr_flag (hl_opCodeH l) HMLOG_OPCODE_SEQ_MASK OR push_bit 4 n\<rparr>
      in l\<lparr>hl_checksum := CalcCheckSum (log_halves l)\<rparr>)"

definition hm_insert :: "xmHmLog \<Rightarrow> 'a hstate_scheme \<Rightarrow> (xmHmLog \<times> 'a hstate_scheme) option" where
  "hm_insert l s = do {
     let l = seal_log (hm_seq s) l;
     (_, ls, d) \<leftarrow> LogStreamInsert (hm_kDev s) (hmLogStream s) (log_bytes l) (hm_dev s);
     Some (l, s\<lparr>hm_seq := hm_seq s + 1, hmLogStream := ls, hm_dev := d\<rparr>)
   }"

section \<open>Actions\<close>

definition maintenance :: "'a hstate_scheme hm_event \<Rightarrow> nat \<Rightarrow> xmTime \<Rightarrow> 'a hstate_scheme \<Rightarrow> (unit, 'a hstate_scheme) outcome option" where
  "maintenance hm fuel cTime s = do {
     (_, _, s) \<leftarrow> SwitchSchedPlan 1 s;
     s \<leftarrow> MakePlanSwitch cTime s;
     Resched hm fuel s
   }"

definition module_restart :: "u32 \<Rightarrow> u32 \<Rightarrow> 'a rstate_scheme \<Rightarrow> ('v, 'a rstate_scheme) outcome option" where
  "module_restart eventId mode s =
     ResetSystem mode (s\<lparr>resetStatusInit := push_bit 16 XM_HM_RESET_STATUS_MODULE_RESTART OR (eventId AND 0xffff)\<rparr>)"

text \<open>The switch for an event of the hypervisor. The default case is a panic, None here.\<close>

definition hpv_action :: "'a hstate_scheme hm_event \<Rightarrow> nat \<Rightarrow> xmTime \<Rightarrow> u32 \<Rightarrow> u32 \<Rightarrow> 'a hstate_scheme \<Rightarrow>
    (unit, 'a hstate_scheme) outcome option" where
  "hpv_action hm fuel cTime eventId action s =
     (if action = XM_HM_AC_IGNORE then Some (Ret () s)
      else if action = XM_HM_AC_HYPERVISOR_COLD_RESET then module_restart eventId XM_COLD_RESET s
      else if action = XM_HM_AC_HYPERVISOR_WARM_RESET then module_restart eventId XM_WARM_RESET s
      else if action = XM_HM_AC_SWITCH_TO_MAINTENANCE then maintenance hm fuel cTime s
      else if action = XM_HM_AC_HYPERVISOR_HALT then HaltSystem s
      else None)"

definition reset_or_halt :: "'a hstate_scheme hm_event \<Rightarrow> nat \<Rightarrow> u32 \<Rightarrow> u32 \<Rightarrow> u32 \<Rightarrow> 'a hstate_scheme \<Rightarrow>
    (unit, 'a hstate_scheme) outcome option" where
  "reset_or_halt hm fuel partitionId mode eventId s =
     and_then (ResetPartition hm fuel (unat partitionId) mode eventId s)
       (\<lambda>r s. if r < 0 then do { s \<leftarrow> HALT_PARTITION partitionId s; Resched hm fuel s } else Some (Ret () s))"

text \<open>The switch for an event of a partition; the result says whether the event is propagated to it.\<close>

definition part_action :: "'a hstate_scheme hm_event \<Rightarrow> nat \<Rightarrow> xmTime \<Rightarrow> u32 \<Rightarrow> u32 \<Rightarrow> u32 \<Rightarrow> 'a hstate_scheme \<Rightarrow>
    (s32, 'a hstate_scheme) outcome option" where
  "part_action hm fuel cTime eventId partitionId action s =
     (let ret0 = (\<lambda>_ s. Some (Ret 0 s)) in
      if action = XM_HM_AC_IGNORE then Some (Ret 0 s)
      else if action = XM_HM_AC_SHUTDOWN then map_option (Ret 0) (SHUTDOWN_PARTITION partitionId s)
      else if action = XM_HM_AC_PARTITION_COLD_RESET then and_then (reset_or_halt hm fuel partitionId XM_COLD_RESET eventId s) ret0
      else if action = XM_HM_AC_PARTITION_WARM_RESET then and_then (reset_or_halt hm fuel partitionId XM_WARM_RESET eventId s) ret0
      else if action = XM_HM_AC_HYPERVISOR_COLD_RESET then module_restart eventId XM_COLD_RESET s
      else if action = XM_HM_AC_HYPERVISOR_WARM_RESET then module_restart eventId XM_WARM_RESET s
      else if action = XM_HM_AC_SUSPEND then do {
        ASSERT (partitionId \<noteq> XM_HYPERVISOR_ID);
        s \<leftarrow> SUSPEND_PARTITION partitionId s;
        and_then (Resched hm fuel s) ret0
      }
      else if action = XM_HM_AC_PARTITION_HALT then do {
        ASSERT (partitionId \<noteq> XM_HYPERVISOR_ID);
        s \<leftarrow> HALT_PARTITION partitionId s;
        and_then (Resched hm fuel s) ret0
      }
      else if action = XM_HM_AC_HYPERVISOR_HALT then HaltSystem s
      else if action = XM_HM_AC_SWITCH_TO_MAINTENANCE then and_then (maintenance hm fuel cTime s) ret0
      else if action = XM_HM_AC_PROPAGATE then Some (Ret 1 s)
      else None)"

section \<open>Raising an event\<close>

definition hm_record :: "xmcHmSlot \<Rightarrow> xmHmLog \<Rightarrow> 'a hstate_scheme \<Rightarrow> (xmHmLog \<times> 'a hstate_scheme) option" where
  "hm_record slot l s = (if hms_log slot then hm_insert l s else Some (l, s))"

definition HmRaiseEvent :: "'a hstate_scheme hm_event \<Rightarrow> nat \<Rightarrow> xmHmLog \<Rightarrow> 'a hstate_scheme \<Rightarrow>
    (s32, 'a hstate_scheme) outcome option" where
  "HmRaiseEvent hm fuel l s =
     (if \<not> hmInit s then Some (Ret 0 s)
      else do {
        let s = log_audit (AuditHmEvent (hl_opCodeL l) (hl_opCodeH l)) s;
        let (cTime, s) = GetSysClockUsec s;
        let l = l\<lparr>hl_signature := XM_HMLOG_SIGNATURE\<rparr>;
        let eventId = hl_event l;
        ASSERT (unat eventId < XM_HM_MAX_EVENTS);
        let partitionId = hl_part l;
        let l = l\<lparr>hl_timestamp := cTime\<rparr>;
        if hl_system l then do {
          slot \<leftarrow> aget (xmcHpvHmTab (cfg s)) (unat eventId);
          let s = log_audit (AuditHmHpvAction (hms_action slot) (hms_log slot)) s;
          (l, s) \<leftarrow> hm_record slot l s;
          and_then (hpv_action hm fuel cTime eventId (hms_action slot) s) (\<lambda>_ s. Some (Ret 0 s))
        } else do {
          p \<leftarrow> aget (partitionTab s) (unat partitionId);
          c \<leftarrow> part_cfg p s;
          slot \<leftarrow> aget (pc_hmTab c) (unat eventId);
          let s = log_audit (AuditHmPartAction (hms_action slot) (hms_log slot)) s;
          (l, s) \<leftarrow> hm_record slot l s;
          ASSERT (unat partitionId < length (xmcPartitionTab (cfg s)));
          part_action hm fuel cTime eventId partitionId (hms_action slot) s
        }
      })"

text \<open>The watchdog event of KThrWatchdogTimerHndl: RaiseHmPartEvent for the partition of the thread. A
  nested event that does not return ends the computation of the outer one as well.\<close>

definition hm_returns :: "(s32, 's) outcome option \<Rightarrow> 's option" where
  "hm_returns r = (case r of Some (Ret v s) \<Rightarrow> Some s | _ \<Rightarrow> None)"

fun hm_level :: "nat \<Rightarrow> nat \<Rightarrow> 'a hstate_scheme hm_event" where
  "hm_level 0 fuel k s = None"
| "hm_level (Suc n) fuel k s = do {
     g \<leftarrow> k_g (kthreads s k);
     hm_returns (HmRaiseEvent (hm_level n fuel) fuel
       (hm_log XM_HM_EV_WATCHDOG_TIMER (KID2PARTID (g_id g)) (KID2VCPUID (g_id g)) 0 [0, 0, 0, 0]) s)
   }"

section \<open>Panics\<close>

definition cur_ids :: "'a kstate_scheme \<Rightarrow> (u32 \<times> u32) option" where
  "cur_ids s = (if cKThread s \<noteq> idleKThread s
     then map_option (\<lambda>g. (KID2PARTID (g_id g), KID2VCPUID (g_id g))) (k_g (kthreads s (cKThread s))) else Some (0, 0))"

text \<open>\<open>junk\<close> are the words of the record the source leaves uninitialised.\<close>

definition panic_log :: "u32 \<Rightarrow> u32 \<Rightarrow> u32 \<Rightarrow> cpuCtxt option \<Rightarrow> u32 \<Rightarrow> xmHmLog" where
  "panic_log junk part vcpu ctxt opH = (case ctxt of
     Some c \<Rightarrow> hm_log XM_HM_EV_INTERNAL_ERROR part vcpu (opH OR HMLOG_OPCODE_VALID_CPUCTXT_MASK) [cx_ip c, junk, cx_flags c, junk]
   | None \<Rightarrow> hm_log XM_HM_EV_INTERNAL_ERROR part vcpu opH [0, 0, 0, 0])"

definition SystemPanic :: "'a hstate_scheme hm_event \<Rightarrow> nat \<Rightarrow> u32 \<Rightarrow> cpuCtxt option \<Rightarrow> 'a hstate_scheme \<Rightarrow>
    ('v, 'a hstate_scheme) outcome option" where
  "SystemPanic hm fuel junk ctxt s = do {
     (part, vcpu) \<leftarrow> cur_ids s;
     and_then (HmRaiseEvent hm fuel (panic_log junk part vcpu ctxt HMLOG_OPCODE_SYS_MASK) s) (\<lambda>_ s. HaltSystem s)
   }"

definition PartitionPanic :: "'a hstate_scheme hm_event \<Rightarrow> nat \<Rightarrow> u32 \<Rightarrow> cpuCtxt option \<Rightarrow> 'a hstate_scheme \<Rightarrow>
    ('v, 'a hstate_scheme) outcome option" where
  "PartitionPanic hm fuel junk ctxt s =
     (if cKThread s = idleKThread s then HaltSystem s
      else do {
        (part, vcpu) \<leftarrow> cur_ids s;
        and_then (HmRaiseEvent hm fuel (panic_log junk part vcpu ctxt 0) s) (\<lambda>_ s.
          let s = SetKThreadFlags (cKThread s) KTHREAD_HALTED_F s
          in if cKThread s = idleKThread s then SystemPanic hm fuel junk ctxt s
             else and_then (Resched hm fuel s) (\<lambda>_ s. SystemPanic hm fuel junk ctxt s))
      })"

section \<open>The object\<close>

text \<open>The guards the three operations share: the descriptor is the hypervisor's, the caller a system
  partition.\<close>

definition hm_guards :: "u32 \<Rightarrow> 'a kstate_scheme \<Rightarrow> s32 option" where
  "hm_guards desc s = do {
     c \<leftarrow> cur_cfg s;
     Some (if OBJDESC_GET_PARTITIONID desc \<noteq> XM_HYPERVISOR_ID then XM_INVALID_PARAM
           else if \<not> has_flag (pc_flags c) XM_PART_SYSTEM then XM_PERM_ERROR else XM_OK)
   }"

text \<open>The loop of the read, \<open>k\<close> of \<open>n\<close> records remaining; the result is the number read.\<close>

fun read_logs :: "u32 \<Rightarrow> nat \<Rightarrow> nat \<Rightarrow> 'a hstate_scheme \<Rightarrow> (nat \<times> 'a hstate_scheme) option" where
  "read_logs buf e 0 s = Some (e, s)"
| "read_logs buf e (Suc k) s = do {
     let (r, bs, ls, d) = LogStreamGet (hm_kDev s) (hmLogStream s) (hm_dev s);
     let s = s\<lparr>hmLogStream := ls, hm_dev := d\<rparr>;
     if r < 0 then Some (e, s)
     else do {
       s \<leftarrow> gwrite_bytes (buf + word_of_nat (HM_LOG_SIZE * e)) bs s;
       read_logs buf (Suc e) k s
     }
   }"

definition ReadHmLog :: "u32 \<Rightarrow> u32 \<Rightarrow> u32 \<Rightarrow> 'a hstate_scheme \<Rightarrow> (s32 \<times> 'a hstate_scheme) option" where
  "ReadHmLog desc log sz s = do {
     g \<leftarrow> hm_guards desc s;
     if g \<noteq> XM_OK then Some (g, s)
     else do {
       chk \<leftarrow> CheckGParam log sz 4 (PFLAG_NOT_NULL OR PFLAG_RW) s;
       if chk < 0 then Some (XM_INVALID_PARAM, s)
       else do {
         let n = unat sz div HM_LOG_SIZE;
         if log = 0 \<or> n = 0 then Some (XM_INVALID_PARAM, s)
         else do {
           (e, s) \<leftarrow> read_logs log 0 n s;
           Some (int (e * HM_LOG_SIZE), s)
         }
       }
     }
   }"

definition SeekHmLog :: "u32 \<Rightarrow> u32 \<Rightarrow> u32 \<Rightarrow> 'a hstate_scheme \<Rightarrow> (s32 \<times> 'a hstate_scheme) option" where
  "SeekHmLog desc offset whence s = do {
     g \<leftarrow> hm_guards desc s;
     if g \<noteq> XM_OK then Some (g, s)
     else do {
       let (r, ls, d) = LogStreamSeek (hm_kDev s) (hmLogStream s) (sint offset) whence (hm_dev s);
       let s = s\<lparr>hmLogStream := ls, hm_dev := d\<rparr>;
       Some (if r < 0 then XM_INVALID_PARAM else XM_OK, s)
     }
   }"

definition CtrlHmLog :: "u32 \<Rightarrow> u32 \<Rightarrow> u32 \<Rightarrow> 'a hstate_scheme \<Rightarrow> (s32 \<times> 'a hstate_scheme) option" where
  "CtrlHmLog desc cmd args s = do {
     g \<leftarrow> hm_guards desc s;
     if g \<noteq> XM_OK then Some (g, s)
     else do {
       chk \<leftarrow> CheckGParam args 12 4 (PFLAG_NOT_NULL OR PFLAG_RW) s;
       if chk < 0 then Some (XM_INVALID_PARAM, s)
       else if cmd = 0 then do {
         s \<leftarrow> gwrite_u32 args (word_of_int (lc_elem (ls_ctrl (hmLogStream s)))) s;
         s \<leftarrow> gwrite_u32 (args + 4) (word_of_int (li_maxNoElem (hmLogStream s))) s;
         s \<leftarrow> gwrite_u32 (args + 8) (word_of_int (lc_d (ls_ctrl (hmLogStream s)))) s;
         Some (XM_OK, s)
       }
       else if cmd = 1 then Some (XM_OK, s\<lparr>hmLogStream := LogStreamLock (hmLogStream s)\<rparr>)
       else if cmd = 2 then Some (XM_OK, s\<lparr>hmLogStream := LogStreamUnlock (hmLogStream s)\<rparr>)
       else if cmd = 3 then do {
         (ls, d) \<leftarrow> LogStreamInit (hm_kDev s) (int HM_LOG_SIZE) (hm_dev s);
         Some (XM_OK, s\<lparr>hmLogStream := ls, hm_dev := d\<rparr>)
       }
       else Some (XM_INVALID_PARAM, s)
     }
   }"

definition SetupHm :: "'a hstate_scheme \<Rightarrow> (s32 \<times> 'a hstate_scheme) option" where
  "SetupHm s = do {
     (ls, d) \<leftarrow> LogStreamInit (hm_kDev s) (int HM_LOG_SIZE) (hm_dev s);
     Some (0, s\<lparr>hmLogStream := ls, hm_dev := d, hmInit := True\<rparr>)
   }"

end
