(* ===== verification/Bitwise.thy ===== *)
theory Bitwise
  imports Prelude
begin

text \<open>
  The bit scans of core/include/bitwise.h, written in C with a window that is halved, and those of
  core/include/arch/bitwise.h, which are the bsf and bsr instructions. The kernel uses them to pick
  the interrupt to deliver. The lemmas show that the halving scans compute what the instructions do.
\<close>

section \<open>The scans in C\<close>

text \<open>One step: if the low \<open>k\<close> bits are clear, shift them out. The shift is of a signed integer.\<close>

definition ffs_step :: "nat \<Rightarrow> u32 \<times> nat \<Rightarrow> u32 \<times> nat" where
  "ffs_step k xr = (case xr of (x, r) \<Rightarrow> if x AND mask k = 0 then (signed_drop_bit k x, r + k) else (x, r))"

definition Ffs_C :: "u32 \<Rightarrow> s32" where
  "Ffs_C x = (if x = 0 then - 1
     else int (snd (ffs_step 1 (ffs_step 2 (ffs_step 4 (ffs_step 8 (ffs_step 16 (x, 0))))))))"

definition fls_step :: "nat \<Rightarrow> u32 \<times> nat \<Rightarrow> u32 \<times> nat" where
  "fls_step k xr = (case xr of (x, r) \<Rightarrow> if x AND push_bit (32 - k) (mask k) = 0 then (push_bit k x, r - k) else (x, r))"

definition Fls_C :: "u32 \<Rightarrow> s32" where
  "Fls_C x = (if x = 0 then - 1
     else int (snd (fls_step 1 (fls_step 2 (fls_step 4 (fls_step 8 (fls_step 16 (x, 31))))))))"

section \<open>The instructions\<close>

text \<open>bsf and bsr: the lowest and the highest bit that is set; the code around them returns -1 for 0.\<close>

definition Ffs :: "u32 \<Rightarrow> s32" where
  "Ffs x = (case List.find (bit x) [0..<32] of Some n \<Rightarrow> int n | None \<Rightarrow> - 1)"

definition Fls :: "u32 \<Rightarrow> s32" where
  "Fls x = (case List.find (bit x) (rev [0..<32]) of Some n \<Rightarrow> int n | None \<Rightarrow> - 1)"

section \<open>What they compute\<close>

definition lowest :: "u32 \<Rightarrow> nat \<Rightarrow> bool" where
  "lowest x n \<longleftrightarrow> n < 32 \<and> bit x n \<and> (\<forall>m < n. \<not> bit x m)"

definition highest :: "u32 \<Rightarrow> nat \<Rightarrow> bool" where
  "highest x n \<longleftrightarrow> n < 32 \<and> bit x n \<and> (\<forall>m. n < m \<longrightarrow> m < 32 \<longrightarrow> \<not> bit x m)"

lemma u32_bit_ex:
  assumes "x \<noteq> 0"
  shows "\<exists>n < 32. bit (x :: u32) n"
proof (rule ccontr)
  assume "\<not> ?thesis"
  then have "x = 0" by (intro bit_word_eqI) auto
  with assms show False ..
qed

lemma lowest_ex: "x \<noteq> 0 \<Longrightarrow> \<exists>n. lowest x n"
proof -
  assume "x \<noteq> 0"
  then obtain m where "m < 32" "bit x m" using u32_bit_ex by blast
  then have "lowest x (LEAST n. bit x n)"
    unfolding lowest_def by (metis LeastI Least_le le_less_trans not_less_Least)
  then show ?thesis ..
qed

lemma highest_ex: "x \<noteq> 0 \<Longrightarrow> \<exists>n. highest x n"
proof -
  let ?S = "{n. n < 32 \<and> bit x n}"
  assume "x \<noteq> 0"
  then have "?S \<noteq> {}" using u32_bit_ex by blast
  moreover have fin: "finite ?S" by simp
  ultimately have "Max ?S \<in> ?S" by (rule Max_in [rotated])
  moreover have "m \<in> ?S \<Longrightarrow> m \<le> Max ?S" for m using fin by (rule Max_ge)
  ultimately have "highest x (Max ?S)"
    unfolding highest_def using not_le by blast
  then show ?thesis ..
qed

lemma lowest_unique: "lowest x m \<Longrightarrow> lowest x n \<Longrightarrow> m = n"
  unfolding lowest_def by (meson not_less_iff_gr_or_eq)

lemma highest_unique: "highest x m \<Longrightarrow> highest x n \<Longrightarrow> m = n"
  unfolding highest_def by (meson not_less_iff_gr_or_eq)

lemma Ffs_lowest: "lowest x n \<Longrightarrow> Ffs x = int n"
proof -
  assume n: "lowest x n"
  have "List.find (bit x) [0..<32] = Some n"
    using n by (auto simp: find_Some_iff lowest_def intro!: exI [of _ n])
  then show ?thesis by (simp add: Ffs_def)
qed

lemma Fls_highest: "highest x n \<Longrightarrow> Fls x = int n"
proof -
  assume n: "highest x n"
  have "List.find (bit x) (rev [0..<32]) = Some n"
    using n by (auto simp: find_Some_iff highest_def rev_nth intro!: exI [of _ "31 - n"])
  then show ?thesis by (simp add: Fls_def)
qed

lemma Ffs_0 [simp]: "Ffs 0 = - 1"
proof -
  have "List.find (bit (0 :: u32)) [0..<32] = None" by (simp add: find_None_iff)
  then show ?thesis by (simp add: Ffs_def)
qed

lemma Fls_0 [simp]: "Fls 0 = - 1"
proof -
  have "List.find (bit (0 :: u32)) (rev [0..<32]) = None" by (simp add: find_None_iff)
  then show ?thesis by (simp add: Fls_def)
qed

text \<open>The invariant of the halving: the bit looked for is in the window, at its number less what was
  shifted.\<close>

definition low_in :: "nat \<Rightarrow> nat \<Rightarrow> u32 \<times> nat \<Rightarrow> bool" where
  "low_in n w xr \<longleftrightarrow> (case xr of (x, r) \<Rightarrow> lowest x (n - r) \<and> n - r < w \<and> r \<le> n)"

definition high_in :: "nat \<Rightarrow> nat \<Rightarrow> u32 \<times> nat \<Rightarrow> bool" where
  "high_in n w xr \<longleftrightarrow> (case xr of (x, r) \<Rightarrow> highest x (n + (31 - r)) \<and> 31 - (n + (31 - r)) < w \<and> n \<le> r \<and> r \<le> 31)"

lemma low_clear_iff: "x AND mask k = 0 \<longleftrightarrow> (\<forall>m < k. \<not> bit (x :: u32) m)"
proof -
  have "bit x m \<Longrightarrow> m < 32" for m using bit_imp_le_length [of x m] by simp
  then show ?thesis by (auto simp: bit_eq_iff bit_simps)
qed

lemma ffs_step_low:
  assumes inv: "low_in n w xr" and k: "w = 2 * k" "k \<le> 16"
  shows "low_in n k (ffs_step k xr)"
proof -
  obtain x r where xr: "xr = (x, r)" by fastforce
  have l: "lowest x (n - r)" "n - r < 2 * k" "r \<le> n" using inv by (auto simp: low_in_def xr k)
  show ?thesis
  proof (cases "x AND mask k = 0")
    case True
    then have c: "\<forall>m < k. \<not> bit x m" by (simp add: low_clear_iff)
    have ge: "k \<le> n - r" using c l(1) by (auto simp: lowest_def not_less [symmetric])
    have b: "bit (signed_drop_bit k x) i = bit x (k + i)" if "i < 32 - k" for i
      using that k(2) by (simp add: bit_simps)
    have lt: "n - r - k < 32 - k" using l(1) ge by (auto simp: lowest_def)
    have "lowest (signed_drop_bit k x) (n - r - k)"
      unfolding lowest_def
    proof (intro conjI allI impI)
      show "n - r - k < 32" using lt by (rule less_le_trans) simp
      have "k + (n - r - k) = n - r" using ge by arith
      then show "bit (signed_drop_bit k x) (n - r - k)" using b [OF lt] l(1) by (simp only: lowest_def)
      fix m assume "m < n - r - k"
      then show "\<not> bit (signed_drop_bit k x) m" using b [of m] lt l(1) by (auto simp: lowest_def)
    qed
    then have "lowest (signed_drop_bit k x) (n - (r + k))" by (simp only: diff_diff_left)
    moreover have "n - (r + k) < k" "r + k \<le> n" using ge l k by auto
    ultimately show ?thesis using True by (simp add: low_in_def ffs_step_def xr)
  next
    case False
    then obtain m where m: "m < k" "bit x m" by (auto simp: low_clear_iff)
    then have "n - r \<le> m" using l(1) unfolding lowest_def using not_less by blast
    then have "n - r < k" using m(1) by simp
    then show ?thesis using False l by (simp add: low_in_def ffs_step_def xr)
  qed
qed

lemma Ffs_C_eq: "Ffs_C x = Ffs x"
proof (cases "x = 0")
  case False
  then obtain n where n: "lowest x n" using lowest_ex by blast
  then have "low_in n 32 (x, 0)" by (simp add: low_in_def) (simp add: lowest_def)
  then have "low_in n 1 (ffs_step 1 (ffs_step 2 (ffs_step 4 (ffs_step 8 (ffs_step 16 (x, 0))))))"
    by (intro ffs_step_low [of n 2] ffs_step_low [of n 4] ffs_step_low [of n 8] ffs_step_low [of n 16]
        ffs_step_low [of n 32]) simp_all
  then have "snd (ffs_step 1 (ffs_step 2 (ffs_step 4 (ffs_step 8 (ffs_step 16 (x, 0)))))) = n"
    by (auto simp: low_in_def)
  then show ?thesis using False Ffs_lowest [OF n] by (simp add: Ffs_C_def)
qed (simp add: Ffs_C_def)

lemma high_clear_iff: "k \<le> 32 \<Longrightarrow> x AND push_bit (32 - k) (mask k) = 0 \<longleftrightarrow> (\<forall>m. 32 - k \<le> m \<longrightarrow> m < 32 \<longrightarrow> \<not> bit (x :: u32) m)"
  by (auto simp: bit_eq_iff bit_simps)

lemma fls_step_high:
  assumes inv: "high_in n w xr" and k: "w = 2 * k" "k \<le> 16"
  shows "high_in n k (fls_step k xr)"
proof -
  obtain x r where xr: "xr = (x, r)" by fastforce
  let ?p = "n + (31 - r)"
  have l: "highest x ?p" "31 - ?p < 2 * k" "n \<le> r" "r \<le> 31" using inv by (auto simp: high_in_def xr k)
  show ?thesis
  proof (cases "x AND push_bit (32 - k) (mask k) = 0")
    case True
    then have c: "\<forall>m. 32 - k \<le> m \<longrightarrow> m < 32 \<longrightarrow> \<not> bit x m" using k(2) by (simp add: high_clear_iff)
    have lt: "?p < 32 - k" using c l(1) unfolding highest_def using not_less by blast
    have b: "bit (push_bit k x) i = bit x (i - k)" if "i < 32" "k \<le> i" for i
      using that by (simp add: bit_simps)
    have e: "n + (31 - (r - k)) = ?p + k" "n \<le> r - k" using lt l(3,4) by auto
    have "highest (push_bit k x) (?p + k)"
      unfolding highest_def
    proof (intro conjI allI impI)
      show "?p + k < 32" using lt by simp
      then show "bit (push_bit k x) (?p + k)" using b [of "?p + k"] l(1) by (simp add: highest_def)
      fix m assume "?p + k < m" "m < 32"
      then show "\<not> bit (push_bit k x) m" using b [of m] l(1) by (auto simp: highest_def)
    qed
    then have "highest (push_bit k x) (n + (31 - (r - k)))" by (simp only: e(1))
    moreover have "31 - (n + (31 - (r - k))) < k" "r - k \<le> 31" using l(2,4) lt e(1) by arith+
    moreover have "fls_step k xr = (push_bit k x, r - k)" using True by (simp add: fls_step_def xr)
    ultimately show ?thesis using e(2) by (simp only: high_in_def prod.case)
  next
    case False
    then obtain m where m: "32 - k \<le> m" "m < 32" "bit x m" using k(2) by (auto simp: high_clear_iff)
    then have "m \<le> ?p" using l(1) unfolding highest_def using not_less by blast
    then have "31 - ?p < k" using m by arith
    then show ?thesis using False l by (simp add: high_in_def fls_step_def xr)
  qed
qed

lemma Fls_C_eq: "Fls_C x = Fls x"
proof (cases "x = 0")
  case False
  then obtain n where n: "highest x n" using highest_ex by blast
  then have "n \<le> 31" by (simp add: highest_def)
  then have "high_in n 32 (x, 31)" using n by (simp add: high_in_def)
  then have "high_in n 1 (fls_step 1 (fls_step 2 (fls_step 4 (fls_step 8 (fls_step 16 (x, 31))))))"
    by (intro fls_step_high [of n 2] fls_step_high [of n 4] fls_step_high [of n 8] fls_step_high [of n 16]
        fls_step_high [of n 32]) simp_all
  then have "snd (fls_step 1 (fls_step 2 (fls_step 4 (fls_step 8 (fls_step 16 (x, 31)))))) = n"
    by (auto simp: high_in_def)
  then show ?thesis using False Fls_highest [OF n] by (simp add: Fls_C_def)
qed (simp add: Fls_C_def)

lemma Ffs_pos: "x \<noteq> 0 \<Longrightarrow> \<exists>n. Ffs x = int n \<and> lowest x n"
  using lowest_ex Ffs_lowest by blast

lemma Ffs_neg: "Ffs x < 0 \<longleftrightarrow> x = 0"
  using Ffs_pos [of x] by (cases "x = 0") auto

end
