(* ===== verification/Irqs.thy ===== *)
theory Irqs
  imports HealthMon Bitwise
begin

text \<open>
  Interrupts and traps: core/kernel/irqs.c, core/kernel/arch/irqs.c and the timer driver
  core/kernel/arch/pit.c. A hardware interrupt runs its handler and then the scheduler; a trap is
  handled, sent to the partition or reported to the health monitor; before the kernel returns to a
  partition RaisePendIrqs chooses at most one pending event and FixStack builds its frame on the
  stack of the guest. The context of the interrupted thread is a value that is passed along. None
  is a failed assertion, a null pointer, an index outside a table, or an access to guest memory
  that is not mapped or that lies in the hypervisor.
\<close>

section \<open>State\<close>

text \<open>The functions the tables of handlers point to.\<close>

datatype irq_hndl = DefaultIrq | TriggerIrq | TimerIrq
datatype trap_hndl = TrapPageFault | TrapDeviceNotAvailable

text \<open>The timer driver: its flags, its handler and the port writes, the last one first.\<close>

record pit =
  pit_flags :: u32
  pit_handler :: bool
  pit_out :: "(u8 \<times> u16) list"

text \<open>\<open>exPTables\<close> is the chain of exception tables, \<open>g_rw\<close> the pages of a partition that are mapped
  writable: with WP set the kernel cannot write the others.\<close>

record istate = hstate +
  irqHandlerTab :: "irq_hndl option list"
  trapHandlerTab :: "trap_hndl option list"
  exPTables :: "(u32 \<times> u32) list list"
  g_rw :: "nat \<Rightarrow> int \<Rightarrow> bool"
  pitTimer :: pit

definition NO_TRAPS :: nat where "NO_TRAPS = 32"
definition XM_IRQ_NO_OWNER :: s32 where "XM_IRQ_NO_OWNER = - 1"
definition PAGE_FAULT :: nat where "PAGE_FAULT = 14"
definition DEVICE_NOT_AVAILABLE :: nat where "DEVICE_NOT_AVAILABLE = 7"
definition HMLOG_OPCODE_EVENT_MASK :: u32 where "HMLOG_OPCODE_EVENT_MASK = 0xffff0000"
definition HMLOG_OPCODE_VCPUID_MASK :: u32 where "HMLOG_OPCODE_VCPUID_MASK = 0xff00"
definition HMLOG_OPCODE_PARTID_MASK :: u32 where "HMLOG_OPCODE_PARTID_MASK = 0xff"
definition XM_EXT_TRAPS :: u32 where "XM_EXT_TRAPS = 0x10000"
definition ERRCODE_TAB :: u32 where "ERRCODE_TAB = 0x27d00"

definition IsSvIrqCtxt :: "cpuCtxt \<Rightarrow> bool" where
  "IsSvIrqCtxt ctxt \<longleftrightarrow> cx_cs ctxt AND 3 = 0"

definition ArePCtrlTabIrqsSet :: "u32 \<Rightarrow> bool" where
  "ArePCtrlTabIrqsSet iFlags \<longleftrightarrow> iFlags AND CPU_FLAG_IF \<noteq> 0"

definition ArePCtrlTabTrapsSet :: "u32 \<Rightarrow> bool" where
  "ArePCtrlTabTrapsSet iFlags \<longleftrightarrow> True"

text \<open>CpuCtxt2HmCpuCtxt into a record filled with zeros.\<close>

definition hm_ctxt :: "cpuCtxt \<Rightarrow> u32 list" where
  "hm_ctxt ctxt = [cx_ip ctxt, 0, cx_flags ctxt, 0]"

section \<open>The tables of handlers\<close>

definition SetIrqHandler :: "nat \<Rightarrow> irq_hndl option \<Rightarrow> 'a istate_scheme \<Rightarrow> (irq_hndl option \<times> 'a istate_scheme) option" where
  "SetIrqHandler irq h s = do {
     old \<leftarrow> aget (irqHandlerTab s) irq;
     Some (old, s\<lparr>irqHandlerTab := (irqHandlerTab s)[irq := (if h \<noteq> None then h else Some DefaultIrq)]\<rparr>)
   }"

definition SetTrapHandler :: "nat \<Rightarrow> trap_hndl option \<Rightarrow> 'a istate_scheme \<Rightarrow> (trap_hndl option \<times> 'a istate_scheme) option" where
  "SetTrapHandler trap h s = do {
     old \<leftarrow> aget (trapHandlerTab s) trap;
     Some (old, s\<lparr>trapHandlerTab := (trapHandlerTab s)[trap := h]\<rparr>)
   }"

definition ArchSetupIrqs :: "'a istate_scheme \<Rightarrow> 'a istate_scheme option" where
  "ArchSetupIrqs s = do {
     (_, s) \<leftarrow> SetTrapHandler PAGE_FAULT (Some TrapPageFault) s;
     (_, s) \<leftarrow> SetTrapHandler DEVICE_NOT_AVAILABLE (Some TrapDeviceNotAvailable) s;
     Some s
   }"

definition SetupIrqs :: "'a istate_scheme \<Rightarrow> 'a istate_scheme option" where
  "SetupIrqs s = do {
     hs \<leftarrow> those (map (\<lambda>irqNr. map_option (\<lambda>owner. Some (if owner \<noteq> XM_IRQ_NO_OWNER then TriggerIrq else DefaultIrq))
                              (aget (xmcHwIrqOwner (cfg s)) irqNr)) [0..<CONFIG_NO_HWIRQS]);
     ArchSetupIrqs (s\<lparr>irqHandlerTab := hs, trapHandlerTab := replicate NO_TRAPS None\<rparr>)
   }"

section \<open>The timer driver\<close>

definition PIT_HZ :: int where "PIT_HZ = 1193182"
definition PIT_IRQ_NR :: nat where "PIT_IRQ_NR = 0"
definition PIT_MODE :: u16 where "PIT_MODE = 0x43"
definition PIT_CH0 :: u16 where "PIT_CH0 = 0x40"
definition HWTIMER_ENABLED :: u32 where "HWTIMER_ENABLED = 1"

definition pit_write :: "u8 \<Rightarrow> u16 \<Rightarrow> pit \<Rightarrow> pit" where
  "pit_write v port p = p\<lparr>pit_out := (v, port) # pit_out p\<rparr>"

definition SetPitTimerHwt :: "u16 \<Rightarrow> pit \<Rightarrow> pit" where
  "SetPitTimerHwt pitCounter p =
     pit_write (ucast (drop_bit 8 pitCounter)) PIT_CH0
       (pit_write (ucast (pitCounter AND 0xff)) PIT_CH0 (pit_write 0x30 PIT_MODE p))"

definition pit_counter :: "xmTime \<Rightarrow> u16" where
  "pit_counter interval = word_of_int (interval * PIT_HZ div USECS_PER_SEC)"

definition SetPitTimer :: "xmTime \<Rightarrow> pit \<Rightarrow> pit" where
  "SetPitTimer interval p = SetPitTimerHwt (pit_counter interval) p"

definition GetPitTimerMaxInterval :: xmTime where "GetPitTimerMaxInterval = 1000000"
definition GetPitTimerMinInterval :: xmTime where "GetPitTimerMinInterval = 60"

definition SetPitTimerHandler :: "bool \<Rightarrow> pit \<Rightarrow> bool \<times> pit" where
  "SetPitTimerHandler h p = (pit_handler p, p\<lparr>pit_handler := h\<rparr>)"

definition InitPitTimer :: "'a istate_scheme \<Rightarrow> (s32 \<times> 'a istate_scheme) option" where
  "InitPitTimer s = do {
     let s = s\<lparr>globalIrqMask := clr_flag (globalIrqMask s) (line32 PIT_IRQ_NR)\<rparr>;
     (_, s) \<leftarrow> SetIrqHandler PIT_IRQ_NR (Some TimerIrq) s;
     let p = pit_write 0x30 PIT_MODE (pitTimer s);
     let s = s\<lparr>pitTimer := p\<lparr>pit_flags := set_flag (pit_flags p) HWTIMER_ENABLED\<rparr>\<rparr>;
     Some (1, s\<lparr>hw_pic := HwEnableIrq PIT_IRQ_NR (hw_pic s)\<rparr>)
   }"

definition PitTimerShutdown :: "'a istate_scheme \<Rightarrow> 'a istate_scheme option" where
  "PitTimerShutdown s = do {
     let s = s\<lparr>pitTimer := (pitTimer s)\<lparr>pit_flags := clr_flag (pit_flags (pitTimer s)) HWTIMER_ENABLED\<rparr>,
               hw_pic := HwDisableIrq PIT_IRQ_NR (hw_pic s)\<rparr>;
     (_, s) \<leftarrow> SetIrqHandler PIT_IRQ_NR (Some TimerIrq) s;
     Some s
   }"

definition TimerIrqHandler :: "'a istate_scheme hm_event \<Rightarrow> nat \<Rightarrow> 'a istate_scheme \<Rightarrow> 'a istate_scheme option" where
  "TimerIrqHandler hm fuel s = do {
     s \<leftarrow> (if pit_handler (pitTimer s) then TimerHandler hm fuel s else Some s);
     Some (s\<lparr>hw_pic := HwEnableIrq PIT_IRQ_NR (hw_pic s)\<rparr>)
   }"

section \<open>Hardware interrupts\<close>

text \<open>The record of the default handler. The number of the interrupt is masked before it is shifted,
  and with no partition the mask of the VCPU, already in place, is shifted once more.\<close>

definition unexpected_log :: "(u32 \<times> u32) option \<Rightarrow> cpuCtxt \<Rightarrow> xmHmLog" where
  "unexpected_log ids ctxt =
     \<lparr>hl_signature = 0, hl_checksum = 0, hl_opCodeH = HMLOG_OPCODE_SYS_MASK OR HMLOG_OPCODE_VALID_CPUCTXT_MASK,
      hl_opCodeL = push_bit 16 XM_HM_EV_UNEXPECTED_TRAP OR push_bit 24 (cx_irqNr ctxt AND HMLOG_OPCODE_EVENT_MASK)
        OR (case ids of Some (part, vcpu) \<Rightarrow> part OR push_bit 8 vcpu
            | None \<Rightarrow> HMLOG_OPCODE_PARTID_MASK OR push_bit 8 HMLOG_OPCODE_VCPUID_MASK),
      hl_timestamp = 0, hl_payload = hm_ctxt ctxt\<rparr>"

definition DefaultIrqHandler :: "'a istate_scheme hm_event \<Rightarrow> nat \<Rightarrow> cpuCtxt \<Rightarrow> 'a istate_scheme \<Rightarrow>
    (unit, 'a istate_scheme) outcome option" where
  "DefaultIrqHandler hm fuel ctxt s = do {
     ids \<leftarrow> (if cKThread s \<noteq> idleKThread s then map_option Some (cur_ids s) else Some None);
     and_then (HmRaiseEvent hm fuel (unexpected_log ids ctxt) s) (\<lambda>_ s. Some (Ret () s))
   }"

definition TriggerIrqHandler :: "cpuCtxt \<Rightarrow> 'a istate_scheme \<Rightarrow> 'a istate_scheme option" where
  "TriggerIrqHandler ctxt s = do {
     owner \<leftarrow> aget (xmcHwIrqOwner (cfg s)) (unat (cx_irqNr ctxt));
     ASSERT (0 \<le> owner);
     p \<leftarrow> aget (partitionTab s) (nat owner);
     SetPartitionHwIrqPending p (unat (cx_irqNr ctxt)) s
   }"

definition run_irq :: "'a istate_scheme hm_event \<Rightarrow> nat \<Rightarrow> cpuCtxt \<Rightarrow> 'a istate_scheme \<Rightarrow>
    (unit, 'a istate_scheme) outcome option" where
  "run_irq hm fuel ctxt s = do {
     h \<leftarrow> aget (irqHandlerTab s) (unat (cx_irqNr ctxt));
     (case h of None \<Rightarrow> DefaultIrqHandler hm fuel ctxt s
      | Some DefaultIrq \<Rightarrow> DefaultIrqHandler hm fuel ctxt s
      | Some TriggerIrq \<Rightarrow> map_option (Ret ()) (TriggerIrqHandler ctxt s)
      | Some TimerIrq \<Rightarrow> map_option (Ret ()) (TimerIrqHandler hm fuel s))
   }"

text \<open>\<open>do Schedule(); while (cpu->irqNestingCounter==SCHED_PENDING)\<close>\<close>

fun sched_loop :: "'a astate_scheme hm_event \<Rightarrow> nat \<Rightarrow> nat \<Rightarrow> 'a astate_scheme \<Rightarrow>
    (unit, 'a astate_scheme) outcome option" where
  "sched_loop hm fuel 0 s = None"
| "sched_loop hm fuel (Suc n) s =
     and_then (Resched hm fuel s) (\<lambda>_ s.
       if irqNestingCounter s = SCHED_PENDING then sched_loop hm fuel n s else Some (Ret () s))"

definition DoIrq :: "'a istate_scheme hm_event \<Rightarrow> nat \<Rightarrow> cpuCtxt \<Rightarrow> 'a istate_scheme \<Rightarrow>
    (unit, 'a istate_scheme) outcome option" where
  "DoIrq hm fuel ctxt s =
     (let irq = unat (cx_irqNr ctxt);
          s = log_audit (AuditIrqRaised (cx_irqNr ctxt)) s;
          s = s\<lparr>irqNestingCounter := irqNestingCounter s + 1\<rparr>;
          s = s\<lparr>hw_pic := HwAckIrq irq (hw_pic s)\<rparr>
      in and_then (run_irq hm fuel ctxt s) (\<lambda>_ s.
        let s = s\<lparr>hw_pic := HwEndIrq irq (hw_pic s)\<rparr>;
            s = s\<lparr>irqNestingCounter := irqNestingCounter s - 1\<rparr>
        in and_then (sched_loop hm fuel fuel s) (\<lambda>_ s.
          if has_flag (irqNestingCounter s) SCHED_PENDING then None else Some (Ret () s))))"

section \<open>Traps\<close>

text \<open>A table ends with an entry whose first word is 0; the second word of that entry is the next table.\<close>

definition IsInPartExTable :: "(u32 \<times> u32) list list \<Rightarrow> u32 \<Rightarrow> u32" where
  "IsInPartExTable ts a = (case List.find (\<lambda>(x, b). a = x) (concat (map (takeWhile (\<lambda>(x, b). x \<noteq> 0)) ts)) of
     Some (_, b) \<Rightarrow> b | None \<Rightarrow> 0)"

definition SetTrapPending :: "'a kstate_scheme \<Rightarrow> 'a kstate_scheme option" where
  "SetTrapPending s = do {
     ASSERT (AreKThreadFlagsSet (cKThread s) KTHREAD_TRAP_PENDING_F s = 0);
     Some (SetKThreadFlags (cKThread s) KTHREAD_TRAP_PENDING_F s)
   }"

definition X86TrapDeviceNotAvailable :: "u16 \<Rightarrow> 'a astate_scheme \<Rightarrow> (s32 \<times> u16 \<times> 'a astate_scheme) option" where
  "X86TrapDeviceNotAvailable hmEvent s =
     (if cur_guest s \<noteq> None then do {
        ASSERT (cur_pct s \<noteq> None);
        Some (0, hmEvent, pa_upd (cKThread s) (\<lambda>p. p\<lparr>pa_cr0 := clr_flag (pa_cr0 p) CR0_TS OR (cpu_cr0 s AND CR0_TS)\<rparr>) s)
      } else Some (0, hmEvent, s))"

definition X86TrapPageFault :: "u16 \<Rightarrow> 'a astate_scheme \<Rightarrow> (s32 \<times> u16 \<times> 'a astate_scheme) option" where
  "X86TrapPageFault hmEvent s = do {
     s \<leftarrow> (if cur_guest s \<noteq> None then do {
             ASSERT (cur_pct s \<noteq> None);
             Some (pa_upd (cKThread s) (\<lambda>p. p\<lparr>pa_cr2 := cpu_cr2 s\<rparr>) s)
           } else Some s);
     Some (0, if cpu_cr2 s \<ge> CONFIG_XM_OFFSET then XM_HM_EV_MEM_PROTECTION else hmEvent, s)
   }"

definition run_trap :: "cpuCtxt \<Rightarrow> u16 \<Rightarrow> 'a istate_scheme \<Rightarrow> (s32 \<times> u16 \<times> 'a istate_scheme) option" where
  "run_trap ctxt hmEvent s = do {
     h \<leftarrow> aget (trapHandlerTab s) (unat (cx_irqNr ctxt));
     (case h of None \<Rightarrow> Some (0, hmEvent, s)
      | Some TrapPageFault \<Rightarrow> X86TrapPageFault hmEvent s
      | Some TrapDeviceNotAvailable \<Rightarrow> X86TrapDeviceNotAvailable hmEvent s)
   }"

text \<open>With no partition the ids in the record are zero.\<close>

definition DoUnrecovExcp :: "'a hstate_scheme hm_event \<Rightarrow> nat \<Rightarrow> cpuCtxt \<Rightarrow> 'a hstate_scheme \<Rightarrow>
    ('v, 'a hstate_scheme) outcome option" where
  "DoUnrecovExcp hm fuel ctxt s = do {
     (part, vcpu) \<leftarrow> cur_ids s;
     let opH = (if IsSvIrqCtxt ctxt then HMLOG_OPCODE_SYS_MASK else 0) OR HMLOG_OPCODE_VALID_CPUCTXT_MASK;
     and_then (HmRaiseEvent hm fuel (hm_log XM_HM_EV_SYSTEM_ERROR part vcpu opH (hm_ctxt ctxt)) s)
       (\<lambda>_ s. PartitionPanic hm fuel 0 (Some ctxt) s)
   }"

text \<open>The events of a partition that are propagated and not logged do not reach the health monitor.\<close>

definition fast_trap :: "cpuCtxt \<Rightarrow> u16 \<Rightarrow> 'a kstate_scheme \<Rightarrow> bool option" where
  "fast_trap ctxt hmEvent s =
     (if IsSvIrqCtxt ctxt then Some False
      else do {
        ASSERT (unat hmEvent < XM_HM_MAX_EVENTS);
        c \<leftarrow> cur_cfg s;
        slot \<leftarrow> aget (pc_hmTab c) (unat hmEvent);
        Some (hms_action slot = XM_HM_AC_PROPAGATE \<and> \<not> hms_log slot)
      })"

text \<open>\<open>junk\<close> are the words a panic leaves uninitialised. The arguments of the last panic name the
  control table of the thread and the vector of the trap.\<close>

definition trap_event :: "'a hstate_scheme hm_event \<Rightarrow> nat \<Rightarrow> u32 \<Rightarrow> cpuCtxt \<Rightarrow> u16 \<Rightarrow> 'a hstate_scheme \<Rightarrow>
    (cpuCtxt, 'a hstate_scheme) outcome option" where
  "trap_event hm fuel junk ctxt hmEvent s = do {
     (part, vcpu) \<leftarrow> cur_ids s;
     let opH = (if IsSvIrqCtxt ctxt then HMLOG_OPCODE_SYS_MASK else 0) OR HMLOG_OPCODE_VALID_CPUCTXT_MASK;
     and_then (HmRaiseEvent hm fuel (hm_log (ucast hmEvent) part vcpu opH (hm_ctxt ctxt)) s) (\<lambda>action s.
       if IsSvIrqCtxt ctxt then do {
         p \<leftarrow> cur_pct s;
         v \<leftarrow> aget (pct_trap2Vector p) (unat (cx_irqNr ctxt));
         SystemPanic hm fuel junk (Some ctxt) s
       }
       else if action \<noteq> 0 then map_option (Ret ctxt) (SetTrapPending s)
       else Some (Ret ctxt s))
   }"

definition DoTrap :: "'a istate_scheme hm_event \<Rightarrow> nat \<Rightarrow> u32 \<Rightarrow> cpuCtxt \<Rightarrow> 'a istate_scheme \<Rightarrow>
    (cpuCtxt, 'a istate_scheme) outcome option" where
  "DoTrap hm fuel junk ctxt s = do {
     ASSERT (unat (cx_irqNr ctxt) < NO_TRAPS);
     let pc = IsInPartExTable (exPTables s) (cx_ip ctxt);
     if pc \<noteq> 0 then Some (Ret (ctxt\<lparr>cx_ip := pc\<rparr>) s)
     else do {
       let s = log_audit (AuditTrapRaised (cx_irqNr ctxt) (cx_ip ctxt)) s;
       (r, hmEvent, s) \<leftarrow> run_trap ctxt (ucast (cx_irqNr ctxt + XM_HM_MAX_GENERIC_EVENTS)) s;
       if r \<noteq> 0 then Some (Ret ctxt s)
       else and_then (if cur_guest s \<noteq> None then do {
                        p \<leftarrow> cur_pct s;
                        if ArePCtrlTabTrapsSet (pct_iFlags p) then Some (Ret () s) else DoUnrecovExcp hm fuel ctxt s
                      } else Some (Ret () s))
         (\<lambda>_ s. do {
           fast \<leftarrow> fast_trap ctxt hmEvent s;
           if fast then map_option (Ret ctxt) (SetTrapPending s) else trap_event hm fuel junk ctxt hmEvent s
         })
     }
   }"

section \<open>Delivery\<close>

text \<open>The stack of the guest is probed with WP set, so a page that is not mapped writable fails.\<close>

definition TestSp :: "u32 \<Rightarrow> nat \<Rightarrow> 'a istate_scheme \<Rightarrow> s32 option" where
  "TestSp sp n s = do {
     part \<leftarrow> GetPartition (cKThread s) s;
     ASSERT (n \<le> unat sp \<and> sp \<le> CONFIG_XM_OFFSET);
     Some (if probe (\<lambda>p. g_readable s part p \<and> g_rw s part p) (uint sp - int n) (uint sp) then 0 else - 1)
   }"

text \<open>\<open>*(--sp)=w\<close> for the words of a list in turn.\<close>

fun push_words :: "u32 list \<Rightarrow> u32 \<Rightarrow> 'a gstate_scheme \<Rightarrow> (u32 \<times> 'a gstate_scheme) option" where
  "push_words [] sp s = Some (sp, s)"
| "push_words (w # ws) sp s = do { s \<leftarrow> gwrite_u32 (sp - 4) w s; push_words ws (sp - 4) s }"

text \<open>The stack the frame goes to: that of the guest, or that of the ring of the handler with the old
  stack pointer on it.\<close>

definition target_stack :: "cpuCtxt \<Rightarrow> u32 \<Rightarrow> 'a astate_scheme \<Rightarrow> (u16 \<times> u32) option" where
  "target_stack ctxt cs s =
     (let a = kArch s (cKThread s)
      in if cs AND 3 = 1 then Some (ka_ss1 a, ka_sp1 a) else if cs AND 3 = 2 then Some (ka_ss2 a, ka_sp2 a) else None)"

text \<open>The words of the frame below the stack switch.\<close>

definition frame_words :: "cpuCtxt \<Rightarrow> u32 \<Rightarrow> s32 \<Rightarrow> bool \<Rightarrow> u32 list" where
  "frame_words ctxt iFlags irqNr trap =
     [clr_flag (cx_flags ctxt) CPU_FLAG_IF OR iFlags, cx_cs ctxt, cx_ip ctxt]
     @ (if trap \<and> bit ERRCODE_TAB (nat irqNr) then [cx_eCode ctxt] else [])"

definition build_frame :: "cpuCtxt \<Rightarrow> u32 list \<Rightarrow> u32 \<Rightarrow> u32 \<Rightarrow> u32 \<Rightarrow> u32 \<Rightarrow> 'a gstate_scheme \<Rightarrow>
    (cpuCtxt \<times> 'a gstate_scheme) option" where
  "build_frame ctxt ws sp ss cs ip s = do {
     (sp, s) \<leftarrow> push_words ws sp s;
     Some (ctxt\<lparr>cx_ss := ss, cx_sp := sp, cx_cs := cs, cx_ip := ip\<rparr>, s)
   }"

definition FixStack :: "'a istate_scheme hm_event \<Rightarrow> nat \<Rightarrow> u32 \<Rightarrow> cpuCtxt \<Rightarrow> s32 \<Rightarrow> u16 \<Rightarrow> bool \<Rightarrow>
    'a istate_scheme \<Rightarrow> (cpuCtxt, 'a istate_scheme) outcome option" where
  "FixStack hm fuel junk ctxt irqNr vector trap s = do {
     p \<leftarrow> cur_pct s;
     let pa = archPct s (cKThread s);
     if ucast vector \<ge> pa_maxIdtVec pa then PartitionPanic hm fuel junk (Some ctxt) s
     else do {
       g \<leftarrow> gread_gate (dr_linearBase (pa_idtr pa) + 8 * ucast vector) s;
       let cs = drop_bit 16 (gt_high0 g);
       let ip = (gt_low0 g AND 0xffff0000) OR (gt_high0 g AND 0xffff);
       if ip \<ge> CONFIG_XM_OFFSET \<or> cs AND 3 = 0 then PartitionPanic hm fuel junk (Some ctxt) s
       else do {
         let ws = frame_words ctxt (pct_iFlags p) irqNr trap;
         let s = (if \<not> has_flag (gt_low0 g) 0x100
                  then kt_upd (cKThread s) (pct_upd (\<lambda>p. p\<lparr>pct_iFlags := clr_flag (pct_iFlags p) CPU_FLAG_IF\<rparr>)) s else s);
         if cx_cs ctxt AND 3 = cs AND 3 then do {
           t \<leftarrow> TestSp (cx_sp ctxt) 16 s;
           if t < 0 then PartitionPanic hm fuel junk (Some ctxt) s
           else do {
             (ctxt, s) \<leftarrow> build_frame ctxt ws (cx_sp ctxt) (cx_ss ctxt) cs ip s;
             Some (Ret ctxt s)
           }
         }
         else (case target_stack ctxt cs s of None \<Rightarrow> PartitionPanic hm fuel junk (Some ctxt) s
           | Some (ss, sp) \<Rightarrow>
               if ss = 0 \<or> sp = 0 then PartitionPanic hm fuel junk (Some ctxt) s
               else do {
                 t \<leftarrow> TestSp sp 24 s;
                 if t < 0 then PartitionPanic hm fuel junk (Some ctxt) s
                 else do {
                   (ctxt, s) \<leftarrow> build_frame ctxt ([cx_ss ctxt, cx_sp ctxt] @ ws) sp (ucast ss) cs ip s;
                   Some (Ret ctxt s)
                 }
               })
       }
     }
   }"

text \<open>IrqVector2Address is 0 on this processor.\<close>

definition IrqVector2Address :: "s32 \<Rightarrow> s32" where "IrqVector2Address vector = 0"

text \<open>DisablePCtrlTabIrqs and MaskPCtrlTabIrq do nothing on this processor.\<close>

definition emulate :: "'a istate_scheme hm_event \<Rightarrow> nat \<Rightarrow> u32 \<Rightarrow> cpuCtxt \<Rightarrow> u16 list \<Rightarrow> s32 \<Rightarrow> bool \<Rightarrow>
    'a istate_scheme \<Rightarrow> (s32 \<times> cpuCtxt, 'a istate_scheme) outcome option" where
  "emulate hm fuel junk ctxt vectors irqNr trap s = do {
     v \<leftarrow> aget vectors (nat irqNr);
     and_then (FixStack hm fuel junk ctxt irqNr v trap s) (\<lambda>ctxt s.
       Some (Ret (IrqVector2Address (uint v), ctxt) (log_audit (AuditIrqEmul (ucast v)) s)))
   }"

definition AreHwIrqsPending :: "partitionControlTable_t \<Rightarrow> s32 option" where
  "AreHwIrqsPending p =
     (let e = pct_hwIrqsPend p AND NOT (pct_hwIrqsMask p)
      in if e \<noteq> 0 then do { ASSERT (0 \<le> Ffs e \<and> Ffs e < int CONFIG_NO_HWIRQS); Some (Ffs e) } else Some (- 1))"

definition AreExtIrqsPending :: "partitionControlTable_t \<Rightarrow> s32" where
  "AreExtIrqsPending p =
     (let e = pct_extIrqsPend p AND NOT (pct_extIrqsMask p) in if e \<noteq> 0 then Ffs e else - 1)"

definition AreExtTrapsPending :: "partitionControlTable_t \<Rightarrow> s32" where
  "AreExtTrapsPending p = (let e = pct_extIrqsPend p AND XM_EXT_TRAPS in if e \<noteq> 0 then Ffs e else - 1)"

text \<open>The bit of an interrupt that is delivered.\<close>

definition clear_ext :: "addr \<Rightarrow> s32 \<Rightarrow> 'a kstate_scheme \<Rightarrow> 'a kstate_scheme" where
  "clear_ext k e s = kt_upd k (pct_upd (\<lambda>p. p\<lparr>pct_extIrqsPend := clr_flag (pct_extIrqsPend p) (irq_bit (nat e))\<rparr>)) s"

definition clear_hw :: "addr \<Rightarrow> s32 \<Rightarrow> 'a kstate_scheme \<Rightarrow> 'a kstate_scheme" where
  "clear_hw k e s = kt_upd k (pct_upd (\<lambda>p. p\<lparr>pct_hwIrqsPend := clr_flag (pct_hwIrqsPend p) (irq_bit (nat e))\<rparr>)) s"

definition raise_irqs :: "'a istate_scheme hm_event \<Rightarrow> nat \<Rightarrow> u32 \<Rightarrow> cpuCtxt \<Rightarrow> partitionControlTable_t \<Rightarrow>
    'a istate_scheme \<Rightarrow> (s32 \<times> cpuCtxt, 'a istate_scheme) outcome option" where
  "raise_irqs hm fuel junk ctxt p s =
     (if \<not> ArePCtrlTabIrqsSet (pct_iFlags p) then Some (Ret (- 1, ctxt) s)
      else do {
        e \<leftarrow> AreHwIrqsPending p;
        if e > - 1 then emulate hm fuel junk ctxt (pct_hwIrq2Vector p) e False (clear_hw (cKThread s) e s)
        else (let e = AreExtIrqsPending p
              in if e > - 1 then emulate hm fuel junk ctxt (pct_extIrq2Vector p) e False (clear_ext (cKThread s) e s)
                 else Some (Ret (- 1, ctxt) s))
      })"

definition RaisePendIrqs :: "'a istate_scheme hm_event \<Rightarrow> nat \<Rightarrow> u32 \<Rightarrow> cpuCtxt \<Rightarrow> 'a istate_scheme \<Rightarrow>
    (s32 \<times> cpuCtxt, 'a istate_scheme) outcome option" where
  "RaisePendIrqs hm fuel junk ctxt s =
     (let k = cKThread s in case cur_guest s of None \<Rightarrow> Some (Ret (- 1, ctxt) s)
      | Some g \<Rightarrow>
        if IsSvIrqCtxt ctxt then Some (Ret (- 1, ctxt) s)
        else if has_flag (g_swTrap g) 1 then
          (let emul = drop_bit 1 (g_swTrap g);
               s = log_audit (AuditIrqEmul emul) (kt_upd k (g_upd (\<lambda>g. g\<lparr>g_swTrap := 0\<rparr>)) s)
           in Some (Ret (IrqVector2Address (sint emul), ctxt) s))
        else do {
          p \<leftarrow> cur_pct s;
          if AreKThreadFlagsSet k KTHREAD_TRAP_PENDING_F s \<noteq> 0 then
            emulate hm fuel junk ctxt (pct_trap2Vector p) (uint (cx_irqNr ctxt)) True
              (ClearKThreadFlags k KTHREAD_TRAP_PENDING_F s)
          else (let e = AreExtTrapsPending p
                in if e > - 1 then emulate hm fuel junk ctxt (pct_extIrq2Vector p) e False (clear_ext k e s)
                   else raise_irqs hm fuel junk ctxt p s)
        })"

end
