(* ===== verification/Objects.thy ===== *)
theory Objects
  imports Irqs
begin

text \<open>
  The objects a partition reaches through the object hypercalls, beside the ports and the health
  monitor: core/objects/mem.c copies physical memory with UnalignMemCpy of core/include/stdc.h,
  status.c reports states, trace.c keeps the traces of the partitions and the audit events of the
  kernel, console.c writes to the consoles. None is a failed assertion, a null pointer, an index
  outside a table, or an access to guest memory that is not mapped or lies in the hypervisor.
\<close>

section \<open>State\<close>

record xmPartitionStatus =
  ps_state :: u32
  ps_opMode :: u32
  ps_resetCounter :: u32
  ps_resetStatus :: u32

record xmVirtualCpuStatus =
  vs_state :: u32
  vs_opMode :: u32

text \<open>A log stream with the device behind it, as LookUpKDev finds it.\<close>

record stream =
  st_log :: logStream
  st_kDev :: "memBlockData kDevice_t option"
  st_dev :: memBlockData

text \<open>A trace event has the layout of a record of the health monitor.\<close>

type_synonym xmTraceEvent = xmHmLog

record ostate = istate +
  trace_seq :: u32
  xmTraceLogStream :: stream
  traceLogStream :: "stream list"
  partitionConTab :: "(memBlockData kDevice_t option \<times> memBlockData) list"
  partitionStatus :: "xmPartitionStatus list"
  vCpuStatus :: "xmVirtualCpuStatus list"

definition UNCHECKED_ID :: u32 where "UNCHECKED_ID = 0xff"
definition CONFIG_NO_CPUS :: nat where "CONFIG_NO_CPUS = 1"

section \<open>Copies of physical memory\<close>

text \<open>One byte: the word of the source, its byte moved to the place in the word of the destination.\<close>

definition copy_byte :: "u32 \<Rightarrow> u32 \<Rightarrow> nat \<Rightarrow> nat \<Rightarrow> 'a mstate_scheme \<Rightarrow> 'a mstate_scheme option" where
  "copy_byte dst src c1 c2 s = do {
     (srcW, s) \<leftarrow> ReadByPassMmuWord (src AND NOT 3) s;
     let dstW = push_bit (8 * c2) (drop_bit (8 * c1) (srcW AND push_bit (8 * c1) 0xff));
     (old, s) \<leftarrow> ReadByPassMmuWord (dst AND NOT 3) s;
     WriteByPassMmuWord (dst AND NOT 3) (dstW OR (old AND NOT (push_bit (8 * c2) 0xff))) s
   }"

fun copy_bytes :: "nat \<Rightarrow> u32 \<Rightarrow> u32 \<Rightarrow> nat \<Rightarrow> nat \<Rightarrow> 'a mstate_scheme \<Rightarrow> 'a mstate_scheme option" where
  "copy_bytes 0 dst src c1 c2 s = Some s"
| "copy_bytes (Suc n) dst src c1 c2 s = do {
     s \<leftarrow> copy_byte dst src c1 c2 s;
     copy_bytes n (dst + 1) (src + 1) ((c1 + 1) mod 4) ((c2 + 1) mod 4) s
   }"

definition UnalignMemCpy :: "u32 \<Rightarrow> u32 \<Rightarrow> s32 \<Rightarrow> 'a mstate_scheme \<Rightarrow> 'a mstate_scheme option" where
  "UnalignMemCpy dst src n s = copy_bytes (nat n) dst src (unat (src AND 3)) (unat (dst AND 3)) s"

text \<open>One end of a copy: an id other than the wildcard names a partition that has the area.\<close>

definition check_end :: "u32 \<Rightarrow> xmId \<Rightarrow> s32 \<Rightarrow> bool \<Rightarrow> 'a kstate_scheme \<Rightarrow> s32 option" where
  "check_end a i n writes s =
     (if i = UNCHECKED_ID then Some XM_OK
      else if unat i \<ge> length (xmcPartitionTab (cfg s)) then Some XM_INVALID_PARAM
      else do {
        p \<leftarrow> aget (partitionTab s) (unat i);
        f \<leftarrow> PmmFindArea a (word_of_int n) (Some p) s;
        Some (case f of None \<Rightarrow> XM_INVALID_PARAM
          | Some flags \<Rightarrow> if writes \<and> has_flag flags XM_MEM_AREA_READONLY then XM_INVALID_PARAM else XM_OK)
      })"

definition CopyArea :: "u32 \<Rightarrow> xmId \<Rightarrow> u32 \<Rightarrow> xmId \<Rightarrow> s32 \<Rightarrow> 'a mstate_scheme \<Rightarrow> (s32 \<times> 'a mstate_scheme) option" where
  "CopyArea dstAddr dstId srcAddr srcId n s =
     (if n \<le> 0 then Some (0, s)
      else do {
        me \<leftarrow> cur_partid s;
        c \<leftarrow> cur_cfg s;
        if dstId \<noteq> me \<and> \<not> has_flag (pc_flags c) XM_PART_SYSTEM then Some (XM_PERM_ERROR, s)
        else if srcId \<noteq> me \<and> \<not> has_flag (pc_flags c) XM_PART_SYSTEM then Some (XM_PERM_ERROR, s)
        else do {
          d \<leftarrow> check_end dstAddr dstId n True s;
          if d \<noteq> XM_OK then Some (d, s)
          else do {
            r \<leftarrow> check_end srcAddr srcId n False s;
            if r \<noteq> XM_OK then Some (r, s)
            else do { s \<leftarrow> UnalignMemCpy dstAddr srcAddr n s; Some (n, s) }
          }
        }
      })"

definition CtrlMem :: "u32 \<Rightarrow> u32 \<Rightarrow> u32 \<Rightarrow> 'a mstate_scheme \<Rightarrow> (s32 \<times> 'a mstate_scheme) option" where
  "CtrlMem desc cmd args s =
     (if args = 0 then Some (XM_INVALID_PARAM, s)
      else do {
        chk \<leftarrow> CheckGParam args 20 4 PFLAG_NOT_NULL s;
        if chk < 0 then Some (XM_INVALID_PARAM, s)
        else if cmd = 1 then do {
          dstId \<leftarrow> gread_u32 args s;
          dstAddr \<leftarrow> gread_u32 (args + 4) s;
          srcId \<leftarrow> gread_u32 (args + 8) s;
          srcAddr \<leftarrow> gread_u32 (args + 12) s;
          n \<leftarrow> gread_u32 (args + 16) s;
          CopyArea dstAddr dstId srcAddr srcId (sint n) s
        }
        else Some (XM_INVALID_PARAM, s)
      })"

section \<open>States\<close>

definition XM_STATUS_IDLE :: u32 where "XM_STATUS_IDLE = 0"
definition XM_STATUS_READY :: u32 where "XM_STATUS_READY = 1"
definition XM_STATUS_SUSPENDED :: u32 where "XM_STATUS_SUSPENDED = 2"
definition XM_STATUS_HALTED :: u32 where "XM_STATUS_HALTED = 3"

text \<open>The test of a thread that the two reports share.\<close>

definition thread_status :: "addr \<Rightarrow> 'a kstate_scheme \<Rightarrow> u32" where
  "thread_status k s =
     (if AreKThreadFlagsSet k KTHREAD_HALTED_F s \<noteq> 0 then XM_STATUS_HALTED
      else if AreKThreadFlagsSet k KTHREAD_SUSPENDED_F s \<noteq> 0 then XM_STATUS_SUSPENDED
      else if AreKThreadFlagsSet k KTHREAD_READY_F s \<noteq> 0 then XM_STATUS_READY
      else XM_STATUS_IDLE)"

text \<open>The three counters of the source only say whether a thread is in the state.\<close>

definition partition_status :: "u32 list \<Rightarrow> u32" where
  "partition_status sts =
     (let halt = length (filter (\<lambda>x. x = XM_STATUS_HALTED) sts);
          suspend = length (filter (\<lambda>x. x = XM_STATUS_SUSPENDED) sts);
          ready = length (filter (\<lambda>x. x = XM_STATUS_READY) sts)
      in if ready > 0 then XM_STATUS_READY
         else if suspend > 0 then XM_STATUS_SUSPENDED
         else if halt > 0 then XM_STATUS_HALTED
         else XM_STATUS_IDLE)"

definition status_bytes :: "xmPartitionStatus \<Rightarrow> u8 list" where
  "status_bytes p = u32_bytes (ps_state p) @ u32_bytes (ps_opMode p) @ replicate 8 0 @ u32_bytes (ps_resetCounter p)
     @ u32_bytes (ps_resetStatus p) @ replicate 40 0"

definition SetPartitionOpMode :: "u32 \<Rightarrow> u32 \<Rightarrow> 'a gstate_scheme \<Rightarrow> (s32 \<times> 'a gstate_scheme) option" where
  "SetPartitionOpMode partId args s =
     (if partId = XM_HYPERVISOR_ID \<or> unat partId \<ge> length (xmcPartitionTab (cfg s)) then Some (XM_INVALID_PARAM, s)
      else do {
        m \<leftarrow> gread_u32 args s;
        if m > 3 then Some (XM_INVALID_PARAM, s)
        else do {
          p \<leftarrow> aget (partitionTab s) (unat partId);
          Some (XM_OK, s\<lparr>partitionTab := (partitionTab s)[unat partId := p\<lparr>p_opMode := m\<rparr>]\<rparr>)
        }
      })"

definition GetSystemStatus :: "u32 \<Rightarrow> u32 \<Rightarrow> 'a ostate_scheme \<Rightarrow> (s32 \<times> 'a ostate_scheme) option" where
  "GetSystemStatus partId args s =
     (if partId = XM_HYPERVISOR_ID then do {
        s \<leftarrow> gwrite_bytes args (u32_bytes (sysResetCounter s) @ replicate 56 0) s;
        Some (XM_OK, s)
      }
      else if unat partId \<ge> length (xmcPartitionTab (cfg s)) then Some (XM_INVALID_PARAM, s)
      else do {
        p \<leftarrow> aget (partitionTab s) (unat partId);
        ks \<leftarrow> part_vcpus p s;
        k \<leftarrow> aget (p_kThread p) 0;
        t \<leftarrow> k_pct (kthreads s k);
        let st = \<lparr>ps_state = partition_status (map (\<lambda>k. thread_status k s) ks), ps_opMode = p_opMode p,
                  ps_resetCounter = pct_resetCounter t, ps_resetStatus = pct_resetStatus t\<rparr>;
        ASSERT (unat partId < length (partitionStatus s));
        let s = s\<lparr>partitionStatus := (partitionStatus s)[unat partId := st]\<rparr>;
        s \<leftarrow> gwrite_bytes args (status_bytes st) s;
        Some (XM_OK, s)
      })"

definition GetVCpuStatus :: "u32 \<Rightarrow> u32 \<Rightarrow> u32 \<Rightarrow> 'a ostate_scheme \<Rightarrow> (s32 \<times> 'a ostate_scheme) option" where
  "GetVCpuStatus partId vCpuId args s =
     (if unat partId \<ge> length (xmcPartitionTab (cfg s)) then Some (XM_INVALID_PARAM, s)
      else do {
        p \<leftarrow> aget (partitionTab s) (unat partId);
        c \<leftarrow> part_cfg p s;
        if vCpuId > pc_noVCpus c then Some (XM_INVALID_PARAM, s)
        else do {
          k \<leftarrow> aget (p_kThread p) (unat vCpuId);
          ASSERT (k \<noteq> NULL);
          ASSERT (unat vCpuId < CONFIG_NO_CPUS);
          g \<leftarrow> k_g (kthreads s k);
          let st = \<lparr>vs_state = thread_status k s, vs_opMode = g_opMode g\<rparr>;
          let s = s\<lparr>vCpuStatus := (vCpuStatus s)[unat vCpuId := st]\<rparr>;
          s \<leftarrow> gwrite_bytes args (u32_bytes (vs_state st) @ u32_bytes (vs_opMode st)) s;
          Some (XM_OK, s)
        }
      })"

definition GetSchedPlanStatus :: "u32 \<Rightarrow> 'a gstate_scheme \<Rightarrow> (s32 \<times> 'a gstate_scheme) option" where
  "GetSchedPlanStatus args s =
     (if cpu_schedPolicy (xmcCpuCfg (cfg s)) \<noteq> CYCLIC_SCHED then Some (XM_NO_ACTION, s)
      else do {
        s \<leftarrow> gwrite_s64 args (cy_planSwitchTime (cyclic s)) s;
        n \<leftarrow> plan_of (cfg s) (cy_new (cyclic s));
        s \<leftarrow> gwrite_u32 (args + 8) (plan_id n) s;
        c \<leftarrow> plan_of (cfg s) (cy_current (cyclic s));
        s \<leftarrow> gwrite_u32 (args + 12) (plan_id c) s;
        s \<leftarrow> (if cy_prev (cyclic s) \<noteq> PlanNull then do {
                p \<leftarrow> plan_of (cfg s) (cy_prev (cyclic s));
                gwrite_u32 (args + 16) (plan_id p) s
              } else gwrite_u32 (args + 16) (- 1) s);
        Some (XM_OK, s)
      })"

text \<open>The second word of the report: two unused bits that are kept, the type, the counter.\<close>

definition page_status :: "u32 \<Rightarrow> physPage \<Rightarrow> u32" where
  "page_status old x = (old AND 3) OR push_bit 2 (pg_type x AND 7) OR push_bit 5 (ucast (pg_counter x))"

definition GetPhysPageStatus :: "u32 \<Rightarrow> u32 \<Rightarrow> 'a mstate_scheme \<Rightarrow> (s32 \<times> 'a mstate_scheme) option" where
  "GetPhysPageStatus partId args s =
     (if unat partId \<ge> length (xmcPartitionTab (cfg s)) then Some (XM_INVALID_PARAM, s)
      else do {
        pAddr \<leftarrow> gread_u32 args s;
        p \<leftarrow> aget (partitionTab s) (unat partId);
        (r, s) \<leftarrow> PmmFindPage pAddr p s;
        (case r of None \<Rightarrow> Some (XM_INVALID_PARAM, s)
         | Some (pg, _) \<Rightarrow> do {
             x \<leftarrow> page_get pg s;
             old \<leftarrow> gread_u32 (args + 4) s;
             s \<leftarrow> gwrite_u32 (args + 4) (page_status old x) s;
             Some (XM_OK, s)
           })
      })"

definition CtrlStatus :: "u32 \<Rightarrow> u32 \<Rightarrow> u32 \<Rightarrow> 'a ostate_scheme \<Rightarrow> (s32 \<times> 'a ostate_scheme) option" where
  "CtrlStatus desc cmd args s = do {
     let partId = OBJDESC_GET_PARTITIONID desc;
     c \<leftarrow> cur_cfg s;
     if partId \<noteq> pc_id c \<and> \<not> has_flag (pc_flags c) XM_PART_SYSTEM then Some (XM_PERM_ERROR, s)
     else if cmd = 2 then SetPartitionOpMode partId args s
     else if cmd = 0 then GetSystemStatus partId args s
     else if cmd = 4 then GetVCpuStatus partId (OBJDESC_GET_VCPUID desc) args s
     else if cmd = 1 then GetSchedPlanStatus args s
     else if cmd = 3 then GetPhysPageStatus partId args s
     else Some (XM_INVALID_PARAM, s)
   }"

section \<open>Traces\<close>

definition XMTRACE_SIGNATURE :: u16 where "XMTRACE_SIGNATURE = 0xc33c"
definition TRACE_SIZE :: nat where "TRACE_SIZE = 36"
definition TRACE_NO_MODULES :: u32 where "TRACE_NO_MODULES = 5"
definition XM_TRACE_UNRECOVERABLE :: u32 where "XM_TRACE_UNRECOVERABLE = 3"

text \<open>\<open>None\<close> is the stream of the hypervisor.\<close>

definition trace_of :: "nat option \<Rightarrow> 'a ostate_scheme \<Rightarrow> stream option" where
  "trace_of w s = (case w of None \<Rightarrow> Some (xmTraceLogStream s) | Some i \<Rightarrow> aget (traceLogStream s) i)"

definition set_trace :: "nat option \<Rightarrow> stream \<Rightarrow> 'a ostate_scheme \<Rightarrow> 'a ostate_scheme" where
  "set_trace w t s = (case w of None \<Rightarrow> s\<lparr>xmTraceLogStream := t\<rparr>
     | Some i \<Rightarrow> s\<lparr>traceLogStream := (traceLogStream s)[i := t]\<rparr>)"

definition trace_insert :: "nat option \<Rightarrow> u8 list \<Rightarrow> 'a ostate_scheme \<Rightarrow> (s32 \<times> 'a ostate_scheme) option" where
  "trace_insert w bs s = do {
     t \<leftarrow> trace_of w s;
     (r, ls, d) \<leftarrow> LogStreamInsert (st_kDev t) (st_log t) bs (st_dev t);
     Some (r, set_trace w (t\<lparr>st_log := ls, st_dev := d\<rparr>) s)
   }"

text \<open>A foreign trace needs a system partition.\<close>

definition trace_perm :: "u32 \<Rightarrow> 'a kstate_scheme \<Rightarrow> bool option" where
  "trace_perm partId s = do {
     me \<leftarrow> cur_partid s;
     c \<leftarrow> cur_cfg s;
     Some (partId = me \<or> has_flag (pc_flags c) XM_PART_SYSTEM)
   }"

text \<open>The stream of a descriptor, None for a partition that does not exist.\<close>

definition trace_log :: "u32 \<Rightarrow> 'a kstate_scheme \<Rightarrow> nat option option" where
  "trace_log partId s = (if partId = XM_HYPERVISOR_ID then Some None
     else if unat partId \<ge> length (xmcPartitionTab (cfg s)) then None else Some (Some (unat partId)))"

fun read_traces :: "nat option \<Rightarrow> u32 \<Rightarrow> nat \<Rightarrow> nat \<Rightarrow> 'a ostate_scheme \<Rightarrow> (nat \<times> 'a ostate_scheme) option" where
  "read_traces w buf e 0 s = Some (e, s)"
| "read_traces w buf e (Suc k) s = do {
     t \<leftarrow> trace_of w s;
     let (r, bs, ls, d) = LogStreamGet (st_kDev t) (st_log t) (st_dev t);
     let s = set_trace w (t\<lparr>st_log := ls, st_dev := d\<rparr>) s;
     if r < 0 then Some (e, s)
     else do {
       s \<leftarrow> gwrite_bytes (buf + word_of_nat (TRACE_SIZE * e)) bs s;
       read_traces w buf (Suc e) k s
     }
   }"

definition ReadTrace :: "u32 \<Rightarrow> u32 \<Rightarrow> u32 \<Rightarrow> 'a ostate_scheme \<Rightarrow> (s32 \<times> 'a ostate_scheme) option" where
  "ReadTrace desc event sz s = do {
     let n = unat sz div TRACE_SIZE;
     let partId = OBJDESC_GET_PARTITIONID desc;
     ok \<leftarrow> trace_perm partId s;
     if \<not> ok then Some (XM_PERM_ERROR, s)
     else if n = 0 then Some (XM_INVALID_PARAM, s)
     else do {
       chk \<leftarrow> CheckGParam event sz 4 (PFLAG_NOT_NULL OR PFLAG_RW) s;
       if chk < 0 then Some (XM_INVALID_PARAM, s)
       else (case trace_log partId s of None \<Rightarrow> Some (XM_INVALID_PARAM, s)
         | Some w \<Rightarrow> do {
             (e, s) \<leftarrow> read_traces w event 0 n s;
             Some (int (e * TRACE_SIZE), s)
           })
     }
   }"

text \<open>The event of a partition: it keeps its code and its payload and gets the rest from the kernel.\<close>

definition stamp_trace :: "u32 \<Rightarrow> u32 \<Rightarrow> xmTime \<Rightarrow> u32 \<Rightarrow> xmTraceEvent \<Rightarrow> xmTraceEvent" where
  "stamp_trace part vcpu now n e =
     (let e = e\<lparr>hl_signature := XMTRACE_SIGNATURE,
               hl_opCodeL := clr_flag (hl_opCodeL e) HMLOG_OPCODE_PARTID_MASK OR (part AND HMLOG_OPCODE_PARTID_MASK)\<rparr>;
          e = e\<lparr>hl_opCodeL := clr_flag (hl_opCodeL e) HMLOG_OPCODE_VCPUID_MASK OR (push_bit 8 vcpu AND HMLOG_OPCODE_VCPUID_MASK),
               hl_timestamp := now\<rparr>
      in seal_log n e)"

definition gread_event :: "u32 \<Rightarrow> 'a gstate_scheme \<Rightarrow> xmTraceEvent option" where
  "gread_event a s = do {
     sg \<leftarrow> gread_u32 a s;
     h \<leftarrow> gread_u32 (a + 4) s;
     l \<leftarrow> gread_u32 (a + 8) s;
     t \<leftarrow> gread_s64 (a + 12) s;
     p0 \<leftarrow> gread_u32 (a + 20) s;
     p1 \<leftarrow> gread_u32 (a + 24) s;
     p2 \<leftarrow> gread_u32 (a + 28) s;
     p3 \<leftarrow> gread_u32 (a + 32) s;
     Some \<lparr>hl_signature = ucast sg, hl_checksum = ucast (drop_bit 16 sg), hl_opCodeH = h, hl_opCodeL = l,
       hl_timestamp = t, hl_payload = [p0, p1, p2, p3]\<rparr>
   }"

text \<open>One event: the stamp is written to the event in guest memory, whose payload is not touched. The
  bitmap is read each time.\<close>

definition write_event :: "nat \<Rightarrow> u32 \<Rightarrow> u32 \<Rightarrow> 'a ostate_scheme \<Rightarrow> (bool \<times> 'a ostate_scheme) option" where
  "write_event i event bitmap s = do {
     b \<leftarrow> gread_u32 bitmap s;
     c \<leftarrow> cur_cfg s;
     if pc_traceBitmap c AND b \<noteq> 0 then do {
       (part, vcpu) \<leftarrow> cur_ids s;
       e \<leftarrow> gread_event event s;
       let (now, s) = GetSysClockUsec s;
       let e = stamp_trace part vcpu now (trace_seq s) e;
       let s = s\<lparr>trace_seq := trace_seq s + 1\<rparr>;
       s \<leftarrow> gwrite_bytes event (take 20 (log_bytes e)) s;
       (_, s) \<leftarrow> trace_insert (Some i) (log_bytes e) s;
       Some (True, s)
     } else Some (False, s)
   }"

text \<open>The record of an unrecoverable trace: \<open>junk\<close> and \<open>junkb\<close> are the words and the byte of it the
  source leaves uninitialised; the payload is copied less its last byte.\<close>

definition unrecoverable_log :: "u32 \<Rightarrow> u32 \<Rightarrow> u32 \<Rightarrow> u32 \<Rightarrow> xmTraceEvent \<Rightarrow> xmHmLog" where
  "unrecoverable_log junk junkb part vcpu e =
     hm_log XM_HM_EV_PARTITION_ERROR part vcpu junk
       (take 3 (hl_payload e) @ [(hl_payload e ! 3 AND 0xffffff) OR push_bit 24 junkb])"

text \<open>The loop: the criticality it looks at is that of the first event.\<close>

fun write_events :: "'a ostate_scheme hm_event \<Rightarrow> nat \<Rightarrow> u32 \<Rightarrow> u32 \<Rightarrow> nat \<Rightarrow> u32 \<Rightarrow> u32 \<Rightarrow> nat \<Rightarrow> nat \<Rightarrow> nat \<Rightarrow>
    'a ostate_scheme \<Rightarrow> (nat, 'a ostate_scheme) outcome option" where
  "write_events hm fuel junk junkb i event bitmap e written 0 s = Some (Ret written s)"
| "write_events hm fuel junk junkb i event bitmap e written (Suc k) s = do {
     (w, s) \<leftarrow> write_event i (event + word_of_nat (TRACE_SIZE * e)) bitmap s;
     let written = (if w then Suc written else written);
     opH \<leftarrow> gread_u32 (event + 4) s;
     and_then
       (if drop_bit 1 (opH AND 0xe) = XM_TRACE_UNRECOVERABLE then do {
          (part, vcpu) \<leftarrow> cur_ids s;
          first \<leftarrow> gread_event event s;
          and_then (HmRaiseEvent hm fuel (unrecoverable_log junk junkb part vcpu first) s) (\<lambda>_ s. Some (Ret () s))
        } else Some (Ret () s))
       (\<lambda>_ s. write_events hm fuel junk junkb i event bitmap (Suc e) written k s)
   }"

definition WriteTrace :: "'a ostate_scheme hm_event \<Rightarrow> nat \<Rightarrow> u32 \<Rightarrow> u32 \<Rightarrow> u32 \<Rightarrow> u32 \<Rightarrow> u32 \<Rightarrow> u32 \<Rightarrow>
    'a ostate_scheme \<Rightarrow> (s32, 'a ostate_scheme) outcome option" where
  "WriteTrace hm fuel junk junkb desc event sz bitmap s = do {
     let n = unat sz div TRACE_SIZE;
     let partId = OBJDESC_GET_PARTITIONID desc;
     me \<leftarrow> cur_partid s;
     if partId \<noteq> me then Some (Ret XM_PERM_ERROR s)
     else if n = 0 then Some (Ret XM_INVALID_PARAM s)
     else do {
       chk \<leftarrow> CheckGParam event sz 4 PFLAG_NOT_NULL s;
       chb \<leftarrow> CheckGParam bitmap 4 4 PFLAG_NOT_NULL s;
       if chk < 0 \<or> chb < 0 then Some (Ret XM_INVALID_PARAM s)
       else and_then (write_events hm fuel junk junkb (unat partId) event bitmap 0 0 n s)
              (\<lambda>w s. Some (Ret (int (w * TRACE_SIZE)) s))
     }
   }"

text \<open>The result of a seek is the new position.\<close>

definition SeekTrace :: "u32 \<Rightarrow> u32 \<Rightarrow> u32 \<Rightarrow> 'a ostate_scheme \<Rightarrow> (s32 \<times> 'a ostate_scheme) option" where
  "SeekTrace desc offset whence s = do {
     let partId = OBJDESC_GET_PARTITIONID desc;
     ok \<leftarrow> trace_perm partId s;
     if \<not> ok then Some (XM_PERM_ERROR, s)
     else (case trace_log partId s of None \<Rightarrow> Some (XM_INVALID_PARAM, s)
       | Some w \<Rightarrow> do {
           t \<leftarrow> trace_of w s;
           let (r, ls, d) = LogStreamSeek (st_kDev t) (st_log t) (sint offset) whence (st_dev t);
           Some (r, set_trace w (t\<lparr>st_log := ls, st_dev := d\<rparr>) s)
         })
   }"

definition ctrl_stream :: "u32 \<Rightarrow> u32 \<Rightarrow> nat option \<Rightarrow> 'a ostate_scheme \<Rightarrow> (s32 \<times> 'a ostate_scheme) option" where
  "ctrl_stream cmd args w s = do {
     t \<leftarrow> trace_of w s;
     if cmd = 0 then do {
       s \<leftarrow> gwrite_u32 args (word_of_int (lc_elem (ls_ctrl (st_log t)))) s;
       s \<leftarrow> gwrite_u32 (args + 4) (word_of_int (li_maxNoElem (st_log t))) s;
       s \<leftarrow> gwrite_u32 (args + 8) (word_of_int (lc_d (ls_ctrl (st_log t)))) s;
       Some (XM_OK, s)
     }
     else if cmd = 1 then Some (XM_OK, set_trace w (t\<lparr>st_log := LogStreamLock (st_log t)\<rparr>) s)
     else if cmd = 2 then Some (XM_OK, set_trace w (t\<lparr>st_log := LogStreamUnlock (st_log t)\<rparr>) s)
     else if cmd = 3 then do {
       (ls, d) \<leftarrow> LogStreamInit (st_kDev t) (int TRACE_SIZE) (st_dev t);
       Some (XM_OK, set_trace w (t\<lparr>st_log := ls, st_dev := d\<rparr>) s)
     }
     else Some (XM_INVALID_PARAM, s)
   }"

definition CtrlTrace :: "u32 \<Rightarrow> u32 \<Rightarrow> u32 \<Rightarrow> 'a ostate_scheme \<Rightarrow> (s32 \<times> 'a ostate_scheme) option" where
  "CtrlTrace desc cmd args s = do {
     let partId = OBJDESC_GET_PARTITIONID desc;
     ok \<leftarrow> trace_perm partId s;
     if \<not> ok then Some (XM_PERM_ERROR, s)
     else do {
       chk \<leftarrow> CheckGParam args 12 4 (PFLAG_NOT_NULL OR PFLAG_RW) s;
       if chk < 0 then Some (XM_INVALID_PARAM, s)
       else (case trace_log partId s of None \<Rightarrow> Some (XM_INVALID_PARAM, s) | Some w \<Rightarrow> ctrl_stream cmd args w s)
     }
   }"

fun init_streams :: "nat list \<Rightarrow> 'a ostate_scheme \<Rightarrow> 'a ostate_scheme option" where
  "init_streams [] s = Some s"
| "init_streams (i # is) s = do {
     t \<leftarrow> trace_of (Some i) s;
     (ls, d) \<leftarrow> LogStreamInit (st_kDev t) (int TRACE_SIZE) (st_dev t);
     init_streams is (set_trace (Some i) (t\<lparr>st_log := ls, st_dev := d\<rparr>) s)
   }"

definition SetupTrace :: "'a ostate_scheme \<Rightarrow> (s32 \<times> 'a ostate_scheme) option" where
  "SetupTrace s = do {
     t \<leftarrow> trace_of None s;
     (ls, d) \<leftarrow> LogStreamInit (st_kDev t) (int TRACE_SIZE) (st_dev t);
     s \<leftarrow> init_streams [0..<length (xmcPartitionTab (cfg s))] (set_trace None (t\<lparr>st_log := ls, st_dev := d\<rparr>) s);
     Some (0, s)
   }"

definition TraceWriteSysEvent :: "u32 \<Rightarrow> xmTraceEvent \<Rightarrow> 'a ostate_scheme \<Rightarrow> (s32 \<times> 'a ostate_scheme) option" where
  "TraceWriteSysEvent bitmap e s =
     (if xmcHpvTraceBitmap (cfg s) AND bitmap \<noteq> 0 then do {
        let (now, s) = GetSysClockUsec s;
        let e = seal_log (trace_seq s) (e\<lparr>hl_signature := XMTRACE_SIGNATURE, hl_timestamp := now\<rparr>);
        trace_insert None (log_bytes e) (s\<lparr>trace_seq := trace_seq s + 1\<rparr>)
      } else Some (- 2, s))"

definition IsAuditEventMasked :: "u32 \<Rightarrow> 'a kstate_scheme \<Rightarrow> s32" where
  "IsAuditEventMasked module s = (if xmcHpvTraceBitmap (cfg s) AND line32 (unat module) \<noteq> 0 then 1 else 0)"

text \<open>The record of an event of the kernel. With no partition running both ids are -1; the words of the
  payload beyond the given ones are \<open>junk\<close>.\<close>

definition audit_record :: "u32 \<Rightarrow> u32 \<Rightarrow> (u32 \<times> u32) option \<Rightarrow> u32 list \<Rightarrow> u32 list \<Rightarrow> xmTraceEvent" where
  "audit_record module event ids payload junk =
     (let (part, vcpu) = (case ids of Some x \<Rightarrow> x | None \<Rightarrow> (- 1, - 1))
      in \<lparr>hl_signature = 0, hl_checksum = 0, hl_opCodeH = HMLOG_OPCODE_SYS_MASK,
          hl_opCodeL = (push_bit 16 (push_bit 8 module OR event) AND HMLOG_OPCODE_EVENT_MASK)
            OR (part AND HMLOG_OPCODE_PARTID_MASK) OR (push_bit 8 vcpu AND HMLOG_OPCODE_VCPUID_MASK),
          hl_timestamp = 0, hl_payload = payload @ drop (length payload) junk\<rparr>)"

definition RaiseAuditEvent :: "u32 list \<Rightarrow> u32 \<Rightarrow> u32 \<Rightarrow> u32 list \<Rightarrow> 'a ostate_scheme \<Rightarrow> 'a ostate_scheme option" where
  "RaiseAuditEvent junk module event payload s = do {
     ASSERT (module < TRACE_NO_MODULES);
     ASSERT (length payload \<le> 4);
     if xmcHpvTraceBitmap (cfg s) AND line32 (unat module) \<noteq> 0 then do {
       let ids = map_option (\<lambda>g. (KID2PARTID (g_id g), KID2VCPUID (g_id g))) (cur_guest s);
       (_, s) \<leftarrow> TraceWriteSysEvent (line32 (unat module)) (audit_record module event ids payload junk) s;
       Some s
     } else Some s
   }"

section \<open>The console\<close>

text \<open>One byte; a device that is full is rewound once.\<close>

definition WriteMod :: "memBlockData kDevice_t option \<times> memBlockData \<Rightarrow> u8 \<Rightarrow> s32 \<times> memBlockData kDevice_t option \<times> memBlockData" where
  "WriteMod con b =
     (let (k, d) = con;
          (r, d) = KDevWrite k [b] d
      in if r \<noteq> 1 then
           (let d = snd (KDevSeek k 0 DEV_SEEK_START d);
                (r, d) = KDevWrite k [b] d
            in if r \<noteq> 1 then (0, k, d) else (1, k, d))
         else (1, k, d))"

fun write_console :: "nat \<Rightarrow> u32 \<Rightarrow> nat \<Rightarrow> nat \<Rightarrow> 'a ostate_scheme \<Rightarrow> (s32 \<times> 'a ostate_scheme) option" where
  "write_console i buf e 0 s = Some (int e, s)"
| "write_console i buf e (Suc k) s = do {
     con \<leftarrow> aget (partitionConTab s) i;
     b \<leftarrow> gread (buf + word_of_nat e) s;
     let (r, con) = WriteMod con b;
     let s = s\<lparr>partitionConTab := (partitionConTab s)[i := con]\<rparr>;
     if r = 0 then Some (int e, s) else write_console i buf (Suc e) k s
   }"

text \<open>The owner of a descriptor is the current partition, never the hypervisor.\<close>

definition WriteConsoleObj :: "u32 \<Rightarrow> u32 \<Rightarrow> u32 \<Rightarrow> 'a ostate_scheme \<Rightarrow> (s32 \<times> 'a ostate_scheme) option" where
  "WriteConsoleObj desc buffer len s = do {
     let partId = OBJDESC_GET_PARTITIONID desc;
     me \<leftarrow> cur_partid s;
     if partId \<noteq> me then Some (XM_PERM_ERROR, s)
     else do {
       chk \<leftarrow> CheckGParam buffer len 1 PFLAG_NOT_NULL s;
       if chk < 0 then Some (XM_INVALID_PARAM, s)
       else if len > 128 then Some (XM_INVALID_PARAM, s)
       else do {
         ASSERT (partId \<noteq> XM_HYPERVISOR_ID);
         write_console (unat partId) buffer 0 (unat len) s
       }
     }
   }"

end
