(* ===== verification/Hypercalls.thy ===== *)
theory Hypercalls
  imports Objects
begin

text \<open>
  The hypercalls of core/kernel/hypercalls.c: the state of partitions and virtual processors, the
  system, the scheduler's plans, timers, the virtual interrupts, the objects, and batches of calls.
  The nodes' calls need the TTNoC driver, which the configuration leaves out. The table of
  core/kernel/arch/hypercalls.c dispatches the calls; AsmHypercallHndl of core/kernel/arch/entry.S
  delivers a pending interrupt after the call. A call has an outcome: it may lose the processor or
  never return.
\<close>

section \<open>What every call gets\<close>

text \<open>The handler of watchdog events, the fuel of the timers, the words the source leaves
  uninitialised, the registers GetCpuCtxt reads.\<close>

record 's env =
  env_hm :: "addr \<Rightarrow> 's \<Rightarrow> 's option"
  env_fuel :: nat
  env_junk :: u32
  env_junkb :: u32
  env_ctxt :: cpuCtxt

type_synonym 's call = "(s32, 's) outcome option"

definition ok :: "(s32 \<times> 's) option \<Rightarrow> 's call" where
  "ok r = map_option (\<lambda>(v, s). Ret v s) r"

definition done_ok :: "'s option \<Rightarrow> 's call" where
  "done_ok r = map_option (Ret XM_OK) r"

text \<open>The test of the callers: a system partition.\<close>

definition is_system :: "'a kstate_scheme \<Rightarrow> bool option" where
  "is_system s = map_option (\<lambda>c. has_flag (pc_flags c) XM_PART_SYSTEM) (cur_cfg s)"

definition no_partitions :: "'a kstate_scheme \<Rightarrow> nat" where
  "no_partitions s = length (xmcPartitionTab (cfg s))"

section \<open>Partitions\<close>

definition HaltPartitionSys :: "'a hstate_scheme env \<Rightarrow> u32 \<Rightarrow> 'a hstate_scheme \<Rightarrow> 'a hstate_scheme call" where
  "HaltPartitionSys v partitionId s = do {
     me \<leftarrow> cur_partid s;
     if partitionId \<noteq> me then do {
       sys \<leftarrow> is_system s;
       if \<not> sys then Some (Ret XM_PERM_ERROR s)
       else if unat partitionId \<ge> no_partitions s then Some (Ret XM_INVALID_PARAM s)
       else do {
         ks \<leftarrow> threads_of partitionId s;
         if \<forall>k \<in> set ks. AreKThreadFlagsSet k KTHREAD_HALTED_F s \<noteq> 0 then Some (Ret XM_NO_ACTION s)
         else done_ok (HALT_PARTITION partitionId s)
       }
     }
     else do {
       s \<leftarrow> HALT_PARTITION partitionId s;
       and_then (Resched (env_hm v) (env_fuel v) s) (\<lambda>_ s.
         SystemPanic (env_hm v) (env_fuel v) (env_junk v) (Some (env_ctxt v)) s)
     }
   }"

definition SuspendPartitionSys :: "'a hstate_scheme env \<Rightarrow> u32 \<Rightarrow> 'a hstate_scheme \<Rightarrow> 'a hstate_scheme call" where
  "SuspendPartitionSys v partitionId s = do {
     me \<leftarrow> cur_partid s;
     if partitionId \<noteq> me then do {
       sys \<leftarrow> is_system s;
       if \<not> sys then Some (Ret XM_PERM_ERROR s)
       else if unat partitionId \<ge> no_partitions s then Some (Ret XM_INVALID_PARAM s)
       else do {
         ks \<leftarrow> threads_of partitionId s;
         if \<forall>k \<in> set ks. AreKThreadFlagsSet k (KTHREAD_SUSPENDED_F OR KTHREAD_HALTED_F) s \<noteq> 0
         then Some (Ret XM_NO_ACTION s)
         else done_ok (SUSPEND_PARTITION partitionId s)
       }
     }
     else do {
       s \<leftarrow> SUSPEND_PARTITION partitionId s;
       and_then (Resched (env_hm v) (env_fuel v) s) (\<lambda>_ s. Some (Ret XM_OK s))
     }
   }"

definition ResumePartitionSys :: "u32 \<Rightarrow> 'a sstate_scheme \<Rightarrow> 'a sstate_scheme call" where
  "ResumePartitionSys partitionId s = do {
     me \<leftarrow> cur_partid s;
     if partitionId = me then Some (Ret XM_NO_ACTION s)
     else do {
       sys \<leftarrow> is_system s;
       if \<not> sys then Some (Ret XM_PERM_ERROR s)
       else if unat partitionId \<ge> no_partitions s then Some (Ret XM_INVALID_PARAM s)
       else do {
         ks \<leftarrow> threads_of partitionId s;
         if \<exists>k \<in> set ks. AreKThreadFlagsSet k KTHREAD_SUSPENDED_F s \<noteq> 0 \<and> AreKThreadFlagsSet k KTHREAD_HALTED_F s = 0
         then done_ok (RESUME_PARTITION partitionId s)
         else Some (Ret XM_NO_ACTION s)
       }
     }
   }"

definition ResetPartitionSys :: "'a rstate_scheme env \<Rightarrow> u32 \<Rightarrow> u32 \<Rightarrow> u32 \<Rightarrow> 'a rstate_scheme \<Rightarrow> 'a rstate_scheme call" where
  "ResetPartitionSys v partitionId resetMode status s = do {
     me \<leftarrow> cur_partid s;
     sys \<leftarrow> is_system s;
     if partitionId \<noteq> me \<and> \<not> sys then Some (Ret XM_PERM_ERROR s)
     else if partitionId \<noteq> me \<and> unat partitionId \<ge> no_partitions s then Some (Ret XM_INVALID_PARAM s)
     else if resetMode = XM_WARM_RESET \<or> resetMode = XM_COLD_RESET then
       and_then (ResetPartition (env_hm v) (env_fuel v) (unat partitionId) (resetMode AND XM_RESET_MODE) status s)
         (\<lambda>r s. Some (Ret (if r = 0 then XM_OK else XM_INVALID_CONFIG) s))
     else Some (Ret XM_INVALID_PARAM s)
   }"

definition ShutdownPartitionSys :: "u32 \<Rightarrow> 'a sstate_scheme \<Rightarrow> 'a sstate_scheme call" where
  "ShutdownPartitionSys partitionId s = do {
     me \<leftarrow> cur_partid s;
     sys \<leftarrow> is_system s;
     if partitionId \<noteq> me \<and> \<not> sys then Some (Ret XM_PERM_ERROR s)
     else if partitionId \<noteq> me \<and> unat partitionId \<ge> no_partitions s then Some (Ret XM_INVALID_PARAM s)
     else done_ok (SHUTDOWN_PARTITION partitionId s)
   }"

section \<open>Virtual processors of the caller\<close>

definition own_vcpu :: "u32 \<Rightarrow> 'a kstate_scheme \<Rightarrow> addr option" where
  "own_vcpu vCpuId s = do { p \<leftarrow> cur_partition s; k \<leftarrow> aget (p_kThread p) (unat vCpuId); ASSERT (k \<noteq> NULL); Some k }"

text \<open>What follows a change of a virtual processor of the caller: the scheduler, if it is the current one.\<close>

definition resched_if :: "'a astate_scheme env \<Rightarrow> addr \<Rightarrow> 'a astate_scheme \<Rightarrow> 'a astate_scheme call" where
  "resched_if v k s =
     (if k = cKThread s then and_then (Resched (env_hm v) (env_fuel v) s) (\<lambda>_ s. Some (Ret XM_OK s))
      else Some (Ret XM_OK s))"

definition thread_ids :: "addr \<Rightarrow> 'a kstate_scheme \<Rightarrow> (u32 \<times> u32) option" where
  "thread_ids k s = map_option (\<lambda>g. (KID2PARTID (g_id g), KID2VCPUID (g_id g))) (k_g (kthreads s k))"

text \<open>The call does nothing for a thread that runs: the test asks for the flags it is about to set.\<close>

definition SuspendVCpuSys :: "'a astate_scheme env \<Rightarrow> u32 \<Rightarrow> 'a astate_scheme \<Rightarrow> 'a astate_scheme call" where
  "SuspendVCpuSys v vCpuId s = do {
     c \<leftarrow> cur_cfg s;
     if vCpuId \<ge> pc_noVCpus c then Some (Ret XM_INVALID_PARAM s)
     else do {
       k \<leftarrow> own_vcpu vCpuId s;
       if AreKThreadFlagsSet k (KTHREAD_SUSPENDED_F OR KTHREAD_HALTED_F) s = 0 then Some (Ret XM_NO_ACTION s)
       else do {
         (p, c) \<leftarrow> thread_ids k s;
         s \<leftarrow> SUSPEND_VCPU p c s;
         resched_if v k s
       }
     }
   }"

definition ResumeVCpuSys :: "'a astate_scheme env \<Rightarrow> u32 \<Rightarrow> 'a astate_scheme \<Rightarrow> 'a astate_scheme call" where
  "ResumeVCpuSys v vCpuId s = do {
     c \<leftarrow> cur_cfg s;
     if vCpuId \<ge> pc_noVCpus c then Some (Ret XM_INVALID_PARAM s)
     else do {
       k \<leftarrow> own_vcpu vCpuId s;
       if AreKThreadFlagsSet k KTHREAD_SUSPENDED_F s \<noteq> 0 \<and> AreKThreadFlagsSet k KTHREAD_HALTED_F s = 0
       then Some (Ret XM_NO_ACTION s)
       else do {
         (p, c) \<leftarrow> thread_ids k s;
         s \<leftarrow> RESUME_VCPU p c s;
         resched_if v k s
       }
     }
   }"

definition ResetVCpuSys :: "'a rstate_scheme env \<Rightarrow> u32 \<Rightarrow> u32 \<Rightarrow> u32 \<Rightarrow> u32 \<Rightarrow> 'a rstate_scheme \<Rightarrow> 'a rstate_scheme call" where
  "ResetVCpuSys v vCpuId ptdL1 entryPoint status s = do {
     p \<leftarrow> cur_partition s;
     c \<leftarrow> part_cfg p s;
     if vCpuId \<ge> pc_noVCpus c then Some (Ret XM_INVALID_PARAM s)
     else do {
       (r, s) \<leftarrow> PmmFindPage ptdL1 p s;
       (case r of None \<Rightarrow> Some (Ret XM_INVALID_PARAM s)
        | Some (pg, _) \<Rightarrow> do {
            x \<leftarrow> page_get pg s;
            if pg_type x \<noteq> PPAG_PTDL1 then Some (Ret XM_INVALID_PARAM s)
            else do {
              s \<leftarrow> HALT_VCPU (pc_id c) vCpuId s;
              k \<leftarrow> aget (p_kThread p) (unat vCpuId);
              and_then (ResetKThread (env_hm v) (env_fuel v) k ptdL1 entryPoint status s) (\<lambda>_ s. Some (Ret XM_OK s))
            }
          })
     }
   }"

definition GetVCpuIdSys :: "'a kstate_scheme \<Rightarrow> (s32 \<times> 'a kstate_scheme) option" where
  "GetVCpuIdSys s = do { (_, c) \<leftarrow> thread_ids (cKThread s) s; Some (sint c, s) }"

definition HaltVCpuSys :: "'a astate_scheme env \<Rightarrow> u32 \<Rightarrow> 'a astate_scheme \<Rightarrow> 'a astate_scheme call" where
  "HaltVCpuSys v vCpuId s = do {
     c \<leftarrow> cur_cfg s;
     if vCpuId \<ge> pc_noVCpus c then Some (Ret XM_INVALID_PARAM s)
     else do {
       k \<leftarrow> own_vcpu vCpuId s;
       if AreKThreadFlagsSet k KTHREAD_HALTED_F s \<noteq> 0 then Some (Ret XM_NO_ACTION s)
       else do {
         (p, c) \<leftarrow> thread_ids k s;
         s \<leftarrow> HALT_VCPU p c s;
         resched_if v k s
       }
     }
   }"

section \<open>The system\<close>

definition HaltSystemSys :: "'a sstate_scheme \<Rightarrow> 'a sstate_scheme call" where
  "HaltSystemSys s = do {
     sys \<leftarrow> is_system s;
     if \<not> sys then Some (Ret XM_PERM_ERROR s) else HaltSystem s
   }"

definition ResetSystemSys :: "u32 \<Rightarrow> 'a rstate_scheme \<Rightarrow> 'a rstate_scheme call" where
  "ResetSystemSys resetMode s = do {
     sys \<leftarrow> is_system s;
     if \<not> sys then Some (Ret XM_PERM_ERROR s)
     else if resetMode \<noteq> XM_COLD_RESET \<and> resetMode \<noteq> XM_WARM_RESET then Some (Ret XM_INVALID_PARAM s)
     else ResetSystem resetMode (s\<lparr>resetStatusInit := 0\<rparr>)
   }"

definition KTHREAD_FLUSH_CACHE_B :: nat where "KTHREAD_FLUSH_CACHE_B = 5"
definition KTHREAD_FLUSH_CACHE_W :: u32 where "KTHREAD_FLUSH_CACHE_W = 3"
definition KTHREAD_CACHE_ENABLED_B :: nat where "KTHREAD_CACHE_ENABLED_B = 7"
definition KTHREAD_CACHE_ENABLED_W :: u32 where "KTHREAD_CACHE_ENABLED_W = 3"

definition FlushCacheSys :: "u32 \<Rightarrow> 'a kstate_scheme \<Rightarrow> (s32 \<times> 'a kstate_scheme) option" where
  "FlushCacheSys cache s =
     (if cache AND NOT 3 \<noteq> 0 then Some (XM_INVALID_PARAM, s)
      else Some (XM_OK, SetKThreadFlags (cKThread s) (push_bit KTHREAD_FLUSH_CACHE_B (cache AND KTHREAD_FLUSH_CACHE_W)) s))"

text \<open>The flags that are cleared are not the ones of the caches.\<close>

definition SetCacheStateSys :: "u32 \<Rightarrow> 'a kstate_scheme \<Rightarrow> (s32 \<times> 'a kstate_scheme) option" where
  "SetCacheStateSys cache s =
     (if cache AND NOT 3 \<noteq> 0 then Some (XM_INVALID_PARAM, s)
      else Some (XM_OK, SetKThreadFlags (cKThread s) (push_bit KTHREAD_CACHE_ENABLED_B (cache AND KTHREAD_CACHE_ENABLED_W))
             (ClearKThreadFlags (cKThread s) KTHREAD_CACHE_ENABLED_W s)))"

section \<open>Scheduling\<close>

definition SwitchSchedPlanSys :: "u32 \<Rightarrow> u32 \<Rightarrow> 'a gstate_scheme \<Rightarrow> (s32 \<times> 'a gstate_scheme) option" where
  "SwitchSchedPlanSys newPlanId currentPlanId s = do {
     sys \<leftarrow> is_system s;
     if \<not> sys then Some (XM_PERM_ERROR, s)
     else do {
       chk \<leftarrow> CheckGParam currentPlanId 4 4 (PFLAG_RW OR PFLAG_NOT_NULL) s;
       if chk < 0 then Some (XM_INVALID_PARAM, s)
       else do {
         cur \<leftarrow> plan_of (cfg s) (cy_current (cyclic s));
         if plan_id cur = newPlanId then Some (XM_NO_ACTION, s)
         else if newPlanId \<ge> word_of_int (cpu_noSchedCyclicPlans (xmcCpuCfg (cfg s))) then Some (XM_INVALID_PARAM, s)
         else do {
           (r, old, s) \<leftarrow> SwitchSchedPlan (sint newPlanId) s;
           s \<leftarrow> gwrite_u32 currentPlanId (word_of_int old) s;
           Some (if r \<noteq> 0 then XM_INVALID_CONFIG else XM_OK, s)
         }
       }
     }
   }"

definition IdleSelfSys :: "'a astate_scheme env \<Rightarrow> 'a astate_scheme \<Rightarrow> 'a astate_scheme call" where
  "IdleSelfSys v s = do {
     me \<leftarrow> cur_partid s;
     let s = log_audit (AuditPartIdle me) s;
     let s = (if cpu_schedPolicy (xmcCpuCfg (cfg s)) \<noteq> CYCLIC_SCHED
              then ClearKThreadFlags (cKThread s) KTHREAD_READY_F s else s);
     and_then (Resched (env_hm v) (env_fuel v) (cy_upd (\<lambda>cy. cy\<lparr>cy_kThread := idleKThread s\<rparr>) s))
       (\<lambda>_ s. Some (Ret XM_OK s))
   }"

section \<open>Timers\<close>

definition XM_HW_CLOCK :: u32 where "XM_HW_CLOCK = 0"
definition XM_EXEC_CLOCK :: u32 where "XM_EXEC_CLOCK = 1"
definition XM_WATCHDOG_TIMER :: u32 where "XM_WATCHDOG_TIMER = 2"

definition SetTimerSys :: "'a kstate_scheme hm_event \<Rightarrow> nat \<Rightarrow> u32 \<Rightarrow> xmTime \<Rightarrow> xmTime \<Rightarrow> 'a kstate_scheme \<Rightarrow>
    (s32 \<times> 'a kstate_scheme) option" where
  "SetTimerSys hm fuel clockId abstime interval s =
     (if abstime < 0 \<or> interval < 0 then Some (XM_INVALID_PARAM, s)
      else do {
        g \<leftarrow> cur_guest s;
        let k = cKThread s;
        if abstime = 0 then
          (if clockId = XM_HW_CLOCK then do { (_, s) \<leftarrow> DisarmKTimer (g_kTimer g) s; Some (XM_OK, s) }
           else if clockId = XM_EXEC_CLOCK then do { (_, s) \<leftarrow> DisarmVTimer k s; Some (XM_OK, s) }
           else if clockId = XM_WATCHDOG_TIMER then do { (_, s) \<leftarrow> DisarmKTimer (g_watchdogTimer g) s; Some (XM_OK, s) }
           else Some (XM_INVALID_PARAM, s))
        else if clockId = XM_HW_CLOCK then ArmKTimer hm fuel (g_kTimer g) abstime interval s
        else if clockId = XM_EXEC_CLOCK then ArmVTimer hm fuel k abstime interval s
        else if clockId = XM_WATCHDOG_TIMER then ArmKTimer hm fuel (g_watchdogTimer g) abstime interval s
        else Some (XM_INVALID_PARAM, s)
      })"

definition GetTimeSys :: "u32 \<Rightarrow> u32 \<Rightarrow> 'a gstate_scheme \<Rightarrow> (s32 \<times> 'a gstate_scheme) option" where
  "GetTimeSys clockId time s = do {
     chk \<leftarrow> CheckGParam time 8 8 (PFLAG_RW OR PFLAG_NOT_NULL) s;
     if chk < 0 then Some (XM_INVALID_PARAM, s)
     else if clockId = XM_HW_CLOCK then do {
       let (t, s) = GetSysClockUsec s;
       s \<leftarrow> gwrite_s64 time t s;
       Some (XM_OK, s)
     }
     else if clockId = XM_EXEC_CLOCK then do {
       g \<leftarrow> cur_guest s;
       let (t, s) = GetTimeUsecVClock (g_vClock g) s;
       s \<leftarrow> gwrite_s64 time t s;
       Some (XM_OK, s)
     }
     else Some (XM_INVALID_PARAM, s)
   }"

section \<open>Virtual interrupts\<close>

text \<open>\<open>for (e=0; m; e++) if (m&(1<<e)) {...; m&=~(1<<e);}\<close>\<close>

definition for_lines :: "(nat \<Rightarrow> 's \<Rightarrow> 's) \<Rightarrow> u32 \<Rightarrow> 's \<Rightarrow> 's" where
  "for_lines f m s = fold (\<lambda>e s. if bit m e then f e s else s) [0..<32] s"

definition own_pct :: "(partitionControlTable_t \<Rightarrow> partitionControlTable_t) \<Rightarrow> 'a kstate_scheme \<Rightarrow> 'a kstate_scheme option" where
  "own_pct f s = do { ASSERT (cur_pct s \<noteq> None); Some (kt_upd (cKThread s) (pct_upd f) s) }"

definition ClearIrqMaskSys :: "u32 \<Rightarrow> u32 \<Rightarrow> 'a sstate_scheme \<Rightarrow> (s32 \<times> 'a sstate_scheme) option" where
  "ClearIrqMaskSys hwIrqsMask extIrqsPend s = do {
     s \<leftarrow> own_pct (\<lambda>p. p\<lparr>pct_hwIrqsMask := clr_flag (pct_hwIrqsMask p) hwIrqsMask,
                         pct_extIrqsMask := clr_flag (pct_extIrqsMask p) extIrqsPend\<rparr>) s;
     c \<leftarrow> cur_cfg s;
     Some (XM_OK, s\<lparr>hw_pic := for_lines HwEnableIrq (hwIrqsMask AND pc_hwIrqs c) (hw_pic s)\<rparr>)
   }"

definition SetIrqMaskSys :: "u32 \<Rightarrow> u32 \<Rightarrow> 'a sstate_scheme \<Rightarrow> (s32 \<times> 'a sstate_scheme) option" where
  "SetIrqMaskSys hwIrqsMask extIrqsPend s = do {
     s \<leftarrow> own_pct (\<lambda>p. p\<lparr>pct_hwIrqsMask := set_flag (pct_hwIrqsMask p) hwIrqsMask,
                         pct_extIrqsMask := set_flag (pct_extIrqsMask p) extIrqsPend\<rparr>) s;
     c \<leftarrow> cur_cfg s;
     Some (XM_OK, s\<lparr>hw_pic := for_lines HwDisableIrq (hwIrqsMask AND pc_hwIrqs c) (hw_pic s)\<rparr>)
   }"

definition ForceIrqsSys :: "u32 \<Rightarrow> u32 \<Rightarrow> 'a sstate_scheme \<Rightarrow> (s32 \<times> 'a sstate_scheme) option" where
  "ForceIrqsSys hwIrqMask extIrqMask s = do {
     s \<leftarrow> own_pct (\<lambda>p. p\<lparr>pct_extIrqsPend := set_flag (pct_extIrqsPend p) extIrqMask\<rparr>) s;
     c \<leftarrow> cur_cfg s;
     let forced = hwIrqMask AND pc_hwIrqs c;
     let hwIrqMask = clr_flag hwIrqMask forced;
     let s = s\<lparr>hw_pic := for_lines HwForceIrq forced (hw_pic s)\<rparr>;
     s \<leftarrow> own_pct (\<lambda>p. p\<lparr>pct_hwIrqsPend := for_lines (\<lambda>e w. set_flag w (irq_bit e)) hwIrqMask (pct_hwIrqsPend p)\<rparr>) s;
     Some (XM_OK, s)
   }"

definition ClearIrqsSys :: "u32 \<Rightarrow> u32 \<Rightarrow> 'a sstate_scheme \<Rightarrow> (s32 \<times> 'a sstate_scheme) option" where
  "ClearIrqsSys hwIrqMask extIrqMask s = do {
     s \<leftarrow> own_pct (\<lambda>p. p\<lparr>pct_hwIrqsPend := clr_flag (pct_hwIrqsPend p) hwIrqMask,
                         pct_extIrqsPend := clr_flag (pct_extIrqsPend p) extIrqMask\<rparr>) s;
     c \<leftarrow> cur_cfg s;
     Some (XM_OK, s\<lparr>hw_pic := for_lines HwClearIrq (hwIrqMask AND pc_hwIrqs c) (hw_pic s)\<rparr>)
   }"

text \<open>The table of the hardware interrupts has 16 entries, that of the extended ones follows it.\<close>

definition RouteIrqSys :: "u32 \<Rightarrow> u32 \<Rightarrow> u32 \<Rightarrow> 'a kstate_scheme \<Rightarrow> (s32 \<times> 'a kstate_scheme) option" where
  "RouteIrqSys type irq vector s =
     (let i = unat irq; v = ucast vector
      in if irq \<ge> 32 then Some (XM_INVALID_PARAM, s)
      else if type = 0 then do { s \<leftarrow> own_pct (\<lambda>p. p\<lparr>pct_trap2Vector := (pct_trap2Vector p)[i := v]\<rparr>) s; Some (XM_OK, s) }
      else if type = 1 then do {
        s \<leftarrow> own_pct (\<lambda>p. if i < CONFIG_NO_HWIRQS then p\<lparr>pct_hwIrq2Vector := (pct_hwIrq2Vector p)[i := v]\<rparr>
               else p\<lparr>pct_extIrq2Vector := (pct_extIrq2Vector p)[i - CONFIG_NO_HWIRQS := v]\<rparr>) s;
        Some (XM_OK, s)
      }
      else if type = 2 then do { s \<leftarrow> own_pct (\<lambda>p. p\<lparr>pct_extIrq2Vector := (pct_extIrq2Vector p)[i := v]\<rparr>) s; Some (XM_OK, s) }
      else Some (XM_INVALID_PARAM, s))"

definition XM_VT_EXT_IPVI0 :: nat where "XM_VT_EXT_IPVI0 = 24"
definition CONFIG_XM_MAX_IPVI :: nat where "CONFIG_XM_MAX_IPVI = 8"

text \<open>The loop over the virtual processors of a destination that both calls share.\<close>

definition ipvi_vcpu :: "nat \<Rightarrow> addr \<Rightarrow> 'a kstate_scheme \<Rightarrow> 'a kstate_scheme option" where
  "ipvi_vcpu n k s =
     (if AreKThreadFlagsSet k KTHREAD_HALTED_F s \<noteq> 0 then Some s
      else do {
        pend \<leftarrow> AreExtIrqPendingSet k n s;
        if pend then Some s else SetExtIrqPending k n s
      })"

definition ipvi_part :: "nat \<Rightarrow> partition_t \<Rightarrow> 'a kstate_scheme \<Rightarrow> 'a kstate_scheme option" where
  "ipvi_part n p s = do { ks \<leftarrow> part_vcpus p s; ofold (ipvi_vcpu n) ks s }"

definition ipvi_slot :: "nat \<Rightarrow> 'a kstate_scheme \<Rightarrow> xmcPartIpvi option" where
  "ipvi_slot n s = do { c \<leftarrow> cur_cfg s; aget (pc_ipviTab c) (n - XM_VT_EXT_IPVI0) }"

definition ipvi_dst :: "xmcPartIpvi \<Rightarrow> nat \<Rightarrow> 'a kstate_scheme \<Rightarrow> nat option" where
  "ipvi_dst i e s = map_option unat (aget (xmcDstIpvi (cfg s)) (unat (ipvi_dstOffset i) + e))"

text \<open>Whether one of the destinations from the one numbered \<open>e\<close> on is the partition.\<close>

fun has_dst :: "xmcPartIpvi \<Rightarrow> nat \<Rightarrow> nat \<Rightarrow> nat \<Rightarrow> 'a kstate_scheme \<Rightarrow> bool option" where
  "has_dst i p e 0 s = Some False"
| "has_dst i p e (Suc k) s = do { d \<leftarrow> ipvi_dst i e s; if d = p then Some True else has_dst i p (Suc e) k s }"

text \<open>The range check of the source asks for an id that is at once negative and too large: it never fails.\<close>

definition RaisePartitionIpviSys :: "u32 \<Rightarrow> u32 \<Rightarrow> 'a kstate_scheme \<Rightarrow> (s32 \<times> 'a kstate_scheme) option" where
  "RaisePartitionIpviSys partitionId noIpvi s =
     (let n = unat (ucast noIpvi :: u8)
      in if n < XM_VT_EXT_IPVI0 \<or> n \<ge> XM_VT_EXT_IPVI0 + CONFIG_XM_MAX_IPVI then Some (XM_INVALID_PARAM, s)
      else do {
        i \<leftarrow> ipvi_slot n s;
        if ipvi_noDsts i \<le> 0 then Some (XM_INVALID_CONFIG, s)
        else do {
          found \<leftarrow> has_dst i (unat partitionId) 0 (nat (ipvi_noDsts i)) s;
          if found then do {
            p \<leftarrow> aget (partitionTab s) (unat partitionId);
            all \<leftarrow> ArePartitionExtIrqPendingSet p n s;
            if all then Some (XM_NO_ACTION, s)
            else do { s \<leftarrow> ipvi_part n p s; Some (XM_OK, s) }
          }
          else Some (XM_INVALID_CONFIG, s)
        }
      })"

definition RaiseIpviSys :: "u32 \<Rightarrow> 'a kstate_scheme \<Rightarrow> (s32 \<times> 'a kstate_scheme) option" where
  "RaiseIpviSys noIpvi s =
     (let n = unat (ucast noIpvi :: u8)
      in if n < XM_VT_EXT_IPVI0 \<or> n \<ge> XM_VT_EXT_IPVI0 + CONFIG_XM_MAX_IPVI then Some (XM_INVALID_PARAM, s)
      else do {
        i \<leftarrow> ipvi_slot n s;
        if ipvi_noDsts i \<le> 0 then Some (XM_NO_ACTION, s)
        else do {
          s \<leftarrow> ofold (\<lambda>e s. do { d \<leftarrow> ipvi_dst i e s; p \<leftarrow> aget (partitionTab s) d; ipvi_part n p s })
                [0..<nat (ipvi_noDsts i)] s;
          Some (XM_OK, s)
        }
      })"

section \<open>Names\<close>

text \<open>The first entry whose name is the one asked for; None is a name that leaves the memory.\<close>

fun find_name :: "(nat \<Rightarrow> u8 option) \<Rightarrow> xmc \<Rightarrow> (u32 \<times> xmId) list \<Rightarrow> s32 option" where
  "find_name name c [] = Some XM_INVALID_CONFIG"
| "find_name name c ((off, i) # es) = do {
     r \<leftarrow> strncmp (tab_str c off) name 0 CONFIG_ID_STRING_LENGTH;
     if r = 0 then Some (sint i) else find_name name c es
   }"

definition GetGidByNameSys :: "u32 \<Rightarrow> u32 \<Rightarrow> 'a gstate_scheme \<Rightarrow> (s32 \<times> 'a gstate_scheme) option" where
  "GetGidByNameSys name entity s = do {
     chk \<leftarrow> CheckGParam name (word_of_nat CONFIG_ID_STRING_LENGTH) 1 PFLAG_NOT_NULL s;
     if chk < 0 then Some (XM_INVALID_PARAM, s)
     else if entity = 0 then do {
       i \<leftarrow> find_name (guest_str name s) (cfg s) (map (\<lambda>c. (pc_nameOffset c, pc_id c)) (xmcPartitionTab (cfg s)));
       Some (i, s)
     }
     else if entity = 1 then do {
       i \<leftarrow> find_name (guest_str name s) (cfg s) (map (\<lambda>p. (plan_nameOffset p, plan_id p)) (xmcSchedCyclicPlanTab (cfg s)));
       Some (i, s)
     }
     else Some (XM_INVALID_PARAM, s)
   }"

section \<open>Objects\<close>

datatype obj_class = ObjConsole | ObjTrace | ObjSampling | ObjQueuing | ObjMem | ObjHm | ObjStatus

definition OBJ_NO_CLASSES :: u32 where "OBJ_NO_CLASSES = 9"

text \<open>\<open>objectTab\<close> after the set-up of the objects of the configuration.\<close>

definition objectTab :: "u32 \<Rightarrow> obj_class option" where
  "objectTab c = (if c = 1 then Some ObjConsole else if c = 2 then Some ObjTrace else if c = 3 then Some ObjSampling
     else if c = 4 then Some ObjQueuing else if c = 5 then Some ObjMem else if c = 6 then Some ObjHm
     else if c = 7 then Some ObjStatus else None)"

definition with_class :: "u32 \<Rightarrow> (obj_class \<Rightarrow> ('s \<Rightarrow> 's call) option) \<Rightarrow> 's \<Rightarrow> 's call" where
  "with_class objDesc ops s =
     (let c = OBJDESC_GET_CLASS objDesc
      in if c < OBJ_NO_CLASSES then
           (case objectTab c \<bind> ops of Some f \<Rightarrow> f s | None \<Rightarrow> Some (Ret XM_OP_NOT_ALLOWED s))
         else Some (Ret XM_INVALID_PARAM s))"

definition ReadObjectSys :: "u32 \<Rightarrow> u32 \<Rightarrow> u32 \<Rightarrow> u32 \<Rightarrow> 'a ostate_scheme \<Rightarrow> 'a ostate_scheme call" where
  "ReadObjectSys d buffer n flags = with_class d (\<lambda>c. case c of
     ObjTrace \<Rightarrow> Some (\<lambda>s. ok (ReadTrace d buffer n s))
   | ObjSampling \<Rightarrow> Some (\<lambda>s. ok (ReadSamplingPort d buffer n flags s))
   | ObjQueuing \<Rightarrow> Some (\<lambda>s. ok (ReceiveQueuingPort d buffer n s))
   | ObjHm \<Rightarrow> Some (\<lambda>s. ok (ReadHmLog d buffer n s))
   | _ \<Rightarrow> None)"

definition WriteObjectSys :: "'a ostate_scheme env \<Rightarrow> u32 \<Rightarrow> u32 \<Rightarrow> u32 \<Rightarrow> u32 \<Rightarrow> 'a ostate_scheme \<Rightarrow> 'a ostate_scheme call" where
  "WriteObjectSys v d buffer n flags = with_class d (\<lambda>c. case c of
     ObjConsole \<Rightarrow> Some (\<lambda>s. ok (WriteConsoleObj d buffer n s))
   | ObjTrace \<Rightarrow> Some (WriteTrace (env_hm v) (env_fuel v) (env_junk v) (env_junkb v) d buffer n flags)
   | ObjSampling \<Rightarrow> Some (\<lambda>s. ok (WriteSamplingPort d buffer n s))
   | ObjQueuing \<Rightarrow> Some (\<lambda>s. ok (SendQueuingPort d buffer n s))
   | _ \<Rightarrow> None)"

definition SeekObjectSys :: "u32 \<Rightarrow> u32 \<Rightarrow> u32 \<Rightarrow> 'a ostate_scheme \<Rightarrow> 'a ostate_scheme call" where
  "SeekObjectSys d offset whence = with_class d (\<lambda>c. case c of
     ObjTrace \<Rightarrow> Some (\<lambda>s. ok (SeekTrace d offset whence s))
   | ObjHm \<Rightarrow> Some (\<lambda>s. ok (SeekHmLog d offset whence s))
   | _ \<Rightarrow> None)"

definition CtrlObjectSys :: "u32 \<Rightarrow> u32 \<Rightarrow> u32 \<Rightarrow> 'a ostate_scheme \<Rightarrow> 'a ostate_scheme call" where
  "CtrlObjectSys d cmd arg = with_class d (\<lambda>c. case c of
     ObjTrace \<Rightarrow> Some (\<lambda>s. ok (CtrlTrace d cmd arg s))
   | ObjSampling \<Rightarrow> Some (\<lambda>s. ok (CtrlSamplingPort d cmd arg s))
   | ObjQueuing \<Rightarrow> Some (\<lambda>s. ok (CtrlQueuingPort d cmd arg s))
   | ObjMem \<Rightarrow> Some (\<lambda>s. ok (CtrlMem d cmd arg s))
   | ObjHm \<Rightarrow> Some (\<lambda>s. ok (CtrlHmLog d cmd arg s))
   | ObjStatus \<Rightarrow> Some (\<lambda>s. ok (CtrlStatus d cmd arg s))
   | _ \<Rightarrow> None)"

section \<open>The table\<close>

text \<open>\<open>multi\<close> is the entry for batches. The two calls without a result leave the register as it is.\<close>

definition s64_of :: "u32 \<Rightarrow> u32 \<Rightarrow> xmTime" where
  "s64_of lo hi = sint hi * 2 ^ 32 + uint lo"

text \<open>InvldTlbSys of core/kernel/mmu/hypercalls.c: the memory of the model has no TLB in front of it.\<close>

definition InvldTlbSys :: "u32 \<Rightarrow> 'a gstate_scheme \<Rightarrow> (s32 \<times> 'a gstate_scheme) option" where
  "InvldTlbSys val s = Some (XM_OK, s)"

definition hypercallsTab :: "(u32 \<Rightarrow> u32 \<Rightarrow> 'a ostate_scheme \<Rightarrow> 'a ostate_scheme call) \<Rightarrow> 'a ostate_scheme env \<Rightarrow>
    (nat \<Rightarrow> u32) \<Rightarrow> ('a ostate_scheme \<Rightarrow> 'a ostate_scheme call) list" where
  "hypercallsTab multi v a = [
     multi (a 0) (a 1), HaltPartitionSys v (a 0), SuspendPartitionSys v (a 0), ResumePartitionSys (a 0),
     ResetPartitionSys v (a 0) (a 1) (a 2), ShutdownPartitionSys (a 0), HaltSystemSys, ResetSystemSys (a 0), IdleSelfSys v,
     \<lambda>s. ok (GetTimeSys (a 0) (a 1) s),
     \<lambda>s. ok (SetTimerSys (env_hm v) (env_fuel v) (a 0) (s64_of (a 1) (a 2)) (s64_of (a 3) (a 4)) s),
     ReadObjectSys (a 0) (a 1) (a 2) (a 3), WriteObjectSys v (a 0) (a 1) (a 2) (a 3), SeekObjectSys (a 0) (a 1) (a 2),
     CtrlObjectSys (a 0) (a 1) (a 2),
     \<lambda>s. ok (ClearIrqMaskSys (a 0) (a 1) s), \<lambda>s. ok (SetIrqMaskSys (a 0) (a 1) s), \<lambda>s. ok (ForceIrqsSys (a 0) (a 1) s),
     \<lambda>s. ok (ClearIrqsSys (a 0) (a 1) s), \<lambda>s. ok (RouteIrqSys (a 0) (a 1) (a 2) s),
     \<lambda>s. ok (UpdatePage32Sys (env_junk v) (a 0) (a 1) s), \<lambda>s. ok (SetPageTypeSys (a 0) (a 1) s), \<lambda>s. ok (InvldTlbSys (a 0) s),
     \<lambda>s. ok (RaiseIpviSys (a 0) s), \<lambda>s. ok (RaisePartitionIpviSys (a 0) (a 1) s),
     \<lambda>s. ok (OverrideTrapHndlSys (sint (a 0)) (a 1) s),
     \<lambda>s. ok (SwitchSchedPlanSys (a 0) (a 1) s), \<lambda>s. ok (GetGidByNameSys (a 0) (a 1) s),
     ResetVCpuSys v (a 0) (a 1) (a 2) (a 3), HaltVCpuSys v (a 0), SuspendVCpuSys v (a 0), ResumeVCpuSys v (a 0),
     \<lambda>s. ok (GetVCpuIdSys s),
     \<lambda>s. ok (X86LoadCr0Sys (a 0) s), \<lambda>s. ok (X86LoadCr3Sys (a 0) s), \<lambda>s. ok (X86LoadCr4Sys (a 0) s),
     \<lambda>s. ok (X86LoadTss32Sys (a 0) s), \<lambda>s. ok (X86LoadGdtSys (a 0) s), \<lambda>s. ok (X86LoadIdtrSys (a 0) s),
     \<lambda>s. ok (X86UpdateSsSpSys (a 0) (a 1) (a 2) s), \<lambda>s. ok (X86UpdateGdtSys (sint (a 0)) (a 1) s),
     \<lambda>s. ok (X86UpdateIdtSys (sint (a 0)) (a 1) s),
     \<lambda>s. map_option (Ret (sint (env_junk v))) (X86SetIFSys s), \<lambda>s. map_option (Ret (sint (env_junk v))) (X86ClearIFSys s)]"

definition NR_HYPERCALLS :: nat where "NR_HYPERCALLS = 44"

text \<open>HYP_NO_ARGS of the entries of \<open>hypercallFlagsTab\<close>.\<close>

definition hyp_no_args :: "nat list" where
  "hyp_no_args = [0, 1, 1, 1, 1, 1, 0, 1, 0, 2, 3, 4, 4, 3, 3, 2, 2, 2, 2, 3, 2, 2, 1, 1, 2, 2, 2, 2, 4, 1, 1, 1, 0,
     1, 1, 1, 1, 1, 1, 3, 2, 2, 0, 0]"

section \<open>Batches\<close>

text \<open>The five words behind the header of an entry are read, whatever the call takes.\<close>

fun read_args :: "u32 \<Rightarrow> nat \<Rightarrow> 'a gstate_scheme \<Rightarrow> u32 list option" where
  "read_args p 0 s = Some []"
| "read_args p (Suc n) s = do { w \<leftarrow> gread_u32 p s; ws \<leftarrow> read_args (p + 4) n s; Some (w # ws) }"

definition list_arg :: "u32 list \<Rightarrow> nat \<Rightarrow> u32" where
  "list_arg ws i = (if i < length ws then ws ! i else 0)"

text \<open>One entry: the upper half of its second word is cleared, then gets the result. \<open>call\<close> is the table.\<close>

definition batch_entry :: "(nat \<Rightarrow> (nat \<Rightarrow> u32) \<Rightarrow> 'a gstate_scheme \<Rightarrow> 'a gstate_scheme call) \<Rightarrow> u32 \<Rightarrow> 'a gstate_scheme \<Rightarrow>
    (nat option, 'a gstate_scheme) outcome option" where
  "batch_entry call p s = do {
     noHyp \<leftarrow> gread_u32 p s;
     w \<leftarrow> gread_u32 (p + 4) s;
     s \<leftarrow> gwrite_u32 (p + 4) (w AND NOT 0xffff0000) s;
     if unat noHyp \<ge> NR_HYPERCALLS \<or> unat (w AND NOT 0xffff0000) \<noteq> hyp_no_args ! unat noHyp then do {
       s \<leftarrow> gwrite_u32 (p + 4) ((w AND NOT 0xffff0000) OR push_bit 16 (word_of_int XM_INVALID_PARAM)) s;
       Some (Ret None s)
     }
     else do {
       ws \<leftarrow> read_args (p + 8) 5 s;
       and_then (call (unat noHyp) (list_arg ws) s) (\<lambda>r s. do {
         w \<leftarrow> gread_u32 (p + 4) s;
         s \<leftarrow> gwrite_u32 (p + 4) (w OR push_bit 16 (word_of_int r)) s;
         Some (Ret (Some (hyp_no_args ! unat noHyp)) s)
       })
     }
   }"

function batch :: "(nat \<Rightarrow> (nat \<Rightarrow> u32) \<Rightarrow> 'a gstate_scheme \<Rightarrow> 'a gstate_scheme call) \<Rightarrow> nat \<Rightarrow> nat \<Rightarrow> 'a gstate_scheme \<Rightarrow>
    'a gstate_scheme call" where
  "batch call p e s =
     (if p < e then and_then (batch_entry call (word_of_nat p) s) (\<lambda>r s.
        case r of None \<Rightarrow> Some (Ret XM_MULTICALL_ERROR s) | Some n \<Rightarrow> batch call (p + (n + 2) * 4) e s)
      else Some (Ret XM_OK s))"
  by pat_completeness auto
termination
  by (relation "measure (\<lambda>(call, p, e, s). e - p)") auto

declare batch.simps [simp del]

definition MulticallSys :: "(nat \<Rightarrow> (nat \<Rightarrow> u32) \<Rightarrow> 'a gstate_scheme \<Rightarrow> 'a gstate_scheme call) \<Rightarrow> u32 \<Rightarrow> u32 \<Rightarrow> 'a gstate_scheme \<Rightarrow>
    'a gstate_scheme call" where
  "MulticallSys call startAddr endAddr s =
     (if endAddr < startAddr then Some (Ret XM_INVALID_PARAM s)
      else do {
        chk \<leftarrow> CheckGParam startAddr (endAddr - startAddr) 4 PFLAG_RW s;
        if chk < 0 then Some (Ret XM_INVALID_PARAM s) else batch call (unat startAddr) (unat endAddr) s
      })"

text \<open>A batch may hold batches: \<open>d\<close> is how deep they may be nested. None at depth 0 is a kernel stack
  that has no room left.\<close>

fun hypercall :: "'a ostate_scheme env \<Rightarrow> nat \<Rightarrow> nat \<Rightarrow> (nat \<Rightarrow> u32) \<Rightarrow> 'a ostate_scheme \<Rightarrow> 'a ostate_scheme call" where
  "hypercall v 0 nr a s = None"
| "hypercall v (Suc d) nr a s = do {
     f \<leftarrow> aget (hypercallsTab (MulticallSys (hypercall v d)) v a) nr;
     f s
   }"

text \<open>The entry from a guest: the result goes to a register, if the call has one; a pending interrupt is
  delivered on the way back.\<close>

definition deliver :: "'a istate_scheme env \<Rightarrow> s32 option \<Rightarrow> cpuCtxt \<Rightarrow> 'a istate_scheme \<Rightarrow>
    (s32 option \<times> cpuCtxt, 'a istate_scheme) outcome option" where
  "deliver v ax ctxt s = and_then (RaisePendIrqs (env_hm v) (env_fuel v) (env_junk v) ctxt s)
     (\<lambda>(_, ctxt) s. Some (Ret (ax, ctxt) s))"

definition AsmHypercallHndl :: "'a ostate_scheme env \<Rightarrow> nat \<Rightarrow> u32 \<Rightarrow> (nat \<Rightarrow> u32) \<Rightarrow> cpuCtxt \<Rightarrow> 'a ostate_scheme \<Rightarrow>
    (s32 option \<times> cpuCtxt, 'a ostate_scheme) outcome option" where
  "AsmHypercallHndl v d nr a ctxt s =
     (if unat nr \<ge> NR_HYPERCALLS then deliver v (Some (- 1)) ctxt s
      else and_then (hypercall v d (unat nr) a s)
             (\<lambda>r s. deliver v (if unat nr < 42 then Some r else None) ctxt s))"

section \<open>The audit of calls\<close>

text \<open>The record of a call: its number and its arguments, in two events if they do not fit in one. The
  second starts at the word that ended the first.\<close>

definition AuditHCall :: "nat \<Rightarrow> u32 list \<Rightarrow> 'a sstate_scheme \<Rightarrow> 'a sstate_scheme option" where
  "AuditHCall hypNr a s =
     (if xmcHpvTraceBitmap (cfg s) AND 2 \<noteq> 0 then do {
        let noArgs = (if hypNr < NR_HYPERCALLS then hyp_no_args ! hypNr else 0);
        ASSERT (noArgs \<le> 5 \<and> noArgs \<le> length a);
        let argList = (push_bit 16 (word_of_nat hypNr) OR word_of_nat noArgs) # take noArgs a;
        if noArgs < 4 then Some (log_audit (AuditHCallBegin argList) s)
        else Some (log_audit (AuditHCallMore (take (noArgs - 3) (drop 3 argList))) (log_audit (AuditHCallBegin (take 4 argList)) s))
      } else Some s)"

definition AuditHCallRet :: "u32 \<Rightarrow> 'a sstate_scheme \<Rightarrow> 'a sstate_scheme" where
  "AuditHCallRet retVal = log_audit (AuditHCallEnd retVal)"

end
