(* ===== verification/Samples.thy ===== *)
theory Samples
  imports PartState LogStream Bitmap CommPorts
begin

text \<open>
  Small concrete systems on which the theorems of the development are applied: two partitions
  of one thread each under a plan of two slots, the idle thread, and a device for the logs.
  Addresses are small numbers: threads 10, 20 and idle 30, their timer queues 11, 21, 31, their
  timers 12 to 14 and 22 to 24, the scheduler's timer 41 on the queue 40 of the processor.
\<close>

definition demo_pct :: partitionControlTable_t where
  "demo_pct = \<lparr>pct_resetCounter = 0, pct_resetStatus = 0, pct_flags = KTHREAD_READY_F, pct_hwIrqs = 0,
     pct_hwIrqsPend = 0, pct_hwIrqsMask = 0, pct_extIrqsPend = 0, pct_extIrqsMask = 0, pct_noCommPorts = 2,
     pct_iFlags = 0x200, pct_schedInfo = \<lparr>si_noSlot = 0, si_id = 0, si_slotDuration = 0\<rparr>,
     pct_trap2Vector = replicate 32 0, pct_hwIrq2Vector = map (\<lambda>i. word_of_nat (32 + i)) [0..<32],
     pct_extIrq2Vector = map (\<lambda>i. word_of_nat (64 + i)) [0..<32], pct_tail = replicate 9 0\<rparr>"

definition demo_guest :: "xmId \<Rightarrow> nat \<Rightarrow> guest" where
  "demo_guest i a = \<lparr>g_id = i,
     g_vTimer = \<lparr>vt_value = 0, vt_interval = 0, vt_flags = 0, vt_kTimer = a + 4\<rparr>,
     g_kTimer = a + 2, g_watchdogTimer = a + 3,
     g_vClock = \<lparr>vc_acc = 0, vc_delta = 0, vc_flags = 0\<rparr>, g_opMode = 0, g_swTrap = 0,
     g_partCtrlTab = Some demo_pct\<rparr>"

definition demo_thread :: "guest option \<Rightarrow> nat \<Rightarrow> kThread_t" where
  "demo_thread g a = \<lparr>k_flags = KTHREAD_READY_F, k_localActiveKTimers = a + 1, k_g = g, k_irqMask = 0\<rparr>"

definition demo_part :: "xmId \<Rightarrow> u32 \<Rightarrow> xmcPartition" where
  "demo_part i f = \<lparr>pc_id = i, pc_nameOffset = 0, pc_flags = f, pc_noVCpus = 1, pc_hwIrqs = 0x10,
     pc_noPhysicalMemoryAreas = 1, pc_physicalMemoryAreasOffset = i, pc_commPortsOffset = 2 * i, pc_noPorts = 2,
     pc_hmTab = replicate 32 \<lparr>hms_action = 0, hms_log = False\<rparr>, pc_traceBitmap = 0,
     pc_ipviTab = replicate 8 \<lparr>ipvi_dstOffset = 0, ipvi_noDsts = 1\<rparr>\<rparr>"

definition demo_slots :: "xmcSchedCyclicSlot list" where
  "demo_slots = [\<lparr>slot_id = 0, slot_partitionId = 0, slot_vCpuId = 0, slot_sExec = 0, slot_eExec = 100\<rparr>,
     \<lparr>slot_id = 1, slot_partitionId = 1, slot_vCpuId = 0, slot_sExec = 100, slot_eExec = 200\<rparr>]"

definition demo_plan :: xmcSchedCyclicPlan where
  "demo_plan = \<lparr>plan_nameOffset = 0, plan_id = 7, plan_majorFrame = 300, plan_noSlots = 2, plan_slotsOffset = 0\<rparr>"

definition demo_cfg :: "sched_policy \<Rightarrow> xmc" where
  "demo_cfg pol = \<lparr>xmcPartitionTab = [demo_part 0 XM_PART_SYSTEM, demo_part 1 0],
     xmcCpuCfg = \<lparr>cpu_schedPolicy = pol, cpu_schedCyclicPlansOffset = 0, cpu_noSchedCyclicPlans = 1,
        cpu_schedFpTabOffset = 0, cpu_noFpEntries = 2\<rparr>,
     xmcHpvHmTab = replicate 32 \<lparr>hms_action = 0, hms_log = True\<rparr>, xmcHpvTraceBitmap = 0xffff,
     xmcHwIrqOwner = replicate 16 (- 1),
     xmcSchedCyclicSlotTab = demo_slots, xmcSchedCyclicPlanTab = [demo_plan],
     xmcFpSchedTab = [\<lparr>fps_partitionId = 0, fps_vCpuId = 0, fps_priority = 1\<rparr>,
        \<lparr>fps_partitionId = 1, fps_vCpuId = 0, fps_priority = 2\<rparr>],
     xmcDstIpvi = [1],
     xmcPhysMemAreaTab = [\<lparr>ma_nameOffset = 0, ma_startAddr = 0x10000, ma_mappedAt = 0x10000, ma_size = 0x4000, ma_flags = 0, ma_memoryRegionOffset = 0\<rparr>,
        \<lparr>ma_nameOffset = 0, ma_startAddr = 0x20000, ma_mappedAt = 0x20000, ma_size = 0x4000, ma_flags = 0, ma_memoryRegionOffset = 0\<rparr>],
     xmcMemRegTab = [\<lparr>mr_startAddr = 0x10000, mr_size = 0x20000, mr_flags = 1\<rparr>],
     xmcCommPorts = [\<lparr>cp_nameOffset = 0, cp_channelId = 0, cp_direction = 2, cp_type = 0\<rparr>,
        \<lparr>cp_nameOffset = 2, cp_channelId = 1, cp_direction = 2, cp_type = 1\<rparr>,
        \<lparr>cp_nameOffset = 0, cp_channelId = 0, cp_direction = 1, cp_type = 0\<rparr>,
        \<lparr>cp_nameOffset = 2, cp_channelId = 1, cp_direction = 1, cp_type = 1\<rparr>],
     xmcCommChannelTab = [SamplingChannel 4 1000 1, QueuingChannel 4 2],
     xmcStringTab = [65, 0, 66, 0]\<rparr>"

definition demo_vcpu_ids :: "nat \<Rightarrow> guest option" where
  "demo_vcpu_ids a = (if a = 10 then Some (demo_guest 0 10) else if a = 20 then Some (demo_guest 1 20) else None)"

definition demo_pic :: pic where
  "demo_pic = InitPic 0x20 0x28 \<lparr>cMasterMask = 0xff, cSlaveMask = 0xff, x86HwIrqsMask = 0xffffffff,
     hwIrqCtrl = replicate 16 \<lparr>hc_Enable = None, hc_Disable = None, hc_Ack = None, hc_End = None, hc_Force = None, hc_Clear = None\<rparr>,
     pic_out = []\<rparr>"

definition demo_state :: "sched_policy \<Rightarrow> sstate" where
  "demo_state pol = \<lparr>dnode = (\<lambda>a. if a = 41 then \<lparr>nd_list = 40, nd_prev = 41, nd_next = 41\<rparr>
        else \<lparr>nd_list = NULL, nd_prev = NULL, nd_next = NULL\<rparr>),
     dlist = (\<lambda>a. if a = 40 then \<lparr>l_head = 41, l_noElem = 1\<rparr> else \<lparr>l_head = NULL, l_noElem = 0\<rparr>),
     cfg = demo_cfg pol, clk = (\<lambda>n. 1000 + 10 * int n), clk_n = 0,
     kthreads = (\<lambda>a. demo_thread (demo_vcpu_ids a) a),
     ktimers = (\<lambda>a. \<lparr>kt_value = 0, kt_interval = 0, kt_flags = 0, kt_action = Some ActSchedPending\<rparr>),
     partitionTab = [\<lparr>p_kThread = [10], p_opMode = 0, p_cfg = 0\<rparr>, \<lparr>p_kThread = [20], p_opMode = 0, p_cfg = 1\<rparr>],
     cKThread = 30, idleKThread = 30, irqNestingCounter = 0, lt_flags = 0, lt_nextAct = 0,
     lt_globalActiveKTimers = 40, hw_min = 5, hw_max = 1000000, hw_prog = None,
     cyclic = \<lparr>cy_kTimer = 41, cy_current = PlanNull, cy_new = PlanTab 0, cy_prev = PlanNull, cy_slot = - 1, cy_mjf = 0,
        cy_sExec = 0, cy_planSwitchTime = 0, cy_nextAct = 0, cy_kThread = NULL, cy_flags = 0\<rparr>,
     sched_flags = LOCAL_SCHED_ENABLED, hw_pic = demo_pic, audit = []\<rparr>"

definition demo_hm :: "sstate hm_event" where
  "demo_hm k s = Some s"

definition demo_dev :: memBlockData where
  "demo_dev = \<lparr>mb_pos = 0, mb_size = 72, mb_mem = replicate 72 0\<rparr>"

lemma map_option_fst_Some: "map_option fst m = Some k \<Longrightarrow> m = Some (k, snd (the m))"
  by (cases m) auto

lemma not_None_the: "(case m of None \<Rightarrow> False | Some x \<Rightarrow> True) \<Longrightarrow> m = Some (the m)"
  by (cases m) auto

text \<open>The first decision of the cyclic policy gives the processor to the owner of the first slot.\<close>

definition demo_next :: sstate where
  "demo_next = snd (the (GetReadyKThreadCyclic demo_hm 2 (demo_state CYCLIC_SCHED)))"

lemma demo_ready: "GetReadyKThreadCyclic demo_hm 2 (demo_state CYCLIC_SCHED) = Some (10, demo_next)"
  unfolding demo_next_def by (rule map_option_fst_Some) code_simp

text \<open>
  A system with ports: guest pages 0 to 15 are accessible to both partitions; the names are at
  0x1000 and 0x1010, data at 0x2000, a result word at 0x3000. Channel 1 has its list heads at 200
  and 201 and its messages at 210 and 211.
\<close>

definition demo_mem :: "u32 \<Rightarrow> u8" where
  "demo_mem a = (if a = 0x1000 then 65 else if a = 0x1010 then 66 else if a = 0x1020 then 90
     else if a = 0x2000 then 7 else if a = 0x2001 then 8 else if a = 0x2002 then 9 else 0)"

definition demo_alloc :: "nat \<Rightarrow> addr \<times> addr \<times> addr" where
  "demo_alloc e = (200, 201, 210)"

definition demo_raw :: cstate where
  "demo_raw = (let s = demo_state CYCLIC_SCHED in
     \<lparr>dnode = dnode s, dlist = dlist s, cfg = cfg s, clk = clk s, clk_n = clk_n s, kthreads = kthreads s,
      ktimers = ktimers s, partitionTab = partitionTab s, cKThread = 10, idleKThread = idleKThread s,
      irqNestingCounter = irqNestingCounter s, lt_flags = lt_flags s, lt_nextAct = lt_nextAct s,
      lt_globalActiveKTimers = lt_globalActiveKTimers s, hw_min = hw_min s, hw_max = hw_max s, hw_prog = hw_prog s,
      cyclic = cyclic s, sched_flags = sched_flags s, hw_pic = hw_pic s, audit = audit s,
      gmem = (\<lambda>i. demo_mem), g_readable = (\<lambda>i p. p < 16), g_writable = (\<lambda>i p. p < 16),
      channelTab = [], portTab = replicate 4 \<lparr>po_flags = 0, po_partitionId = 0\<rparr>\<rparr>)"

text \<open>The descriptors of the ports: class 3 sampling, 4 queuing; partition; port.\<close>

definition demo_desc :: "u32 \<Rightarrow> u32 \<Rightarrow> u32 \<Rightarrow> u32" where
  "demo_desc cl i port = OBJDESC_BUILD cl i port"

text \<open>All four ports open: partition 0 sends, partition 1 receives.\<close>

definition demo_schan :: schannel where
  "demo_schan = \<lparr>sc_buffer = [0, 0, 0, 0], sc_length = 0, sc_timestamp = 0, sc_receiverTab = [Some 1],
     sc_receiverPortTab = [0], sc_noReceivers = 1, sc_sender = Some 0, sc_senderPort = 0\<rparr>"

definition demo_qchan :: qchannel where
  "demo_qchan = \<lparr>q_msgPool = replicate 2 \<lparr>m_buffer = replicate 4 0, m_length = 0\<rparr>, q_pool = 210, q_freeMsgs = 200,
     q_recvMsgs = 201, q_usedMsgs = 0, q_receiver = Some 1, q_receiverPort = 1, q_sender = Some 0, q_senderPort = 1\<rparr>"

definition demo_open :: cstate where
  "demo_open = demo_raw\<lparr>dnode := (\<lambda>a. if a = 41 then \<lparr>nd_list = 40, nd_prev = 41, nd_next = 41\<rparr>
        else if a = 210 then \<lparr>nd_list = 200, nd_prev = 211, nd_next = 211\<rparr>
        else if a = 211 then \<lparr>nd_list = 200, nd_prev = 210, nd_next = 210\<rparr>
        else \<lparr>nd_list = NULL, nd_prev = NULL, nd_next = NULL\<rparr>),
     dlist := (\<lambda>a. if a = 40 then \<lparr>l_head = 41, l_noElem = 1\<rparr>
        else if a = 200 then \<lparr>l_head = 211, l_noElem = 2\<rparr> else \<lparr>l_head = NULL, l_noElem = 0\<rparr>),
     channelTab := [SChan demo_schan, QChan demo_qchan],
     portTab := [\<lparr>po_flags = 1, po_partitionId = 0\<rparr>, \<lparr>po_flags = 1, po_partitionId = 0\<rparr>,
       \<lparr>po_flags = 1, po_partitionId = 1\<rparr>, \<lparr>po_flags = 1, po_partitionId = 1\<rparr>]\<rparr>"

definition by_part1 :: "cstate \<Rightarrow> cstate" where
  "by_part1 s = s\<lparr>cKThread := 20\<rparr>"

end
