(* ===== verification/KernelProps.thy ===== *)
theory KernelProps
  imports Samples
begin

text \<open>
  The properties of the lists, bitmaps, threads, timers and the scheduler, each applied to a
  concrete system of theory Samples.
\<close>

section \<open>Lists, bitmaps and thread ids\<close>

lemma dl_rep_empty_iff:
  "dl_rep s l [] \<longleftrightarrow> l \<noteq> NULL \<and> (\<forall>x. nd_list (dnode s x) \<noteq> l) \<and> l_head (dlist s l) = NULL \<and> l_noElem (dlist s l) = 0"
  by (auto simp: dl_rep_def dl_cyc_def)

lemma demo_lists: "dl_inv (demo_state pol) [11 \<mapsto> [], 40 \<mapsto> [41]]"
  by (auto simp: dl_inv_def dl_rep_empty_iff demo_state_def split: if_splits)
    (auto simp: dl_rep_def dl_cyc_def dl_lnk_def)

lemma demo_free: "dl_free (demo_state pol) 51" "dl_free (demo_state pol) 52"
  by (simp_all add: dl_free_def demo_state_def)

text \<open>C23: nodes put at the head of a kernel list and taken from its tail come out in the order
  they went in, and no operation on the way fails.\<close>

theorem list_is_fifo:
  assumes "dl_inv s f" "f l = Some []" "\<forall>e \<in> set es. dl_free s e" "distinct es"
  shows "\<exists>s' s''. enq_all DynListInsertHead l es s = Some s' \<and>
    deq_n DynListRemoveTail l (length es) s' = Some (es, s'')"
  by (rule dlq.fifo [OF assms])

theorem list_is_fifo_witness:
  "\<exists>s' s''. enq_all DynListInsertHead 11 [51, 52] (demo_state FP_SCHED) = Some s' \<and>
    deq_n DynListRemoveTail 11 (length [51, 52 :: nat]) s' = Some ([51, 52], s'')"
  by (rule list_is_fifo [OF demo_lists]) (use demo_free in auto)

text \<open>Removing an element from the middle of a list leaves the others in order, keeps every
  list well-formed and makes exactly that node free.\<close>

theorem list_remove_element:
  assumes "dl_inv s f" "f l = Some (as @ e # bs)"
  shows "\<exists>s'. DynListRemoveElement l e s = Some (0, s') \<and> dl_inv s' (f(l \<mapsto> as @ bs)) \<and>
    (\<forall>x. dl_free s' x \<longleftrightarrow> dl_free s x \<or> x = e)"
  by (rule dlq.rem_elem [OF assms])

theorem list_remove_element_witness:
  "\<exists>s'. DynListRemoveElement 40 41 (demo_state FP_SCHED) = Some (0, s') \<and>
    dl_inv s' ([11 \<mapsto> [], 40 \<mapsto> [41]](40 \<mapsto> [] @ [])) \<and> dl_free s' 41"
  using list_remove_element [OF demo_lists, of 40 "[]" 41 "[]"] by auto

text \<open>In a guest bitmap, setting or clearing a port's bit changes that bit only, and reading
  it back gives what was written.\<close>

theorem bitmap_read_after_write:
  assumes "bm_ok bm n" "i < n" "j < n"
  shows "(\<exists>bm'. xmSetBit bm (word_of_nat i) (int n) = Some bm' \<and>
      xmIsBitSet bm' (int j) (int n) = (if j = i then Some 1 else xmIsBitSet bm (int j) (int n))) \<and>
    (\<exists>bm'. xmClearBit bm (word_of_nat i) (int n) = Some bm' \<and>
      xmIsBitSet bm' (int j) (int n) = (if j = i then Some 0 else xmIsBitSet bm (int j) (int n)))"
  using xmSetBit_bit [OF assms(1,2)] xmClearBit_bit [OF assms(1,2)] xmIsBitSet_bit [OF _ assms(3)] assms(1)
  by auto

theorem bitmap_read_after_write_witness:
  "(\<exists>bm'. xmSetBit [0, 0] (word_of_nat 33) (int 40) = Some bm' \<and>
      xmIsBitSet bm' (int 33) (int 40) = (if 33 = (33 :: nat) then Some 1 else xmIsBitSet [0, 0] (int 33) (int 40))) \<and>
   (\<exists>bm'. xmClearBit [0, 0] (word_of_nat 33) (int 40) = Some bm' \<and>
      xmIsBitSet bm' (int 32) (int 40) = (if 32 = (33 :: nat) then Some 0 else xmIsBitSet [0, 0] (int 32) (int 40)))"
  using bitmap_read_after_write [of "[0, 0]" 40 33 33] bitmap_read_after_write [of "[0, 0]" 40 33 32]
  by (simp add: bm_ok_def)

section \<open>Interrupts of a partition\<close>

text \<open>Raising an extended interrupt for a partition makes it pending in every VCPU of the
  partition that is not halted and makes those threads ready; halted threads and the threads of
  other partitions are untouched.\<close>

theorem partition_interrupt:
  assumes "part_vcpus p s = Some ks" "distinct ks" "irq \<le> XM_VT_EXT_LAST"
    and "\<forall>k \<in> set ks. k_pct (kthreads s k) \<noteq> None"
  shows "\<exists>s'. SetPartitionExtIrqPending p irq s = Some s' \<and>
    (\<forall>k. if k \<in> set ks \<and> \<not> k_halted (kthreads s k)
         then ext_pending s' k irq \<and> has_flag (k_flags (kthreads s' k)) KTHREAD_READY_F \<and>
              (\<forall>i. i \<noteq> irq \<longrightarrow> ext_pending s' k i = ext_pending s k i)
         else kthreads s' k = kthreads s k)"
proof -
  have irq: "irq < 32" using assms(3) by (simp add: ext_irq_defs)
  let ?s = "s\<lparr>kthreads := pend_all irq ks (kthreads s)\<rparr>"
  have "ext_pending ?s k irq \<and> has_flag (k_flags (kthreads ?s k)) KTHREAD_READY_F \<and>
      (\<forall>i. i \<noteq> irq \<longrightarrow> ext_pending ?s k i = ext_pending s k i)" if k: "k \<in> set ks" "\<not> k_halted (kthreads s k)" for k
  proof -
    obtain q where q: "k_pct (kthreads s k) = Some q" using assms(4) k(1) by blast
    then show ?thesis
      using k irq by (auto simp: ext_pending_def pend_all_def pend_ext_pct ext_pend_bit
          intro!: has_flag_set simp: kthread_flag_defs)
  qed
  then show ?thesis
    using SetPartitionExtIrqPending_eq [OF assms] by (auto simp: pend_all_def)
qed

theorem partition_interrupt_witness:
  "\<exists>s'. SetPartitionExtIrqPending (partitionTab (demo_state FP_SCHED) ! 1) 3 (demo_state FP_SCHED) = Some s' \<and>
    ext_pending s' 20 3 \<and> kthreads s' 10 = kthreads (demo_state FP_SCHED) 10"
proof -
  have v: "part_vcpus (partitionTab (demo_state FP_SCHED) ! 1) (demo_state FP_SCHED) = Some [20]" by code_simp
  have p: "k_pct (kthreads (demo_state FP_SCHED) 20) \<noteq> None" "\<not> k_halted (kthreads (demo_state FP_SCHED) 20)"
    by (simp_all add: demo_state_def demo_thread_def demo_vcpu_ids_def demo_guest_def k_pct_def k_halted_def
        kthread_flag_defs has_flag_def)
  obtain s' where "SetPartitionExtIrqPending (partitionTab (demo_state FP_SCHED) ! 1) 3 (demo_state FP_SCHED) = Some s'"
    and r: "\<forall>k. if k \<in> set [20] \<and> \<not> k_halted (kthreads (demo_state FP_SCHED) k)
         then ext_pending s' k 3 \<and> has_flag (k_flags (kthreads s' k)) KTHREAD_READY_F \<and>
              (\<forall>i. i \<noteq> 3 \<longrightarrow> ext_pending s' k i = ext_pending (demo_state FP_SCHED) k i)
         else kthreads s' k = kthreads (demo_state FP_SCHED) k"
    using partition_interrupt [OF v, of 3] p by (auto simp: ext_irq_defs)
  then show ?thesis using p r [rule_format, of 20] r [rule_format, of 10] by simp
qed

section \<open>Timers\<close>

definition demo_armed :: sstate where
  "demo_armed = tm_upd 41 (\<lambda>x. x\<lparr>kt_value := 900, kt_interval := 70, kt_flags := KTIMER_ARMED\<rparr>) (demo_state CYCLIC_SCHED)"

text \<open>C21: one pass over a timer queue at time c fires every armed timer that is due: a periodic
  one moves by whole periods past c, a one-shot one is disarmed; after it no armed timer is due,
  the deadline returned is the earliest armed expiry of the queue, and the interrupt of each
  thread timer that fired is pending unless its thread is halted. The handler of an expired watchdog
  is assumed to leave the timers alone (\<open>hm_frame\<close>).\<close>

theorem timer_pass:
  assumes "TraverseKTimerQueue hm l c s = Some (n, s')" "hm_frame hm" "dl_rep s l xs" "c < MAX_XMTIME"
  shows "(\<forall>t. ktimers s' t = (if t \<in> set xs then fired c (ktimers s t) else ktimers s t)) \<and>
    (\<forall>t \<in> set xs. armed s' t \<longrightarrow> c < kt_value (ktimers s' t) \<and> n \<le> kt_value (ktimers s' t)) \<and>
    (n = MAX_XMTIME \<or> (\<exists>t \<in> set xs. armed s' t \<and> n = kt_value (ktimers s' t))) \<and>
    (\<forall>t \<in> set xs. \<forall>k. due c (ktimers s t) \<and> kt_action (ktimers s t) = Some (ActKThrTimer k) \<longrightarrow>
      k_halted (kthreads s' k) \<or> ext_pending s' k XM_VT_EXT_HW_TIMER)"
proof (intro conjI)
  note p = TraverseKTimerQueue_spec [OF assms(1-3)]
  note nx = pass_next [OF p assms(4)]
  show t: "\<forall>t. ktimers s' t = (if t \<in> set xs then fired c (ktimers s t) else ktimers s t)"
    using p by (auto simp: pass_ok_def)
  show "\<forall>t \<in> set xs. armed s' t \<longrightarrow> c < kt_value (ktimers s' t) \<and> n \<le> kt_value (ktimers s' t)"
    using nx(3) t fired_not_due by (fastforce simp: armed_def due_def)
  show "n = MAX_XMTIME \<or> (\<exists>t \<in> set xs. armed s' t \<and> n = kt_value (ktimers s' t))" by (rule nx(4))
  show "\<forall>t \<in> set xs. \<forall>k. due c (ktimers s t) \<and> kt_action (ktimers s t) = Some (ActKThrTimer k) \<longrightarrow>
      k_halted (kthreads s' k) \<or> ext_pending s' k XM_VT_EXT_HW_TIMER"
    using p by (simp add: pass_ok_def)
qed

lemma demo_pass: "TraverseKTimerQueue demo_hm 40 1000 demo_armed = Some (1040, snd (the (TraverseKTimerQueue demo_hm 40 1000 demo_armed)))"
  by (rule map_option_fst_Some) code_simp

lemma demo_hm_frame: "hm_frame demo_hm"
  by (simp add: hm_frame_def demo_hm_def)

lemma demo_armed_rep: "dl_rep demo_armed 40 [41]"
  using dl_inv_rep [OF demo_lists, of 40 "[41]" CYCLIC_SCHED]
  by (simp add: demo_armed_def tm_upd_def dl_rep_def dl_cyc_def dl_lnk_def)

theorem timer_pass_witness:
  "ktimers (snd (the (TraverseKTimerQueue demo_hm 40 1000 demo_armed))) 41 = fired 1000 (ktimers demo_armed 41)"
  using timer_pass [OF demo_pass demo_hm_frame demo_armed_rep] by (simp add: MAX_XMTIME_def)

text \<open>A deadline that is at least the shortest interval of the driver away programs the
  hardware: the timer is set to expire no later than the deadline, and the recorded next
  activation is the expiry programmed.\<close>

theorem hw_timer_in_time:
  assumes "0 < nextAct" "hw_min s \<le> nextAct - clk s (clk_n s)" "0 \<le> hw_min s" "hw_min s \<le> hw_max s"
    and "\<not> (has_flag (lt_flags s) NEXT_ACT_IS_VALID \<and> nextAct \<ge> lt_nextAct s)"
  shows "\<exists>s' p. SetHwTimer hm fuel nextAct s = Some s' \<and> hw_prog s' = Some p \<and>
    hw_min s \<le> p \<and> p \<le> hw_max s \<and> lt_nextAct s' = clk s (clk_n s) + p \<and> lt_nextAct s' \<le> nextAct \<and>
    has_flag (lt_flags s') NEXT_ACT_IS_VALID"
proof -
  have "clk s (clk_n s) \<le> nextAct" using assms(2,3) by simp
  then show ?thesis
    using SetHwTimer_future [OF assms(1) _ assms(5)] hw_clamp_bounds [OF assms(4)] hw_clamp_le [OF assms(2)]
    by (auto simp: NEXT_ACT_IS_VALID_def intro!: has_flag_set)
qed

theorem hw_timer_in_time_witness:
  "\<exists>s' p. SetHwTimer demo_hm 0 1500 (demo_state CYCLIC_SCHED) = Some s' \<and> hw_prog s' = Some p \<and>
    hw_min (demo_state CYCLIC_SCHED) \<le> p \<and> p \<le> hw_max (demo_state CYCLIC_SCHED) \<and>
    lt_nextAct s' = clk (demo_state CYCLIC_SCHED) (clk_n (demo_state CYCLIC_SCHED)) + p \<and> lt_nextAct s' \<le> 1500 \<and>
    has_flag (lt_flags s') NEXT_ACT_IS_VALID"
  by (rule hw_timer_in_time) (simp_all add: demo_state_def has_flag_zero)

text \<open>C22: disarming a virtual timer leaves the kernel timer behind it armed, and when that timer
  fires its handler fails the assertion that the virtual timer is armed: the hypervisor panics.\<close>

theorem disarm_vtimer_leaves_timer:
  assumes "k_g (kthreads s k) = Some g" "has_flag (vt_flags (g_vTimer g)) VTIMER_ARMED" "armed s (vt_kTimer (g_vTimer g))"
  shows "\<exists>s'. DisarmVTimer k s = Some (0, s') \<and> armed s' (vt_kTimer (g_vTimer g)) \<and> VTimerHndl k s' = None"
  using assms by (auto simp: DisarmVTimer_def VTimerHndl_def KTIMER_ARMED_def VTIMER_ARMED_def armed_def g_upd_def kt_upd_def
      flag_simps ASSERT_def Let_def split: Option.bind_splits)

definition demo_vtimer :: sstate where
  "demo_vtimer = tm_upd 14 (\<lambda>x. x\<lparr>kt_flags := 1\<rparr>) (kt_upd 10 (g_upd (\<lambda>g. g\<lparr>g_vTimer := (g_vTimer g)\<lparr>vt_flags := 1\<rparr>\<rparr>)) (demo_state CYCLIC_SCHED))"

theorem disarm_vtimer_leaves_timer_witness:
  "\<exists>s'. DisarmVTimer 10 demo_vtimer = Some (0, s') \<and> armed s' 14 \<and> VTimerHndl 10 s' = None"
  using disarm_vtimer_leaves_timer [of demo_vtimer 10 "(demo_guest 0 10)\<lparr>g_vTimer := (g_vTimer (demo_guest 0 10))\<lparr>vt_flags := 1\<rparr>\<rparr>"]
  by (simp add: demo_vtimer_def demo_state_def demo_thread_def demo_vcpu_ids_def demo_guest_def tm_upd_def kt_upd_def g_upd_def
      has_flag_def VTIMER_ARMED_def armed_def KTIMER_ARMED_def)

text \<open>The tick conversion is exact: for a time and a frequency that are not negative,
  HwTime2Duration is the time in microseconds rounded down, without the overflow of the direct
  product.\<close>

theorem hw_time_exact:
  assumes "0 \<le> t" "0 < hz"
  shows "HwTime2Duration t hz = (t * 1000000) div hz"
proof -
  have r: "t - t div hz * hz = t mod hz" by (simp add: minus_div_mult_eq_mod)
  have alg: "(q * h + m) * c = m * c + (q * c) * h" for q h m c :: int by (simp add: algebra_simps)
  have "t * 1000000 = (t div hz * hz + t mod hz) * 1000000" by simp
  also have "\<dots> = (t mod hz) * 1000000 + (t div hz * 1000000) * hz" by (rule alg)
  finally have "t * 1000000 = (t mod hz) * 1000000 + (t div hz * 1000000) * hz" .
  then have "(t * 1000000) div hz = t div hz * 1000000 + (t mod hz * 1000000) div hz"
    using assms(2) by simp
  moreover have "cdiv t hz = t div hz" using assms by simp
  moreover have "cdiv (t mod hz * 1000000) hz = (t mod hz * 1000000) div hz"
    using assms by (intro cdiv_nonneg) auto
  ultimately show ?thesis
    unfolding HwTime2Duration_def Let_def USECS_PER_SEC_def by (simp only: r)
qed

theorem hw_time_exact_witness: "HwTime2Duration 3579545 1193182 = (3579545 * 1000000) div 1193182"
  using hw_time_exact [of 3579545 1193182] by simp

text \<open>Between ResumeVClock and StopVClock of a thread whose virtual timer is not armed, its
  clock advances by exactly the time that passed, and it does not advance afterwards.\<close>

theorem vclock_counts_run_time:
  assumes "k_g (kthreads s k) = Some g" "\<not> has_flag (vt_flags (g_vTimer g)) VTIMER_ARMED"
  shows "\<exists>s1 s2 g2. ResumeVClock hm fuel k s = Some s1 \<and> StopVClock k s1 = Some s2 \<and> k_g (kthreads s2 k) = Some g2 \<and>
    fst (GetTimeUsecVClock (g_vClock g2) s2) =
      vc_acc (g_vClock g) + (clk s (Suc (clk_n s)) - clk s (clk_n s))"
  using assms by (simp add: ResumeVClock_def StopVClock_def GetSysClockUsec_def GetTimeUsecVClock_def g_upd_def kt_upd_def Let_def
      flag_simps)

theorem vclock_counts_run_time_witness:
  "\<exists>s1 s2 g2. ResumeVClock demo_hm 0 10 (demo_state CYCLIC_SCHED) = Some s1 \<and> StopVClock 10 s1 = Some s2 \<and>
    k_g (kthreads s2 10) = Some g2 \<and>
    fst (GetTimeUsecVClock (g_vClock g2) s2) = vc_acc (g_vClock (demo_guest 0 10)) +
      (clk (demo_state CYCLIC_SCHED) (Suc (clk_n (demo_state CYCLIC_SCHED))) - clk (demo_state CYCLIC_SCHED) (clk_n (demo_state CYCLIC_SCHED)))"
  by (rule vclock_counts_run_time)
    (simp_all add: demo_state_def demo_thread_def demo_vcpu_ids_def demo_guest_def has_flag_zero)

end
