(* ===== verification/SchedProps.thy ===== *)
theory SchedProps
  imports Samples
begin

text \<open>The properties of the scheduler, of partition state changes and of the log streams.\<close>

section \<open>The cyclic policy\<close>

lemma demo_hm_sched: "hm_sched demo_hm"
  by (simp add: hm_sched_def demo_hm_def sched_same_def)

lemma all_less_two: "(\<forall>i < (2 :: nat). P i) \<longleftrightarrow> P 0 \<and> P 1"
  by (auto simp: less_2_cases_iff)

lemma demo_wf: "wf_plans (demo_cfg pol)"
  by (simp add: wf_plans_def demo_cfg_def wf_plan_def demo_plan_def slot_at_def demo_slots_def Let_def all_less_two)

lemma demo_cyc_inv: "cyc_inv t (demo_state pol)"
  by (simp add: cyc_inv_def demo_state_def)

lemma demo_cfg_eq [simp]: "cfg (demo_state pol) = demo_cfg pol"
  "clk (demo_state pol) n = 1000 + 10 * int n" "clk_n (demo_state pol) = 0" "idleKThread (demo_state pol) = 30"
  by (simp_all add: demo_state_def)

text \<open>C1: temporal isolation. Whatever thread the cyclic policy chooses, other than the idle one,
  is runnable and owns a slot of the current plan, and the current time is inside that slot of
  the current major frame; the scheduler's invariant holds again. This includes decisions kept
  from an earlier call. It holds whatever timers fire meanwhile, as long as the handler of an expired
  watchdog leaves the schedule alone (\<open>hm_sched\<close>).\<close>

theorem cyclic_isolation:
  assumes "GetReadyKThreadCyclic hm fuel s = Some (k, s')" "hm_sched hm" "cyc_inv t s"
    and "t \<le> clk s (clk_n s)" "0 \<le> clk s (clk_n s)" "wf_plans (cfg s)"
  shows "cyc_inv (clk s (clk_n s)) s' \<and> (k \<in> {NULL, idleKThread s} \<or>
    (runnable s k \<and> (\<exists>plan j. plan_of (cfg s) (cy_current (cyclic s')) = Some plan \<and> slot_vcpu plan j s = Some k \<and>
       in_slot (cfg s) plan j (clk s (clk_n s) - cy_sExec (cyclic s')))))"
  using cyclic_sound [OF assms] by (auto simp: slot_owner_def)

theorem cyclic_isolation_witness:
  "cyc_inv 1000 demo_next \<and> ((10 :: nat) \<in> {NULL, 30} \<or>
    (runnable (demo_state CYCLIC_SCHED) 10 \<and> (\<exists>plan j. plan_of (demo_cfg CYCLIC_SCHED) (cy_current (cyclic demo_next)) = Some plan \<and>
       slot_vcpu plan j (demo_state CYCLIC_SCHED) = Some 10 \<and>
       in_slot (demo_cfg CYCLIC_SCHED) plan j (1000 - cy_sExec (cyclic demo_next)))))"
  using cyclic_isolation [OF demo_ready demo_hm_sched demo_cyc_inv, of 0] demo_wf by simp

text \<open>C2: the converse. When the policy decides anew, a runnable owner of the slot of the current
  plan that contains the current time gets the processor, as long as the handler of an expired
  watchdog leaves the schedule alone.\<close>

theorem cyclic_serves_owner:
  assumes "GetReadyKThreadCyclic hm fuel s = Some (k, s')" "\<not> keeps_decision s (clk s (clk_n s))"
    and "hm_sched hm" "cyc_inv t s" "t \<le> clk s (clk_n s)" "0 \<le> clk s (clk_n s)" "wf_plans (cfg s)"
    and "plan_of (cfg s) (cy_current (cyclic s')) = Some plan"
    and "in_slot (cfg s) plan j (clk s (clk_n s) - cy_sExec (cyclic s'))" "slot_vcpu plan j s = Some k'" "runnable s k'"
  shows "k = k'"
  by (rule cyclic_complete(1) [OF assms(1-8)]) (rule assms(9-11))+

lemma demo_next_cyc: "cy_current (cyclic demo_next) = PlanTab 0" "cy_sExec (cyclic demo_next) = 1000"
  by code_simp+

lemma demo_not_kept: "\<not> keeps_decision (demo_state CYCLIC_SCHED) 1000"
  by (simp add: keeps_decision_def demo_state_def)

lemma demo_plan_of: "plan_of (demo_cfg CYCLIC_SCHED) (PlanTab 0) = Some demo_plan"
  by (simp add: plan_of_def aget_def demo_cfg_def)

lemma demo_slot: "in_slot (demo_cfg CYCLIC_SCHED) demo_plan 0 0" "slot_vcpu demo_plan 0 (demo_state CYCLIC_SCHED) = Some 10"
  "runnable (demo_state CYCLIC_SCHED) 10"
  by (simp_all add: in_slot_def demo_plan_def slot_at_def demo_cfg_def demo_slots_def slot_vcpu_def vcpu_of_def aget_def
      demo_state_def runnable_iff demo_thread_def kthread_flag_defs has_flag_def)

theorem cyclic_serves_owner_witness: "(10 :: nat) = 10"
  by (rule cyclic_serves_owner [OF demo_ready _ demo_hm_sched demo_cyc_inv, where t = 0 and plan = demo_plan and j = 0])
    (use demo_not_kept demo_wf demo_plan_of demo_slot in \<open>simp_all add: demo_next_cyc\<close>)

text \<open>C3: a decision is in force until a later time that is not past the end of the major frame
  nor past the start of any slot still to come in it: no slot start is slept through, as long as the
  handler of an expired watchdog leaves the schedule alone.\<close>

theorem cyclic_wakes_in_time:
  assumes "GetReadyKThreadCyclic hm fuel s = Some (k, s')" "\<not> keeps_decision s (clk s (clk_n s))"
    and "hm_sched hm" "cyc_inv t s" "t \<le> clk s (clk_n s)" "0 \<le> clk s (clk_n s)" "wf_plans (cfg s)"
    and "plan_of (cfg s) (cy_current (cyclic s')) = Some plan"
  shows "clk s (clk_n s) < cy_nextAct (cyclic s') \<and> cy_nextAct (cyclic s') \<le> cy_mjf (cyclic s') \<and>
    (\<forall>i < nat (plan_noSlots plan). clk s (clk_n s) < cy_sExec (cyclic s') + uint (slot_sExec (slot_at (cfg s) plan i)) \<longrightarrow>
       cy_nextAct (cyclic s') \<le> cy_sExec (cyclic s') + uint (slot_sExec (slot_at (cfg s) plan i)))"
  using cyclic_complete(2-4) [OF assms] by blast

theorem cyclic_wakes_in_time_witness:
  "1000 < cy_nextAct (cyclic demo_next) \<and> cy_nextAct (cyclic demo_next) \<le> cy_mjf (cyclic demo_next)"
  using cyclic_wakes_in_time [OF demo_ready _ demo_hm_sched demo_cyc_inv, where t = 0 and plan = demo_plan]
    demo_not_kept demo_wf demo_plan_of by (simp add: demo_next_cyc)

text \<open>C5: major frames do not drift. When a frame ends, the current plan changes to the one
  requested; without a change the new frame starts a whole number of frames after the old one,
  however late the scheduler runs, and with one it starts now. In both cases the current time is
  inside the new frame.\<close>

theorem frames_do_not_drift:
  assumes "next_frame c s = Some s'" "cy_mjf (cyclic s) \<le> c"
    and "0 \<le> cy_slot (cyclic s) \<Longrightarrow> \<exists>plan. plan_of (cfg s) (cy_current (cyclic s)) = Some plan \<and> plan_majorFrame plan \<noteq> 0"
    and "cy_slot (cyclic s) < 0 \<Longrightarrow> cy_current (cyclic s) \<noteq> cy_new (cyclic s)"
  shows "\<exists>plan. plan_of (cfg s) (cy_new (cyclic s)) = Some plan \<and> cy_current (cyclic s') = cy_new (cyclic s) \<and>
    cy_slot (cyclic s') = 0 \<and> cy_sExec (cyclic s') \<le> c \<and> c < cy_mjf (cyclic s') \<and>
    cy_mjf (cyclic s') = cy_sExec (cyclic s') + uint (plan_majorFrame plan) \<and>
    (if cy_current (cyclic s) = cy_new (cyclic s) \<and> 0 \<le> cy_slot (cyclic s)
     then \<exists>n \<ge> 0. cy_sExec (cyclic s') = cy_mjf (cyclic s) + n * uint (plan_majorFrame plan)
     else cy_sExec (cyclic s') = c)"
  using next_frame_step [OF assms] unfolding frame_step_def by blast

definition demo_late :: sstate where
  "demo_late = cy_upd (\<lambda>cy. cy\<lparr>cy_current := PlanTab 0, cy_slot := 2, cy_sExec := 0, cy_mjf := 300\<rparr>) (demo_state CYCLIC_SCHED)"

lemma demo_late_step: "next_frame 1000 demo_late = Some (the (next_frame 1000 demo_late))"
  by (rule not_None_the) code_simp

theorem frames_do_not_drift_witness:
  "\<exists>plan. plan_of (cfg demo_late) (PlanTab 0) = Some plan \<and>
    (\<exists>n \<ge> 0. cy_sExec (cyclic (the (next_frame 1000 demo_late))) = 300 + n * uint (plan_majorFrame plan))"
  using frames_do_not_drift [OF demo_late_step]
  by (simp add: demo_late_def cy_upd_def demo_state_def demo_cfg_def plan_of_def aget_def demo_plan_def)

section \<open>Priorities and Schedule\<close>

text \<open>C7: the fixed-priority policy chooses the first entry of the table whose thread is
  runnable, and the idle thread only when none is; it changes nothing but that thread's mode.\<close>

theorem fp_first_ready:
  assumes "GetReadyKThreadFP s = Some (k, s')" "fp_entries (cfg s) = Some es"
  shows "(k = NULL \<and> s' = s \<and> (\<forall>e \<in> set es. \<exists>k'. vcpu_of (fps_partitionId e) (fps_vCpuId e) s = Some k' \<and> \<not> runnable s k')) \<or>
    (\<exists>i < length es. vcpu_of (fps_partitionId (es ! i)) (fps_vCpuId (es ! i)) s = Some k \<and> runnable s k \<and>
       s' = kt_upd k (g_upd (\<lambda>g. g\<lparr>g_opMode := XM_OPMODE_NORMAL\<rparr>)) s \<and>
       (\<forall>j < i. \<exists>k'. vcpu_of (fps_partitionId (es ! j)) (fps_vCpuId (es ! j)) s = Some k' \<and> \<not> runnable s k'))"
  using fp_loop_spec [of es s k s'] assms by (auto simp: GetReadyKThreadFP_def)

definition demo_fp :: sstate where
  "demo_fp = SetKThreadFlags 10 KTHREAD_SUSPENDED_F (demo_state FP_SCHED)"

lemma demo_fp_ready: "GetReadyKThreadFP demo_fp = Some (20, snd (the (GetReadyKThreadFP demo_fp)))"
  by (rule map_option_fst_Some) code_simp

lemma demo_fp_entries: "fp_entries (cfg demo_fp) = Some (xmcFpSchedTab (demo_cfg FP_SCHED))"
  by code_simp

theorem fp_first_ready_witness:
  "snd (the (GetReadyKThreadFP demo_fp)) = kt_upd 20 (g_upd (\<lambda>g. g\<lparr>g_opMode := XM_OPMODE_NORMAL\<rparr>)) demo_fp \<and> runnable demo_fp 20"
  using fp_first_ready [OF demo_fp_ready demo_fp_entries] by auto

text \<open>C6: under either policy, when scheduling is enabled and no interrupt is being served,
  Schedule leaves the processor to the idle thread or to a thread that was neither halted nor
  suspended and was ready; otherwise it changes no more than the pending flag. The handler of an
  expired watchdog is assumed to leave the schedule alone.\<close>

theorem schedule_runs_ready:
  assumes "Schedule hm fuel s = Some s'" "hm_sched hm" "policy_ok hm s"
  shows "if has_flag (sched_flags s) LOCAL_SCHED_ENABLED \<and> \<not> has_flag (irqNestingCounter s) IRQ_IN_PROGRESS
    then cKThread s' = idleKThread s \<or> runnable s (cKThread s')
    else s' = s\<lparr>irqNestingCounter := irqNestingCounter s'\<rparr>"
proof (cases "has_flag (sched_flags s) LOCAL_SCHED_ENABLED \<and> \<not> has_flag (irqNestingCounter s) IRQ_IN_PROGRESS")
  case True
  then show ?thesis using Schedule_ready [OF assms(1) _ _ assms(2,3)] by simp
next
  case False
  then have "s' = s\<lparr>irqNestingCounter := clr_flag (irqNestingCounter s) SCHED_PENDING\<rparr> \<or>
      s' = s\<lparr>irqNestingCounter := set_flag (irqNestingCounter s) SCHED_PENDING\<rparr>"
    using assms(1) by (cases "has_flag (sched_flags s) LOCAL_SCHED_ENABLED") (simp_all add: Schedule_def)
  with False show ?thesis by auto
qed

lemma demo_schedule: "Schedule demo_hm 2 (demo_state FP_SCHED) = Some (the (Schedule demo_hm 2 (demo_state FP_SCHED)))"
  by (rule not_None_the) code_simp

theorem schedule_runs_ready_witness:
  "cKThread (the (Schedule demo_hm 2 (demo_state FP_SCHED))) = 30 \<or>
    runnable (demo_state FP_SCHED) (cKThread (the (Schedule demo_hm 2 (demo_state FP_SCHED))))"
  using schedule_runs_ready [OF demo_schedule demo_hm_sched]
  by (simp add: policy_ok_def demo_cfg_def demo_state_def has_flag_def LOCAL_SCHED_ENABLED_def)

section \<open>Suspending, resuming and halting\<close>

text \<open>C8: after a partition is halted none of its threads can be chosen by either policy, its
  mode is idle, no timer has become armed, and the threads of other partitions are untouched.\<close>

theorem halt_partition_stops:
  assumes "HALT_PARTITION i s = Some s'" "threads_of i s = Some ks" "unat i < length (partitionTab s)"
  shows "(\<forall>k \<in> set ks. \<not> runnable s' k) \<and> (\<forall>k. k \<notin> set ks \<longrightarrow> kthreads s' k = kthreads s k) \<and>
    p_opMode (partitionTab s' ! unat i) = XM_OPMODE_IDLE \<and> (\<forall>t. armed s' t \<longrightarrow> armed s t)"
  using HALT_PARTITION_spec [OF assms(1,2)] assms(3) k_halted_not_runnable by blast

lemma demo_halt: "HALT_PARTITION 1 (demo_state FP_SCHED) = Some (the (HALT_PARTITION 1 (demo_state FP_SCHED)))"
  by (rule not_None_the) code_simp

lemma demo_threads: "threads_of 1 (demo_state FP_SCHED) = Some [20]"
  by code_simp

theorem halt_partition_stops_witness:
  "\<not> runnable (the (HALT_PARTITION 1 (demo_state FP_SCHED))) 20 \<and>
    kthreads (the (HALT_PARTITION 1 (demo_state FP_SCHED))) 10 = kthreads (demo_state FP_SCHED) 10"
  using halt_partition_stops [OF demo_halt demo_threads] by (simp add: demo_state_def)

text \<open>C9: resuming a partition undoes its suspension: if no thread of it was suspended before,
  every thread has its flags back.\<close>

theorem suspend_resume_roundtrip:
  assumes "SUSPEND_PARTITION i s = Some s1" "RESUME_PARTITION i s1 = Some s2" "threads_of i s = Some ks"
    and "\<forall>k \<in> set ks. \<not> has_flag (k_flags (kthreads s k)) KTHREAD_SUSPENDED_F"
  shows "\<forall>k. (k \<in> set ks \<longrightarrow> \<not> runnable s1 k) \<and> k_flags (kthreads s2 k) = k_flags (kthreads s k)"
  using suspend_resume [OF assms] SUSPEND_PARTITION_spec(1) [OF assms(1,3)] by blast

lemma demo_suspend: "SUSPEND_PARTITION 1 (demo_state FP_SCHED) = Some (the (SUSPEND_PARTITION 1 (demo_state FP_SCHED)))"
  by (rule not_None_the) code_simp

lemma demo_resume: "RESUME_PARTITION 1 (the (SUSPEND_PARTITION 1 (demo_state FP_SCHED))) =
    Some (the (RESUME_PARTITION 1 (the (SUSPEND_PARTITION 1 (demo_state FP_SCHED)))))"
  by (rule not_None_the) code_simp

theorem suspend_resume_roundtrip_witness:
  "k_flags (kthreads (the (RESUME_PARTITION 1 (the (SUSPEND_PARTITION 1 (demo_state FP_SCHED))))) 20) =
    k_flags (kthreads (demo_state FP_SCHED) 20)"
  using suspend_resume_roundtrip [OF demo_suspend demo_resume demo_threads]
  by (simp add: demo_state_def demo_thread_def kthread_flag_defs has_flag_def)

text \<open>The first state of the scheduler satisfies the invariant of the cyclic policy.\<close>

theorem init_establishes_invariant:
  assumes "InitSchedLocal idle m s = Some s'"
  shows "cyc_inv t s' \<and> cKThread s' = idle \<and> idleKThread s' = idle"
  using InitSchedLocal_cyc_inv [OF assms] by blast

definition demo_boot :: sstate where
  "demo_boot = (demo_state CYCLIC_SCHED)\<lparr>dlist := (\<lambda>a. \<lparr>l_head = NULL, l_noElem = 0\<rparr>)\<rparr>"

lemma demo_init: "InitSchedLocal 30 0 demo_boot = Some (the (InitSchedLocal 30 0 demo_boot))"
  by (rule not_None_the) code_simp

theorem init_establishes_invariant_witness: "cyc_inv 5 (the (InitSchedLocal 30 0 demo_boot))"
  using init_establishes_invariant [OF demo_init] by blast

end
