(* ===== verification/SchedLive.thy ===== *)
theory SchedLive
  imports SchedProps
begin

text \<open>
  Liveness of the cyclic policy: runs of its decisions, each taken when the one before expires, and
  the proof that the owner of a slot gets the processor in every run that is long enough.
\<close>

section \<open>Runs\<close>

text \<open>Between two decisions anything may happen to the threads, but the configuration, the
  partitions and the data of the policy stay as they are, and the timer fires on time. \<open>good\<close> is
  what holds whenever a decision is taken; the list holds the decisions with their times.\<close>

definition next_wake :: "'a sstate_scheme \<Rightarrow> 'a sstate_scheme \<Rightarrow> bool" where
  "next_wake s t \<longleftrightarrow> cfg t = cfg s \<and> partitionTab t = partitionTab s \<and> idleKThread t = idleKThread s \<and>
     cyclic t = cyclic s \<and> clk t (clk_n t) = cy_nextAct (cyclic s)"

inductive decisions :: "'a sstate_ext kstate_scheme hm_event \<Rightarrow> nat \<Rightarrow> ('a sstate_scheme \<Rightarrow> bool) \<Rightarrow> 'a sstate_scheme \<Rightarrow>
    (xmTime \<times> addr) list \<Rightarrow> 'a sstate_scheme \<Rightarrow> bool" for hm fuel good where
  decisions_first: "\<lbrakk>GetReadyKThreadCyclic hm fuel s = Some (k, s'); good s\<rbrakk>
    \<Longrightarrow> decisions hm fuel good s [(clk s (clk_n s), k)] s'"
| decisions_next: "\<lbrakk>decisions hm fuel good s ds t; next_wake t t'; GetReadyKThreadCyclic hm fuel t' = Some (k, t''); good t'\<rbrakk>
    \<Longrightarrow> decisions hm fuel good s (ds @ [(clk t' (clk_n t'), k)]) t''"

text \<open>The plan asked for is the current one, and slot \<open>j\<close> of it belongs to thread \<open>k\<close>, which can run.\<close>

definition slot_ready :: "xmc \<Rightarrow> plan_ptr \<Rightarrow> xmcSchedCyclicPlan \<Rightarrow> nat \<Rightarrow> addr \<Rightarrow> 'a sstate_scheme \<Rightarrow> bool" where
  "slot_ready c p plan j k s \<longleftrightarrow> cfg s = c \<and> cy_new (cyclic s) = p \<and> slot_vcpu plan j s = Some k \<and> runnable s k"

section \<open>One decision\<close>

text \<open>The frame after a decision at time \<open>c\<close>: the old one while it lasts, and at its very end the next one.\<close>

lemma next_frame_new: "next_frame c s = Some s' \<Longrightarrow> cy_new (cyclic s') = cy_new (cyclic s)"
proof (cases "cy_mjf (cyclic s) \<le> c")
  case True
  assume "next_frame c s = Some s'"
  then obtain s1 e m where s1: "MakePlanSwitch c s = Some s1"
    "s' = cy_upd (\<lambda>cy. cy\<lparr>cy_sExec := e, cy_mjf := m, cy_slot := 0\<rparr>) s1"
    using True by (auto simp: next_frame_def bind_eq_Some_iff split: prod.splits)
  have "cy_new (cyclic s1) = cy_new (cyclic s)"
  proof (cases "cy_current (cyclic s) = cy_new (cyclic s)")
    case False
    then show ?thesis using MakePlanSwitch_eq [OF s1(1)] by (auto simp: cy_upd_def log_audit_def)
  qed (use MakePlanSwitch_eq [OF s1(1)] in simp)
  then show ?thesis by (simp add: s1(2) cy_upd_def)
qed (simp add: next_frame_def)

lemma frame_at_end:
  assumes "frame_step c s s'" "c = cy_mjf (cyclic s)"
  shows "cy_current (cyclic s') = cy_new (cyclic s) \<and> cy_sExec (cyclic s') = c"
  using assms(1) unfolding frame_step_def assms(2) [symmetric]
proof (elim exE conjE, intro conjI)
  fix plan :: xmcSchedCyclicPlan
  assume le: "cy_sExec (cyclic s') \<le> c"
    and n: "if cy_current (cyclic s) = cy_new (cyclic s) \<and> 0 \<le> cy_slot (cyclic s)
     then \<exists>n \<ge> 0. cy_sExec (cyclic s') = c + n * uint (plan_majorFrame plan) else cy_sExec (cyclic s') = c"
  have "\<exists>m \<ge> 0. cy_sExec (cyclic s') = c + m" using n by (auto split: if_splits)
  then show "cy_sExec (cyclic s') = c" using le by linarith
qed

lemma decision_frame:
  assumes res: "GetReadyKThreadCyclic hm fuel s = Some (k, s')"
    and ev: "\<not> keeps_decision s c" and hm: "hm_sched hm" and c: "c = clk s (clk_n s)" and inv: "cyc_inv t s"
  shows "cy_new (cyclic s') = cy_new (cyclic s)"
    and "c < cy_mjf (cyclic s) \<Longrightarrow> cy_sExec (cyclic s') = cy_sExec (cyclic s) \<and> cy_current (cyclic s') = cy_current (cyclic s)"
    and "c = cy_mjf (cyclic s) \<Longrightarrow> cy_sExec (cyclic s') = c \<and> cy_current (cyclic s') = cy_new (cyclic s)"
    and "cy_mjf (cyclic s) \<le> c \<Longrightarrow> cy_current (cyclic s') = cy_new (cyclic s)"
proof -
  obtain s0 s1 plan slot nx where st: "s0 = cy_upd (\<lambda>cy. cy\<lparr>cy_flags := clr_flag (cy_flags cy) RESCHED_ENABLED\<rparr>) (s\<lparr>clk_n := Suc (clk_n s)\<rparr>)"
    "next_frame c s0 = Some s1" "plan_of (cfg s1) (cy_current (cyclic s1)) = Some plan"
    "pick_slot plan (word_of_int (c - cy_sExec (cyclic s1))) (cy_slot (cyclic s1)) s1 = Some (slot, k, nx)"
    "cyclic s' = (cyclic s1)\<lparr>cy_slot := slot, cy_nextAct := uint nx + cy_sExec (cyclic s1), cy_kThread := k\<rparr>"
    by (rule cyclic_steps [OF res ev [unfolded c] hm, folded c]) (rule that; assumption)
  have s0: "cfg s0 = cfg s" "cy_mjf (cyclic s0) = cy_mjf (cyclic s)" "cy_new (cyclic s0) = cy_new (cyclic s)"
    "cy_sExec (cyclic s0) = cy_sExec (cyclic s)" "cy_current (cyclic s0) = cy_current (cyclic s)" "cy_slot (cyclic s0) = cy_slot (cyclic s)"
    by (simp_all add: st(1) cy_upd_def)
  show "cy_new (cyclic s') = cy_new (cyclic s)" using next_frame_new [OF st(2)] by (simp add: st(5) s0)
  show "cy_sExec (cyclic s') = cy_sExec (cyclic s) \<and> cy_current (cyclic s') = cy_current (cyclic s)" if "c < cy_mjf (cyclic s)"
  proof -
    have "s1 = s0" using st(2) that by (simp add: next_frame_def s0)
    then show ?thesis by (simp add: st(5) s0)
  qed
  have step: "frame_step c s0 s1" if "cy_mjf (cyclic s) \<le> c"
    by (rule next_frame_step [OF st(2)]) (use that inv in \<open>auto simp: s0 cyc_inv_def Let_def\<close>)
  show "cy_sExec (cyclic s') = c \<and> cy_current (cyclic s') = cy_new (cyclic s)" if "c = cy_mjf (cyclic s)"
    using frame_at_end [OF step] that by (simp add: st(5) s0)
  show "cy_current (cyclic s') = cy_new (cyclic s)" if "cy_mjf (cyclic s) \<le> c"
    using step [OF that] by (auto simp: frame_step_def st(5) s0)
qed

text \<open>What a decision at time \<open>c\<close> gives for the slot: its owner, or a wake-up no later than its start.\<close>

definition decided :: "xmTime \<Rightarrow> xmcSchedCyclicPlan \<Rightarrow> nat \<Rightarrow> addr \<Rightarrow> addr \<Rightarrow> 'a sstate_scheme \<Rightarrow> bool" where
  "decided c plan j k' k s \<longleftrightarrow> cyc_inv c s \<and> 0 \<le> c \<and>
     c < cy_nextAct (cyclic s) \<and> cy_nextAct (cyclic s) \<le> cy_mjf (cyclic s) \<and>
     cy_sExec (cyclic s) \<le> c \<and> cy_mjf (cyclic s) = cy_sExec (cyclic s) + uint (plan_majorFrame plan) \<and>
     (c < cy_sExec (cyclic s) + uint (slot_sExec (slot_at (cfg s) plan j)) \<longrightarrow>
        cy_nextAct (cyclic s) \<le> cy_sExec (cyclic s) + uint (slot_sExec (slot_at (cfg s) plan j))) \<and>
     (in_slot (cfg s) plan j (c - cy_sExec (cyclic s)) \<longrightarrow> k = k')"

lemma decision_decided:
  assumes res: "GetReadyKThreadCyclic hm fuel s = Some (k, s')"
    and ev: "\<not> keeps_decision s c" and hm: "hm_sched hm" and c: "c = clk s (clk_n s)"
    and inv: "cyc_inv t s" "t \<le> c" "0 \<le> c" and wf: "wf_plans (cfg s)"
    and cur: "plan_of (cfg s) (cy_current (cyclic s')) = Some plan" and j: "j < nat (plan_noSlots plan)"
    and own: "slot_vcpu plan j s = Some k'" "runnable s k'"
  shows "decided c plan j k' k s' \<and> cfg s' = cfg s"
proof -
  note ev' = ev [unfolded c] and t = inv(2,3) [unfolded c]
  have same: "cfg s' = cfg s" "cy_sExec (cyclic s') \<le> c" "cy_mjf (cyclic s') = cy_sExec (cyclic s') + uint (plan_majorFrame plan)"
    by (rule cyclic_evaluated [OF res ev' hm inv(1) t wf]; use cur c in simp)+
  have "cyc_inv c s'" using cyclic_sound(1) [OF res hm inv(1) t wf] c by simp
  then show ?thesis
    using cyclic_complete [OF res ev' hm inv(1) t wf cur] own j inv(3) same unfolding decided_def same(1) c by blast
qed

section \<open>Every slot is served\<close>

text \<open>What holds of a run as long as the owner of the slot has not been chosen: either the slot is
  still to come in a frame that began at most one frame after the first decision, or it is over in
  the frame of the first decision.\<close>

definition waiting :: "xmTime \<Rightarrow> xmTime \<Rightarrow> xmcSchedCyclicPlan \<Rightarrow> nat \<Rightarrow> 'a sstate_scheme \<Rightarrow> bool" where
  "waiting c0 c plan j s \<longleftrightarrow>
     (let a = cy_sExec (cyclic s) + uint (slot_sExec (slot_at (cfg s) plan j)) in
       (c < a \<and> cy_sExec (cyclic s) \<le> c0 + uint (plan_majorFrame plan)) \<or> (a \<le> c \<and> cy_sExec (cyclic s) \<le> c0))"

text \<open>The processor went to \<open>k\<close> by one of the decisions \<open>m\<close> to \<open>i\<close>.\<close>

definition served_between :: "addr \<Rightarrow> nat \<Rightarrow> nat \<Rightarrow> (xmTime \<times> addr) list \<Rightarrow> bool" where
  "served_between k m i ds \<longleftrightarrow> (\<exists>l. m \<le> l \<and> l \<le> i \<and> snd (ds ! l) = k)"

lemma served_between_snoc:
  assumes "served_between k m (length ds - 1) ds" "ds \<noteq> []"
  shows "served_between k m (length (ds @ [d]) - 1) (ds @ [d])"
proof -
  obtain l where l: "m \<le> l" "l \<le> length ds - 1" "snd (ds ! l) = k" using assms(1) by (auto simp: served_between_def)
  then have "l < length ds" using assms(2) by (cases ds) auto
  then show ?thesis using l unfolding served_between_def by (intro exI [of _ l]) (simp add: nth_append)
qed

lemma decisions_progress:
  assumes "decisions hm fuel good s ds s'" "hm_sched hm" "cyc_inv t s" "t \<le> clk s (clk_n s)" "0 \<le> clk s (clk_n s)"
    and "\<not> keeps_decision s (clk s (clk_n s))" "cy_current (cyclic s) = p \<or> cy_mjf (cyclic s) \<le> clk s (clk_n s)"
    and wf: "wf_plans c" "plan_of c p = Some plan" "j < nat (plan_noSlots plan)"
    and good: "\<And>u. good u \<Longrightarrow> slot_ready c p plan j k' u"
  shows "ds \<noteq> [] \<and> sorted_wrt (<) (map fst ds) \<and> (\<forall>d \<in> set ds. fst d \<le> fst (last ds)) \<and> fst (hd ds) = clk s (clk_n s) \<and> cfg s' = c \<and> cy_new (cyclic s') = p \<and> cy_current (cyclic s') = p \<and>
    decided (fst (last ds)) plan j k' (snd (last ds)) s' \<and>
    (\<forall>m < length ds. served_between k' m (length ds - 1) ds \<or> waiting (fst (ds ! m)) (fst (last ds)) plan j s')"
  using assms(1,3-7)
proof (induction rule: decisions.induct)
  case (decisions_first s k s')
  let ?c = "clk s (clk_n s)"
  note g = good [OF decisions_first(2), unfolded slot_ready_def]
  note fr = decision_frame [OF decisions_first(1) decisions_first(6) assms(2) refl decisions_first(3)]
  have cur: "cy_current (cyclic s') = p" using fr(2,4) decisions_first(7) g by fastforce
  have d: "decided ?c plan j k' k s' \<and> cfg s' = cfg s"
    by (rule decision_decided [OF decisions_first(1,6) assms(2) refl decisions_first(3-5)]) (use g wf cur in simp_all)
  have "k = k' \<or> waiting ?c ?c plan j s'"
    using d wf(3) unfolding decided_def waiting_def in_slot_def Let_def by linarith
  then show ?case using d g fr(1) cur by (auto simp: served_between_def)
next
  case (decisions_next s ds t t' k t'')
  let ?c = "clk t' (clk_n t')" and ?first = "clk s (clk_n s)"
  note IH = decisions_next.IH [OF decisions_next.prems]
  note g = good [OF decisions_next(4), unfolded slot_ready_def]
  have w: "cfg t' = cfg t" "partitionTab t' = partitionTab t" "idleKThread t' = idleKThread t" "cyclic t' = cyclic t"
    "?c = cy_nextAct (cyclic t)" using decisions_next(2) by (simp_all add: next_wake_def)
  have dt: "cyc_inv (fst (last ds)) t" "0 \<le> fst (last ds)" "fst (last ds) < ?c" "?c \<le> cy_mjf (cyclic t)"
    using IH unfolding decided_def w(5) by blast+
  have inv: "cyc_inv (fst (last ds)) t'" using dt(1) unfolding cyc_inv_def w(1,3,4) vcpu_of_cong [OF w(2)] .
  have nk: "\<not> keeps_decision t' ?c" by (simp add: keeps_decision_def w(4,5))
  note fr = decision_frame [OF decisions_next(3) nk assms(2) refl inv]
  have cur: "cy_current (cyclic t'') = p" using fr(2,4) IH w(4) g by (cases "?c < cy_mjf (cyclic t')") auto
  have d: "decided ?c plan j k' k t'' \<and> cfg t'' = cfg t'"
    by (rule decision_decided [OF decisions_next(3) nk assms(2) refl inv]) (use g wf cur dt in simp_all)
  have pl: "wf_plan c plan"
  proof -
    have "uint (plan_majorFrame plan) > 0" using IH unfolding decided_def by linarith
    then show ?thesis using wf_plans_of [OF wf(1,2)] by auto
  qed
  define B where "B = uint (slot_sExec (slot_at c plan j))"
  have B: "B < uint (slot_eExec (slot_at c plan j))" "uint (slot_eExec (slot_at c plan j)) \<le> uint (plan_majorFrame plan)" "0 \<le> B"
    using wf_planD(3,4) [OF pl wf(3)] by (simp_all add: B_def word_less_def word_le_def)
  have cfgs: "cfg t = c" "cfg t'' = c" using IH d g by simp_all
  have own: "k = k'" if "B \<le> ?c - cy_sExec (cyclic t'')" "?c - cy_sExec (cyclic t'') < uint (slot_eExec (slot_at c plan j))"
    using d wf(3) that unfolding decided_def in_slot_def cfgs B_def by blast
  have dl: "fst (last ds) < cy_sExec (cyclic t) + B \<Longrightarrow> ?c \<le> cy_sExec (cyclic t) + B"
    "cy_mjf (cyclic t) = cy_sExec (cyclic t) + uint (plan_majorFrame plan)"
    using IH unfolding decided_def cfgs B_def w(5) by blast+
  have step: "k = k' \<or> waiting c0 ?c plan j t''" if "waiting c0 (fst (last ds)) plan j t" for c0
  proof -
    have wt: "(fst (last ds) < cy_sExec (cyclic t) + B \<and> cy_sExec (cyclic t) \<le> c0 + uint (plan_majorFrame plan)) \<or>
        (cy_sExec (cyclic t) + B \<le> fst (last ds) \<and> cy_sExec (cyclic t) \<le> c0)"
      using that unfolding waiting_def Let_def cfgs B_def .
    have fr': "(?c < cy_mjf (cyclic t) \<and> cy_sExec (cyclic t'') = cy_sExec (cyclic t)) \<or>
        (?c = cy_mjf (cyclic t) \<and> cy_sExec (cyclic t'') = ?c)"
      using fr(2,3) dt(4) w(4) by fastforce
    have "k = k' \<or> (?c < cy_sExec (cyclic t'') + B \<and> cy_sExec (cyclic t'') \<le> c0 + uint (plan_majorFrame plan)) \<or>
        (cy_sExec (cyclic t'') + B \<le> ?c \<and> cy_sExec (cyclic t'') \<le> c0)"
      using wt fr' dl B own dt(3) by (elim disjE conjE) linarith+
    then show ?thesis unfolding waiting_def Let_def cfgs B_def .
  qed
  have new: "k = k' \<or> waiting ?c ?c plan j t''"
    using d wf(3) unfolding decided_def waiting_def in_slot_def Let_def by linarith
  have ne: "ds \<noteq> []" using IH by blast
  let ?ds = "ds @ [(?c, k)]"
  have here: "served_between k' m (length ?ds - 1) ?ds" if "k = k'" "m \<le> length ds" for m
    using that unfolding served_between_def by (intro exI [of _ "length ds"]) simp
  have "served_between k' m (length ?ds - 1) ?ds \<or> waiting (fst (?ds ! m)) ?c plan j t''" if m: "m < length ?ds" for m
  proof (cases "m < length ds")
    case True
    then have "served_between k' m (length ds - 1) ds \<or> waiting (fst (ds ! m)) (fst (last ds)) plan j t" using IH by blast
    then show ?thesis
      using served_between_snoc [OF _ ne, of k' m "(?c, k)"] step [of "fst (ds ! m)"] here [of m] True
      by (auto simp: nth_append)
  next
    case False
    then show ?thesis using m new here [of m] by (auto simp: nth_append)
  qed
  moreover have "fst d < ?c" if "d \<in> set ds" for d using IH dt(3) that by (meson le_less_trans)
  ultimately show ?case using IH d g fr(1) cur by (auto simp: sorted_wrt_append less_imp_le)
qed

lemma decisions_prefix:
  assumes "decisions hm fuel good s ds s'" "i < length ds"
  shows "\<exists>s''. decisions hm fuel good s (take (Suc i) ds) s''"
  using assms
proof (induction rule: decisions.induct)
  case (decisions_first s k s')
  then show ?case using decisions.decisions_first [of hm fuel s k s' good] by auto
next
  case (decisions_next s ds t t' k t'')
  show ?case
  proof (cases "i < length ds")
    case True
    then show ?thesis using decisions_next.IH by simp
  next
    case False
    then show ?thesis using decisions_next.prems decisions.decisions_next [OF decisions_next.hyps] by auto
  qed
qed

text \<open>C4: liveness of the cyclic policy. Take decisions one after another, each at the moment the one
  before expires, under a plan without errors, while the plan asked for stays the same one, it is in
  force from the first decision on, the owner of one of its slots can run whenever a decision is
  taken, and no handler of an expired watchdog changes the data of the policy. Then the decisions
  are strictly later and later, and in every stretch of them from one decision to another that is
  at least two major frames later the owner of the slot gets the processor.\<close>

theorem slot_owner_served:
  assumes "decisions hm fuel good s ds s'" "hm_sched hm" "cyc_inv t s" "t \<le> clk s (clk_n s)" "0 \<le> clk s (clk_n s)"
    and "\<not> keeps_decision s (clk s (clk_n s))" "cy_current (cyclic s) = p \<or> cy_mjf (cyclic s) \<le> clk s (clk_n s)"
    and "wf_plans c" "plan_of c p = Some plan" "j < nat (plan_noSlots plan)"
    and "\<And>u. good u \<Longrightarrow> slot_ready c p plan j k' u"
  shows "sorted_wrt (<) (map fst ds) \<and>
    (\<forall>m i. m \<le> i \<longrightarrow> i < length ds \<longrightarrow> fst (ds ! m) + 2 * uint (plan_majorFrame plan) \<le> fst (ds ! i) \<longrightarrow>
       (\<exists>l. m \<le> l \<and> l \<le> i \<and> snd (ds ! l) = k'))"
proof (intro conjI allI impI)
  show "sorted_wrt (<) (map fst ds)" using decisions_progress [OF assms] by blast
  fix m i assume mi: "m \<le> i" "i < length ds" and span: "fst (ds ! m) + 2 * uint (plan_majorFrame plan) \<le> fst (ds ! i)"
  let ?ds = "take (Suc i) ds"
  obtain s'' where "decisions hm fuel good s ?ds s''" using decisions_prefix [OF assms(1) mi(2)] by blast
  note P = decisions_progress [OF this assms(2-)]
  have at: "last ?ds = ds ! i" "length ?ds = Suc i" using mi by (simp_all add: take_Suc_conv_app_nth)
  have at_m: "?ds ! m = ds ! m" using mi(1) by simp
  have d: "decided (fst (ds ! i)) plan j k' (snd (ds ! i)) s''" "cfg s'' = c" using P unfolding at by blast+
  then have f: "fst (ds ! i) < cy_sExec (cyclic s'') + uint (plan_majorFrame plan)"
    unfolding decided_def by linarith
  have "uint (plan_majorFrame plan) > 0" using d(1) unfolding decided_def by linarith
  then have "wf_plan c plan" using wf_plans_of [OF assms(8,9)] by auto
  then have "uint (slot_sExec (slot_at c plan j)) < uint (plan_majorFrame plan)"
    using wf_planD(3,4) [OF _ assms(10)] by (force simp: word_less_def word_le_def)
  then have "\<not> waiting (fst (ds ! m)) (fst (ds ! i)) plan j s''"
    using span f \<open>uint (plan_majorFrame plan) > 0\<close> unfolding waiting_def Let_def d(2) by linarith
  then have "served_between k' m i ?ds" using P mi(1) unfolding at by (metis at_m diff_Suc_1 le_imp_less_Suc)
  then obtain l where "m \<le> l" "l \<le> i" "snd (?ds ! l) = k'" by (auto simp: served_between_def)
  then show "\<exists>l. m \<le> l \<and> l \<le> i \<and> snd (ds ! l) = k'" by (intro exI [of _ l]) simp
qed

text \<open>A decision keeps the configuration and the partitions.\<close>

lemma decision_cfg:
  assumes "GetReadyKThreadCyclic hm fuel s = Some (k, s')" "hm_sched hm"
  shows "cfg s' = cfg s \<and> partitionTab s' = partitionTab s"
proof (cases "keeps_decision s (clk s (clk_n s))")
  case False
  obtain s0 s1 plan slot nx where st: "s0 = cy_upd (\<lambda>cy. cy\<lparr>cy_flags := clr_flag (cy_flags cy) RESCHED_ENABLED\<rparr>) (s\<lparr>clk_n := Suc (clk_n s)\<rparr>)"
    "next_frame (clk s (clk_n s)) s0 = Some s1" "plan_of (cfg s1) (cy_current (cyclic s1)) = Some plan"
    "pick_slot plan (word_of_int (clk s (clk_n s) - cy_sExec (cyclic s1))) (cy_slot (cyclic s1)) s1 = Some (slot, k, nx)"
    "cfg s' = cfg s1" "partitionTab s' = partitionTab s1"
    by (rule cyclic_steps [OF assms(1) False assms(2)]) (rule that; assumption)
  then show ?thesis using next_frame_fields [OF st(2)] by (simp add: cy_upd_def)
qed (use cyclic_kept(1) [OF assms(1)] in simp)

text \<open>Decisions of the example system on a timer that is on time, and its second slot.\<close>

definition demo_wake :: "sstate \<Rightarrow> sstate" where
  "demo_wake s = (let a = cy_nextAct (cyclic s) in s\<lparr>clk := (\<lambda>_. a)\<rparr>)"

fun demo_trace :: "nat \<Rightarrow> sstate \<Rightarrow> (xmTime \<times> addr) list option" where
  "demo_trace 0 s = Some []"
| "demo_trace (Suc n) s = (case GetReadyKThreadCyclic demo_hm 2 s of None \<Rightarrow> None
     | Some (k, t) \<Rightarrow> if cy_new (cyclic s) = PlanTab 0 \<and> runnable s 20
         then map_option ((#) (clk s (clk_n s), k)) (demo_trace n (demo_wake t)) else None)"

definition demo_good :: "sstate \<Rightarrow> bool" where
  "demo_good = slot_ready (demo_cfg CYCLIC_SCHED) (PlanTab 0) demo_plan 1 20"

definition demo_world :: "sstate \<Rightarrow> bool" where
  "demo_world s \<longleftrightarrow> cfg s = demo_cfg CYCLIC_SCHED \<and> partitionTab s = partitionTab (demo_state CYCLIC_SCHED)"

lemma demo_is_good:
  assumes "demo_world s" "cy_new (cyclic s) = PlanTab 0 \<and> runnable s 20"
  shows "demo_good s"
proof -
  have "slot_vcpu demo_plan 1 (demo_state CYCLIC_SCHED) = Some 20" by code_simp
  then show ?thesis using assms by (simp add: demo_good_def slot_ready_def demo_world_def slot_vcpu_def vcpu_of_def)
qed

lemma demo_wake_next: "next_wake t (demo_wake t)" "demo_world (demo_wake t) = demo_world t"
  by (simp_all add: next_wake_def demo_world_def demo_wake_def)

lemma demo_trace_more:
  assumes "decisions demo_hm 2 demo_good s0 ds t" "demo_world t" "demo_trace n (demo_wake t) = Some es"
  shows "\<exists>s'. decisions demo_hm 2 demo_good s0 (ds @ es) s'"
  using assms
proof (induction n arbitrary: ds t es)
  case (Suc n)
  let ?t = "demo_wake t"
  obtain k u es' where st: "GetReadyKThreadCyclic demo_hm 2 ?t = Some (k, u)" "cy_new (cyclic ?t) = PlanTab 0 \<and> runnable ?t 20"
    "demo_trace n (demo_wake u) = Some es'" "es = (clk ?t (clk_n ?t), k) # es'"
    using Suc.prems(3) by (auto split: option.splits prod.splits if_splits)
  have w: "demo_world ?t" using Suc.prems(2) demo_wake_next(2) by blast
  have "demo_world u" using w decision_cfg [OF st(1) demo_hm_sched] by (simp add: demo_world_def)
  moreover have "decisions demo_hm 2 demo_good s0 (ds @ [(clk ?t (clk_n ?t), k)]) u"
    by (rule decisions_next [OF Suc.prems(1) demo_wake_next(1) st(1) demo_is_good [OF w st(2)]])
  ultimately obtain s' where "decisions demo_hm 2 demo_good s0 ((ds @ [(clk ?t (clk_n ?t), k)]) @ es') s'"
    using Suc.IH st(3) by blast
  then show ?case using st(4) by auto
qed auto

definition demo_log :: "(xmTime \<times> addr) list" where
  "demo_log = [(1000, 10), (1100, 20), (1200, 0), (1300, 10), (1400, 20), (1500, 0), (1600, 10)]"

lemma demo_traced: "demo_trace 6 (demo_wake demo_next) = Some (tl demo_log)"
  by code_simp

lemma demo_first: "cy_new (cyclic (demo_state CYCLIC_SCHED)) = PlanTab 0 \<and> runnable (demo_state CYCLIC_SCHED) 20"
  by code_simp

lemma demo_decided: "\<exists>s'. decisions demo_hm 2 demo_good (demo_state CYCLIC_SCHED) demo_log s'"
proof -
  have w: "demo_world (demo_state CYCLIC_SCHED)" by (simp add: demo_world_def)
  have "decisions demo_hm 2 demo_good (demo_state CYCLIC_SCHED) [(1000, 10)] demo_next"
    using decisions_first [OF demo_ready, of demo_good] demo_is_good [OF w demo_first] by simp
  moreover have "demo_world demo_next" using w decision_cfg [OF demo_ready demo_hm_sched] by (simp add: demo_world_def)
  ultimately obtain s' where "decisions demo_hm 2 demo_good (demo_state CYCLIC_SCHED) ([(1000, 10)] @ tl demo_log) s'"
    using demo_trace_more demo_traced by blast
  then show ?thesis by (auto simp: demo_log_def)
qed

theorem slot_owner_served_witness:
  "sorted_wrt (<) (map fst demo_log) \<and> (\<exists>l. 0 \<le> l \<and> l \<le> 6 \<and> snd (demo_log ! l) = 20)"
proof -
  obtain s' where d: "decisions demo_hm 2 demo_good (demo_state CYCLIC_SCHED) demo_log s'" using demo_decided by blast
  have g: "slot_ready (demo_cfg CYCLIC_SCHED) (PlanTab 0) demo_plan 1 20 u" if "demo_good u" for u
    using that by (simp add: demo_good_def)
  have m: "cy_mjf (cyclic (demo_state CYCLIC_SCHED)) \<le> 1000" by (simp add: demo_state_def)
  have "sorted_wrt (<) (map fst demo_log) \<and> (\<forall>m i. m \<le> i \<longrightarrow> i < length demo_log \<longrightarrow>
      fst (demo_log ! m) + 2 * uint (plan_majorFrame demo_plan) \<le> fst (demo_log ! i) \<longrightarrow>
      (\<exists>l. m \<le> l \<and> l \<le> i \<and> snd (demo_log ! l) = 20))"
    by (rule slot_owner_served [OF d demo_hm_sched demo_cyc_inv, where t = 0 and p = "PlanTab 0" and c = "demo_cfg CYCLIC_SCHED"
          and plan = demo_plan and j = 1]) (use g m demo_not_kept demo_wf demo_plan_of in \<open>simp_all add: demo_plan_def\<close>)
  moreover have "6 < length demo_log" "fst (demo_log ! 0) + 2 * uint (plan_majorFrame demo_plan) \<le> fst (demo_log ! 6)"
    by (simp_all add: demo_log_def demo_plan_def)
  ultimately show ?thesis by blast
qed

end
