(* ===== verification/LogProps.thy ===== *)
theory LogProps
  imports Samples
begin

text \<open>The properties of the log streams on the memory-block device.\<close>

definition log_good :: "logStream \<Rightarrow> memBlockData \<Rightarrow> bool" where
  "log_good lS d \<longleftrightarrow> mb_ok d \<and> log_inv lS (mb_mem d) \<and> log_synced lS (mb_mem d)"

lemma mb_good_eq: "mb.good lS d = log_good lS d"
  by (simp add: mb.good_def log_good_def)

abbreviation logdev :: "memBlockData kDevice_t option" where
  "logdev \<equiv> Some memBlockTab"

section \<open>A concrete stream\<close>

abbreviation demo_log0 :: "logStream \<times> memBlockData" where
  "demo_log0 \<equiv> the (LogStreamInit logdev 8 demo_dev)"

lemma demo_init_log: "\<exists>lS d'. LogStreamInit logdev 8 demo_dev = Some (lS, d') \<and> log_good lS d' \<and>
    log_abs lS (mb_mem d') = [] \<and> li_elemSize lS = 8 \<and> li_maxNoElem lS = 2 \<and> li_lock lS = 0"
proof -
  have "mb_ok demo_dev" by (simp add: mb_ok_def demo_dev_def)
  moreover have "un_le32 (chunk 0 4 (mb_mem demo_dev)) \<noteq> LOGSTREAM_MAGIC1" by code_simp
  ultimately show ?thesis
    using mb.init_fresh [of demo_dev 8] by (auto simp: mb_good_eq demo_dev_def)
qed

lemma demo_log:
  "LogStreamInit logdev 8 demo_dev = Some demo_log0" "log_good (fst demo_log0) (snd demo_log0)"
  "li_elemSize (fst demo_log0) = 8" "li_maxNoElem (fst demo_log0) = 2" "li_lock (fst demo_log0) = 0"
  "log_abs (fst demo_log0) (mb_mem (snd demo_log0)) = []"
  using demo_init_log by auto

text \<open>C24: inserting a record appends it to the stream; a full stream loses its oldest record
  first (and says so), its read cursor staying on the same record; a full stream that is locked
  refuses the record and nothing changes. Every case keeps the stream well-formed and leaves a
  header on the device from which it can be restored.\<close>

theorem log_insert:
  assumes "log_good lS d" "length log = nat (li_elemSize lS)"
  shows "(let full = (lc_elem (ls_ctrl lS) = li_maxNoElem lS) in
    if full \<and> li_lock lS \<noteq> 0 then LogStreamInsert logdev lS log d = Some (- 1, lS, d)
    else \<exists>lS' d'. LogStreamInsert logdev lS log d = Some (if full then 1 else 0, lS', d') \<and> log_good lS' d' \<and>
      log_abs lS' (mb_mem d') = (if full then tl (log_abs lS (mb_mem d)) else log_abs lS (mb_mem d)) @ [log] \<and>
      lc_d (ls_ctrl lS') = (if full then max 0 (lc_d (ls_ctrl lS) - 1) else lc_d (ls_ctrl lS)))"
proof -
  have g: "mb.good lS d" using assms(1) by (simp add: mb_good_eq)
  show ?thesis
  proof (cases "lc_elem (ls_ctrl lS) = li_maxNoElem lS \<and> li_lock lS \<noteq> 0")
    case True
    then show ?thesis using mb.insert_refines(1) [OF g assms(2)] by (simp add: Let_def)
  next
    case False
    then show ?thesis
      using mb.insert_refines(2) [OF g assms(2)] unfolding mb_good_eq Let_def by (auto split: if_splits)
  qed
qed

theorem log_insert_witness:
  "\<exists>lS' d'. LogStreamInsert logdev (fst demo_log0) [1, 2, 3, 4, 5, 6, 7, 8] (snd demo_log0) = Some (0, lS', d') \<and> log_good lS' d' \<and>
    log_abs lS' (mb_mem d') = [[1, 2, 3, 4, 5, 6, 7, 8]]"
proof -
  have e: "lc_elem (ls_ctrl (fst demo_log0)) \<noteq> li_maxNoElem (fst demo_log0)" by code_simp
  show ?thesis
    using log_insert [OF demo_log(2), of "[1, 2, 3, 4, 5, 6, 7, 8]"] e demo_log(3,6) by (auto simp: Let_def)
qed

text \<open>C25: reading returns the record under the cursor and moves the cursor to the next one; past
  the last record it returns -1 and nothing changes.\<close>

theorem log_get:
  assumes "log_good lS d"
  shows "if lc_d (ls_ctrl lS) = lc_elem (ls_ctrl lS) then LogStreamGet logdev lS d = (- 1, [], lS, d)
    else \<exists>lS' d'. LogStreamGet logdev lS d = (0, log_abs lS (mb_mem d) ! nat (lc_d (ls_ctrl lS)), lS', d') \<and>
      log_good lS' d' \<and> log_abs lS' (mb_mem d') = log_abs lS (mb_mem d) \<and> lc_d (ls_ctrl lS') = lc_d (ls_ctrl lS) + 1"
  using mb.get_refines [of lS d] assms unfolding mb_good_eq by auto

theorem log_get_witness:
  "LogStreamGet logdev (fst demo_log0) (snd demo_log0) = (- 1, [], fst demo_log0, snd demo_log0)"
proof -
  have "lc_d (ls_ctrl (fst demo_log0)) = lc_elem (ls_ctrl (fst demo_log0))" by code_simp
  then show ?thesis using log_get [OF demo_log(2)] by simp
qed

text \<open>C26: a stream survives a restart: initialising it again on the device it was left on gives
  back the same control words and the same records, whatever operations ran before. The lock is
  not restored from the stream but from a header word that no operation but a fresh
  initialisation writes.\<close>

theorem log_survives_restart:
  assumes "log_good lS d" "li_maxNoElem lS = (int (length (mb_mem d)) - 56) div li_elemSize lS"
  shows "\<exists>lS' d'. LogStreamInit logdev (li_elemSize lS) d = Some (lS', d') \<and> log_good lS' d' \<and>
    ls_ctrl lS' = ls_ctrl lS \<and> mb_mem d' = mb_mem d \<and> log_abs lS' (mb_mem d') = log_abs lS (mb_mem d) \<and>
    li_lock lS' = h_lock (bytes_hdr (chunk 0 56 (mb_mem d)))"
  using mb.init_reload [of lS d] assms unfolding mb_good_eq by blast

theorem log_survives_restart_witness:
  "\<exists>lS' d'. LogStreamInit logdev 8 (snd demo_log0) = Some (lS', d') \<and> log_good lS' d' \<and>
    ls_ctrl lS' = ls_ctrl (fst demo_log0) \<and> mb_mem d' = mb_mem (snd demo_log0) \<and> log_abs lS' (mb_mem d') = []"
proof -
  have "length (mb_mem (snd demo_log0)) = 72" by code_simp
  then show ?thesis
    using log_survives_restart [OF demo_log(2)] demo_log(3,4,6) by auto
qed

end
