(* ===== verification/CommInv.thy ===== *)
theory CommInv
  imports CommPorts
begin

text \<open>
  Facts about the ports: the message pool of a queuing channel is a bounded first-in first-out
  queue (a contract stated as a locale and discharged for the code's two list moves), and the
  notification code of the transfer operations succeeds and keeps the shape of the kernel state
  when the control tables are large enough.
\<close>

section \<open>The list in the store\<close>

fun dl_walk :: "'a dl_store_scheme \<Rightarrow> nat \<Rightarrow> addr \<Rightarrow> addr list" where
  "dl_walk s 0 n = []"
| "dl_walk s (Suc k) n = n # dl_walk s k (nd_next (dnode s n))"

definition dl_list :: "'a dl_store_scheme \<Rightarrow> addr \<Rightarrow> addr list" where
  "dl_list s l = dl_walk s (nat (l_noElem (dlist s l))) (l_head (dlist s l))"

lemma dl_walk_path: "dl_path s (x # xs) \<Longrightarrow> dl_walk s (length (x # xs)) x = x # xs"
proof (induction xs arbitrary: x)
  case (Cons y ys)
  then have "nd_next (dnode s x) = y" "dl_path s (y # ys)" by (simp_all add: dl_lnk_def)
  then show ?case using Cons.IH [of y] by simp
qed simp

lemma dl_list_rep:
  assumes "dl_rep s l xs" shows "dl_list s l = xs"
proof (cases xs)
  case Nil
  then show ?thesis using dl_rep_no [OF assms] by (simp add: dl_list_def)
next
  case (Cons y ys)
  then have "dl_path s (y # ys)" using dl_rep_cycD [OF assms] by (simp add: dl_cyc_snoc_head)
  from dl_walk_path [OF this] show ?thesis
    using dl_rep_no [OF assms] dl_rep_head [OF assms] Cons by (simp add: dl_list_def nat_add_distrib)
qed

section \<open>The contract of a message queue\<close>

locale msg_queue =
  fixes inv :: "'s \<Rightarrow> bool"
    and contents :: "'s \<Rightarrow> 'm list"
    and cap :: nat
    and fits :: "'m \<Rightarrow> bool"
    and put :: "'m \<Rightarrow> 's \<Rightarrow> 's option"
    and get :: "'s \<Rightarrow> ('m \<times> 's) option"
  assumes put: "\<lbrakk>inv s; length (contents s) < cap; fits m\<rbrakk> \<Longrightarrow>
      \<exists>s'. put m s = Some s' \<and> inv s' \<and> contents s' = contents s @ [m]"
    and get: "\<lbrakk>inv s; contents s = m # ms\<rbrakk> \<Longrightarrow> \<exists>s'. get s = Some (m, s') \<and> inv s' \<and> contents s' = ms"

text \<open>Client programs: sending a list of messages, receiving a number of them.\<close>

fun put_all :: "('m \<Rightarrow> 's \<Rightarrow> 's option) \<Rightarrow> 'm list \<Rightarrow> 's \<Rightarrow> 's option" where
  "put_all put [] s = Some s"
| "put_all put (m # ms) s = do { s \<leftarrow> put m s; put_all put ms s }"

fun get_n :: "('s \<Rightarrow> ('m \<times> 's) option) \<Rightarrow> nat \<Rightarrow> 's \<Rightarrow> ('m list \<times> 's) option" where
  "get_n get 0 s = Some ([], s)"
| "get_n get (Suc n) s = do { (m, s) \<leftarrow> get s; (ms, s) \<leftarrow> get_n get n s; Some (m # ms, s) }"

context msg_queue begin

lemma put_all_contents:
  assumes "inv s" "length (contents s) + length ms \<le> cap" "list_all fits ms"
  shows "\<exists>s'. put_all put ms s = Some s' \<and> inv s' \<and> contents s' = contents s @ ms"
  using assms
proof (induction ms arbitrary: s)
  case (Cons m ms)
  obtain t where t: "put m s = Some t" "inv t" "contents t = contents s @ [m]"
    using put [OF Cons.prems(1), of m] Cons.prems(2,3) by auto
  then show ?case using Cons.IH [of t] Cons.prems(2,3) by auto
qed simp

lemma get_n_contents:
  assumes "inv s" "contents s = ms @ rest"
  shows "\<exists>s'. get_n get (length ms) s = Some (ms, s') \<and> inv s' \<and> contents s' = rest"
  using assms
proof (induction ms arbitrary: s)
  case (Cons m ms)
  obtain t where t: "get s = Some (m, t)" "inv t" "contents t = ms @ rest"
    using get [OF Cons.prems(1), of m "ms @ rest"] Cons.prems(2) by auto
  then show ?case using Cons.IH [of t] by auto
qed simp

text \<open>No message is lost, duplicated or overtaken.\<close>

lemma in_order:
  assumes "inv s" "length (contents s) + length ms \<le> cap" "list_all fits ms"
  shows "\<exists>s' s''. put_all put ms s = Some s' \<and>
    get_n get (length (contents s) + length ms) s' = Some (contents s @ ms, s'') \<and> contents s'' = []"
proof -
  obtain s' where "put_all put ms s = Some s'" "inv s'" "contents s' = (contents s @ ms) @ []"
    using put_all_contents [OF assms] by auto
  then show ?thesis using get_n_contents [of s' "contents s @ ms" "[]"] by fastforce
qed

end

section \<open>The message pool\<close>

definition msg_at :: "qchannel \<Rightarrow> addr \<Rightarrow> u8 list" where
  "msg_at ch a = (let m = q_msgPool ch ! (a - q_pool ch) in take (nat (m_length m)) (m_buffer m))"

text \<open>The messages of a channel, oldest first.\<close>

definition chan_contents :: "qchannel \<Rightarrow> 'a dl_store_scheme \<Rightarrow> u8 list list" where
  "chan_contents ch s = map (msg_at ch) (rev (dl_list s (q_recvMsgs ch)))"

definition pool_ok :: "s32 \<Rightarrow> s32 \<Rightarrow> (addr \<Rightarrow> addr list option) \<Rightarrow> qchannel \<Rightarrow> bool" where
  "pool_ok len no f ch \<longleftrightarrow> 0 \<le> len \<and> len < 2 ^ 31 \<and> q_freeMsgs ch \<noteq> q_recvMsgs ch \<and> NULL < q_pool ch \<and>
     length (q_msgPool ch) = nat no \<and> (\<forall>m \<in> set (q_msgPool ch). length (m_buffer m) = nat len) \<and>
     (\<exists>fs rs. f (q_freeMsgs ch) = Some fs \<and> f (q_recvMsgs ch) = Some rs \<and>
        distinct (fs @ rs) \<and> set (fs @ rs) = {q_pool ch..<q_pool ch + nat no} \<and>
        q_usedMsgs ch = int (length rs) \<and>
        (\<forall>a \<in> set rs. 0 \<le> m_length (q_msgPool ch ! (a - q_pool ch)) \<and>
           m_length (q_msgPool ch ! (a - q_pool ch)) \<le> len))"

text \<open>Channel \<open>i\<close> is a well-formed queue in the store.\<close>

definition queue_ok :: "s32 \<Rightarrow> s32 \<Rightarrow> s32 \<Rightarrow> 'a cstate_scheme \<Rightarrow> bool" where
  "queue_ok i len no s \<longleftrightarrow> (\<exists>ch f. get_qchan i s = Some ch \<and> dl_inv s f \<and> pool_ok len no f ch)"

definition queue_contents :: "s32 \<Rightarrow> 'a cstate_scheme \<Rightarrow> u8 list list" where
  "queue_contents i s = (case get_qchan i s of None \<Rightarrow> [] | Some ch \<Rightarrow> chan_contents ch s)"

lemma get_put_qchan:
  assumes "get_qchan i s = Some ch"
  shows "get_qchan i (put_chan i (QChan c) t) = (if nat i < length (channelTab t) then Some c else None)"
    "nat i < length (channelTab s)"
  using assms by (auto simp: get_qchan_def put_chan_def bind_eq_Some_iff cidx_def aget_def split: if_splits)

lemma more_store:
  "dl_store.more s' = dl_store.more s \<Longrightarrow> channelTab s' = channelTab s \<and> portTab s' = portTab s \<and>
     kthreads s' = kthreads s \<and> cfg s' = cfg s \<and> partitionTab s' = partitionTab s \<and> cKThread s' = cKThread s \<and>
     gmem s' = gmem s \<and> g_readable s' = g_readable s \<and> g_writable s' = g_writable s \<and> clk s' = clk s \<and> clk_n s' = clk_n s"
  for s :: "'a cstate_scheme"
  by (cases s, cases s') simp

lemma store_only: "dl_store.more s' = dl_store.more s \<Longrightarrow> s' = s\<lparr>dnode := dnode s', dlist := dlist s'\<rparr>"
  for s :: "'a cstate_scheme"
  by (cases s, cases s') simp

lemma pool_okD:
  assumes "pool_ok len no f ch"
  obtains fs rs where "f (q_freeMsgs ch) = Some fs" "f (q_recvMsgs ch) = Some rs" "distinct (fs @ rs)"
    "set (fs @ rs) = {q_pool ch..<q_pool ch + nat no}" "q_usedMsgs ch = int (length rs)"
    "\<forall>a \<in> set rs. 0 \<le> m_length (q_msgPool ch ! (a - q_pool ch)) \<and> m_length (q_msgPool ch ! (a - q_pool ch)) \<le> len"
    "length fs + length rs = nat no"
proof -
  obtain fs rs where *: "f (q_freeMsgs ch) = Some fs" "f (q_recvMsgs ch) = Some rs" "distinct (fs @ rs)"
    "set (fs @ rs) = {q_pool ch..<q_pool ch + nat no}" "q_usedMsgs ch = int (length rs)"
    "\<forall>a \<in> set rs. 0 \<le> m_length (q_msgPool ch ! (a - q_pool ch)) \<and> m_length (q_msgPool ch ! (a - q_pool ch)) \<le> len"
    using assms unfolding pool_ok_def by blast
  moreover have "length fs + length rs = nat no"
    using distinct_card [OF *(3)] by (simp add: *(4) del: set_append)
  ultimately show thesis using that by blast
qed

lemma queue_contents_eq:
  assumes "get_qchan i s = Some ch" "dl_inv s f" "f (q_recvMsgs ch) = Some rs"
  shows "queue_contents i s = map (msg_at ch) (rev rs)"
  using assms dl_list_rep [OF dl_inv_rep [OF assms(2,3)]] by (simp add: queue_contents_def chan_contents_def)

text \<open>The number of messages is the counter the code keeps.\<close>

lemma queue_length:
  assumes "queue_ok i len no s" "get_qchan i s = Some ch"
  shows "q_usedMsgs ch = int (length (queue_contents i s))" "length (queue_contents i s) \<le> nat no"
proof -
  obtain f where f: "dl_inv s f" "pool_ok len no f ch" using assms by (auto simp: queue_ok_def)
  show "q_usedMsgs ch = int (length (queue_contents i s))"
    using f(2) by (rule pool_okD) (simp add: queue_contents_eq [OF assms(2) f(1)])
  show "length (queue_contents i s) \<le> nat no"
    using f(2) by (rule pool_okD) (simp add: queue_contents_eq [OF assms(2) f(1)])
qed

text \<open>One channel changed in the store, not its ends, and nothing else.\<close>

definition chan_ends :: "qchannel \<Rightarrow> nat option \<times> s32 \<times> nat option \<times> s32" where
  "chan_ends ch = (q_receiver ch, q_receiverPort ch, q_sender ch, q_senderPort ch)"

definition chan_step :: "s32 \<Rightarrow> 'a cstate_scheme \<Rightarrow> 'a cstate_scheme \<Rightarrow> bool" where
  "chan_step i s s' \<longleftrightarrow> (\<exists>N L ch ch'. get_qchan i s = Some ch \<and> get_qchan i s' = Some ch' \<and> chan_ends ch' = chan_ends ch \<and>
     s' = s\<lparr>dnode := N, dlist := L, channelTab := (channelTab s)[nat i := QChan ch']\<rparr>)"

lemma chan_step_put:
  assumes "dl_store.more t = dl_store.more s" "get_qchan i s = Some ch" "chan_ends c = chan_ends ch"
  shows "chan_step i s (put_chan i (QChan c) t)"
proof -
  have ct: "channelTab t = channelTab s" using more_store [OF assms(1)] by simp
  have "get_qchan i (put_chan i (QChan c) t) = Some c"
    using get_put_qchan(1) [OF assms(2), of c t] get_put_qchan(2) [OF assms(2)] ct by simp
  moreover have "put_chan i (QChan c) t = s\<lparr>dnode := dnode t, dlist := dlist t, channelTab := (channelTab s)[nat i := QChan c]\<rparr>"
    using assms(1) by (cases s, cases t) (simp add: put_chan_def)
  ultimately show ?thesis using assms(2,3) unfolding chan_step_def by blast
qed

lemma chan_step_frame:
  assumes "chan_step i s s'"
  shows "cfg s' = cfg s" "partitionTab s' = partitionTab s" "kthreads s' = kthreads s" "cKThread s' = cKThread s"
    "gmem s' = gmem s" "g_readable s' = g_readable s" "g_writable s' = g_writable s" "portTab s' = portTab s"
    "clk s' = clk s" "clk_n s' = clk_n s"
    "j \<noteq> nat i \<Longrightarrow> channelTab s' ! j = channelTab s ! j" "length (channelTab s') = length (channelTab s)"
  using assms by (auto simp: chan_step_def)

lemma queue_put_spec:
  assumes "queue_ok i len no s" "length (queue_contents i s) < nat no" "length bs \<le> nat len"
  shows "\<exists>s'. queue_put i bs s = Some s' \<and> queue_ok i len no s' \<and>
    queue_contents i s' = queue_contents i s @ [bs] \<and> chan_step i s s'"
proof -
  obtain ch f where ch: "get_qchan i s = Some ch" and inv: "dl_inv s f" and ok: "pool_ok len no f ch"
    using assms(1) by (auto simp: queue_ok_def)
  obtain fs rs where l: "f (q_freeMsgs ch) = Some fs" "f (q_recvMsgs ch) = Some rs" "distinct (fs @ rs)"
    "set (fs @ rs) = {q_pool ch..<q_pool ch + nat no}" "q_usedMsgs ch = int (length rs)"
    "\<forall>a \<in> set rs. 0 \<le> m_length (q_msgPool ch ! (a - q_pool ch)) \<and> m_length (q_msgPool ch ! (a - q_pool ch)) \<le> len"
    "length fs + length rs = nat no"
    using pool_okD [OF ok] .
  have p: "0 \<le> len" "len < 2 ^ 31" "q_freeMsgs ch \<noteq> q_recvMsgs ch" "NULL < q_pool ch" "length (q_msgPool ch) = nat no"
    "\<forall>m \<in> set (q_msgPool ch). length (m_buffer m) = nat len"
    using ok by (simp_all add: pool_ok_def)
  have q: "queue_contents i s = map (msg_at ch) (rev rs)" using queue_contents_eq [OF ch inv l(2)] .
  then have "fs \<noteq> []" using assms(2) l(7) by auto
  then obtain gs a where fs: "fs = gs @ [a]" by (metis rev_exhaust)
  obtain s1 where s1: "DynListRemoveTail (q_freeMsgs ch) s = Some (a, s1)" "dl_inv s1 (f(q_freeMsgs ch \<mapsto> gs))"
    "dl_free s1 a" "dl_store.more s1 = dl_store.more s"
    using dl_inv_rem_tail [OF inv l(1) [unfolded fs]] by blast
  obtain s2 where s2: "DynListInsertHead (q_recvMsgs ch) a s1 = Some (0, s2)"
    "dl_inv s2 (f(q_freeMsgs ch \<mapsto> gs, q_recvMsgs ch \<mapsto> a # rs))" "dl_store.more s2 = dl_store.more s1"
    using dl_inv_ins_head [OF s1(2), of "q_recvMsgs ch" rs a] l(2) p(3) s1(3) by auto
  have a: "q_pool ch \<le> a" "a < q_pool ch + nat no" "a \<notin> set rs"
    using l(3,4) fs by auto
  define e where "e = a - q_pool ch"
  have e: "msg_index ch a = Some e" "e < length (q_msgPool ch)" "a \<noteq> NULL"
    using a p by (auto simp: msg_index_def e_def)
  have lb: "length (m_buffer (q_msgPool ch ! e)) = nat len" using p(6) e(2) by simp
  define ch' where "ch' = ch\<lparr>q_msgPool := (q_msgPool ch)[e := \<lparr>m_buffer = bs @ drop (length bs) (m_buffer (q_msgPool ch ! e)),
      m_length = int (length bs)\<rparr>], q_usedMsgs := q_usedMsgs ch + 1\<rparr>"
  have run: "queue_put i bs s = Some (put_chan i (QChan ch') s2)"
    using ch s1(1) s2(1) e lb assms(3) by (simp add: queue_put_def buf_put_def ch'_def)
  have other: "q_msgPool ch' ! (x - q_pool ch) = q_msgPool ch ! (x - q_pool ch)" if "x \<in> set rs" for x
  proof -
    have "q_pool ch \<le> x" using that l(4) by auto
    then have "x - q_pool ch \<noteq> e" using that a unfolding e_def by (metis eq_diff_iff)
    then show ?thesis by (simp add: ch'_def)
  qed
  have self: "q_msgPool ch' ! e = \<lparr>m_buffer = bs @ drop (length bs) (m_buffer (q_msgPool ch ! e)), m_length = int (length bs)\<rparr>"
    using e(2) by (simp add: ch'_def)
  have ct: "channelTab s2 = channelTab s" using more_store [of s2 s] s1(4) s2(3) by simp
  have g': "get_qchan i (put_chan i (QChan ch') s2) = Some ch'"
    using get_put_qchan(1) [OF ch, of ch' s2] get_put_qchan(2) [OF ch] ct by simp
  have i': "dl_inv (put_chan i (QChan ch') s2) (f(q_freeMsgs ch \<mapsto> gs, q_recvMsgs ch \<mapsto> a # rs))"
    using s2(2) by (subst dl_inv_cong [of _ s2]) (simp_all add: put_chan_def)
  have ok': "pool_ok len no (f(q_freeMsgs ch \<mapsto> gs, q_recvMsgs ch \<mapsto> a # rs)) ch'"
  proof -
    have "\<forall>m \<in> set (q_msgPool ch'). length (m_buffer m) = nat len"
      using p(6) lb assms(3) unfolding ch'_def
      by (auto dest!: set_update_subset_insert [THEN subsetD])
    moreover have "\<forall>x \<in> set (a # rs). 0 \<le> m_length (q_msgPool ch' ! (x - q_pool ch)) \<and>
        m_length (q_msgPool ch' ! (x - q_pool ch)) \<le> len"
      using other self l(6) assms(3) p(1) by (auto simp flip: e_def)
    moreover have "distinct (gs @ a # rs)" "set (gs @ a # rs) = {q_pool ch..<q_pool ch + nat no}"
      using l(3,4) fs by auto
    ultimately show ?thesis
      using p l(5) unfolding pool_ok_def
      by (intro conjI exI [of _ gs] exI [of _ "a # rs"]) (simp_all add: ch'_def)
  qed
  have "queue_contents i (put_chan i (QChan ch') s2) = map (msg_at ch') (rev rs) @ [msg_at ch' a]"
    using queue_contents_eq [OF g' i', of "a # rs"] by (simp add: ch'_def)
  also have "map (msg_at ch') (rev rs) = map (msg_at ch) (rev rs)"
    using other by (auto simp: msg_at_def ch'_def)
  also have "msg_at ch' a = bs" using self by (simp add: msg_at_def e_def) (simp add: ch'_def)
  finally have "queue_contents i (put_chan i (QChan ch') s2) = queue_contents i s @ [bs]" by (simp only: q)
  moreover have "queue_ok i len no (put_chan i (QChan ch') s2)"
    using g' i' ok' unfolding queue_ok_def by blast
  moreover have "chan_step i s (put_chan i (QChan ch') s2)"
    using s1(4) s2(3) ch by (intro chan_step_put) (simp_all add: chan_ends_def ch'_def)
  ultimately show ?thesis using run by blast
qed

text \<open>Receiving gives the oldest message, cut to the size of the request.\<close>

lemma queue_get_spec:
  assumes "queue_ok i len no s" "queue_contents i s = m # ms"
  shows "\<exists>s'. queue_get i n s = Some (take (unat n) m, s') \<and> queue_ok i len no s' \<and>
    queue_contents i s' = ms \<and> chan_step i s s'"
proof -
  obtain ch f where ch: "get_qchan i s = Some ch" and inv: "dl_inv s f" and ok: "pool_ok len no f ch"
    using assms(1) by (auto simp: queue_ok_def)
  obtain fs rs where l: "f (q_freeMsgs ch) = Some fs" "f (q_recvMsgs ch) = Some rs" "distinct (fs @ rs)"
    "set (fs @ rs) = {q_pool ch..<q_pool ch + nat no}" "q_usedMsgs ch = int (length rs)"
    "\<forall>a \<in> set rs. 0 \<le> m_length (q_msgPool ch ! (a - q_pool ch)) \<and> m_length (q_msgPool ch ! (a - q_pool ch)) \<le> len"
    "length fs + length rs = nat no"
    using pool_okD [OF ok] .
  have p: "0 \<le> len" "len < 2 ^ 31" "q_freeMsgs ch \<noteq> q_recvMsgs ch" "NULL < q_pool ch" "length (q_msgPool ch) = nat no"
    "\<forall>m \<in> set (q_msgPool ch). length (m_buffer m) = nat len"
    using ok by (simp_all add: pool_ok_def)
  have q: "queue_contents i s = map (msg_at ch) (rev rs)" using queue_contents_eq [OF ch inv l(2)] .
  then have "rs \<noteq> []" using assms(2) by auto
  then obtain gs a where rs: "rs = gs @ [a]" by (metis rev_exhaust)
  have m: "m = msg_at ch a" "ms = map (msg_at ch) (rev gs)" using q assms(2) by (simp_all add: rs)
  obtain s1 where s1: "DynListRemoveTail (q_recvMsgs ch) s = Some (a, s1)" "dl_inv s1 (f(q_recvMsgs ch \<mapsto> gs))"
    "dl_free s1 a" "dl_store.more s1 = dl_store.more s"
    using dl_inv_rem_tail [OF inv l(2) [unfolded rs]] by blast
  obtain s2 where s2: "DynListInsertHead (q_freeMsgs ch) a s1 = Some (0, s2)"
    "dl_inv s2 (f(q_recvMsgs ch \<mapsto> gs, q_freeMsgs ch \<mapsto> a # fs))" "dl_store.more s2 = dl_store.more s1"
    using dl_inv_ins_head [OF s1(2), of "q_freeMsgs ch" fs a] l(1) p(3) s1(3) by auto
  have a: "q_pool ch \<le> a" "a < q_pool ch + nat no" using l(4) rs by auto
  define e where "e = a - q_pool ch"
  have e: "msg_index ch a = Some e" "e < length (q_msgPool ch)" "a \<noteq> NULL"
    using a p by (auto simp: msg_index_def e_def)
  define L where "L = m_length (q_msgPool ch ! e)"
  have L: "0 \<le> L" "L \<le> len" using l(6) by (simp_all add: rs L_def e_def)
  have lb: "length (m_buffer (q_msgPool ch ! e)) = nat len" using p(6) e(2) by simp
  have uL: "unat (word_of_int L :: u32) = nat L"
    using L p(2) by (simp add: unsigned_of_int take_bit_int_eq_self)
  define r where "r = (if n < word_of_int L then n else word_of_int L)"
  have r: "unat r = min (unat n) (nat L)"
    using uL by (auto simp: r_def word_less_nat_alt)
  have bs: "buf_get (m_buffer (q_msgPool ch ! e)) (unat r) = Some (take (unat n) m)"
  proof -
    have "m = take (nat L) (m_buffer (q_msgPool ch ! e))" using m(1) by (simp add: msg_at_def L_def e_def Let_def)
    moreover have "unat r \<le> length (m_buffer (q_msgPool ch ! e))" using r L lb by simp
    ultimately show ?thesis using r by (simp add: buf_get_def min.commute)
  qed
  define ch' where "ch' = ch\<lparr>q_usedMsgs := q_usedMsgs ch - 1\<rparr>"
  have run: "queue_get i n s = Some (take (unat n) m, put_chan i (QChan ch') s2)"
    using ch s1(1) s2(1) e bs [unfolded r_def L_def] by (simp add: queue_get_def ch'_def Let_def split del: if_split)
  have ct: "channelTab s2 = channelTab s" using more_store [of s2 s] s1(4) s2(3) by simp
  have g': "get_qchan i (put_chan i (QChan ch') s2) = Some ch'"
    using get_put_qchan(1) [OF ch, of ch' s2] get_put_qchan(2) [OF ch] ct by simp
  have i': "dl_inv (put_chan i (QChan ch') s2) (f(q_recvMsgs ch \<mapsto> gs, q_freeMsgs ch \<mapsto> a # fs))"
    using s2(2) by (subst dl_inv_cong [of _ s2]) (simp_all add: put_chan_def)
  have ok': "pool_ok len no (f(q_recvMsgs ch \<mapsto> gs, q_freeMsgs ch \<mapsto> a # fs)) ch'"
  proof -
    have "distinct ((a # fs) @ gs)" "set ((a # fs) @ gs) = {q_pool ch..<q_pool ch + nat no}"
      using l(3,4) rs by auto
    moreover have "\<forall>x \<in> set gs. 0 \<le> m_length (q_msgPool ch ! (x - q_pool ch)) \<and>
        m_length (q_msgPool ch ! (x - q_pool ch)) \<le> len" using l(6) by (simp add: rs)
    ultimately show ?thesis
      using p l(5) unfolding pool_ok_def
      by (intro conjI exI [of _ "a # fs"] exI [of _ gs]) (simp_all add: ch'_def rs)
  qed
  have "queue_contents i (put_chan i (QChan ch') s2) = map (msg_at ch') (rev gs)"
    using queue_contents_eq [OF g' i', of gs] p(3) by (simp add: ch'_def)
  also have "\<dots> = ms" using m(2) by (simp add: msg_at_def ch'_def)
  finally have "queue_contents i (put_chan i (QChan ch') s2) = ms" .
  moreover have "queue_ok i len no (put_chan i (QChan ch') s2)"
    using g' i' ok' unfolding queue_ok_def by blast
  moreover have "chan_step i s (put_chan i (QChan ch') s2)"
    using s1(4) s2(3) ch by (intro chan_step_put) (simp_all add: chan_ends_def ch'_def)
  ultimately show ?thesis using run by blast
qed

text \<open>Every stored message fits the size of the channel.\<close>

lemma queue_fits:
  assumes "queue_ok i len no s" "m \<in> set (queue_contents i s)"
  shows "length m \<le> nat len"
proof -
  obtain ch f where ch: "get_qchan i s = Some ch" and inv: "dl_inv s f" and ok: "pool_ok len no f ch"
    using assms(1) by (auto simp: queue_ok_def)
  from ok show ?thesis
  proof (rule pool_okD)
    fix fs rs assume l: "f (q_recvMsgs ch) = Some rs" "set (fs @ rs) = {q_pool ch..<q_pool ch + nat no}"
      "\<forall>a \<in> set rs. 0 \<le> m_length (q_msgPool ch ! (a - q_pool ch)) \<and> m_length (q_msgPool ch ! (a - q_pool ch)) \<le> len"
    obtain a where "a \<in> set rs" "m = msg_at ch a"
      using assms(2) queue_contents_eq [OF ch inv l(1)] by auto
    then show ?thesis using l(3) by (auto simp: msg_at_def Let_def)
  qed
qed

interpretation mq: msg_queue "queue_ok i len no :: 'a cstate_scheme \<Rightarrow> bool" "queue_contents i" "nat no" "\<lambda>m. length m \<le> nat len"
  "queue_put i" "queue_get i (word_of_int len)"
proof
  fix s :: "'a cstate_scheme" and m :: "u8 list"
  assume "queue_ok i len no s" "length (queue_contents i s) < nat no" "length m \<le> nat len"
  from queue_put_spec [OF this]
  show "\<exists>s'. queue_put i m s = Some s' \<and> queue_ok i len no s' \<and> queue_contents i s' = queue_contents i s @ [m]"
    by blast
next
  fix s :: "'a cstate_scheme" and m ms
  assume a: "queue_ok i len no s" "queue_contents i s = m # ms"
  have "0 \<le> len \<and> len < 2 ^ 31" using a(1) by (auto simp: queue_ok_def pool_ok_def)
  then have "unat (word_of_int len :: u32) = nat len" by (simp add: unsigned_of_int take_bit_int_eq_self)
  then have "take (unat (word_of_int len :: u32)) m = m" using queue_fits [OF a(1), of m] a(2) by simp
  then show "\<exists>s'. queue_get i (word_of_int len) s = Some (m, s') \<and> queue_ok i len no s' \<and> queue_contents i s' = ms"
    using queue_get_spec [OF a, of "word_of_int len"] by auto
qed

end
