(* ===== verification/CommNotify.thy ===== *)
theory CommNotify
  imports CommInv
begin

text \<open>
  The part of the transfer operations that tells the other partitions: port bits in the control
  tables and extended interrupts. When the tables are large enough the loops succeed, and they
  change nothing but control tables, thread flags and port flags.
\<close>

section \<open>The shape of the threads\<close>

definition thread_shape :: "kThread_t \<Rightarrow> xmId option \<times> (s32 \<times> nat) option" where
  "thread_shape t = (map_option g_id (k_g t), map_option (\<lambda>p. (pct_noCommPorts p, length (pct_tail p))) (k_pct t))"

text \<open>\<open>s'\<close> differs from \<open>s\<close> in threads of the same shape and in the flags of ports only.\<close>

definition comm_keeps :: "'a cstate_scheme \<Rightarrow> 'a cstate_scheme \<Rightarrow> bool" where
  "comm_keeps s s' \<longleftrightarrow> s' = s\<lparr>kthreads := kthreads s', portTab := portTab s'\<rparr> \<and>
     (\<forall>k. thread_shape (kthreads s' k) = thread_shape (kthreads s k)) \<and>
     map po_partitionId (portTab s') = map po_partitionId (portTab s) \<and>
     map (\<lambda>po. has_flag (po_flags po) COMM_PORT_OPENED) (portTab s') =
     map (\<lambda>po. has_flag (po_flags po) COMM_PORT_OPENED) (portTab s)"

lemma comm_keeps_refl [simp]: "comm_keeps s s"
  by (simp add: comm_keeps_def)

lemma comm_keeps_trans:
  assumes "comm_keeps s t" "comm_keeps t u" shows "comm_keeps s u"
proof -
  have "u = (s\<lparr>kthreads := kthreads t, portTab := portTab t\<rparr>)\<lparr>kthreads := kthreads u, portTab := portTab u\<rparr>"
    using assms unfolding comm_keeps_def by metis
  then have "u = s\<lparr>kthreads := kthreads u, portTab := portTab u\<rparr>" by (cases s, cases u) simp
  then show ?thesis using assms by (simp add: comm_keeps_def)
qed

lemma comm_keeps_fields:
  assumes "comm_keeps s s'"
  shows "dnode s' = dnode s" "dlist s' = dlist s" "cfg s' = cfg s" "partitionTab s' = partitionTab s"
    "cKThread s' = cKThread s" "channelTab s' = channelTab s" "gmem s' = gmem s" "clk s' = clk s" "clk_n s' = clk_n s"
    "g_readable s' = g_readable s" "g_writable s' = g_writable s"
    "thread_shape (kthreads s' k) = thread_shape (kthreads s k)"
    "length (portTab s') = length (portTab s)"
proof -
  have e: "s' = s\<lparr>kthreads := kthreads s', portTab := portTab s'\<rparr>" using assms by (simp add: comm_keeps_def)
  show "dnode s' = dnode s" "dlist s' = dlist s" "cfg s' = cfg s" "partitionTab s' = partitionTab s"
    "cKThread s' = cKThread s" "channelTab s' = channelTab s" "gmem s' = gmem s" "clk s' = clk s" "clk_n s' = clk_n s"
    "g_readable s' = g_readable s" "g_writable s' = g_writable s"
    by (subst e, simp)+
  show "thread_shape (kthreads s' k) = thread_shape (kthreads s k)" using assms by (simp add: comm_keeps_def)
  show "length (portTab s') = length (portTab s)" using assms unfolding comm_keeps_def by (metis length_map)
qed

lemma comm_keeps_kt:
  assumes "thread_shape (f (kthreads s k)) = thread_shape (kthreads s k)"
  shows "comm_keeps s (kt_upd k f s)"
  using assms by (simp add: comm_keeps_def kt_upd_def)

lemma shape_flags [simp]: "thread_shape (t\<lparr>k_flags := v\<rparr>) = thread_shape t"
  by (simp add: thread_shape_def)

lemma shape_pct:
  assumes "\<And>p. pct_noCommPorts (f p) = pct_noCommPorts p" "\<And>p. k_pct t = Some p \<Longrightarrow> length (pct_tail (f p)) = length (pct_tail p)"
  shows "thread_shape (pct_upd f t) = thread_shape t"
  using assms by (cases "k_g t"; cases "k_pct t") (simp_all add: thread_shape_def, simp_all add: pct_upd_def g_upd_def)

lemma shape_pend: "thread_shape (pend_ext irq t) = thread_shape t"
  unfolding pend_ext_def by (subst shape_pct) simp_all

lemma ofold_keeps:
  assumes "P s" "\<And>x s. \<lbrakk>x \<in> set xs; P s\<rbrakk> \<Longrightarrow> \<exists>s'. f x s = Some s' \<and> P s'"
  shows "\<exists>s'. ofold f xs s = Some s' \<and> P s'"
  using assms
proof (induction xs arbitrary: s)
  case (Cons x xs)
  obtain t where "f x s = Some t" "P t" using Cons.prems(2) [of x s] Cons.prems(1) by auto
  then show ?case using Cons.IH [of t] Cons.prems(2) by auto
qed simp

section \<open>Bits\<close>

lemma xmSetBit_length: "xmSetBit bm b n = Some bm' \<Longrightarrow> length bm' = length bm"
  by (auto simp: xmSetBit_def Let_def bind_eq_Some_iff split: if_splits)

lemma xmClearBit_length: "xmClearBit bm b n = Some bm' \<Longrightarrow> length bm' = length bm"
  by (auto simp: xmClearBit_def Let_def bind_eq_Some_iff split: if_splits)

lemma bit_ops_total:
  assumes "bm_ok bm (nat n)" "0 \<le> n"
  shows "\<exists>bm'. xmSetBit bm b n = Some bm'" "\<exists>bm'. xmClearBit bm b n = Some bm'"
proof -
  have "unat b < nat n \<or> word_of_int n \<le> b"
  proof -
    have "unat (word_of_int n :: u32) \<le> nat n"
      by (simp add: unsigned_of_int nat_le_eq_zle assms(2)) (metis assms(2) nat_0_le take_bit_int_less_eq_self_iff)
    then show ?thesis by (auto simp: word_le_nat_alt not_less)
  qed
  moreover have "\<exists>bm'. xmSetBit bm b n = Some bm'" "\<exists>bm'. xmClearBit bm b n = Some bm'" if "unat b < nat n"
    using xmSetBit_in [OF assms(1) that] xmClearBit_in [OF assms(1) that] assms(2) by auto
  ultimately show "\<exists>bm'. xmSetBit bm b n = Some bm'" "\<exists>bm'. xmClearBit bm b n = Some bm'"
    using xmSetBit_out xmClearBit_out by metis+
qed

text \<open>The control table of a thread has room for its bits behind \<open>base\<close> words.\<close>

definition tab_ok :: "nat \<Rightarrow> kThread_t \<Rightarrow> bool" where
  "tab_ok base t \<longleftrightarrow> (case snd (thread_shape t) of None \<Rightarrow> False
     | Some (n, l) \<Rightarrow> 0 \<le> n \<and> nat n \<le> 32 * (l - base) \<and> n < 2 ^ 31)"

lemma tab_ok_pct: "tab_ok base t \<Longrightarrow> \<exists>p. k_pct t = Some p \<and> 0 \<le> pct_noCommPorts p \<and>
    bm_ok (drop base (pct_tail p)) (nat (pct_noCommPorts p))"
  by (auto simp: tab_ok_def thread_shape_def bm_ok_def nat_less_iff split: option.splits)

lemma on_port_bitmap_keeps:
  assumes "cur_cfg s = Some c" "k_pct (kthreads s k) = Some p"
    and "f (drop (mem_map_words * nat (pc_noPhysicalMemoryAreas c)) (pct_tail p)) = Some bm"
    and "length bm = length (drop (mem_map_words * nat (pc_noPhysicalMemoryAreas c)) (pct_tail p))"
  shows "\<exists>s'. on_port_bitmap f k s = Some s' \<and> comm_keeps s s'"
proof -
  let ?b = "mem_map_words * nat (pc_noPhysicalMemoryAreas c)"
  let ?u = "pct_upd (\<lambda>p. p\<lparr>pct_tail := take ?b (pct_tail p) @ bm\<rparr>)"
  have "thread_shape (?u (kthreads s k)) = thread_shape (kthreads s k)"
    using assms(2,4) by (intro shape_pct) auto
  then have "comm_keeps s (kt_upd k ?u s)" by (rule comm_keeps_kt)
  then show ?thesis using assms by (simp add: on_port_bitmap_def Let_def)
qed

definition base_of :: "xmcPartition \<Rightarrow> nat" where
  "base_of c = mem_map_words * nat (pc_noPhysicalMemoryAreas c)"

lemma port_bit_keeps:
  assumes "cur_cfg s = Some c" "tab_ok (base_of c) (kthreads s k)"
  shows "\<exists>s'. set_port_bit b k s = Some s' \<and> comm_keeps s s'"
    "\<exists>s'. clear_port_bit b k s = Some s' \<and> comm_keeps s s'"
proof -
  obtain p where p: "k_pct (kthreads s k) = Some p" "0 \<le> pct_noCommPorts p"
    "bm_ok (drop (base_of c) (pct_tail p)) (nat (pct_noCommPorts p))"
    using tab_ok_pct [OF assms(2)] by blast
  obtain x where x: "xmSetBit (drop (base_of c) (pct_tail p)) b (pct_noCommPorts p) = Some x"
    using bit_ops_total(1) [OF p(3,2)] by blast
  obtain y where y: "xmClearBit (drop (base_of c) (pct_tail p)) b (pct_noCommPorts p) = Some y"
    using bit_ops_total(2) [OF p(3,2)] by blast
  note on = on_port_bitmap_keeps [OF assms(1) p(1), folded base_of_def]
  show "\<exists>s'. set_port_bit b k s = Some s' \<and> comm_keeps s s'"
    using on [of "\<lambda>bm. xmSetBit bm b (pct_noCommPorts p)", OF x xmSetBit_length [OF x]] p(1)
    by (simp add: set_port_bit_def)
  show "\<exists>s'. clear_port_bit b k s = Some s' \<and> comm_keeps s s'"
    using on [of "\<lambda>bm. xmClearBit bm b (pct_noCommPorts p)", OF y xmClearBit_length [OF y]] p(1)
    by (simp add: clear_port_bit_def)
qed

section \<open>The loops over partitions\<close>

lemma cur_cfg_keeps: "comm_keeps s s' \<Longrightarrow> cur_cfg s' = cur_cfg s"
  "comm_keeps s s' \<Longrightarrow> GetPartition k s' = GetPartition k s"
  "comm_keeps s s' \<Longrightarrow> part_by_index i s' = part_by_index i s"
proof -
  assume k: "comm_keeps s s'"
  have g: "map_option g_id (k_g (kthreads s' k)) = map_option g_id (k_g (kthreads s k))" for k
    using comm_keeps_fields(12) [OF k, of k] by (simp add: thread_shape_def)
  have "GetPartition k s' = GetPartition k s" for k
  proof -
    have "GetPartition k x = map_option (\<lambda>i. unat (KID2PARTID i)) (map_option g_id (k_g (kthreads x k)))"
      for x :: "'a cstate_scheme"
      by (simp add: GetPartition_def option.map_comp comp_def)
    then show ?thesis using g [of k] by metis
  qed
  then show "GetPartition k s' = GetPartition k s" "cur_cfg s' = cur_cfg s"
    by (simp_all add: cur_cfg_def cur_partition_def comm_keeps_fields [OF k])
  show "part_by_index i s' = part_by_index i s"
    by (simp add: part_by_index_def part_vcpus_def comm_keeps_fields [OF k])
qed

lemma tab_ok_keeps: "comm_keeps s s' \<Longrightarrow> tab_ok b (kthreads s' k) = tab_ok b (kthreads s k)"
  by (simp add: tab_ok_def comm_keeps_fields(12))

text \<open>Partition \<open>i\<close> exists and the tables of its threads are large enough.\<close>

definition part_ok :: "xmcPartition \<Rightarrow> nat \<Rightarrow> 'a kstate_scheme \<Rightarrow> bool" where
  "part_ok c i s \<longleftrightarrow> (case part_by_index i s of None \<Rightarrow> False
     | Some ks \<Rightarrow> list_all (\<lambda>k. tab_ok (base_of c) (kthreads s k)) ks)"

text \<open>All its tables have more than \<open>b\<close> port bits.\<close>

definition port_in_tabs :: "s32 \<Rightarrow> nat \<Rightarrow> 'a kstate_scheme \<Rightarrow> bool" where
  "port_in_tabs b i s \<longleftrightarrow> (case part_by_index i s of None \<Rightarrow> False
     | Some ks \<Rightarrow> list_all (\<lambda>k. case snd (thread_shape (kthreads s k)) of None \<Rightarrow> False | Some (n, l) \<Rightarrow> b < n) ks)"

lemma part_ok_keeps: "comm_keeps s s' \<Longrightarrow> part_ok c i s' = part_ok c i s"
  "comm_keeps s s' \<Longrightarrow> port_in_tabs b i s' = port_in_tabs b i s"
  by (cases "part_by_index i s";
      simp add: part_ok_def port_in_tabs_def cur_cfg_keeps tab_ok_keeps comm_keeps_fields(12))+

lemma vcpu_pend_keeps:
  assumes "tab_ok b (kthreads s k)" shows "\<exists>s'. vcpu_pend_ext irq k s = Some s' \<and> comm_keeps s s'"
proof -
  have "k_pct (kthreads s k) \<noteq> None" using tab_ok_pct [OF assms] by auto
  from vcpu_pend_ext_eq [OF this] show ?thesis
    using comm_keeps_kt [where f = "pend_ext irq", OF shape_pend] by auto
qed

lemma notify_part_keeps:
  assumes "part_ok c i s" "irq \<le> XM_VT_EXT_LAST"
  shows "\<exists>s'. notify_part i irq s = Some s' \<and> comm_keeps s s'"
proof -
  obtain ks where ks: "part_by_index i s = Some ks" "list_all (\<lambda>k. tab_ok (base_of c) (kthreads s k)) ks"
    using assms(1) by (auto simp: part_ok_def split: option.splits)
  have "\<exists>s'. ofold (vcpu_pend_ext irq) ks s = Some s' \<and> comm_keeps s s'"
  proof (rule ofold_keeps)
    fix k t assume "k \<in> set ks" "comm_keeps s t"
    then have "tab_ok (base_of c) (kthreads t k)" using ks(2) by (simp add: tab_ok_keeps list_all_iff)
    from vcpu_pend_keeps [OF this] show "\<exists>s'. vcpu_pend_ext irq k t = Some s' \<and> comm_keeps s s'"
      using \<open>comm_keeps s t\<close> comm_keeps_trans by blast
  qed simp
  then show ?thesis
    using ks(1) assms(2) by (auto simp: notify_part_def part_by_index_def SetPartitionExtIrqPending_def bind_eq_Some_iff)
qed

text \<open>A loop whose body keeps the shape of every thread with a good table.\<close>

lemma bits_loop_keeps:
  assumes "cur_cfg s = Some c" "part_by_index i s = Some ks" "part_ok c i s"
    and "\<And>k t. \<lbrakk>k \<in> set ks; comm_keeps s t; cur_cfg t = Some c; tab_ok (base_of c) (kthreads t k)\<rbrakk> \<Longrightarrow>
      \<exists>s'. f k t = Some s' \<and> comm_keeps t s'"
  shows "\<exists>s'. ofold f ks s = Some s' \<and> comm_keeps s s'"
proof (rule ofold_keeps)
  fix k t assume k: "k \<in> set ks" "comm_keeps s t"
  then have "cur_cfg t = Some c" "tab_ok (base_of c) (kthreads t k)"
    using assms(1-3) by (simp_all add: cur_cfg_keeps tab_ok_keeps part_ok_def list_all_iff)
  from assms(4) [OF k this] show "\<exists>s'. f k t = Some s' \<and> comm_keeps s s'"
    using k(2) comm_keeps_trans by blast
qed simp

lemma in_range_keeps:
  assumes "cur_cfg s = Some c" "tab_ok (base_of c) (kthreads s k)"
    and "case snd (thread_shape (kthreads s k)) of None \<Rightarrow> False | Some (n, l) \<Rightarrow> b < n"
  shows "\<exists>s'. set_bit_in_range b k s = Some s' \<and> comm_keeps s s'"
    "\<exists>s'. clear_bit_in_range b k s = Some s' \<and> comm_keeps s s'"
proof -
  obtain p where "k_pct (kthreads s k) = Some p" using tab_ok_pct [OF assms(2)] by blast
  moreover from this have "b < pct_noCommPorts p" using assms(3) by (simp add: thread_shape_def)
  ultimately show "\<exists>s'. set_bit_in_range b k s = Some s' \<and> comm_keeps s s'"
    "\<exists>s'. clear_bit_in_range b k s = Some s' \<and> comm_keeps s s'"
    using port_bit_keeps [OF assms(1,2)] by (simp_all add: set_bit_in_range_def clear_bit_in_range_def)
qed

section \<open>Setting up a channel\<close>

text \<open>The start of a channel: its own addresses are not in use.\<close>

definition fresh_addrs :: "(addr \<Rightarrow> addr list option) \<Rightarrow> addr \<Rightarrow> addr \<Rightarrow> addr \<Rightarrow> nat \<Rightarrow> 'a dl_store_scheme \<Rightarrow> bool" where
  "fresh_addrs f fr rc pool n s \<longleftrightarrow> fr \<noteq> NULL \<and> rc \<noteq> NULL \<and> pool \<noteq> NULL \<and> fr \<noteq> rc \<and> f fr = None \<and> f rc = None \<and>
     (\<forall>x. nd_list (dnode s x) \<noteq> fr \<and> nd_list (dnode s x) \<noteq> rc) \<and>
     (\<forall>l xs. f l = Some xs \<longrightarrow> set xs \<inter> {pool..<pool + n} = {})"

lemma zero_nodes_inv:
  assumes "dl_inv s f" "fresh_addrs f fr rc pool n s"
  shows "dl_inv (zero_nodes pool n s) f"
  unfolding dl_inv_def
proof (intro allI impI)
  fix l xs assume l: "f l = Some xs"
  have rep: "dl_rep s l xs" using assms(1) l by (rule dl_inv_rep)
  have dis: "x \<notin> {pool..<pool + n}" if "x \<in> set xs" for x using assms(2) l that unfolding fresh_addrs_def by blast
  have "dl_cyc (zero_nodes pool n s) xs = dl_cyc s xs"
    using dis by (intro dl_cyc_cong) (auto simp: zero_nodes_def)
  then show "dl_rep (zero_nodes pool n s) l xs"
    using rep dis unfolding dl_rep_def by (auto simp: zero_nodes_def)
qed

lemma init_list_inv:
  assumes "dl_inv s f" "f l = None" "l \<noteq> NULL" "\<forall>x. nd_list (dnode s x) \<noteq> l"
  shows "dl_inv (DynListInit l s) (f(l \<mapsto> []))"
proof -
  have "dl_rep (DynListInit l s) m xs" if "f m = Some xs" "m \<noteq> l" for m xs
    using dl_inv_rep [OF assms(1) that(1)] that(2) dl_cyc_cong [of xs "DynListInit l s" s]
    by (simp add: dl_rep_def DynListInit_def)
  moreover have "dl_rep (DynListInit l s) l []" using assms(3,4) by (simp add: dl_rep_def DynListInit_def dl_cyc_def)
  ultimately show ?thesis by (simp add: dl_inv_def)
qed

lemma fill_pool_spec:
  assumes "dl_inv s f" "f l = Some xs" "\<forall>a \<in> set as. dl_free s a" "distinct as"
  shows "\<exists>s'. fill_pool l as s = Some s' \<and> dl_inv s' (f(l \<mapsto> rev as @ xs)) \<and> dl_store.more s' = dl_store.more s"
  using assms
proof (induction as arbitrary: s f xs)
  case Nil
  then show ?case by (simp add: map_upd_triv)
next
  case (Cons a as)
  obtain t where t: "DynListInsertHead l a s = Some (0, t)" "dl_inv t (f(l \<mapsto> a # xs))"
    "\<forall>x. dl_free t x \<longleftrightarrow> dl_free s x \<and> x \<noteq> a" "dl_store.more t = dl_store.more s"
    using dl_inv_ins_head [OF Cons.prems(1,2)] Cons.prems(3) by force
  have "\<exists>s'. fill_pool l as t = Some s' \<and> dl_inv s' ((f(l \<mapsto> a # xs))(l \<mapsto> rev as @ a # xs)) \<and>
      dl_store.more s' = dl_store.more t"
    using Cons.prems(3,4) t(3) by (intro Cons.IH t(2)) auto
  then show ?case using t by (simp only: fun_upd_upd) (auto simp: fun_upd_def)
qed

section \<open>A transfer on a queuing channel\<close>

text \<open>The request is acceptable: port \<open>desc\<close> is an open queuing port of the current partition for
  channel \<open>i\<close>, the size is in range and the memory accessible.\<close>

definition queuing_request :: "u32 \<Rightarrow> u32 \<Rightarrow> u32 \<Rightarrow> u32 \<Rightarrow> u32 \<Rightarrow> s32 \<Rightarrow> s32 \<Rightarrow> s32 \<Rightarrow> 'a cstate_scheme \<Rightarrow> bool" where
  "queuing_request desc ptr n dir fl i len no s \<longleftrightarrow>
     cur_partid s = Some (OBJDESC_GET_PARTITIONID desc) \<and>
     transfer_guards (unat (OBJDESC_GET_ID desc)) XM_QUEUING_PORT dir n s = Some XM_OK \<and>
     i \<noteq> XM_NULL_CHANNEL \<and>
     map_option cp_channelId (aget (xmcCommPorts (cfg s)) (unat (OBJDESC_GET_ID desc))) = Some i \<and>
     queuing_cfg i s = Some (len, no) \<and> n \<le> word_of_int len \<and> CheckGParam ptr n 1 fl s = Some 0"

text \<open>The partitions at the ends of the channel have control tables that are large enough.\<close>

definition ends_ok :: "s32 \<Rightarrow> 'a cstate_scheme \<Rightarrow> bool" where
  "ends_ok i s \<longleftrightarrow> (case (cur_cfg s, GetPartition (cKThread s) s, get_qchan i s) of
     (Some c, Some me, Some ch) \<Rightarrow> part_ok c me s \<and>
       (case q_receiver ch of None \<Rightarrow> True | Some r \<Rightarrow> part_ok c r s \<and> port_in_tabs (q_receiverPort ch) r s) \<and>
       (case q_sender ch of None \<Rightarrow> True | Some r \<Rightarrow> part_ok c r s \<and> port_in_tabs (q_senderPort ch) r s)
     | _ \<Rightarrow> False)"

definition is_end :: "(qchannel \<Rightarrow> nat option) \<Rightarrow> s32 \<Rightarrow> 'a cstate_scheme \<Rightarrow> bool" where
  "is_end f i s \<longleftrightarrow> (case get_qchan i s of None \<Rightarrow> False | Some ch \<Rightarrow> f ch \<noteq> None \<and> f ch = GetPartition (cKThread s) s)"

lemma ends_okE:
  assumes "ends_ok i s"
  obtains c me ch where "cur_cfg s = Some c" "GetPartition (cKThread s) s = Some me" "get_qchan i s = Some ch"
    "part_ok c me s" "\<forall>r. q_receiver ch = Some r \<longrightarrow> part_ok c r s \<and> port_in_tabs (q_receiverPort ch) r s"
    "\<forall>r. q_sender ch = Some r \<longrightarrow> part_ok c r s \<and> port_in_tabs (q_senderPort ch) r s"
  using assms by (auto simp: ends_ok_def split: option.splits)

lemma keeps_queue:
  assumes "comm_keeps s s'"
  shows "queue_ok i len no s' = queue_ok i len no s" "queue_contents i s' = queue_contents i s"
    "get_qchan i s' = get_qchan i s"
proof -
  have g: "get_qchan i s' = get_qchan i s" by (simp add: get_qchan_def comm_keeps_fields [OF assms])
  have d: "dl_inv s' f = dl_inv s f" for f by (rule dl_inv_cong) (simp_all add: comm_keeps_fields [OF assms])
  have w: "dl_walk s' k n = dl_walk s k n" for k n
    by (induction k arbitrary: n) (simp_all add: comm_keeps_fields [OF assms])
  show "get_qchan i s' = get_qchan i s" by (rule g)
  show "queue_ok i len no s' = queue_ok i len no s" by (simp add: queue_ok_def g d)
  show "queue_contents i s' = queue_contents i s"
    by (cases "get_qchan i s")
      (simp_all add: queue_contents_def g chan_contents_def dl_list_def w comm_keeps_fields [OF assms])
qed

text \<open>After the message has moved, the ends are as before.\<close>

lemma chan_step_ends:
  assumes "chan_step i s s'"
  shows "cur_cfg s' = cur_cfg s" "GetPartition k s' = GetPartition k s" "cKThread s' = cKThread s"
    "ends_ok i s \<Longrightarrow> ends_ok i s'" "is_end q_sender i s' = is_end q_sender i s"
proof -
  obtain ch ch' where ch: "get_qchan i s = Some ch" "get_qchan i s' = Some ch'" "chan_ends ch' = chan_ends ch"
    using assms by (auto simp: chan_step_def)
  note fr = chan_step_frame [OF assms]
  show gp: "GetPartition k s' = GetPartition k s" for k by (simp add: GetPartition_def fr)
  show cc: "cur_cfg s' = cur_cfg s" by (simp add: cur_cfg_def cur_partition_def gp fr)
  show "cKThread s' = cKThread s" by (rule fr(4))
  have pb: "part_by_index r s' = part_by_index r s" for r by (simp add: part_by_index_def part_vcpus_def fr)
  have po: "part_ok c r s' = part_ok c r s" "port_in_tabs b r s' = port_in_tabs b r s" for c r b
    by (cases "part_by_index r s"; simp add: part_ok_def port_in_tabs_def pb fr)+
  show "ends_ok i s'" if "ends_ok i s"
    using that ch by (auto simp: ends_ok_def cc gp po fr chan_ends_def split: option.splits)
  show "is_end q_sender i s' = is_end q_sender i s"
    using ch by (auto simp: is_end_def gp fr chan_ends_def)
qed

lemma queuing_sent_keeps:
  assumes "ends_ok i s" "is_end q_sender i s"
  shows "\<exists>s'. queuing_sent i s = Some s' \<and> comm_keeps s s'"
proof -
  obtain c me ch where e: "cur_cfg s = Some c" "GetPartition (cKThread s) s = Some me" "get_qchan i s = Some ch"
    "part_ok c me s" "\<forall>r. q_receiver ch = Some r \<longrightarrow> part_ok c r s \<and> port_in_tabs (q_receiverPort ch) r s"
    using assms(1) by (rule ends_okE)
  have snd: "q_sender ch = Some me" using assms(2) e(2,3) by (auto simp: is_end_def)
  have "\<exists>t. (case q_receiver ch of None \<Rightarrow> Some s
       | Some r \<Rightarrow> do {
           ks \<leftarrow> part_by_index r s;
           s \<leftarrow> ofold (set_bit_in_range (q_receiverPort ch)) ks s;
           notify_part r XM_VT_EXT_QUEUING_PORT s }) = Some t \<and> comm_keeps s t"
  proof (cases "q_receiver ch")
    case (Some r)
    have ok: "part_ok c r s" "port_in_tabs (q_receiverPort ch) r s" using e(5) Some by auto
    then obtain ks where ks: "part_by_index r s = Some ks" by (auto simp: part_ok_def split: option.splits)
    obtain t where t: "ofold (set_bit_in_range (q_receiverPort ch)) ks s = Some t" "comm_keeps s t"
    proof -
      have "\<exists>t. ofold (set_bit_in_range (q_receiverPort ch)) ks s = Some t \<and> comm_keeps s t"
        by (rule bits_loop_keeps [OF e(1) ks ok(1)], rule in_range_keeps)
          (use ok(2) ks in \<open>auto simp: port_in_tabs_def list_all_iff comm_keeps_fields(12)\<close>)
      then show thesis using that by blast
    qed
    have "part_ok c r t" using ok(1) t(2) by (simp add: part_ok_keeps)
    then obtain u where "notify_part r XM_VT_EXT_QUEUING_PORT t = Some u" "comm_keeps t u"
      using notify_part_keeps [of c r t XM_VT_EXT_QUEUING_PORT] by (auto simp: ext_irq_defs)
    then show ?thesis using Some ks t comm_keeps_trans by auto
  qed simp
  then obtain t where t: "(case q_receiver ch of None \<Rightarrow> Some s
       | Some r \<Rightarrow> do {
           ks \<leftarrow> part_by_index r s;
           s \<leftarrow> ofold (set_bit_in_range (q_receiverPort ch)) ks s;
           notify_part r XM_VT_EXT_QUEUING_PORT s }) = Some t" "comm_keeps s t" by blast
  obtain ks where ks: "part_by_index me t = Some ks"
    using e(4) by (auto simp: part_ok_def cur_cfg_keeps [OF t(2)] split: option.splits)
  have "\<exists>u. ofold (\<lambda>k s. do { ASSERT (q_sender ch = Some me); set_port_bit (word_of_int (q_senderPort ch)) k s }) ks t =
      Some u \<and> comm_keeps t u"
  proof (rule bits_loop_keeps [of t c me])
    show "cur_cfg t = Some c" "part_ok c me t"
      using e(1,4) by (simp_all add: cur_cfg_keeps [OF t(2)] part_ok_keeps [OF t(2)])
  qed (use ks snd port_bit_keeps in auto)
  then obtain u where "ofold (\<lambda>k s. do { ASSERT (q_sender ch = Some me); set_port_bit (word_of_int (q_senderPort ch)) k s }) ks t =
      Some u" "comm_keeps t u" by blast
  then show ?thesis
    using e(2,3) t ks cur_cfg_keeps(2) [OF t(2)] comm_keeps_fields(5) [OF t(2)] comm_keeps_trans
    by (auto simp: queuing_sent_def)
qed

lemma queuing_received_keeps:
  assumes "ends_ok i s" "cur_cfg s = Some c" "GetPartition (cKThread s) s = Some me"
    "port_in_tabs (uint (word_of_nat port - pc_commPortsOffset c :: u32)) me s"
  shows "\<exists>s'. queuing_received port i s = Some s' \<and> comm_keeps s s'"
proof -
  obtain ch where e: "get_qchan i s = Some ch" "part_ok c me s"
    "\<forall>r. q_sender ch = Some r \<longrightarrow> part_ok c r s \<and> port_in_tabs (q_senderPort ch) r s"
    using assms(1-3) by (auto elim!: ends_okE)
  have "\<exists>t. (case q_sender ch of None \<Rightarrow> Some s | Some x \<Rightarrow> notify_part x XM_VT_EXT_QUEUING_PORT s) = Some t \<and> comm_keeps s t"
  proof (cases "q_sender ch")
    case (Some r)
    then show ?thesis using e(3) notify_part_keeps [of c r s XM_VT_EXT_QUEUING_PORT] by (auto simp: ext_irq_defs)
  qed simp
  then obtain t where t: "(case q_sender ch of None \<Rightarrow> Some s | Some x \<Rightarrow> notify_part x XM_VT_EXT_QUEUING_PORT s) = Some t"
    "comm_keeps s t" by blast
  show ?thesis
  proof (cases "q_usedMsgs ch = 0")
    case False
    then show ?thesis using e(1) t by (auto simp: queuing_received_def)
  next
    case True
    let ?f = "\<lambda>k s. do { p \<leftarrow> k_pct (kthreads s k);
              ASSERT ((word_of_nat port - pc_commPortsOffset c :: u32) < word_of_int (pct_noCommPorts p));
              clear_port_bit (pc_commPortsOffset c) k s }"
    have ct: "cur_cfg t = Some c" "part_ok c me t" "port_in_tabs (uint (word_of_nat port - pc_commPortsOffset c :: u32)) me t"
      using assms(2,4) e(2) by (simp_all add: cur_cfg_keeps [OF t(2)] part_ok_keeps [OF t(2)])
    then obtain ks where ks: "part_by_index me t = Some ks" by (auto simp: part_ok_def split: option.splits)
    have "\<exists>u. ofold ?f ks t = Some u \<and> comm_keeps t u"
    proof (rule bits_loop_keeps [OF ct(1) ks ct(2)])
      fix k v assume k: "k \<in> set ks" "comm_keeps t v" "cur_cfg v = Some c" "tab_ok (base_of c) (kthreads v k)"
      obtain p where p: "k_pct (kthreads v k) = Some p" "0 \<le> pct_noCommPorts p" using tab_ok_pct [OF k(4)] by blast
      have "uint (word_of_nat port - pc_commPortsOffset c :: u32) < pct_noCommPorts p"
      proof -
        have "snd (thread_shape (kthreads v k)) = Some (pct_noCommPorts p, length (pct_tail p))"
          using p(1) by (simp add: thread_shape_def)
        then have "snd (thread_shape (kthreads t k)) = Some (pct_noCommPorts p, length (pct_tail p))"
          by (simp only: comm_keeps_fields(12) [OF k(2)])
        then show ?thesis using ct(3) ks k(1) by (auto simp: port_in_tabs_def list_all_iff)
      qed
      moreover have "pct_noCommPorts p < 2 ^ 31" using k(4) p(1) by (simp add: tab_ok_def thread_shape_def)
      ultimately have "(word_of_nat port - pc_commPortsOffset c :: u32) < word_of_int (pct_noCommPorts p)"
        using p(2) by (simp add: word_less_def uint_word_of_int)
      then show "\<exists>s'. ?f k v = Some s' \<and> comm_keeps v s'"
        using p(1) port_bit_keeps(2) [OF k(3,4), of "pc_commPortsOffset c"] by simp
    qed
    then obtain u where u: "ofold ?f ks t = Some u" "comm_keeps t u" by blast
    have su: "comm_keeps s u" using t(2) u(2) by (rule comm_keeps_trans)
    have "\<exists>v. (case q_sender ch of None \<Rightarrow> Some u
       | Some x \<Rightarrow> do { ks \<leftarrow> part_by_index x u; ofold (clear_bit_in_range (q_senderPort ch)) ks u }) = Some v \<and> comm_keeps u v"
    proof (cases "q_sender ch")
      case (Some r)
      then have ok: "part_ok c r u" "port_in_tabs (q_senderPort ch) r u" "cur_cfg u = Some c"
        using e(3) assms(2) by (simp_all add: part_ok_keeps [OF su] cur_cfg_keeps [OF su])
      then obtain ls where ls: "part_by_index r u = Some ls" by (auto simp: part_ok_def split: option.splits)
      have "\<exists>v. ofold (clear_bit_in_range (q_senderPort ch)) ls u = Some v \<and> comm_keeps u v"
        by (rule bits_loop_keeps [OF ok(3) ls ok(1)], rule in_range_keeps)
          (use ok(2) ls in \<open>auto simp: port_in_tabs_def list_all_iff comm_keeps_fields(12)\<close>)
      then show ?thesis using Some ls by simp
    qed simp
    then show ?thesis
      using e(1) True t u ks ct(1) assms(3) comm_keeps_trans su
      by (auto simp: queuing_received_def cur_cfg_keeps [OF t(2)] comm_keeps_fields(5) [OF t(2)])
  qed
qed

text \<open>Writing to guest memory changes none of this.\<close>

lemma gmem_queue:
  "get_qchan i (s\<lparr>gmem := m\<rparr>) = get_qchan i s" "queue_ok i len no (s\<lparr>gmem := m\<rparr>) = queue_ok i len no s"
  "queue_contents i (s\<lparr>gmem := m\<rparr>) = queue_contents i s" "cur_cfg (s\<lparr>gmem := m\<rparr>) = cur_cfg s"
  "ends_ok i (s\<lparr>gmem := m\<rparr>) = ends_ok i s" "port_in_tabs b r (s\<lparr>gmem := m\<rparr>) = port_in_tabs b r s"
proof -
  show g: "get_qchan i (s\<lparr>gmem := m\<rparr>) = get_qchan i s" by (simp add: get_qchan_def)
  have d: "dl_inv (s\<lparr>gmem := m\<rparr>) f = dl_inv s f" for f by (rule dl_inv_cong) simp_all
  have w: "dl_walk (s\<lparr>gmem := m\<rparr>) k n = dl_walk s k n" for k n by (induction k arbitrary: n) simp_all
  show "queue_ok i len no (s\<lparr>gmem := m\<rparr>) = queue_ok i len no s" by (simp add: queue_ok_def g d)
  show "queue_contents i (s\<lparr>gmem := m\<rparr>) = queue_contents i s"
    by (cases "get_qchan i s") (simp_all add: queue_contents_def g chan_contents_def dl_list_def w)
  show cc: "cur_cfg (s\<lparr>gmem := m\<rparr>) = cur_cfg s" by (simp add: cur_cfg_def cur_partition_def)
  have pb: "part_by_index r (s\<lparr>gmem := m\<rparr>) = part_by_index r s" for r by (simp add: part_by_index_def part_vcpus_def)
  have p: "part_ok c r (s\<lparr>gmem := m\<rparr>) = part_ok c r s" "port_in_tabs b r (s\<lparr>gmem := m\<rparr>) = port_in_tabs b r s" for c r b
    by (cases "part_by_index r s"; simp add: part_ok_def port_in_tabs_def pb)+
  show "port_in_tabs b r (s\<lparr>gmem := m\<rparr>) = port_in_tabs b r s" by (rule p)
  show "ends_ok i (s\<lparr>gmem := m\<rparr>) = ends_ok i s" by (simp add: ends_ok_def cc g p split: option.splits)
qed

lemma keeps_gread:
  assumes "comm_keeps s s'" shows "gread_bytes a n s' = gread_bytes a n s" "gread_u32 b s' = gread_u32 b s"
    "writable_at a n s' = writable_at a n s"
proof -
  have g: "gread a s' = gread a s" for a
    by (simp add: gread_def comm_keeps_fields [OF assms] cur_cfg_keeps [OF assms] cong: if_cong)
  then have b: "gread_bytes a n s' = gread_bytes a n s" for a n by (induction n arbitrary: a) simp_all
  then show "gread_bytes a n s' = gread_bytes a n s" "gread_u32 b s' = gread_u32 b s" by (simp_all add: gread_u32_def)
  show "writable_at a n s' = writable_at a n s"
    by (simp add: writable_at_def comm_keeps_fields [OF assms] cur_cfg_keeps [OF assms])
qed

section \<open>A transfer on a sampling channel\<close>

lemma port_upd_keeps:
  assumes "i < length (portTab s)" "\<And>po. po_partitionId (f po) = po_partitionId po"
    "\<And>po. has_flag (po_flags (f po)) COMM_PORT_OPENED = has_flag (po_flags po) COMM_PORT_OPENED"
  shows "\<exists>s'. port_upd i f s = Some s' \<and> comm_keeps s s'"
proof -
  have "map po_partitionId ((portTab s)[i := f (portTab s ! i)]) = map po_partitionId (portTab s)"
    using assms(1, 2) by (simp add: map_update list_update_same_conv)
  moreover have "map (\<lambda>po. has_flag (po_flags po) COMM_PORT_OPENED) ((portTab s)[i := f (portTab s ! i)]) =
      map (\<lambda>po. has_flag (po_flags po) COMM_PORT_OPENED) (portTab s)"
    using assms(1, 3) by (simp add: map_update list_update_same_conv)
  ultimately show ?thesis using assms(1) by (simp add: port_upd_def aget_def comm_keeps_def)
qed

lemma mark_port_keeps:
  assumes "i < length (portTab s)" "w AND COMM_PORT_OPENED = 0"
  shows "\<exists>s'. port_upd i (\<lambda>po. po\<lparr>po_flags := set_flag (clr_flag (po_flags po) COMM_PORT_MSG_MASK) w\<rparr>) s = Some s' \<and>
    comm_keeps s s'"
proof (rule port_upd_keeps [OF assms(1)])
  fix po :: port
  have "COMM_PORT_MSG_MASK AND COMM_PORT_OPENED = 0" by (simp add: comm_defs)
  then show "has_flag (po_flags (po\<lparr>po_flags := set_flag (clr_flag (po_flags po) COMM_PORT_MSG_MASK) w\<rparr>)) COMM_PORT_OPENED =
      has_flag (po_flags po) COMM_PORT_OPENED"
    using assms(2) by (simp add: has_flag_set_disj has_flag_clr_disj)
qed simp

text \<open>What the receivers of a channel need.\<close>

definition receiver_ok :: "xmcPartition \<Rightarrow> 'a cstate_scheme \<Rightarrow> nat option \<times> s32 \<Rightarrow> bool" where
  "receiver_ok c s x \<longleftrightarrow> (case fst x of None \<Rightarrow> True
     | Some r \<Rightarrow> part_ok c r s \<and> port_in_tabs (snd x) r s \<and> 0 \<le> snd x \<and> nat (snd x) < length (portTab s))"

definition receivers_ok :: "xmcPartition \<Rightarrow> schannel \<Rightarrow> 'a cstate_scheme \<Rightarrow> bool" where
  "receivers_ok c ch s \<longleftrightarrow> nat (sc_noReceivers ch) \<le> length (sc_receiverTab ch) \<and>
     nat (sc_noReceivers ch) \<le> length (sc_receiverPortTab ch) \<and>
     list_all (receiver_ok c s) (take (nat (sc_noReceivers ch)) (zip (sc_receiverTab ch) (sc_receiverPortTab ch)))"

lemma receiver_ok_keeps: "comm_keeps s s' \<Longrightarrow> receiver_ok c s' x = receiver_ok c s x"
  by (cases "fst x") (simp_all add: receiver_ok_def part_ok_keeps comm_keeps_fields(13))

lemma notify_receiver_keeps:
  assumes "cur_cfg s = Some c" "receiver_ok c s x"
  shows "\<exists>s'. notify_receiver x s = Some s' \<and> comm_keeps s s'"
proof (cases "fst x")
  case (Some r)
  have ok: "part_ok c r s" "port_in_tabs (snd x) r s" "0 \<le> snd x" "nat (snd x) < length (portTab s)"
    using assms(2) Some by (simp_all add: receiver_ok_def)
  obtain ks where ks: "part_by_index r s = Some ks" using ok(1) by (auto simp: part_ok_def split: option.splits)
  have "\<exists>t. ofold (receiver_new_msg (snd x)) ks s = Some t \<and> comm_keeps s t"
  proof (rule bits_loop_keeps [OF assms(1) ks ok(1)])
    fix k v assume k: "k \<in> set ks" "comm_keeps s v" "cur_cfg v = Some c" "tab_ok (base_of c) (kthreads v k)"
    have "case snd (thread_shape (kthreads v k)) of None \<Rightarrow> False | Some (n, l) \<Rightarrow> snd x < n"
      using ok(2) ks k(1) by (auto simp: port_in_tabs_def list_all_iff comm_keeps_fields(12) [OF k(2)])
    from in_range_keeps(1) [OF k(3,4) this] obtain w where w: "set_bit_in_range (snd x) k v = Some w" "comm_keeps v w"
      by blast
    have "nat (snd x) < length (portTab w)"
      using ok(4) comm_keeps_fields(13) [OF k(2)] comm_keeps_fields(13) [OF w(2)] by simp
    then obtain u where "port_upd (nat (snd x)) (\<lambda>po. po\<lparr>po_flags := set_flag (clr_flag (po_flags po) COMM_PORT_MSG_MASK)
        COMM_PORT_NEW_MSG\<rparr>) w = Some u" "comm_keeps w u"
      using mark_port_keeps [of "nat (snd x)" w COMM_PORT_NEW_MSG] by (auto simp: comm_defs)
    then show "\<exists>s'. receiver_new_msg (snd x) k v = Some s' \<and> comm_keeps v s'"
      using w ok(3) comm_keeps_trans by (auto simp: receiver_new_msg_def cidx_def)
  qed
  then obtain t where t: "ofold (receiver_new_msg (snd x)) ks s = Some t" "comm_keeps s t" by blast
  have "part_ok c r t" using ok(1) by (simp add: part_ok_keeps [OF t(2)])
  then obtain u where "notify_part r XM_VT_EXT_SAMPLING_PORT t = Some u" "comm_keeps t u"
    using notify_part_keeps [of c r t XM_VT_EXT_SAMPLING_PORT] by (auto simp: ext_irq_defs)
  then show ?thesis using Some ks t comm_keeps_trans by (auto simp: notify_receiver_def)
qed (simp add: notify_receiver_def)

lemma sampling_written_keeps:
  assumes "cur_cfg s = Some c" "GetPartition (cKThread s) s = Some me" "sc_sender ch = Some me"
    and "part_ok c me s" "receivers_ok c ch s"
  shows "\<exists>t. sampling_written port ch s = Some t \<and> comm_keeps s t"
proof -
  let ?xs = "take (nat (sc_noReceivers ch)) (zip (sc_receiverTab ch) (sc_receiverPortTab ch))"
  obtain ks where ks: "part_by_index me s = Some ks" using assms(4) by (auto simp: part_ok_def split: option.splits)
  have "\<exists>u. ofold (set_port_bit (word_of_nat port)) ks s = Some u \<and> comm_keeps s u"
    by (rule bits_loop_keeps [OF assms(1) ks assms(4)], rule port_bit_keeps)
  then obtain u where u: "ofold (set_port_bit (word_of_nat port)) ks s = Some u" "comm_keeps s u" by blast
  have "\<exists>t. ofold notify_receiver ?xs u = Some t \<and> comm_keeps s t"
  proof (rule ofold_keeps [where P = "comm_keeps s"])
    fix x v assume x: "x \<in> set ?xs" "comm_keeps s v"
    then have "receiver_ok c v x" using assms(5) by (simp add: receivers_ok_def list_all_iff receiver_ok_keeps)
    moreover have "cur_cfg v = Some c" using assms(1) by (simp add: cur_cfg_keeps [OF x(2)])
    ultimately obtain w where "notify_receiver x v = Some w" "comm_keeps v w" using notify_receiver_keeps by blast
    then show "\<exists>s'. notify_receiver x v = Some s' \<and> comm_keeps s s'" using x(2) comm_keeps_trans by blast
  qed (rule u(2))
  then show ?thesis
    using assms(2,3,5) ks u(1) by (auto simp: sampling_written_def set_bits_def receivers_ok_def)
qed

lemma sampling_consumed_keeps:
  assumes "cur_cfg s = Some c" "port < length (portTab s)" "tab_ok (base_of c) (kthreads s (cKThread s))"
    and "case snd (thread_shape (kthreads s (cKThread s))) of None \<Rightarrow> False
      | Some (n, l) \<Rightarrow> uint (word_of_nat port - pc_commPortsOffset c :: u32) < n"
    and "\<forall>r. sc_sender ch = Some r \<longrightarrow> part_ok c r s"
  shows "\<exists>t. sampling_consumed port ch s = Some t \<and> comm_keeps s t"
proof -
  obtain u where u: "port_upd port (\<lambda>po. po\<lparr>po_flags := set_flag (clr_flag (po_flags po) COMM_PORT_MSG_MASK)
      COMM_PORT_CONSUMED_MSG\<rparr>) s = Some u" "comm_keeps s u"
    using mark_port_keeps [OF assms(2), of COMM_PORT_CONSUMED_MSG] by (auto simp: comm_defs)
  have c: "cur_cfg u = Some c" "tab_ok (base_of c) (kthreads u (cKThread u))"
    using assms(1,3) by (simp_all add: cur_cfg_keeps [OF u(2)] tab_ok_keeps [OF u(2)] comm_keeps_fields(5) [OF u(2)])
  obtain p where p: "k_pct (kthreads u (cKThread u)) = Some p" "0 \<le> pct_noCommPorts p" using tab_ok_pct [OF c(2)] by blast
  have sh: "snd (thread_shape (kthreads u (cKThread u))) = Some (pct_noCommPorts p, length (pct_tail p))"
    using p(1) by (simp add: thread_shape_def)
  then have "snd (thread_shape (kthreads s (cKThread s))) = Some (pct_noCommPorts p, length (pct_tail p))"
    by (simp only: comm_keeps_fields(12) [OF u(2)] comm_keeps_fields(5) [OF u(2)])
  then have "uint (word_of_nat port - pc_commPortsOffset c :: u32) < pct_noCommPorts p" using assms(4) by simp
  moreover have "pct_noCommPorts p < 2 ^ 31" using c(2) sh by (simp add: tab_ok_def)
  ultimately have lt: "(word_of_nat port - pc_commPortsOffset c :: u32) < word_of_int (pct_noCommPorts p)"
    using p(2) by (simp add: word_less_def uint_word_of_int)
  obtain v where v: "clear_port_bit (word_of_nat port - pc_commPortsOffset c) (cKThread u) u = Some v" "comm_keeps u v"
    using port_bit_keeps(2) [OF c] by blast
  have sv: "comm_keeps s v" using u(2) v(2) by (rule comm_keeps_trans)
  have "\<exists>w. (case sc_sender ch of None \<Rightarrow> Some v
     | Some i \<Rightarrow> do { s \<leftarrow> clear_bits i (word_of_int (sc_senderPort ch)) v; notify_part i XM_VT_EXT_SAMPLING_PORT s }) = Some w \<and>
     comm_keeps v w"
  proof (cases "sc_sender ch")
    case (Some r)
    then have ok: "part_ok c r v" "cur_cfg v = Some c"
      using assms(1,5) by (simp_all add: part_ok_keeps [OF sv] cur_cfg_keeps [OF sv])
    then obtain ks where ks: "part_by_index r v = Some ks" by (auto simp: part_ok_def split: option.splits)
    have "\<exists>x. ofold (clear_port_bit (word_of_int (sc_senderPort ch))) ks v = Some x \<and> comm_keeps v x"
      by (rule bits_loop_keeps [OF ok(2) ks ok(1)], rule port_bit_keeps)
    then obtain x where x: "ofold (clear_port_bit (word_of_int (sc_senderPort ch))) ks v = Some x" "comm_keeps v x" by blast
    have "part_ok c r x" using ok(1) by (simp add: part_ok_keeps [OF x(2)])
    then show ?thesis
      using Some ks x notify_part_keeps [of c r x XM_VT_EXT_SAMPLING_PORT] comm_keeps_trans
      by (fastforce simp: clear_bits_def ext_irq_defs)
  qed simp
  then show ?thesis
    using u v p(1) c(1) lt comm_keeps_trans sv by (auto simp: sampling_consumed_def)
qed

end
