(* ===== verification/CommProps.thy ===== *)
theory CommProps
  imports CommNotify Samples
begin

text \<open>
  The properties of the ports and of the guest memory check, with a witness at a concrete system
  for each.
\<close>

section \<open>The guest memory check\<close>

text \<open>C33: A parameter that CheckGParam accepts for writing, and whose address plus size does not wrap
  around the address space, can be written over that size, and the kernel reads back what it wrote. Of a
  size that wraps nothing is said: \<open>check_accepts_wrapped_size\<close> shows that it is accepted unprobed.\<close>

theorem checked_parameter_is_safe:
  assumes "CheckGParam param (word_of_nat (length bs)) al fl s = Some 0" "has_flag fl PFLAG_RW"
    and "unat param + length bs < 2 ^ 32"
  shows "\<exists>s'. gwrite_bytes param bs s = Some s' \<and> gread_bytes param (length bs) s' = Some bs"
proof -
  have "unat (word_of_nat (length bs) :: u32) = length bs" using assms(3) by (intro unat_u32) simp
  then have "writable_at param (length bs) s"
    using CheckGParam_writable [OF assms(1) _ assms(2)] assms(3) by simp
  then show ?thesis by (rule gwrite_gread)
qed

lemma demo_check: "CheckGParam 0x3000 (word_of_nat (length [1, 2, 3 :: u8])) 1 PFLAG_RW demo_raw = Some 0"
  by code_simp

theorem checked_parameter_is_safe_witness:
  "\<exists>s'. gwrite_bytes 0x3000 [1, 2, 3] demo_raw = Some s' \<and> gread_bytes 0x3000 (length [1, 2, 3 :: u8]) s' = Some [1, 2, 3]"
  by (rule checked_parameter_is_safe [OF demo_check]) (simp_all add: has_flag_def PFLAG_RW_def)

text \<open>A size that wraps around passes the check although the kernel cannot read the bytes: the
  check compares the wrapped end, which is below the start, so its loop probes nothing.\<close>

theorem check_accepts_wrapped_size:
  assumes "GetPartition (cKThread s) s = Some part" "0 < param" "param < CONFIG_XM_OFFSET" "param + sz \<le> param"
  shows "CheckGParam param sz al fl s = Some 0 \<and>
    (\<not> g_readable s part (page_of param) \<longrightarrow> gread_bytes param (Suc n) s = None)"
proof -
  have "\<not> CONFIG_XM_OFFSET \<le> param + sz" "\<not> CONFIG_XM_OFFSET \<le> param" "param \<noteq> 0"
    using assms(2-4) by auto
  moreover have "probe ok (uint param) (uint (param + sz))" for ok
    using assms(4) by (subst probe.simps) (simp add: word_le_def not_less)
  ultimately have "CheckGParam param sz al fl s = Some 0"
    using assms by (simp add: CheckGParam_def AsmRWCheck_def AsmROnlyCheck_def)
  moreover have "gread_bytes param (Suc n) s = None" if "\<not> g_readable s part (page_of param)"
    using that assms(1) by (simp add: gread_def)
  ultimately show ?thesis by blast
qed

lemma demo_part: "GetPartition (cKThread demo_raw) demo_raw = Some 0"
  by code_simp

theorem check_accepts_wrapped_size_witness:
  "CheckGParam 0x20000 0xFFFF0000 1 PFLAG_NOT_NULL demo_raw = Some 0 \<and> gread_bytes 0x20000 (Suc 0) demo_raw = None"
proof -
  have "\<not> g_readable demo_raw 0 (page_of 0x20000)" by code_simp
  then show ?thesis
    using check_accepts_wrapped_size [OF demo_part, where param = "0x20000" and sz = "0xFFFF0000" and al = 1 and
        fl = PFLAG_NOT_NULL and n = 0]
    by (simp add: CONFIG_XM_OFFSET_def)
qed

section \<open>Queuing ports\<close>

text \<open>Setting up a queuing channel on fresh memory makes a well-formed empty queue with room
  for the configured number of messages, and leaves the channels before it alone.\<close>

theorem setup_makes_empty_queue:
  assumes "aget (xmcCommChannelTab (cfg s)) e = Some (QueuingChannel len no)" "0 \<le> len" "len < 2 ^ 31"
    and "dl_inv s f" "al e = (fr, rc, pool)" "fresh_addrs f fr rc pool (nat no) s" "length (channelTab s) = e"
  shows "\<exists>s'. setup_channel al e s = Some s' \<and> queue_ok (int e) len no s' \<and> queue_contents (int e) s' = [] \<and>
    channelTab s' = channelTab s @ [QChan \<lparr>q_msgPool = replicate (nat no) \<lparr>m_buffer = replicate (nat len) 0, m_length = 0\<rparr>,
      q_pool = pool, q_freeMsgs = fr, q_recvMsgs = rc, q_usedMsgs = 0, q_receiver = None, q_receiverPort = 0,
      q_sender = None, q_senderPort = 0\<rparr>]"
proof -
  have fr: "fr \<noteq> NULL" "rc \<noteq> NULL" "pool \<noteq> NULL" "fr \<noteq> rc" "f fr = None" "f rc = None"
    "\<forall>x. nd_list (dnode s x) \<noteq> fr \<and> nd_list (dnode s x) \<noteq> rc"
    using assms(6) by (simp_all add: fresh_addrs_def)
  let ?s1 = "zero_nodes pool (nat no) s"
  let ?s3 = "DynListInit rc (DynListInit fr ?s1)"
  have z: "\<forall>x. nd_list (dnode ?s1 x) \<noteq> fr" "\<forall>x. nd_list (dnode ?s1 x) \<noteq> rc" using fr by (auto simp: zero_nodes_def)
  have "dl_inv (DynListInit fr ?s1) (f(fr \<mapsto> []))"
    using zero_nodes_inv [OF assms(4,6)] fr z by (intro init_list_inv) auto
  then have i3: "dl_inv ?s3 (f(fr \<mapsto> [], rc \<mapsto> []))"
    by (rule init_list_inv) (use fr z in \<open>auto simp: DynListInit_def\<close>)
  have free: "\<forall>a \<in> set [pool..<pool + nat no]. dl_free ?s3 a"
    using fr by (auto simp: dl_free_def DynListInit_def zero_nodes_def)
  obtain s4 where s4: "fill_pool fr [pool..<pool + nat no] ?s3 = Some s4"
    "dl_inv s4 ((f(fr \<mapsto> [], rc \<mapsto> []))(fr \<mapsto> rev [pool..<pool + nat no] @ []))" "dl_store.more s4 = dl_store.more ?s3"
    using fill_pool_spec [OF i3 _ free, of fr "[]"] fr(4) by auto
  have more: "dl_store.more ?s3 = dl_store.more s" by (simp add: DynListInit_def zero_nodes_def)
  have ct: "channelTab s4 = channelTab s" using more_store [of s4 s] s4(3) more by simp
  define ch where "ch = \<lparr>q_msgPool = replicate (nat no) \<lparr>m_buffer = replicate (nat len) 0, m_length = 0\<rparr>,
      q_pool = pool, q_freeMsgs = fr, q_recvMsgs = rc, q_usedMsgs = 0, q_receiver = None, q_receiverPort = 0,
      q_sender = None, q_senderPort = 0\<rparr>"
  define s' where "s' = s4\<lparr>channelTab := channelTab s4 @ [QChan ch]\<rparr>"
  have run: "setup_channel al e s = Some s'"
    using assms(1,5) s4(1) by (simp add: setup_channel_def s'_def ch_def Let_def)
  have g: "get_qchan (int e) s' = Some ch"
    using assms(7) ct by (simp add: get_qchan_def cidx_def aget_def s'_def nth_append)
  have i': "dl_inv s' (f(fr \<mapsto> rev [pool..<pool + nat no], rc \<mapsto> []))"
  proof -
    have "(f(fr \<mapsto> [], rc \<mapsto> []))(fr \<mapsto> rev [pool..<pool + nat no] @ []) = f(fr \<mapsto> rev [pool..<pool + nat no], rc \<mapsto> [])"
      using fr(4) by (auto simp: fun_eq_iff)
    then show ?thesis using s4(2) by (subst dl_inv_cong [of _ s4]) (simp_all add: s'_def)
  qed
  have "pool_ok len no (f(fr \<mapsto> rev [pool..<pool + nat no], rc \<mapsto> [])) ch"
    using assms(2,3) fr unfolding pool_ok_def
    by (intro conjI exI [of _ "rev [pool..<pool + nat no]"] exI [of _ "[]"]) (simp_all add: ch_def)
  then have "queue_ok (int e) len no s'" using g i' unfolding queue_ok_def by blast
  moreover have "queue_contents (int e) s' = []"
    using queue_contents_eq [OF g i', of "[]"] by (simp add: ch_def)
  ultimately show ?thesis using run ct by (auto simp: s'_def ch_def)
qed

text \<open>In the sample the list of the scheduler's timer is the only other one.\<close>

definition demo_lists :: "addr \<Rightarrow> addr list option" where
  "demo_lists = [40 \<mapsto> [41]]"

definition demo_setup0 :: cstate where
  "demo_setup0 = the (setup_channel demo_alloc 0 demo_raw)"

lemma demo_setup0: "setup_channel demo_alloc 0 demo_raw = Some demo_setup0" "dnode demo_setup0 = dnode demo_raw"
  "dlist demo_setup0 = dlist demo_raw" "length (channelTab demo_setup0) = 1" "cfg demo_setup0 = cfg demo_raw"
proof -
  have "aget (xmcCommChannelTab (cfg demo_raw)) 0 = Some (SamplingChannel 4 1000 1)"
    by (simp add: demo_raw_def demo_state_def demo_cfg_def Let_def aget_def)
  then have s: "setup_channel demo_alloc 0 demo_raw = Some (demo_raw\<lparr>channelTab := channelTab demo_raw @
      [SChan \<lparr>sc_buffer = replicate 4 0, sc_length = 0,
            sc_timestamp = 0, sc_receiverTab = replicate 1 None, sc_receiverPortTab = replicate 1 0,
            sc_noReceivers = 0, sc_sender = None, sc_senderPort = 0\<rparr>]\<rparr>)"
    by (simp add: setup_channel_def)
  then show "setup_channel demo_alloc 0 demo_raw = Some demo_setup0" by (simp add: demo_setup0_def)
  show "dnode demo_setup0 = dnode demo_raw" "dlist demo_setup0 = dlist demo_raw" "length (channelTab demo_setup0) = 1"
    "cfg demo_setup0 = cfg demo_raw"
    by (simp_all add: demo_setup0_def s) (simp add: demo_raw_def Let_def)
qed

lemma demo_store: "dnode demo_raw = (\<lambda>a. if a = 41 then \<lparr>nd_list = 40, nd_prev = 41, nd_next = 41\<rparr>
        else \<lparr>nd_list = NULL, nd_prev = NULL, nd_next = NULL\<rparr>)"
  "dlist demo_raw = (\<lambda>a. if a = 40 then \<lparr>l_head = 41, l_noElem = 1\<rparr> else \<lparr>l_head = NULL, l_noElem = 0\<rparr>)"
  by (simp_all add: demo_raw_def demo_state_def Let_def)

lemma demo_lists_inv: "dl_inv demo_setup0 demo_lists"
  by (auto simp: dl_inv_def demo_lists_def dl_rep_def dl_cyc_def dl_lnk_def demo_setup0(2,3) demo_store split: if_splits)

lemma demo_fresh: "fresh_addrs demo_lists 200 201 210 (nat 2) demo_setup0"
  by (auto simp: fresh_addrs_def demo_lists_def demo_setup0(2,3) demo_store)

lemma demo_queue_cfg: "aget (xmcCommChannelTab (cfg demo_setup0)) 1 = Some (QueuingChannel 4 2)"
  by (simp add: demo_setup0(5) demo_raw_def demo_state_def demo_cfg_def Let_def aget_def)

theorem setup_makes_empty_queue_witness:
  "\<exists>s'. setup_channel demo_alloc 1 demo_setup0 = Some s' \<and> queue_ok (int 1) 4 2 s' \<and> queue_contents (int 1) s' = [] \<and>
    channelTab s' = channelTab demo_setup0 @ [QChan \<lparr>q_msgPool = replicate (nat 2) \<lparr>m_buffer = replicate (nat 4) 0, m_length = 0\<rparr>,
      q_pool = 210, q_freeMsgs = 200, q_recvMsgs = 201, q_usedMsgs = 0, q_receiver = None, q_receiverPort = 0,
      q_sender = None, q_senderPort = 0\<rparr>]"
  by (rule setup_makes_empty_queue [OF demo_queue_cfg _ _ demo_lists_inv _ demo_fresh])
    (simp_all add: demo_alloc_def demo_setup0(4))

section \<open>Transfers on queuing ports\<close>

text \<open>C28: A message sent on a queuing port joins the end of the channel's queue and the call
  returns XM_OK; when the queue is full the call returns XM_OP_NOT_ALLOWED and nothing changes. No
  assertion fails.\<close>

theorem send_appends:
  assumes "queuing_request desc ptr n XM_SOURCE_PORT PFLAG_NOT_NULL i len no s" "queue_ok i len no s"
    and "ends_ok i s" "is_end q_sender i s" "gread_bytes ptr (unat n) s = Some bs"
  shows "if length (queue_contents i s) < nat no
    then \<exists>s'. SendQueuingPort desc ptr n s = Some (XM_OK, s') \<and> queue_ok i len no s' \<and>
           queue_contents i s' = queue_contents i s @ [bs]
    else SendQueuingPort desc ptr n s = Some (XM_OP_NOT_ALLOWED, s)"
proof -
  obtain p where rq: "cur_partid s = Some (OBJDESC_GET_PARTITIONID desc)"
     "transfer_guards (unat (OBJDESC_GET_ID desc)) XM_QUEUING_PORT XM_SOURCE_PORT n s = Some XM_OK"
     "i \<noteq> XM_NULL_CHANNEL" "aget (xmcCommPorts (cfg s)) (unat (OBJDESC_GET_ID desc)) = Some p" "cp_channelId p = i"
     "queuing_cfg i s = Some (len, no)" "n \<le> word_of_int len" "CheckGParam ptr n 1 PFLAG_NOT_NULL s = Some 0"
    using assms(1) by (auto simp: queuing_request_def)
  obtain ch where ch: "get_qchan i s = Some ch" using assms(2) by (auto simp: queue_ok_def)
  have len: "0 \<le> len" "len < 2 ^ 31" using assms(2) by (auto simp: queue_ok_def pool_ok_def)
  have used: "q_usedMsgs ch < no \<longleftrightarrow> length (queue_contents i s) < nat no"
    using queue_length [OF assms(2) ch] by auto
  show ?thesis
  proof (cases "length (queue_contents i s) < nat no")
    case True
    have "length bs = unat n" using gread_bytes_length [OF assms(5)] .
    moreover have "unat n \<le> nat len"
    proof -
      have "unat (word_of_int len :: u32) = nat len" using len by (simp add: unsigned_of_int take_bit_int_eq_self)
      then show ?thesis using rq(7) by (simp add: word_le_nat_alt)
    qed
    ultimately obtain t where t: "queue_put i bs s = Some t" "queue_ok i len no t"
      "queue_contents i t = queue_contents i s @ [bs]" "chan_step i s t"
      using queue_put_spec [OF assms(2) True, of bs] by auto
    obtain u where u: "queuing_sent i t = Some u" "comm_keeps t u"
      using queuing_sent_keeps [of i t] chan_step_ends [OF t(4)] assms(3,4) by blast
    have "SendQueuingPort desc ptr n s = Some (XM_OK, u)"
      using rq(1-6,8) rq(7) [folded not_less] ch used True assms(5) t(1) u(1) by (simp add: SendQueuingPort_def Let_def)
    then show ?thesis using True t u keeps_queue [OF u(2)] by auto
  next
    case False
    then show ?thesis using rq(1-6,8) rq(7) [folded not_less] ch used by (simp add: SendQueuingPort_def Let_def)
  qed
qed

text \<open>C29: Receiving on a queuing port gives the oldest message of the channel, cut to the requested
  size: the call returns the number of bytes, they are in the guest's memory, and the message has
  left the queue. On an empty channel the call returns XM_OP_NOT_ALLOWED and nothing changes.\<close>

theorem receive_takes_oldest:
  assumes "queuing_request desc ptr n XM_DESTINATION_PORT (PFLAG_NOT_NULL OR PFLAG_RW) i len no s"
    and "queue_ok i len no s" "ends_ok i s" "unat ptr + unat n < 2 ^ 32"
    and "cur_cfg s = Some c" "GetPartition (cKThread s) s = Some me"
    and "port_in_tabs (uint (OBJDESC_GET_ID desc - pc_commPortsOffset c)) me s"
  shows "case queue_contents i s of
      [] \<Rightarrow> ReceiveQueuingPort desc ptr n s = Some (XM_OP_NOT_ALLOWED, s)
    | m # ms \<Rightarrow> \<exists>s'. ReceiveQueuingPort desc ptr n s = Some (int (min (unat n) (length m)), s') \<and>
        gread_bytes ptr (min (unat n) (length m)) s' = Some (take (unat n) m) \<and>
        queue_ok i len no s' \<and> queue_contents i s' = ms"
proof -
  obtain p where rq: "cur_partid s = Some (OBJDESC_GET_PARTITIONID desc)"
     "transfer_guards (unat (OBJDESC_GET_ID desc)) XM_QUEUING_PORT XM_DESTINATION_PORT n s = Some XM_OK"
     "i \<noteq> XM_NULL_CHANNEL" "aget (xmcCommPorts (cfg s)) (unat (OBJDESC_GET_ID desc)) = Some p" "cp_channelId p = i"
     "queuing_cfg i s = Some (len, no)" "\<not> word_of_int len < n"
     "CheckGParam ptr n 1 (PFLAG_NOT_NULL OR PFLAG_RW) s = Some 0"
    using assms(1) by (auto simp: queuing_request_def)
  obtain ch where ch: "get_qchan i s = Some ch" using assms(2) by (auto simp: queue_ok_def)
  have used: "q_usedMsgs ch = int (length (queue_contents i s))" using queue_length(1) [OF assms(2) ch] .
  show ?thesis
  proof (cases "queue_contents i s")
    case Nil
    then show ?thesis using rq ch used by (simp add: ReceiveQueuingPort_def Let_def)
  next
    case (Cons m ms)
    obtain t where t: "queue_get i n s = Some (take (unat n) m, t)" "queue_ok i len no t"
      "queue_contents i t = ms" "chan_step i s t"
      using queue_get_spec [OF assms(2) Cons, of n] by auto
    note fr = chan_step_frame [OF t(4)] and en = chan_step_ends [OF t(4)]
    have "has_flag (PFLAG_NOT_NULL OR PFLAG_RW) PFLAG_RW" by (simp add: has_flag_def PFLAG_NOT_NULL_def PFLAG_RW_def)
    then have w: "writable_at ptr (unat n) t"
      using CheckGParam_writable [OF rq(8) assms(4)] by (simp add: writable_at_def en fr)
    have w': "writable_at ptr (length (take (unat n) m)) t"
      by (rule writable_mono [OF w]) simp
    obtain u where u: "gwrite_bytes ptr (take (unat n) m) t = Some u"
      "gread_bytes ptr (length (take (unat n) m)) u = Some (take (unat n) m)"
      using gwrite_gread [OF w'] by blast
    obtain M where M: "u = t\<lparr>gmem := M\<rparr>" using gwrite_bytes_only [OF u(1)] by blast
    have "port_in_tabs (uint (word_of_nat (unat (OBJDESC_GET_ID desc)) - pc_commPortsOffset c :: u32)) me u"
    proof -
      have "part_by_index me t = part_by_index me s" by (simp add: part_by_index_def part_vcpus_def fr)
      then have "port_in_tabs b me t = port_in_tabs b me s" for b
        by (cases "part_by_index me s") (simp_all add: port_in_tabs_def fr)
      then show ?thesis using assms(7) by (simp add: M gmem_queue)
    qed
    moreover have "ends_ok i u" "cur_cfg u = Some c" "GetPartition (cKThread u) u = Some me"
      using en assms(3,5,6) by (simp_all add: M gmem_queue)
    ultimately obtain v where v: "queuing_received (unat (OBJDESC_GET_ID desc)) i u = Some v" "comm_keeps u v"
      using queuing_received_keeps [of i u c me "unat (OBJDESC_GET_ID desc)"] by blast
    have "ReceiveQueuingPort desc ptr n s = Some (int (length (take (unat n) m)), v)"
      using rq ch used Cons t(1) u(1) v(1) by (simp add: ReceiveQueuingPort_def Let_def)
    moreover have "queue_ok i len no v" "queue_contents i v = ms"
      using t(2,3) keeps_queue [OF v(2)] by (simp_all add: M gmem_queue)
    moreover have "gread_bytes ptr k v = gread_bytes ptr k u" for k by (rule keeps_gread [OF v(2)])
    ultimately show ?thesis using Cons u(2) by (auto simp: min.commute)
  qed
qed

text \<open>C27: No message is lost, duplicated or overtaken: messages put into a queuing channel with
  enough room come out in the order in which they went in, after those that were waiting.\<close>

theorem queue_in_order:
  assumes "queue_ok i len no s" "length (queue_contents i s) + length ms \<le> nat no"
    and "list_all (\<lambda>m. length m \<le> nat len) ms"
  shows "\<exists>s' s''. put_all (queue_put i) ms s = Some s' \<and>
    get_n (queue_get i (word_of_int len)) (length (queue_contents i s) + length ms) s' =
      Some (queue_contents i s @ ms, s'') \<and> queue_contents i s'' = []"
  by (rule mq.in_order [OF assms])

section \<open>Witnesses for the queuing ports\<close>

lemma demo_open_queue: "queue_ok 1 4 2 demo_open" "queue_contents 1 demo_open = []"
proof -
  have g: "get_qchan 1 demo_open = Some demo_qchan"
    by (simp add: demo_open_def get_qchan_def cidx_def aget_def)
  define f :: "addr \<Rightarrow> addr list option" where "f = [40 \<mapsto> [41], 200 \<mapsto> [211, 210], 201 \<mapsto> []]"
  have "dl_inv demo_open f"
    by (auto simp: dl_inv_def f_def dl_rep_def dl_cyc_def dl_lnk_def demo_open_def split: if_splits)
  moreover have "pool_ok 4 2 f demo_qchan"
    unfolding pool_ok_def by (intro conjI exI [of _ "[211, 210]"] exI [of _ "[]"]) (auto simp: demo_qchan_def f_def)
  ultimately show ok: "queue_ok 1 4 2 demo_open" using g unfolding queue_ok_def by blast
  have "length (queue_contents 1 demo_open) = 0" using queue_length(1) [OF ok g] by (simp add: demo_qchan_def)
  then show "queue_contents 1 demo_open = []" by simp
qed

lemma demo_send_request:
  "queuing_request (demo_desc 4 0 1) 0x2000 3 XM_SOURCE_PORT PFLAG_NOT_NULL 1 4 2 demo_open"
  unfolding queuing_request_def
proof (intro conjI)
  show "cur_partid demo_open = Some (OBJDESC_GET_PARTITIONID (demo_desc 4 0 1))" by code_simp
  show "transfer_guards (unat (OBJDESC_GET_ID (demo_desc 4 0 1))) XM_QUEUING_PORT XM_SOURCE_PORT 3 demo_open = Some XM_OK"
    by code_simp
  show "map_option cp_channelId (aget (xmcCommPorts (cfg demo_open)) (unat (OBJDESC_GET_ID (demo_desc 4 0 1)))) = Some 1"
    by code_simp
  show "queuing_cfg 1 demo_open = Some (4, 2)" by code_simp
  show "CheckGParam 0x2000 3 1 PFLAG_NOT_NULL demo_open = Some 0" by code_simp
qed (simp_all add: XM_NULL_CHANNEL_def)

lemma demo_send_ends: "ends_ok 1 demo_open" "is_end q_sender 1 demo_open"
  by code_simp+

lemma demo_send_bytes: "gread_bytes 0x2000 (unat (3 :: u32)) demo_open = Some [7, 8, 9]"
  by code_simp

theorem send_appends_witness:
  "\<exists>s'. SendQueuingPort (demo_desc 4 0 1) 0x2000 3 demo_open = Some (XM_OK, s') \<and> queue_ok 1 4 2 s' \<and>
     queue_contents 1 s' = [[7, 8, 9]]"
  using send_appends [OF demo_send_request demo_open_queue(1) demo_send_ends demo_send_bytes]
  by (simp add: demo_open_queue(2))

definition demo_sent :: cstate where
  "demo_sent = by_part1 (the (queue_put 1 [7, 8, 9] demo_open))"

lemma demo_sent_queue: "queue_ok 1 4 2 demo_sent" "queue_contents 1 demo_sent = [[7, 8, 9]]"
  "chan_step 1 (by_part1 demo_open) demo_sent"
proof -
  obtain t where t: "queue_put 1 [7, 8, 9] demo_open = Some t" "queue_ok 1 4 2 t" "queue_contents 1 t = [[7, 8, 9]]"
    "chan_step 1 demo_open t"
    using queue_put_spec [OF demo_open_queue(1), of "[7, 8, 9]"] by (auto simp: demo_open_queue(2))
  have e: "demo_sent = t\<lparr>cKThread := 20\<rparr>" by (simp add: demo_sent_def t(1) by_part1_def)
  have g: "get_qchan i demo_sent = get_qchan i t" "get_qchan i (by_part1 s) = get_qchan i s" for i s
    by (simp_all add: e get_qchan_def by_part1_def)
  have d: "dl_inv demo_sent f = dl_inv t f" for f by (rule dl_inv_cong) (simp_all add: e)
  have w: "dl_walk demo_sent k n = dl_walk t k n" for k n by (induction k arbitrary: n) (simp_all add: e)
  show "queue_ok 1 4 2 demo_sent" using t(2) by (simp add: queue_ok_def g d)
  show "queue_contents 1 demo_sent = [[7, 8, 9]]"
    using t(3) by (cases "get_qchan 1 t") (simp_all add: queue_contents_def g chan_contents_def dl_list_def w, simp_all add: e)
  show "chan_step 1 (by_part1 demo_open) demo_sent"
  proof -
    obtain N L ch ch' where c: "get_qchan 1 demo_open = Some ch" "get_qchan 1 t = Some ch'" "chan_ends ch' = chan_ends ch"
      "t = demo_open\<lparr>dnode := N, dlist := L, channelTab := (channelTab demo_open)[nat 1 := QChan ch']\<rparr>"
      using t(4) unfolding chan_step_def by blast
    have "demo_sent = (by_part1 demo_open)\<lparr>dnode := N, dlist := L,
        channelTab := (channelTab (by_part1 demo_open))[nat 1 := QChan ch']\<rparr>"
      unfolding e by (subst c(4)) (simp add: by_part1_def)
    then show ?thesis using c(1-3) unfolding chan_step_def g by blast
  qed
qed

lemmas demo_sent_frame = chan_step_frame [OF demo_sent_queue(3)] chan_step_ends [OF demo_sent_queue(3)]

lemma demo_receive_request:
  "queuing_request (demo_desc 4 1 3) 0x3000 2 XM_DESTINATION_PORT (PFLAG_NOT_NULL OR PFLAG_RW) 1 4 2 demo_sent"
proof -
  have "queuing_request (demo_desc 4 1 3) 0x3000 2 XM_DESTINATION_PORT (PFLAG_NOT_NULL OR PFLAG_RW) 1 4 2 (by_part1 demo_open)"
    unfolding queuing_request_def
  proof (intro conjI)
    show "cur_partid (by_part1 demo_open) = Some (OBJDESC_GET_PARTITIONID (demo_desc 4 1 3))" by code_simp
    show "transfer_guards (unat (OBJDESC_GET_ID (demo_desc 4 1 3))) XM_QUEUING_PORT XM_DESTINATION_PORT 2 (by_part1 demo_open) = Some XM_OK"
      by code_simp
    show "map_option cp_channelId (aget (xmcCommPorts (cfg (by_part1 demo_open))) (unat (OBJDESC_GET_ID (demo_desc 4 1 3)))) = Some 1"
      by code_simp
    show "queuing_cfg 1 (by_part1 demo_open) = Some (4, 2)" by code_simp
    show "CheckGParam 0x3000 2 1 (PFLAG_NOT_NULL OR PFLAG_RW) (by_part1 demo_open) = Some 0" by code_simp
  qed (simp_all add: XM_NULL_CHANNEL_def)
  then show ?thesis
    by (simp add: queuing_request_def cur_partid_def transfer_guards_def queuing_cfg_def CheckGParam_def AsmRWCheck_def
        AsmROnlyCheck_def GetPartition_def demo_sent_frame(1-10) cong: if_cong)
qed

lemma demo_receive_env: "ends_ok 1 demo_sent" "cur_cfg demo_sent = Some (demo_part 1 0)"
  "GetPartition (cKThread demo_sent) demo_sent = Some 1"
  "port_in_tabs (uint (OBJDESC_GET_ID (demo_desc 4 1 3) - pc_commPortsOffset (demo_part 1 0))) 1 demo_sent"
proof -
  have "ends_ok 1 (by_part1 demo_open)" by code_simp
  then show "ends_ok 1 demo_sent" by (rule demo_sent_frame(16))
  have "cur_cfg (by_part1 demo_open) = Some (demo_part 1 0)"
    by (simp add: demo_part_def) code_simp
  then show "cur_cfg demo_sent = Some (demo_part 1 0)" by (simp only: demo_sent_frame(13))
  have "GetPartition (cKThread (by_part1 demo_open)) (by_part1 demo_open) = Some 1" by code_simp
  then show "GetPartition (cKThread demo_sent) demo_sent = Some 1" by (simp only: demo_sent_frame(14,15))
  have "port_in_tabs (uint (OBJDESC_GET_ID (demo_desc 4 1 3) - pc_commPortsOffset (demo_part 1 0))) 1 (by_part1 demo_open)"
    by code_simp
  then show "port_in_tabs (uint (OBJDESC_GET_ID (demo_desc 4 1 3) - pc_commPortsOffset (demo_part 1 0))) 1 demo_sent"
    by (simp add: port_in_tabs_def part_by_index_def part_vcpus_def demo_sent_frame(1-10) cong: option.case_cong)
qed

theorem receive_takes_oldest_witness:
  "\<exists>s'. ReceiveQueuingPort (demo_desc 4 1 3) 0x3000 2 demo_sent = Some (2, s') \<and>
     gread_bytes 0x3000 2 s' = Some [7, 8] \<and> queue_ok 1 4 2 s' \<and> queue_contents 1 s' = []"
proof -
  have "unat (0x3000 :: u32) + unat (2 :: u32) < 2 ^ 32" by simp
  have m: "min (unat (2 :: u32)) (length [7, 8, 9 :: u8]) = 2" "take (unat (2 :: u32)) [7, 8, 9 :: u8] = [7, 8]"
    by simp_all
  from receive_takes_oldest [OF demo_receive_request demo_sent_queue(1) demo_receive_env(1)
      \<open>unat (0x3000 :: u32) + unat (2 :: u32) < 2 ^ 32\<close> demo_receive_env(2-4)]
  show ?thesis unfolding demo_sent_queue(2) list.case m of_nat_numeral .
qed

theorem queue_in_order_witness:
  "\<exists>s' s''. put_all (queue_put 1) [[1], [2, 3]] demo_open = Some s' \<and>
    get_n (queue_get 1 (word_of_int 4)) 2 s' = Some ([[1], [2, 3]], s'') \<and> queue_contents 1 s'' = []"
  using queue_in_order [OF demo_open_queue(1), of "[[1], [2, 3]]"] by (simp add: demo_open_queue(2) numeral_2_eq_2)

section \<open>Who may use a port\<close>

text \<open>C32: A port that is closed, or open for another partition, cannot be used: each transfer operation
  returns an error and leaves the whole state as it was.\<close>

theorem port_isolation:
  assumes "aget (portTab s) (unat (OBJDESC_GET_ID desc)) = Some po" "cur_partid s = Some me"
    and "po_partitionId po \<noteq> me \<or> \<not> has_flag (po_flags po) COMM_PORT_OPENED"
  shows "(\<exists>e<0. SendQueuingPort desc ptr n s = Some (e, s)) \<and> (\<exists>e<0. ReceiveQueuingPort desc ptr n s = Some (e, s)) \<and>
    (\<exists>e<0. WriteSamplingPort desc ptr n s = Some (e, s)) \<and> (\<exists>e<0. ReadSamplingPort desc ptr n flags s = Some (e, s))"
proof -
  have g: "transfer_guards (unat (OBJDESC_GET_ID desc)) ty dir n s = Some XM_INVALID_PARAM" for ty dir
    using assms by (auto simp: transfer_guards_def)
  have e: "XM_INVALID_PARAM < 0" "XM_PERM_ERROR < 0" "XM_INVALID_PARAM \<noteq> XM_OK"
    by (simp_all add: ret_defs)
  obtain part where "GetPartition (cKThread s) s = Some part"
    using assms(2) by (auto simp: cur_partid_def GetPartition_def)
  then obtain r where r: "CheckGParam flags 4 4 PFLAG_RW s = Some r" by (simp add: CheckGParam_def)
  show ?thesis
    using e g assms(2) r
    by (auto simp: SendQueuingPort_def ReceiveQueuingPort_def WriteSamplingPort_def ReadSamplingPort_def Let_def)
qed

theorem port_isolation_witness:
  "(\<exists>e<0. SendQueuingPort (demo_desc 4 0 3) 0x2000 3 demo_open = Some (e, demo_open)) \<and>
   (\<exists>e<0. ReceiveQueuingPort (demo_desc 4 0 3) 0x2000 3 demo_open = Some (e, demo_open)) \<and>
   (\<exists>e<0. WriteSamplingPort (demo_desc 4 0 3) 0x2000 3 demo_open = Some (e, demo_open)) \<and>
   (\<exists>e<0. ReadSamplingPort (demo_desc 4 0 3) 0x2000 3 0 demo_open = Some (e, demo_open))"
proof -
  have "aget (portTab demo_open) (unat (OBJDESC_GET_ID (demo_desc 4 0 3))) = Some \<lparr>po_flags = 1, po_partitionId = 1\<rparr>"
    "cur_partid demo_open = Some 0"
    by (simp_all add: demo_open_def aget_def demo_desc_def OBJDESC_GET_ID_def OBJDESC_BUILD_def) code_simp
  then show ?thesis by (rule port_isolation) simp
qed

text \<open>The lookup by name does not tell a miss from a hit: without a match it returns the first port of
  the next partition, and only an index behind the whole table is refused.\<close>

lemma find_port_miss:
  assumes "\<And>i. port \<le> i \<Longrightarrow> i < port + n \<Longrightarrow> \<exists>r. cmp i = Some r \<and> r \<noteq> 0"
  shows "find_port cmp port n = Some (port + n)"
  using assms
proof (induction n arbitrary: port)
  case (Suc n)
  obtain r where "cmp port = Some r" "r \<noteq> 0" using Suc.prems [of port] by auto
  moreover have "find_port cmp (Suc port) n = Some (Suc port + n)" by (rule Suc.IH) (use Suc.prems in simp)
  ultimately show ?case by simp
qed simp

text \<open>Partition 0 of the example asks for a name that it has no port with, and the port of partition 1 at
  that index is opened in its name.\<close>

lemma missing_name_opens_foreign_port:
  "lookup_port_n 0x1020 (demo_part 0 XM_PART_SYSTEM) demo_raw = Some 2 \<and>
   map_option fst (CreateSamplingPort (demo_desc 3 0 0) 0x1020 4 XM_DESTINATION_PORT 1000
     (demo_raw\<lparr>channelTab := [SChan (demo_schan\<lparr>sc_noReceivers := 0\<rparr>), QChan demo_qchan]\<rparr>)) = Some 2"
  by (intro conjI) code_simp+

text \<open>After all receivers of a channel have opened their ports, one that is reset and opens its port
  again makes the kernel panic: ResetPartPorts closes the port but leaves the count of receivers.\<close>

lemma reopened_receiver_panics:
  "map_option (\<lambda>s. po_flags (portTab s ! 2)) (ResetPartPorts (demo_part 1 0) (by_part1 demo_open)) = Some 0 \<and>
   map_option fst (do { s \<leftarrow> ResetPartPorts (demo_part 1 0) (by_part1 demo_open);
     CreateSamplingPort (demo_desc 3 1 0) 0x1000 4 XM_DESTINATION_PORT 1000 s }) = None"
  by (intro conjI) code_simp+

end
