(* ===== verification/SamplingProps.thy ===== *)
theory SamplingProps
  imports CommNotify Samples
begin

text \<open>
  The properties of sampling channels: what a write leaves in the channel and what a read returns,
  with the partitions on both sides told through their control tables.
\<close>

definition sampling_request :: "u32 \<Rightarrow> u32 \<Rightarrow> u32 \<Rightarrow> u32 \<Rightarrow> u32 \<Rightarrow> s32 \<Rightarrow> s32 \<Rightarrow> u32 \<Rightarrow> 'a cstate_scheme \<Rightarrow> bool" where
  "sampling_request desc ptr n dir fl i len period s \<longleftrightarrow>
     cur_partid s = Some (OBJDESC_GET_PARTITIONID desc) \<and>
     transfer_guards (unat (OBJDESC_GET_ID desc)) XM_SAMPLING_PORT dir n s = Some XM_OK \<and>
     i \<noteq> XM_NULL_CHANNEL \<and>
     map_option cp_channelId (aget (xmcCommPorts (cfg s)) (unat (OBJDESC_GET_ID desc))) = Some i \<and>
     map_option (\<lambda>(l, v, _). (l, v)) (sampling_cfg i s) = Some (len, period) \<and>
     n \<le> word_of_int len \<and> 0 \<le> len \<and> len < 2 ^ 31 \<and> CheckGParam ptr n 1 fl s = Some 0"

text \<open>A write leaves the message in the buffer, its size and the time of the clock, once the other
  partitions have been told.\<close>

lemma sampling_write_result:
  assumes "sampling_request desc ptr n XM_SOURCE_PORT PFLAG_NOT_NULL i len period s"
    and "get_schan i s = Some ch" "length (sc_buffer ch) = nat len"
    and "gread_bytes ptr (unat n) s = Some bs" "sampling_written (unat (OBJDESC_GET_ID desc)) ch s = Some t"
    and "comm_keeps s t"
  shows "\<exists>s' ch'. WriteSamplingPort desc ptr n s = Some (XM_OK, s') \<and> get_schan i s' = Some ch' \<and>
    sc_length ch' = int (length bs) \<and> take (length bs) (sc_buffer ch') = bs \<and>
    length (sc_buffer ch') = nat len \<and> sc_timestamp ch' = clk s (clk_n s)"
proof -
  obtain p nr where rq: "cur_partid s = Some (OBJDESC_GET_PARTITIONID desc)"
     "transfer_guards (unat (OBJDESC_GET_ID desc)) XM_SAMPLING_PORT XM_SOURCE_PORT n s = Some XM_OK"
     "i \<noteq> XM_NULL_CHANNEL" "aget (xmcCommPorts (cfg s)) (unat (OBJDESC_GET_ID desc)) = Some p" "cp_channelId p = i"
     "sampling_cfg i s = Some (len, period, nr)" "n \<le> word_of_int len" "0 \<le> len" "len < 2 ^ 31"
     "CheckGParam ptr n 1 PFLAG_NOT_NULL s = Some 0"
    using assms(1) by (auto simp: sampling_request_def)
  note fr = comm_keeps_fields [OF assms(6)]
  have lb: "length bs = unat n" using gread_bytes_length [OF assms(4)] .
  have "unat (word_of_int len :: u32) = nat len" using rq(8,9) by (simp add: unsigned_of_int take_bit_int_eq_self)
  then have nl: "unat n \<le> nat len" using rq(7) by (simp add: word_le_nat_alt)
  have sn: "sint n = int (unat n)"
  proof -
    have "nat len < 2 ^ 31" using rq(9) by (simp add: nat_less_iff)
    then have "unat n < 2 ^ 31" using nl by (rule le_less_trans [rotated])
    then have "uint n < 2 ^ 31" by (metis of_nat_less_iff of_nat_numeral of_nat_power uint_nat)
    moreover have "- (2 ^ 31) \<le> uint n" by (rule order_trans [of _ 0]) simp_all
    ultimately show ?thesis by (simp add: sint_uint signed_take_bit_int_eq_self)
  qed
  define ch' where "ch' = ch\<lparr>sc_buffer := bs @ drop (length bs) (sc_buffer ch), sc_length := sint n,
      sc_timestamp := clk s (clk_n s)\<rparr>"
  define s' where "s' = put_chan i (SChan ch') (t\<lparr>clk_n := Suc (clk_n t)\<rparr>)"
  have "WriteSamplingPort desc ptr n s = Some (XM_OK, s')"
    using rq(1-6,10) rq(7) [folded not_less] assms(2-5) fr lb nl
    by (simp add: WriteSamplingPort_def Let_def buf_put_def GetSysClockUsec_def s'_def ch'_def)
  moreover have "get_schan i s' = Some ch'"
    using assms(2) fr by (auto simp: get_schan_def put_chan_def bind_eq_Some_iff cidx_def aget_def s'_def split: if_splits)
  moreover have "sc_length ch' = int (length bs) \<and> take (length bs) (sc_buffer ch') = bs \<and>
      length (sc_buffer ch') = nat len \<and> sc_timestamp ch' = clk s (clk_n s)"
    using lb nl sn assms(3) by (simp add: ch'_def)
  ultimately show ?thesis by blast
qed

text \<open>C30: Writing to an open sampling port succeeds: the buffer of the channel then holds the bytes of
  the writer, its length is the size written, its time stamp the time of the clock, and the control
  tables of all partitions keep their shape.\<close>

theorem sampling_write:
  assumes "sampling_request desc ptr n XM_SOURCE_PORT PFLAG_NOT_NULL i len period s"
    and "get_schan i s = Some ch" "length (sc_buffer ch) = nat len" "gread_bytes ptr (unat n) s = Some bs"
    and "cur_cfg s = Some c" "GetPartition (cKThread s) s = Some me" "sc_sender ch = Some me"
    and "part_ok c me s" "receivers_ok c ch s"
  shows "\<exists>s' ch'. WriteSamplingPort desc ptr n s = Some (XM_OK, s') \<and> get_schan i s' = Some ch' \<and>
    sc_length ch' = int (length bs) \<and> take (length bs) (sc_buffer ch') = bs \<and>
    length (sc_buffer ch') = nat len \<and> sc_timestamp ch' = clk s (clk_n s)"
proof -
  obtain t where t: "sampling_written (unat (OBJDESC_GET_ID desc)) ch s = Some t" "comm_keeps s t"
    using sampling_written_keeps [OF assms(5-9)] by blast
  show ?thesis by (rule sampling_write_result [OF assms(1-4) t])
qed

lemma gread_cong: "(\<And>x. gread x s' = gread x s) \<Longrightarrow> gread_bytes b n s' = gread_bytes b n s"
  by (induction n arbitrary: b) simp_all

text \<open>The word of flags that a read leaves.\<close>

definition read_valid :: "nat \<Rightarrow> u32 \<Rightarrow> schannel \<Rightarrow> 'a cstate_scheme \<Rightarrow> u32" where
  "read_valid k period ch s =
     (if 0 < k \<and> period \<noteq> XM_INFINITE_TIME \<and> sc_timestamp ch + uint period > clk s (clk_n s) then XM_COMM_MSG_VALID else 0)"

lemma read_flags:
  assumes "writable_at flags 4 s"
  shows "\<exists>s'. (do { s \<leftarrow> gwrite_u32 flags 0 s;
       let (valid, s) = sampling_valid (r \<noteq> 0) period ch s;
       s \<leftarrow> (if valid then gwrite_u32 flags XM_COMM_MSG_VALID s else Some s);
       Some (sint (r :: u32), s) }) = Some (sint r, s') \<and>
     gread_u32 flags s' = Some (read_valid (unat r) period ch s) \<and> channelTab s' = channelTab s \<and>
     (\<forall>b n. unat b + n < 2 ^ 32 \<longrightarrow> unat b + n \<le> unat flags \<or> unat flags + 4 \<le> unat b \<longrightarrow>
        gread_bytes b n s' = gread_bytes b n s)"
proof -
  have fl: "unat flags + length (u32_bytes w) < 2 ^ 32" "length (u32_bytes w) = 4" for w
    using assms by (auto simp: writable_at_def offset_unat u32_bytes_def)
  obtain t where t: "gwrite_u32 flags 0 s = Some t" "gread_u32 flags t = Some 0"
    using gwrite_gread_u32 [OF assms] by blast
  obtain m where m: "t = s\<lparr>gmem := m\<rparr>" using gwrite_bytes_only t(1) unfolding gwrite_u32_def by blast
  define u where "u = snd (sampling_valid (r \<noteq> 0) period ch t)"
  define v where "v = fst (sampling_valid (r \<noteq> 0) period ch t)"
  have v: "(if v then XM_COMM_MSG_VALID else 0) = read_valid (unat r) period ch s"
    by (auto simp: v_def m sampling_valid_def read_valid_def GetSysClockUsec_def Let_def unat_gt_0)
  obtain k where u: "u = t\<lparr>clk_n := k\<rparr>"
  proof (cases "r \<noteq> 0 \<and> period \<noteq> XM_INFINITE_TIME")
    case False
    then have "u = t\<lparr>clk_n := clk_n t\<rparr>" by (auto simp: u_def sampling_valid_def)
    then show ?thesis by (rule that)
  qed (auto simp: u_def sampling_valid_def GetSysClockUsec_def Let_def intro: that)
  have g: "gread_bytes b n u = gread_bytes b n t" for b n
  proof (rule gread_cong)
    show "gread x u = gread x t" for x
      by (cases "k_g (kthreads t (cKThread t))") (simp_all add: u gread_def GetPartition_def)
  qed
  show ?thesis
  proof (cases v)
    case True
    have "writable_at flags 4 u"
      using assms by (simp add: u m writable_at_def GetPartition_def)
    then obtain w where w: "gwrite_u32 flags XM_COMM_MSG_VALID u = Some w" "gread_u32 flags w = Some XM_COMM_MSG_VALID"
      using gwrite_gread_u32 by blast
    obtain m' where m': "w = u\<lparr>gmem := m'\<rparr>" using gwrite_bytes_only w(1) unfolding gwrite_u32_def by blast
    have "gread_bytes b n w = gread_bytes b n s" if "unat b + n < 2 ^ 32" "unat b + n \<le> unat flags \<or> unat flags + 4 \<le> unat b" for b n
      using gwrite_disjoint [OF w(1) [unfolded gwrite_u32_def] fl(1) that(1)]
        gwrite_disjoint [OF t(1) [unfolded gwrite_u32_def] fl(1) that(1)] that(2) fl(2) g by simp
    moreover have "channelTab w = channelTab s" by (simp add: m' u m)
    ultimately show ?thesis
      using t(1) w True v by (intro exI [of _ w]) (simp add: v_def [symmetric] u_def [symmetric] case_prod_beta Let_def)
  next
    case False
    have "gread_bytes b n u = gread_bytes b n s" if "unat b + n < 2 ^ 32" "unat b + n \<le> unat flags \<or> unat flags + 4 \<le> unat b" for b n
      using gwrite_disjoint [OF t(1) [unfolded gwrite_u32_def] fl(1) that(1)] that(2) fl(2) g by simp
    moreover have "gread_u32 flags u = Some 0" using t(2) g by (simp add: gread_u32_def)
    moreover have "channelTab u = channelTab s" by (simp add: u m)
    ultimately show ?thesis
      using t(1) False v by (intro exI [of _ u]) (simp add: v_def [symmetric] u_def [symmetric] case_prod_beta Let_def)
  qed
qed

text \<open>C31: Reading an open sampling port returns the newest message: as many of its bytes as the reader
  asks for land in the reader's memory, the channel keeps the message, and the flag word of the
  reader tells whether the message is younger than the validity period of the channel.\<close>

theorem sampling_read:
  assumes "sampling_request desc ptr n XM_DESTINATION_PORT (PFLAG_NOT_NULL OR PFLAG_RW) i len period s"
    and "CheckGParam flags 4 4 PFLAG_RW s = Some 0"
    and "unat ptr + unat n \<le> unat flags \<or> unat flags + 4 \<le> unat ptr" "unat ptr + unat n < 2 ^ 32" "flags < CONFIG_XM_OFFSET"
    and "get_schan i s = Some ch" "length (sc_buffer ch) = nat len" "0 \<le> sc_length ch" "sc_length ch \<le> len"
    and "cur_cfg s = Some c" "unat (OBJDESC_GET_ID desc) < length (portTab s)"
    and "tab_ok (base_of c) (kthreads s (cKThread s))"
    and "case snd (thread_shape (kthreads s (cKThread s))) of None \<Rightarrow> False
      | Some (m, l) \<Rightarrow> uint (OBJDESC_GET_ID desc - pc_commPortsOffset c) < m"
    and "\<forall>r. sc_sender ch = Some r \<longrightarrow> part_ok c r s"
    and "k = min (unat n) (nat (sc_length ch))"
  shows "\<exists>s'. ReadSamplingPort desc ptr n flags s = Some (int k, s') \<and>
    gread_bytes ptr k s' = Some (take k (sc_buffer ch)) \<and> get_schan i s' = Some ch \<and>
    (flags = 0 \<or> gread_u32 flags s' = Some (read_valid k period ch s))"
proof -
  obtain p nr where rq: "cur_partid s = Some (OBJDESC_GET_PARTITIONID desc)"
     "transfer_guards (unat (OBJDESC_GET_ID desc)) XM_SAMPLING_PORT XM_DESTINATION_PORT n s = Some XM_OK"
     "i \<noteq> XM_NULL_CHANNEL" "aget (xmcCommPorts (cfg s)) (unat (OBJDESC_GET_ID desc)) = Some p" "cp_channelId p = i"
     "sampling_cfg i s = Some (len, period, nr)" "n \<le> word_of_int len" "0 \<le> len" "len < 2 ^ 31"
     "CheckGParam ptr n 1 (PFLAG_NOT_NULL OR PFLAG_RW) s = Some 0"
    using assms(1) by (auto simp: sampling_request_def)
  define r :: u32 where "r = (if n < word_of_int (sc_length ch) then n else word_of_int (sc_length ch))"
  have ul: "unat (word_of_int (sc_length ch) :: u32) = nat (sc_length ch)"
    using assms(8,9) rq(9) by (simp add: unsigned_of_int take_bit_int_eq_self)
  have r: "unat r = k" using assms(15) by (auto simp: r_def word_less_nat_alt ul)
  have kl: "k \<le> length (sc_buffer ch)" using assms(7,9,15) by (simp add: nat_mono min.coboundedI2)
  have sr: "sint r = int k"
  proof -
    have "nat (sc_length ch) < 2 ^ 31" using rq(9) assms(9) by (simp add: nat_less_iff)
    then have "uint r < 2 ^ 31" using r assms(15) by (metis min_less_iff_disj of_nat_less_iff of_nat_numeral of_nat_power uint_nat)
    moreover have "- (2 ^ 31) \<le> uint r" by (rule order_trans [of _ 0]) simp_all
    ultimately have "sint r = uint r" by (simp add: sint_uint signed_take_bit_int_eq_self)
    then show ?thesis using r by (simp add: uint_nat)
  qed
  have rw: "has_flag (PFLAG_NOT_NULL OR PFLAG_RW) PFLAG_RW" "has_flag PFLAG_RW PFLAG_RW"
    by (simp_all add: has_flag_def PFLAG_NOT_NULL_def PFLAG_RW_def)
  have "writable_at ptr (unat n) s" by (rule CheckGParam_writable [OF rq(10) assms(4) rw(1)])
  then have "writable_at ptr (length (take k (sc_buffer ch))) s"
    by (rule writable_mono) (use assms(15) in simp)
  then obtain u where u: "gwrite_bytes ptr (take k (sc_buffer ch)) s = Some u"
    "gread_bytes ptr k u = Some (take k (sc_buffer ch))"
    using gwrite_gread [of ptr "take k (sc_buffer ch)" s] kl by (auto simp: min_absorb2)
  obtain M where M: "u = s\<lparr>gmem := M\<rparr>" using gwrite_bytes_only [OF u(1)] by blast
  have pk: "part_ok c q u = part_ok c q s" for q
    by (cases "part_by_index q s"; simp add: part_ok_def part_by_index_def part_vcpus_def M)+
  have "\<exists>v. sampling_consumed (unat (OBJDESC_GET_ID desc)) ch u = Some v \<and> comm_keeps u v"
  proof (rule sampling_consumed_keeps)
    show "cur_cfg u = Some c" using assms(10) by (simp add: M gmem_queue)
    show "case snd (thread_shape (kthreads u (cKThread u))) of None \<Rightarrow> False
      | Some (m, l) \<Rightarrow> uint (word_of_nat (unat (OBJDESC_GET_ID desc)) - pc_commPortsOffset c :: u32) < m"
      using assms(13) by (simp add: M cong: option.case_cong)
  qed (use assms(11,12,14) in \<open>simp_all add: pk, simp_all add: M\<close>)
  then obtain v where v: "sampling_consumed (unat (OBJDESC_GET_ID desc)) ch u = Some v" "comm_keeps u v" by blast
  have gv: "get_schan i w = Some ch" if "channelTab w = channelTab s" for w :: "'a cstate_scheme"
    using assms(6) that by (simp add: get_schan_def)
  have ct: "channelTab v = channelTab s" using comm_keeps_fields(6) [OF v(2)] by (simp add: M)
  have rd: "gread_bytes ptr k v = Some (take k (sc_buffer ch))" using u(2) keeps_gread(1) [OF v(2)] by simp
  show ?thesis
  proof (cases "flags = 0")
    case True
    then have "ReadSamplingPort desc ptr n flags s = Some (int k, v)"
      using rq assms(2,6) kl u(1) v(1) sr r rq(7) [folded not_less] by (simp add: ReadSamplingPort_def r_def [symmetric] Let_def buf_get_def)
    then show ?thesis using True rd gv [OF ct] by blast
  next
    case False
    have "unat flags < 0xFC000000" using assms(5) offset_unat by (simp add: word_less_nat_alt)
    then have "writable_at flags 4 s" using CheckGParam_writable [OF assms(2) _ rw(2)] by simp
    then have "writable_at flags 4 v" by (simp add: keeps_gread(3) [OF v(2)] gwrite_writable [OF u(1)])
    from read_flags [OF this, of r period ch] obtain w where w:
      "(do { s \<leftarrow> gwrite_u32 flags 0 v;
         let (valid, s) = sampling_valid (r \<noteq> 0) period ch s;
         s \<leftarrow> (if valid then gwrite_u32 flags XM_COMM_MSG_VALID s else Some s);
         Some (sint r, s) }) = Some (sint r, w)"
      "gread_u32 flags w = Some (read_valid (unat r) period ch v)" "channelTab w = channelTab v"
      "\<forall>b n. unat b + n < 2 ^ 32 \<longrightarrow> unat b + n \<le> unat flags \<or> unat flags + 4 \<le> unat b \<longrightarrow>
        gread_bytes b n w = gread_bytes b n v" by blast
    have "ReadSamplingPort desc ptr n flags s = Some (int k, w)"
      using rq assms(2,6) kl u(1) v(1) sr r w(1) False rq(7) [folded not_less]
      by (simp add: ReadSamplingPort_def r_def [symmetric] Let_def buf_get_def)
    moreover have "gread_bytes ptr k w = gread_bytes ptr k v"
      using w(4) assms(3,4,15) by (intro w(4) [rule_format]) auto
    moreover have "read_valid (unat r) period ch v = read_valid k period ch s"
      by (simp add: r read_valid_def comm_keeps_fields [OF v(2)] M)
    ultimately show ?thesis using w(2,3) ct rd gv by auto
  qed
qed

section \<open>Witnesses\<close>

lemma demo_write_request:
  "sampling_request (demo_desc 3 0 0) 0x2000 3 XM_SOURCE_PORT PFLAG_NOT_NULL 0 4 1000 demo_open"
  by code_simp

lemma demo_write_env: "get_schan 0 demo_open = Some demo_schan" "length (sc_buffer demo_schan) = nat 4"
  "gread_bytes 0x2000 (unat (3 :: u32)) demo_open = Some [7, 8, 9]"
  "GetPartition (cKThread demo_open) demo_open = Some 0" "sc_sender demo_schan = Some 0"
  "part_ok (demo_part 0 XM_PART_SYSTEM) 0 demo_open" "receivers_ok (demo_part 0 XM_PART_SYSTEM) demo_schan demo_open"
  by code_simp+

lemma demo_write_cfg: "cur_cfg demo_open = Some (demo_part 0 XM_PART_SYSTEM)"
  by (simp add: demo_part_def) code_simp

theorem sampling_write_witness:
  "\<exists>s' ch'. WriteSamplingPort (demo_desc 3 0 0) 0x2000 3 demo_open = Some (XM_OK, s') \<and> get_schan 0 s' = Some ch' \<and>
    sc_length ch' = 3 \<and> take 3 (sc_buffer ch') = [7, 8, 9] \<and> sc_timestamp ch' = 1000"
proof -
  have "clk demo_open (clk_n demo_open) = 1000" by code_simp
  then show ?thesis
    using sampling_write [OF demo_write_request demo_write_env(1-3) demo_write_cfg demo_write_env(4-7)]
    by (auto simp: numeral_3_eq_3)
qed

definition demo_written :: cstate where
  "demo_written = (by_part1 demo_open)\<lparr>channelTab :=
     [SChan (demo_schan\<lparr>sc_buffer := [7, 8, 9, 0], sc_length := 3, sc_timestamp := 900\<rparr>), QChan demo_qchan]\<rparr>"

lemma demo_read_request:
  "sampling_request (demo_desc 3 1 2) 0x2000 2 XM_DESTINATION_PORT (PFLAG_NOT_NULL OR PFLAG_RW) 0 4 1000 demo_written"
  "CheckGParam 0x3000 4 4 PFLAG_RW demo_written = Some 0"
  by code_simp+

lemma demo_read_chan:
  "get_schan 0 demo_written = Some (demo_schan\<lparr>sc_buffer := [7, 8, 9, 0], sc_length := 3, sc_timestamp := 900\<rparr>)"
  by (simp add: demo_written_def get_schan_def cidx_def aget_def)

lemma demo_read_env:
  "unat (OBJDESC_GET_ID (demo_desc 3 1 2)) < length (portTab demo_written)"
  "tab_ok (base_of (demo_part 1 0)) (kthreads demo_written (cKThread demo_written))"
  "case snd (thread_shape (kthreads demo_written (cKThread demo_written))) of None \<Rightarrow> False
      | Some (m, l) \<Rightarrow> uint (OBJDESC_GET_ID (demo_desc 3 1 2) - pc_commPortsOffset (demo_part 1 0)) < m"
  "part_ok (demo_part 1 0) 0 demo_written"
  by code_simp+

lemma demo_read_cfg: "cur_cfg demo_written = Some (demo_part 1 0)"
  by (simp add: demo_part_def) code_simp

text \<open>Partition 1 reads two of the three bytes; the message of time 900 is valid for 1000 microseconds.\<close>

theorem sampling_read_witness:
  "\<exists>s'. ReadSamplingPort (demo_desc 3 1 2) 0x2000 2 0x3000 demo_written = Some (2, s') \<and>
    gread_bytes 0x2000 2 s' = Some [7, 8] \<and> gread_u32 0x3000 s' = Some XM_COMM_MSG_VALID"
proof -
  let ?ch = "demo_schan\<lparr>sc_buffer := [7, 8, 9, 0], sc_length := 3, sc_timestamp := 900\<rparr>"
  have a: "unat (0x2000 :: u32) + unat (2 :: u32) \<le> unat (0x3000 :: u32) \<or> unat (0x3000 :: u32) + 4 \<le> unat (0x2000 :: u32)"
    "unat (0x2000 :: u32) + unat (2 :: u32) < 2 ^ 32" "(0x3000 :: u32) < CONFIG_XM_OFFSET"
    by (simp_all add: CONFIG_XM_OFFSET_def)
  have b: "length (sc_buffer ?ch) = nat 4" "0 \<le> sc_length ?ch" "sc_length ?ch \<le> 4"
    "\<forall>r. sc_sender ?ch = Some r \<longrightarrow> part_ok (demo_part 1 0) r demo_written"
    using demo_read_env(4) by (simp_all add: demo_schan_def)
  have k: "2 = min (unat (2 :: u32)) (nat (sc_length ?ch))" by simp
  have v: "read_valid 2 1000 ?ch demo_written = XM_COMM_MSG_VALID" by code_simp
  have t: "take 2 (sc_buffer ?ch) = [7, 8]" "int 2 = 2" "((0x3000 :: u32) = 0) = False" by simp_all
  from sampling_read [OF demo_read_request a demo_read_chan b(1-3) demo_read_cfg demo_read_env(1-3) b(4) k]
  show ?thesis unfolding v t simp_thms by blast
qed

end
