(* ===== verification/KlibcProps.thy ===== *)
theory KlibcProps
  imports Klibc
begin

text \<open>
  The properties of the string and number routines of klibc, with a witness at a concrete memory
  for each.
\<close>

text \<open>C34: memmove copies correctly whatever the overlap: afterwards the destination holds the bytes the
  source held before, and no other byte has changed.\<close>

theorem memmove_any_overlap:
  assumes "bytes_at m src xs" "mapped m dst (length xs)"
  shows "\<exists>m'. memmove m dst src (length xs) = Some m' \<and> bytes_at m' dst xs \<and>
    (\<forall>a. (if dst \<le> a \<and> a < dst + length xs then True else m' a = m a))"
  by (intro exI [of _ "put_bytes m dst xs"] conjI memmove_bytes assms bytes_at_put) (simp add: put_bytes_def)

definition demo_bytes :: mem where
  "demo_bytes a = (if a < 8 then Some (word_of_nat (10 + a)) else None)"

theorem memmove_any_overlap_witness:
  "\<exists>m'. memmove demo_bytes 2 1 3 = Some m' \<and> bytes_at m' 2 [11, 12, 13] \<and> m' 1 = Some 11"
proof -
  have s: "bytes_at demo_bytes 1 [11, 12, 13]" by (simp add: bytes_at_Cons demo_bytes_def)
  have d: "mapped demo_bytes 2 (length [11, 12, 13 :: u8])" by (simp add: mapped_def demo_bytes_def)
  obtain m' where m': "memmove demo_bytes 2 1 (length [11, 12, 13 :: u8]) = Some m'" "bytes_at m' 2 [11, 12, 13]"
    "\<forall>a. (if 2 \<le> a \<and> a < 2 + length [11, 12, 13 :: u8] then True else m' a = demo_bytes a)"
    using memmove_any_overlap [OF s d] by blast
  have "m' 1 = Some 11" using m'(3) [THEN spec, of 1] by (simp add: demo_bytes_def)
  then show ?thesis using m'(1,2) by (auto simp: numeral_3_eq_3)
qed

text \<open>strtoul reads a decimal numeral: it stops behind the last digit with the value, and yields all
  ones exactly when the value does not fit in 32 bits.\<close>

theorem strtoul_value:
  assumes "cstr m p (dec_str ds)" "list_all (\<lambda>d. d < 10) ds" "ds \<noteq> []"
  shows "strtoul m p 10 = Some (Some (p + length ds),
    if dec_val ds < 2 ^ 32 then word_of_nat (dec_val ds) else - 1)"
  by (rule strtoul_decimal [OF assms])

definition demo_text :: mem where
  "demo_text a = aget [52, 50, 0] a"

theorem strtoul_value_witness: "strtoul demo_text 0 10 = Some (Some 2, 42)"
proof -
  have "cstr demo_text 0 (dec_str [4, 2])" by (simp add: dec_str_def cstr_Cons cstr_Nil demo_text_def aget_def)
  then show ?thesis using strtoul_value [of demo_text 0 "[4, 2]"] by (simp add: dec_val_def)
qed

section \<open>A numeral that strtoull misreads\<close>

text \<open>The mask \<open>0x1ff\<close> lets bit 8 of the value through to the low part, while the high part starts at
  bit 8: the bit is counted twice, and 2560 is read as 5120.\<close>

lemma strtoull_counts_bit_8: "strtoull (aget [50, 53, 54, 48, 0]) 0 10 = Some (Some 4, 5120)"
  by code_simp

end
