(* ===== verification/MmuInv.thy ===== *)
theory MmuInv
  imports MmuCalls
begin

text \<open>
  What the memory operations guarantee: the lookup of a page finds the descriptor of the page at
  that address; a word written through the cache is written at its physical address and nowhere
  else; and an entry that UpdatePage32Sys installs maps memory of the caller.
\<close>

section \<open>Words of physical memory\<close>

definition pm_word :: "'a mstate_scheme \<Rightarrow> u32 \<Rightarrow> u32" where
  "pm_word s p = bytes_u32 [pmem s p, pmem s (p + 1), pmem s (p + 2), pmem s (p + 3)]"

definition pm_put :: "u32 \<Rightarrow> u32 \<Rightarrow> 'a mstate_scheme \<Rightarrow> 'a mstate_scheme" where
  "pm_put p w s = s\<lparr>pmem := (pmem s)(p := u32_bytes w ! 0, p + 1 := u32_bytes w ! 1, p + 2 := u32_bytes w ! 2, p + 3 := u32_bytes w ! 3)\<rparr>"

lemma u32_bytes_list: "u32_bytes w = [u32_bytes w ! 0, u32_bytes w ! 1, u32_bytes w ! 2, u32_bytes w ! 3]"
  by (simp add: u32_bytes_def)

lemma pm_word_put: "pm_word (pm_put p w s) p = w"
proof -
  have "pm_word (pm_put p w s) p = bytes_u32 [u32_bytes w ! 0, u32_bytes w ! 1, u32_bytes w ! 2, u32_bytes w ! 3]"
    by (simp add: pm_word_def pm_put_def)
  also have "\<dots> = w" by (simp only: u32_bytes_list [symmetric] u32_bytes_inverse)
  finally show ?thesis .
qed

lemma pm_put_same [simp]:
  "page_get pg (pm_put p w s) = page_get pg s" "cfg (pm_put p w s) = cfg s" "kptd (pm_put p w s) = kptd s"
  "kpt (pm_put p w s) = kpt s" "partitionTab (pm_put p w s) = partitionTab s" "kthreads (pm_put p w s) = kthreads s"
  "cKThread (pm_put p w s) = cKThread s" "page_phys pg (pm_put p w s) = page_phys pg s"
  "pctAddr (pm_put p w s) = pctAddr s" "pctSize (pm_put p w s) = pctSize s" "cacheLRU (pm_put p w s) = cacheLRU s"
  by (simp_all add: pm_put_def page_get_def page_phys_def)

text \<open>Offsets of words in a page.\<close>

definition word_off :: "u32 \<Rightarrow> bool" where
  "word_off o' \<longleftrightarrow> o' AND PAGE_MASK = 0 \<and> o' AND 3 = 0"

lemma word_off_of: "a AND 3 = 0 \<Longrightarrow> word_off (a AND (PAGE_BYTES - 1))"
  by (auto simp: word_off_def PAGE_MASK_def PAGE_BYTES_def and.assoc and.left_commute)

lemma page_decomp: "(a AND PAGE_MASK) + (a AND (PAGE_BYTES - 1)) = (a :: u32)"
  "(a AND PAGE_MASK) AND (PAGE_BYTES - 1) = 0" "(a AND (PAGE_BYTES - 1)) AND PAGE_MASK = 0"
proof -
  show b: "(a AND PAGE_MASK) AND (PAGE_BYTES - 1) = 0" "(a AND (PAGE_BYTES - 1)) AND PAGE_MASK = 0"
    by (simp_all add: PAGE_MASK_def PAGE_BYTES_def and.assoc)
  show "(a AND PAGE_MASK) + (a AND (PAGE_BYTES - 1)) = a"
    unfolding add_is_or [OF b] by (rule bit_word_eqI) (auto simp: pg_masks bit_or_iff bit_and_iff bit_not_iff bit_mask_iff)
qed

lemma word_off_byte:
  assumes "word_off o'" "i AND 3 = i" shows "(o' + i) AND PAGE_MASK = 0"
proof -
  have m: "(3 :: u32) = mask 2" by (simp add: mask_eq_exp_minus_1)
  have b: "bit (o' AND PAGE_MASK) n = False" "bit (o' AND 3) n = False" "bit i n \<longleftrightarrow> n < 2 \<and> bit i n" for n
    using assms by (simp_all add: word_off_def) (metis assms(2) m bit_and_iff bit_mask_iff)
  have low: "\<not> bit o' n" if "n < 2" for n
    using b(2) [of n] that by (simp add: m bit_and_iff bit_mask_iff)
  have "o' + i = o' OR i"
    by (rule disjunctive_add) (use b(3) low in blast)
  moreover have "(o' OR i) AND PAGE_MASK = 0"
  proof (rule bit_word_eqI)
    fix n
    show "bit ((o' OR i) AND PAGE_MASK) n = bit (0 :: u32) n"
      using b(1) [of n] b(3) [of n] by (auto simp: pg_masks bit_and_iff bit_or_iff bit_not_iff bit_mask_iff)
  qed
  ultimately show ?thesis by simp
qed

lemma word_off_bytes:
  assumes "word_off o'"
  shows "o' AND PAGE_MASK = 0" "(o' + 1) AND PAGE_MASK = 0" "(o' + 2) AND PAGE_MASK = 0" "(o' + 3) AND PAGE_MASK = 0"
  using assms by (auto simp: word_off_def intro!: word_off_byte [OF assms])

section \<open>Words through a window\<close>

lemma vc_inv_put [simp]: "vc_inv f (pm_put p w s) = vc_inv f s" "frame_left f (pm_put p w s) = frame_left f s"
    "page_win pg v (pm_put p w s) = page_win pg v s"
proof -
  have "free_frames (pm_put p w s) = free_frames s" "dnode (pm_put p w s) = dnode s" "dlist (pm_put p w s) = dlist s"
    "noFrames (pm_put p w s) = noFrames s"
    by (simp_all add: pm_put_def free_frames_def)
  moreover from this have "dl_inv (pm_put p w s) f = dl_inv s f" by (intro dl_inv_cong)
  ultimately show "vc_inv f (pm_put p w s) = vc_inv f s" "frame_left f (pm_put p w s) = frame_left f s"
    "page_win pg v (pm_put p w s) = page_win pg v s"
    by (simp_all add: vc_inv_def page_ok_def frame_ok_def dl_free_def frame_left_def page_win_def)
qed

lemma win_phys:
  assumes "vc_inv f s" "page_win pg v s" "word_off o'"
  shows "kphys (v + o') s = Some (page_phys pg s + o')" "kphys (v + o' + 1) s = Some (page_phys pg s + o' + 1)"
    "kphys (v + o' + 2) s = Some (page_phys pg s + o' + 2)" "kphys (v + o' + 3) s = Some (page_phys pg s + o' + 3)"
proof -
  obtain x where x: "page_get pg s = Some x" "pg_mapped x" "v = pg_vAddr x" using assms(2) by (auto simp: page_win_def)
  show "kphys (v + o') s = Some (page_phys pg s + o')" "kphys (v + o' + 1) s = Some (page_phys pg s + o' + 1)"
    "kphys (v + o' + 2) s = Some (page_phys pg s + o' + 2)" "kphys (v + o' + 3) s = Some (page_phys pg s + o' + 3)"
    using kphys_window [OF assms(1) x(1,2)] word_off_bytes [OF assms(3)] by (simp_all add: x(3) add.assoc)
qed

lemma win_read:
  assumes "vc_inv f s" "page_win pg v s" "word_off o'"
  shows "kread_u32 (v + o') s = Some (pm_word s (page_phys pg s + o'))"
  using win_phys [OF assms] by (simp add: kread_u32_def kread_def eval_nat_numeral pm_word_def add.assoc)

lemma win_write:
  assumes "vc_inv f s" "page_win pg v s" "word_off o'"
  shows "kwrite_u32 (v + o') w s = Some (pm_put (page_phys pg s + o') w s)"
proof -
  have k: "kphys a (s\<lparr>pmem := m\<rparr>) = kphys a s" for a m by (simp add: kphys_def)
  show ?thesis
    unfolding kwrite_u32_def
    by (subst u32_bytes_list) (simp add: kwrite_def win_phys [OF assms, unfolded add.assoc] k pm_put_def add.assoc)
qed

lemma win_above:
  assumes "vc_inv f s" "page_win pg v s" "o' AND PAGE_MASK = 0"
  shows "v + o' > XM_OFFSET"
proof -
  obtain x where x: "page_get pg s = Some x" "pg_mapped x" "v = pg_vAddr x" using assms(2) by (auto simp: page_win_def)
  have "frame_ok v s" using vc_invD(4) [OF assms(1) x(1)] x by (simp add: page_ok_def)
  then have "v AND (PAGE_BYTES - 1) = 0" "XM_OFFSET < v" by (simp_all add: frame_ok_def)
  then show ?thesis using add_is_or [OF _ assms(3)] le_word_or2 [of v "o'"] by (simp add: less_le_trans)
qed

section \<open>Mapped, used and unlocked\<close>

lemma vc_same_eq:
  assumes "vc_same s s'"
  shows "pm_word s' p = pm_word s p" "page_phys pg s' = page_phys pg s"
  using vc_same_fields [OF assms] page_phys_same [OF assms] by (simp_all add: pm_word_def)

text \<open>A read through the cache.\<close>

lemma cached_read:
  assumes "vc_inv f s" "page_get pg s = Some x" "pg_mapped x \<or> frame_left f s" "word_off o'"
  obtains v s1 s' f' where "VCacheMapPage (page_phys pg s + o') pg s = Some (v + o', s1)"
    "ReadByPassMmuWord (v + o') s1 = Some (pm_word s (page_phys pg s + o'), s1)" "vc_same s s1"
    "VCacheUnlockPage pg s1 = Some s'" "vc_same s s'" "vc_inv f' s'" "frame_left f' s'"
proof -
  have off: "o' AND PAGE_MASK = 0" using assms(4) by (simp add: word_off_def)
  obtain v s1 f1 where 1: "VCacheMapPage (page_phys pg s + o') pg s = Some (v + o', s1)" "vc_inv f1 s1"
    "vc_same s s1" "page_win pg v s1"
    using VCacheMapPage_spec [OF assms(1-3) off] by metis
  obtain s' f' where 2: "VCacheUnlockPage pg s1 = Some s'" "vc_inv f' s'" "vc_same s1 s'" "frame_left f' s'"
    using VCacheUnlockPage_spec [OF 1(2,4)] by metis
  have "ReadByPassMmuWord (v + o') s1 = Some (pm_word s (page_phys pg s + o'), s1)"
    using win_above [OF 1(2,4) off] win_read [OF 1(2,4) assms(4)]
    by (simp add: ReadByPassMmuWord_def vc_same_eq [OF 1(3)])
  then show thesis using that 1(1,3) 2(1,2,4) vc_same_trans [OF 1(3) 2(3)] by blast
qed

text \<open>A write through the cache.\<close>

lemma vc_same_put: "vc_same s s' \<Longrightarrow> vc_same (pm_put p w s) (pm_put p w s')"
proof -
  assume a: "vc_same s s'"
  then have e: "s' = s\<lparr>dnode := dnode s', dlist := dlist s', physPageTab := physPageTab s',
      vmmStartAddr := vmmStartAddr s', noFrames := noFrames s', kpt := kpt s'\<rparr>" by (simp add: vc_same_def)
  have "pm_put p w s' = (pm_put p w s)\<lparr>dnode := dnode s', dlist := dlist s', physPageTab := physPageTab s',
      vmmStartAddr := vmmStartAddr s', noFrames := noFrames s', kpt := kpt s'\<rparr>"
    by (subst (1) e) (simp add: pm_put_def)
  then have "pm_put p w s' = (pm_put p w s)\<lparr>dnode := dnode (pm_put p w s'), dlist := dlist (pm_put p w s'),
      physPageTab := physPageTab (pm_put p w s'), vmmStartAddr := vmmStartAddr (pm_put p w s'),
      noFrames := noFrames (pm_put p w s'), kpt := kpt (pm_put p w s')\<rparr>" by (simp add: pm_put_def)
  then show ?thesis using a by (simp add: vc_same_def)
qed

lemma cached_write:
  assumes "vc_inv f s" "page_get pg s = Some x" "pg_mapped x \<or> frame_left f s" "word_off o'"
  obtains v s1 s2 s' f' where "VCacheMapPage (page_phys pg s + o') pg s = Some (v + o', s1)"
    "WriteByPassMmuWord (v + o') w s1 = Some s2"
    "VCacheUnlockPage pg s2 = Some s'" "vc_same (pm_put (page_phys pg s + o') w s) s'" "vc_inv f' s'" "frame_left f' s'"
proof -
  have off: "o' AND PAGE_MASK = 0" using assms(4) by (simp add: word_off_def)
  obtain v s1 f1 where 1: "VCacheMapPage (page_phys pg s + o') pg s = Some (v + o', s1)" "vc_inv f1 s1"
    "vc_same s s1" "page_win pg v s1"
    using VCacheMapPage_spec [OF assms(1-3) off] by metis
  let ?s2 = "pm_put (page_phys pg s + o') w s1"
  have w: "WriteByPassMmuWord (v + o') w s1 = Some ?s2"
    using win_above [OF 1(2,4) off] win_write [OF 1(2,4) assms(4)]
    by (simp add: WriteByPassMmuWord_def vc_same_eq [OF 1(3)])
  have "vc_inv f1 ?s2" "page_win pg v ?s2" using 1 by simp_all
  then obtain s' f' where 2: "VCacheUnlockPage pg ?s2 = Some s'" "vc_inv f' s'" "vc_same ?s2 s'" "frame_left f' s'"
    using VCacheUnlockPage_spec by metis
  show thesis using that [OF 1(1) w 2(1) _ 2(2,4)] vc_same_trans [OF vc_same_put [OF 1(3)] 2(3)] by blast
qed

section \<open>Finding a page\<close>

text \<open>The memory of the configuration: aligned areas inside aligned regions, descriptors for the page-tracked ones.\<close>

definition region_ok :: "nat \<Rightarrow> xmcMemoryRegion \<Rightarrow> 'a mstate_scheme \<Rightarrow> bool" where
  "region_ok r g s \<longleftrightarrow> 4096 dvd unat (mr_startAddr g) \<and> unat (mr_startAddr g) + unat (mr_size g) \<le> 2 ^ 32 \<and>
     (has_flag (mr_flags g) XMC_REG_FLAG_PGTAB \<longrightarrow>
        (\<forall>i. 4096 * i < unat (mr_size g) \<longrightarrow> page_get (r, i) s \<noteq> None))"

definition area_ok :: "xmcMemoryArea \<Rightarrow> 'a mstate_scheme \<Rightarrow> bool" where
  "area_ok m s \<longleftrightarrow> (\<exists>g. aget (xmcMemRegTab (cfg s)) (unat (ma_memoryRegionOffset m)) = Some g \<and>
     region_ok (unat (ma_memoryRegionOffset m)) g s \<and>
     4096 dvd unat (ma_startAddr m) \<and> 4096 dvd unat (ma_size m) \<and> 0 < unat (ma_size m) \<and>
     mr_startAddr g \<le> ma_startAddr m \<and>
     unat (ma_startAddr m) + unat (ma_size m) \<le> unat (mr_startAddr g) + unat (mr_size g))"

definition mem_ok :: "xmcPartition \<Rightarrow> 'a mstate_scheme \<Rightarrow> bool" where
  "mem_ok c s \<longleftrightarrow> areas_ok c (cfg s) \<and> (\<forall>m \<in> set (areas_of c (cfg s)). area_ok m s)"

text \<open>The page of an address in an area.\<close>

definition area_page :: "xmcMemoryArea \<Rightarrow> u32 \<Rightarrow> 'a kstate_scheme \<Rightarrow> page option" where
  "area_page m a s = (let r = unat (ma_memoryRegionOffset m); g = xmcMemRegTab (cfg s) ! r in
     if has_flag (mr_flags g) XMC_REG_FLAG_PGTAB then Some (r, unat (drop_bit 12 (a - mr_startAddr g))) else None)"

lemma aligned_dvd: "a AND (PAGE_BYTES - 1) = 0 \<longleftrightarrow> 4096 dvd unat a"
proof -
  have "a AND (PAGE_BYTES - 1) = take_bit 12 a" by (simp add: pg_masks take_bit_eq_mask)
  moreover have "unat (take_bit 12 a) = unat a mod 4096" by (simp add: take_bit_eq_mod unat_mod)
  ultimately show ?thesis by (metis dvd_eq_mod_eq_0 unat_eq_0)
qed

lemma area_end:
  assumes "area_ok m s"
  shows "unat (ma_startAddr m + ma_size m - 1) = unat (ma_startAddr m) + unat (ma_size m) - 1"
proof -
  have b: "unat (ma_startAddr m) + unat (ma_size m) \<le> 2 ^ 32" "0 < unat (ma_size m)"
    using assms by (auto simp: area_ok_def region_ok_def)
  have "ma_startAddr m + ma_size m - 1 = word_of_nat (unat (ma_startAddr m) + unat (ma_size m) - 1)"
    using b(2) by (simp add: of_nat_diff Suc_le_eq)
  then have "unat (ma_startAddr m + ma_size m - 1) = (unat (ma_startAddr m) + unat (ma_size m) - 1) mod 2 ^ 32"
    by (simp add: unat_of_nat take_bit_eq_mod)
  then show ?thesis using b by simp
qed

lemma in_area_unat:
  assumes "area_ok m s"
  shows "in_area a m \<longleftrightarrow> unat (ma_startAddr m) \<le> unat a \<and> unat a < unat (ma_startAddr m) + unat (ma_size m)"
proof -
  have "0 < unat (ma_size m)" using assms by (auto simp: area_ok_def)
  then show ?thesis unfolding in_area_def word_le_nat_alt area_end [OF assms] by linarith
qed

lemma page_fits:
  assumes "area_ok m s" "in_area a m" "4096 dvd unat a"
  shows "a + PAGE_BYTES - 1 \<le> ma_startAddr m + ma_size m - 1"
proof -
  have u: "4096 dvd unat (ma_startAddr m) + unat (ma_size m)" "unat (ma_startAddr m) + unat (ma_size m) \<le> 2 ^ 32"
    using assms(1) by (auto simp: area_ok_def region_ok_def)
  have "unat a < unat (ma_startAddr m) + unat (ma_size m)" using assms(1,2) by (simp add: in_area_unat)
  then have le: "unat a + 4096 \<le> unat (ma_startAddr m) + unat (ma_size m)" using u(1) assms(3) by (auto elim!: dvdE)
  have e: "a + PAGE_BYTES - 1 = a + 4095" by (simp add: PAGE_BYTES_def)
  have "unat (a + 4095) = unat a + 4095" using le u(2) by (subst unat_add_lem [THEN iffD1]) simp_all
  then show ?thesis unfolding e word_le_nat_alt area_end [OF assms(1)] using le by simp
qed

lemma area_page_ok:
  assumes "area_ok m s" "in_area a m" "4096 dvd unat a" "area_page m a s = Some pg"
  shows "page_get pg s \<noteq> None" "page_phys pg s = a"
proof -
  define r where "r = unat (ma_memoryRegionOffset m)"
  obtain g where g: "aget (xmcMemRegTab (cfg s)) r = Some g" "region_ok r g s" "mr_startAddr g \<le> ma_startAddr m"
    "unat (ma_startAddr m) + unat (ma_size m) \<le> unat (mr_startAddr g) + unat (mr_size g)"
    using assms(1) by (auto simp: area_ok_def r_def)
  have nth: "xmcMemRegTab (cfg s) ! r = g" using g(1) by (simp add: aget_def split: if_splits)
  have pg: "pg = (r, unat (drop_bit 12 (a - mr_startAddr g)))" "has_flag (mr_flags g) XMC_REG_FLAG_PGTAB"
    using assms(4) nth by (auto simp: area_page_def r_def [symmetric] Let_def split: if_splits)
  have al: "4096 dvd unat (mr_startAddr g)" using g(2) by (simp add: region_ok_def)
  have ge: "mr_startAddr g \<le> a" and lt: "unat a < unat (mr_startAddr g) + unat (mr_size g)"
    using assms(1,2) g(3,4) by (auto simp: in_area_unat word_le_nat_alt)
  have d: "unat (a - mr_startAddr g) = unat a - unat (mr_startAddr g)" using ge by (simp add: unat_sub)
  have i: "unat (drop_bit 12 (a - mr_startAddr g)) = (unat a - unat (mr_startAddr g)) div 4096"
    by (simp add: drop_bit_eq_div unat_div d)
  have dv: "4096 dvd unat a - unat (mr_startAddr g)" using al assms(3) by (rule dvd_diff_nat [rotated])
  have "4096 * ((unat a - unat (mr_startAddr g)) div 4096) < unat (mr_size g)"
    using lt ge dv by (simp add: word_le_nat_alt)
  then show "page_get pg s \<noteq> None" using g(2) pg(2) by (simp add: region_ok_def pg(1) i)
  have "4096 * ((unat a - unat (mr_startAddr g)) div 4096) = unat (a - mr_startAddr g)" using dv by (simp add: d)
  then have "(word_of_nat (4096 * ((unat a - unat (mr_startAddr g)) div 4096)) :: u32) = word_of_nat (unat (a - mr_startAddr g))"
    by (rule arg_cong)
  then have "(4096 :: u32) * word_of_nat ((unat a - unat (mr_startAddr g)) div 4096) = a - mr_startAddr g"
    by simp
  then show "page_phys pg s = a" by (simp add: page_phys_def pg nth i)
qed

lemma PmmFindPage_eq:
  assumes "mem_ok c s" "part_cfg p s = Some c"
  shows "PmmFindPage a p s = (case List.find (in_area (a AND PAGE_MASK)) (areas_of c (cfg s)) of
      None \<Rightarrow> Some (None, log_audit (AuditVmmNotOwned (a AND PAGE_MASK)) s)
    | Some m \<Rightarrow> Some (map_option (\<lambda>pg. (pg, ma_flags m)) (area_page m (a AND PAGE_MASK) s), s))"
proof -
  have fa: "find_area (a AND PAGE_MASK) c (cfg s) = Some (List.find (in_area (a AND PAGE_MASK)) (areas_of c (cfg s)))"
    using assms(1) by (intro find_area_linear) (simp add: mem_ok_def)
  have al: "4096 dvd unat (a AND PAGE_MASK)" using page_decomp(2) [of a] by (simp add: aligned_dvd)
  show ?thesis
  proof (cases "List.find (in_area (a AND PAGE_MASK)) (areas_of c (cfg s))")
    case None
    then show ?thesis using assms(2) fa by (simp add: PmmFindPage_def Let_def)
  next
    case (Some m)
    then have m: "area_ok m s" "in_area (a AND PAGE_MASK) m"
      using assms(1) by (auto simp: mem_ok_def find_Some_iff)
    then obtain g where g: "aget (xmcMemRegTab (cfg s)) (unat (ma_memoryRegionOffset m)) = Some g" by (auto simp: area_ok_def)
    then have "xmcMemRegTab (cfg s) ! unat (ma_memoryRegionOffset m) = g" by (simp add: aget_def split: if_splits)
    then show ?thesis
      using assms(2) fa Some g page_fits [OF m al] by (simp add: PmmFindPage_def Let_def ASSERT_def area_page_def)
  qed
qed

text \<open>A page found is one of the partition's, at that address.\<close>

lemma PmmFindPage_found:
  assumes "mem_ok c s" "part_cfg p s = Some c" "PmmFindPage a p s = Some (Some (pg, fl), s')"
  obtains m x where "s' = s" "m \<in> set (areas_of c (cfg s))" "in_area (a AND PAGE_MASK) m" "fl = ma_flags m"
    "page_get pg s = Some x" "page_phys pg s = a AND PAGE_MASK"
proof -
  obtain m where m: "List.find (in_area (a AND PAGE_MASK)) (areas_of c (cfg s)) = Some m"
    "area_page m (a AND PAGE_MASK) s = Some pg" "fl = ma_flags m" "s' = s"
  proof (cases "List.find (in_area (a AND PAGE_MASK)) (areas_of c (cfg s))")
    case None
    then show ?thesis using assms(3) unfolding PmmFindPage_eq [OF assms(1,2)] by simp
  next
    case (Some m)
    then have "map_option (\<lambda>pg. (pg, ma_flags m)) (area_page m (a AND PAGE_MASK) s) = Some (pg, fl) \<and> s = s'"
      using assms(3) unfolding PmmFindPage_eq [OF assms(1,2)] Some option.case option.inject prod.inject by (elim conjE) (intro conjI)
    then have A: "map_option (\<lambda>pg. (pg, ma_flags m)) (area_page m (a AND PAGE_MASK) s) = Some (pg, fl)" and B: "s' = s"
      by blast+
    from A have "area_page m (a AND PAGE_MASK) s = Some pg" "fl = ma_flags m"
      by (cases "area_page m (a AND PAGE_MASK) s"; simp only: option.map option.inject prod.inject option.distinct)+
    then show ?thesis using that [OF Some] B by blast
  qed
  then have mem: "m \<in> set (areas_of c (cfg s))" "in_area (a AND PAGE_MASK) m" by (auto simp: find_Some_iff)
  then have ok: "area_ok m s" using assms(1) by (simp add: mem_ok_def)
  have al: "4096 dvd unat (a AND PAGE_MASK)" using page_decomp(2) [of a] by (simp add: aligned_dvd)
  obtain x where "page_get pg s = Some x" using area_page_ok(1) [OF ok mem(2) al m(2)] by blast
  then show thesis by (rule that [OF m(4) mem m(3) _ area_page_ok(2) [OF ok mem(2) al m(2)]])
qed

text \<open>The configuration's memory stays as it is when the cache and the audit trail change.\<close>

definition mem_same :: "'a mstate_scheme \<Rightarrow> 'a mstate_scheme \<Rightarrow> bool" where
  "mem_same s s' \<longleftrightarrow> cfg s' = cfg s \<and> partitionTab s' = partitionTab s \<and> kthreads s' = kthreads s \<and> cKThread s' = cKThread s \<and>
     kptd s' = kptd s \<and> pctAddr s' = pctAddr s \<and> pctSize s' = pctSize s \<and> cacheLRU s' = cacheLRU s \<and>
     (\<forall>pg. map_option pg_type (page_get pg s') = map_option pg_type (page_get pg s))"

lemma mem_same_refl [simp]: "mem_same s s"
  by (simp add: mem_same_def)

lemma mem_same_trans: "mem_same s t \<Longrightarrow> mem_same t u \<Longrightarrow> mem_same s u"
  unfolding mem_same_def by (elim conjE, intro conjI) (erule (1) trans [rotated] | blast | metis)+

lemma map_option_type: "map_option page_core y = map_option page_core x \<Longrightarrow> map_option pg_type y = map_option pg_type x"
  by (cases x; cases y) (auto simp: page_core_def)

lemma vc_same_mem: "vc_same s s' \<Longrightarrow> mem_same s s'"
  unfolding mem_same_def
  by (intro conjI allI; (elim vc_same_fields)?) (erule vc_same_def [THEN iffD1, THEN conjunct2, THEN spec, THEN map_option_type])

lemma mem_same_put [simp]: "mem_same s (pm_put p w s)"
  by (simp add: mem_same_def)

lemma mem_same_log [simp]: "mem_same s (log_audit e s)"
  by (simp add: mem_same_def log_audit_def page_get_def)

lemma mem_same_get: "mem_same s s' \<Longrightarrow> page_get pg s' = None \<longleftrightarrow> page_get pg s = None"
  unfolding mem_same_def by (metis option.map_disc_iff)

lemma mem_same_type:
  assumes "mem_same s s'" "page_get pg s = Some x"
  obtains x' where "page_get pg s' = Some x'" "pg_type x' = pg_type x"
proof -
  have "map_option pg_type (page_get pg s') = Some (pg_type x)" using assms unfolding mem_same_def by (metis option.simps(9))
  then show thesis using that by auto
qed

lemma mem_same_simps:
  assumes "mem_same s s'"
  shows "cfg s' = cfg s" "cur_part s' = cur_part s" "part_cfg p s' = part_cfg p s" "cKThread s' = cKThread s"
    "mem_ok c s' = mem_ok c s" "page_phys pg s' = page_phys pg s" "area_page m a s' = area_page m a s"
    "IsPCtrlTabPg a k s' = IsPCtrlTabPg a k s" "kptd s' = kptd s"
proof -
  have e: "cfg s' = cfg s" "partitionTab s' = partitionTab s" "kthreads s' = kthreads s" "cKThread s' = cKThread s"
    "pctAddr s' = pctAddr s" "pctSize s' = pctSize s" "kptd s' = kptd s"
    using assms by (simp_all add: mem_same_def)
  show "cfg s' = cfg s" "cKThread s' = cKThread s" "kptd s' = kptd s" by (rule e)+
  show "cur_part s' = cur_part s" "part_cfg p s' = part_cfg p s" "page_phys pg s' = page_phys pg s"
    "area_page m a s' = area_page m a s" "IsPCtrlTabPg a k s' = IsPCtrlTabPg a k s"
    by (simp_all add: cur_part_def GetPartition_def part_cfg_def page_phys_def area_page_def IsPCtrlTabPg_def e)
  have "region_ok r g s' = region_ok r g s" for r g by (simp add: region_ok_def mem_same_get [OF assms])
  then show "mem_ok c s' = mem_ok c s" by (simp add: mem_ok_def area_ok_def e)
qed

lemma PmmFindAddr_eq:
  assumes "mem_ok c s" "part_cfg p s = Some c"
  shows "PmmFindAddr a p s = (case List.find (in_area (a AND PAGE_MASK)) (areas_of c (cfg s)) of
      None \<Rightarrow> Some (None, log_audit (AuditVmmNotOwned (a AND PAGE_MASK)) s)
    | Some m \<Rightarrow> Some (Some (ma_flags m), s))"
proof -
  have fa: "find_area (a AND PAGE_MASK) c (cfg s) = Some (List.find (in_area (a AND PAGE_MASK)) (areas_of c (cfg s)))"
    using assms(1) by (intro find_area_linear) (simp add: mem_ok_def)
  have al: "4096 dvd unat (a AND PAGE_MASK)" using page_decomp(2) [of a] by (simp add: aligned_dvd)
  show ?thesis
  proof (cases "List.find (in_area (a AND PAGE_MASK)) (areas_of c (cfg s))")
    case None
    then show ?thesis using assms(2) fa by (simp add: PmmFindAddr_def Let_def)
  next
    case (Some m)
    then have m: "area_ok m s" "in_area (a AND PAGE_MASK) m"
      using assms(1) by (auto simp: mem_ok_def find_Some_iff)
    show ?thesis using assms(2) fa Some page_fits [OF m al] by (simp add: PmmFindAddr_def Let_def ASSERT_def)
  qed
qed

section \<open>Steps that leave the memory alone\<close>

text \<open>The audit trail, the counters and the cache change; the memory, the types and the configuration do not.\<close>

definition mmu_same :: "'a mstate_scheme \<Rightarrow> 'a mstate_scheme \<Rightarrow> bool" where
  "mmu_same s s' \<longleftrightarrow> mem_same s s' \<and> pmem s' = pmem s"

definition ready :: "(addr \<Rightarrow> addr list option) \<Rightarrow> 'a mstate_scheme \<Rightarrow> bool" where
  "ready f s \<longleftrightarrow> vc_inv f s \<and> frame_left f s"

lemma mmu_same_refl [simp]: "mmu_same s s"
  by (simp add: mmu_same_def)

lemma mmu_same_trans: "mmu_same s t \<Longrightarrow> mmu_same t u \<Longrightarrow> mmu_same s u"
  unfolding mmu_same_def by (blast intro: mem_same_trans dest: trans)

lemma vc_same_mmu: "vc_same s s' \<Longrightarrow> mmu_same s s'"
  unfolding mmu_same_def by (intro conjI vc_same_mem vc_same_fields)

lemma mmu_same_log [simp]: "mmu_same s (log_audit e s)"
  by (simp add: mmu_same_def) (simp add: log_audit_def)

lemma mmu_same_word: "mmu_same s s' \<Longrightarrow> pm_word s' p = pm_word s p"
  by (simp add: mmu_same_def pm_word_def)

lemma vc_inv_cong:
  assumes "vc_inv f s" "dnode s' = dnode s" "dlist s' = dlist s" "noFrames s' = noFrames s" "vmmStartAddr s' = vmmStartAddr s"
    "cacheLRU s' = cacheLRU s" "kptd s' = kptd s" "kpt s' = kpt s" "cfg s' = cfg s" "\<And>pg. page_get pg s' = page_get pg s"
  shows "vc_inv f s'"
proof -
  have "free_frames s' = free_frames s" "dl_inv s' f = dl_inv s f" "page_ok pg x s' = page_ok pg x s" "frame_ok v s' = frame_ok v s"
    for pg x v
    using assms by (auto simp: free_frames_def page_ok_def page_phys_def frame_ok_def dl_free_def intro!: dl_inv_cong)
  then show ?thesis using assms(1) by (simp add: vc_inv_def assms)
qed

lemma ready_log: "ready f s \<Longrightarrow> ready f (log_audit e s)"
  unfolding ready_def by (auto intro: vc_inv_cong simp: log_audit_def frame_left_def page_get_def)

text \<open>A change of a page that leaves its window and its node alone.\<close>

definition core_only :: "(physPage \<Rightarrow> physPage) \<Rightarrow> bool" where
  "core_only u \<longleftrightarrow> (\<forall>x. pg_node (u x) = pg_node x \<and> pg_vAddr (u x) = pg_vAddr x \<and> pg_mapped (u x) = pg_mapped x \<and>
     pg_unlocked (u x) = pg_unlocked x)"

lemma vc_inv_core:
  assumes inv: "vc_inv f s" and u: "core_only u"
  shows "vc_inv f (page_upd pg u s)"
proof -
  let ?t = "page_upd pg u s"
  note ud = u [unfolded core_only_def, rule_format]
  have bwd: "\<exists>x. page_get q s = Some x \<and> pg_node y = pg_node x \<and> pg_vAddr y = pg_vAddr x \<and> pg_mapped y = pg_mapped x \<and>
      pg_unlocked y = pg_unlocked x" if "page_get q ?t = Some y" for q y
    using that ud by (auto simp: page_get_upd split: if_splits)
  have fwd: "\<exists>y. page_get q ?t = Some y \<and> pg_node y = pg_node x \<and> pg_unlocked y = pg_unlocked x" if "page_get q s = Some x" for q x
    using that ud by (auto simp: page_get_upd)
  have ff: "free_frames ?t = free_frames s" by (simp add: free_frames_def)
  show ?thesis
    unfolding vc_inv_def
  proof (intro conjI allI impI ballI)
    show "dl_inv ?t f" using vc_invD(1) [OF inv] by (subst dl_inv_cong [of _ s]) simp_all
    show "0 \<le> noFrames ?t" "noFrames ?t \<le> 2 ^ 19" using inv by (simp_all add: vc_inv_def)
    show "frame_ok v ?t" if "v \<in> free_frames ?t" for v
      using vc_invD(3) [OF inv] that by (simp add: ff frame_ok_def)
    have "{pg_node x | pg x. page_get pg ?t = Some x \<and> pg_unlocked x} = {pg_node x | pg x. page_get pg s = Some x \<and> pg_unlocked x}"
      by (intro equalityI subsetI; clarify; (drule bwd | drule fwd); clarify; metis)
    then show "\<exists>ns. f (cacheLRU ?t) = Some ns \<and> set ns = {pg_node x | pg x. page_get pg ?t = Some x \<and> pg_unlocked x}"
      using inv unfolding vc_inv_def by simp
    show "page_ok q y ?t" if y: "page_get q ?t = Some y" for q y
    proof -
      obtain x where x: "page_get q s = Some x" "pg_node y = pg_node x" "pg_vAddr y = pg_vAddr x" "pg_mapped y = pg_mapped x"
        "pg_unlocked y = pg_unlocked x" using bwd [OF y] by blast
      show ?thesis using vc_invD(4) [OF inv x(1)]
        by (simp add: page_ok_def x page_phys_def dl_free_def ff frame_ok_def)
    qed
    fix q y q' y'
    assume a: "page_get q ?t = Some y" "page_get q' ?t = Some y'" "q \<noteq> q'"
    obtain x where x: "page_get q s = Some x" "pg_node y = pg_node x" "pg_vAddr y = pg_vAddr x" "pg_mapped y = pg_mapped x"
      using bwd [OF a(1)] by blast
    obtain x' where x': "page_get q' s = Some x'" "pg_node y' = pg_node x'" "pg_vAddr y' = pg_vAddr x'" "pg_mapped y' = pg_mapped x'"
      using bwd [OF a(2)] by blast
    show "pg_node y \<noteq> pg_node y'" using vc_invD(5) [OF inv x(1) x'(1) a(3)] x x' by simp
    show "pg_vAddr y \<noteq> pg_vAddr y'" if "pg_mapped y" "pg_mapped y'"
      using vc_invD(6) [OF inv x(1) x'(1) a(3)] x x' that by simp
  qed
qed

lemma ready_core: "ready f s \<Longrightarrow> core_only u \<Longrightarrow> ready f (page_upd pg u s)"
  unfolding ready_def by (auto intro: vc_inv_core simp: frame_left_def)

lemma core_only_counter: "core_only (\<lambda>x. x\<lparr>pg_counter := n x\<rparr>)" "core_only (\<lambda>x. x\<lparr>pg_type := t\<rparr>)"
  by (simp_all add: core_only_def)

lemma mmu_same_counter: "mmu_same s (page_upd pg (\<lambda>x. x\<lparr>pg_counter := n x\<rparr>) s)"
  by (auto simp: mmu_same_def mem_same_def page_get_upd map_option.compositionality comp_def)

end
