(* ===== verification/MmuDemo.thy ===== *)
theory MmuDemo
  imports MmuInv Samples
begin

text \<open>
  The boot of the memory manager establishes the invariant of the cache, and the small system of
  Samples is extended by 32 tracked pages, the second of which is a page table of partition 0.
\<close>

lemma page_get_setup:
  assumes "SetupPhysMM lru node s = Some s'"
  shows "page_get (r, i) s' = (case aget (xmcMemRegTab (cfg s)) r of None \<Rightarrow> None
    | Some m \<Rightarrow> if has_flag (mr_flags m) XMC_REG_FLAG_PGTAB \<and> i < unat (mr_size m div PAGE_BYTES)
        then Some \<lparr>pg_node = node r i, pg_vAddr = 0, pg_mapped = False, pg_unlocked = False, pg_type = 0, pg_counter = 0\<rparr>
        else None)"
  using assms
  by (auto simp: SetupPhysMM_def Let_def bind_eq_Some_iff page_get_def aget_def nth_enumerate_eq ASSERT_def DynListInit_def
      split: if_splits)

lemma setup_fields:
  assumes "SetupPhysMM lru node s = Some s'"
  shows "dnode s' = dnode s" "dlist s' = (dlist s)(lru := \<lparr>l_head = NULL, l_noElem = 0\<rparr>)" "cacheLRU s' = lru" "cfg s' = cfg s"
    "noFrames s' = noFrames s" "vmmStartAddr s' = vmmStartAddr s" "kptd s' = kptd s" "kpt s' = kpt s" "pmem s' = pmem s"
    "kthreads s' = kthreads s" "partitionTab s' = partitionTab s" "cKThread s' = cKThread s" "pctAddr s' = pctAddr s"
    "pctSize s' = pctSize s"
    "\<And>m. m \<in> set (xmcMemRegTab (cfg s)) \<Longrightarrow> mr_startAddr m AND (PAGE_BYTES - 1) = 0"
  using assms by (auto simp: SetupPhysMM_def Let_def bind_eq_Some_iff ASSERT_def DynListInit_def list_all_iff split: if_splits)

lemma page_phys_aligned:
  assumes "mr_startAddr (xmcMemRegTab (cfg s) ! fst pg) AND (PAGE_BYTES - 1) = 0"
  shows "page_phys pg s AND (PAGE_BYTES - 1) = 0"
proof -
  have "4096 * word_of_nat n = (push_bit 12 (word_of_nat n) :: u32)" for n by (simp add: push_bit_eq_mult)
  then have "(4096 * word_of_nat (snd pg) :: u32) AND (PAGE_BYTES - 1) = 0"
    unfolding pg_masks by (auto simp: bit_eq_iff bit_and_iff bit_push_bit_iff bit_mask_iff)
  moreover have "(a + b) AND (PAGE_BYTES - 1) = 0" if "a AND (PAGE_BYTES - 1) = 0" "b AND (PAGE_BYTES - 1) = 0" for a b
  proof -
    have "a + b = word_of_nat (unat a + unat b)" by simp
    then have "unat (a + b) = (unat a + unat b) mod 2 ^ 32" by (simp only: unat_of_nat) (simp add: take_bit_eq_mod)
    moreover have "4096 dvd unat a + unat b" using that by (simp add: aligned_dvd)
    ultimately show ?thesis by (simp add: aligned_dvd dvd_mod)
  qed
  ultimately show ?thesis unfolding page_phys_def using assms by blast
qed

text \<open>What the boot needs of the frames and the nodes of the descriptors.\<close>

definition boot_ready :: "addr \<Rightarrow> (nat \<Rightarrow> nat \<Rightarrow> addr) \<Rightarrow> 'a mstate_scheme \<Rightarrow> bool" where
  "boot_ready lru node s \<longleftrightarrow> lru \<noteq> NULL \<and> (\<forall>a. nd_list (dnode s a) \<noteq> lru) \<and> 0 \<le> noFrames s \<and> noFrames s \<le> 2 ^ 19 \<and>
     (\<forall>v \<in> free_frames s. frame_ok v s) \<and> (\<forall>r i. dl_free s (node r i)) \<and>
     (\<forall>r i r' i'. i < 2 ^ 20 \<longrightarrow> i' < 2 ^ 20 \<longrightarrow> node r i = node r' i' \<longrightarrow> r = r' \<and> i = i')"

lemma pages_few: "unat (sz div PAGE_BYTES) < 2 ^ 20" for sz :: u32
proof -
  have "unat sz < 2 ^ 32" using unsigned_less [of sz] by simp
  then show ?thesis by (simp add: PAGE_BYTES_def unat_div_distrib less_mult_imp_div_less)
qed

lemma SetupPhysMM_inv:
  assumes b: "boot_ready lru node s" and e: "SetupPhysMM lru node s = Some s'"
  shows "vc_inv [lru \<mapsto> []] s'"
proof -
  note f = setup_fields [OF e]
  have pg: "x = \<lparr>pg_node = node (fst pg) (snd pg), pg_vAddr = 0, pg_mapped = False, pg_unlocked = False, pg_type = 0, pg_counter = 0\<rparr> \<and>
      mr_startAddr (xmcMemRegTab (cfg s) ! fst pg) AND (PAGE_BYTES - 1) = 0 \<and> snd pg < 2 ^ 20" if "page_get pg s' = Some x" for pg x
    using that page_get_setup [OF e, of "fst pg" "snd pg"] f(15) [of "xmcMemRegTab (cfg s) ! fst pg"]
      pages_few [of "mr_size (xmcMemRegTab (cfg s) ! fst pg)"]
    by (auto simp: aget_def split: if_splits)
  have ff: "free_frames s' = free_frames s" "frame_ok v s' = frame_ok v s" for v by (simp_all add: free_frames_def frame_ok_def f)
  have df: "dl_free s' n = dl_free s n" for n by (simp add: dl_free_def f)
  show ?thesis
    unfolding vc_inv_def
  proof (intro conjI allI impI ballI)
    show "dl_inv s' [lru \<mapsto> []]"
      using b by (auto simp: dl_inv_def dl_rep_def boot_ready_def dl_cyc_def f split: if_splits)
    show "0 \<le> noFrames s'" "noFrames s' \<le> 2 ^ 19" using b by (simp_all add: boot_ready_def f)
    show "frame_ok v s'" if "v \<in> free_frames s'" for v using b that by (simp add: boot_ready_def ff)
    show "\<exists>ns. [lru \<mapsto> []] (cacheLRU s') = Some ns \<and> set ns = {pg_node x | pg x. page_get pg s' = Some x \<and> pg_unlocked x}"
    proof -
      have "\<not> pg_unlocked x" if "page_get pg s' = Some x" for pg x using pg [OF that] by simp
      then have "{pg_node x | pg x. page_get pg s' = Some x \<and> pg_unlocked x} = {}" by blast
      then show ?thesis by (simp add: f)
    qed
    show "page_ok pg x s'" if g: "page_get pg s' = Some x" for pg x
    proof -
      have "page_phys pg s' AND (PAGE_BYTES - 1) = 0" using pg [OF g] by (intro page_phys_aligned) (simp add: f)
      moreover have "dl_free s' (node (fst pg) (snd pg))" using b by (simp add: df boot_ready_def)
      ultimately show ?thesis using pg [OF g] by (simp add: page_ok_def dl_free_def)
    qed
    fix pg x pg' x' assume g: "page_get pg s' = Some x" "page_get pg' s' = Some x'" "pg \<noteq> pg'"
    show "pg_node x \<noteq> pg_node x'"
    proof
      assume eq: "pg_node x = pg_node x'"
      have "pg_node x = node (fst pg) (snd pg)" "snd pg < 2 ^ 20" "pg_node x' = node (fst pg') (snd pg')" "snd pg' < 2 ^ 20"
        using pg [OF g(1)] pg [OF g(2)] by simp_all
      then have "fst pg = fst pg' \<and> snd pg = snd pg'" using b eq unfolding boot_ready_def by metis
      then show False using g(3) by (simp add: prod_eq_iff)
    qed
    show "pg_vAddr x \<noteq> pg_vAddr x'" if "pg_mapped x" "pg_mapped x'" using pg [OF g(1)] that by simp
  qed
qed

section \<open>A small system\<close>

definition demo_boot :: mstate where
  "demo_boot = (let s = demo_raw in
     \<lparr>dnode = dnode s, dlist = dlist s, cfg = cfg s, clk = clk s, clk_n = clk_n s, kthreads = kthreads s,
      ktimers = ktimers s, partitionTab = partitionTab s, cKThread = cKThread s, idleKThread = idleKThread s,
      irqNestingCounter = irqNestingCounter s, lt_flags = lt_flags s, lt_nextAct = lt_nextAct s,
      lt_globalActiveKTimers = lt_globalActiveKTimers s, hw_min = hw_min s, hw_max = hw_max s, hw_prog = hw_prog s,
      cyclic = cyclic s, sched_flags = sched_flags s, hw_pic = hw_pic s, audit = audit s,
      gmem = gmem s, g_readable = g_readable s, g_writable = g_writable s, channelTab = channelTab s, portTab = portTab s,
      physPageTab = [], cacheLRU = 0, vmmStartAddr = 0xFD000000, noFrames = 2, kptd = (\<lambda>_. 3), kpt = (\<lambda>_. 0),
      pmem = (\<lambda>a. if a = 0x12000 then 7 else 0), pctAddr = (\<lambda>_. 0xFC100000), pctSize = (\<lambda>_. 0x1000)\<rparr>)"

definition demo_node :: "nat \<Rightarrow> nat \<Rightarrow> addr" where
  "demo_node r i = 1000 + 2 ^ 20 * r + i"

definition demo_mm :: mstate where
  "demo_mm = page_upd (0, 1) (\<lambda>x. x\<lparr>pg_type := PPAG_PTDL2\<rparr>) (the (SetupPhysMM 300 demo_node demo_boot))"

lemma demo_boot_fields:
  "dnode demo_boot = dnode (demo_state CYCLIC_SCHED)" "cfg demo_boot = demo_cfg CYCLIC_SCHED" "noFrames demo_boot = 2"
  "vmmStartAddr demo_boot = 0xFD000000" "kptd demo_boot = (\<lambda>_. 3)" "cKThread demo_boot = 10"
  "kthreads demo_boot = (\<lambda>a. demo_thread (demo_vcpu_ids a) a)" "pctAddr demo_boot = (\<lambda>_. 0xFC100000)"
  "pctSize demo_boot = (\<lambda>_. 0x1000)" "pmem demo_boot = (\<lambda>a. if a = 0x12000 then 7 else 0)"
  "partitionTab demo_boot = [\<lparr>p_kThread = [10], p_opMode = 0, p_cfg = 0\<rparr>, \<lparr>p_kThread = [20], p_opMode = 0, p_cfg = 1\<rparr>]"
  by (simp_all add: demo_boot_def demo_raw_def Let_def demo_state_def)

lemma demo_boot_ready: "boot_ready 300 demo_node demo_boot"
  unfolding boot_ready_def
proof (intro conjI allI impI ballI)
  have fr: "free_frames demo_boot = {0xFD000000, 0xFD001000}"
    by (simp add: free_frames_def demo_boot_fields lessThan_nat_numeral lessThan_Suc insert_commute numeral_2_eq_2 lessThan_Suc)
  show "frame_ok v demo_boot" if "v \<in> free_frames demo_boot" for v
    using that unfolding fr by (auto simp: frame_ok_def demo_boot_fields pg_defs XM_OFFSET_def has_flag_def word_less_nat_alt)
  show "dl_free demo_boot (demo_node r i)" for r i
    by (simp add: dl_free_def demo_boot_fields demo_state_def demo_node_def)
  fix r i r' i' assume "i < (2 :: nat) ^ 20" "i' < (2 :: nat) ^ 20" "demo_node r i = demo_node r' i'"
  then have "2 ^ 20 * r + i = 2 ^ 20 * r' + i'" "i div 2 ^ 20 = 0" "i' div 2 ^ 20 = 0" by (simp_all add: demo_node_def)
  then show "r = r'" "i = i'"
    by (metis add.right_neutral div_mult_self2 add.commute mult.commute power_not_zero zero_neq_numeral, metis mod_less mod_mult_self2 add.commute \<open>i < 2 ^ 20\<close> \<open>i' < 2 ^ 20\<close>)
qed (simp_all add: demo_boot_fields demo_state_def)

lemma demo_setup: "SetupPhysMM 300 demo_node demo_boot = Some (the (SetupPhysMM 300 demo_node demo_boot))"
  by (rule not_None_the) (simp add: SetupPhysMM_def Let_def ASSERT_def DynListInit_def demo_boot_fields demo_cfg_def PAGE_BYTES_def)

lemma demo_page:
  "page_get (0, i) demo_mm = (if i < 32 then Some \<lparr>pg_node = demo_node 0 i, pg_vAddr = 0, pg_mapped = False, pg_unlocked = False,
     pg_type = (if i = 1 then PPAG_PTDL2 else PPAG_STD), pg_counter = 0\<rparr> else None)"
proof -
  have "page_get (0, i) (the (SetupPhysMM 300 demo_node demo_boot)) = (if i < 32 then Some \<lparr>pg_node = demo_node 0 i, pg_vAddr = 0,
      pg_mapped = False, pg_unlocked = False, pg_type = PPAG_STD, pg_counter = 0\<rparr> else None)" for i
    using page_get_setup [OF demo_setup, of 0 i]
    by (simp add: demo_boot_fields demo_cfg_def aget_def has_flag_def XMC_REG_FLAG_PGTAB_def PAGE_BYTES_def PPAG_STD_def)
  then show ?thesis by (simp add: demo_mm_def page_get_upd)
qed

lemma demo_mm_fields:
  "cfg demo_mm = demo_cfg CYCLIC_SCHED" "cKThread demo_mm = 10" "kthreads demo_mm = (\<lambda>a. demo_thread (demo_vcpu_ids a) a)"
  "pctAddr demo_mm = (\<lambda>_. 0xFC100000)" "pctSize demo_mm = (\<lambda>_. 0x1000)" "pmem demo_mm = (\<lambda>a. if a = 0x12000 then 7 else 0)"
  "partitionTab demo_mm = [\<lparr>p_kThread = [10], p_opMode = 0, p_cfg = 0\<rparr>, \<lparr>p_kThread = [20], p_opMode = 0, p_cfg = 1\<rparr>]"
  "noFrames demo_mm = 2"
  using setup_fields [OF demo_setup] by (simp_all add: demo_mm_def demo_boot_fields)

lemma demo_mm_ready: "ready [300 \<mapsto> []] demo_mm"
proof -
  have "vc_inv [300 \<mapsto> []] demo_mm"
    unfolding demo_mm_def by (rule vc_inv_core [OF SetupPhysMM_inv [OF demo_boot_ready demo_setup] core_only_counter(2)])
  then show ?thesis by (simp add: ready_def frame_left_def demo_mm_fields)
qed

definition demo_p0 :: partition_t where
  "demo_p0 = \<lparr>p_kThread = [10], p_opMode = 0, p_cfg = 0\<rparr>"

definition demo_area :: xmcMemoryArea where
  "demo_area = \<lparr>ma_nameOffset = 0, ma_startAddr = 0x10000, ma_mappedAt = 0x10000, ma_size = 0x4000, ma_flags = 0, ma_memoryRegionOffset = 0\<rparr>"

lemma demo_areas: "areas_of (demo_part 0 XM_PART_SYSTEM) (cfg demo_mm) = [demo_area]"
  by (simp add: areas_of_def demo_part_def demo_mm_fields demo_cfg_def demo_area_def)

lemma demo_mem_ok: "mem_ok (demo_part 0 XM_PART_SYSTEM) demo_mm"
proof -
  have "areas_ok (demo_part 0 XM_PART_SYSTEM) (cfg demo_mm)"
    unfolding areas_ok_def demo_areas by (simp add: demo_part_def demo_mm_fields demo_cfg_def demo_area_def word_le_nat_alt)
  moreover have "area_ok demo_area demo_mm"
    unfolding area_ok_def by (simp add: demo_area_def demo_mm_fields demo_cfg_def aget_def region_ok_def demo_page word_le_nat_alt)
  ultimately show ?thesis by (simp add: mem_ok_def demo_areas)
qed

lemma demo_cur: "cur_part demo_mm = Some demo_p0" "part_cfg demo_p0 demo_mm = Some (demo_part 0 XM_PART_SYSTEM)"
  "IsPCtrlTabPg 0 (cKThread demo_mm) demo_mm \<noteq> None"
  by (simp_all add: cur_part_def GetPartition_def demo_mm_fields demo_thread_def demo_vcpu_ids_def demo_guest_def KID2PARTID_def
      aget_def demo_p0_def part_cfg_def demo_cfg_def IsPCtrlTabPg_def Let_def)

text \<open>The first pages of partition 0.\<close>

lemma demo_find:
  assumes "a \<in> {0x10000, 0x11000, 0x12000}"
  shows "PmmFindPage a demo_p0 demo_mm = Some (Some ((0, unat ((a - 0x10000) div 0x1000)), 0), demo_mm)"
proof -
  have "a AND PAGE_MASK = a" "in_area a demo_area" "area_page demo_area a demo_mm = Some (0, unat ((a - 0x10000) div 0x1000))"
    using assms by (auto simp: PAGE_MASK_def in_area_def demo_area_def area_page_def demo_mm_fields demo_cfg_def has_flag_def
        XMC_REG_FLAG_PGTAB_def drop_bit_eq_div word_le_nat_alt)
  then show ?thesis
    by (simp add: PmmFindPage_eq [OF demo_mem_ok demo_cur(2)] demo_areas) (simp add: demo_area_def)
qed

lemma demo_word: "pm_word demo_mm 0x11000 = 0" "pm_word demo_mm 0x12000 = 7"
  by (simp_all add: pm_word_def demo_mm_fields bytes_u32_def)

end
