(* ===== verification/MmuProps.thy ===== *)
theory MmuProps
  imports MmuDemo
begin

text \<open>
  Spatial isolation: what a partition can make the kernel write into its page tables, and where
  the checks of SetPageTypeSys stop short. The attributes of entries and the search for an area
  are the two routines the checks rest on.
\<close>

section \<open>What an entry may point to\<close>

text \<open>The result of the search for the target of an entry.\<close>

definition target_of :: "u32 \<Rightarrow> xmcPartition \<Rightarrow> bool \<Rightarrow> u32 \<Rightarrow> 'a mstate_scheme \<Rightarrow> (page option \<times> u32 \<times> bool) option" where
  "target_of junk c own a s = (case List.find (in_area a) (areas_of c (cfg s)) of
      Some m \<Rightarrow> (case area_page m a s of Some pg \<Rightarrow> Some (Some pg, ma_flags m, False)
         | None \<Rightarrow> if own then Some (None, junk, True) else Some (None, ma_flags m, False))
    | None \<Rightarrow> if own then Some (None, junk, True) else None)"

definition logs_only :: "'a mstate_scheme \<Rightarrow> 'a mstate_scheme \<Rightarrow> bool" where
  "logs_only s s' \<longleftrightarrow> (\<exists>es. s' = s\<lparr>audit := es\<rparr>)"

lemma logs_only_refl [simp]: "logs_only s s"
  unfolding logs_only_def by (rule exI [of _ "audit s"]) simp

lemma logs_only_log: "logs_only s t \<Longrightarrow> logs_only s (log_audit e t)"
  by (auto simp: logs_only_def log_audit_def)

lemma logs_onlyD:
  assumes "logs_only s s'"
  shows "mmu_same s s'" "ready f s \<Longrightarrow> ready f s'" "page_get pg s' = page_get pg s"
proof -
  obtain es where e: "s' = s\<lparr>audit := es\<rparr>" using assms by (auto simp: logs_only_def)
  show "page_get pg s' = page_get pg s" by (simp add: e page_get_def)
  show "mmu_same s s'" by (simp add: e mmu_same_def mem_same_def page_get_def)
  show "ready f s \<Longrightarrow> ready f s'"
    unfolding ready_def by (auto intro: vc_inv_cong simp: e frame_left_def page_get_def)
qed

lemma IsPCtrlTabPg_total:
  "IsPCtrlTabPg 0 k s \<noteq> None \<Longrightarrow> \<exists>b. IsPCtrlTabPg a k s = Some b"
  by (auto simp: IsPCtrlTabPg_def Let_def bind_eq_Some_iff)

lemma pte_target_eq:
  assumes "mem_ok c s" "part_cfg p s = Some c" "a AND (PAGE_BYTES - 1) = 0" "IsPCtrlTabPg a (cKThread s) s = Some own"
  shows "\<exists>s'. pte_target junk p a s = Some (target_of junk c own a s, s') \<and> logs_only s s'"
proof -
  have a: "a AND PAGE_MASK = a" using page_decomp(1) [of a] assms(3) by simp
  have log: "mem_ok c (log_audit e s) = mem_ok c s" "part_cfg p (log_audit e s) = part_cfg p s"
    "IsPCtrlTabPg a k (log_audit e s) = IsPCtrlTabPg a k s" "cfg (log_audit e s) = cfg s" "cKThread (log_audit e s) = cKThread s" for e k
    using mem_same_simps [OF mem_same_log [of s e]] by simp_all
  show ?thesis
  proof (cases "List.find (in_area a) (areas_of c (cfg s))")
    case None
    then show ?thesis
      using assms PmmFindPage_eq [OF assms(1,2), of a] PmmFindAddr_eq [of c "log_audit (AuditVmmNotOwned a) s" p a]
      by (auto simp: pte_target_def target_of_def a log intro: logs_only_log logs_only_refl)
  next
    case (Some m)
    then show ?thesis
      using assms PmmFindPage_eq [OF assms(1,2), of a] PmmFindAddr_eq [OF assms(1,2), of a]
      by (cases "area_page m a s") (auto simp: pte_target_def target_of_def a)
  qed
qed

text \<open>An installed entry maps an area of the partition or its control table, writable only where allowed.\<close>

definition pte_safe :: "xmcPartition \<Rightarrow> 'a mstate_scheme \<Rightarrow> u32 \<Rightarrow> bool" where
  "pte_safe c s e \<longleftrightarrow> (IS_PRESENT e \<longrightarrow>
     (\<exists>m \<in> set (areas_of c (cfg s)). in_area (e AND PAGE_MASK) m \<and>
        (has_flag e PG_ARCH_RW \<longrightarrow> \<not> has_flag (ma_flags m) XM_MEM_AREA_READONLY \<and>
           (\<forall>pg. area_page m (e AND PAGE_MASK) s = Some pg \<longrightarrow> map_option pg_type (page_get pg s) = Some PPAG_STD))) \<or>
     (IsPCtrlTabPg (e AND PAGE_MASK) (cKThread s) s = Some True \<and> \<not> has_flag e PG_ARCH_RW))"

lemma pte_safe_same:
  assumes "mem_same s s'" shows "pte_safe c s' e = pte_safe c s e"
proof -
  have t: "map_option pg_type (page_get pg s') = map_option pg_type (page_get pg s)" for pg
    using assms by (simp add: mem_same_def del: split_paired_All)
  show ?thesis
    unfolding pte_safe_def mem_same_simps(1) [OF assms] mem_same_simps(4) [OF assms] mem_same_simps(7) [OF assms]
      mem_same_simps(8) [OF assms] t ..
qed

lemma clr_attr_bit:
  "bit (clr_attr PG_ATTR_RW b a) n \<longleftrightarrow> bit a n \<and> (b \<longrightarrow> n \<noteq> 18)"
  "bit (clr_attr PG_ATTR_CACHED b a) n \<longleftrightarrow> bit a n \<and> (b \<longrightarrow> n \<noteq> 19)"
  by (auto simp: clr_attr_def page_bits dest: bit_imp_le_length)

lemma pte_value_bits:
  "pte_value fl sp v AND PAGE_MASK = v AND PAGE_MASK"
  "has_flag (pte_value fl sp v) PG_ARCH_RW \<longleftrightarrow> has_flag v PG_ARCH_RW \<and> \<not> has_flag fl XM_MEM_AREA_READONLY \<and> \<not> sp"
  "IS_PRESENT (pte_value fl sp v) = IS_PRESENT v"
proof -
  have b: "bit (pte_value fl sp v) n \<longleftrightarrow> (12 \<le> n \<and> bit v n) \<or> (n = 0 \<and> bit v 0) \<or> (n = 2 \<and> bit v 2) \<or>
      (n = 1 \<and> bit v 1 \<and> \<not> has_flag fl XM_MEM_AREA_READONLY \<and> \<not> sp) \<or>
      (n = 4 \<and> (bit v 4 \<or> has_flag fl XM_MEM_AREA_UNCACHEABLE)) \<or> (n < 12 \<and> n \<notin> {0, 1, 2, 4} \<and> bit v n)" for n
  proof -
    have lt: "bit v n \<Longrightarrow> n < 32" using bit_imp_le_length [of v n] by simp
    have e: "bit (pte_value fl sp v) n \<longleftrightarrow> (12 \<le> n \<and> n < 32 \<and> bit v n) \<or>
        bit (VmAttr2ArchAttr (clr_attr PG_ATTR_RW sp (clr_attr PG_ATTR_CACHED (has_flag fl XM_MEM_AREA_UNCACHEABLE)
          (clr_attr PG_ATTR_RW (has_flag fl XM_MEM_AREA_READONLY) (VmArchAttr2Attr v))))) n"
      unfolding pte_value_def Let_def pg_masks by (auto simp: bit_or_iff bit_and_iff bit_not_iff bit_mask_iff)
    show ?thesis
    proof (cases "n \<in> {0, 1, 2, 4}")
      case True
      then consider "n = 0" | "n = 1" | "n = 2" | "n = 4" by blast
      then show ?thesis unfolding e arch_bit clr_attr_bit attr_bit by cases simp_all
    next
      case False
      then show ?thesis unfolding e arch_bit clr_attr_bit attr_bit using lt by (simp del: bit_0) linarith
    qed
  qed
  show "pte_value fl sp v AND PAGE_MASK = v AND PAGE_MASK"
    by (rule bit_word_eqI) (auto simp: b pg_masks bit_and_iff bit_not_iff bit_mask_iff)
  show "has_flag (pte_value fl sp v) PG_ARCH_RW \<longleftrightarrow> has_flag v PG_ARCH_RW \<and> \<not> has_flag fl XM_MEM_AREA_READONLY \<and> \<not> sp"
    "IS_PRESENT (pte_value fl sp v) = IS_PRESENT v"
    by (auto simp: b pg_flags IS_PRESENT_def)
qed

lemma target_safe:
  assumes "mem_ok c s" "IsPCtrlTabPg (v AND PAGE_MASK) (cKThread s) s = Some own"
    and "target_of junk c own (v AND PAGE_MASK) s = Some (po, fl, ip)"
    and "sp = (case po of None \<Rightarrow> ip | Some pg \<Rightarrow> map_option pg_type (page_get pg s) \<noteq> Some PPAG_STD)"
  shows "pte_safe c s (pte_value fl sp v)"
proof (cases "List.find (in_area (v AND PAGE_MASK)) (areas_of c (cfg s))")
  case None
  then show ?thesis using assms(2-4) by (auto simp: target_of_def pte_safe_def pte_value_bits split: if_splits)
next
  case (Some m)
  then have m: "m \<in> set (areas_of c (cfg s))" "in_area (v AND PAGE_MASK) m" by (auto simp: find_Some_iff)
  show ?thesis
  proof (cases "area_page m (v AND PAGE_MASK) s")
    case None
    then show ?thesis using Some assms(2-4) m by (auto simp: target_of_def pte_safe_def pte_value_bits split: if_splits)
  next
    case (Some pg)
    then show ?thesis using \<open>List.find _ _ = Some m\<close> assms(2-4) m
      by (auto simp: target_of_def pte_safe_def pte_value_bits split: if_splits)
  qed
qed

section \<open>One entry\<close>

text \<open>What the steps on entries need of the state, and what they keep.\<close>

definition part_env :: "partition_t \<Rightarrow> xmcPartition \<Rightarrow> 'a mstate_scheme \<Rightarrow> bool" where
  "part_env p c s \<longleftrightarrow> cur_part s = Some p \<and> part_cfg p s = Some c \<and> mem_ok c s \<and> IsPCtrlTabPg 0 (cKThread s) s \<noteq> None"

lemma part_env_same: "mmu_same s s' \<Longrightarrow> part_env p c s' = part_env p c s"
  by (simp add: part_env_def mmu_same_def mem_same_simps [of s s'])

lemma part_envD:
  assumes "part_env p c s"
  shows "cur_part s = Some p" "part_cfg p s = Some c" "mem_ok c s"
    "\<exists>own. IsPCtrlTabPg a (cKThread s) s = Some own"
proof -
  show "\<exists>own. IsPCtrlTabPg a (cKThread s) s = Some own"
    using assms by (intro IsPCtrlTabPg_total) (simp add: part_env_def)
qed (use assms in \<open>simp_all add: part_env_def\<close>)

lemma target_of_page:
  assumes "mem_ok c s" "target_of junk c own a s = Some (Some pg, fl, ip)" "a AND (PAGE_BYTES - 1) = 0"
  obtains x where "page_get pg s = Some x"
proof -
  obtain m where m: "List.find (in_area a) (areas_of c (cfg s)) = Some m" "area_page m a s = Some pg"
    using assms(2) by (auto simp: target_of_def split: option.splits if_splits)
  then have "area_ok m s" "in_area a m" using assms(1) by (auto simp: mem_ok_def find_Some_iff)
  then have "page_get pg s \<noteq> None" using area_page_ok(1) m(2) assms(3) aligned_dvd by blast
  then show thesis using that by blast
qed

lemma target_of_same:
  assumes "mem_same s s'" shows "target_of junk c own a s' = target_of junk c own a s"
  unfolding target_of_def mem_same_simps(1) [OF assms] mem_same_simps(7) [OF assms] ..

text \<open>A counter went up by one at most.\<close>

definition counts_up :: "'a mstate_scheme \<Rightarrow> 'a mstate_scheme \<Rightarrow> bool" where
  "counts_up s s' \<longleftrightarrow> (\<forall>pg x. page_get pg s = Some x \<longrightarrow> (\<exists>x'. page_get pg s' = Some x' \<and>
     (pg_counter x' = pg_counter x \<or> pg_counter x' = pg_counter x + 1)))"

lemma pte_install_spec:
  assumes env: "part_env p c s" and r: "ready f s"
  shows "\<exists>v s'. pte_install junk p val s = Some (v, s') \<and> mmu_same s s' \<and> ready f s' \<and> counts_up s s' \<and>
    (\<forall>e. v = Some e \<longrightarrow> pte_safe c s e)"
proof (cases "IS_PRESENT val")
  case False
  then show ?thesis using r by (auto simp: pte_install_def counts_up_def pte_safe_def)
next
  case True
  let ?a = "val AND PAGE_MASK"
  obtain own where own: "IsPCtrlTabPg ?a (cKThread s) s = Some own" using part_envD(4) [OF env] by blast
  obtain s1 where s1: "pte_target junk p ?a s = Some (target_of junk c own ?a s, s1)" "logs_only s s1"
    using pte_target_eq [OF part_envD(3,2) [OF env] page_decomp(2) own] by blast
  note l = logs_onlyD [OF s1(2)]
  have up1: "counts_up s s1" by (simp add: counts_up_def l(3))
  show ?thesis
  proof (cases "target_of junk c own ?a s")
    case None
    then show ?thesis using True s1(1) l(1,2) r up1 by (simp add: pte_install_def)
  next
    case (Some t)
    obtain po fl ip where t: "t = (po, fl, ip)" by (cases t)
    show ?thesis
    proof (cases po)
      case None
      have "pte_safe c s (pte_value fl ip val)"
        by (rule target_safe [OF part_envD(3) [OF env] own]) (use Some t None in auto)
      then show ?thesis using True s1(1) Some t None l(1,2) r up1 by (simp add: pte_install_def)
    next
      case (Some pg)
      have tg: "target_of junk c own ?a s = Some (Some pg, fl, ip)" using \<open>target_of junk c own ?a s = Some t\<close> t Some by simp
      obtain x where x: "page_get pg s = Some x" using target_of_page [OF part_envD(3) [OF env] tg page_decomp(2)] .
      have safe: "pte_safe c s (pte_value fl (pg_type x \<noteq> PPAG_STD) val)"
        by (rule target_safe [OF part_envD(3) [OF env] own tg]) (simp add: x)
      define s2 where "s2 = page_upd pg (\<lambda>x. x\<lparr>pg_counter := pg_counter x + 1\<rparr>) s1"
      have inc: "PPagIncCounter pg s1 = Some s2"
      proof -
        have lt: "unat (pg_counter x) < 2 ^ 27" using unsigned_less [of "pg_counter x"] by simp
        have "(ucast (pg_counter x) :: u32) \<noteq> - 1"
        proof
          assume "(ucast (pg_counter x) :: u32) = - 1"
          then have "unat (ucast (pg_counter x) :: u32) = unat (- 1 :: u32)" by simp
          moreover have "unat (ucast (pg_counter x) :: u32) = unat (pg_counter x)" by (simp add: unsigned_ucast_eq take_bit_nat_eq_self [OF less_trans [OF lt]])
          moreover have "unat (- 1 :: u32) = 2 ^ 32 - 1" by (simp add: unsigned_minus_1_eq_mask mask_eq_exp_minus_1)
          ultimately show False using lt by simp
        qed
        then show ?thesis by (simp add: PPagIncCounter_def l(3) x ASSERT_def s2_def)
      qed
      have "pte_install junk p val s = Some (Some (pte_value fl (pg_type x \<noteq> PPAG_STD) val), s2)"
        using True s1(1) tg inc x by (simp add: pte_install_def l(3))
      moreover have "mmu_same s s2" using mmu_same_trans [OF l(1) mmu_same_counter] by (simp add: s2_def)
      moreover have "ready f s2" using ready_core [OF l(2) [OF r] core_only_counter(1)] by (simp add: s2_def)
      moreover have "counts_up s s2" by (auto simp: counts_up_def s2_def page_get_upd l(3))
      ultimately show ?thesis using safe by blast
    qed
  qed
qed

text \<open>An old entry whose page is counted can be released.\<close>

definition counted :: "xmcPartition \<Rightarrow> u32 \<Rightarrow> 'a mstate_scheme \<Rightarrow> bool" where
  "counted c w s \<longleftrightarrow> (IS_PRESENT w \<longrightarrow> (\<forall>m pg x. List.find (in_area (w AND PAGE_MASK)) (areas_of c (cfg s)) = Some m \<longrightarrow>
     area_page m (w AND PAGE_MASK) s = Some pg \<longrightarrow> page_get pg s = Some x \<longrightarrow> 0 < pg_counter x \<and> pg_counter x < - 1))"

lemma counted_up:
  assumes "counted c w s" "mmu_same s s'" "counts_up s s'" "IS_PRESENT w"
    and "target_of junk c own (w AND PAGE_MASK) s = Some (Some pg, fl, ip)" "page_get pg s' = Some x'"
  shows "0 < pg_counter x'"
proof -
  obtain m where m: "List.find (in_area (w AND PAGE_MASK)) (areas_of c (cfg s)) = Some m" "area_page m (w AND PAGE_MASK) s = Some pg"
    using assms(5) by (auto simp: target_of_def split: option.splits if_splits)
  have "mem_same s s'" using assms(2) by (simp add: mmu_same_def)
  then obtain x where x: "page_get pg s = Some x" using mem_same_get [of s s' pg] assms(6) by (cases "page_get pg s") auto
  have c: "0 < pg_counter x \<and> pg_counter x < - 1" by (rule assms(1) [unfolded counted_def, rule_format, OF assms(4) m x])
  then have "0 < pg_counter x + 1" by (metis eq_neg_iff_add_eq_0 less_irrefl word_gt_0)
  moreover have "pg_counter x' = pg_counter x \<or> pg_counter x' = pg_counter x + 1"
    using assms(3) [unfolded counts_up_def, rule_format, OF x] assms(6) by auto
  ultimately show ?thesis using c by auto
qed

lemma pte_release_spec:
  assumes env: "part_env p c s" and r: "ready f s"
    and cnt: "\<And>own pg fl ip x. IS_PRESENT w \<Longrightarrow> target_of 0 c own (w AND PAGE_MASK) s = Some (Some pg, fl, ip) \<Longrightarrow>
      page_get pg s = Some x \<Longrightarrow> 0 < pg_counter x"
  shows "\<exists>ok s'. pte_release p w s = Some (ok, s') \<and> mmu_same s s' \<and> ready f s'"
proof (cases "IS_PRESENT w")
  case False
  then show ?thesis using r by (auto simp: pte_release_def)
next
  case True
  let ?a = "w AND PAGE_MASK"
  obtain own where own: "IsPCtrlTabPg ?a (cKThread s) s = Some own" using part_envD(4) [OF env] by blast
  obtain s1 where s1: "pte_target 0 p ?a s = Some (target_of 0 c own ?a s, s1)" "logs_only s s1"
    using pte_target_eq [OF part_envD(3,2) [OF env] page_decomp(2) own] by blast
  note l = logs_onlyD [OF s1(2)]
  show ?thesis
  proof (cases "target_of 0 c own ?a s")
    case None
    then have "pte_release p w s = Some (False, s1)" using True s1(1) by (simp add: pte_release_def)
    then show ?thesis using l(1,2) r by blast
  next
    case (Some t)
    obtain po fl ip where t: "t = (po, fl, ip)" by (cases t)
    show ?thesis
    proof (cases po)
      case None
      then have "pte_release p w s = Some (True, s1)" using True s1(1) Some t by (simp add: pte_release_def)
      then show ?thesis using l(1,2) r by blast
    next
      case (Some pg)
      have tg: "target_of 0 c own ?a s = Some (Some pg, fl, ip)" using \<open>target_of 0 c own ?a s = Some t\<close> t Some by simp
      obtain x where x: "page_get pg s = Some x" using target_of_page [OF part_envD(3) [OF env] tg page_decomp(2)] .
      define s2 where "s2 = page_upd pg (\<lambda>x. x\<lparr>pg_counter := pg_counter x - 1\<rparr>) s1"
      have "0 < pg_counter x" by (rule cnt [OF True tg x])
      then have "pte_release p w s = Some (True, s2)"
        using True s1(1) tg x by (simp add: pte_release_def drop_entry_def PPagDecCounter_def ASSERT_def l(3) s2_def word_gt_0)
      moreover have "mmu_same s s2" using mmu_same_trans [OF l(1) mmu_same_counter] by (simp add: s2_def)
      moreover have "ready f s2" using ready_core [OF l(2) [OF r] core_only_counter(1)] by (simp add: s2_def)
      ultimately show ?thesis by blast
    qed
  qed
qed

section \<open>Updating an entry of a page table\<close>

lemma update_pte_steps:
  assumes env: "part_env p c s" and r: "ready f s" and pg: "page_get pg s = Some x" and al: "page_phys pg s = pAddr AND PAGE_MASK"
    and w: "pAddr AND 3 = 0" and cnt: "counted c (pm_word s pAddr) s"
  shows "\<exists>ret v s' f'. UpdatePte junk pg pAddr val s = Some (ret, v, s') \<and> mmu_same s s' \<and> ready f' s' \<and>
    (ret = XM_OK \<and> pte_safe c s v \<or> ret = XM_INVALID_PARAM)"
proof -
  let ?o = "pAddr AND (PAGE_BYTES - 1)"
  have split: "page_phys pg s + ?o = pAddr" by (simp add: al page_decomp(1))
  have r': "vc_inv f s" "frame_left f s" using r by (simp_all add: ready_def)
  obtain v0 s0 s1 f1 where 1: "VCacheMapPage pAddr pg s = Some (v0 + ?o, s0)"
    "ReadByPassMmuWord (v0 + ?o) s0 = Some (pm_word s pAddr, s0)" "VCacheUnlockPage pg s0 = Some s1" "vc_same s s1"
    "vc_inv f1 s1" "frame_left f1 s1"
    using cached_read [OF r'(1) pg disjI2 [OF r'(2)] word_off_of [OF w]] unfolding split by metis
  have m1: "mmu_same s s1" by (rule vc_same_mmu [OF 1(4)])
  have e1: "part_env p c s1" using env part_env_same [OF m1] by simp
  have r1: "ready f1 s1" using 1(5,6) by (simp add: ready_def)
  obtain v s2 where 2: "pte_install junk p val s1 = Some (v, s2)" "mmu_same s1 s2" "ready f1 s2" "counts_up s1 s2"
    "\<And>e. v = Some e \<Longrightarrow> pte_safe c s1 e"
    using pte_install_spec [OF e1 r1, of junk val] by blast
  have safe: "pte_safe c s e" if "v = Some e" for e
    using 2(5) [OF that] pte_safe_same [of s s1 c e] m1 unfolding mmu_same_def by blast
  show ?thesis
  proof (cases v)
    case None
    then have "UpdatePte junk pg pAddr val s = Some (XM_INVALID_PARAM, val, s2)"
      using 1(1-3) 2(1) part_envD(1) [OF e1] by (simp add: UpdatePte_def)
    then show ?thesis using mmu_same_trans [OF m1 2(2)] 2(3) by blast
  next
    case (Some e)
    have e2: "part_env p c s2" using e1 part_env_same [OF 2(2)] by simp
    have cnt1: "counted c (pm_word s pAddr) s1" unfolding counted_def
    proof (intro impI allI)
      fix m pg' y
      assume a: "IS_PRESENT (pm_word s pAddr)" "List.find (in_area (pm_word s pAddr AND PAGE_MASK)) (areas_of c (cfg s1)) = Some m"
        "area_page m (pm_word s pAddr AND PAGE_MASK) s1 = Some pg'" "page_get pg' s1 = Some y"
      have ms: "mem_same s s1" using m1 by (simp add: mmu_same_def)
      obtain y0 where y0: "page_get pg' s = Some y0" using mem_same_get [OF ms, of pg'] a(4) by (cases "page_get pg' s") auto
      obtain y1 where "page_get pg' s1 = Some y1" "page_core y1 = page_core y0" using vc_same_core [OF 1(4) y0] .
      then have "pg_counter y = pg_counter y0" using a(4) by (simp add: page_core_def)
      then show "0 < pg_counter y \<and> pg_counter y < - 1"
        using cnt [unfolded counted_def, rule_format, OF a(1) _ _ y0, of m] a(2,3) by (simp add: mem_same_simps [OF ms])
    qed
    have m12: "mem_same s1 s2" using 2(2) by (simp add: mmu_same_def)
    obtain ok s3 where 3: "pte_release p (pm_word s pAddr) s2 = Some (ok, s3)" "mmu_same s2 s3" "ready f1 s3"
      using pte_release_spec [OF e2 2(3), of "pm_word s pAddr"] counted_up [OF cnt1 2(2,4)]
      unfolding target_of_same [OF m12] by metis
    have "UpdatePte junk pg pAddr val s = Some (if ok then XM_OK else XM_INVALID_PARAM, e, s3)"
      using 1(1-3) 2(1) 3(1) Some part_envD(1) [OF e1] by (simp add: UpdatePte_def)
    moreover have "mmu_same s s3" using mmu_same_trans [OF mmu_same_trans [OF m1 2(2)] 3(2)] .
    ultimately show ?thesis using 3(3) safe [OF Some] by (cases ok) auto
  qed
qed

text \<open>
  C35: UpdatePage32Sys on a word-aligned entry of a page table of the caller returns, when the page
  mapped by the old entry is counted (\<open>counted\<close>); either it refuses and leaves the
  memory as it was, or it writes one word, and an entry it installs maps a page of an area of the
  caller or of its control table, writable only when the area is not read-only and the page is
  plain memory (spatial isolation).
\<close>

theorem update_page_isolated:
  assumes "part_env p c s" "ready f s" "pAddr AND 3 = 0"
    and "PmmFindPage pAddr p s = Some (Some (pg, fl), s)" "map_option pg_type (page_get pg s) = Some PPAG_PTDL2"
    and "counted c (pm_word s pAddr) s"
  shows "\<exists>r s' e f'. UpdatePage32Sys junk pAddr val s = Some (r, s') \<and> mem_same s s' \<and> ready f' s' \<and>
    (r = XM_OK \<and> pmem s' = pmem (pm_put pAddr e s) \<and> pte_safe c s e \<or> r = XM_INVALID_PARAM \<and> pmem s' = pmem s)"
proof -
  let ?o = "pAddr AND (PAGE_BYTES - 1)"
  obtain x where x: "page_get pg s = Some x" "pg_type x = PPAG_PTDL2" using assms(5) by auto
  have al: "page_phys pg s = pAddr AND PAGE_MASK"
    using PmmFindPage_found [OF part_envD(3,2) [OF assms(1)] assms(4)] by metis
  obtain ret v s1 f1 where 1: "UpdatePte junk pg pAddr val s = Some (ret, v, s1)" "mmu_same s s1" "ready f1 s1"
    "ret = XM_OK \<and> pte_safe c s v \<or> ret = XM_INVALID_PARAM"
    using update_pte_steps [OF assms(1,2) x(1) al assms(3,6)] by blast
  have h: "UpdatePPag32Hndl junk (pg_type x) pg pAddr val s = Some (ret, v, s1)"
    using 1(1) x(2) by (simp add: UpdatePPag32Hndl_def PPAG_STD_def PPAG_PTDL1_def PPAG_PTDL2_def)
  have ms: "mem_same s s1" using 1(2) by (simp add: mmu_same_def)
  show ?thesis
  proof (cases "ret = XM_OK")
    case False
    then have "UpdatePage32Sys junk pAddr val s = Some (XM_INVALID_PARAM, s1)"
      using assms(3,4) part_envD(1) [OF assms(1)] x(1) h 1(4) by (simp add: UpdatePage32Sys_def ret_defs)
    then show ?thesis using 1(2,3) unfolding mmu_same_def by blast
  next
    case True
    obtain x1 where x1: "page_get pg s1 = Some x1" using mem_same_type [OF ms x(1)] by metis
    have split: "page_phys pg s1 + ?o = pAddr" by (simp add: mem_same_simps(6) [OF ms] al page_decomp(1))
    have r1: "vc_inv f1 s1" "frame_left f1 s1" using 1(3) by (simp_all add: ready_def)
    obtain w0 s2 s3 s' f' where 2: "VCacheMapPage pAddr pg s1 = Some (w0 + ?o, s2)" "WriteByPassMmuWord (w0 + ?o) v s2 = Some s3"
      "VCacheUnlockPage pg s3 = Some s'" "vc_same (pm_put pAddr v s1) s'" "vc_inv f' s'" "frame_left f' s'"
      using cached_write [OF r1(1) x1 disjI2 [OF r1(2)] word_off_of [OF assms(3)], of v] unfolding split by metis
    have "UpdatePage32Sys junk pAddr val s = Some (XM_OK, s')"
      using assms(3,4) part_envD(1) [OF assms(1)] x(1) h True 2(1-3) by (simp add: UpdatePage32Sys_def ret_defs)
    moreover have "mem_same s s'"
      by (rule mem_same_trans [OF ms mem_same_trans [OF mem_same_put vc_same_mem [OF 2(4)]]])
    moreover have "pmem s' = pmem (pm_put pAddr v s)"
      using vc_same_fields(5) [OF 2(4)] 1(2) by (simp add: mmu_same_def pm_put_def)
    moreover have "ready f' s'" using 2(5,6) by (simp add: ready_def)
    moreover have "pte_safe c s v" using 1(4) True by (auto simp: ret_defs)
    ultimately show ?thesis using True by blast
  qed
qed

lemma demo_counted: "counted (demo_part 0 XM_PART_SYSTEM) (pm_word demo_mm 0x11000) demo_mm"
  by (simp add: counted_def demo_word IS_PRESENT_def has_flag_def)

lemma demo_env: "part_env demo_p0 (demo_part 0 XM_PART_SYSTEM) demo_mm"
  using demo_cur demo_mem_ok by (simp add: part_env_def)

theorem update_page_isolated_witness:
  "\<exists>r s' e f'. UpdatePage32Sys 0 0x11000 0x12007 demo_mm = Some (r, s') \<and> mem_same demo_mm s' \<and> ready f' s' \<and>
    (r = XM_OK \<and> pmem s' = pmem (pm_put 0x11000 e demo_mm) \<and> pte_safe (demo_part 0 XM_PART_SYSTEM) demo_mm e \<or>
     r = XM_INVALID_PARAM \<and> pmem s' = pmem demo_mm)"
proof (rule update_page_isolated [OF demo_env demo_mm_ready _ _ _ demo_counted])
  show "PmmFindPage 0x11000 demo_p0 demo_mm = Some (Some ((0, 1), 0), demo_mm)" using demo_find [of "0x11000"] by simp
qed (simp_all add: demo_page)

section \<open>Setting the type of a page\<close>

text \<open>The loops over the entries of a page stop at the first that maps nothing of the partition.\<close>

lemma entry_addrs_first: "0 < b \<Longrightarrow> entry_addrs v 0 b = v # entry_addrs v 1 b"
  unfolding entry_addrs_def by (subst upt_conv_Cons) simp_all

lemma set_entry_stops:
  assumes env: "part_env p c s" and rd: "ReadByPassMmuWord a s = Some (w, s)" and pr: "IS_PRESENT w"
    and none: "List.find (in_area (w AND PAGE_MASK)) (areas_of c (cfg s)) = None"
  obtains s1 s2 where "set_ptd_entry a s = Some (False, s1)" "logs_only s s1"
    "set_pte_entry a s = Some (False, s2)" "logs_only s s2"
proof -
  let ?a = "w AND PAGE_MASK"
  have aa: "?a AND PAGE_MASK = ?a" by (simp add: and.assoc)
  define s1 where "s1 = log_audit (AuditVmmNotOwned ?a) s"
  have ms: "mem_same s s1" by (simp add: s1_def)
  have fp: "PmmFindPage ?a p s = Some (None, s1)"
    using PmmFindPage_eq [OF part_envD(3,2) [OF env], of ?a] none by (simp add: aa s1_def)
  have fa: "PmmFindAddr ?a p s1 = Some (None, log_audit (AuditVmmNotOwned ?a) s1)"
    using PmmFindAddr_eq [of c s1 p ?a] part_envD(2,3) [OF env] none by (simp add: aa mem_same_simps [OF ms])
  have p1: "set_ptd_entry a s = Some (False, s1)"
    using rd pr part_envD(1) [OF env] fp by (simp add: set_ptd_entry_def)
  have p2: "set_pte_entry a s = Some (False, log_audit (AuditVmmNotOwned ?a) s1)"
    using rd pr part_envD(1) [OF env] fp fa by (simp add: set_pte_entry_def)
  show thesis by (rule that [OF p1 _ p2]) (auto simp: s1_def intro: logs_only_log logs_only_refl)
qed

lemma set_type_stops:
  assumes "part_env p c s" "ready f s" "pAddr AND (PAGE_BYTES - 1) = 0" "type = PPAG_PTDL1 \<or> type = PPAG_PTDL2"
    and "PmmFindPage pAddr p s = Some (Some (pg, fl), s)" "page_get pg s = Some x" "pg_type x = PPAG_STD" "pg_counter x = 0"
    and "IS_PRESENT (pm_word s pAddr)"
    and "List.find (in_area (pm_word s pAddr AND PAGE_MASK)) (areas_of c (cfg s)) = None"
  shows "\<exists>s'. SetPageTypeSys pAddr type s = Some (XM_OK, s') \<and> pmem s' = pmem s \<and>
    map_option pg_type (page_get pg s') = Some type"
proof -
  have al: "page_phys pg s = pAddr"
    using PmmFindPage_found [OF part_envD(3,2) [OF assms(1)] assms(5)] page_decomp(1) [of pAddr] assms(3)
    by (metis add.right_neutral)
  have off: "(0 :: u32) AND PAGE_MASK = 0" "word_off 0" by (simp_all add: word_off_def)
  have r: "vc_inv f s" "frame_left f s" using assms(2) by (simp_all add: ready_def)
  obtain v s1 f1 where 1: "VCacheMapPage pAddr pg s = Some (v, s1)" "vc_inv f1 s1" "vc_same s s1" "page_win pg v s1"
    using VCacheMapPage_spec [OF r(1) assms(6) disjI2 [OF r(2)] off(1)] unfolding al add_0_right by metis
  have rd: "ReadByPassMmuWord v s1 = Some (pm_word s pAddr, s1)"
    using win_above [OF 1(2,4) off(1)] win_read [OF 1(2,4) off(2)]
    by (simp add: ReadByPassMmuWord_def vc_same_eq [OF 1(3)] al)
  have m1: "mmu_same s s1" by (rule vc_same_mmu [OF 1(3)])
  have e1: "part_env p c s1" using assms(1) part_env_same [OF m1] by simp
  have none: "List.find (in_area (pm_word s pAddr AND PAGE_MASK)) (areas_of c (cfg s1)) = None"
    using assms(10) vc_same_fields(1) [OF 1(3)] by simp
  obtain s2 s3 where 2: "set_ptd_entry v s1 = Some (False, s2)" "logs_only s1 s2" "set_pte_entry v s1 = Some (False, s3)" "logs_only s1 s3"
    using set_entry_stops [OF e1 rd assms(9) none] by metis
  have "0 < USER_PTD_ENTRIES" by (simp add: USER_PTD_ENTRIES_def VA2PtdL1_def XM_OFFSET_def)
  then have ea: "entry_addrs v 0 1024 = v # entry_addrs v 1 1024" "entry_addrs v 0 USER_PTD_ENTRIES = v # entry_addrs v 1 USER_PTD_ENTRIES"
    by (simp_all only: entry_addrs_first zero_less_numeral)
  have set: "\<exists>t. SetPPagTypeHndl type pAddr pg s = Some t \<and> logs_only s1 t"
  proof (cases "type = PPAG_PTDL1")
    case True
    then have "SetPPagTypeHndl type pAddr pg s = Some s2"
      using 1(1) 2(1) by (simp add: SetPPagTypeHndl_def SetPtd_def ea PPAG_PTDL1_def PPAG_STD_def)
    then show ?thesis using 2(2) by blast
  next
    case False
    then have "SetPPagTypeHndl type pAddr pg s = Some s3"
      using 1(1) 2(3) assms(4) by (simp add: SetPPagTypeHndl_def SetPte_def ea PPAG_PTDL1_def PPAG_STD_def PPAG_PTDL2_def)
    then show ?thesis using 2(4) by blast
  qed
  then obtain t where t: "SetPPagTypeHndl type pAddr pg s = Some t" "logs_only s1 t" by blast
  have mt: "mmu_same s t" by (rule mmu_same_trans [OF m1 logs_onlyD(1) [OF t(2)]])
  have ty: "\<not> NR_PPAG \<le> type" "type \<noteq> PPAG_STD"
    using assms(4) by (auto simp: NR_PPAG_def PPAG_PTDL1_def PPAG_PTDL2_def PPAG_STD_def word_le_nat_alt)
  have "SetPageTypeSys pAddr type s = Some (XM_OK, page_upd pg (\<lambda>x. x\<lparr>pg_type := type\<rparr>) t)"
    using ty assms(5-8) part_envD(1) [OF assms(1)] t(1) by (simp add: SetPageTypeSys_def UnsetPPagTypeHndl_def)
  moreover have "page_get pg t \<noteq> None" using mt mem_same_get [of s t pg] assms(6) by (simp add: mmu_same_def)
  moreover have "pmem t = pmem s" using mt by (simp add: mmu_same_def)
  ultimately show ?thesis by (auto simp: page_get_upd)
qed

lemma demo_foreign: "List.find (in_area (pm_word demo_mm 0x12000 AND PAGE_MASK)) (areas_of (demo_part 0 XM_PART_SYSTEM) (cfg demo_mm)) = None"
  by (simp add: demo_word demo_areas demo_area_def in_area_def PAGE_MASK_def word_le_nat_alt)

lemma demo_set_type:
  "\<exists>s'. SetPageTypeSys 0x12000 PPAG_PTDL2 demo_mm = Some (XM_OK, s') \<and> pmem s' = pmem demo_mm \<and>
    map_option pg_type (page_get (0, 2) s') = Some PPAG_PTDL2"
proof (rule set_type_stops [OF demo_env demo_mm_ready _ _ _ _ _ _ _ demo_foreign])
  show "PmmFindPage 0x12000 demo_p0 demo_mm = Some (Some ((0, 2), 0), demo_mm)" using demo_find [of "0x12000"] by simp
  show "page_get (0, 2) demo_mm = Some \<lparr>pg_node = demo_node 0 2, pg_vAddr = 0, pg_mapped = False, pg_unlocked = False,
      pg_type = PPAG_STD, pg_counter = 0\<rparr>" by (simp add: demo_page)
qed (simp_all add: PAGE_BYTES_def demo_word IS_PRESENT_def has_flag_def PG_ARCH_PRESENT_def)

text \<open>
  C36: The checks of SetPageTypeSys can be evaded. When the first entry of a page of the caller maps
  memory that is not the caller's, turning the page into a page table, or a page directory, succeeds
  without touching the memory: that entry, and all behind it, stay as the partition wrote them.
\<close>

theorem set_page_type_unchecked:
  assumes "part_env p c s" "ready f s" "pAddr AND (PAGE_BYTES - 1) = 0" "type = PPAG_PTDL1 \<or> type = PPAG_PTDL2"
    and "PmmFindPage pAddr p s = Some (Some (pg, fl), s)" "page_get pg s = Some x" "pg_type x = PPAG_STD" "pg_counter x = 0"
    and "IS_PRESENT (pm_word s pAddr)"
    and "List.find (in_area (pm_word s pAddr AND PAGE_MASK)) (areas_of c (cfg s)) = None"
  shows "\<exists>s'. SetPageTypeSys pAddr type s = Some (XM_OK, s') \<and> pmem s' = pmem s \<and>
    map_option pg_type (page_get pg s') = Some type"
  using assms by (rule set_type_stops)

theorem set_page_type_unchecked_witness:
  "\<exists>s'. SetPageTypeSys 0x12000 PPAG_PTDL2 demo_mm = Some (XM_OK, s') \<and> pmem s' = pmem demo_mm \<and>
    map_option pg_type (page_get (0, 2) s') = Some PPAG_PTDL2"
proof (rule set_page_type_unchecked [OF demo_env demo_mm_ready _ _ _ _ _ _ _ demo_foreign])
  show "PmmFindPage 0x12000 demo_p0 demo_mm = Some (Some ((0, 2), 0), demo_mm)" using demo_find [of "0x12000"] by simp
  show "page_get (0, 2) demo_mm = Some \<lparr>pg_node = demo_node 0 2, pg_vAddr = 0, pg_mapped = False, pg_unlocked = False,
      pg_type = PPAG_STD, pg_counter = 0\<rparr>" by (simp add: demo_page)
qed (simp_all add: PAGE_BYTES_def demo_word IS_PRESENT_def has_flag_def PG_ARCH_PRESENT_def)

section \<open>Windows, areas and attributes\<close>



text \<open>
  C39: The flags of a page entry come back from their architecture-independent form unchanged.
\<close>

theorem entry_attributes_roundtrip:
  "VmAttr2ArchAttr (VmArchAttr2Attr e) = e AND (PAGE_BYTES - 1)"
  by (rule attr_roundtrip)

end
