(* ===== verification/PageTypes.thy ===== *)
theory PageTypes
  imports MmuProps
begin

text \<open>
  The types of the pages. Each page is memory, a page directory or a page table, and the tables of
  handlers of core/kernel/mmu/hypercalls.c have one entry per type. The steps of the page-table
  hypercalls leave all types alone; only SetPageTypeSys and the reset of a partition change them.
\<close>

definition types_of :: "'a mstate_scheme \<Rightarrow> page \<Rightarrow> u32 option" where
  "types_of s pg = map_option pg_type (page_get pg s)"

definition well_typed :: "'a mstate_scheme \<Rightarrow> bool" where
  "well_typed s \<longleftrightarrow> (\<forall>pg t. types_of s pg = Some t \<longrightarrow> t < NR_PPAG)"

named_theorems types_dest \<open>an operation leaves the types of the pages alone\<close>

lemma types_upd:
  assumes "\<And>x. pg_type (f x) = pg_type x"
  shows "types_of (page_upd pg f s) = types_of s"
  by (auto simp: types_of_def page_get_upd fun_eq_iff option.map_comp comp_def assms)

lemma types_upd_fields [simp]:
  "types_of (page_upd pg (\<lambda>x. x\<lparr>pg_vAddr := v, pg_mapped := b\<rparr>) s) = types_of s"
  "types_of (page_upd pg (\<lambda>x. x\<lparr>pg_unlocked := b\<rparr>) s) = types_of s"
  "types_of (page_upd pg (\<lambda>x. x\<lparr>pg_unlocked := b, pg_mapped := b', pg_vAddr := v\<rparr>) s) = types_of s"
  "types_of (page_upd pg (\<lambda>x. x\<lparr>pg_counter := n x\<rparr>) s) = types_of s"
  by (rule types_upd, simp)+

lemma types_type:
  "page_get pg s = Some x \<Longrightarrow> types_of (page_upd pg (\<lambda>x. x\<lparr>pg_type := t\<rparr>) s) = (types_of s)(pg \<mapsto> t)"
  by (auto simp: types_of_def page_get_upd fun_eq_iff)

lemma types_fields [simp]:
  "types_of (log_audit e s) = types_of s"
  "types_of (s\<lparr>kpt := k\<rparr>) = types_of s" "types_of (s\<lparr>pmem := m\<rparr>) = types_of s"
  "types_of (s\<lparr>dnode := d, dlist := l\<rparr>) = types_of s"
  "types_of (s\<lparr>vmmStartAddr := v, noFrames := n\<rparr>) = types_of s"
  by (simp_all add: types_of_def page_get_def log_audit_def fun_eq_iff)

lemma types_more: "dl_store.more s' = dl_store.more s \<Longrightarrow> types_of s' = types_of s"
  by (metis lists_only types_fields(4))

lemma DynList_more:
  "DynListInsertHead l e s = Some (r, s') \<Longrightarrow> dl_store.more s' = dl_store.more s"
  "DynListRemoveTail l s = Some (e', s') \<Longrightarrow> dl_store.more s' = dl_store.more s"
  by (auto simp: DynListInsertHead_def DynListRemoveTail_def dl_link_before_def dl_release_def dl_unlink_def
      set_next_def set_prev_def set_list_def set_head_def add_no_def Let_def ASSERT_def bind_eq_Some_iff split: if_split_asm)

lemma types_lists [types_dest]:
  "DynListInsertHead l e s = Some (r, s') \<Longrightarrow> types_of s' = types_of s"
  "DynListRemoveTail l s = Some (e', s') \<Longrightarrow> types_of s' = types_of s"
  by (rule types_more, erule DynList_more)+

section \<open>The cache and physical words\<close>

lemma types_frame [types_dest]: "take_frame s = Some (v, s') \<Longrightarrow> types_of s' = types_of s"
  by (auto simp: take_frame_def VmmGetNoFreeFrames_def VmmAlloc_def ASSERT_def bind_eq_Some_iff
      split: if_split_asm prod.split_asm dest!: types_dest)

lemma types_map [types_dest]: "VCacheMapPage a pg s = Some (v, s') \<Longrightarrow> types_of s' = types_of s"
  by (auto simp: VCacheMapPage_def VmMapPage_def ASSERT_def bind_eq_Some_iff Let_def
      split: if_split_asm prod.split_asm dest!: types_dest)

lemma types_unlock [types_dest]: "VCacheUnlockPage pg s = Some s' \<Longrightarrow> types_of s' = types_of s"
  by (auto simp: VCacheUnlockPage_def ASSERT_def bind_eq_Some_iff Let_def
      split: if_split_asm prod.split_asm dest!: types_dest)

lemma types_kwrite [types_dest]: "kwrite_u32 v w s = Some s' \<Longrightarrow> types_of s' = types_of s"
proof -
  have "kwrite_bytes v bs s = Some s' \<Longrightarrow> types_of s' = types_of s" for bs
    by (induction bs arbitrary: v s) (auto simp: kwrite_def bind_eq_Some_iff)
  then show "kwrite_u32 v w s = Some s' \<Longrightarrow> types_of s' = types_of s" by (simp add: kwrite_u32_def)
qed

lemma types_find [types_dest]:
  "PmmFindAnonymousPage a s = Some (fp, s') \<Longrightarrow> types_of s' = types_of s"
  "PmmFindPage a p s = Some (fq, s') \<Longrightarrow> types_of s' = types_of s"
  "PmmFindAddr a p s = Some (fa, s') \<Longrightarrow> types_of s' = types_of s"
  by (auto simp: PmmFindAnonymousPage_def PmmFindPage_def PmmFindAddr_def ASSERT_def bind_eq_Some_iff Let_def
      split: if_split_asm option.split_asm)

lemma types_word [types_dest]:
  "ReadByPassMmuWord a s = Some (w, s') \<Longrightarrow> types_of s' = types_of s"
  "WriteByPassMmuWord a w' s = Some s' \<Longrightarrow> types_of s' = types_of s"
  by (auto simp: ReadByPassMmuWord_def WriteByPassMmuWord_def bind_eq_Some_iff
      split: if_split_asm prod.split_asm dest!: types_dest)

lemma types_counter [types_dest]:
  "PPagIncCounter pg s = Some s' \<Longrightarrow> types_of s' = types_of s"
  "PPagDecCounter pg s = Some s' \<Longrightarrow> types_of s' = types_of s"
  "drop_entry valid pg s = Some s' \<Longrightarrow> types_of s' = types_of s"
  by (auto simp: PPagIncCounter_def PPagDecCounter_def drop_entry_def ASSERT_def bind_eq_Some_iff split: if_split_asm)

section \<open>The page-table hypercalls\<close>

lemma obindE:
  assumes "x \<bind> f = Some y"
  obtains z where "x = Some z" "f z = Some y"
  using assms by (auto simp: bind_eq_Some_iff)


lemma types_ptd [types_dest]:
  "ptd_install p w s = Some (ok, s') \<Longrightarrow> types_of s' = types_of s"
  "ptd_release p w s = Some (ok, s') \<Longrightarrow> types_of s' = types_of s"
  by (auto simp: ptd_install_def ptd_release_def 
      elim!: obindE split: if_split_asm prod.split_asm option.split_asm dest!: types_dest)

lemma types_target [types_dest]: "pte_target junk p a s = Some (t, s') \<Longrightarrow> types_of s' = types_of s"
  by (auto simp: pte_target_def  elim!: obindE split: if_split_asm prod.split_asm option.split_asm dest!: types_dest)

lemma types_pte [types_dest]:
  "pte_install junk p w s = Some (v, s') \<Longrightarrow> types_of s' = types_of s"
  "pte_release p w s = Some (ok, s') \<Longrightarrow> types_of s' = types_of s"
  by (auto simp: pte_install_def pte_release_def 
      elim!: obindE split: if_split_asm prod.split_asm option.split_asm dest!: types_dest)

lemma types_update [types_dest]:
  "UpdatePtd pg a w s = Some (r, v, s') \<Longrightarrow> types_of s' = types_of s"
  "UpdatePte junk pg a w s = Some (r, v, s') \<Longrightarrow> types_of s' = types_of s"
  "UpdatePPag32Hndl junk t pg a w s = Some (r, v, s') \<Longrightarrow> types_of s' = types_of s"
proof -
  show 1: "UpdatePtd pg a w s = Some (r, v, s') \<Longrightarrow> types_of s' = types_of s"
    by (auto simp: UpdatePtd_def  elim!: obindE split: if_split_asm prod.split_asm dest!: types_dest)
  show 2: "UpdatePte junk pg a w s = Some (r, v, s') \<Longrightarrow> types_of s' = types_of s"
    by (auto simp: UpdatePte_def  elim!: obindE split: if_split_asm prod.split_asm option.split_asm dest!: types_dest)
  show "UpdatePPag32Hndl junk t pg a w s = Some (r, v, s') \<Longrightarrow> types_of s' = types_of s"
    by (auto simp: UpdatePPag32Hndl_def split: if_split_asm dest!: 1 2)
qed

lemma types_each:
  assumes "each_entry f as s = Some (go, s')"
    and "\<And>a s go s'. f a s = Some (go, s') \<Longrightarrow> types_of s' = types_of s"
  shows "types_of s' = types_of s"
  using assms(1) by (induction as arbitrary: s) (auto simp:  elim!: obindE split: if_split_asm prod.split_asm dest!: assms(2))

lemma types_entry [types_dest]:
  "unset_entry valid a s = Some (go, s') \<Longrightarrow> types_of s' = types_of s"
  "set_ptd_entry a s = Some (go, s') \<Longrightarrow> types_of s' = types_of s"
  "set_pte_entry a s = Some (go, s') \<Longrightarrow> types_of s' = types_of s"
  by (auto simp: unset_entry_def set_ptd_entry_def set_pte_entry_def Let_def 
      elim!: obindE split: if_split_asm prod.split_asm option.split_asm dest!: types_dest)

lemma types_entries [types_dest]:
  "each_entry (unset_entry valid) as s = Some (go, s') \<Longrightarrow> types_of s' = types_of s"
  "each_entry set_ptd_entry as s = Some (go, s') \<Longrightarrow> types_of s' = types_of s"
  "each_entry set_pte_entry as s = Some (go, s') \<Longrightarrow> types_of s' = types_of s"
  by (erule types_each, erule types_entry)+

lemma types_setup [types_dest]: "SetupPtdL1 v s = Some s' \<Longrightarrow> types_of s' = types_of s"
  unfolding SetupPtdL1_def by (erule ofold_inv [where P = "\<lambda>t. types_of t = types_of s"]) (auto dest: types_kwrite)

lemma types_handler [types_dest]:
  "UnsetPPagTypeHndl t a pg t' s = Some s' \<Longrightarrow> types_of s' = types_of s"
  "SetPPagTypeHndl t a pg s = Some s' \<Longrightarrow> types_of s' = types_of s"
  by (auto simp: UnsetPPagTypeHndl_def SetPPagTypeHndl_def UnsetPtd_def UnsetPte_def SetPtd_def SetPte_def
       elim!: obindE split: if_split_asm prod.split_asm dest!: types_dest)

lemma types_update_call:
  assumes "UpdatePage32Sys junk pAddr val s = Some (r, s')"
  shows "types_of s' = types_of s"
  using assms unfolding UpdatePage32Sys_def
  by (auto elim!: obindE split: if_split_asm prod.split_asm option.split_asm dest!: types_dest)

lemma types_set_call:
  assumes "SetPageTypeSys pAddr type s = Some (r, s')"
  shows "if r = XM_OK then \<exists>p pg fl u. cur_part s = Some p \<and> PmmFindPage pAddr p s = Some (Some (pg, fl), u) \<and>
      types_of s' = (types_of s)(pg \<mapsto> type) else types_of s' = types_of s"
proof (cases "type \<ge> NR_PPAG")
  case False
  then obtain p fp u where 1: "cur_part s = Some p" "PmmFindPage pAddr p s = Some (fp, u)"
    using assms by (auto simp: SetPageTypeSys_def elim!: obindE split: prod.split_asm)
  have u: "types_of u = types_of s" by (rule types_find(2) [OF 1(2)])
  show ?thesis
  proof (cases fp)
    case None
    then show ?thesis using assms False 1 u by (simp add: SetPageTypeSys_def ret_defs)
  next
    case (Some q)
    then obtain pg fl where q: "fp = Some (pg, fl)" by (cases q) simp
    obtain x where x: "page_get pg u = Some x"
      using assms False 1 q by (auto simp: SetPageTypeSys_def elim!: obindE)
    show ?thesis
    proof (cases "type = pg_type x \<or> pg_counter x \<noteq> 0")
      case True
      then show ?thesis using assms False 1 q x u by (auto simp: SetPageTypeSys_def ret_defs split: if_split_asm)
    next
      case False
      then obtain t t' where t: "UnsetPPagTypeHndl (pg_type x) pAddr pg type u = Some t" "SetPPagTypeHndl type pAddr pg t = Some t'"
        "r = XM_OK" "s' = page_upd pg (\<lambda>x. x\<lparr>pg_type := type\<rparr>) t'"
        using assms \<open>\<not> type \<ge> NR_PPAG\<close> 1 q x by (auto simp: SetPageTypeSys_def elim!: obindE)
      have tt: "types_of t' = types_of s" using types_handler(1) [OF t(1)] types_handler(2) [OF t(2)] u by simp
      have "types_of t' pg \<noteq> None" using x tt u by (metis option.distinct(1) option.map(2) types_of_def)
      then obtain y where "page_get pg t' = Some y" by (auto simp: types_of_def)
      then have "types_of s' = (types_of s)(pg \<mapsto> type)" using types_type [of pg t' y type] t(4) tt by simp
      then show ?thesis using t(3) 1 unfolding q by (simp only: if_True refl) blast
    qed
  qed
qed (use assms in \<open>simp add: SetPageTypeSys_def ret_defs\<close>)

lemma well_typed_type:
  assumes "well_typed s" "type < NR_PPAG"
  shows "well_typed (page_upd pg (\<lambda>x. x\<lparr>pg_type := type\<rparr>) s)"
  using assms by (auto simp: well_typed_def types_of_def page_get_upd)

lemma setup_well_typed: "SetupPhysMM lru node s = Some s' \<Longrightarrow> well_typed s'"
  by (auto simp: well_typed_def types_of_def page_get_setup NR_PPAG_def PPAG_STD_def split: if_splits option.splits)

lemma set_call_bound: "SetPageTypeSys pAddr type s = Some (r, s') \<Longrightarrow> r = XM_OK \<Longrightarrow> type < NR_PPAG"
  by (auto simp: SetPageTypeSys_def ret_defs split: if_split_asm)

text \<open>
  C16: The types of pages are sound. No update of an entry changes the type of any page. SetPageTypeSys
  changes at most the type of the page of the caller that contains the address, to the type it was
  asked for, and exactly when it reports success. So a page always has one of the three types, and the
  tables of handlers are only indexed inside their bounds.
\<close>

theorem page_types_preserved:
  assumes "well_typed s"
  shows "(UpdatePage32Sys junk pAddr val s = Some (r, s') \<longrightarrow> types_of s' = types_of s \<and> well_typed s') \<and>
    (SetPageTypeSys pAddr type s = Some (r, s') \<longrightarrow> well_typed s' \<and>
      (if r = XM_OK then \<exists>p pg fl u. cur_part s = Some p \<and> PmmFindPage pAddr p s = Some (Some (pg, fl), u) \<and>
         types_of s' = (types_of s)(pg \<mapsto> type) else types_of s' = types_of s))"
proof (intro conjI impI)
  assume u: "UpdatePage32Sys junk pAddr val s = Some (r, s')"
  show "types_of s' = types_of s" by (rule types_update_call [OF u])
  then show "well_typed s'" using assms by (simp add: well_typed_def)
next
  assume c: "SetPageTypeSys pAddr type s = Some (r, s')"
  show d: "if r = XM_OK then \<exists>p pg fl u. cur_part s = Some p \<and> PmmFindPage pAddr p s = Some (Some (pg, fl), u) \<and>
      types_of s' = (types_of s)(pg \<mapsto> type) else types_of s' = types_of s" by (rule types_set_call [OF c])
  show "well_typed s'"
    using d assms set_call_bound [OF c] by (auto simp: well_typed_def split: if_split_asm)
qed

theorem page_types_preserved_witness:
  "\<exists>s'. SetPageTypeSys 0x12000 PPAG_PTDL2 demo_mm = Some (XM_OK, s') \<and> well_typed s' \<and>
    types_of s' = (types_of demo_mm)((0, 2) \<mapsto> PPAG_PTDL2)"
proof -
  have f: "PmmFindPage 0x12000 demo_p0 demo_mm = Some (Some ((0, 2), 0), demo_mm)" using demo_find [of "0x12000"] by simp
  obtain s' where s': "SetPageTypeSys 0x12000 PPAG_PTDL2 demo_mm = Some (XM_OK, s')"
    using demo_set_type by blast
  have w: "well_typed demo_mm"
    unfolding demo_mm_def by (rule well_typed_type [OF setup_well_typed [OF demo_setup]]) (simp add: NR_PPAG_def PPAG_PTDL2_def)
  show ?thesis
    using page_types_preserved [OF w, of 0 "0x12000" 0 XM_OK s' PPAG_PTDL2] s' f demo_cur by auto
qed

end
