(* ===== verification/GuestWords.thy ===== *)
theory GuestWords
  imports Guest
begin

text \<open>Words in guest memory: addresses near a word, and what a write leaves to be read.\<close>

lemma u32_up: "unat (b :: u32) + k < 2 ^ 32 \<Longrightarrow> unat (b + word_of_nat k) = unat b + k"
  using unat_u32 [of k] by (simp add: unat_word_ariths)

lemma unat_down:
  assumes "k \<le> unat (sp :: u32)"
  shows "unat (sp - word_of_nat k) = unat sp - k"
proof -
  have "unat sp < 2 ^ 32" using unsigned_less [of sp] by simp
  then have "unat (word_of_nat k :: u32) = k" using assms by (intro unat_u32) simp
  then show ?thesis using unat_sub [of "word_of_nat k" sp] assms by (simp add: word_le_nat_alt)
qed

lemma length_u32_bytes: "length (u32_bytes w) = 4"
  by (simp add: u32_bytes_def)

lemma gwrite_then_read:
  assumes "gwrite_bytes a bs s = Some s'" "unat a + length bs < 2 ^ 32"
  shows "gread_bytes a (length bs) s' = Some bs"
  using assms
proof (induction bs arbitrary: a s)
  case (Cons b bs)
  obtain t where t: "gwrite a b s = Some t" "gwrite_bytes (a + 1) bs t = Some s'"
    using Cons.prems(1) by (auto simp: bind_eq_Some_iff)
  have a1: "unat (a + 1) = Suc (unat a)" using Cons.prems(2) by (simp add: unat_word_ariths)
  have "gread_bytes a 1 s' = gread_bytes a 1 t"
    using gwrite_disjoint [OF t(2), of a 1] Cons.prems(2) by (simp add: a1)
  moreover have "gread a t = Some b"
    using t(1) by (auto simp: gwrite_def gread_def bind_eq_Some_iff split: if_splits)
  ultimately have "gread a s' = Some b" by (auto simp: bind_eq_Some_iff split: Option.bind_splits)
  moreover have "gread_bytes (a + 1) (length bs) s' = Some bs" using Cons.prems(2) by (intro Cons.IH [OF t(2)]) (simp add: a1)
  ultimately show ?case by simp
qed simp

lemma gwrite_u32_read:
  assumes "gwrite_u32 a w s = Some s'" "unat a + 4 < 2 ^ 32"
  shows "gread_u32 a s' = Some w"
    "unat b + 4 < 2 ^ 32 \<Longrightarrow> unat b + 4 \<le> unat a \<or> unat a + 4 \<le> unat b \<Longrightarrow> gread_u32 b s' = gread_u32 b s"
    "\<exists>m. s' = s\<lparr>gmem := m\<rparr>"
proof -
  have w: "gwrite_bytes a (u32_bytes w) s = Some s'" using assms(1) by (simp add: gwrite_u32_def)
  show "\<exists>m. s' = s\<lparr>gmem := m\<rparr>" using gwrite_bytes_only [OF w] .
  show "gread_u32 b s' = gread_u32 b s" if "unat b + 4 < 2 ^ 32" "unat b + 4 \<le> unat a \<or> unat a + 4 \<le> unat b"
    using gwrite_disjoint [OF w, of b 4] that assms(2) by (simp add: gread_u32_def length_u32_bytes)
  show "gread_u32 a s' = Some w"
    using gwrite_then_read [OF w] assms(2) by (simp add: gread_u32_def length_u32_bytes)
qed

lemma writable_sub:
  assumes "writable_at a n s" "unat a \<le> unat b" "unat b + k \<le> unat a + n"
  shows "writable_at b k s"
proof -
  obtain part where p: "GetPartition (cKThread s) s = Some part" "unat a + n < unat CONFIG_XM_OFFSET"
    "\<forall>x. uint a \<le> x \<longrightarrow> x < uint a + int n \<longrightarrow> g_readable s part (x div PAGE_SIZE) \<and> g_writable s part (x div PAGE_SIZE)"
    using assms(1) by (auto simp: writable_at_def)
  have "uint a \<le> uint b" "uint b + int k \<le> uint a + int n" using assms(2,3) unfolding uint_nat by linarith+
  then have "\<forall>x. uint b \<le> x \<longrightarrow> x < uint b + int k \<longrightarrow> g_readable s part (x div PAGE_SIZE) \<and> g_writable s part (x div PAGE_SIZE)"
    using p(3) by (meson order.trans less_le_trans)
  moreover have "unat b + k < unat CONFIG_XM_OFFSET" using assms(3) p(2) by linarith
  ultimately show ?thesis using p(1) by (auto simp: writable_at_def)
qed

end
