(* ===== verification/SysDemo.thy ===== *)
theory SysDemo
  imports Hypercalls MmuDemo GuestWords
begin

text \<open>
  The small system of Samples and MmuDemo with the state of the processor, the interrupts, the
  health monitor and the objects. Partition 0 runs; its gate for vector 32 (at 0x4100) leads to ring
  1 at 0x6000, and at 0x5000 there is a batch whose only entry is the batch itself.
\<close>

definition demo_bytes :: "u32 \<Rightarrow> u8" where
  "demo_bytes a = (if a = 0x4101 then 0x60 else if a = 0x4102 then 0x19 else if a = 0x4105 then 0x8e
     else if a = 0x5009 then 0x50 else if a = 0x500c then 0x10 else if a = 0x500d then 0x50 else demo_mem a)"

definition demo_reg :: x86DescReg where "demo_reg = \<lparr>dr_limit = 0x7ff, dr_linearBase = 0x4000\<rparr>"

definition demo_karch :: kThreadArch where
  "demo_karch = \<lparr>ka_ptdL1 = 0x10000, ka_cr0 = 0x80000001, ka_cr4 = 0, ka_fpCtxt = [],
     ka_gdtr = demo_reg, ka_gdtTab = [], ka_idtr = demo_reg,
     ka_idtTab = [], ka_ss0 = 0, ka_sp0 = 0, ka_ss1 = 0x21, ka_sp1 = 0x8000,
     ka_ss2 = 0, ka_sp2 = 0, ka_ioBitmapOffset = 0xffff, ka_ioMap = []\<rparr>"

definition demo_ctxt :: cpuCtxt where
  "demo_ctxt = \<lparr>cx_irqNr = 32, cx_eCode = 0, cx_ip = 0x1234, cx_cs = 0x23, cx_flags = 0x3202, cx_sp = 0x7ff0, cx_ss = 0x2b\<rparr>"

definition demo_stream :: logStream where
  "demo_stream = \<lparr>li_elemSize = 36, li_maxNoElem = 0, li_lock = 0, li_cHdr = 0, ls_ctrl = null_ctrl\<rparr>"

definition demo_astate :: astate where
  "demo_astate = mstate.extend (demo_boot\<lparr>gmem := (\<lambda>i. demo_bytes)\<rparr>) (astate.fields
     (\<lambda>_. \<lparr>pa_gdtr = demo_reg, pa_idtr = demo_reg, pa_maxIdtVec = 256, pa_cr4 = 0, pa_cr3 = 0x10000, pa_cr2 = 0, pa_cr0 = 0x80000001\<rparr>)
     (\<lambda>_. demo_karch) (\<lambda>_. None) [] [] 0x80000001 0 0x10000 0 ([1, 2, 3]) demo_reg demo_reg 336 0x2000
     (\<lambda>_. 0xFC200000) (\<lambda>_. 0xFC300000) (\<lambda>_. 0xFC400000))"

definition demo_rstate :: rstate where
  "demo_rstate = vstate.extend (astate.extend demo_astate (vstate.fields [] (\<lambda>_. 0) (\<lambda>_. 0) (\<lambda>_. 0) (\<lambda>_. 0) 0 0 (\<lambda>_. 0)))
     (rstate.fields (\<lambda>_. \<lparr>pi_magic = 0, pi_xmVersion = 0, pi_xmAbiVersion = 0, pi_xmApiVersion = 0, pi_cpuKhz = 0, pi_id = 0,
        pi_noVCpus = 1, pi_schedPolicy = 0, pi_imgStart = 0, pi_noPhysicalMemAreas = 1, pi_name = []\<rparr>)
       (\<lambda>_. None) 0 (\<lambda>_. None) 0xffff 0 0)"

definition demo_sys :: ostate where
  "demo_sys = istate.extend
     (hstate.extend (rstate.extend demo_rstate (hstate.fields True 0 demo_stream None demo_dev))
       (istate.fields (replicate 16 None) (replicate 32 None) [] (\<lambda>i p. p < 16) \<lparr>pit_flags = 0, pit_handler = False, pit_out = []\<rparr>))
     (ostate.fields 0 \<lparr>st_log = demo_stream, st_kDev = None, st_dev = demo_dev\<rparr> [] [] [] [])"

lemmas demo_sys_defs = demo_sys_def demo_rstate_def demo_astate_def istate.defs hstate.defs rstate.defs vstate.defs astate.defs
  mstate.defs ostate.defs

lemma demo_sys_fields [simp]:
  "cfg demo_sys = demo_cfg CYCLIC_SCHED" "cKThread demo_sys = 10" "idleKThread demo_sys = 30"
  "kthreads demo_sys = (\<lambda>a. demo_thread (demo_vcpu_ids a) a)"
  "partitionTab demo_sys = [\<lparr>p_kThread = [10], p_opMode = 0, p_cfg = 0\<rparr>, \<lparr>p_kThread = [20], p_opMode = 0, p_cfg = 1\<rparr>]"
  "gmem demo_sys = (\<lambda>i. demo_bytes)" "g_readable demo_sys = (\<lambda>i p. p < 16)" "g_writable demo_sys = (\<lambda>i p. p < 16)"
  "kArch demo_sys = (\<lambda>_. demo_karch)" "cpu_cr0 demo_sys = 0x80000001" "cpu_cr3 demo_sys = 0x10000" "cpu_fpu demo_sys = [1, 2, 3]"
  "cpu_gdtr demo_sys = demo_reg" "cpu_idtr demo_sys = demo_reg" "g_rw demo_sys = (\<lambda>i p. p < 16)" "hmInit demo_sys"
  "archPct demo_sys = (\<lambda>_. \<lparr>pa_gdtr = demo_reg, pa_idtr = demo_reg, pa_maxIdtVec = 256, pa_cr4 = 0, pa_cr3 = 0x10000, pa_cr2 = 0,
     pa_cr0 = 0x80000001\<rparr>)" "irqCpuCtxt demo_sys = (\<lambda>_. None)"
  by (simp_all add: demo_sys_defs demo_boot_def demo_raw_def Let_def demo_state_def)

definition demo_hmo :: "ostate hm_event" where
  "demo_hmo k s = Some s"

definition demo_env :: "ostate env" where
  "demo_env = \<lparr>env_hm = demo_hmo, env_fuel = 2, env_junk = 0, env_junkb = 0, env_ctxt = demo_ctxt\<rparr>"

text \<open>The first 64 kB are writable for partition 0 of the example.\<close>

definition low_mem :: "'a gstate_scheme \<Rightarrow> bool" where
  "low_mem s \<longleftrightarrow> (\<forall>a n. unat a + n \<le> 0x10000 \<longrightarrow> writable_at a n s)"

lemma demo_low_mem:
  assumes "g_readable s = (\<lambda>i p. p < 16)" "g_writable s = (\<lambda>i p. p < 16)" "GetPartition (cKThread s) s = Some i"
  shows "low_mem s"
  unfolding low_mem_def writable_at_def
proof (intro allI impI exI conjI)
  fix a :: u32 and n x
  assume n: "unat a + n \<le> 0x10000" and x: "uint a \<le> x" "x < uint a + int n"
  have "uint a + int n \<le> 65536" unfolding uint_nat using n by linarith
  then have "x < 65536" using x(2) by linarith
  then have "x div 4096 < 16" by presburger
  then show "g_readable s i (x div PAGE_SIZE)" "g_writable s i (x div PAGE_SIZE)"
    unfolding assms(1,2) PAGE_SIZE_def by auto
next
  show "GetPartition (cKThread s) s = Some i" by (rule assms(3))
  fix a :: u32 and n
  assume "unat a + n \<le> 0x10000"
  then show "unat a + n < unat CONFIG_XM_OFFSET" by (simp add: offset_unat)
qed

lemma demo_part_10: "GetPartition 10 demo_sys = Some 0" "cur_pct demo_sys = Some demo_pct"
  by (simp_all add: GetPartition_def cur_pct_def demo_thread_def demo_vcpu_ids_def demo_guest_def k_pct_def KID2PARTID_def)

end
