(* ===== verification/MachineProps.thy ===== *)
theory MachineProps
  imports SysDemo
begin

text \<open>
  Properties of the machine level: the bit scans, the interrupt controller, the switch of the
  processor's state between threads, and the delivery of interrupts to a guest.
\<close>

section \<open>Bit scans and interrupt lines\<close>

text \<open>The portable scans for the lowest and the highest set bit of a word, five steps of
  shifts and masks, agree with the ones made of single instructions on every word, zero included.\<close>

theorem bit_scans_agree: "Ffs_C x = Ffs x \<and> Fls_C x = Fls x"
  by (simp add: Ffs_C_eq Fls_C_eq)

text \<open>The lines of the two interrupt chips. Enabling a line opens it and closes no other;
  disabling a line closes it and, unless it is the one the chips are chained by, no other. The
  masks are those the chips were last sent.\<close>

theorem interrupt_lines:
  assumes "pic_inv p" "irq < CONFIG_NO_HWIRQS"
  shows "line_open irq (HwEnableIrq irq p) \<and> \<not> line_open irq (HwDisableIrq irq p) \<and>
    (\<forall>j. line_open j p \<longrightarrow> line_open j (HwEnableIrq irq p)) \<and>
    (\<forall>j < CONFIG_NO_HWIRQS. j \<noteq> irq \<and> irq \<noteq> CTLR2_IRQ \<longrightarrow> line_open j (HwDisableIrq irq p) = line_open j p) \<and>
    pic_inv (HwEnableIrq irq p) \<and> pic_inv (HwDisableIrq irq p)"
proof -
  have "HwEnableIrq irq p = PicEnableIrq irq p" "HwDisableIrq irq p = PicDisableIrq irq p"
    by (simp_all add: HwEnableIrq_def HwDisableIrq_def hw_call_eq [OF assms] pic_ctrl_def)
  then show ?thesis
    using enable_line [OF assms] disable_line [OF assms] PicEnableIrq_inv [OF assms(1)] PicDisableIrq_inv [OF assms(1)] by auto
qed

lemma demo_pic_inv: "pic_inv demo_pic"
  unfolding demo_pic_def by (rule InitPic_inv) (simp add: CONFIG_NO_HWIRQS_def)

theorem interrupt_lines_witness:
  "line_open 9 (HwEnableIrq 9 demo_pic) \<and> \<not> line_open 9 (HwDisableIrq 9 demo_pic)"
  using interrupt_lines [OF demo_pic_inv, of 9] by (simp add: CONFIG_NO_HWIRQS_def)

section \<open>The switch of the processor's state\<close>

text \<open>What the two halves of a switch do to the machine state of the threads.\<close>

lemma switch_out_saves:
  assumes "k_g (kthreads s a) \<noteq> None"
  shows "ka_cr0 (kArch (switch_out a s) a) = cpu_cr0 s" "ka_ptdL1 (kArch (switch_out a s) a) = cpu_cr3 s"
    "\<not> has_flag (cpu_cr0 s) CR0_EM \<Longrightarrow> ka_fpCtxt (kArch (switch_out a s) a) = cpu_fpu s"
    "ka_gdtr (kArch (switch_out a s) a) = ka_gdtr (kArch s a)" "ka_idtr (kArch (switch_out a s) a) = ka_idtr (kArch s a)"
  using assms by (auto simp: switch_out_def ka_upd_def SaveFpuState_def Let_def)

lemma switch_out_other: "b \<noteq> a \<Longrightarrow> kArch (switch_out a s) b = kArch s b"
  "kthreads (switch_out a s) = kthreads s"
  by (auto simp: switch_out_def ka_upd_def SaveFpuState_def Let_def)

lemma switch_in_loads:
  assumes "k_g (kthreads s a) \<noteq> None"
  shows "ka_cr0 (kArch (switch_in a s) a) = ka_cr0 (kArch s a)" "ka_fpCtxt (kArch (switch_in a s) a) = ka_fpCtxt (kArch s a)"
    "cpu_gdtr (switch_in a s) = ka_gdtr (kArch s a)" "cpu_idtr (switch_in a s) = ka_idtr (kArch s a)"
    "ka_ptdL1 (kArch s a) \<noteq> 0 \<Longrightarrow> cpu_cr3 (switch_in a s) = ka_ptdL1 (kArch s a)"
    "kthreads (switch_in a s) = kthreads s"
  using assms by (auto simp: switch_in_def ka_upd_def TssClearBusy_def LoadTr_def Let_def)

lemma switch_in_other:
  assumes "b \<noteq> a" shows "kArch (switch_in a s) b = kArch s b" "kthreads (switch_in a s) = kthreads s"
  using assms by (auto simp: switch_in_def ka_upd_def TssClearBusy_def LoadTr_def Let_def)

lemma switch_in_threads: "kthreads (switch_in a s) = kthreads s"
  by (auto simp: switch_in_def ka_upd_def TssClearBusy_def LoadTr_def Let_def)

definition arch_switch :: "addr \<Rightarrow> addr \<Rightarrow> 'a astate_scheme \<Rightarrow> 'a astate_scheme" where
  "arch_switch new old s = SwitchKThreadArchPost new (SwitchKThreadArchPre new old s)"

lemma arch_switch_to:
  assumes "k_g (kthreads s a) \<noteq> None" "a \<noteq> b"
  shows "cpu_cr0 (arch_switch a b s) = ka_cr0 (kArch s a)"
    "ka_ptdL1 (kArch s a) \<noteq> 0 \<Longrightarrow> cpu_cr3 (arch_switch a b s) = ka_ptdL1 (kArch s a)"
    "\<not> has_flag (ka_cr0 (kArch s a)) CR0_EM \<Longrightarrow> cpu_fpu (arch_switch a b s) = ka_fpCtxt (kArch s a)"
    "cpu_gdtr (arch_switch a b s) = ka_gdtr (kArch s a)" "cpu_idtr (arch_switch a b s) = ka_idtr (kArch s a)"
proof -
  let ?t = "switch_out b s"
  have k: "k_g (kthreads ?t a) \<noteq> None" "kArch ?t a = kArch s a"
    using assms by (simp_all add: switch_out_other)
  note l = switch_in_loads [OF k(1), unfolded k(2)]
  have "k_g (kthreads (switch_in a ?t) a) \<noteq> None" using k(1) l(6) by simp
  then have e: "arch_switch a b s = (if \<not> has_flag (ka_cr0 (kArch s a)) CR0_EM
       then (switch_in a ?t)\<lparr>cpu_cr0 := CR0_PE OR CR0_PG, cpu_fpu := ka_fpCtxt (kArch s a)\<rparr>
       else (switch_in a ?t)\<lparr>cpu_cr0 := CR0_PE OR CR0_PG\<rparr>)\<lparr>cpu_cr0 := ka_cr0 (kArch s a)\<rparr>"
    using l by (simp add: arch_switch_def SwitchKThreadArchPost_def SwitchKThreadArchPre_def)
  show "cpu_cr0 (arch_switch a b s) = ka_cr0 (kArch s a)"
    "ka_ptdL1 (kArch s a) \<noteq> 0 \<Longrightarrow> cpu_cr3 (arch_switch a b s) = ka_ptdL1 (kArch s a)"
    "\<not> has_flag (ka_cr0 (kArch s a)) CR0_EM \<Longrightarrow> cpu_fpu (arch_switch a b s) = ka_fpCtxt (kArch s a)"
    "cpu_gdtr (arch_switch a b s) = ka_gdtr (kArch s a)" "cpu_idtr (arch_switch a b s) = ka_idtr (kArch s a)"
    unfolding e using l by simp_all
qed

lemma arch_switch_from:
  assumes "k_g (kthreads s a) \<noteq> None" "a \<noteq> b"
  shows "kArch (arch_switch b a s) a = kArch (switch_out a s) a"
  using assms switch_in_other(1) [of a b "switch_out a s"]
  by (auto simp: arch_switch_def SwitchKThreadArchPost_def SwitchKThreadArchPre_def)

text \<open>C13: the switch of the machine state loses nothing. If the processor goes from thread \<open>a\<close> to
  thread \<open>b\<close> and later back, whatever \<open>b\<close> and the kernel did to the registers meanwhile, then \<open>a\<close>
  finds its page tables, its control register and, if it uses the FPU, its FPU registers as they
  were, and the descriptor tables loaded are its own.\<close>

theorem switch_roundtrip:
  assumes "a \<noteq> b" "k_g (kthreads s a) \<noteq> None" "cpu_cr3 s \<noteq> 0"
    and "kArch t a = kArch (arch_switch b a s) a" "k_g (kthreads t a) \<noteq> None"
  shows "cpu_cr0 (arch_switch a b t) = cpu_cr0 s \<and> cpu_cr3 (arch_switch a b t) = cpu_cr3 s \<and>
    (\<not> has_flag (cpu_cr0 s) CR0_EM \<longrightarrow> cpu_fpu (arch_switch a b t) = cpu_fpu s) \<and>
    cpu_gdtr (arch_switch a b t) = ka_gdtr (kArch s a) \<and> cpu_idtr (arch_switch a b t) = ka_idtr (kArch s a)"
  using arch_switch_to [OF assms(5,1)] arch_switch_from [OF assms(2,1)] switch_out_saves [OF assms(2)] assms(3,4) by auto

definition demo_other :: ostate where
  "demo_other = (arch_switch 20 10 demo_sys)\<lparr>cpu_cr0 := 0, cpu_cr3 := 5, cpu_fpu := []\<rparr>"

theorem switch_roundtrip_witness:
  "cpu_cr3 (arch_switch 10 20 demo_other) = 0x10000 \<and> cpu_fpu (arch_switch 10 20 demo_other) = [1, 2, 3]"
proof -
  have "kArch demo_other 10 = kArch (arch_switch 20 10 demo_sys) 10" "k_g (kthreads demo_sys 10) \<noteq> None"
    by (simp_all add: demo_other_def demo_thread_def demo_vcpu_ids_def)
  moreover have "kthreads demo_other = kthreads demo_sys"
    by (simp add: demo_other_def arch_switch_def SwitchKThreadArchPost_def SwitchKThreadArchPre_def switch_out_other switch_in_threads)
  ultimately show ?thesis
    using switch_roundtrip [of 10 20 demo_sys demo_other] by (simp add: has_flag_def CR0_EM_def)
qed

section \<open>Checksums\<close>

lemma checksum_sum: "checksum_loop hs acc = acc + sum_list hs"
proof (induction hs arbitrary: acc)
  case (Cons h hs)
  have "(ucast (acc + h) :: u32) AND 0xffff0000 = 0"
  proof -
    have "\<not> (bit (ucast (acc + h) :: u32) n \<and> bit (0xffff0000 :: u32) n)" for n
    proof -
      have "bit (0xffff0000 :: u32) n \<Longrightarrow> 16 \<le> n"
      proof -
        have "(0xffff0000 :: u32) = push_bit 16 (mask 16)" by (simp add: mask_eq_exp_minus_1)
        then show "bit (0xffff0000 :: u32) n \<Longrightarrow> 16 \<le> n" by (simp add: bit_push_bit_iff)
      qed
      then show ?thesis by (auto simp: bit_ucast_iff dest: bit_imp_le_length)
    qed
    then show ?thesis by (intro bit_word_eqI) (simp add: bit_and_iff)
  qed
  then show ?case using Cons by (simp add: Let_def ac_simps)
qed simp

text \<open>C40: every record the health monitor writes to its log passes the check of its checksum.\<close>

theorem sealed_log_valid: "IsValidCheckSum (log_halves (seal_log n l))"
proof -
  define l0 where "l0 = l\<lparr>hl_checksum := 0, hl_opCodeH := clr_flag (hl_opCodeH l) HMLOG_OPCODE_SEQ_MASK OR push_bit 4 n\<rparr>"
  have s: "seal_log n l = l0\<lparr>hl_checksum := CalcCheckSum (log_halves l0)\<rparr>" by (simp add: seal_log_def l0_def Let_def)
  have "sum_list (log_halves (l0\<lparr>hl_checksum := c\<rparr>)) = c + sum_list (log_halves l0)" for c
    by (simp add: log_halves_def l0_def ac_simps)
  then have "sum_list (log_halves (seal_log n l)) = NOT (sum_list (log_halves l0)) + sum_list (log_halves l0)"
    by (simp add: s CalcCheckSum_def checksum_sum)
  also have "\<dots> = - 1" by (simp add: not_eq_complement)
  finally show ?thesis by (simp add: IsValidCheckSum_def checksum_sum)
qed

section \<open>Delivery to a guest\<close>

text \<open>The words on the stack after a push, the last one lowest.\<close>

lemma push_words_spec:
  assumes "push_words ws sp s = Some (sp', s')" "4 * length ws \<le> unat sp" "unat sp < 2 ^ 32 - 4"
  shows "unat sp' = unat sp - 4 * length ws"
    "\<And>i. i < length ws \<Longrightarrow> gread_u32 (word_of_nat (unat sp - 4 * (i + 1))) s' = Some (ws ! i)"
    "\<And>b. unat sp \<le> unat b \<Longrightarrow> unat b + 4 < 2 ^ 32 \<Longrightarrow> gread_u32 b s' = gread_u32 b s"
    "\<exists>m. s' = s\<lparr>gmem := m\<rparr>"
proof -
  have "unat sp' = unat sp - 4 * length ws \<and>
    (\<forall>i < length ws. gread_u32 (word_of_nat (unat sp - 4 * (i + 1))) s' = Some (ws ! i)) \<and>
    (\<forall>b. unat sp \<le> unat b \<and> unat b + 4 < 2 ^ 32 \<longrightarrow> gread_u32 b s' = gread_u32 b s) \<and> (\<exists>m. s' = s\<lparr>gmem := m\<rparr>)"
    using assms
  proof (induction ws arbitrary: sp s)
    case Nil
    have "\<exists>m. s = s\<lparr>gmem := m\<rparr>" by (rule exI [of _ "gmem s"]) simp
    moreover have "sp' = sp" "s' = s" using Nil.prems(1) by simp_all
    ultimately show ?case by simp
  next
    case (Cons w ws)
    obtain t where t: "gwrite_u32 (sp - 4) w s = Some t" "push_words ws (sp - 4) t = Some (sp', s')"
      using Cons.prems(1) by (auto simp: bind_eq_Some_iff)
    have d: "unat (sp - 4) = unat sp - 4" using unat_down [of 4 sp] Cons.prems(2) by simp
    have IH: "unat sp' = unat sp - 4 - 4 * length ws"
      "\<And>i. i < length ws \<Longrightarrow> gread_u32 (word_of_nat (unat sp - 4 - 4 * (i + 1))) s' = Some (ws ! i)"
      "\<And>b. unat sp - 4 \<le> unat b \<Longrightarrow> unat b + 4 < 2 ^ 32 \<Longrightarrow> gread_u32 b s' = gread_u32 b t" "\<exists>m. s' = t\<lparr>gmem := m\<rparr>"
    proof -
      have "4 * length ws \<le> unat (sp - 4)" "unat (sp - 4) < 2 ^ 32 - 4" using Cons.prems(2,3) by (simp_all add: d)
      note I = Cons.IH [OF t(2) this, unfolded d]
      show "unat sp' = unat sp - 4 - 4 * length ws" by (rule I [THEN conjunct1])
      show "gread_u32 (word_of_nat (unat sp - 4 - 4 * (i + 1))) s' = Some (ws ! i)" if "i < length ws" for i
        by (rule I [THEN conjunct2, THEN conjunct1, rule_format, OF that])
      show "gread_u32 b s' = gread_u32 b t" if "unat sp - 4 \<le> unat b" "unat b + 4 < 2 ^ 32" for b
        by (rule I [THEN conjunct2, THEN conjunct2, THEN conjunct1, rule_format, OF conjI [OF that]])
      show "\<exists>m. s' = t\<lparr>gmem := m\<rparr>" by (rule I [THEN conjunct2, THEN conjunct2, THEN conjunct2])
    qed
    have wr: "gread_u32 (sp - 4) t = Some w" "\<exists>m. t = s\<lparr>gmem := m\<rparr>"
      "\<And>b. unat sp \<le> unat b \<Longrightarrow> unat b + 4 < 2 ^ 32 \<Longrightarrow> gread_u32 b t = gread_u32 b s"
      using gwrite_u32_read [OF t(1)] Cons.prems(2,3) by (simp_all add: d)
    have "gread_u32 (word_of_nat (unat sp - 4 * (i + 1))) s' = Some ((w # ws) ! i)" if "i < length (w # ws)" for i
    proof (cases i)
      case 0
      have "(word_of_nat (unat sp - 4) :: u32) = sp - 4" by (simp add: d [symmetric])
      then show ?thesis using 0 IH(3) [of "sp - 4"] wr(1) Cons.prems(2,3) d by simp
    next
      case (Suc m)
      then have "unat sp - 4 * (i + 1) = unat sp - 4 - 4 * (m + 1)" by simp
      then show ?thesis using IH(2) [of m] that Suc by simp
    qed
    moreover have "\<exists>m. s' = s\<lparr>gmem := m\<rparr>" using IH(4) wr(2) by auto
    ultimately show ?case using IH(1,3) wr(3) by auto
  qed
  then show "unat sp' = unat sp - 4 * length ws"
    "\<And>i. i < length ws \<Longrightarrow> gread_u32 (word_of_nat (unat sp - 4 * (i + 1))) s' = Some (ws ! i)"
    "\<And>b. unat sp \<le> unat b \<Longrightarrow> unat b + 4 < 2 ^ 32 \<Longrightarrow> gread_u32 b s' = gread_u32 b s"
    "\<exists>m. s' = s\<lparr>gmem := m\<rparr>" by blast+
qed

lemma push_words_read:
  assumes "push_words ws sp s = Some (sp', s')" "4 * length ws \<le> unat sp" "unat sp < 2 ^ 32 - 4" "j < length ws"
  shows "gread_u32 (sp' + 4 * word_of_nat j) s' = Some (ws ! (length ws - Suc j))"
proof -
  have "sp' + 4 * word_of_nat j = word_of_nat (unat sp') + word_of_nat (4 * j)" by simp
  also have "\<dots> = word_of_nat (unat sp' + 4 * j)" by (rule of_nat_add [symmetric])
  also have "unat sp' + 4 * j = unat sp - 4 * (length ws - Suc j + 1)"
    using push_words_spec(1) [OF assms(1-3)] assms(2,4) by simp
  finally show ?thesis using push_words_spec(2) [OF assms(1-3), of "length ws - Suc j"] assms(4) by simp
qed

lemma and_then_Ret: "and_then r f = Some (Ret v t) \<longleftrightarrow> (\<exists>w u. r = Some (Ret w u) \<and> f w u = Some (Ret v t))"
  by (cases "(r, f)" rule: and_then.cases) auto

lemma panic_never_returns: "PartitionPanic hm fuel junk c s \<noteq> Some (Ret v t)" "SystemPanic hm fuel junk c s \<noteq> Some (Ret v t)"
  by (auto simp: PartitionPanic_def SystemPanic_def HaltSystem_def and_then_Ret bind_eq_Some_iff Let_def split: if_splits)

lemma gread_ctxt: "gread_u32 a (s\<lparr>irqCpuCtxt := x\<rparr>) = gread_u32 a s"
proof -
  have "gread_bytes a n (s\<lparr>irqCpuCtxt := x\<rparr>) = gread_bytes a n s" for n
    by (induction n arbitrary: a) (simp_all add: gread_def GetPartition_def cong: if_cong)
  then show ?thesis by (simp add: gread_u32_def)
qed

text \<open>The frame FixStack builds: on the stack of the guest, or with the old stack on it on that of the ring.\<close>

definition frame_on :: "cpuCtxt \<Rightarrow> u32 \<Rightarrow> u32 list \<Rightarrow> u32 \<Rightarrow> cpuCtxt \<Rightarrow> bool" where
  "frame_on ctxt iFlags ext sp ctxt' \<longleftrightarrow> sp \<le> CONFIG_XM_OFFSET \<and>
     (if cx_cs ctxt AND 3 = cx_cs ctxt' AND 3 then ext = [] \<and> sp = cx_sp ctxt \<and> cx_ss ctxt' = cx_ss ctxt \<and> 16 \<le> unat sp
      else ext = [cx_ss ctxt, cx_sp ctxt] \<and> 24 \<le> unat sp) \<and>
     cx_irqNr ctxt' = cx_irqNr ctxt \<and> cx_eCode ctxt' = cx_eCode ctxt"

lemma FixStack_frame:
  assumes "FixStack hm fuel junk ctxt irqNr vector False s = Some (Ret ctxt' s')" "cur_pct s = Some p"
  shows "\<exists>ext sp t q. frame_on ctxt (pct_iFlags p) ext sp ctxt' \<and> cKThread t = cKThread s \<and> cur_pct t = Some q \<and>
    push_words (ext @ [clr_flag (cx_flags ctxt) CPU_FLAG_IF OR pct_iFlags p, cx_cs ctxt, cx_ip ctxt]) sp t = Some (cx_sp ctxt', s')"
proof -
  have fw: "frame_words ctxt (pct_iFlags p) irqNr False = [clr_flag (cx_flags ctxt) CPU_FLAG_IF OR pct_iFlags p, cx_cs ctxt, cx_ip ctxt]"
    by (simp add: frame_words_def)
  define s1 where "s1 = (\<lambda>g :: x86Gate. (if \<not> has_flag (gt_low0 g) 0x100
      then kt_upd (cKThread s) (pct_upd (\<lambda>p. p\<lparr>pct_iFlags := clr_flag (pct_iFlags p) CPU_FLAG_IF\<rparr>)) s else s))"
  have s1: "cKThread (s1 g) = cKThread s" "\<exists>q. cur_pct (s1 g) = Some q" for g
    using assms(2) by (auto simp: s1_def cur_pct_def kt_upd_def k_pct_upd)
  obtain g where g: "gread_gate (dr_linearBase (pa_idtr (archPct s (cKThread s))) + 8 * ucast vector) s = Some g"
    "(if cx_cs ctxt AND 3 = drop_bit 16 (gt_high0 g) AND 3 then do {
        t \<leftarrow> TestSp (cx_sp ctxt) 16 (s1 g);
        if t < 0 then PartitionPanic hm fuel junk (Some ctxt) (s1 g)
        else do {
          (ctxt, u) \<leftarrow> build_frame ctxt (frame_words ctxt (pct_iFlags p) irqNr False) (cx_sp ctxt) (cx_ss ctxt) (drop_bit 16 (gt_high0 g))
             ((gt_low0 g AND 0xffff0000) OR (gt_high0 g AND 0xffff)) (s1 g);
          Some (Ret ctxt u)
        }
      }
      else (case target_stack ctxt (drop_bit 16 (gt_high0 g)) (s1 g) of None \<Rightarrow> PartitionPanic hm fuel junk (Some ctxt) (s1 g)
        | Some (ss, sp) \<Rightarrow>
            if ss = 0 \<or> sp = 0 then PartitionPanic hm fuel junk (Some ctxt) (s1 g)
            else do {
              t \<leftarrow> TestSp sp 24 (s1 g);
              if t < 0 then PartitionPanic hm fuel junk (Some ctxt) (s1 g)
              else do {
                (ctxt, u) \<leftarrow> build_frame ctxt ([cx_ss ctxt, cx_sp ctxt] @ frame_words ctxt (pct_iFlags p) irqNr False) sp (ucast ss)
                   (drop_bit 16 (gt_high0 g)) ((gt_low0 g AND 0xffff0000) OR (gt_high0 g AND 0xffff)) (s1 g);
                Some (Ret ctxt u)
              }
            })) = Some (Ret ctxt' s')"
    using assms unfolding FixStack_def s1_def Let_def
    by (auto simp: bind_eq_Some_iff panic_never_returns simp del: option.case_distrib split del: if_split split: if_splits)
  show ?thesis
  proof (cases "cx_cs ctxt AND 3 = drop_bit 16 (gt_high0 g) AND 3")
    case True
    then obtain t sp' where t: "TestSp (cx_sp ctxt) 16 (s1 g) = Some t"
      "push_words (frame_words ctxt (pct_iFlags p) irqNr False) (cx_sp ctxt) (s1 g) = Some (sp', s')"
      "ctxt' = ctxt\<lparr>cx_sp := sp', cx_cs := drop_bit 16 (gt_high0 g), cx_ip := (gt_low0 g AND 0xffff0000) OR (gt_high0 g AND 0xffff)\<rparr>"
      using g(2) by (auto simp: bind_eq_Some_iff panic_never_returns build_frame_def split: if_splits)
    have "16 \<le> unat (cx_sp ctxt) \<and> cx_sp ctxt \<le> CONFIG_XM_OFFSET" using t(1) by (auto simp: TestSp_def bind_eq_Some_iff)
    then have "frame_on ctxt (pct_iFlags p) [] (cx_sp ctxt) ctxt'" using True by (simp add: frame_on_def t(3))
    then show ?thesis using t(2,3) s1 [of g] unfolding fw by (intro exI [of _ "[]"] exI [of _ "cx_sp ctxt"] exI [of _ "s1 g"]) auto
  next
    case False
    then obtain t ss sp sp' where t: "TestSp sp 24 (s1 g) = Some t"
      "push_words ([cx_ss ctxt, cx_sp ctxt] @ frame_words ctxt (pct_iFlags p) irqNr False) sp (s1 g) = Some (sp', s')"
      "ctxt' = ctxt\<lparr>cx_ss := ucast (ss :: u16), cx_sp := sp', cx_cs := drop_bit 16 (gt_high0 g), cx_ip := (gt_low0 g AND 0xffff0000) OR (gt_high0 g AND 0xffff)\<rparr>"
      using g(2) by (auto simp: bind_eq_Some_iff panic_never_returns build_frame_def split: if_splits option.splits)
    have "24 \<le> unat sp \<and> sp \<le> CONFIG_XM_OFFSET" using t(1) by (auto simp: TestSp_def bind_eq_Some_iff)
    then have "frame_on ctxt (pct_iFlags p) [cx_ss ctxt, cx_sp ctxt] sp ctxt'" using False by (simp add: frame_on_def t(3))
    then show ?thesis using t(2,3) s1 [of g] unfolding fw
      by (intro exI [of _ "[cx_ss ctxt, cx_sp ctxt]"] exI [of _ sp] exI [of _ "s1 g"]) auto
  qed
qed

lemma u32_offset: "(a :: u32) + 4 * word_of_nat 1 = a + 4" "a + 4 * word_of_nat 2 = a + 8" "a + 4 * word_of_nat 3 = a + 12"
  "a + 4 * word_of_nat 4 = a + 16" "a + 4 * word_of_nat 0 = a"
  by simp_all

text \<open>C11: the frame of an interrupt. When an interrupt has been delivered to a guest, by FixStack
  on the stack it was using or on the stack of the more privileged ring, and its handler leaves with
  the stack as it found it, then the return from the interrupt restores the instruction pointer, the
  segment and both stack registers, and the guest's interrupt flag is what it was before. The flags
  come back with the processor's own interrupt flag set and no I/O privilege.\<close>

theorem interrupt_frame_roundtrip:
  assumes "FixStack hm fuel junk ctxt irqNr vector False s = Some (Ret ctxt' s')" "cur_pct s = Some p"
  shows "\<exists>s''. X86IRetSys (s'\<lparr>irqCpuCtxt := (irqCpuCtxt s')(cKThread s := Some ctxt')\<rparr>) = Some s'' \<and>
    irqCpuCtxt s'' (cKThread s) = Some (ctxt\<lparr>cx_flags :=
      clr_flag (set_flag (clr_flag (cx_flags ctxt) CPU_FLAG_IF OR pct_iFlags p) CPU_FLAG_IF) CPU_FLAG_IOPL\<rparr>) \<and>
    (\<exists>q. cur_pct s'' = Some q \<and> pct_iFlags q = pct_iFlags p AND CPU_FLAG_IF)"
proof -
  let ?fl = "clr_flag (cx_flags ctxt) CPU_FLAG_IF OR pct_iFlags p"
  obtain ext sp t q where f: "frame_on ctxt (pct_iFlags p) ext sp ctxt'" "cKThread t = cKThread s" "cur_pct t = Some q"
    "push_words (ext @ [?fl, cx_cs ctxt, cx_ip ctxt]) sp t = Some (cx_sp ctxt', s')"
    using FixStack_frame [OF assms] by blast
  let ?ws = "ext @ [?fl, cx_cs ctxt, cx_ip ctxt]"
  let ?u = "s'\<lparr>irqCpuCtxt := (irqCpuCtxt s')(cKThread s := Some ctxt')\<rparr>"
  have sp: "4 * length ?ws \<le> unat sp" "unat sp < 2 ^ 32 - 4"
    using f(1) by (auto simp: frame_on_def word_le_nat_alt offset_unat split: if_splits)
  obtain m where m: "s' = t\<lparr>gmem := m\<rparr>" using push_words_spec(4) [OF f(4) sp] by blast
  have rd: "gread_u32 (cx_sp ctxt' + 4 * word_of_nat j) ?u = Some (?ws ! (length ?ws - Suc j))" if "j < length ?ws" for j
    unfolding gread_ctxt by (rule push_words_read [OF f(4) sp that])
  have r3: "gread_u32 (cx_sp ctxt') ?u = Some (cx_ip ctxt)" "gread_u32 (cx_sp ctxt' + 4) ?u = Some (cx_cs ctxt)"
    "gread_u32 (cx_sp ctxt' + 8) ?u = Some ?fl"
    using rd [of 0] rd [of 1] rd [of 2] unfolding u32_offset by (simp_all add: nth_append numeral_2_eq_2)
  have r5: "gread_u32 (cx_sp ctxt' + 12) ?u = Some (ext ! 1)" "gread_u32 (cx_sp ctxt' + 16) ?u = Some (ext ! 0)" if "length ext = 2"
    using rd [of 3] rd [of 4] that unfolding u32_offset by (simp_all add: nth_append)
  have base: "cKThread ?u = cKThread s" "cur_pct ?u = Some q" "irqCpuCtxt ?u (cKThread s) = Some ctxt'"
    using f(2,3) by (simp_all add: m cur_pct_def)
  have fl: "?fl AND CPU_FLAG_IF = pct_iFlags p AND CPU_FLAG_IF"
    by (rule bit_word_eqI) (auto simp: bit_and_iff bit_or_iff clr_flag_bit)
  let ?F = "clr_flag (set_flag ?fl CPU_FLAG_IF) CPU_FLAG_IOPL" and ?k = "cKThread s"
  let ?v = "kt_upd ?k (pct_upd (\<lambda>p. p\<lparr>pct_iFlags := ?fl AND CPU_FLAG_IF\<rparr>)) ?u"
  have cur: "cur_pct (?v\<lparr>irqCpuCtxt := z\<rparr>) = Some (q\<lparr>pct_iFlags := ?fl AND CPU_FLAG_IF\<rparr>)" for z
    using f(2,3) by (simp add: m cur_pct_def kt_upd_def)
  have ret: "X86IRetSys ?u = Some (?v\<lparr>irqCpuCtxt := (irqCpuCtxt ?v)(?k := Some (ctxt\<lparr>cx_flags := ?F\<rparr>))\<rparr>)"
  proof (cases "cx_cs ctxt AND 3 = cx_cs ctxt' AND 3")
    case True
    then have e: "ext = []" "sp = cx_sp ctxt" "cx_ss ctxt' = cx_ss ctxt" "cx_irqNr ctxt' = cx_irqNr ctxt" "cx_eCode ctxt' = cx_eCode ctxt"
      using f(1) by (simp_all add: frame_on_def)
    have "unat (cx_sp ctxt') = unat sp - 12" using push_words_spec(1) [OF f(4) sp] e(1) by simp
    moreover have "unat (sp - 12) = unat sp - 12" using unat_down [of 12 sp] sp(1) by simp
    ultimately have "cx_sp ctxt' = sp - 12" by (metis word_unat_eq_iff)
    then have c: "ctxt'\<lparr>cx_sp := cx_sp ctxt' + 12, cx_ip := cx_ip ctxt, cx_cs := cx_cs ctxt, cx_flags := ?F\<rparr> = ctxt\<lparr>cx_flags := ?F\<rparr>"
      using e by (intro cpuCtxt.equality) simp_all
    have "X86IRetSys ?u = Some (?v\<lparr>irqCpuCtxt := (irqCpuCtxt ?v)(?k := Some (ctxt'\<lparr>cx_sp := cx_sp ctxt' + 12, cx_ip := cx_ip ctxt,
        cx_cs := cx_cs ctxt, cx_flags := ?F\<rparr>))\<rparr>)"
      using True by (simp add: X86IRetSys_def Let_def r3 base)
    then show ?thesis unfolding c .
  next
    case False
    then have e: "ext = [cx_ss ctxt, cx_sp ctxt]" "cx_irqNr ctxt' = cx_irqNr ctxt" "cx_eCode ctxt' = cx_eCode ctxt" "length ext = 2"
      using f(1) by (simp_all add: frame_on_def)
    have c: "ctxt'\<lparr>cx_sp := cx_sp ctxt, cx_ss := cx_ss ctxt, cx_ip := cx_ip ctxt, cx_cs := cx_cs ctxt, cx_flags := ?F\<rparr> = ctxt\<lparr>cx_flags := ?F\<rparr>"
      using e by (intro cpuCtxt.equality) simp_all
    have "X86IRetSys ?u = Some (?v\<lparr>irqCpuCtxt := (irqCpuCtxt ?v)(?k := Some (ctxt'\<lparr>cx_sp := cx_sp ctxt, cx_ss := cx_ss ctxt,
        cx_ip := cx_ip ctxt, cx_cs := cx_cs ctxt, cx_flags := ?F\<rparr>))\<rparr>)"
      using False r5 [OF e(4)] by (simp add: X86IRetSys_def Let_def r3 base e(1))
    then show ?thesis unfolding c .
  qed
  show ?thesis
    by (rule exI, rule conjI, rule ret, rule conjI, simp, rule exI, rule conjI, rule cur, simp add: fl)
qed

lemma low_mem_push: "\<lbrakk>low_mem s; 4 * length ws \<le> unat sp; unat sp \<le> 0x10000\<rbrakk> \<Longrightarrow> \<exists>r. push_words ws sp s = Some r"
proof (induction ws arbitrary: sp s)
  case (Cons w ws)
  have d: "unat (sp - 4) = unat sp - 4" using unat_down [of 4 sp] Cons.prems(2) by simp
  have "writable_at (sp - 4) (length (u32_bytes w)) s"
    using Cons.prems d unfolding low_mem_def length_u32_bytes by simp
  then obtain t where t: "gwrite_bytes (sp - 4) (u32_bytes w) s = Some t" using gwrite_bytes_ok by blast
  have "low_mem t" using Cons.prems(1) gwrite_writable(1) [OF t] by (simp add: low_mem_def)
  then show ?case using Cons.IH [of t "sp - 4"] Cons.prems(2,3) d t by (simp add: gwrite_u32_def)
qed simp

lemma demo_gate: "gread_gate 0x4100 demo_sys = Some \<lparr>gt_high0 = 0x196000, gt_low0 = 0x8e00\<rparr>"
  by code_simp

lemma demo_probe: "TestSp 0x8000 24 s = Some 0" if "GetPartition (cKThread s) s = Some 0" "g_readable s = (\<lambda>i p. p < 16)" "g_rw s = (\<lambda>i p. p < 16)"
proof -
  have "probe (\<lambda>p. p < 16) 0x7fe8 0x8000" by code_simp
  then show ?thesis using that by (simp add: TestSp_def CONFIG_XM_OFFSET_def word_le_nat_alt)
qed

lemma demo_delivery: "\<exists>c s'. FixStack demo_hmo 2 0 demo_ctxt 0 32 False demo_sys = Some (Ret c s')"
proof -
  let ?s = "kt_upd 10 (pct_upd (\<lambda>p. p\<lparr>pct_iFlags := clr_flag (pct_iFlags p) CPU_FLAG_IF\<rparr>)) demo_sys"
  have p: "GetPartition (cKThread ?s) ?s = Some 0" "g_readable ?s = (\<lambda>i p. p < 16)" "g_writable ?s = (\<lambda>i p. p < 16)"
    "g_rw ?s = (\<lambda>i p. p < 16)" "cKThread ?s = 10" "kArch ?s = (\<lambda>_. demo_karch)"
    using demo_part_10(1) by (simp_all add: GetPartition_def kt_upd_def pct_upd_def g_upd_def demo_thread_def demo_vcpu_ids_def)
  have t1: "TestSp 0x8000 24 ?s = Some 0" by (rule demo_probe [OF p(1,2,4)])
  have t2: "\<exists>r. push_words ws 0x8000 ?s = Some r" if "length ws = 5" for ws
    using that by (intro low_mem_push demo_low_mem [OF p(2,3,1)]) simp_all
  obtain sp t where "push_words [0x2b, 0x7ff0, clr_flag 0x3202 CPU_FLAG_IF OR 0x200, 0x23, 0x1234] 0x8000 ?s = Some (sp, t)"
    using t2 [of "[0x2b, 0x7ff0, clr_flag 0x3202 CPU_FLAG_IF OR 0x200, 0x23, 0x1234]"] by auto
  then show ?thesis
    using p(5,6) t1 demo_gate
    by (simp add: FixStack_def demo_part_10(2) demo_reg_def demo_ctxt_def demo_pct_def has_flag_def CONFIG_XM_OFFSET_def Let_def
        target_stack_def demo_karch_def build_frame_def frame_words_def del: push_words.simps)
qed

theorem interrupt_frame_roundtrip_witness:
  "\<exists>c s' s''. FixStack demo_hmo 2 0 demo_ctxt 0 32 False demo_sys = Some (Ret c s') \<and>
    X86IRetSys (s'\<lparr>irqCpuCtxt := (irqCpuCtxt s')(10 := Some c)\<rparr>) = Some s'' \<and>
    irqCpuCtxt s'' 10 = Some (demo_ctxt\<lparr>cx_flags := 0x202\<rparr>)"
proof -
  obtain c s' where d: "FixStack demo_hmo 2 0 demo_ctxt 0 32 False demo_sys = Some (Ret c s')" using demo_delivery by blast
  show ?thesis
    using interrupt_frame_roundtrip [OF d demo_part_10(2)] d
    by (auto simp: demo_ctxt_def demo_pct_def clr_flag_def set_flag_def CPU_FLAG_IF_def CPU_FLAG_IOPL_def)
qed

text \<open>C12: which interrupt is delivered. On the way back to a guest that has its interrupts enabled,
  with no trap to deliver, the pending and unmasked hardware interrupt with the lowest number is
  taken; only if there is none, the extended one with the lowest number; with neither, the guest
  goes on unchanged. The bit of the one taken is cleared, and its entry of the vector table is the
  one the frame is built for.\<close>

theorem delivers_lowest_pending:
  assumes "cur_guest s = Some g" "\<not> IsSvIrqCtxt ctxt" "\<not> has_flag (g_swTrap g) 1" "cur_pct s = Some p"
    and "AreKThreadFlagsSet (cKThread s) KTHREAD_TRAP_PENDING_F s = 0" "pct_extIrqsPend p AND XM_EXT_TRAPS = 0"
    and "ArePCtrlTabIrqsSet (pct_iFlags p)" "\<forall>n. bit (pct_hwIrqsPend p AND NOT (pct_hwIrqsMask p)) n \<longrightarrow> n < CONFIG_NO_HWIRQS"
  shows "RaisePendIrqs hm fuel junk ctxt s =
    (if pct_hwIrqsPend p AND NOT (pct_hwIrqsMask p) \<noteq> 0 then
       let n = (LEAST n. bit (pct_hwIrqsPend p AND NOT (pct_hwIrqsMask p)) n)
       in emulate hm fuel junk ctxt (pct_hwIrq2Vector p) (int n) False (clear_hw (cKThread s) (int n) s)
     else if pct_extIrqsPend p AND NOT (pct_extIrqsMask p) \<noteq> 0 then
       let n = (LEAST n. bit (pct_extIrqsPend p AND NOT (pct_extIrqsMask p)) n)
       in emulate hm fuel junk ctxt (pct_extIrq2Vector p) (int n) False (clear_ext (cKThread s) (int n) s)
     else Some (Ret (- 1, ctxt) s))"
proof -
  have F: "Ffs x = int (LEAST n. bit x n) \<and> bit x (LEAST n. bit x n)" if x: "x \<noteq> 0" for x :: u32
  proof -
    obtain n where n: "Ffs x = int n" "lowest x n" using Ffs_pos [OF x] by blast
    then have "(LEAST n. bit x n) = n" by (intro Least_equality) (auto simp: lowest_def not_less)
    then show ?thesis using n by (simp add: lowest_def)
  qed
  have "RaisePendIrqs hm fuel junk ctxt s = raise_irqs hm fuel junk ctxt p s"
    using assms(1-6) by (simp add: RaisePendIrqs_def Let_def AreExtTrapsPending_def)
  also have "\<dots> = (if pct_hwIrqsPend p AND NOT (pct_hwIrqsMask p) \<noteq> 0 then
       let n = (LEAST n. bit (pct_hwIrqsPend p AND NOT (pct_hwIrqsMask p)) n)
       in emulate hm fuel junk ctxt (pct_hwIrq2Vector p) (int n) False (clear_hw (cKThread s) (int n) s)
     else if pct_extIrqsPend p AND NOT (pct_extIrqsMask p) \<noteq> 0 then
       let n = (LEAST n. bit (pct_extIrqsPend p AND NOT (pct_extIrqsMask p)) n)
       in emulate hm fuel junk ctxt (pct_extIrq2Vector p) (int n) False (clear_ext (cKThread s) (int n) s)
     else Some (Ret (- 1, ctxt) s))"
    using F assms(7,8) by (simp add: raise_irqs_def AreHwIrqsPending_def AreExtIrqsPending_def Let_def)
  finally show ?thesis .
qed

definition demo_pending :: ostate where
  "demo_pending = kt_upd 10 (pct_upd (\<lambda>p. p\<lparr>pct_hwIrqsPend := 0x28, pct_hwIrqsMask := 0x08, pct_extIrqsPend := 1\<rparr>)) demo_sys"

theorem delivers_lowest_pending_witness:
  "RaisePendIrqs demo_hmo 2 0 demo_ctxt demo_pending =
     emulate demo_hmo 2 0 demo_ctxt (pct_hwIrq2Vector demo_pct) 5 False (clear_hw 10 5 demo_pending)"
proof -
  let ?g = "demo_guest 0 10"
  let ?p = "demo_pct\<lparr>pct_hwIrqsPend := 0x28, pct_hwIrqsMask := 0x08, pct_extIrqsPend := 1\<rparr>"
  have k: "cKThread demo_pending = 10" "cur_guest demo_pending = Some (?g\<lparr>g_partCtrlTab := Some ?p\<rparr>)" "cur_pct demo_pending = Some ?p"
    "AreKThreadFlagsSet 10 KTHREAD_TRAP_PENDING_F demo_pending = 0"
    by (simp_all add: demo_pending_def cur_guest_def cur_pct_def kt_upd_def demo_thread_def demo_vcpu_ids_def demo_guest_def
        pct_upd_def g_upd_def k_pct_def AreKThreadFlagsSet_def kthread_flag_defs KTHREAD_TRAP_PENDING_F_def)
  have w: "(40 AND NOT 8 :: u32) = 32" by simp
  have b: "bit (32 :: u32) n \<longleftrightarrow> n = 5" for n using bit_exp_u32 [of 5 n] by auto
  have l: "(LEAST n. n = (5 :: nat)) = 5" by (rule Least_equality) simp_all
  have f: "pct_hwIrqsPend ?p = 40" "pct_hwIrqsMask ?p = 8" "pct_extIrqsPend ?p = 1" "pct_hwIrq2Vector ?p = pct_hwIrq2Vector demo_pct"
    "pct_iFlags ?p = 0x200" by (simp_all add: demo_pct_def)
  have "RaisePendIrqs demo_hmo 2 0 demo_ctxt demo_pending =
    (if pct_hwIrqsPend ?p AND NOT (pct_hwIrqsMask ?p) \<noteq> 0 then
       let n = (LEAST n. bit (pct_hwIrqsPend ?p AND NOT (pct_hwIrqsMask ?p)) n)
       in emulate demo_hmo 2 0 demo_ctxt (pct_hwIrq2Vector ?p) (int n) False (clear_hw (cKThread demo_pending) (int n) demo_pending)
     else if pct_extIrqsPend ?p AND NOT (pct_extIrqsMask ?p) \<noteq> 0 then
       let n = (LEAST n. bit (pct_extIrqsPend ?p AND NOT (pct_extIrqsMask ?p)) n)
       in emulate demo_hmo 2 0 demo_ctxt (pct_extIrq2Vector ?p) (int n) False (clear_ext (cKThread demo_pending) (int n) demo_pending)
     else Some (Ret (- 1, demo_ctxt) demo_pending))"
  proof (rule delivers_lowest_pending [OF k(2) _ _ k(3)])
    show "\<not> IsSvIrqCtxt demo_ctxt" by (simp add: IsSvIrqCtxt_def demo_ctxt_def)
    show "\<not> has_flag (g_swTrap (?g\<lparr>g_partCtrlTab := Some ?p\<rparr>)) 1" by (simp add: has_flag_def demo_guest_def)
    show "AreKThreadFlagsSet (cKThread demo_pending) KTHREAD_TRAP_PENDING_F demo_pending = 0" using k(1,4) by simp
    show "pct_extIrqsPend ?p AND XM_EXT_TRAPS = 0" by (simp add: f XM_EXT_TRAPS_def)
    show "ArePCtrlTabIrqsSet (pct_iFlags ?p)" unfolding f ArePCtrlTabIrqsSet_def CPU_FLAG_IF_def by simp
    show "\<forall>n. bit (pct_hwIrqsPend ?p AND NOT (pct_hwIrqsMask ?p)) n \<longrightarrow> n < CONFIG_NO_HWIRQS"
      unfolding f w b CONFIG_NO_HWIRQS_def by simp
  qed
  then show ?thesis unfolding f w b l k(1) by simp
qed

end
