(* ===== verification/CallProps.thy ===== *)
theory CallProps
  imports SysDemo
begin

text \<open>Properties of the hypercalls: who may call what, and what a batch of calls does.\<close>

section \<open>Who may manage partitions\<close>

text \<open>C10: only a system partition manages others. A call of a partition that is not one, to halt,
  suspend, resume, reset or shut down another partition, or to halt or reset the system or change
  the plan, returns XM_PERM_ERROR and changes nothing, whatever the other arguments are.\<close>

theorem management_needs_system:
  assumes "cur_partid s = Some me" "is_system s = Some False"
    and "(nr \<in> {1, 2, 3, 4, 5} \<and> a 0 \<noteq> me) \<or> nr \<in> {6, 7, 26}"
  shows "hypercall v (Suc d) nr a s = Some (Ret XM_PERM_ERROR s)"
  using assms
  by (auto simp: hypercallsTab_def aget_def HaltPartitionSys_def SuspendPartitionSys_def ResumePartitionSys_def ResetPartitionSys_def
      ShutdownPartitionSys_def HaltSystemSys_def ResetSystemSys_def SwitchSchedPlanSys_def ok_def)

definition demo_sys1 :: ostate where
  "demo_sys1 = demo_sys\<lparr>cKThread := 20\<rparr>"

theorem management_needs_system_witness:
  "hypercall demo_env 1 1 (\<lambda>_. 0) demo_sys1 = Some (Ret XM_PERM_ERROR demo_sys1)"
proof -
  have "cur_partid demo_sys1 = Some 1" "is_system demo_sys1 = Some False"
    by (simp_all add: demo_sys1_def cur_partid_def is_system_def cur_cfg_def cur_partition_def GetPartition_def demo_thread_def
        demo_vcpu_ids_def demo_guest_def KID2PARTID_def aget_def demo_cfg_def demo_part_def has_flag_def)
  then show ?thesis using management_needs_system [of demo_sys1 1 1 "\<lambda>_. 0" demo_env 0] by simp
qed

section \<open>Batches\<close>

text \<open>The calls that concern only the virtual interrupts of the caller or its name: masks, pending bits
  and routes (15 to 19), OverrideTrapHndlSys (25) and GetVCpuIdSys (32). They return to the batch, and
  they neither read nor write the memory of the guest.\<close>

definition quiet_calls :: "nat set" where
  "quiet_calls = {15, 16, 17, 18, 19, 25, 32}"

definition caller_ok :: "'a kstate_scheme \<Rightarrow> bool" where
  "caller_ok s \<longleftrightarrow> cur_pct s \<noteq> None \<and> cur_cfg s \<noteq> None"

definition same_guest :: "'a gstate_scheme \<Rightarrow> 'a gstate_scheme \<Rightarrow> bool" where
  "same_guest s u \<longleftrightarrow> gmem u = gmem s \<and> g_readable u = g_readable s \<and> g_writable u = g_writable s \<and>
     GetPartition (cKThread u) u = GetPartition (cKThread s) s"

lemma own_pct_ok:
  assumes "caller_ok s"
  shows "own_pct f s = Some (kt_upd (cKThread s) (pct_upd f) s)"
  using assms by (auto simp: own_pct_def caller_ok_def)

lemma pct_upd_caller:
  "cKThread (kt_upd k f s) = cKThread s" "partitionTab (kt_upd k f s) = partitionTab s" "cfg (kt_upd k f s) = cfg s"
  "GetPartition (cKThread s) (kt_upd (cKThread s) (pct_upd h) s) = GetPartition (cKThread s) s"
  "cur_cfg (kt_upd (cKThread s) (pct_upd h) s) = cur_cfg s"
  "caller_ok (kt_upd (cKThread s) (pct_upd h) s) = caller_ok s"
  "thread_ids (cKThread s) (kt_upd (cKThread s) (pct_upd h) s) = thread_ids (cKThread s) s"
proof -
  show c: "cKThread (kt_upd k f s) = cKThread s" "partitionTab (kt_upd k f s) = partitionTab s" "cfg (kt_upd k f s) = cfg s" for k f
    by (simp_all add: kt_upd_def)
  show g: "GetPartition (cKThread s) (kt_upd (cKThread s) (pct_upd h) s) = GetPartition (cKThread s) s"
    by (cases "k_g (kthreads s (cKThread s))") (simp_all add: GetPartition_def kt_upd_def pct_upd_def g_upd_def)
  show f: "cur_cfg (kt_upd (cKThread s) (pct_upd h) s) = cur_cfg s"
    by (simp add: cur_cfg_def cur_partition_def c g)
  show "caller_ok (kt_upd (cKThread s) (pct_upd h) s) = caller_ok s"
    by (cases "k_g (kthreads s (cKThread s))")
      (simp_all add: caller_ok_def f, simp_all add: cur_pct_def k_pct_def kt_upd_def pct_upd_def g_upd_def)
  show "thread_ids (cKThread s) (kt_upd (cKThread s) (pct_upd h) s) = thread_ids (cKThread s) s"
    by (cases "k_g (kthreads s (cKThread s))") (simp_all add: thread_ids_def kt_upd_def pct_upd_def g_upd_def)
qed

lemma state_upd_caller [simp]:
  "cur_cfg (s\<lparr>hw_pic := h\<rparr>) = cur_cfg s" "caller_ok (s\<lparr>hw_pic := h\<rparr>) = caller_ok s"
  "GetPartition k (s\<lparr>hw_pic := h\<rparr>) = GetPartition k s" "thread_ids k (s\<lparr>hw_pic := h\<rparr>) = thread_ids k s"
  "cur_cfg (t\<lparr>gmem := m\<rparr>) = cur_cfg t" "caller_ok (t\<lparr>gmem := m\<rparr>) = caller_ok t"
  "GetPartition k (t\<lparr>gmem := m\<rparr>) = GetPartition k t" "thread_ids k (t\<lparr>gmem := m\<rparr>) = thread_ids k t"
  "kt_upd k f (t\<lparr>gmem := m\<rparr>) = (kt_upd k f t)\<lparr>gmem := m\<rparr>"
  by (simp_all add: caller_ok_def cur_cfg_def cur_partition_def cur_pct_def GetPartition_def thread_ids_def kt_upd_def)

lemma caller_ids: "caller_ok s \<Longrightarrow> thread_ids (cKThread s) s \<noteq> None"
  by (auto simp: caller_ok_def cur_pct_def k_pct_def thread_ids_def bind_eq_Some_iff)

text \<open>A call of this kind returns, and the memory of the guest is carried through.\<close>

definition returns_quietly :: "('a ostate_scheme \<Rightarrow> 'a ostate_scheme call) \<Rightarrow> 'a ostate_scheme \<Rightarrow> bool" where
  "returns_quietly f s \<longleftrightarrow> (\<exists>r u. caller_ok u \<and> same_guest s u \<and> (\<forall>m. f (s\<lparr>gmem := m\<rparr>) = Some (Ret r (u\<lparr>gmem := m\<rparr>))))"

lemma quietI:
  assumes "caller_ok s"
    and "\<And>m. f (s\<lparr>gmem := m\<rparr>) = Some (Ret r ((kt_upd (cKThread s) (pct_upd g) s)\<lparr>hw_pic := h, gmem := m\<rparr>))"
  shows "returns_quietly f s"
  unfolding returns_quietly_def same_guest_def
proof (intro exI conjI allI)
  let ?u = "(kt_upd (cKThread s) (pct_upd g) s)\<lparr>hw_pic := h\<rparr>"
  show "caller_ok ?u" using assms(1) by (simp add: pct_upd_caller)
  show "GetPartition (cKThread ?u) ?u = GetPartition (cKThread s) s" by (simp add: pct_upd_caller)
  show "f (s\<lparr>gmem := m\<rparr>) = Some (Ret r (?u\<lparr>gmem := m\<rparr>))" for m using assms(2) by simp
qed (simp_all add: kt_upd_def)

lemma quiet_sameI:
  assumes "caller_ok s" "\<And>m. f (s\<lparr>gmem := m\<rparr>) = Some (Ret r (s\<lparr>gmem := m\<rparr>))"
  shows "returns_quietly f s"
  using assms unfolding returns_quietly_def same_guest_def by blast

lemma pct_upd_pct_upd: "pct_upd f (pct_upd g t) = pct_upd (\<lambda>p. f (g p)) t"
  by (cases "k_g t") (simp_all add: pct_upd_def g_upd_def option.map_comp comp_def)

lemma kt_upd_pic [simp]: "hw_pic (kt_upd k f s) = hw_pic s" "(kt_upd k f s)\<lparr>hw_pic := hw_pic s\<rparr> = kt_upd k f s"
  by (simp_all add: kt_upd_def)

lemma mask_calls_quiet:
  assumes "caller_ok s"
  shows "returns_quietly (\<lambda>s. ok (ClearIrqMaskSys x y s)) s" "returns_quietly (\<lambda>s. ok (SetIrqMaskSys x y s)) s"
    "returns_quietly (\<lambda>s. ok (ClearIrqsSys x y s)) s" "returns_quietly (\<lambda>s. ok (ForceIrqsSys x y s)) s"
proof -
  obtain c where c: "cur_cfg s = Some c" using assms by (auto simp: caller_ok_def)
  note o' = own_pct_ok pct_upd_caller c assms ok_def Let_def
  show "returns_quietly (\<lambda>s. ok (ClearIrqMaskSys x y s)) s"
    by (rule quietI [OF assms, where r = XM_OK and g = "\<lambda>p. p\<lparr>pct_hwIrqsMask := clr_flag (pct_hwIrqsMask p) x,
          pct_extIrqsMask := clr_flag (pct_extIrqsMask p) y\<rparr>" and h = "for_lines HwEnableIrq (x AND pc_hwIrqs c) (hw_pic s)"])
      (simp add: ClearIrqMaskSys_def o')
  show "returns_quietly (\<lambda>s. ok (SetIrqMaskSys x y s)) s"
    by (rule quietI [OF assms, where r = XM_OK and g = "\<lambda>p. p\<lparr>pct_hwIrqsMask := set_flag (pct_hwIrqsMask p) x,
          pct_extIrqsMask := set_flag (pct_extIrqsMask p) y\<rparr>" and h = "for_lines HwDisableIrq (x AND pc_hwIrqs c) (hw_pic s)"])
      (simp add: SetIrqMaskSys_def o')
  show "returns_quietly (\<lambda>s. ok (ClearIrqsSys x y s)) s"
    by (rule quietI [OF assms, where r = XM_OK and g = "\<lambda>p. p\<lparr>pct_hwIrqsPend := clr_flag (pct_hwIrqsPend p) x,
          pct_extIrqsPend := clr_flag (pct_extIrqsPend p) y\<rparr>" and h = "for_lines HwClearIrq (x AND pc_hwIrqs c) (hw_pic s)"])
      (simp add: ClearIrqsSys_def o')
  let ?n = "clr_flag x (x AND pc_hwIrqs c)"
  show "returns_quietly (\<lambda>s. ok (ForceIrqsSys x y s)) s"
    by (rule quietI [OF assms, where r = XM_OK and g = "\<lambda>p. (p\<lparr>pct_extIrqsPend := set_flag (pct_extIrqsPend p) y\<rparr>)\<lparr>pct_hwIrqsPend :=
          for_lines (\<lambda>e w. set_flag w (irq_bit e)) ?n (pct_hwIrqsPend (p\<lparr>pct_extIrqsPend := set_flag (pct_extIrqsPend p) y\<rparr>))\<rparr>"
        and h = "for_lines HwForceIrq (x AND pc_hwIrqs c) (hw_pic s)"])
      (simp add: ForceIrqsSys_def o', simp add: kt_upd_def pct_upd_pct_upd)
qed

lemma own_call_quiet:
  assumes "caller_ok s"
  shows "returns_quietly (\<lambda>s. ok (do { s \<leftarrow> own_pct f s; Some (r, s) })) s"
  by (rule quietI [OF assms, where r = r and g = f and h = "hw_pic s"]) (use assms in \<open>simp add: own_pct_ok ok_def\<close>)

lemma other_calls_quiet:
  assumes "caller_ok s"
  shows "returns_quietly (\<lambda>s. ok (RouteIrqSys t i w s)) s" "returns_quietly (\<lambda>s. ok (OverrideTrapHndlSys e h s)) s"
    "returns_quietly (\<lambda>s. ok (GetVCpuIdSys s)) s"
proof -
  have bad: "returns_quietly (\<lambda>s. ok (Some (XM_INVALID_PARAM, s))) s" by (rule quiet_sameI [OF assms]) (simp add: ok_def)
  show "returns_quietly (\<lambda>s. ok (RouteIrqSys t i w s)) s"
    unfolding RouteIrqSys_def Let_def
    by (cases "i \<ge> 32"; cases "t = 0"; cases "t = 1"; cases "t = 2") (simp_all add: own_call_quiet [OF assms] bad)
  show "returns_quietly (\<lambda>s. ok (OverrideTrapHndlSys e h s)) s"
    by (rule quiet_sameI [OF assms]) (simp add: ok_def OverrideTrapHndlSys_def)
  obtain p c where "thread_ids (cKThread s) s = Some (p, c)" using caller_ids [OF assms] by auto
  then show "returns_quietly (\<lambda>s. ok (GetVCpuIdSys s)) s"
    by (intro quiet_sameI [OF assms, where r = "sint c"]) (simp add: ok_def GetVCpuIdSys_def)
qed

lemma quiet_call:
  assumes "nr \<in> quiet_calls" "caller_ok s"
  shows "returns_quietly (hypercall v (Suc d) nr a) s"
proof -
  have e: "hypercall v (Suc d) 15 a = (\<lambda>s. ok (ClearIrqMaskSys (a 0) (a 1) s))"
    "hypercall v (Suc d) 16 a = (\<lambda>s. ok (SetIrqMaskSys (a 0) (a 1) s))"
    "hypercall v (Suc d) 17 a = (\<lambda>s. ok (ForceIrqsSys (a 0) (a 1) s))"
    "hypercall v (Suc d) 18 a = (\<lambda>s. ok (ClearIrqsSys (a 0) (a 1) s))"
    "hypercall v (Suc d) 19 a = (\<lambda>s. ok (RouteIrqSys (a 0) (a 1) (a 2) s))"
    "hypercall v (Suc d) 25 a = (\<lambda>s. ok (OverrideTrapHndlSys (sint (a 0)) (a 1) s))"
    "hypercall v (Suc d) 32 a = (\<lambda>s. ok (GetVCpuIdSys s))"
    by (rule ext, simp add: hypercallsTab_def aget_def)+
  then show ?thesis
    using assms(1) mask_calls_quiet [OF assms(2)] other_calls_quiet [OF assms(2)] unfolding quiet_calls_def by (auto simp only: insert_iff empty_iff e)
qed


text \<open>The calls of a batch made one after another, with their results.\<close>

fun run_calls :: "(nat \<Rightarrow> (nat \<Rightarrow> u32) \<Rightarrow> 's \<Rightarrow> 's call) \<Rightarrow> (nat \<times> u32 list) list \<Rightarrow> 's \<Rightarrow> (s32 list \<times> 's) option" where
  "run_calls call [] s = Some ([], s)"
| "run_calls call ((nr, as) # es) s = (case call nr (list_arg as) s of
     Some (Ret r u) \<Rightarrow> map_option (apfst (Cons r)) (run_calls call es u)
   | _ \<Rightarrow> None)"

lemma run_quiet_calls:
  assumes "\<forall>(nr, as) \<in> set es. nr \<in> quiet_calls" "caller_ok s"
  shows "\<exists>rs u. length rs = length es \<and> caller_ok u \<and> same_guest s u \<and>
    (\<forall>m. run_calls (hypercall v (Suc d)) es (s\<lparr>gmem := m\<rparr>) = Some (rs, u\<lparr>gmem := m\<rparr>))"
  using assms
proof (induction es arbitrary: s)
  case Nil
  then show ?case by (auto simp: same_guest_def)
next
  case (Cons e es)
  obtain nr as where e: "e = (nr, as)" by (cases e)
  obtain r u where u: "caller_ok u" "same_guest s u"
    "\<And>m. hypercall v (Suc d) nr (list_arg as) (s\<lparr>gmem := m\<rparr>) = Some (Ret r (u\<lparr>gmem := m\<rparr>))"
    using quiet_call [of nr s v d "list_arg as"] Cons.prems unfolding returns_quietly_def by (auto simp: e)
  obtain rs w where w: "length rs = length es" "caller_ok w" "same_guest u w"
    "\<And>m. run_calls (hypercall v (Suc d)) es (u\<lparr>gmem := m\<rparr>) = Some (rs, w\<lparr>gmem := m\<rparr>)"
    using Cons.IH [OF _ u(1)] Cons.prems(1) by (metis list.set_intros(2))
  have "run_calls (hypercall v (Suc d)) (e # es) (s\<lparr>gmem := m\<rparr>) = Some (r # rs, w\<lparr>gmem := m\<rparr>)" for m
    by (simp add: e u(3) w(4) del: hypercall.simps)
  then show ?case using w(1,2,3) u(2) by (intro exI [of _ "r # rs"] exI [of _ w]) (auto simp: same_guest_def simp del: hypercall.simps)
qed






















text \<open>A batch at \<open>A\<close> of one entry: the batch call itself, with no arguments announced, on the same sixteen bytes.\<close>

definition nested_batch :: "u32 \<Rightarrow> 'a gstate_scheme \<Rightarrow> bool" where
  "nested_batch A s \<longleftrightarrow> gread_u32 A s = Some 0 \<and> gread_u32 (A + 4) s = Some 0 \<and>
     gread_u32 (A + 8) s = Some A \<and> gread_u32 (A + 12) s = Some (A + 16) \<and>
     writable_at A 28 s \<and> CheckGParam A 16 4 PFLAG_RW s = Some 0"

lemma nested_batch_write:
  assumes "nested_batch A s"
  shows "\<exists>u. gwrite_u32 (A + 4) 0 s = Some u \<and> nested_batch A u"
proof -
  have w: "writable_at A 28 s" using assms by (simp add: nested_batch_def)
  then have A: "unat A + 28 < 0xFC000000" by (auto simp: writable_at_def offset_unat)
  then have n: "unat (A + 4) = unat A + 4" "unat (A + 8) = unat A + 8" "unat (A + 12) = unat A + 12"
    using u32_up [of A 4] u32_up [of A 8] u32_up [of A 12] by simp_all
  have "writable_at (A + 4) 4 s"
    by (rule writable_sub [OF w]) (simp_all add: n)
  then obtain u where u: "gwrite_u32 (A + 4) 0 s = Some u" using gwrite_gread_u32 by blast
  have b: "unat (A + 4) + 4 < 2 ^ 32" using n A by simp
  note r = gwrite_u32_read [OF u b]
  obtain m where m: "u = s\<lparr>gmem := m\<rparr>" using r(3) by blast
  have "gread_u32 A u = Some 0" "gread_u32 (A + 8) u = Some A" "gread_u32 (A + 12) u = Some (A + 16)"
    using r(2) [of A] r(2) [of "A + 8"] r(2) [of "A + 12"] n A assms by (simp_all add: nested_batch_def)
  moreover have "writable_at A 28 u" "CheckGParam A 16 4 PFLAG_RW u = Some 0"
    using assms by (simp_all add: m nested_batch_def writable_at_def CheckGParam_def AsmRWCheck_def AsmROnlyCheck_def cong: if_cong)
  ultimately show ?thesis using u r(1) by (auto simp: nested_batch_def)
qed

text \<open>C15: a batch that contains itself never returns. For a guest that stores such a batch in its
  memory there is no depth of nesting at which MulticallSys comes back: every entry enters the batch
  again, and with it another frame on the kernel's stack.\<close>

theorem nested_batch_never_returns:
  assumes "nested_batch A s" "a 0 = A" "a 1 = A + 16"
  shows "hypercall v d 0 a s = None"
  using assms
proof (induction d arbitrary: s a)
  case (Suc d)
  have A: "unat A + 28 < 0xFC000000" using Suc.prems(1) by (auto simp: nested_batch_def writable_at_def offset_unat)
  then have n: "unat (A + 8) = unat A + 8" "unat (A + 12) = unat A + 12" "unat (A + 16) = unat A + 16"
    using u32_up [of A 8] u32_up [of A 12] u32_up [of A 16] by simp_all
  obtain u where u: "gwrite_u32 (A + 4) 0 s = Some u" "nested_batch A u" using nested_batch_write [OF Suc.prems(1)] by blast
  have entry: "batch_entry (hypercall v d) A s = None"
  proof (cases "read_args (A + 8) 5 u")
    case None
    then show ?thesis using Suc.prems(1) u(1) by (simp add: batch_entry_def nested_batch_def hyp_no_args_def NR_HYPERCALLS_def)
  next
    case (Some ws)
    then have "list_arg ws 0 = A" "list_arg ws 1 = A + 16"
      using u(2) by (auto simp: numeral_eq_Suc nested_batch_def list_arg_def bind_eq_Some_iff algebra_simps)
    then have "hypercall v d 0 (list_arg ws) u = None" by (rule Suc.IH [OF u(2)])
    then show ?thesis using Suc.prems(1) u(1) Some by (simp add: batch_entry_def nested_batch_def hyp_no_args_def NR_HYPERCALLS_def)
  qed
  have "batch (hypercall v d) (unat A) (unat (A + 16)) s = None"
    using entry n(3) by (simp add: batch.simps [of _ "unat A"])
  moreover have "\<not> A + 16 < A" using n(3) by (simp add: word_less_nat_alt)
  ultimately have "MulticallSys (hypercall v d) A (A + 16) s = None"
    using Suc.prems(1) by (simp add: MulticallSys_def nested_batch_def)
  then show ?case using Suc.prems(2,3) by (simp add: hypercallsTab_def aget_def)
qed simp

lemma demo_nested: "nested_batch 0x5000 demo_sys"
proof -
  have "gread_u32 0x5000 demo_sys = Some 0" "gread_u32 0x5004 demo_sys = Some 0" "gread_u32 0x5008 demo_sys = Some 0x5000"
    "gread_u32 0x500c demo_sys = Some 0x5010" "CheckGParam 0x5000 16 4 PFLAG_RW demo_sys = Some 0"
    by code_simp+
  moreover have "writable_at 0x5000 28 demo_sys"
    using demo_low_mem [of demo_sys 0] demo_part_10(1) by (simp add: low_mem_def)
  ultimately show ?thesis by (simp add: nested_batch_def)
qed

theorem nested_batch_never_returns_witness:
  "hypercall demo_env 1000 0 (\<lambda>i. if i = 0 then 0x5000 else 0x5010) demo_sys = None"
  using nested_batch_never_returns [OF demo_nested, of "\<lambda>i. if i = 0 then 0x5000 else 0x5010" demo_env 1000] by simp

end
