(* ===== verification/ConfCheck.thy ===== *)
theory ConfCheck
  imports MmuInv HealthMon
begin

text \<open>
  The configuration compiler, user/tools/xmcparser: the handlers of process_xml.c that build the
  tables the hypervisor is linked with, the checks of checks.c and the sorting and linking of xmc.c.
  An element of the XML file comes as the values of its attributes; reading them (libxml, sscanf) is
  not modelled. LineError and EPrintF stop the tool: Inl with the message. OutsideTable is an access
  outside a table, after which anything may happen. There is one processor, as in the configuration
  of the hypervisor. rsvPhysPages and rsvHwIrqs, the resources reserved for the hypervisor, come from
  a header that is not in the repository and are parameters.
\<close>

datatype conf_error = OutsideTable | RegionUnsorted | AreaUnsorted | RegionUnaligned | RegionSize | RegionOverlap
  | AreaUnaligned | AreaSize | AreaReserved | AreaNotCovered | AreaOverlap | VirtualOverlap | IrqReserved | IrqLine
  | IrqAssigned | PortDuplicated | FlagNotPermitted | SlotOverlap | SlotPastFrame | BadPartitionId | BadVCpuId
  | VCpuOnTwoCpus | PartitionDuplicated | TooManyKThreads | NoSourcePartition | NoDestPartition | NameMismatch
  | PortNotFound | ChannelType | PortDirection | NoMaintenancePlan | NotConsecutive | TooManyVCpus | BadPriority
  | AlreadyAllocated | DuplicatedDestination | BadIpviId | BadFlag | BadPortType | BadPortDirection | BadRegionType | BadBoolean

type_synonym 'a parsed = "conf_error + 'a"

definition sbind :: "'a parsed \<Rightarrow> ('a \<Rightarrow> 'b parsed) \<Rightarrow> 'b parsed" where
  "sbind m f = (case m of Inl e \<Rightarrow> Inl e | Inr x \<Rightarrow> f x)"

definition refuse :: "bool \<Rightarrow> conf_error \<Rightarrow> unit parsed" where
  "refuse b e = (if b then Inl e else Inr ())"

definition sget :: "'a list \<Rightarrow> nat \<Rightarrow> 'a parsed" where
  "sget xs i = (case aget xs i of None \<Rightarrow> Inl OutsideTable | Some x \<Rightarrow> Inr x)"

fun sfold :: "('a \<Rightarrow> 's \<Rightarrow> 's parsed) \<Rightarrow> 'a list \<Rightarrow> 's \<Rightarrow> 's parsed" where
  "sfold f [] s = Inr s"
| "sfold f (x # xs) s = sbind (f x s) (sfold f xs)"

definition sfor :: "('a \<Rightarrow> unit parsed) \<Rightarrow> 'a list \<Rightarrow> unit parsed" where
  "sfor f xs = sfold (\<lambda>x _. f x) xs ()"

lemma sbind_simps [simp]: "sbind (Inr x) f = f x" "sbind (Inl e) f = Inl e"
  by (simp_all add: sbind_def)

lemma sbind_eq_Inr: "sbind m f = Inr y \<longleftrightarrow> (\<exists>x. m = Inr x \<and> f x = Inr y)"
  by (cases m) auto

lemma refuse_eq_Inr [simp]: "refuse b e = Inr u \<longleftrightarrow> \<not> b"
  by (simp add: refuse_def)

lemma sget_eq_Inr: "sget xs i = Inr x \<longleftrightarrow> i < length xs \<and> xs ! i = x"
  by (auto simp: sget_def aget_def)

lemma sfold_append: "sfold f (xs @ ys) s = sbind (sfold f xs s) (sfold f ys)"
  by (induction xs arbitrary: s) (auto simp: sbind_def split: sum.splits)

lemma sfold_inv:
  assumes "sfold f xs s = Inr s'" "P s" "\<And>x s s'. \<lbrakk>x \<in> set xs; f x s = Inr s'; P s\<rbrakk> \<Longrightarrow> P s'"
  shows "P s'"
  using assms
proof (induction xs arbitrary: s)
  case (Cons x xs)
  then obtain t where "f x s = Inr t" "sfold f xs t = Inr s'" by (auto simp: sbind_eq_Inr)
  then show ?case using Cons.IH [of t] Cons.prems(2,3) by auto
qed auto

lemma sfor_eq_Inr: "sfor f xs = Inr u \<longleftrightarrow> (\<forall>x \<in> set xs. f x = Inr ())"
  unfolding sfor_def by (induction xs) (auto simp: sbind_eq_Inr)

lemma u32_sum: "unat a + unat b < 2 ^ 32 \<Longrightarrow> unat (a + b :: u32) = unat a + unat b"
  using unat_add_lem [where 'a = 32, of a b] by simp

section \<open>The tables\<close>

text \<open>
  \<open>cx\<close> holds the tables that are linked with the hypervisor. An endpoint of a channel (struct ipcPort)
  and a source of inter-partition interrupts (struct srcIpvi) exist only in the compiler.
\<close>

record ipcPort =
  ip_channel :: nat
  ip_partitionName :: "u8 list option"
  ip_portName :: "u8 list"
  ip_partitionId :: u32
  ip_direction :: s32

record srcIpvi =
  si_ipviId :: nat
  si_id :: int
  si_dst :: "int list"

record conf =
  cx :: xmc
  cx_hpvAreasOffset :: u32
  cx_hpvNoAreas :: s32
  cx_ipcPortTab :: "ipcPort list"
  cx_srcIpviTab :: "srcIpvi list"

definition cx_upd :: "(xmc \<Rightarrow> xmc) \<Rightarrow> conf \<Rightarrow> conf" where
  "cx_upd f c = c\<lparr>cx := f (cx c)\<rparr>"

lemma cx_upd_simps [simp]:
  "cx (cx_upd f c) = f (cx c)" "cx_hpvAreasOffset (cx_upd f c) = cx_hpvAreasOffset c"
  "cx_hpvNoAreas (cx_upd f c) = cx_hpvNoAreas c" "cx_ipcPortTab (cx_upd f c) = cx_ipcPortTab c"
  "cx_srcIpviTab (cx_upd f c) = cx_srcIpviTab c"
  by (simp_all add: cx_upd_def)

definition no_parts :: "xmc \<Rightarrow> nat" where
  "no_parts x = length (xmcPartitionTab x)"

text \<open>The string at an offset of strTab, and \<open>AddString\<close>.\<close>

definition str_at :: "u32 \<Rightarrow> xmc \<Rightarrow> u8 list" where
  "str_at off x = takeWhile (\<lambda>b. b \<noteq> 0) (drop (unat off) (xmcStringTab x))"

definition AddString :: "u8 list \<Rightarrow> xmc \<Rightarrow> u32 \<times> xmc" where
  "AddString str x = (word_of_nat (length (xmcStringTab x)), x\<lparr>xmcStringTab := xmcStringTab x @ str @ [0]\<rparr>)"

text \<open>The last byte of a span, and the test that lets two spans pass as disjoint.\<close>

definition span_end :: "u32 \<Rightarrow> u32 \<Rightarrow> u32" where
  "span_end a n = a + n - 1"

definition apart :: "u32 \<Rightarrow> u32 \<Rightarrow> u32 \<Rightarrow> u32 \<Rightarrow> bool" where
  "apart s0 n0 s1 n1 \<longleftrightarrow> s0 \<ge> span_end s1 n1 \<or> s1 \<ge> span_end s0 n0"

definition XM_MEM_AREA_SHARED :: u32 where "XM_MEM_AREA_SHARED = 1"
definition XM_MEM_AREA_TAGGED :: u32 where "XM_MEM_AREA_TAGGED = 0x200"
definition CONFIG_MAX_NO_KTHREADS :: int where "CONFIG_MAX_NO_KTHREADS = 255"
definition CONFIG_MAX_NO_VCPUS :: u32 where "CONFIG_MAX_NO_VCPUS = 1"
definition CONFIG_XM_MAX_IPVI :: nat where "CONFIG_XM_MAX_IPVI = 8"

section \<open>Checks of the memory\<close>

text \<open>The order of the table, after it has been sorted.\<close>

definition CheckAllMemReg :: "xmcMemoryRegion list \<Rightarrow> unit parsed" where
  "CheckAllMemReg rs = sbind (sget rs 0) (\<lambda>r0. sbind (sfold (\<lambda>r a.
     if a \<ge> mr_startAddr r then Inl RegionUnsorted else Inr (mr_startAddr r)) (tl rs) (mr_startAddr r0)) (\<lambda>_. Inr ()))"

text \<open>Without areas the value read from behind the table is not used.\<close>

definition CheckAllMemAreas :: "xmcMemoryArea list \<Rightarrow> unit parsed" where
  "CheckAllMemAreas ms = (case ms of [] \<Rightarrow> Inr () | m0 # ms \<Rightarrow> sbind (sfold (\<lambda>m a.
     if a \<ge> ma_startAddr m then Inl AreaUnsorted else Inr (ma_startAddr m)) ms (ma_startAddr m0)) (\<lambda>_. Inr ()))"

definition CheckMemoryRegion :: "xmcMemoryRegion \<Rightarrow> xmcMemoryRegion list \<Rightarrow> unit parsed" where
  "CheckMemoryRegion r rs =
     sbind (refuse (mr_startAddr r AND (PAGE_BYTES - 1) \<noteq> 0) RegionUnaligned) (\<lambda>_.
     sbind (refuse (mr_size r AND (PAGE_BYTES - 1) \<noteq> 0) RegionSize) (\<lambda>_.
     sfor (\<lambda>r'. refuse (\<not> apart (mr_startAddr r) (mr_size r) (mr_startAddr r') (mr_size r')) RegionOverlap) rs))"

text \<open>The index of the last region that covers an area.\<close>

definition covers :: "xmcMemoryRegion \<Rightarrow> xmcMemoryArea \<Rightarrow> bool" where
  "covers r m \<longleftrightarrow> ma_startAddr m \<ge> mr_startAddr r \<and>
     span_end (ma_startAddr m) (ma_size m) \<le> span_end (mr_startAddr r) (mr_size r)"

definition find_region :: "xmcMemoryArea \<Rightarrow> xmcMemoryRegion list \<Rightarrow> int" where
  "find_region m rs = fold (\<lambda>(e, r) found. if covers r m then int e else found) (enumerate 0 rs) (- 1)"

definition both_shared :: "xmcMemoryArea \<Rightarrow> xmcMemoryArea \<Rightarrow> bool" where
  "both_shared m m' \<longleftrightarrow> ma_flags m AND ma_flags m' AND XM_MEM_AREA_SHARED = XM_MEM_AREA_SHARED"

definition area_apart :: "xmcMemoryArea \<Rightarrow> xmcMemoryArea \<Rightarrow> bool" where
  "area_apart m m' \<longleftrightarrow> apart (ma_startAddr m) (ma_size m) (ma_startAddr m') (ma_size m')"

text \<open>The new area \<open>m\<close> against the pages of the hypervisor, the regions and the areas before it.\<close>

definition CheckPhysMemArea :: "(u32 \<times> u32) list \<Rightarrow> xmcMemoryArea \<Rightarrow> xmc \<Rightarrow> int parsed" where
  "CheckPhysMemArea rsv m x =
     sbind (refuse (ma_startAddr m AND (PAGE_BYTES - 1) \<noteq> 0) AreaUnaligned) (\<lambda>_.
     sbind (refuse (ma_size m AND (PAGE_BYTES - 1) \<noteq> 0) AreaSize) (\<lambda>_.
     sbind (sfor (\<lambda>(a, n). refuse (\<not> (span_end a (n * PAGE_BYTES) < ma_startAddr m \<or>
              a \<ge> span_end (ma_startAddr m) (ma_size m))) AreaReserved) rsv) (\<lambda>_.
     sbind (refuse (find_region m (xmcMemRegTab x) < 0) AreaNotCovered) (\<lambda>_.
     sbind (sfor (\<lambda>m'. refuse (\<not> area_apart m m' \<and> \<not> both_shared m' m) AreaOverlap) (xmcPhysMemAreaTab x)) (\<lambda>_.
     Inr (find_region m (xmcMemRegTab x)))))))"

definition CheckMemAreaPerPart :: "xmcPartition \<Rightarrow> xmc \<Rightarrow> unit parsed" where
  "CheckMemAreaPerPart p x =
     (let n = nat (pc_noPhysicalMemoryAreas p); area = (\<lambda>i. sget (xmcPhysMemAreaTab x) (i + unat (pc_physicalMemoryAreasOffset p)))
      in sfor (\<lambda>i. sbind (area i) (\<lambda>m. sfor (\<lambda>j. sbind (area j) (\<lambda>m'.
           refuse (\<not> apart (ma_mappedAt m) (ma_size m) (ma_mappedAt m') (ma_size m')) VirtualOverlap)) [i + 1..<n])) [0..<n - 1])"

definition CheckHpvMemAreaFlags :: "conf \<Rightarrow> unit parsed" where
  "CheckHpvMemAreaFlags c =
     sfor (\<lambda>e. sbind (sget (xmcPhysMemAreaTab (cx c)) (e + unat (cx_hpvAreasOffset c))) (\<lambda>m.
       refuse (has_flag (ma_flags m) XM_MEM_AREA_SHARED \<or> has_flag (ma_flags m) XM_MEM_AREA_READONLY \<or>
         has_flag (ma_flags m) XM_MEM_AREA_UNMAPPED) FlagNotPermitted)) [0..<nat (cx_hpvNoAreas c)]"

section \<open>Checks of the schedule\<close>

definition CheckSchedCyclicPlan :: "xmcSchedCyclicPlan \<Rightarrow> xmcSchedCyclicSlot list \<Rightarrow> unit parsed" where
  "CheckSchedCyclicPlan plan slots =
     sbind (sfold (\<lambda>e t. sbind (sget slots (unat (plan_slotsOffset plan + word_of_nat e))) (\<lambda>sl.
       if t > slot_sExec sl then Inl SlotOverlap
       else if slot_eExec sl > plan_majorFrame plan then Inl SlotPastFrame
       else Inr (slot_eExec sl))) [0..<nat (plan_noSlots plan)] 0) (\<lambda>_. Inr ())"

definition each_slot :: "(xmcSchedCyclicSlot \<Rightarrow> unit parsed) \<Rightarrow> xmc \<Rightarrow> unit parsed" where
  "each_slot f x = sfor (\<lambda>plan. sfor (\<lambda>k. sbind (sget (xmcSchedCyclicSlotTab x) (unat (word_of_nat k + plan_slotsOffset plan))) f)
     [0..<nat (plan_noSlots plan)]) (xmcSchedCyclicPlanTab x)"

definition CheckCyclicPlanPartitionId :: "xmc \<Rightarrow> unit parsed" where
  "CheckCyclicPlanPartitionId x = each_slot (\<lambda>sl. refuse (unat (slot_partitionId sl) \<ge> no_parts x) BadPartitionId) x"

definition CheckCyclicPlanVCpuId :: "xmc \<Rightarrow> unit parsed" where
  "CheckCyclicPlanVCpuId x = each_slot (\<lambda>sl. sbind (sget (xmcPartitionTab x) (unat (slot_partitionId sl))) (\<lambda>p.
     refuse (slot_vCpuId sl \<ge> pc_noVCpus p) BadVCpuId)) x"

definition CheckFPVCpuId :: "xmc \<Rightarrow> unit parsed" where
  "CheckFPVCpuId x = sfor (\<lambda>f. sbind (sget (xmcPartitionTab x) (unat (fps_partitionId f))) (\<lambda>p.
     refuse (fps_vCpuId f \<ge> pc_noVCpus p) BadVCpuId)) (xmcFpSchedTab x)"

text \<open>\<open>vCpuTab\<close> by partition and virtual processor, - 1 at first; with one processor the other value is 0.\<close>

definition on_cpu :: "u32 \<Rightarrow> u32 \<Rightarrow> xmc \<Rightarrow> unit parsed" where
  "on_cpu p v x = sbind (sget (xmcPartitionTab x) (unat p)) (\<lambda>pc. refuse (v \<ge> pc_noVCpus pc) OutsideTable)"

definition CheckPartNotAllocToMoreThanACpu :: "xmc \<Rightarrow> unit parsed" where
  "CheckPartNotAllocToMoreThanACpu x =
     sbind (if cpu_schedPolicy (xmcCpuCfg x) = CYCLIC_SCHED then
        sfold (\<lambda>i tab. sbind (sget (xmcSchedCyclicPlanTab x) (i + unat (cpu_schedCyclicPlansOffset (xmcCpuCfg x)))) (\<lambda>plan.
          sfold (\<lambda>j tab. sbind (sget (xmcSchedCyclicSlotTab x) (unat (word_of_nat j + plan_slotsOffset plan))) (\<lambda>sl.
            sbind (on_cpu (slot_partitionId sl) (slot_vCpuId sl) x) (\<lambda>_.
            let k = (slot_partitionId sl, slot_vCpuId sl)
            in if tab k = - 1 then Inr (tab(k := 0)) else if tab k \<noteq> 0 then Inl VCpuOnTwoCpus else Inr tab)))
            [0..<nat (plan_noSlots plan)] tab))
          [0..<nat (cpu_noSchedCyclicPlans (xmcCpuCfg x))] (\<lambda>_. - 1 :: int)
      else Inr (\<lambda>_. - 1)) (\<lambda>tab.
     sbind (sfold (\<lambda>f tab. sbind (on_cpu (fps_partitionId f) (fps_vCpuId f) x) (\<lambda>_.
        let k = (fps_partitionId f, fps_vCpuId f) in if tab k = - 1 then Inr (tab(k := 0)) else Inl VCpuOnTwoCpus))
       (xmcFpSchedTab x) tab) (\<lambda>_. Inr ()))"

section \<open>Checks of names and numbers\<close>

definition CheckHwIrq :: "int list \<Rightarrow> int \<Rightarrow> unit parsed" where
  "CheckHwIrq rsv line = sfor (\<lambda>r. refuse (line = r) IrqReserved) rsv"

text \<open>The new port against the ports of its partition before it.\<close>

definition CheckPortName :: "xmcCommPort \<Rightarrow> xmcPartition \<Rightarrow> xmc \<Rightarrow> unit parsed" where
  "CheckPortName port p x = sfor (\<lambda>e. sbind (sget (xmcCommPorts x) (e + unat (pc_commPortsOffset p))) (\<lambda>q.
     refuse (str_at (cp_nameOffset q) x = str_at (cp_nameOffset port) x) PortDuplicated)) [0..<nat (pc_noPorts p) - 1]"

text \<open>The partition being read is in the table already, with the offset 0: its name is compared with
  the first string of the table.\<close>

definition CheckPartitionName :: "u8 list \<Rightarrow> xmc \<Rightarrow> unit parsed" where
  "CheckPartitionName name x = sfor (\<lambda>p. refuse (str_at (pc_nameOffset p) x = name) PartitionDuplicated) (xmcPartitionTab x)"

definition CheckMaxNoKThreads :: "xmc \<Rightarrow> unit parsed" where
  "CheckMaxNoKThreads x = refuse (sint (word_of_nat (no_parts x) + (\<Sum>p\<leftarrow>xmcPartitionTab x. pc_noVCpus p)) > CONFIG_MAX_NO_KTHREADS) TooManyKThreads"

definition CheckIpviTab :: "conf \<Rightarrow> unit parsed" where
  "CheckIpviTab c = sfor (\<lambda>src.
     sbind (refuse (si_id src < 0 \<or> si_id src \<ge> int (no_parts (cx c))) NoSourcePartition) (\<lambda>_.
     sfor (\<lambda>d. refuse (d < 0 \<or> d \<ge> int (no_parts (cx c))) NoDestPartition) (si_dst src))) (cx_srcIpviTab c)"

definition HmCheckExistMaintenancePlan :: "xmc \<Rightarrow> unit parsed" where
  "HmCheckExistMaintenancePlan x =
     (let uses = list_ex (\<lambda>h. hms_action h = XM_HM_AC_SWITCH_TO_MAINTENANCE)
      in refuse ((uses (xmcHpvHmTab x) \<or> list_ex (\<lambda>p. uses (pc_hmTab p)) (xmcPartitionTab x)) \<and>
           cpu_noSchedCyclicPlans (xmcCpuCfg x) < 2) NoMaintenancePlan)"

end
