(* ===== verification/ConfBuild.thy ===== *)
theory ConfBuild
  imports ConfCheck
begin

text \<open>
  The handlers of the configuration compiler that fill the tables, user/tools/xmcparser/process_xml.c,
  and what xmc.c does with them at the end: link the channels to the ports, spread the interrupts and
  sort. An element is a record of its attributes and of the elements in it. qsort is the stable
  \<open>sort_key\<close>; what it does with equal keys is not specified, and equal keys are refused except for
  the priorities.
\<close>

section \<open>Regions and areas\<close>

record region_xml =
  rx_flags :: u32
  rx_start :: u32
  rx_size :: u32

definition Region_node :: "region_xml \<Rightarrow> xmc \<Rightarrow> xmc parsed" where
  "Region_node rx x =
     (let r = \<lparr>mr_startAddr = rx_start rx, mr_size = rx_size rx, mr_flags = rx_flags rx\<rparr>
      in sbind (CheckMemoryRegion r (xmcMemRegTab x)) (\<lambda>_. Inr (x\<lparr>xmcMemRegTab := xmcMemRegTab x @ [r]\<rparr>)))"

record area_xml =
  ax_name :: "u8 list option"
  ax_start :: u32
  ax_size :: u32
  ax_flags :: u32
  ax_mappedAt :: "u32 option"

text \<open>The attributes of an area: a name marks it, and it is mapped at its own address by default.\<close>

definition area_of :: "area_xml \<Rightarrow> u32 \<Rightarrow> xmcMemoryArea" where
  "area_of ax off = \<lparr>ma_nameOffset = (if ax_name ax = None then 0 else off), ma_startAddr = ax_start ax,
     ma_mappedAt = (case ax_mappedAt ax of None \<Rightarrow> ax_start ax | Some v \<Rightarrow> v), ma_size = ax_size ax,
     ma_flags = (if ax_name ax = None then ax_flags ax else XM_MEM_AREA_TAGGED OR ax_flags ax), ma_memoryRegionOffset = 0\<rparr>"

definition hpv_area :: "u32 \<Rightarrow> u32 \<Rightarrow> xmcMemoryArea" where
  "hpv_area sz flags = \<lparr>ma_nameOffset = 0, ma_startAddr = XM_LOAD_ADDR, ma_mappedAt = XM_OFFSET, ma_size = sz,
     ma_flags = flags, ma_memoryRegionOffset = 0\<rparr>"

definition Area_NH1 :: "(u32 \<times> u32) list \<Rightarrow> xmcMemoryArea \<Rightarrow> xmc \<Rightarrow> xmc parsed" where
  "Area_NH1 rsv m x = sbind (CheckPhysMemArea rsv m x) (\<lambda>r.
     Inr (x\<lparr>xmcPhysMemAreaTab := xmcPhysMemAreaTab x @ [m\<lparr>ma_memoryRegionOffset := word_of_int r\<rparr>]\<rparr>))"

definition name_string :: "u8 list option \<Rightarrow> xmc \<Rightarrow> u32 \<times> xmc" where
  "name_string n x = (case n of None \<Rightarrow> (0, x) | Some str \<Rightarrow> AddString str x)"

text \<open>An area of the resident software or of a memory block counts for no partition.\<close>

definition Area_node :: "(u32 \<times> u32) list \<Rightarrow> area_xml \<Rightarrow> xmc \<Rightarrow> xmc parsed" where
  "Area_node rsv ax x = (case name_string (ax_name ax) x of (off, x) \<Rightarrow> Area_NH1 rsv (area_of ax off) x)"

definition MemoryBlock_node :: "(u32 \<times> u32) list \<Rightarrow> u32 \<Rightarrow> u32 \<Rightarrow> xmc \<Rightarrow> xmc parsed" where
  "MemoryBlock_node rsv start sz x = Area_NH1 rsv \<lparr>ma_nameOffset = 0, ma_startAddr = start, ma_mappedAt = 0, ma_size = sz,
     ma_flags = XM_MEM_AREA_SHARED, ma_memoryRegionOffset = 0\<rparr> x"

definition upd_last :: "('a \<Rightarrow> 'a) \<Rightarrow> 'a list \<Rightarrow> 'a list" where
  "upd_last f xs = (if xs = [] then [] else butlast xs @ [f (last xs)])"

definition cur_part_upd :: "(xmcPartition \<Rightarrow> xmcPartition) \<Rightarrow> xmc \<Rightarrow> xmc" where
  "cur_part_upd f x = x\<lparr>xmcPartitionTab := upd_last f (xmcPartitionTab x)\<rparr>"

definition PartArea_node :: "(u32 \<times> u32) list \<Rightarrow> area_xml \<Rightarrow> xmc \<Rightarrow> xmc parsed" where
  "PartArea_node rsv ax x =
     Area_node rsv ax (cur_part_upd (\<lambda>p. p\<lparr>pc_noPhysicalMemoryAreas := pc_noPhysicalMemoryAreas p + 1\<rparr>) x)"

definition XmHypervisor_node :: "(u32 \<times> u32) list \<Rightarrow> xmcHmSlot list \<Rightarrow> (u32 \<times> u32) list \<Rightarrow> conf \<Rightarrow> conf parsed" where
  "XmHypervisor_node rsv hm areas c =
     (let c = (cx_upd (\<lambda>x. x\<lparr>xmcHpvHmTab := hm\<rparr>) c)\<lparr>cx_hpvAreasOffset := word_of_nat (length (xmcPhysMemAreaTab (cx c))),
                cx_hpvNoAreas := int (length areas)\<rparr>
      in sbind (sfold (\<lambda>(sz, flags). Area_NH1 rsv (hpv_area sz flags)) areas (cx c)) (\<lambda>x.
         let c = c\<lparr>cx := x\<rparr> in sbind (CheckHpvMemAreaFlags c) (\<lambda>_. Inr c)))"

section \<open>The schedule\<close>

record slot_xml =
  sx_id :: int
  sx_vCpuId :: u32
  sx_start :: u32
  sx_duration :: u32
  sx_partitionId :: u32

record plan_xml =
  px_name :: "u8 list option"
  px_id :: int
  px_majorFrame :: u32
  px_slots :: "slot_xml list"

text \<open>\<open>Slot_NH1\<close> adds the start to the duration the attribute handler left in eExec.\<close>

definition slot_of :: "slot_xml \<Rightarrow> xmcSchedCyclicSlot" where
  "slot_of sx = \<lparr>slot_id = word_of_int (sx_id sx), slot_partitionId = sx_partitionId sx, slot_vCpuId = sx_vCpuId sx,
     slot_sExec = sx_start sx, slot_eExec = sx_duration sx + sx_start sx\<rparr>"

definition Slot_node :: "int \<Rightarrow> slot_xml \<Rightarrow> xmc \<Rightarrow> xmc parsed" where
  "Slot_node expected sx x = sbind (refuse (sx_id sx \<noteq> expected) NotConsecutive) (\<lambda>_.
     Inr (x\<lparr>xmcSchedCyclicSlotTab := xmcSchedCyclicSlotTab x @ [slot_of sx],
            xmcSchedCyclicPlanTab := upd_last (\<lambda>p. p\<lparr>plan_noSlots := plan_noSlots p + 1\<rparr>) (xmcSchedCyclicPlanTab x)\<rparr>))"

definition Plan_node :: "plan_xml \<Rightarrow> xmc \<Rightarrow> xmc parsed" where
  "Plan_node px x =
     (let n = length (xmcSchedCyclicPlanTab x);
          x = x\<lparr>xmcCpuCfg := (xmcCpuCfg x)\<lparr>cpu_noSchedCyclicPlans := cpu_noSchedCyclicPlans (xmcCpuCfg x) + 1\<rparr>\<rparr>
      in case name_string (px_name px) x of (off, x) \<Rightarrow>
         sbind (refuse (px_id px \<noteq> int n) NotConsecutive) (\<lambda>_.
         let x = x\<lparr>xmcSchedCyclicPlanTab := xmcSchedCyclicPlanTab x @ [\<lparr>plan_nameOffset = off, plan_id = word_of_int (px_id px),
               plan_majorFrame = px_majorFrame px, plan_noSlots = 0,
               plan_slotsOffset = word_of_nat (length (xmcSchedCyclicSlotTab x))\<rparr>]\<rparr>
         in sbind (sfold (\<lambda>(e, sx). Slot_node (int e) sx) (enumerate 0 (px_slots px)) x) (\<lambda>x.
            sbind (CheckSchedCyclicPlan (last (xmcSchedCyclicPlanTab x)) (xmcSchedCyclicSlotTab x)) (\<lambda>_. Inr x))))"

text \<open>The three attributes of an entry of the fixed-priority policy; MaxPriorityFP is 0 and MinPriorityFP 65536.\<close>

definition FixedPrio_node :: "u32 \<times> u32 \<times> int \<Rightarrow> xmc \<Rightarrow> xmc parsed" where
  "FixedPrio_node fx x = (case fx of (part, vcpu, d) \<Rightarrow>
     sbind (refuse (d < 0 \<or> d > 65536) BadPriority) (\<lambda>_.
     sbind (sfor (\<lambda>f. refuse (fps_partitionId f = part \<and> fps_vCpuId f = vcpu) AlreadyAllocated) (xmcFpSchedTab x)) (\<lambda>_.
     Inr (x\<lparr>xmcFpSchedTab := xmcFpSchedTab x @ [\<lparr>fps_partitionId = part, fps_vCpuId = vcpu, fps_priority = word_of_int d\<rparr>],
            xmcCpuCfg := (xmcCpuCfg x)\<lparr>cpu_noFpEntries := cpu_noFpEntries (xmcCpuCfg x) + 1\<rparr>\<rparr>))))"

datatype processor_xml = CyclicPlanTable "plan_xml list" | FixedPriority "(u32 \<times> u32 \<times> int) list"

definition Processor_node :: "processor_xml \<Rightarrow> xmc \<Rightarrow> xmc parsed" where
  "Processor_node pr x = (case pr of
       CyclicPlanTable ps \<Rightarrow> sfold Plan_node ps (x\<lparr>xmcCpuCfg := (xmcCpuCfg x)\<lparr>cpu_schedPolicy := CYCLIC_SCHED,
         cpu_schedCyclicPlansOffset := word_of_nat (length (xmcSchedCyclicPlanTab x))\<rparr>\<rparr>)
     | FixedPriority fs \<Rightarrow> sfold FixedPrio_node fs (x\<lparr>xmcCpuCfg := (xmcCpuCfg x)\<lparr>cpu_schedPolicy := FP_SCHED,
         cpu_schedFpTabOffset := word_of_nat (length (xmcFpSchedTab x))\<rparr>\<rparr>))"

section \<open>Partitions\<close>

record port_xml =
  tx_name :: "u8 list"
  tx_direction :: s32
  tx_type :: s32

record partition_xml =
  nx_id :: int
  nx_name :: "u8 list"
  nx_flags :: u32
  nx_noVCpus :: u32
  nx_hmTab :: "xmcHmSlot list"
  nx_areas :: "area_xml list"
  nx_lines :: "int list"
  nx_ports :: "port_xml list option"

text \<open>\<open>ToHwIrqLines\<close>, for one number of the list. A negative one indexes the table from below.\<close>

definition ToHwIrqLines :: "int list \<Rightarrow> int \<Rightarrow> xmc \<Rightarrow> xmc parsed" where
  "ToHwIrqLines rsv line x =
     sbind (refuse (line \<ge> int CONFIG_NO_HWIRQS) IrqLine) (\<lambda>_.
     sbind (if line < 0 then Inl OutsideTable else sget (xmcHwIrqOwner x) (nat line)) (\<lambda>owner.
     sbind (refuse (owner \<noteq> - 1) IrqAssigned) (\<lambda>_.
     sbind (CheckHwIrq rsv line) (\<lambda>_.
     Inr (x\<lparr>xmcHwIrqOwner := (xmcHwIrqOwner x)[nat line := int (no_parts x) - 1]\<rparr>)))))"

definition CommPort_node :: "port_xml \<Rightarrow> xmc \<Rightarrow> xmc parsed" where
  "CommPort_node tx x =
     (let x = cur_part_upd (\<lambda>p. p\<lparr>pc_noPorts := pc_noPorts p + 1\<rparr>) x
      in case AddString (tx_name tx) x of (off, x) \<Rightarrow>
         let port = \<lparr>cp_nameOffset = off, cp_channelId = - 1, cp_direction = tx_direction tx, cp_type = tx_type tx\<rparr>;
             x = x\<lparr>xmcCommPorts := xmcCommPorts x @ [port]\<rparr>
         in sbind (CheckPortName port (last (xmcPartitionTab x)) x) (\<lambda>_. Inr x))"

definition new_partition :: "xmcHmSlot list \<Rightarrow> u32 \<Rightarrow> xmcPartition" where
  "new_partition hm off = \<lparr>pc_id = 0, pc_nameOffset = 0, pc_flags = 0, pc_noVCpus = 0, pc_hwIrqs = 0,
     pc_noPhysicalMemoryAreas = 0, pc_physicalMemoryAreasOffset = off, pc_commPortsOffset = 0, pc_noPorts = 0,
     pc_hmTab = hm, pc_traceBitmap = 0, pc_ipviTab = replicate CONFIG_XM_MAX_IPVI \<lparr>ipvi_dstOffset = 0, ipvi_noDsts = 0\<rparr>\<rparr>"

definition Partition_attrs :: "partition_xml \<Rightarrow> xmc \<Rightarrow> xmc parsed" where
  "Partition_attrs nx x =
     sbind (refuse (nx_id nx \<noteq> int (no_parts x) - 1) NotConsecutive) (\<lambda>_.
     let x = cur_part_upd (\<lambda>p. p\<lparr>pc_id := word_of_int (nx_id nx)\<rparr>) x
     in sbind (CheckPartitionName (nx_name nx) x) (\<lambda>_.
        case AddString (nx_name nx) x of (off, x) \<Rightarrow>
        sbind (refuse (nx_noVCpus nx > CONFIG_MAX_NO_VCPUS) TooManyVCpus) (\<lambda>_.
        Inr (cur_part_upd (\<lambda>p. p\<lparr>pc_nameOffset := off, pc_flags := nx_flags nx, pc_noVCpus := nx_noVCpus nx\<rparr>) x))))"

definition Partition_node :: "(u32 \<times> u32) list \<Rightarrow> int list \<Rightarrow> partition_xml \<Rightarrow> xmc \<Rightarrow> xmc parsed" where
  "Partition_node rsv rsvIrqs nx x =
     (let x = x\<lparr>xmcPartitionTab := xmcPartitionTab x @ [new_partition (nx_hmTab nx) (word_of_nat (length (xmcPhysMemAreaTab x)))]\<rparr>
      in sbind (Partition_attrs nx x) (\<lambda>x.
         sbind (sfold (PartArea_node rsv) (nx_areas nx) x) (\<lambda>x.
         sbind (sfold (ToHwIrqLines rsvIrqs) (nx_lines nx) x) (\<lambda>x.
         sbind (case nx_ports nx of None \<Rightarrow> Inr x
            | Some ts \<Rightarrow> sfold CommPort_node ts
                (cur_part_upd (\<lambda>p. p\<lparr>pc_commPortsOffset := word_of_nat (length (xmcCommPorts x))\<rparr>) x)) (\<lambda>x.
         sbind (CheckMemAreaPerPart (last (xmcPartitionTab x)) x) (\<lambda>_. Inr x))))))"

section \<open>Channels\<close>

datatype channel_xml = SamplingChannel_xml s32 u32 "ipcPort list" | QueuingChannel_xml s32 s32 "ipcPort list"
  | Ipvi_xml int int "int list"

text \<open>A destination that is named twice is refused. The test of the identifier lets CONFIG_XM_MAX_IPVI pass.\<close>

definition Ipvi_dst :: "int \<Rightarrow> int list \<Rightarrow> int list parsed" where
  "Ipvi_dst d ds = sbind (refuse (d \<in> set ds) DuplicatedDestination) (\<lambda>_. Inr (ds @ [d]))"

definition Channel_node :: "channel_xml \<Rightarrow> conf \<Rightarrow> conf parsed" where
  "Channel_node ch c =
     (let add = (\<lambda>k ps. (cx_upd (\<lambda>x. x\<lparr>xmcCommChannelTab := xmcCommChannelTab x @ [k]\<rparr>) c)
            \<lparr>cx_ipcPortTab := cx_ipcPortTab c @ map (\<lambda>ip. ip\<lparr>ip_channel := length (xmcCommChannelTab (cx c))\<rparr>) ps\<rparr>)
      in case ch of
           SamplingChannel_xml len period ps \<Rightarrow> Inr (add (SamplingChannel len period 0) ps)
         | QueuingChannel_xml len n ps \<Rightarrow> Inr (add (QueuingChannel len n) ps)
         | Ipvi_xml i src ds \<Rightarrow>
             sbind (refuse (i < 0 \<or> i > int CONFIG_XM_MAX_IPVI) BadIpviId) (\<lambda>_.
             sbind (sfold Ipvi_dst ds []) (\<lambda>ds.
             Inr (c\<lparr>cx_srcIpviTab := cx_srcIpviTab c @ [\<lparr>si_ipviId = nat i, si_id = src, si_dst = ds\<rparr>]\<rparr>))))"

section \<open>Linking and sorting\<close>

definition chan_type :: "xmcCommChannel \<Rightarrow> s32" where
  "chan_type ch = (case ch of SamplingChannel _ _ _ \<Rightarrow> 0 | QueuingChannel _ _ \<Rightarrow> 1)"

definition add_receiver :: "xmcCommChannel \<Rightarrow> xmcCommChannel" where
  "add_receiver ch = (case ch of SamplingChannel len period n \<Rightarrow> SamplingChannel len period (n + 1) | _ \<Rightarrow> ch)"

text \<open>The first port of the partition with that name.\<close>

fun find_port :: "u8 list \<Rightarrow> xmc \<Rightarrow> nat list \<Rightarrow> nat option parsed" where
  "find_port name x [] = Inr None"
| "find_port name x (i # is) = sbind (sget (xmcCommPorts x) i) (\<lambda>q.
     if str_at (cp_nameOffset q) x = name then Inr (Some i) else find_port name x is)"

definition link_port :: "ipcPort \<Rightarrow> xmc \<Rightarrow> xmc parsed" where
  "link_port ip x =
     sbind (refuse (unat (ip_partitionId ip) \<ge> no_parts x) BadPartitionId) (\<lambda>_.
     sbind (sget (xmcPartitionTab x) (unat (ip_partitionId ip))) (\<lambda>p.
     sbind (refuse (case ip_partitionName ip of None \<Rightarrow> False | Some n \<Rightarrow> n \<noteq> str_at (pc_nameOffset p) x) NameMismatch) (\<lambda>_.
     sbind (find_port (ip_portName ip) x (map (\<lambda>e. unat (pc_commPortsOffset p) + e) [0..<nat (pc_noPorts p)])) (\<lambda>fp.
     case fp of None \<Rightarrow> Inl PortNotFound
     | Some i \<Rightarrow>
         sbind (sget (xmcCommPorts x) i) (\<lambda>q.
         sbind (sget (xmcCommChannelTab x) (ip_channel ip)) (\<lambda>ch.
         let x = x\<lparr>xmcCommPorts := (xmcCommPorts x)[i := q\<lparr>cp_channelId := int (ip_channel ip)\<rparr>],
                   xmcCommChannelTab := (if cp_direction q = uint XM_DESTINATION_PORT
                     then (xmcCommChannelTab x)[ip_channel ip := add_receiver ch] else xmcCommChannelTab x)\<rparr>
         in sbind (refuse (chan_type ch \<noteq> cp_type q) ChannelType) (\<lambda>_.
            sbind (refuse (ip_direction ip \<noteq> cp_direction q) PortDirection) (\<lambda>_. Inr x)))))))) "

definition LinkChannels2Ports :: "conf \<Rightarrow> conf parsed" where
  "LinkChannels2Ports c = sbind (sfold link_port (cx_ipcPortTab c) (cx c)) (\<lambda>x. Inr (c\<lparr>cx := x\<rparr>))"

text \<open>The entry of one source: its offset is where its destinations start; the number grows.\<close>

definition ipvi_entry :: "srcIpvi \<Rightarrow> xmcPartIpvi list \<times> u8 list \<Rightarrow> (xmcPartIpvi list \<times> u8 list) parsed" where
  "ipvi_entry src td = (case td of (tab, dst) \<Rightarrow> sbind (sget tab (si_ipviId src)) (\<lambda>t.
     Inr (tab[si_ipviId src := \<lparr>ipvi_dstOffset = word_of_nat (length dst), ipvi_noDsts = ipvi_noDsts t + int (length (si_dst src))\<rparr>],
          dst @ map word_of_int (si_dst src))))"

definition ipvi_part :: "srcIpvi list \<Rightarrow> nat \<Rightarrow> xmc \<Rightarrow> xmc parsed" where
  "ipvi_part srcs e x = sbind (sget (xmcPartitionTab x) e) (\<lambda>p.
     sbind (sfold ipvi_entry (filter (\<lambda>src. pc_id p = word_of_int (si_id src)) srcs)
        (replicate CONFIG_XM_MAX_IPVI \<lparr>ipvi_dstOffset = 0, ipvi_noDsts = 0\<rparr>, xmcDstIpvi x)) (\<lambda>(tab, dst).
     Inr (x\<lparr>xmcPartitionTab := (xmcPartitionTab x)[e := p\<lparr>pc_ipviTab := tab\<rparr>], xmcDstIpvi := dst\<rparr>)))"

definition ProcessIpviTab :: "conf \<Rightarrow> conf parsed" where
  "ProcessIpviTab c = sbind (sfold (ipvi_part (cx_srcIpviTab c)) [0..<no_parts (cx c)] (cx c)) (\<lambda>x. Inr (c\<lparr>cx := x\<rparr>))"

definition SetupHwIrqMask :: "xmc \<Rightarrow> xmc" where
  "SetupHwIrqMask x = x\<lparr>xmcPartitionTab := map (\<lambda>p. p\<lparr>pc_hwIrqs :=
     fold (\<lambda>i m. if word_of_int (xmcHwIrqOwner x ! i) = pc_id p then m OR push_bit i 1 else m) [0..<CONFIG_NO_HWIRQS] (pc_hwIrqs p)\<rparr>)
     (xmcPartitionTab x)\<rparr>"

definition sort_segment :: "nat \<Rightarrow> nat \<Rightarrow> ('a \<Rightarrow> 'b::linorder) \<Rightarrow> 'a list \<Rightarrow> 'a list" where
  "sort_segment off n key xs = take off xs @ sort_key key (take n (drop off xs)) @ drop (off + n) xs"

definition sort_areas :: "xmcPartition \<Rightarrow> xmcMemoryArea list \<Rightarrow> xmcMemoryArea list parsed" where
  "sort_areas p ms =
     (let off = unat (pc_physicalMemoryAreasOffset p); n = nat (pc_noPhysicalMemoryAreas p);
          ms = sort_segment off n ma_startAddr ms
      in sbind (CheckAllMemAreas (take n (drop off ms))) (\<lambda>_. Inr ms))"

definition SortPhysMemAreas :: "xmc \<Rightarrow> xmc parsed" where
  "SortPhysMemAreas x = sbind (sfold sort_areas (xmcPartitionTab x) (xmcPhysMemAreaTab x)) (\<lambda>ms.
     Inr (x\<lparr>xmcPhysMemAreaTab := ms\<rparr>))"

definition SortMemRegions :: "xmc \<Rightarrow> xmc parsed" where
  "SortMemRegions x = (let rs = sort_key mr_startAddr (xmcMemRegTab x)
     in sbind (CheckAllMemReg rs) (\<lambda>_. Inr (x\<lparr>xmcMemRegTab := rs\<rparr>)))"

definition SortFpTab :: "xmc \<Rightarrow> xmc" where
  "SortFpTab x = (if cpu_schedPolicy (xmcCpuCfg x) = FP_SCHED
     then x\<lparr>xmcFpSchedTab := sort_segment (unat (cpu_schedFpTabOffset (xmcCpuCfg x))) (nat (cpu_noFpEntries (xmcCpuCfg x)))
       fps_priority (xmcFpSchedTab x)\<rparr> else x)"

section \<open>The whole description\<close>

definition schedule_checks :: "xmc \<Rightarrow> unit parsed" where
  "schedule_checks x =
     sbind (CheckMaxNoKThreads x) (\<lambda>_.
     sbind (CheckCyclicPlanPartitionId x) (\<lambda>_.
     sbind (CheckCyclicPlanVCpuId x) (\<lambda>_.
     sbind (CheckFPVCpuId x) (\<lambda>_. CheckPartNotAllocToMoreThanACpu x))))"

definition link_tables :: "conf \<Rightarrow> conf parsed" where
  "link_tables c =
     sbind (LinkChannels2Ports c) (\<lambda>c.
     sbind (CheckIpviTab c) (\<lambda>_.
     sbind (ProcessIpviTab c) (\<lambda>c. Inr (cx_upd SetupHwIrqMask c))))"

definition SystemDescription_NH2 :: "conf \<Rightarrow> conf parsed" where
  "SystemDescription_NH2 c =
     sbind (schedule_checks (cx c)) (\<lambda>_.
     sbind (link_tables c) (\<lambda>c.
     sbind (HmCheckExistMaintenancePlan (cx c)) (\<lambda>_.
     sbind (SortPhysMemAreas (cx c)) (\<lambda>x.
     sbind (SortMemRegions x) (\<lambda>x. Inr (c\<lparr>cx := SortFpTab x\<rparr>))))))"

record system_xml =
  yx_name :: "u8 list option"
  yx_processor :: processor_xml
  yx_regions :: "region_xml list"
  yx_memBlocks :: "(u32 \<times> u32) list"
  yx_hpvHm :: "xmcHmSlot list"
  yx_hpvAreas :: "(u32 \<times> u32) list"
  yx_rswAreas :: "area_xml list"
  yx_partitions :: "partition_xml list"
  yx_channels :: "channel_xml list"

definition empty_conf :: conf where
  "empty_conf = \<lparr>cx = \<lparr>xmcPartitionTab = [], xmcCpuCfg = \<lparr>cpu_schedPolicy = CYCLIC_SCHED, cpu_schedCyclicPlansOffset = 0,
       cpu_noSchedCyclicPlans = 0, cpu_schedFpTabOffset = 0, cpu_noFpEntries = 0\<rparr>, xmcHpvHmTab = [], xmcHpvTraceBitmap = 0,
     xmcHwIrqOwner = replicate CONFIG_NO_HWIRQS (- 1), xmcSchedCyclicSlotTab = [], xmcSchedCyclicPlanTab = [], xmcFpSchedTab = [],
     xmcDstIpvi = [], xmcPhysMemAreaTab = [], xmcMemRegTab = [], xmcCommPorts = [], xmcCommChannelTab = [], xmcStringTab = []\<rparr>,
     cx_hpvAreasOffset = 0, cx_hpvNoAreas = 0, cx_ipcPortTab = [], cx_srcIpviTab = []\<rparr>"

text \<open>The elements in the order of the schema, then the end of the root element.\<close>

definition hw_elements :: "(u32 \<times> u32) list \<Rightarrow> system_xml \<Rightarrow> xmc \<Rightarrow> xmc parsed" where
  "hw_elements rsv y x =
     sbind (sfold Region_node (yx_regions y) (snd (name_string (yx_name y) x))) (\<lambda>x.
     sbind (Processor_node (yx_processor y) x) (\<lambda>x.
     sfold (\<lambda>(start, sz). MemoryBlock_node rsv start sz) (yx_memBlocks y) x))"

definition soft_elements :: "(u32 \<times> u32) list \<Rightarrow> int list \<Rightarrow> system_xml \<Rightarrow> xmc \<Rightarrow> conf parsed" where
  "soft_elements rsv rsvIrqs y x =
     sbind (XmHypervisor_node rsv (yx_hpvHm y) (yx_hpvAreas y) (empty_conf\<lparr>cx := x\<rparr>)) (\<lambda>c.
     sbind (sfold (Area_node rsv) (yx_rswAreas y) (cx c)) (\<lambda>x.
     sbind (sfold (Partition_node rsv rsvIrqs) (yx_partitions y) x) (\<lambda>x.
     sfold Channel_node (yx_channels y) (c\<lparr>cx := x\<rparr>))))"

definition SystemDescription :: "(u32 \<times> u32) list \<Rightarrow> int list \<Rightarrow> system_xml \<Rightarrow> conf parsed" where
  "SystemDescription rsv rsvIrqs y =
     sbind (hw_elements rsv y (cx empty_conf)) (\<lambda>x.
     sbind (soft_elements rsv rsvIrqs y x) SystemDescription_NH2)"

end
