(* ===== verification/ConfInv.thy ===== *)
theory ConfInv
  imports ConfBuild
begin

text \<open>
  What the handlers of the configuration compiler keep of the tables. \<open>mem_view\<close> is what the memory
  of the partitions is made of, \<open>plan_view\<close> the plans; each handler changes at most one of them.
\<close>

definition seg :: "xmcPartition \<Rightarrow> nat \<times> nat" where
  "seg p = (unat (pc_physicalMemoryAreasOffset p), nat (pc_noPhysicalMemoryAreas p))"

definition mem_view :: "xmc \<Rightarrow> (nat \<times> nat) list \<times> xmcMemoryArea list \<times> xmcMemoryRegion list" where
  "mem_view x = (map seg (xmcPartitionTab x), xmcPhysMemAreaTab x, xmcMemRegTab x)"

definition plan_view :: "xmc \<Rightarrow> xmcSchedCyclicSlot list \<times> xmcSchedCyclicPlan list" where
  "plan_view x = (xmcSchedCyclicSlotTab x, xmcSchedCyclicPlanTab x)"

named_theorems view_simps \<open>what a handler leaves alone\<close>

lemma map_upd_last: "(\<And>x. g (f x) = g x) \<Longrightarrow> map g (upd_last f xs) = map g xs"
  by (cases xs rule: rev_cases) (auto simp: upd_last_def)

lemma view_fields [view_simps]:
  "mem_view (x\<lparr>xmcCommPorts := a\<rparr>) = mem_view x" "mem_view (x\<lparr>xmcStringTab := b\<rparr>) = mem_view x"
  "mem_view (x\<lparr>xmcHwIrqOwner := d\<rparr>) = mem_view x" "mem_view (x\<lparr>xmcCpuCfg := e\<rparr>) = mem_view x"
  "mem_view (x\<lparr>xmcHpvHmTab := f\<rparr>) = mem_view x" "mem_view (x\<lparr>xmcCommPorts := a, xmcCommChannelTab := g\<rparr>) = mem_view x"
  "mem_view (x\<lparr>xmcCommChannelTab := g\<rparr>) = mem_view x"
  "plan_view (x\<lparr>xmcCommPorts := a\<rparr>) = plan_view x" "plan_view (x\<lparr>xmcStringTab := b\<rparr>) = plan_view x"
  "plan_view (x\<lparr>xmcHwIrqOwner := d\<rparr>) = plan_view x" "plan_view (x\<lparr>xmcCpuCfg := e\<rparr>) = plan_view x"
  "plan_view (x\<lparr>xmcHpvHmTab := f\<rparr>) = plan_view x" "plan_view (x\<lparr>xmcCommPorts := a, xmcCommChannelTab := g\<rparr>) = plan_view x"
  "plan_view (x\<lparr>xmcCommChannelTab := g\<rparr>) = plan_view x" "plan_view (x\<lparr>xmcPartitionTab := h\<rparr>) = plan_view x"
  "plan_view (x\<lparr>xmcPhysMemAreaTab := i\<rparr>) = plan_view x" "plan_view (x\<lparr>xmcMemRegTab := j\<rparr>) = plan_view x"
  "plan_view (x\<lparr>xmcPartitionTab := h, xmcDstIpvi := k\<rparr>) = plan_view x"
  "plan_view (x\<lparr>xmcFpSchedTab := l\<rparr>) = plan_view x" "mem_view (x\<lparr>xmcFpSchedTab := l\<rparr>) = mem_view x"
  "plan_view (x\<lparr>xmcCpuCfg := e, xmcFpSchedTab := l\<rparr>) = plan_view x"
  "mem_view (x\<lparr>xmcCpuCfg := e, xmcFpSchedTab := l\<rparr>) = mem_view x"
  by (simp_all add: mem_view_def plan_view_def)

lemma view_cur_part [view_simps]:
  "plan_view (cur_part_upd f x) = plan_view x"
  "(\<And>p. seg (f p) = seg p) \<Longrightarrow> mem_view (cur_part_upd f x) = mem_view x"
  by (simp_all add: cur_part_upd_def view_fields mem_view_def map_upd_last)

lemma view_string [view_simps]:
  "AddString n x = (off, x') \<Longrightarrow> mem_view x' = mem_view x"
  "AddString n x = (off, x') \<Longrightarrow> plan_view x' = plan_view x"
  "name_string m x = (off, x') \<Longrightarrow> mem_view x' = mem_view x"
  "name_string m x = (off, x') \<Longrightarrow> plan_view x' = plan_view x"
  by (auto simp: AddString_def name_string_def view_fields split: option.splits)

lemma view_sfold:
  assumes "sfold f xs x = Inr x'" "\<And>a x x'. f a x = Inr x' \<Longrightarrow> v x' = v x"
  shows "v x' = v x"
  using sfold_inv [where P = "\<lambda>y. v y = v x", OF assms(1)] assms(2) by simp

section \<open>Handlers that touch neither memory nor plans\<close>

lemma seg_fields [simp]:
  "seg (p\<lparr>pc_id := a\<rparr>) = seg p" "seg (p\<lparr>pc_nameOffset := b, pc_flags := c, pc_noVCpus := d\<rparr>) = seg p"
  "seg (p\<lparr>pc_noPorts := e\<rparr>) = seg p" "seg (p\<lparr>pc_commPortsOffset := f\<rparr>) = seg p"
  "seg (p\<lparr>pc_hwIrqs := g\<rparr>) = seg p" "seg (p\<lparr>pc_ipviTab := h\<rparr>) = seg p"
  by (simp_all add: seg_def)

lemma view_attrs:
  assumes "Partition_attrs nx x = Inr x'"
  shows "mem_view x' = mem_view x" "plan_view x' = plan_view x"
  using assms by (auto simp: Partition_attrs_def sbind_eq_Inr Let_def view_simps split: prod.split_asm)

lemma view_irq:
  assumes "ToHwIrqLines rsv n x = Inr x'"
  shows "mem_view x' = mem_view x" "plan_view x' = plan_view x"
  using assms by (auto simp: ToHwIrqLines_def sbind_eq_Inr view_simps)

lemma view_port:
  assumes "CommPort_node tx x = Inr x'"
  shows "mem_view x' = mem_view x" "plan_view x' = plan_view x"
  using assms by (auto simp: CommPort_node_def sbind_eq_Inr Let_def view_simps split: prod.split_asm)

lemma view_link:
  assumes "link_port ip x = Inr x'"
  shows "mem_view x' = mem_view x" "plan_view x' = plan_view x"
  using assms by (auto simp: link_port_def sbind_eq_Inr Let_def view_simps split: option.split_asm)

lemma view_ipvi:
  assumes "ipvi_part srcs e x = Inr x'"
  shows "mem_view x' = mem_view x" "plan_view x' = plan_view x"
proof -
  obtain p tab dst where p: "e < length (xmcPartitionTab x)" "xmcPartitionTab x ! e = p"
    and x': "x' = x\<lparr>xmcPartitionTab := (xmcPartitionTab x)[e := p\<lparr>pc_ipviTab := tab\<rparr>], xmcDstIpvi := dst\<rparr>"
    using assms by (auto simp: ipvi_part_def sbind_eq_Inr sget_eq_Inr)
  have "map seg ((xmcPartitionTab x)[e := p\<lparr>pc_ipviTab := tab\<rparr>]) = map seg (xmcPartitionTab x)"
    using p by (simp add: map_update list_update_same_conv)
  then show "mem_view x' = mem_view x" "plan_view x' = plan_view x" by (simp_all add: x' view_simps mem_view_def)
qed

lemma view_mask [view_simps]: "mem_view (SetupHwIrqMask x) = mem_view x" "plan_view (SetupHwIrqMask x) = plan_view x"
  by (simp_all add: SetupHwIrqMask_def view_simps mem_view_def comp_def)

lemma view_fp [view_simps]: "mem_view (SortFpTab x) = mem_view x" "plan_view (SortFpTab x) = plan_view x"
  by (simp_all add: SortFpTab_def view_simps)

lemma view_channel:
  assumes "Channel_node ch c = Inr c'"
  shows "mem_view (cx c') = mem_view (cx c)" "plan_view (cx c') = plan_view (cx c)"
  using assms by (auto simp: Channel_node_def sbind_eq_Inr Let_def view_simps split: channel_xml.split_asm)

lemma view_links:
  assumes "LinkChannels2Ports c = Inr c'"
  shows "mem_view (cx c') = mem_view (cx c)" "plan_view (cx c') = plan_view (cx c)"
  using assms by (auto simp: LinkChannels2Ports_def sbind_eq_Inr
      dest: view_sfold [where v = mem_view, OF _ view_link(1)] view_sfold [where v = plan_view, OF _ view_link(2)])

lemma view_ipvis:
  assumes "ProcessIpviTab c = Inr c'"
  shows "mem_view (cx c') = mem_view (cx c)" "plan_view (cx c') = plan_view (cx c)"
  using assms by (auto simp: ProcessIpviTab_def sbind_eq_Inr
      dest: view_sfold [where v = mem_view, OF _ view_ipvi(1)] view_sfold [where v = plan_view, OF _ view_ipvi(2)])

section \<open>Areas and regions leave the plans alone\<close>

lemma plan_area: "Area_NH1 rsv m x = Inr x' \<Longrightarrow> plan_view x' = plan_view x"
  by (auto simp: Area_NH1_def sbind_eq_Inr view_simps)

lemma plan_area_node: "Area_node rsv ax x = Inr x' \<Longrightarrow> plan_view x' = plan_view x"
  by (auto simp: Area_node_def split: prod.split_asm dest!: plan_area intro: view_string(4))

lemma plan_region: "Region_node rx x = Inr x' \<Longrightarrow> plan_view x' = plan_view x"
  by (auto simp: Region_node_def Let_def sbind_eq_Inr view_simps)

lemma plan_block: "(case b of (start, sz) \<Rightarrow> MemoryBlock_node rsv start sz) x = Inr x' \<Longrightarrow> plan_view x' = plan_view x"
  by (cases b) (auto simp: MemoryBlock_node_def dest: plan_area)

lemma plan_part_area: "PartArea_node rsv ax x = Inr x' \<Longrightarrow> plan_view x' = plan_view x"
  unfolding PartArea_node_def by (drule plan_area_node) (simp add: view_simps)

text \<open>The steps of one partition.\<close>

lemma Partition_nodeE:
  assumes "Partition_node rsv rsvI nx x = Inr x'"
  obtains x1 x2 x3 where "Partition_attrs nx (x\<lparr>xmcPartitionTab := xmcPartitionTab x @
      [new_partition (nx_hmTab nx) (word_of_nat (length (xmcPhysMemAreaTab x)))]\<rparr>) = Inr x1"
    "sfold (PartArea_node rsv) (nx_areas nx) x1 = Inr x2" "sfold (ToHwIrqLines rsvI) (nx_lines nx) x2 = Inr x3"
    "mem_view x' = mem_view x3" "plan_view x' = plan_view x3"
proof -
  obtain x1 x2 x3 where 1: "Partition_attrs nx (x\<lparr>xmcPartitionTab := xmcPartitionTab x @
      [new_partition (nx_hmTab nx) (word_of_nat (length (xmcPhysMemAreaTab x)))]\<rparr>) = Inr x1"
    "sfold (PartArea_node rsv) (nx_areas nx) x1 = Inr x2" "sfold (ToHwIrqLines rsvI) (nx_lines nx) x2 = Inr x3"
    "(case nx_ports nx of None \<Rightarrow> Inr x3 | Some ts \<Rightarrow> sfold CommPort_node ts
                (cur_part_upd (\<lambda>p. p\<lparr>pc_commPortsOffset := word_of_nat (length (xmcCommPorts x3))\<rparr>) x3)) = Inr x'"
    using assms unfolding Partition_node_def Let_def sbind_eq_Inr by blast
  have "mem_view x' = mem_view x3 \<and> plan_view x' = plan_view x3"
    using 1(4) view_sfold [where v = mem_view, OF _ view_port(1)] view_sfold [where v = plan_view, OF _ view_port(2)]
    by (fastforce simp: view_simps split: option.split_asm)
  then show ?thesis using that 1(1-3) by blast
qed

lemma plan_partition: "Partition_node rsv rsvI nx x = Inr x' \<Longrightarrow> plan_view x' = plan_view x"
proof (erule Partition_nodeE)
  fix x1 x2 x3
  assume 1: "Partition_attrs nx (x\<lparr>xmcPartitionTab := xmcPartitionTab x @
      [new_partition (nx_hmTab nx) (word_of_nat (length (xmcPhysMemAreaTab x)))]\<rparr>) = Inr x1"
    "sfold (PartArea_node rsv) (nx_areas nx) x1 = Inr x2" "sfold (ToHwIrqLines rsvI) (nx_lines nx) x2 = Inr x3"
    and e: "plan_view x' = plan_view x3"
  have "plan_view x3 = plan_view x2" by (rule view_sfold [OF 1(3)]) (rule view_irq(2))
  moreover have "plan_view x2 = plan_view x1" by (rule view_sfold [OF 1(2)]) (rule plan_part_area)
  ultimately show ?thesis using view_attrs(2) [OF 1(1)] e by (simp add: view_simps)
qed

lemma plan_hypervisor: "XmHypervisor_node rsv hm areas c = Inr c' \<Longrightarrow> plan_view (cx c') = plan_view (cx c)"
  by (auto simp: XmHypervisor_node_def Let_def sbind_eq_Inr view_simps split_def
      dest!: view_sfold [where v = plan_view, OF _ plan_area])

lemma plan_end:
  assumes "SystemDescription_NH2 c = Inr c'"
  shows "plan_view (cx c') = plan_view (cx c)"
proof -
  obtain c1 c2 x where "LinkChannels2Ports c = Inr c1" "ProcessIpviTab c1 = Inr c2"
    "SortPhysMemAreas (SetupHwIrqMask (cx c2)) = Inr x" "c' = (cx_upd SetupHwIrqMask c2)\<lparr>cx := SortFpTab (x\<lparr>xmcMemRegTab := sort_key mr_startAddr (xmcMemRegTab x)\<rparr>)\<rparr>"
    using assms by (auto simp: SystemDescription_NH2_def link_tables_def Let_def sbind_eq_Inr SortMemRegions_def)
  then show ?thesis
    using view_links(2) [of c c1] view_ipvis(2) [of c1 c2] by (auto simp: view_simps SortPhysMemAreas_def sbind_eq_Inr)
qed

end
