(* ===== verification/ConfPlan.thy ===== *)
theory ConfPlan
  imports ConfInv
begin

text \<open>The plans of an accepted configuration satisfy what the scheduler relies on.\<close>

lemma wf_plan_cong: "xmcSchedCyclicSlotTab c' = xmcSchedCyclicSlotTab c \<Longrightarrow> wf_plan c' plan = wf_plan c plan"
  by (simp add: wf_plan_def slot_at_def)

lemma wf_plan_more:
  assumes "wf_plan c plan" "xmcSchedCyclicSlotTab c' = xmcSchedCyclicSlotTab c @ ys"
  shows "wf_plan c' plan"
proof -
  have "slot_at c' plan i = slot_at c plan i" if "i < nat (plan_noSlots plan)" for i
    using assms that by (simp add: wf_plan_def Let_def slot_at_def nth_append)
  then show ?thesis using assms by (auto simp: wf_plan_def Let_def)
qed

section \<open>What the check of a plan means\<close>

lemma check_steps:
  assumes "sfold (\<lambda>e t. sbind (sget slots (unat (plan_slotsOffset plan + word_of_nat e))) (\<lambda>sl.
       if t > slot_sExec sl then Inl SlotOverlap
       else if slot_eExec sl > plan_majorFrame plan then Inl SlotPastFrame
       else Inr (slot_eExec sl))) [0..<n] 0 = Inr t"
    and "unat (plan_slotsOffset plan) + n < 2 ^ 32"
  shows "(\<forall>i < n. unat (plan_slotsOffset plan) + i < length slots \<and>
      slot_eExec (slots ! (unat (plan_slotsOffset plan) + i)) \<le> plan_majorFrame plan \<and>
      (0 < i \<longrightarrow> slot_eExec (slots ! (unat (plan_slotsOffset plan) + i - 1)) \<le> slot_sExec (slots ! (unat (plan_slotsOffset plan) + i)))) \<and>
    t = (if n = 0 then 0 else slot_eExec (slots ! (unat (plan_slotsOffset plan) + n - 1)))"
  using assms
proof (induction n arbitrary: t)
  case (Suc n)
  have off: "unat (plan_slotsOffset plan + word_of_nat n) = unat (plan_slotsOffset plan) + n"
    using Suc.prems(2) by (simp add: unat_word_ariths(1) take_bit_nat_eq_self unsigned_of_nat)
  show ?case
    using Suc.prems Suc.IH
    by (auto simp: sfold_append sbind_eq_Inr sget_eq_Inr off less_Suc_eq not_less split: if_split_asm)
qed simp

lemma check_plan:
  assumes "CheckSchedCyclicPlan plan slots = Inr ()" "i < nat (plan_noSlots plan)"
    and "unat (plan_slotsOffset plan) + nat (plan_noSlots plan) < 2 ^ 32"
  shows "unat (plan_slotsOffset plan) + i < length slots"
    "slot_eExec (slots ! (unat (plan_slotsOffset plan) + i)) \<le> plan_majorFrame plan"
    "0 < i \<Longrightarrow> slot_eExec (slots ! (unat (plan_slotsOffset plan) + i - 1)) \<le> slot_sExec (slots ! (unat (plan_slotsOffset plan) + i))"
  using assms(1,2) check_steps [OF _ assms(3)] by (auto simp: CheckSchedCyclicPlan_def sbind_eq_Inr)

text \<open>A chain of slots, none of them empty, is ordered.\<close>

lemma chain_ordered:
  assumes "\<And>i. i < n \<Longrightarrow> s i < e i" "\<And>i. Suc i < n \<Longrightarrow> e i \<le> s (Suc i)" "i < j" "j < n"
  shows "e i \<le> (s j :: 'a :: linorder)"
  using assms(3,4)
proof (induction j)
  case (Suc j)
  show ?case
  proof (cases "i = j")
    case True
    then show ?thesis using Suc.prems assms(2) by simp
  next
    case False
    then have "e i \<le> s j" using Suc by simp
    also have "s j < e j" using Suc.prems assms(1) by simp
    also have "e j \<le> s (Suc j)" using Suc.prems assms(2) by simp
    finally show ?thesis by simp
  qed
qed simp

lemma checked_plan_wf:
  assumes "CheckSchedCyclicPlan plan (xmcSchedCyclicSlotTab x) = Inr ()" "0 \<le> plan_noSlots plan"
    and "unat (plan_slotsOffset plan) + nat (plan_noSlots plan) < 2 ^ 32"
    and "unat (plan_slotsOffset plan) + nat (plan_noSlots plan) \<le> length (xmcSchedCyclicSlotTab x)"
    and "\<And>i. i < nat (plan_noSlots plan) \<Longrightarrow> slot_sExec (slot_at x plan i) < slot_eExec (slot_at x plan i)"
  shows "wf_plan x plan"
proof -
  note C = check_plan [OF assms(1) _ assms(3)]
  have "slot_eExec (slot_at x plan i) \<le> slot_sExec (slot_at x plan j)" if "i < j" "j < nat (plan_noSlots plan)" for i j
    by (rule chain_ordered [where s = "\<lambda>i. slot_sExec (slot_at x plan i)", OF assms(5) _ that])
      (use C(3) [of "Suc _"] in \<open>auto simp: slot_at_def\<close>)
  then show ?thesis using assms C(2) by (simp add: wf_plan_def Let_def slot_at_def)
qed

section \<open>Plans as they are read\<close>

lemma slots_read:
  assumes "sfold (\<lambda>(e, sx). Slot_node (int e) sx) (enumerate k sxs) x = Inr x'" "xmcSchedCyclicPlanTab x = ps @ [p]"
  shows "xmcSchedCyclicSlotTab x' = xmcSchedCyclicSlotTab x @ map slot_of sxs"
    "xmcSchedCyclicPlanTab x' = ps @ [p\<lparr>plan_noSlots := plan_noSlots p + int (length sxs)\<rparr>]"
proof -
  have "xmcSchedCyclicSlotTab x' = xmcSchedCyclicSlotTab x @ map slot_of sxs \<and>
    xmcSchedCyclicPlanTab x' = ps @ [p\<lparr>plan_noSlots := plan_noSlots p + int (length sxs)\<rparr>]"
    using assms
  proof (induction sxs arbitrary: k x p)
    case (Cons sx sxs)
    obtain x1 where 1: "Slot_node (int k) sx x = Inr x1" "sfold (\<lambda>(e, sx). Slot_node (int e) sx) (enumerate (Suc k) sxs) x1 = Inr x'"
      using Cons.prems(1) by (auto simp: sbind_eq_Inr)
    have x1: "xmcSchedCyclicSlotTab x1 = xmcSchedCyclicSlotTab x @ [slot_of sx]"
      "xmcSchedCyclicPlanTab x1 = ps @ [p\<lparr>plan_noSlots := plan_noSlots p + 1\<rparr>]"
      using 1(1) Cons.prems(2) by (auto simp: Slot_node_def sbind_eq_Inr upd_last_def)
    show ?case using Cons.IH [OF 1(2) x1(2)] by (simp add: x1(1) algebra_simps)
  qed simp
  then show "xmcSchedCyclicSlotTab x' = xmcSchedCyclicSlotTab x @ map slot_of sxs"
    "xmcSchedCyclicPlanTab x' = ps @ [p\<lparr>plan_noSlots := plan_noSlots p + int (length sxs)\<rparr>]" by blast+
qed

text \<open>The attributes of the slots the schema does not exclude and the tool does not check.\<close>

definition slots_sound :: "plan_xml \<Rightarrow> bool" where
  "slots_sound px \<longleftrightarrow> (\<forall>sx \<in> set (px_slots px). 0 < sx_duration sx \<and> unat (sx_start sx) + unat (sx_duration sx) < 2 ^ 32)"

lemma slot_sound_less:
  assumes "0 < sx_duration sx" "unat (sx_start sx) + unat (sx_duration sx) < 2 ^ 32"
  shows "slot_sExec (slot_of sx) < slot_eExec (slot_of sx)"
proof -
  have "unat (sx_duration sx + sx_start sx) = unat (sx_duration sx) + unat (sx_start sx)"
    using u32_sum [of "sx_duration sx" "sx_start sx"] assms(2) by linarith
  moreover have "0 < unat (sx_duration sx)" using assms(1) by (simp add: word_less_nat_alt)
  ultimately show ?thesis by (simp add: slot_of_def word_less_nat_alt)
qed

definition plans_ok :: "xmc \<Rightarrow> bool" where
  "plans_ok x \<longleftrightarrow> (length (xmcSchedCyclicSlotTab x) < 2 ^ 32 \<longrightarrow> wf_plans x)"

lemma plans_ok_cong:
  assumes "plan_view x' = plan_view x"
  shows "plans_ok x' = plans_ok x"
proof -
  have s: "xmcSchedCyclicSlotTab x' = xmcSchedCyclicSlotTab x" "xmcSchedCyclicPlanTab x' = xmcSchedCyclicPlanTab x"
    using assms by (simp_all add: plan_view_def)
  show ?thesis by (simp only: plans_ok_def wf_plans_def wf_plan_cong [OF s(1)] s)
qed

lemma Plan_node_ok:
  assumes "Plan_node px x = Inr x'" "plans_ok x" "slots_sound px"
  shows "plans_ok x'"
  unfolding plans_ok_def
proof
  assume len: "length (xmcSchedCyclicSlotTab x') < 2 ^ 32"
  define x0 where "x0 = x\<lparr>xmcCpuCfg := (xmcCpuCfg x)\<lparr>cpu_noSchedCyclicPlans := cpu_noSchedCyclicPlans (xmcCpuCfg x) + 1\<rparr>\<rparr>"
  obtain off x1 where n: "name_string (px_name px) x0 = (off, x1)" by fastforce
  define pl where "pl = \<lparr>plan_nameOffset = off, plan_id = word_of_int (px_id px), plan_majorFrame = px_majorFrame px,
    plan_noSlots = 0, plan_slotsOffset = word_of_nat (length (xmcSchedCyclicSlotTab x1))\<rparr>"
  have v: "xmcSchedCyclicSlotTab x1 = xmcSchedCyclicSlotTab x" "xmcSchedCyclicPlanTab x1 = xmcSchedCyclicPlanTab x"
    using view_string(4) [OF n] by (simp_all add: x0_def plan_view_def)
  let ?x = "x1\<lparr>xmcSchedCyclicPlanTab := xmcSchedCyclicPlanTab x1 @ [pl]\<rparr>"
  have r: "sfold (\<lambda>(e, sx). Slot_node (int e) sx) (enumerate 0 (px_slots px)) ?x = Inr x'"
    "CheckSchedCyclicPlan (last (xmcSchedCyclicPlanTab x')) (xmcSchedCyclicSlotTab x') = Inr ()"
    using assms(1) n by (auto simp: Plan_node_def Let_def sbind_eq_Inr x0_def [symmetric] pl_def)
  have s: "xmcSchedCyclicSlotTab x' = xmcSchedCyclicSlotTab x @ map slot_of (px_slots px)"
    "xmcSchedCyclicPlanTab x' = xmcSchedCyclicPlanTab x @ [pl\<lparr>plan_noSlots := plan_noSlots pl + int (length (px_slots px))\<rparr>]"
    using slots_read [OF r(1)] v by simp_all
  define new where "new = pl\<lparr>plan_noSlots := plan_noSlots pl + int (length (px_slots px))\<rparr>"
  have off: "unat (plan_slotsOffset new) = length (xmcSchedCyclicSlotTab x)" "plan_noSlots new = int (length (px_slots px))"
    using len s(1) v by (simp_all add: new_def pl_def)
  have sl: "slot_at x' new i = slot_of (px_slots px ! i)" if "i < length (px_slots px)" for i
    using that by (simp add: slot_at_def off(1) s(1) nth_append)
  have "wf_plan x' new"
  proof (rule checked_plan_wf)
    show "CheckSchedCyclicPlan new (xmcSchedCyclicSlotTab x') = Inr ()" using r(2) s(2) by (simp add: new_def)
    show "slot_sExec (slot_at x' new i) < slot_eExec (slot_at x' new i)" if "i < nat (plan_noSlots new)" for i
    proof -
      have i: "i < length (px_slots px)" using that off(2) by simp
      then have "px_slots px ! i \<in> set (px_slots px)" by simp
      then show ?thesis using assms(3) slot_sound_less sl [OF i] by (auto simp: slots_sound_def)
    qed
  qed (use len s(1) off in simp_all)
  moreover have "wf_plan x' plan" if "plan \<in> set (xmcSchedCyclicPlanTab x)" for plan
    using assms(2) len that s(1) by (intro wf_plan_more [OF _ s(1)]) (simp add: plans_ok_def wf_plans_def)
  ultimately show "wf_plans x'" using s(2) by (auto simp: wf_plans_def new_def)
qed

lemma fixed_prio_view: "FixedPrio_node fx x = Inr x' \<Longrightarrow> plan_view x' = plan_view x"
  by (auto simp: FixedPrio_node_def sbind_eq_Inr plan_view_def split: prod.split_asm)

definition plans_of :: "processor_xml \<Rightarrow> plan_xml list" where
  "plans_of pr = (case pr of CyclicPlanTable ps \<Rightarrow> ps | FixedPriority _ \<Rightarrow> [])"

lemma Processor_node_ok:
  assumes "Processor_node pr x = Inr x'" "plans_ok x" "\<forall>px \<in> set (plans_of pr). slots_sound px"
  shows "plans_ok x'"
proof (cases pr)
  case (CyclicPlanTable ps)
  have r: "sfold Plan_node ps (x\<lparr>xmcCpuCfg := (xmcCpuCfg x)\<lparr>cpu_schedPolicy := CYCLIC_SCHED,
      cpu_schedCyclicPlansOffset := word_of_nat (length (xmcSchedCyclicPlanTab x))\<rparr>\<rparr>) = Inr x'"
    using assms(1) by (simp add: Processor_node_def CyclicPlanTable)
  show ?thesis
  proof (rule sfold_inv [where P = plans_ok, OF r])
    show "plans_ok (x\<lparr>xmcCpuCfg := (xmcCpuCfg x)\<lparr>cpu_schedPolicy := CYCLIC_SCHED,
      cpu_schedCyclicPlansOffset := word_of_nat (length (xmcSchedCyclicPlanTab x))\<rparr>\<rparr>)"
      using assms(2) by (subst plans_ok_cong [of _ x]) (simp_all add: view_simps)
    show "plans_ok u'" if "px \<in> set ps" "Plan_node px u = Inr u'" "plans_ok u" for px u u'
      using Plan_node_ok [OF that(2,3)] that(1) assms(3) by (simp add: plans_of_def CyclicPlanTable)
  qed
next
  case (FixedPriority fs)
  have "plan_view x' = plan_view x"
    using view_sfold [where v = plan_view, OF assms(1) [unfolded Processor_node_def FixedPriority processor_xml.case] fixed_prio_view]
    by (simp add: view_simps)
  then show ?thesis using assms(2) plans_ok_cong by blast
qed

end
