(* ===== verification/ConfMem.thy ===== *)
theory ConfMem
  imports ConfInv
begin

text \<open>
  The memory of an accepted configuration: areas that are aligned, covered by a region and apart from
  each other or both shared; the areas of a partition are one stretch of the table. Sorting the
  stretches gives the order the binary searches of the hypervisor rely on.
\<close>

section \<open>The invariant\<close>

definition aligned :: "xmcMemoryArea \<Rightarrow> bool" where
  "aligned m \<longleftrightarrow> ma_startAddr m AND (PAGE_BYTES - 1) = 0 \<and> ma_size m AND (PAGE_BYTES - 1) = 0"

definition compat :: "xmcMemoryArea \<Rightarrow> xmcMemoryArea \<Rightarrow> bool" where
  "compat m m' \<longleftrightarrow> area_apart m m' \<or> both_shared m m'"

definition covered :: "xmcMemoryRegion list \<Rightarrow> xmcMemoryArea \<Rightarrow> bool" where
  "covered rs m \<longleftrightarrow> unat (ma_memoryRegionOffset m) < length rs \<and> covers (rs ! unat (ma_memoryRegionOffset m)) m"

definition areas_fine :: "xmcMemoryRegion list \<Rightarrow> xmcMemoryArea list \<Rightarrow> bool" where
  "areas_fine rs ms \<longleftrightarrow> sorted_wrt compat ms \<and> (\<forall>m \<in> set ms. aligned m \<and> (length rs < 2 ^ 32 \<longrightarrow> covered rs m))"

definition segs_ok :: "(nat \<times> nat) list \<Rightarrow> nat \<Rightarrow> bool" where
  "segs_ok sgs n \<longleftrightarrow> sorted_wrt (\<lambda>s s'. fst s + snd s \<le> fst s') sgs \<and> (\<forall>s \<in> set sgs. fst s + snd s \<le> n)"

definition conf_mem :: "xmc \<Rightarrow> bool" where
  "conf_mem x \<longleftrightarrow> (case mem_view x of (sgs, ms, rs) \<Rightarrow> areas_fine rs ms \<and> (length ms < 2 ^ 32 \<longrightarrow> segs_ok sgs (length ms)))"

lemma conf_mem_cong: "mem_view x' = mem_view x \<Longrightarrow> conf_mem x' = conf_mem x"
  by (simp add: conf_mem_def)

lemma compat_sym: "compat m m' = compat m' m"
proof -
  have "both_shared m m' = both_shared m' m" unfolding both_shared_def by (simp only: and.left_commute)
  then show ?thesis by (auto simp: compat_def area_apart_def apart_def)
qed

section \<open>The handlers keep it\<close>

lemma find_region_spec: "find_region m rs < 0 \<or> (nat (find_region m rs) < length rs \<and> covers (rs ! nat (find_region m rs)) m)"
proof (induction rs rule: rev_induct)
  case (snoc r rs)
  have "find_region m (rs @ [r]) = (if covers r m then int (length rs) else find_region m rs)"
    by (simp add: find_region_def enumerate_append_eq)
  then show ?case using snoc by (auto simp: nth_append)
qed (simp add: find_region_def)

lemma covers_offset [simp]: "covers r (m\<lparr>ma_memoryRegionOffset := k\<rparr>) = covers r m"
  by (simp add: covers_def)

lemma CheckPhysMemArea_areas:
  assumes "CheckPhysMemArea rsv m x = Inr r"
  shows "aligned m" "\<forall>m' \<in> set (xmcPhysMemAreaTab x). compat m' m" "0 \<le> r" "r = find_region m (xmcMemRegTab x)"
  using assms compat_sym [of m] by (auto simp: CheckPhysMemArea_def sbind_eq_Inr sfor_eq_Inr aligned_def compat_def both_shared_def
      and.commute and.left_commute)

text \<open>One more area.\<close>

lemma add_area:
  assumes "CheckPhysMemArea rsv m x = Inr r" "areas_fine (xmcMemRegTab x) (xmcPhysMemAreaTab x)"
  shows "areas_fine (xmcMemRegTab x) (xmcPhysMemAreaTab x @ [m\<lparr>ma_memoryRegionOffset := word_of_int r\<rparr>])"
proof -
  note C = CheckPhysMemArea_areas [OF assms(1)]
  let ?m = "m\<lparr>ma_memoryRegionOffset := word_of_int r\<rparr>"
  have "compat m' ?m = compat m' m" for m' by (simp add: compat_def area_apart_def both_shared_def)
  moreover have "aligned ?m = aligned m" by (simp add: aligned_def)
  moreover have "covered (xmcMemRegTab x) ?m" if "length (xmcMemRegTab x) < 2 ^ 32"
  proof -
    have r: "nat r < length (xmcMemRegTab x)" "covers (xmcMemRegTab x ! nat r) m"
      using find_region_spec [of m "xmcMemRegTab x"] C(3,4) by auto
    have "(word_of_int r :: u32) = word_of_nat (nat r)" using C(3) by simp
    then have "unat (word_of_int r :: u32) = nat r" using unat_u32 [of "nat r"] r(1) that by simp
    then show ?thesis using r by (simp add: covered_def)
  qed
  ultimately show ?thesis using assms(2) C(1,2) by (auto simp: areas_fine_def sorted_wrt_append)
qed

lemma segs_ok_mono: "segs_ok sgs n \<Longrightarrow> n \<le> n' \<Longrightarrow> segs_ok sgs n'"
  by (auto simp: segs_ok_def intro: le_trans)

lemma Area_NH1_mem:
  assumes "Area_NH1 rsv m x = Inr x'" "conf_mem x"
  shows "conf_mem x'"
proof -
  obtain r where r: "CheckPhysMemArea rsv m x = Inr r"
    "x' = x\<lparr>xmcPhysMemAreaTab := xmcPhysMemAreaTab x @ [m\<lparr>ma_memoryRegionOffset := word_of_int r\<rparr>]\<rparr>"
    using assms(1) by (auto simp: Area_NH1_def sbind_eq_Inr)
  then show ?thesis using add_area [OF r(1)] assms(2) segs_ok_mono
    by (auto simp: conf_mem_def mem_view_def intro: segs_ok_mono)
qed

lemma Area_node_mem:
  assumes "Area_node rsv ax x = Inr x'" "conf_mem x"
  shows "conf_mem x'"
proof -
  obtain off x1 where n: "name_string (ax_name ax) x = (off, x1)" by fastforce
  have "conf_mem x1" using assms(2) conf_mem_cong [OF view_string(3) [OF n]] by simp
  then show ?thesis using assms(1) n by (auto simp: Area_node_def intro: Area_NH1_mem)
qed

lemma MemoryBlock_node_mem: "MemoryBlock_node rsv start sz x = Inr x' \<Longrightarrow> conf_mem x \<Longrightarrow> conf_mem x'"
  unfolding MemoryBlock_node_def by (rule Area_NH1_mem)

lemma Region_node_mem:
  assumes "Region_node rx x = Inr x'" "conf_mem x"
  shows "conf_mem x'"
proof -
  obtain r where x': "x' = x\<lparr>xmcMemRegTab := xmcMemRegTab x @ [r]\<rparr>"
    using assms(1) by (auto simp: Region_node_def sbind_eq_Inr Let_def)
  have "covered (xmcMemRegTab x @ [r]) m" if "covered (xmcMemRegTab x) m" for m
    using that by (auto simp: covered_def nth_append)
  then show ?thesis using assms(2) by (auto simp: x' conf_mem_def mem_view_def areas_fine_def)
qed

text \<open>The stretch of the partition being read is the last one and grows with its area.\<close>

lemma segs_grow:
  assumes "segs_ok sgs n" "sgs \<noteq> []" "f (last sgs) = (fst (last sgs), k)" "k \<le> Suc (snd (last sgs))"
  shows "segs_ok (upd_last f sgs) (Suc n)"
  using assms by (cases sgs rule: rev_cases) (auto simp: segs_ok_def upd_last_def sorted_wrt_append intro: le_SucI)

lemma upd_last_map:
  assumes "xs \<noteq> [] \<Longrightarrow> g (f (last xs)) = h (g (last xs))"
  shows "map g (upd_last f xs) = upd_last h (map g xs)"
  using assms by (cases xs rule: rev_cases) (auto simp: upd_last_def)

lemma PartArea_node_mem:
  assumes "PartArea_node rsv ax x = Inr x'" "conf_mem x"
  shows "conf_mem x'"
proof -
  define x0 where "x0 = cur_part_upd (\<lambda>p. p\<lparr>pc_noPhysicalMemoryAreas := pc_noPhysicalMemoryAreas p + 1\<rparr>) x"
  obtain off x1 where n: "name_string (ax_name ax) x0 = (off, x1)" by fastforce
  obtain m r where r: "CheckPhysMemArea rsv m x1 = Inr r"
    "x' = x1\<lparr>xmcPhysMemAreaTab := xmcPhysMemAreaTab x1 @ [m\<lparr>ma_memoryRegionOffset := word_of_int r\<rparr>]\<rparr>"
    using assms(1) n by (auto simp: PartArea_node_def Area_node_def Area_NH1_def sbind_eq_Inr x0_def [symmetric])
  have v: "map seg (xmcPartitionTab x1) = map seg (xmcPartitionTab x0)" "xmcPhysMemAreaTab x1 = xmcPhysMemAreaTab x"
    "xmcMemRegTab x1 = xmcMemRegTab x"
    using view_string(3) [OF n] by (simp_all add: mem_view_def x0_def cur_part_upd_def)
  let ?l = "last (xmcPartitionTab x)"
  let ?s = "\<lambda>s. (fst s :: nat, nat (pc_noPhysicalMemoryAreas ?l + 1))"
  have s: "map seg (xmcPartitionTab x0) = upd_last ?s (map seg (xmcPartitionTab x))"
    unfolding x0_def cur_part_upd_def by (simp, rule upd_last_map) (simp add: seg_def)
  have "segs_ok (map seg (xmcPartitionTab x0)) (Suc (length (xmcPhysMemAreaTab x)))" if "length (xmcPhysMemAreaTab x) < 2 ^ 32"
  proof (cases "xmcPartitionTab x = []")
    case False
    have "segs_ok (map seg (xmcPartitionTab x)) (length (xmcPhysMemAreaTab x))"
      using assms(2) that by (simp add: conf_mem_def mem_view_def)
    moreover have "nat (z + 1) \<le> Suc (nat z)" for z :: int by arith
    ultimately show ?thesis unfolding s by (intro segs_grow) (use False in \<open>simp_all add: last_map seg_def\<close>)
  qed (simp add: s upd_last_def segs_ok_def)
  moreover have "areas_fine (xmcMemRegTab x1) (xmcPhysMemAreaTab x')"
    using add_area [OF r(1)] assms(2) v(2,3) by (simp add: r(2) conf_mem_def mem_view_def)
  ultimately show ?thesis using v by (simp add: conf_mem_def mem_view_def r(2))
qed

lemma Partition_node_mem:
  assumes "Partition_node rsv rsvI nx x = Inr x'" "conf_mem x"
  shows "conf_mem x'"
proof (rule Partition_nodeE [OF assms(1)])
  fix x1 x2 x3
  let ?p = "new_partition (nx_hmTab nx) (word_of_nat (length (xmcPhysMemAreaTab x)))"
  let ?x = "x\<lparr>xmcPartitionTab := xmcPartitionTab x @ [?p]\<rparr>"
  assume 1: "Partition_attrs nx ?x = Inr x1" "sfold (PartArea_node rsv) (nx_areas nx) x1 = Inr x2"
    "sfold (ToHwIrqLines rsvI) (nx_lines nx) x2 = Inr x3" and e: "mem_view x' = mem_view x3"
  have "seg ?p = (length (xmcPhysMemAreaTab x), 0)" if "length (xmcPhysMemAreaTab x) < 2 ^ 32"
    using that by (simp add: seg_def new_partition_def)
  then have "conf_mem ?x" using assms(2) by (auto simp: conf_mem_def mem_view_def segs_ok_def sorted_wrt_append)
  then have "conf_mem x1" using conf_mem_cong [OF view_attrs(1) [OF 1(1)]] by simp
  then have "conf_mem x2" by (rule sfold_inv [OF 1(2)]) (rule PartArea_node_mem)
  moreover have "mem_view x3 = mem_view x2" by (rule view_sfold [OF 1(3)]) (rule view_irq(1))
  ultimately show ?thesis using e conf_mem_cong [of x' x2] by simp
qed

section \<open>Sorting\<close>

lemma check_all_areas: "CheckAllMemAreas ms = Inr () \<longleftrightarrow> sorted_wrt (<) (map ma_startAddr ms)"
proof -
  have "(\<exists>y. sfold (\<lambda>m a. if a \<ge> ma_startAddr m then Inl AreaUnsorted else Inr (ma_startAddr m)) ms a = Inr y) \<longleftrightarrow>
    sorted_wrt (<) (a # map ma_startAddr ms)" for ms and a :: u32
    by (induction ms arbitrary: a) (auto simp: sbind_eq_Inr not_le)
  then show ?thesis by (cases ms) (simp_all add: CheckAllMemAreas_def sbind_eq_Inr)
qed

definition stretch :: "nat \<times> nat \<Rightarrow> 'a list \<Rightarrow> 'a list" where
  "stretch s xs = take (snd s) (drop (fst s) xs)"

lemma sort_segment_parts:
  assumes "off + n \<le> length xs"
  shows "length (sort_segment off n key xs) = length xs" "take off (sort_segment off n key xs) = take off xs"
    "drop (off + n) (sort_segment off n key xs) = drop (off + n) xs"
    "stretch (off, n) (sort_segment off n key xs) = sort_key key (stretch (off, n) xs)"
  using assms by (simp_all add: sort_segment_def stretch_def)

lemma stretch_above:
  assumes "drop k ys = drop k xs" "k \<le> fst s"
  shows "stretch s ys = stretch s xs"
proof -
  have "stretch s zs = take (snd s) (drop (fst s - k) (drop k zs))" for zs :: "'a list"
    using assms(2) by (simp add: stretch_def)
  then show ?thesis by (simp only: assms(1))
qed

lemma stretch_below:
  assumes "take k ys = take k xs" "fst s + snd s \<le> k"
  shows "stretch s ys = stretch s xs"
proof -
  have "stretch s zs = drop (fst s) (take (fst s + snd s) (take k zs))" for zs :: "'a list"
    using assms(2) by (simp add: stretch_def take_drop min_def add.commute)
  then show ?thesis by (simp only: assms(1))
qed

lemma sort_all_areas:
  assumes "sfold sort_areas ps ms = Inr ms'" "segs_ok (map seg ps) (length ms)"
  shows "length ms' = length ms \<and> (\<forall>k. (\<forall>p \<in> set ps. k \<le> fst (seg p)) \<longrightarrow> take k ms' = take k ms) \<and>
    (\<forall>p \<in> set ps. stretch (seg p) ms' = sort_key ma_startAddr (stretch (seg p) ms) \<and>
       sorted_wrt (<) (map ma_startAddr (stretch (seg p) ms')))"
  using assms
proof (induction ps arbitrary: ms)
  case (Cons p ps)
  obtain off n where s: "seg p = (off, n)" by fastforce
  let ?t = "sort_segment off n ma_startAddr ms"
  have t: "sfold sort_areas ps ?t = Inr ms'" and chk: "sorted_wrt (<) (map ma_startAddr (stretch (off, n) ?t))"
  proof -
    obtain u where u: "sort_areas p ms = Inr u" "sfold sort_areas ps u = Inr ms'" using Cons.prems(1) by (auto simp: sbind_eq_Inr)
    have o: "off = unat (pc_physicalMemoryAreasOffset p)" "n = nat (pc_noPhysicalMemoryAreas p)" using s by (simp_all add: seg_def)
    have "u = ?t" "CheckAllMemAreas (take n (drop off ?t)) = Inr ()" using u(1) by (auto simp: sort_areas_def Let_def sbind_eq_Inr o)
    then show "sfold sort_areas ps ?t = Inr ms'" "sorted_wrt (<) (map ma_startAddr (stretch (off, n) ?t))"
      using u(2) by (simp_all only: check_all_areas stretch_def fst_conv snd_conv)
  qed
  have b: "off + n \<le> length ms" and ab: "\<forall>q \<in> set ps. off + n \<le> fst (seg q)"
    using Cons.prems(2) s by (auto simp: segs_ok_def)
  note S = sort_segment_parts [OF b, where key = ma_startAddr]
  have IH: "length ms' = length ?t" "\<And>k. (\<forall>p \<in> set ps. k \<le> fst (seg p)) \<Longrightarrow> take k ms' = take k ?t"
    "\<And>q. q \<in> set ps \<Longrightarrow> stretch (seg q) ms' = sort_key ma_startAddr (stretch (seg q) ?t)"
    "\<And>q. q \<in> set ps \<Longrightarrow> sorted_wrt (<) (map ma_startAddr (stretch (seg q) ms'))"
  proof -
    have "segs_ok (map seg ps) (length ?t)" using Cons.prems(2) S(1) by (simp add: segs_ok_def)
    note I = Cons.IH [OF t this]
    show "length ms' = length ?t" "\<And>k. (\<forall>p \<in> set ps. k \<le> fst (seg p)) \<Longrightarrow> take k ms' = take k ?t"
      "\<And>q. q \<in> set ps \<Longrightarrow> stretch (seg q) ms' = sort_key ma_startAddr (stretch (seg q) ?t)"
      "\<And>q. q \<in> set ps \<Longrightarrow> sorted_wrt (<) (map ma_startAddr (stretch (seg q) ms'))"
      using I by blast+
  qed
  have "stretch (seg q) ?t = stretch (seg q) ms" if "q \<in> set ps" for q
    using stretch_above [OF S(3)] ab that by simp
  moreover have p: "stretch (off, n) ms' = stretch (off, n) ?t"
    using stretch_below [OF IH(2), of "off + n" "(off, n)"] ab by simp
  moreover have "take k ms' = take k ms" if k: "\<forall>q \<in> set (p # ps). k \<le> fst (seg q)" for k
  proof -
    have "take k ms' = take k ?t" using IH(2) k by simp
    also have "\<dots> = take k (take off ?t)" using k s by (simp add: min_def)
    also have "\<dots> = take k ms" using S(2) k s by (simp add: min_def)
    finally show ?thesis .
  qed
  ultimately show ?case using IH S(1,4) chk s by auto
qed simp

lemma sorted_length: "sfold sort_areas ps ms = Inr ms' \<Longrightarrow> length ms' = length ms"
proof (induction ps arbitrary: ms)
  case (Cons p ps)
  then obtain u where u: "sort_areas p ms = Inr u" "sfold sort_areas ps u = Inr ms'" by (auto simp: sbind_eq_Inr)
  have "length u = length ms" using u(1) by (auto simp: sort_areas_def Let_def sbind_eq_Inr sort_segment_def)
  then show ?case using Cons.IH [OF u(2)] by simp
qed simp

section \<open>Sorted areas are searchable\<close>

text \<open>What the tool does not check of an area: it is not empty and does not run over the end of memory.\<close>

definition area_sound :: "xmcMemoryArea \<Rightarrow> bool" where
  "area_sound m \<longleftrightarrow> 0 < ma_size m \<and> unat (ma_startAddr m) + unat (ma_size m) \<le> 2 ^ 32"

lemma span_end_unat:
  assumes "area_sound m"
  shows "unat (span_end (ma_startAddr m) (ma_size m)) = unat (ma_startAddr m) + unat (ma_size m) - 1"
    "ma_startAddr m \<le> span_end (ma_startAddr m) (ma_size m)"
proof -
  have sz: "0 < unat (ma_size m)" using assms by (simp add: area_sound_def word_less_nat_alt)
  then have "unat (ma_startAddr m) + unat (ma_size m - 1) < 2 ^ 32" "unat (ma_size m - 1) = unat (ma_size m) - 1"
    using assms unat_minus_one [of "ma_size m"] by (auto simp: area_sound_def)
  then have "unat (ma_startAddr m + (ma_size m - 1)) = unat (ma_startAddr m) + unat (ma_size m) - 1"
    using unat_add_lem [where 'a = 32, of "ma_startAddr m" "ma_size m - 1"] sz by simp
  then show 1: "unat (span_end (ma_startAddr m) (ma_size m)) = unat (ma_startAddr m) + unat (ma_size m) - 1"
    by (simp add: span_end_def algebra_simps)
  show "ma_startAddr m \<le> span_end (ma_startAddr m) (ma_size m)" using 1 sz by (simp add: word_le_nat_alt)
qed

lemma apart_sorted:
  assumes "area_apart m m' \<or> area_apart m' m" "area_sound m" "area_sound m'" "aligned m" "aligned m'"
    and "ma_startAddr m < ma_startAddr m'"
  shows "span_end (ma_startAddr m) (ma_size m) < ma_startAddr m'"
proof -
  have "4096 dvd unat (ma_startAddr m)" "4096 dvd unat (ma_size m)" "4096 dvd unat (ma_startAddr m')"
    using assms(4,5) by (simp_all add: aligned_def aligned_dvd)
  then obtain a n b where d: "unat (ma_startAddr m) = 4096 * a" "unat (ma_size m) = 4096 * n" "unat (ma_startAddr m') = 4096 * b"
    by (auto simp: dvd_def)
  have "0 < unat (ma_size m)" using assms(2) by (simp add: area_sound_def word_less_nat_alt)
  moreover have "\<not> span_end (ma_startAddr m') (ma_size m') \<le> ma_startAddr m"
    using span_end_unat(2) [OF assms(3)] assms(6) by (meson leD le_less_trans less_le_trans order.strict_trans2)
  then have "span_end (ma_startAddr m) (ma_size m) \<le> ma_startAddr m'"
    using assms(1) by (auto simp: area_apart_def apart_def)
  then have "unat (ma_startAddr m) + unat (ma_size m) - 1 \<le> unat (ma_startAddr m')"
    unfolding word_le_nat_alt span_end_unat(1) [OF assms(2)] .
  ultimately have n: "0 < n" "4096 * (a + n) \<le> 4096 * b + 1" unfolding d by simp_all
  have "(4096 * b + 1) div 4096 = b" by simp
  then have "a + n \<le> b" using div_le_mono [OF n(2), of 4096] by simp
  then have "unat (ma_startAddr m) + unat (ma_size m) - 1 < unat (ma_startAddr m')"
    unfolding d using n(1) by linarith
  then show ?thesis using span_end_unat(1) [OF assms(2)] by (simp add: word_less_nat_alt)
qed

lemma compat_mem:
  assumes "sorted_wrt compat ms" "m \<in> set ms" "m' \<in> set ms" "m \<noteq> m'"
  shows "compat m m'"
proof -
  obtain i j where ij: "i < length ms" "j < length ms" "ms ! i = m" "ms ! j = m'"
    using assms(2,3) by (auto simp: in_set_conv_nth)
  then have "i < j \<or> j < i" using assms(4) by (metis nat_neq_iff)
  then show ?thesis using sorted_wrt_nth_less [OF assms(1)] ij compat_sym by metis
qed

lemma stretch_set: "set (stretch s xs) \<subseteq> set xs"
  unfolding stretch_def by (meson order_trans set_drop_subset set_take_subset)

lemma searchable:
  assumes "areas_fine rs ms" "sorted_wrt (<) (map ma_startAddr zs)" "set zs \<subseteq> set ms"
    and "\<forall>m \<in> set zs. area_sound m" "\<forall>m \<in> set zs. \<forall>m' \<in> set zs. m \<noteq> m' \<longrightarrow> \<not> both_shared m m'"
  shows "sorted_wrt (\<lambda>m m'. ma_startAddr m + ma_size m - 1 < ma_startAddr m') zs"
    "\<forall>m \<in> set zs. ma_startAddr m \<le> ma_startAddr m + ma_size m - 1"
proof -
  show "\<forall>m \<in> set zs. ma_startAddr m \<le> ma_startAddr m + ma_size m - 1"
    using assms(4) span_end_unat(2) by (auto simp: span_end_def)
  have "sorted_wrt (\<lambda>m m'. ma_startAddr m < ma_startAddr m') zs" using assms(2) by (simp add: sorted_wrt_map)
  then show "sorted_wrt (\<lambda>m m'. ma_startAddr m + ma_size m - 1 < ma_startAddr m') zs"
  proof (rule sorted_wrt_mono_rel [rotated])
    fix m m' assume m: "m \<in> set zs" "m' \<in> set zs" "ma_startAddr m < ma_startAddr m'"
    then have ne: "m \<noteq> m'" by auto
    have "compat m m'" using compat_mem [OF _ _ _ ne, of ms] assms(1,3) m(1,2) by (auto simp: areas_fine_def)
    then have "area_apart m m'" using assms(5) m(1,2) ne by (auto simp: compat_def)
    then have "span_end (ma_startAddr m) (ma_size m) < ma_startAddr m'"
      using apart_sorted [of m m'] m assms(1,3,4) by (auto simp: areas_fine_def)
    then show "ma_startAddr m + ma_size m - 1 < ma_startAddr m'" by (simp add: span_end_def)
  qed
qed

end
