(* ===== verification/ConfRead.thy ===== *)
theory ConfRead
  imports ConfPlan ConfMem
begin

text \<open>
  The tables of an accepted description: the invariants of the memory and of the plans, followed
  through all elements, and what the end of the description does with the tables.
\<close>

section \<open>From the elements to the end of the description\<close>

definition region_of :: "region_xml \<Rightarrow> xmcMemoryRegion" where
  "region_of rx = \<lparr>mr_startAddr = rx_start rx, mr_size = rx_size rx, mr_flags = rx_flags rx\<rparr>"

lemma Region_node_tab: "Region_node rx x = Inr x' \<Longrightarrow> xmcMemRegTab x' = xmcMemRegTab x @ [region_of rx]"
  by (auto simp: Region_node_def region_of_def Let_def sbind_eq_Inr)

lemma regions_read:
  "sfold Region_node rxs x = Inr x' \<Longrightarrow> xmcMemRegTab x' = xmcMemRegTab x @ map region_of rxs"
  by (induction rxs arbitrary: x) (auto simp: sbind_eq_Inr dest: Region_node_tab)

definition regs_of :: "xmc \<Rightarrow> xmcMemoryRegion list" where
  "regs_of x = xmcMemRegTab x"

lemma regs_mem_view: "mem_view x' = mem_view x \<Longrightarrow> regs_of x' = regs_of x"
  by (simp add: mem_view_def regs_of_def)

lemma regs_area: "Area_NH1 rsv m x = Inr x' \<Longrightarrow> regs_of x' = regs_of x"
  by (auto simp: Area_NH1_def sbind_eq_Inr regs_of_def)

lemma regs_area_node: "Area_node rsv ax x = Inr x' \<Longrightarrow> regs_of x' = regs_of x"
  by (auto simp: Area_node_def split: prod.split_asm dest!: regs_area regs_mem_view [OF view_string(3)])

lemma regs_part_area: "PartArea_node rsv ax x = Inr x' \<Longrightarrow> regs_of x' = regs_of x"
  unfolding PartArea_node_def by (drule regs_area_node) (simp add: regs_of_def cur_part_upd_def)

lemma regs_partition:
  assumes "Partition_node rsv rsvI nx x = Inr x'"
  shows "regs_of x' = regs_of x"
proof (rule Partition_nodeE [OF assms])
  fix x1 x2 x3
  assume 1: "Partition_attrs nx (x\<lparr>xmcPartitionTab := xmcPartitionTab x @
      [new_partition (nx_hmTab nx) (word_of_nat (length (xmcPhysMemAreaTab x)))]\<rparr>) = Inr x1"
    "sfold (PartArea_node rsv) (nx_areas nx) x1 = Inr x2" "sfold (ToHwIrqLines rsvI) (nx_lines nx) x2 = Inr x3"
    and e: "mem_view x' = mem_view x3"
  have "regs_of x2 = regs_of x1" by (rule view_sfold [OF 1(2)]) (rule regs_part_area)
  moreover have "mem_view x3 = mem_view x2" by (rule view_sfold [OF 1(3)]) (rule view_irq(1))
  ultimately show ?thesis using regs_mem_view [OF view_attrs(1) [OF 1(1)]] regs_mem_view [of x' x2] e by (simp add: regs_of_def)
qed

lemma fixed_mem: "FixedPrio_node fx x = Inr x' \<Longrightarrow> mem_view x' = mem_view x"
  by (auto simp: FixedPrio_node_def sbind_eq_Inr mem_view_def split: prod.split_asm)

lemma slot_mem: "Slot_node k sx x = Inr x' \<Longrightarrow> mem_view x' = mem_view x"
  by (auto simp: Slot_node_def sbind_eq_Inr mem_view_def)

lemma plan_mem:
  assumes "Plan_node px x = Inr x'"
  shows "mem_view x' = mem_view x"
proof -
  obtain off x1 plan where n: "name_string (px_name px) (x\<lparr>xmcCpuCfg := (xmcCpuCfg x)
      \<lparr>cpu_noSchedCyclicPlans := cpu_noSchedCyclicPlans (xmcCpuCfg x) + 1\<rparr>\<rparr>) = (off, x1)"
    and s: "sfold (\<lambda>(e, sx). Slot_node (int e) sx) (enumerate 0 (px_slots px))
      (x1\<lparr>xmcSchedCyclicPlanTab := xmcSchedCyclicPlanTab x1 @ [plan]\<rparr>) = Inr x'"
    using assms by (auto simp: Plan_node_def Let_def sbind_eq_Inr split: prod.split_asm)
  have "mem_view x' = mem_view (x1\<lparr>xmcSchedCyclicPlanTab := xmcSchedCyclicPlanTab x1 @ [plan]\<rparr>)"
    by (rule view_sfold [OF s]) (auto dest: slot_mem split: prod.split_asm)
  then show ?thesis using view_string(3) [OF n] by (simp add: mem_view_def)
qed

lemma processor_mem:
  assumes "Processor_node pr x = Inr x'"
  shows "mem_view x' = mem_view x"
proof (cases pr)
  case (CyclicPlanTable ps)
  show ?thesis
    using view_sfold [where v = mem_view, OF assms [unfolded Processor_node_def CyclicPlanTable processor_xml.case] plan_mem]
    by (simp add: view_simps)
next
  case (FixedPriority fs)
  show ?thesis
    using view_sfold [where v = mem_view, OF assms [unfolded Processor_node_def FixedPriority processor_xml.case] fixed_mem]
    by (simp add: view_simps)
qed

text \<open>The tables at the end tag of the description.\<close>

lemma tables_read:
  assumes "SystemDescription rsv rsvI y = Inr c"
  obtains d where "SystemDescription_NH2 d = Inr c" "conf_mem (cx d)" "xmcMemRegTab (cx d) = map region_of (yx_regions y)"
    "(\<forall>px \<in> set (plans_of (yx_processor y)). slots_sound px) \<longrightarrow> plans_ok (cx d)"
proof -
  let ?x0 = "snd (name_string (yx_name y) (cx empty_conf))"
  obtain x1 x2 x3 c4 x5 x6 d where s: "sfold Region_node (yx_regions y) ?x0 = Inr x1" "Processor_node (yx_processor y) x1 = Inr x2"
    "sfold (\<lambda>(start, sz). MemoryBlock_node rsv start sz) (yx_memBlocks y) x2 = Inr x3"
    "XmHypervisor_node rsv (yx_hpvHm y) (yx_hpvAreas y) (empty_conf\<lparr>cx := x3\<rparr>) = Inr c4"
    "sfold (Area_node rsv) (yx_rswAreas y) (cx c4) = Inr x5" "sfold (Partition_node rsv rsvI) (yx_partitions y) x5 = Inr x6"
    "sfold Channel_node (yx_channels y) (c4\<lparr>cx := x6\<rparr>) = Inr d" "SystemDescription_NH2 d = Inr c"
    using assms unfolding SystemDescription_def hw_elements_def soft_elements_def sbind_eq_Inr by blast
  obtain off where n0: "name_string (yx_name y) (cx empty_conf) = (off, ?x0)" by (cases "name_string (yx_name y) (cx empty_conf)") simp
  define xh where "xh = (cx (empty_conf\<lparr>cx := x3\<rparr>))\<lparr>xmcHpvHmTab := yx_hpvHm y\<rparr>"
  have h: "sfold (\<lambda>(sz, flags). Area_NH1 rsv (hpv_area sz flags)) (yx_hpvAreas y) xh = Inr (cx c4)"
    using s(4) by (auto simp: XmHypervisor_node_def Let_def sbind_eq_Inr xh_def)
  have xh: "mem_view xh = mem_view x3" "plan_view xh = plan_view x3" by (simp_all add: xh_def view_simps)
  have v0: "mem_view ?x0 = mem_view (cx empty_conf)" "plan_view ?x0 = plan_view (cx empty_conf)"
    by (rule view_string(3) [OF n0], rule view_string(4) [OF n0])
  have "conf_mem (cx empty_conf)" by (simp add: conf_mem_def mem_view_def areas_fine_def segs_ok_def empty_conf_def)
  then have "conf_mem ?x0" using conf_mem_cong [OF v0(1)] by simp
  then have "conf_mem x1" by (rule sfold_inv [OF s(1)]) (rule Region_node_mem)
  then have "conf_mem x2" using conf_mem_cong [OF processor_mem [OF s(2)]] by simp
  then have "conf_mem x3" by (rule sfold_inv [OF s(3)]) (auto intro: MemoryBlock_node_mem)
  then have "conf_mem xh" using conf_mem_cong [OF xh(1)] by simp
  then have "conf_mem (cx c4)" by (rule sfold_inv [OF h]) (auto intro: Area_NH1_mem)
  then have "conf_mem x5" by (rule sfold_inv [OF s(5)]) (rule Area_node_mem)
  then have "conf_mem x6" by (rule sfold_inv [OF s(6)]) (rule Partition_node_mem)
  moreover have "mem_view (cx d) = mem_view x6"
    using view_sfold [where v = "\<lambda>c. mem_view (cx c)", OF s(7)] view_channel(1) by simp
  ultimately have 1: "conf_mem (cx d)" using conf_mem_cong by blast
  have "regs_of x1 = map region_of (yx_regions y)"
    using regions_read [OF s(1)] regs_mem_view [OF v0(1)] by (simp add: regs_of_def empty_conf_def)
  moreover have "regs_of x2 = regs_of x1" by (rule regs_mem_view [OF processor_mem [OF s(2)]])
  moreover have "regs_of x3 = regs_of x2"
    by (rule view_sfold [OF s(3)]) (auto simp: MemoryBlock_node_def dest: regs_area split: prod.split_asm)
  moreover have "regs_of xh = regs_of x3" by (rule regs_mem_view [OF xh(1)])
  moreover have "regs_of (cx c4) = regs_of xh" by (rule view_sfold [OF h]) (auto dest: regs_area split: prod.split_asm)
  moreover have "regs_of x5 = regs_of (cx c4)" by (rule view_sfold [OF s(5)]) (rule regs_area_node)
  moreover have "regs_of x6 = regs_of x5" by (rule view_sfold [OF s(6)]) (rule regs_partition)
  moreover have "regs_of (cx d) = regs_of x6" by (rule regs_mem_view) fact
  ultimately have 2: "xmcMemRegTab (cx d) = map region_of (yx_regions y)" by (simp add: regs_of_def)
  have "plans_ok (cx d)" if "\<forall>px \<in> set (plans_of (yx_processor y)). slots_sound px"
  proof -
    have "plan_view x1 = plan_view ?x0" by (rule view_sfold [OF s(1)]) (rule plan_region)
    moreover have "plans_ok (cx empty_conf)" by (simp add: plans_ok_def wf_plans_def empty_conf_def)
    ultimately have "plans_ok x1" using plans_ok_cong [of x1 "cx empty_conf"] v0(2) by simp
    then have "plans_ok x2" by (rule Processor_node_ok [OF s(2)]) (rule that)
    moreover have "plan_view x3 = plan_view x2" by (rule view_sfold [OF s(3)]) (rule plan_block)
    moreover have "plan_view (cx c4) = plan_view xh" by (rule view_sfold [OF h]) (auto dest: plan_area split: prod.split_asm)
    moreover have "plan_view x5 = plan_view (cx c4)" by (rule view_sfold [OF s(5)]) (rule plan_area_node)
    moreover have "plan_view x6 = plan_view x5" by (rule view_sfold [OF s(6)]) (rule plan_partition)
    moreover have "plan_view (cx d) = plan_view x6"
      using view_sfold [where v = "\<lambda>c. plan_view (cx c)", OF s(7)] view_channel(2) by simp
    ultimately show ?thesis using plans_ok_cong [of "cx d" x2] xh(2) by simp
  qed
  then show thesis using that [OF s(8) 1 2] by blast
qed

section \<open>The end of the description\<close>

definition vcpus_of :: "xmc \<Rightarrow> u32 list" where
  "vcpus_of x = map pc_noVCpus (xmcPartitionTab x)"

lemma vcpus_link: "link_port ip x = Inr x' \<Longrightarrow> vcpus_of x' = vcpus_of x"
  by (auto simp: link_port_def sbind_eq_Inr Let_def vcpus_of_def split: option.split_asm)

lemma vcpus_ipvi: "ipvi_part srcs e x = Inr x' \<Longrightarrow> vcpus_of x' = vcpus_of x"
  by (auto simp: ipvi_part_def sbind_eq_Inr sget_eq_Inr vcpus_of_def map_update list_update_same_conv split: prod.split_asm)

lemma end_tables:
  assumes "SystemDescription_NH2 d = Inr c"
  shows "sfold sort_areas (xmcPartitionTab (cx c)) (xmcPhysMemAreaTab (cx d)) = Inr (xmcPhysMemAreaTab (cx c))"
    "map seg (xmcPartitionTab (cx c)) = map seg (xmcPartitionTab (cx d))" "vcpus_of (cx c) = vcpus_of (cx d)"
    "xmcMemRegTab (cx c) = sort_key mr_startAddr (xmcMemRegTab (cx d))"
    "CheckCyclicPlanPartitionId (cx d) = Inr ()" "CheckCyclicPlanVCpuId (cx d) = Inr ()"
proof -
  obtain c1 c2 x where s: "LinkChannels2Ports d = Inr c1" "ProcessIpviTab c1 = Inr c2"
    "SortPhysMemAreas (SetupHwIrqMask (cx c2)) = Inr x" "cx c = SortFpTab (x\<lparr>xmcMemRegTab := sort_key mr_startAddr (xmcMemRegTab x)\<rparr>)"
    and k: "CheckCyclicPlanPartitionId (cx d) = Inr ()" "CheckCyclicPlanVCpuId (cx d) = Inr ()"
    using assms by (auto simp: SystemDescription_NH2_def link_tables_def schedule_checks_def Let_def sbind_eq_Inr SortMemRegions_def)
  let ?m = "SetupHwIrqMask (cx c2)"
  obtain ms where ms: "sfold sort_areas (xmcPartitionTab ?m) (xmcPhysMemAreaTab ?m) = Inr ms" "x = ?m\<lparr>xmcPhysMemAreaTab := ms\<rparr>"
    using s(3) by (auto simp: SortPhysMemAreas_def sbind_eq_Inr)
  have m: "mem_view ?m = mem_view (cx d)" using view_links(1) [OF s(1)] view_ipvis(1) [OF s(2)] by (simp add: view_simps)
  have f: "xmcPartitionTab (cx c) = xmcPartitionTab ?m" "xmcPhysMemAreaTab (cx c) = ms" "xmcMemRegTab (cx c) = sort_key mr_startAddr (xmcMemRegTab ?m)"
    by (simp_all add: s(4) ms(2) SortFpTab_def)
  show "sfold sort_areas (xmcPartitionTab (cx c)) (xmcPhysMemAreaTab (cx d)) = Inr (xmcPhysMemAreaTab (cx c))"
    "map seg (xmcPartitionTab (cx c)) = map seg (xmcPartitionTab (cx d))"
    "xmcMemRegTab (cx c) = sort_key mr_startAddr (xmcMemRegTab (cx d))"
    using m ms(1) f by (simp_all add: mem_view_def)
  obtain x1 x2 where v: "sfold link_port (cx_ipcPortTab d) (cx d) = Inr x1" "cx c1 = x1"
    "sfold (ipvi_part (cx_srcIpviTab c1)) [0..<no_parts (cx c1)] (cx c1) = Inr x2" "cx c2 = x2"
    using s(1,2) by (auto simp: LinkChannels2Ports_def ProcessIpviTab_def sbind_eq_Inr)
  have "vcpus_of x1 = vcpus_of (cx d)" by (rule view_sfold [OF v(1)]) (rule vcpus_link)
  moreover have "vcpus_of x2 = vcpus_of (cx c1)" by (rule view_sfold [OF v(3)]) (rule vcpus_ipvi)
  ultimately show "vcpus_of (cx c) = vcpus_of (cx d)"
    using f(1) v(2,4) by (simp add: vcpus_of_def SetupHwIrqMask_def comp_def)
  show "CheckCyclicPlanPartitionId (cx d) = Inr ()" "CheckCyclicPlanVCpuId (cx d) = Inr ()" by (rule k)+
qed

end
