(* ===== verification/ConfSamples.thy ===== *)
theory ConfSamples
  imports ConfRead
begin

text \<open>Sample descriptions, and how the configuration compiler is evaluated on them in stages.\<close>

section \<open>Sample descriptions\<close>

definition sample_area :: "u32 \<Rightarrow> u32 \<Rightarrow> u32 \<Rightarrow> u32 option \<Rightarrow> area_xml" where
  "sample_area a sz flags at = \<lparr>ax_name = None, ax_start = a, ax_size = sz, ax_flags = flags, ax_mappedAt = at\<rparr>"

definition sample_slot :: "int \<Rightarrow> u32 \<Rightarrow> u32 \<Rightarrow> u32 \<Rightarrow> slot_xml" where
  "sample_slot i p st d = \<lparr>sx_id = i, sx_vCpuId = 0, sx_start = st, sx_duration = d, sx_partitionId = p\<rparr>"

definition sample_plan :: "slot_xml list \<Rightarrow> plan_xml" where
  "sample_plan sl = \<lparr>px_name = None, px_id = 0, px_majorFrame = 1000, px_slots = sl\<rparr>"

definition sample_part :: "int \<Rightarrow> u8 list \<Rightarrow> area_xml list \<Rightarrow> partition_xml" where
  "sample_part i n areas = \<lparr>nx_id = i, nx_name = n, nx_flags = 0, nx_noVCpus = 1, nx_hmTab = [], nx_areas = areas,
     nx_lines = [], nx_ports = None\<rparr>"

definition sample_system :: "region_xml list \<Rightarrow> slot_xml list \<Rightarrow> area_xml list \<Rightarrow> system_xml" where
  "sample_system rs sl areas = \<lparr>yx_name = Some [83], yx_processor = CyclicPlanTable [sample_plan sl], yx_regions = rs,
     yx_memBlocks = [], yx_hpvHm = [], yx_hpvAreas = [(0x100000, 0)], yx_rswAreas = [],
     yx_partitions = [sample_part 0 [65] areas], yx_channels = []\<rparr>"

definition low_region :: region_xml where
  "low_region = \<lparr>rx_flags = 1, rx_start = 0, rx_size = 0x100000\<rparr>"

definition high_region :: region_xml where
  "high_region = \<lparr>rx_flags = 1, rx_start = 0x1000000, rx_size = 0x1000000\<rparr>"

definition plain_system :: system_xml where
  "plain_system = sample_system [low_region, high_region] [sample_slot 0 0 0 400, sample_slot 1 0 500 500]
     [sample_area 0x40000 0x10000 0 None, sample_area 0x10000 0x2000 0 None]"

definition shared_system :: system_xml where
  "shared_system = sample_system [low_region, high_region] [sample_slot 0 0 0 400]
     [sample_area 0x10000 0x10000 1 None, sample_area 0x12000 0x1000 1 (Some 0x40000), sample_area 0x13000 0x1000 1 (Some 0x50000)]"

definition turned_system :: system_xml where
  "turned_system = sample_system [high_region, low_region] [sample_slot 0 0 0 400] [sample_area 0x10000 0x10000 0 None]"

definition wrapped_system :: system_xml where
  "wrapped_system = sample_system [low_region, high_region] [sample_slot 0 0 600 0xFFFFFF00, sample_slot 1 0 500 100] [sample_area 0x10000 0x10000 0 None]"

text \<open>Without channels and interrupts the links leave the tables as they are.\<close>

definition accepted :: "'a parsed \<Rightarrow> bool" where
  "accepted m = (case m of Inl _ \<Rightarrow> False | Inr _ \<Rightarrow> True)"

definition the_conf :: "'a \<Rightarrow> 'a parsed \<Rightarrow> 'a" where
  "the_conf z m = (case m of Inl _ \<Rightarrow> z | Inr x \<Rightarrow> x)"

lemma accepted_the: "accepted m \<Longrightarrow> m = Inr (the_conf z m)"
  by (cases m) (simp_all add: accepted_def the_conf_def)

definition unlinked :: "conf \<Rightarrow> bool" where
  "unlinked c \<longleftrightarrow> cx_ipcPortTab c = [] \<and> cx_srcIpviTab c = [] \<and> xmcDstIpvi (cx c) = [] \<and>
     list_all (\<lambda>p. pc_ipviTab p = replicate CONFIG_XM_MAX_IPVI \<lparr>ipvi_dstOffset = 0, ipvi_noDsts = 0\<rparr> \<and>
       list_all (\<lambda>i. word_of_int (xmcHwIrqOwner (cx c) ! i) \<noteq> pc_id p) [0..<CONFIG_NO_HWIRQS]) (xmcPartitionTab (cx c))"

lemma unlinked_mask:
  assumes "unlinked c"
  shows "SetupHwIrqMask (cx c) = cx c"
proof -
  have id: "fold (\<lambda>i m. if word_of_int (xmcHwIrqOwner (cx c) ! i) = pc_id p then m OR push_bit i 1 else m) is z = z"
    if "list_all (\<lambda>i. word_of_int (xmcHwIrqOwner (cx c) ! i) \<noteq> pc_id p) is" for p "is" and z :: u32
    using that by (induction "is" arbitrary: z) simp_all
  have "map (\<lambda>p. p\<lparr>pc_hwIrqs := fold (\<lambda>i m. if word_of_int (xmcHwIrqOwner (cx c) ! i) = pc_id p then m OR push_bit i 1 else m)
      [0..<CONFIG_NO_HWIRQS] (pc_hwIrqs p)\<rparr>) (xmcPartitionTab (cx c)) = xmcPartitionTab (cx c)"
  proof (rule map_idI)
    fix p assume "p \<in> set (xmcPartitionTab (cx c))"
    then have "list_all (\<lambda>i. word_of_int (xmcHwIrqOwner (cx c) ! i) \<noteq> pc_id p) [0..<CONFIG_NO_HWIRQS]"
      using assms unfolding unlinked_def list_all_iff by blast
    then show "p\<lparr>pc_hwIrqs := fold (\<lambda>i m. if word_of_int (xmcHwIrqOwner (cx c) ! i) = pc_id p then m OR push_bit i 1 else m)
      [0..<CONFIG_NO_HWIRQS] (pc_hwIrqs p)\<rparr> = p" by (simp only: id) (cases p, simp)
  qed
  then show ?thesis by (simp add: SetupHwIrqMask_def)
qed

lemma unlinked_links:
  assumes "unlinked c"
  shows "link_tables c = Inr c"
proof -
  have p: "ipvi_part [] e (cx c) = Inr (cx c)" if "e < length (xmcPartitionTab (cx c))" for e
  proof -
    let ?p = "xmcPartitionTab (cx c) ! e"
    have "pc_ipviTab ?p = replicate CONFIG_XM_MAX_IPVI \<lparr>ipvi_dstOffset = 0, ipvi_noDsts = 0\<rparr>"
      using assms that by (simp add: unlinked_def list_all_length)
    then have "?p\<lparr>pc_ipviTab := replicate CONFIG_XM_MAX_IPVI \<lparr>ipvi_dstOffset = 0, ipvi_noDsts = 0\<rparr>\<rparr> = ?p" by (cases ?p) simp
    then show ?thesis using assms that by (simp add: ipvi_part_def sget_def aget_def unlinked_def)
  qed
  have "sfold (ipvi_part []) es (cx c) = Inr (cx c)" if "set es \<subseteq> {..<length (xmcPartitionTab (cx c))}" for es
    using that by (induction es) (simp_all add: p)
  then have "ProcessIpviTab c = Inr c"
    using assms by (simp add: ProcessIpviTab_def no_parts_def unlinked_def atLeast_upt)
  then show ?thesis
    using assms unlinked_mask [OF assms]
    by (simp add: link_tables_def LinkChannels2Ports_def CheckIpviTab_def sfor_def unlinked_def cx_upd_def)
qed

definition stage1 :: "system_xml \<Rightarrow> xmc" where
  "stage1 y = the_conf (cx empty_conf) (hw_elements [] y (cx empty_conf))"

definition stage2 :: "system_xml \<Rightarrow> conf" where
  "stage2 y = the_conf empty_conf (soft_elements [] [] y (stage1 y))"

definition stage3 :: "system_xml \<Rightarrow> xmc" where
  "stage3 y = the_conf (cx empty_conf) (SortPhysMemAreas (cx (stage2 y)))"

definition sample_conf :: "system_xml \<Rightarrow> conf" where
  "sample_conf y = (stage2 y)\<lparr>cx := SortFpTab (the_conf (cx empty_conf) (SortMemRegions (stage3 y)))\<rparr>"

lemma sample_accepted:
  assumes "accepted (hw_elements [] y (cx empty_conf))" "accepted (soft_elements [] [] y (stage1 y))"
    "accepted (schedule_checks (cx (stage2 y)))" "unlinked (stage2 y)" "accepted (HmCheckExistMaintenancePlan (cx (stage2 y)))"
    "accepted (SortPhysMemAreas (cx (stage2 y)))" "accepted (SortMemRegions (stage3 y))"
  shows "SystemDescription [] [] y = Inr (sample_conf y)"
proof -
  have "hw_elements [] y (cx empty_conf) = Inr (stage1 y)"
    unfolding stage1_def by (rule accepted_the [OF assms(1)])
  moreover have "soft_elements [] [] y (stage1 y) = Inr (stage2 y)"
    unfolding stage2_def by (rule accepted_the [OF assms(2)])
  moreover have "SortPhysMemAreas (cx (stage2 y)) = Inr (stage3 y)"
    unfolding stage3_def by (rule accepted_the [OF assms(6)])
  moreover obtain r where "SortMemRegions (stage3 y) = Inr r" "the_conf (cx empty_conf) (SortMemRegions (stage3 y)) = r"
    using accepted_the [OF assms(7)] by metis
  moreover have "schedule_checks (cx (stage2 y)) = Inr ()" "HmCheckExistMaintenancePlan (cx (stage2 y)) = Inr ()"
    using assms(3,5) by (auto simp: accepted_def split: sum.splits)
  ultimately show ?thesis
    by (simp add: SystemDescription_def SystemDescription_NH2_def sample_conf_def unlinked_links [OF assms(4)])
qed

end
