(* ===== verification/ConfProps.thy ===== *)
theory ConfProps
  imports ConfSamples
begin

text \<open>Properties of the configuration compiler: what the hypervisor may rely on, and what slips through.\<close>

section \<open>The plans\<close>

text \<open>
  C18: The plans of an accepted configuration whose slots are sound, that is, not empty and with an end
  that does not wrap around 32 bits, are what the scheduler assumes: in the tables that are linked with
  the hypervisor the slots of every plan are ordered, disjoint and inside the major frame, and each
  belongs to a virtual processor of a partition that exists. The compiler does not check that slots are
  sound; \<open>wrapped_slot_accepted\<close> is an accepted configuration with one that is not.
\<close>

theorem accepted_plans_schedulable:
  assumes "SystemDescription rsv rsvIrqs y = Inr c" "\<forall>px \<in> set (plans_of (yx_processor y)). slots_sound px"
    and "length (xmcSchedCyclicSlotTab (cx c)) < 2 ^ 32"
  shows "wf_plans (cx c) \<and> (\<forall>plan \<in> set (xmcSchedCyclicPlanTab (cx c)). \<forall>k < nat (plan_noSlots plan).
    \<exists>p. aget (xmcPartitionTab (cx c)) (unat (slot_partitionId (slot_at (cx c) plan k))) = Some p \<and>
      slot_vCpuId (slot_at (cx c) plan k) < pc_noVCpus p)"
proof (intro conjI ballI allI impI)
  obtain d where d: "SystemDescription_NH2 d = Inr c" "plans_ok (cx d)" using tables_read [OF assms(1)] assms(2) by metis
  have v: "plan_view (cx c) = plan_view (cx d)" by (rule plan_end [OF d(1)])
  then have tabs: "xmcSchedCyclicSlotTab (cx d) = xmcSchedCyclicSlotTab (cx c)" "xmcSchedCyclicPlanTab (cx d) = xmcSchedCyclicPlanTab (cx c)"
    by (simp_all add: plan_view_def)
  show wf: "wf_plans (cx c)" using d(2) plans_ok_cong [OF v] assms(3) by (simp add: plans_ok_def)
  fix plan k assume k: "plan \<in> set (xmcSchedCyclicPlanTab (cx c))" "k < nat (plan_noSlots plan)"
  have w: "wf_plan (cx c) plan" using wf k(1) by (simp add: wf_plans_def)
  have i: "unat (word_of_nat k + plan_slotsOffset plan) = unat (plan_slotsOffset plan) + k"
    using wf_planD(2) [OF w k(2)] by (simp add: add.commute)
  let ?sl = "slot_at (cx c) plan k"
  have "sget (xmcSchedCyclicSlotTab (cx d)) (unat (word_of_nat k + plan_slotsOffset plan)) = Inr ?sl"
    using w k(2) unfolding i tabs by (auto simp: wf_plan_def Let_def sget_eq_Inr slot_at_def)
  moreover have "sbind (sget (xmcSchedCyclicSlotTab (cx d)) (unat (word_of_nat k + plan_slotsOffset plan))) (\<lambda>sl.
      sbind (sget (xmcPartitionTab (cx d)) (unat (slot_partitionId sl))) (\<lambda>p. refuse (slot_vCpuId sl \<ge> pc_noVCpus p) BadVCpuId)) = Inr ()"
    using end_tables(6) [OF d(1)] k unfolding CheckCyclicPlanVCpuId_def each_slot_def sfor_eq_Inr tabs by simp
  ultimately have "sbind (sget (xmcPartitionTab (cx d)) (unat (slot_partitionId ?sl))) (\<lambda>p. refuse (slot_vCpuId ?sl \<ge> pc_noVCpus p) BadVCpuId) = Inr ()"
    by simp
  then obtain p where p: "unat (slot_partitionId ?sl) < length (xmcPartitionTab (cx d))"
    "slot_vCpuId ?sl < vcpus_of (cx d) ! unat (slot_partitionId ?sl)"
    by (auto simp: sbind_eq_Inr sget_eq_Inr vcpus_of_def not_le)
  have "length (xmcPartitionTab (cx c)) = length (xmcPartitionTab (cx d))"
    using end_tables(2) [OF d(1)] by (metis length_map)
  then show "\<exists>p. aget (xmcPartitionTab (cx c)) (unat (slot_partitionId ?sl)) = Some p \<and> slot_vCpuId ?sl < pc_noVCpus p"
    using p(1) p(2) [folded end_tables(3) [OF d(1)]] by (simp add: aget_def vcpus_of_def)
qed

lemma plain_accepted: "SystemDescription [] [] plain_system = Inr (sample_conf plain_system)"
proof (rule sample_accepted)
  show "accepted (hw_elements [] plain_system (cx empty_conf))" by code_simp
  show "accepted (soft_elements [] [] plain_system (stage1 plain_system))" by code_simp
  show "accepted (schedule_checks (cx (stage2 plain_system)))" by code_simp
  show "unlinked (stage2 plain_system)" by code_simp
  show "accepted (HmCheckExistMaintenancePlan (cx (stage2 plain_system)))" by code_simp
  show "accepted (SortPhysMemAreas (cx (stage2 plain_system)))" by code_simp
  show "accepted (SortMemRegions (stage3 plain_system))" by code_simp
qed

theorem accepted_plans_schedulable_witness: "wf_plans (cx (sample_conf plain_system))"
proof -
  have "length (xmcSchedCyclicSlotTab (cx (sample_conf plain_system))) = 2" by code_simp
  moreover have "\<forall>px \<in> set (plans_of (yx_processor plain_system)). slots_sound px"
    by (simp add: plain_system_def sample_system_def plans_of_def sample_plan_def slots_sound_def sample_slot_def)
  ultimately show ?thesis using accepted_plans_schedulable [OF plain_accepted] by simp
qed

section \<open>The memory\<close>

text \<open>
  C17: The areas of a partition of an accepted configuration can be searched when they are not empty, do
  not run over the end of memory, and no two of them are shared: in the tables that are linked
  with the hypervisor they are then sorted and disjoint, and the binary search of the hypervisor
  returns what the linear search returns for every address. When the regions were given in ascending
  order, each area also lies in the region it names. The conditions are not checked by the compiler;
  \<open>shared_area_hidden\<close> and \<open>region_index_stale\<close> are accepted configurations without them.
\<close>

theorem accepted_areas_searchable:
  assumes "SystemDescription rsv rsvIrqs y = Inr c" "p \<in> set (xmcPartitionTab (cx c))"
    and "length (xmcPhysMemAreaTab (cx c)) < 2 ^ 32" "\<forall>m \<in> set (areas_of p (cx c)). area_sound m"
    and "\<forall>m \<in> set (areas_of p (cx c)). \<forall>m' \<in> set (areas_of p (cx c)). m \<noteq> m' \<longrightarrow> \<not> both_shared m m'"
  shows "areas_ok p (cx c) \<and> find_area a p (cx c) = Some (List.find (in_area a) (areas_of p (cx c))) \<and>
    (sorted (map rx_start (yx_regions y)) \<and> length (yx_regions y) < 2 ^ 32 \<longrightarrow>
      (\<forall>m \<in> set (areas_of p (cx c)). covered (xmcMemRegTab (cx c)) m))"
proof -
  obtain d where d: "SystemDescription_NH2 d = Inr c" "conf_mem (cx d)" "xmcMemRegTab (cx d) = map region_of (yx_regions y)"
    using tables_read [OF assms(1)] by metis
  note E = end_tables [OF d(1)]
  let ?ms = "xmcPhysMemAreaTab (cx d)" and ?ms' = "xmcPhysMemAreaTab (cx c)"
  have fine: "areas_fine (xmcMemRegTab (cx d)) ?ms" and segs: "length ?ms < 2 ^ 32 \<Longrightarrow> segs_ok (map seg (xmcPartitionTab (cx c))) (length ?ms)"
    using d(2) E(2) by (simp_all add: conf_mem_def mem_view_def)
  have "length ?ms' = length ?ms" using sorted_length [OF E(1)] .
  then have len: "length ?ms' = length ?ms" "segs_ok (map seg (xmcPartitionTab (cx c))) (length ?ms)" using segs assms(3) by simp_all
  have S: "areas_of p (cx c) = sort_key ma_startAddr (stretch (seg p) ?ms)" "sorted_wrt (<) (map ma_startAddr (areas_of p (cx c)))"
    using sort_all_areas [OF E(1) len(2)] assms(2) by (auto simp: areas_of_def stretch_def seg_def)
  have sub: "set (areas_of p (cx c)) \<subseteq> set ?ms" unfolding S(1) using stretch_set [of "seg p" ?ms] by simp
  have "unat (pc_physicalMemoryAreasOffset p) + nat (pc_noPhysicalMemoryAreas p) \<le> length ?ms'"
    using len assms(2) by (auto simp: segs_ok_def seg_def)
  then have ok: "areas_ok p (cx c)"
    using searchable [OF fine S(2) sub assms(4,5)] by (simp add: areas_ok_def)
  have "covered (xmcMemRegTab (cx c)) m"
    if "sorted (map rx_start (yx_regions y))" "length (yx_regions y) < 2 ^ 32" "m \<in> set (areas_of p (cx c))" for m
  proof -
    have "map mr_startAddr (xmcMemRegTab (cx d)) = map rx_start (yx_regions y)" by (simp add: d(3) region_of_def comp_def)
    then have "xmcMemRegTab (cx c) = xmcMemRegTab (cx d)" using E(4) that(1) by (simp add: sort_key_id_if_sorted)
    moreover have "length (xmcMemRegTab (cx d)) < 2 ^ 32" using that(2) by (simp add: d(3))
    ultimately show ?thesis using fine sub that(3) by (auto simp: areas_fine_def)
  qed
  then show ?thesis using ok find_area_linear [OF ok] by blast
qed

theorem accepted_areas_searchable_witness:
  "find_area 0x11000 (hd (xmcPartitionTab (cx (sample_conf plain_system)))) (cx (sample_conf plain_system)) =
     Some (List.find (in_area 0x11000) (areas_of (hd (xmcPartitionTab (cx (sample_conf plain_system)))) (cx (sample_conf plain_system))))"
proof -
  let ?c = "cx (sample_conf plain_system)" and ?p = "hd (xmcPartitionTab (cx (sample_conf plain_system)))"
  have "xmcPartitionTab ?c \<noteq> []" by code_simp
  then have p: "?p \<in> set (xmcPartitionTab ?c)" by simp
  have "length (xmcPhysMemAreaTab ?c) = 3" by code_simp
  then have l: "length (xmcPhysMemAreaTab ?c) < 2 ^ 32" by simp
  have a: "areas_of ?p ?c = [\<lparr>ma_nameOffset = 0, ma_startAddr = 0x10000, ma_mappedAt = 0x10000, ma_size = 0x2000, ma_flags = 0, ma_memoryRegionOffset = 0\<rparr>,
    \<lparr>ma_nameOffset = 0, ma_startAddr = 0x40000, ma_mappedAt = 0x40000, ma_size = 0x10000, ma_flags = 0, ma_memoryRegionOffset = 0\<rparr>]" by code_simp
  have s: "\<forall>m \<in> set (areas_of ?p ?c). area_sound m" unfolding a by (simp add: area_sound_def)
  have b: "\<forall>m \<in> set (areas_of ?p ?c). \<forall>m' \<in> set (areas_of ?p ?c). m \<noteq> m' \<longrightarrow> \<not> both_shared m m'"
    unfolding a by (simp add: both_shared_def XM_MEM_AREA_SHARED_def)
  show ?thesis using accepted_areas_searchable [OF plain_accepted p l s b] by blast
qed

lemma shared_accepted: "SystemDescription [] [] shared_system = Inr (sample_conf shared_system)"
proof (rule sample_accepted)
  show "accepted (hw_elements [] shared_system (cx empty_conf))" by code_simp
  show "accepted (soft_elements [] [] shared_system (stage1 shared_system))" by code_simp
  show "accepted (schedule_checks (cx (stage2 shared_system)))" by code_simp
  show "unlinked (stage2 shared_system)" by code_simp
  show "accepted (HmCheckExistMaintenancePlan (cx (stage2 shared_system)))" by code_simp
  show "accepted (SortPhysMemAreas (cx (stage2 shared_system)))" by code_simp
  show "accepted (SortMemRegions (stage3 shared_system))" by code_simp
qed

text \<open>
  C19: Shared areas of one partition may overlap, which the compiler accepts: the check of two areas
  lets shared ones pass even when they belong to the same partition. Then the binary search of the
  hypervisor misses an area: an address inside the first of three shared areas is not found.
\<close>

theorem shared_area_hidden:
  "\<exists>c p m. SystemDescription [] [] shared_system = Inr c \<and> p \<in> set (xmcPartitionTab (cx c)) \<and>
     m \<in> set (areas_of p (cx c)) \<and> in_area 0x15000 m \<and> find_area 0x15000 p (cx c) = Some None"
proof -
  let ?c = "sample_conf shared_system"
  note shared_accepted
  moreover have "xmcPartitionTab (cx ?c) \<noteq> []" by code_simp
  moreover have "list_ex (in_area 0x15000) (areas_of (hd (xmcPartitionTab (cx ?c))) (cx ?c))" by code_simp
  moreover have "find_area 0x15000 (hd (xmcPartitionTab (cx ?c))) (cx ?c) = Some None" by code_simp
  ultimately show ?thesis by (auto simp: list_ex_iff intro!: exI [of _ ?c] exI [of _ "hd (xmcPartitionTab (cx ?c))"])
qed

lemma turned_accepted: "SystemDescription [] [] turned_system = Inr (sample_conf turned_system)"
proof (rule sample_accepted)
  show "accepted (hw_elements [] turned_system (cx empty_conf))" by code_simp
  show "accepted (soft_elements [] [] turned_system (stage1 turned_system))" by code_simp
  show "accepted (schedule_checks (cx (stage2 turned_system)))" by code_simp
  show "unlinked (stage2 turned_system)" by code_simp
  show "accepted (HmCheckExistMaintenancePlan (cx (stage2 turned_system)))" by code_simp
  show "accepted (SortPhysMemAreas (cx (stage2 turned_system)))" by code_simp
  show "accepted (SortMemRegions (stage3 turned_system))" by code_simp
qed

text \<open>
  C20: The region of an area is stale. The compiler stores the index of the region when it reads the
  area and sorts the regions at the end. When the regions are not in ascending order, it accepts the
  configuration and links an area with a region that does not cover it.
\<close>

theorem region_index_stale:
  "\<exists>c p m. SystemDescription [] [] turned_system = Inr c \<and> p \<in> set (xmcPartitionTab (cx c)) \<and>
     m \<in> set (areas_of p (cx c)) \<and> \<not> covered (xmcMemRegTab (cx c)) m \<and> (\<exists>r \<in> set (xmcMemRegTab (cx c)). covers r m)"
proof -
  let ?c = "sample_conf turned_system" and ?p = "hd (xmcPartitionTab (cx (sample_conf turned_system)))"
  note turned_accepted
  moreover have "xmcPartitionTab (cx ?c) \<noteq> []" by code_simp
  moreover have "areas_of ?p (cx ?c) \<noteq> []" by code_simp
  moreover have "\<not> covered (xmcMemRegTab (cx ?c)) (hd (areas_of ?p (cx ?c)))" by code_simp
  moreover have "list_ex (\<lambda>r. covers r (hd (areas_of ?p (cx ?c)))) (xmcMemRegTab (cx ?c))" by code_simp
  ultimately show ?thesis
    by (auto simp: list_ex_iff intro!: exI [of _ ?c] exI [of _ ?p] exI [of _ "hd (areas_of ?p (cx ?c))"])
qed

lemma wrapped_accepted: "SystemDescription [] [] wrapped_system = Inr (sample_conf wrapped_system)"
proof (rule sample_accepted)
  show "accepted (hw_elements [] wrapped_system (cx empty_conf))" by code_simp
  show "accepted (soft_elements [] [] wrapped_system (stage1 wrapped_system))" by code_simp
  show "accepted (schedule_checks (cx (stage2 wrapped_system)))" by code_simp
  show "unlinked (stage2 wrapped_system)" by code_simp
  show "accepted (HmCheckExistMaintenancePlan (cx (stage2 wrapped_system)))" by code_simp
  show "accepted (SortPhysMemAreas (cx (stage2 wrapped_system)))" by code_simp
  show "accepted (SortMemRegions (stage3 wrapped_system))" by code_simp
qed

text \<open>A slot that runs over the end of time passes: it ends before it starts and the next one overlaps it.\<close>

lemma wrapped_slot_accepted: "\<not> wf_plans (cx (sample_conf wrapped_system))"
proof -
  let ?x = "cx (sample_conf wrapped_system)" and ?p = "hd (xmcSchedCyclicPlanTab (cx (sample_conf wrapped_system)))"
  have "xmcSchedCyclicPlanTab ?x \<noteq> []" by code_simp
  moreover have "slot_eExec (slot_at ?x ?p 0) < slot_sExec (slot_at ?x ?p 0)" by code_simp
  moreover have "0 < nat (plan_noSlots ?p)" by code_simp
  ultimately show ?thesis using wf_planD(3) list.set_sel(1) unfolding wf_plans_def by (metis less_asym)
qed

end
