(* ===== verification/ConfConv.thy ===== *)
theory ConfConv
  imports ConfCheck
begin

text \<open>
  How the configuration compiler reads attributes that are words or lists of words,
  user/tools/xmcparser/conv.c, and the bitmap of I/O ports of a partition, user/tools/xmcparser/x86.c.
  The functions that go through sscanf with floating point numbers are not modelled.
\<close>

section \<open>Words\<close>

definition lower_char :: "char \<Rightarrow> char" where
  "lower_char c = (let n = of_char c :: nat in if 65 \<le> n \<and> n \<le> 90 then char_of (n + 32) else c)"

definition strcaseeq :: "string \<Rightarrow> string \<Rightarrow> bool" where
  "strcaseeq s t \<longleftrightarrow> map lower_char s = map lower_char t"

definition ToYNTF :: "string \<Rightarrow> s32 parsed" where
  "ToYNTF s = (if strcaseeq s ''yes'' \<or> strcaseeq s ''true'' then Inr 1
     else if strcaseeq s ''no'' \<or> strcaseeq s ''false'' then Inr 0 else Inl BadBoolean)"

definition ToCommPortType :: "string \<Rightarrow> s32 parsed" where
  "ToCommPortType s = (if s = ''queuing'' then Inr XM_QUEUING_PORT else if s = ''sampling'' then Inr XM_SAMPLING_PORT
     else Inl BadPortType)"

definition ToCommPortDirection :: "string \<Rightarrow> u32 parsed" where
  "ToCommPortDirection s = (if s = ''source'' then Inr XM_SOURCE_PORT
     else if s = ''destination'' then Inr XM_DESTINATION_PORT else Inl BadPortDirection)"

definition XMC_REG_FLAG_ROM :: u32 where "XMC_REG_FLAG_ROM = 2"

definition ToRegionFlags :: "string \<Rightarrow> u32 parsed" where
  "ToRegionFlags s = (if strcaseeq s ''ram'' then Inr XMC_REG_FLAG_PGTAB
     else if strcaseeq s ''rom'' then Inr XMC_REG_FLAG_ROM else Inl BadRegionType)"

text \<open>The words of a list: a blank at the end ends the list, two blanks enclose an empty word.\<close>

function id_list :: "string \<Rightarrow> string list" where
  "id_list s = (if s = [] then [] else
     (case dropWhile (\<lambda>c. c \<noteq> CHR 0x20) s of [] \<Rightarrow> [s]
      | _ # rest \<Rightarrow> takeWhile (\<lambda>c. c \<noteq> CHR 0x20) s # id_list rest))"
  by pat_completeness auto

termination
proof (relation "measure length")
  fix s x rest assume "dropWhile (\<lambda>c. c \<noteq> CHR 0x20) s = x # rest"
  then have "length (x # rest) \<le> length s" by (metis length_dropWhile_le)
  then show "(rest, s) \<in> measure length" by simp
qed simp

declare id_list.simps [simp del]

text \<open>\<open>ToFlags\<close>: every word must be in the table; the flags of all entries with that name are set.\<close>

definition flag_of :: "(string \<times> u32) list \<Rightarrow> string \<Rightarrow> u32 \<Rightarrow> u32 parsed" where
  "flag_of tab w flags =
     (let found = filter (\<lambda>(a, f). strcaseeq w a) tab
      in if found = [] then Inl BadFlag else Inr (fold (\<lambda>(a, f) x. x OR f) found flags))"

definition ToFlags :: "(string \<times> u32) list \<Rightarrow> string \<Rightarrow> u32 parsed" where
  "ToFlags tab s = sfold (flag_of tab) (id_list s) 0"

definition partitionFlagsTab :: "(string \<times> u32) list" where
  "partitionFlagsTab = [(''system'', 0x100), (''fp'', 0x200), (''none'', 0)]"

definition physMemAreaFlagsTab :: "(string \<times> u32) list" where
  "physMemAreaFlagsTab = [(''unmapped'', 2), (''shared'', 1), (''read-only'', 4), (''uncacheable'', 8), (''rom'', 0x10),
     (''flag0'', 0x20), (''flag1'', 0x40), (''flag2'', 0x80), (''flag3'', 0x100), (''iommu'', 0x400), (''none'', 0)]"

definition ToPartitionFlags :: "string \<Rightarrow> u32 parsed" where
  "ToPartitionFlags = ToFlags partitionFlagsTab"

definition ToPhysMemAreaFlags :: "string \<Rightarrow> u32 parsed" where
  "ToPhysMemAreaFlags = ToFlags physMemAreaFlagsTab"

lemma flags_examples:
  "ToPhysMemAreaFlags ''shared Read-Only'' = Inr 5" "ToPartitionFlags ''system  fp'' = Inl BadFlag"
  "ToPartitionFlags ''fp '' = Inr 0x200"
  by code_simp+

section \<open>I/O ports\<close>

text \<open>At first no port is open: every bit is set. A range clears the bits of its ports.\<close>

definition IoPorts_NH0 :: "u32 list" where
  "IoPorts_NH0 = replicate 2048 (- 1)"

definition open_port :: "nat \<Rightarrow> u32 list \<Rightarrow> u32 list parsed" where
  "open_port port tab = sbind (sget tab (port div 32)) (\<lambda>w. Inr (tab[port div 32 := w AND NOT (push_bit (port mod 32) 1)]))"

definition IoPortRange_NH1 :: "(u32 \<times> u32) list \<Rightarrow> u32 \<Rightarrow> u32 \<Rightarrow> u32 list \<Rightarrow> u32 list parsed" where
  "IoPortRange_NH1 rsv ioPortBase noIoPorts tab =
     (let c = ioPortBase; d = c + noIoPorts - 1
      in sbind (sfor (\<lambda>(a, n). refuse (\<not> (d < a \<or> c \<ge> a + n - 1)) IrqReserved) rsv) (\<lambda>_.
         sfold open_port [unat c..<unat d] tab))"

definition port_open :: "nat \<Rightarrow> u32 list \<Rightarrow> bool" where
  "port_open port tab \<longleftrightarrow> \<not> bit (tab ! (port div 32)) (port mod 32)"

lemma open_port_opens:
  assumes "open_port port tab = Inr tab'" "q div 32 < length tab"
  shows "length tab' = length tab" "port_open q tab' \<longleftrightarrow> q = port \<or> port_open q tab"
proof -
  have tab': "port div 32 < length tab" "tab' = tab[port div 32 := tab ! (port div 32) AND NOT (push_bit (port mod 32) 1)]"
    using assms(1) by (auto simp: open_port_def sbind_eq_Inr sget_eq_Inr)
  then show "length tab' = length tab" by simp
  have eq: "q = port \<longleftrightarrow> q div 32 = port div 32 \<and> q mod 32 = port mod 32" by (metis div_mult_mod_eq)
  have "bit (push_bit (port mod 32) (1 :: u32)) (q mod 32) \<longleftrightarrow> q mod 32 = port mod 32"
    by (auto simp: bit_exp_u32)
  then show "port_open q tab' \<longleftrightarrow> q = port \<or> port_open q tab"
    using tab' assms(2) unfolding eq by (auto simp: port_open_def nth_list_update bit_and_iff bit_not_iff)
qed

text \<open>A range opens its ports but the last one, and no other.\<close>

lemma range_misses_last:
  assumes "IoPortRange_NH1 rsv base n tab = Inr tab'" "q div 32 < length tab" "0 < n" "unat base + unat n < 2 ^ 32"
  shows "port_open q tab' \<longleftrightarrow> unat base \<le> q \<and> q + 1 < unat base + unat n \<or> port_open q tab"
proof -
  have n: "0 < unat n" using assms(3) by (simp add: word_less_nat_alt)
  have "unat (n - 1) = unat n - 1" using assms(3) unat_minus_one [of n] by auto
  moreover have "unat (base + (n - 1)) = unat base + unat (n - 1)"
    by (rule u32_sum) (use assms(4) calculation in linarith)
  ultimately have d: "unat (base + n - 1) = unat base + unat n - 1" using n by (simp add: algebra_simps)
  have r: "sfold open_port [unat base..<unat base + unat n - 1] tab = Inr tab'"
    using assms(1) d by (auto simp: IoPortRange_NH1_def Let_def sbind_eq_Inr)
  have "port_open q tab' \<longleftrightarrow> q \<in> set ps \<or> port_open q tab" if "sfold open_port ps tab = Inr tab'" "q div 32 < length tab" for ps tab
    using that
  proof (induction ps arbitrary: tab)
    case (Cons p ps)
    then obtain u where "open_port p tab = Inr u" "sfold open_port ps u = Inr tab'" by (auto simp: sbind_eq_Inr)
    then show ?case using open_port_opens [of p tab u q] Cons.IH [of u] Cons.prems(2) by auto
  qed simp
  from this [OF r assms(2)] show ?thesis using n by auto
qed

end
