(* ===== verification/Watchdog.thy ===== *)
theory Watchdog
  imports HealthMon
begin

text \<open>
  What the theorems about the schedule and the timers assume of the handler of an expired watchdog,
  for the handler of the model, \<open>hm_level\<close>. Its action is the one that the configuration names for the
  event. When that is to ignore the event, to shut the partition down (a virtual interrupt) or to
  propagate it, the schedule and the timers stay as they are. The other actions halt, suspend or reset a partition or
  the system or change the plan; they are meant to interfere, and no such theorem holds of them.
\<close>

definition watchdog_log :: "guest \<Rightarrow> xmHmLog" where
  "watchdog_log g = hm_log XM_HM_EV_WATCHDOG_TIMER (KID2PARTID (g_id g)) (KID2VCPUID (g_id g)) 0 [0, 0, 0, 0]"

definition watchdog_action :: "addr \<Rightarrow> 'a kstate_scheme \<Rightarrow> u32 option" where
  "watchdog_action k s = do {
     g \<leftarrow> k_g (kthreads s k);
     p \<leftarrow> aget (partitionTab s) (unat (hl_part (watchdog_log g)));
     c \<leftarrow> part_cfg p s;
     map_option hms_action (aget (pc_hmTab c) (unat (hl_event (watchdog_log g))))
   }"

definition mild_actions :: "u32 set" where
  "mild_actions = {XM_HM_AC_IGNORE, XM_HM_AC_SHUTDOWN, XM_HM_AC_PROPAGATE}"

definition mild_hm :: "nat \<Rightarrow> nat \<Rightarrow> 'a hstate_scheme hm_event" where
  "mild_hm n fuel k s = (case watchdog_action k s of
     Some a \<Rightarrow> if a \<in> mild_actions then hm_level n fuel k s else None
   | None \<Rightarrow> None)"

lemma vcpu_pend_ext_mild:
  assumes "vcpu_pend_ext irq k s = Some s'"
  shows "sched_same s s'" "act_frame s s'"
proof -
  show "sched_same s s'" by (rule eng.only) (rule vcpu_pend_ext_only [OF assms])
  show "act_frame s s'"
    using assms by (auto simp: vcpu_pend_ext_def bind_eq_Some_iff SetKThreadFlags_pend_ext act_frame_pend split: if_splits)
qed

lemma SHUTDOWN_PARTITION_mild:
  assumes "SHUTDOWN_PARTITION i s = Some s'"
  shows "sched_same s s' \<and> act_frame s s'"
proof -
  let ?t = "log_audit (AuditPartShutdown i) s"
  obtain ks where "ofold (vcpu_pend_ext XM_VT_EXT_SHUTDOWN) ks ?t = Some s'"
    using assms by (auto simp: SHUTDOWN_PARTITION_def SetPartitionExtIrqPending_def bind_eq_Some_iff)
  moreover have "sched_same s ?t \<and> act_frame s ?t" by (simp add: log_audit_def sched_same_def act_frame_def ext_pending_def)
  ultimately show ?thesis
    by (rule ofold_inv [where P = "\<lambda>u. sched_same s u \<and> act_frame s u"])
      (blast intro: eng.trans act_frame_trans dest: vcpu_pend_ext_mild)
qed

lemma part_action_mild:
  assumes "part_action hm fuel c e p a s = Some (Ret r s')" "a \<in> mild_actions"
  shows "sched_same s s' \<and> act_frame s s'"
  using assms SHUTDOWN_PARTITION_mild [of p s s']
  by (auto simp: part_action_def mild_actions_def hm_action_defs Let_def sched_same_def)

lemma hm_record_mild:
  assumes "hm_record slot l s = Some (l', s')"
  shows "sched_same s s' \<and> act_frame s s'"
  using assms by (auto simp: hm_record_def hm_insert_def bind_eq_Some_iff sched_same_def act_frame_def ext_pending_def Let_def split: if_splits)

lemma raise_mild:
  assumes "HmRaiseEvent hm fuel l s = Some (Ret r s')" "\<not> hl_system l" "aget (partitionTab s) (unat (hl_part l)) = Some p"
    and "part_cfg p s = Some c" "aget (pc_hmTab c) (unat (hl_event l)) = Some slot" "hms_action slot \<in> mild_actions"
  shows "sched_same s s' \<and> act_frame s s'"
proof (cases "hmInit s")
  case True
  let ?t = "\<lambda>s. snd (GetSysClockUsec s)" and ?l = "(l\<lparr>hl_signature := XM_HMLOG_SIGNATURE\<rparr>)\<lparr>hl_timestamp := fst (GetSysClockUsec s)\<rparr>"
  let ?u = "log_audit (AuditHmPartAction (hms_action slot) (hms_log slot)) (?t (log_audit (AuditHmEvent (hl_opCodeL l) (hl_opCodeH l)) s))"
  have k: "sched_same s ?u \<and> act_frame s ?u"
    by (simp add: log_audit_def GetSysClockUsec_def sched_same_def act_frame_def ext_pending_def)
  obtain l' e p' u cT where u: "hm_record slot (l\<lparr>hl_signature := XM_HMLOG_SIGNATURE, hl_timestamp := cT\<rparr>) ?u = Some (l', u)"
    "part_action hm fuel cT e p' (hms_action slot) u = Some (Ret r s')"
    using assms True by (auto simp: HmRaiseEvent_def Let_def split_beta bind_eq_Some_iff log_audit_def GetSysClockUsec_def
        hl_event_def hl_part_def hl_system_def part_cfg_def)
  show ?thesis using k hm_record_mild [OF u(1)] part_action_mild [OF u(2) assms(6)]
    by (blast intro: eng.trans act_frame_trans)
next
  case False
  then show ?thesis using assms(1) by (simp add: HmRaiseEvent_def sched_same_def)
qed

lemma hm_level_mild:
  assumes "hm_level n fuel k s = Some s'" "watchdog_action k s = Some a" "a \<in> mild_actions"
  shows "sched_same s s' \<and> act_frame s s'"
proof (cases n)
  case (Suc m)
  obtain g p c slot where g: "k_g (kthreads s k) = Some g" "aget (partitionTab s) (unat (hl_part (watchdog_log g))) = Some p"
    "part_cfg p s = Some c" "aget (pc_hmTab c) (unat (hl_event (watchdog_log g))) = Some slot" "hms_action slot = a"
    using assms(2) by (auto simp: watchdog_action_def bind_eq_Some_iff)
  obtain r where r: "HmRaiseEvent (hm_level m fuel) fuel (watchdog_log g) s = Some (Ret r s')"
    using assms(1) g(1) Suc by (auto simp: hm_returns_def watchdog_log_def split: option.splits outcome.splits)
  have "\<not> hl_system (watchdog_log g)" by (simp add: watchdog_log_def hm_log_def hl_system_def has_flag_def)
  then show ?thesis using raise_mild [OF r _ g(2,3,4)] g(5) assms(3) by simp
qed (use assms in simp)

text \<open>So the handler of the model satisfies the assumptions wherever the configuration names such an action.\<close>

lemma mild_hm_frames: "hm_sched (mild_hm n fuel)" "hm_frame (mild_hm n fuel)"
  unfolding hm_sched_def hm_frame_def mild_hm_def
  by (auto dest: hm_level_mild split: option.splits if_splits)

end
