(* ===== verification/RsvMem.thy ===== *)
theory RsvMem
  imports Reset "HOL-Library.Multiset"
begin

text \<open>
  The memory the kernel takes at boot. The configuration compiler reserves one block for every request
  it foresees (GenerateRsvMem of user/tools/xmcparser/cgen.c, the blocks of rsvmem.c, the memory map of
  xmcbuild.c); the kernel serves each GET_MEM from the table of the blocks (core/kernel/rsvmem.c). The
  sizes of the kernel's structures come from a generated header, the same for both sides: a record of
  the model. There is one processor, and no device but the memory blocks. None is a read behind the
  end of the table.
\<close>

section \<open>The table of reserved blocks\<close>

record xmcRsvMem =
  rm_obj :: u32
  rm_usedAlign :: u32
  rm_size :: u32

definition RSV_MEM_USED :: u32 where "RSV_MEM_USED = 0x80000000"

definition rm_used :: "xmcRsvMem \<Rightarrow> bool" where
  "rm_used r \<longleftrightarrow> has_flag (rm_usedAlign r) RSV_MEM_USED"

fun InitRsvMem :: "xmcRsvMem list \<Rightarrow> xmcRsvMem list option" where
  "InitRsvMem [] = None"
| "InitRsvMem (r # rs) =
     (if rm_obj r = 0 then Some (r # rs)
      else map_option (Cons (r\<lparr>rm_usedAlign := rm_usedAlign r AND NOT RSV_MEM_USED\<rparr>)) (InitRsvMem rs))"

definition rm_fits :: "u32 \<Rightarrow> u32 \<Rightarrow> xmcRsvMem \<Rightarrow> bool" where
  "rm_fits sz align r \<longleftrightarrow> \<not> rm_used r \<and> rm_usedAlign r AND NOT RSV_MEM_USED = align \<and> rm_size r = sz"

text \<open>The addresses of the table are relative to the configuration, \<open>tab\<close>; 0 is no block.\<close>

fun AllocRsvMem :: "u32 \<Rightarrow> u32 \<Rightarrow> u32 \<Rightarrow> xmcRsvMem list \<Rightarrow> (u32 \<times> xmcRsvMem list) option" where
  "AllocRsvMem tab sz align [] = None"
| "AllocRsvMem tab sz align (r # rs) =
     (if rm_obj r = 0 then Some (0, r # rs)
      else if rm_fits sz align r
      then Some (rm_obj r + tab, r\<lparr>rm_usedAlign := rm_usedAlign r OR RSV_MEM_USED\<rparr> # rs)
      else map_option (\<lambda>(a, rs). (a, r # rs)) (AllocRsvMem tab sz align rs))"

text \<open>The blocks RsvMemDebug warns of.\<close>

fun RsvMemDebug :: "xmcRsvMem list \<Rightarrow> xmcRsvMem list option" where
  "RsvMemDebug [] = None"
| "RsvMemDebug (r # rs) =
     (if rm_obj r = 0 then Some [] else map_option (\<lambda>us. if rm_used r then us else r # us) (RsvMemDebug rs))"

text \<open>GET_MEMA and, but for the clearing of the block, GET_MEMAZ: nothing for a request of no bytes;
  \<open>Inl\<close> is the panic when the pool is exhausted.\<close>

datatype exhausted = PoolExhausted

definition GET_MEMA :: "u32 \<Rightarrow> u32 \<times> u32 \<Rightarrow> xmcRsvMem list \<Rightarrow> (exhausted + u32 \<times> xmcRsvMem list) option" where
  "GET_MEMA tab rq rs = (case rq of (sz, align) \<Rightarrow>
     if sz \<noteq> 0 then map_option (\<lambda>(a, rs). if a = 0 then Inl PoolExhausted else Inr (a, rs)) (AllocRsvMem tab sz align rs)
     else Some (Inr (0, rs)))"

fun get_all :: "u32 \<Rightarrow> (u32 \<times> u32) list \<Rightarrow> xmcRsvMem list \<Rightarrow> (exhausted + u32 list \<times> xmcRsvMem list) option" where
  "get_all tab [] rs = Some (Inr ([], rs))"
| "get_all tab (rq # rqs) rs = do {
     r \<leftarrow> GET_MEMA tab rq rs;
     (case r of Inl e \<Rightarrow> Some (Inl e)
      | Inr (a, rs) \<Rightarrow> map_option (map_sum id (apfst (Cons a))) (get_all tab rqs rs))
   }"

section \<open>The requests of the kernel\<close>

record sizes =
  sz_kThread_ptr :: u32
  sz_kThread :: u32
  sz_guest :: u32
  sz_partition :: u32
  sz_physPage_ptr :: u32
  sz_physPage :: u32
  sz_kDevice :: u32
  sz_memBlockData :: u32
  sz_schedData :: u32
  sz_console :: u32
  sz_partitionStatus :: u32
  sz_logStream :: u32
  sz_channel :: u32
  sz_port :: u32
  sz_msg :: u32

definition ALIGNMENT :: u32 where "ALIGNMENT = 4"
definition NO_CPUS :: u32 where "NO_CPUS = 1"

definition no_partitions :: "xmc \<Rightarrow> u32" where
  "no_partitions c = word_of_nat (length (xmcPartitionTab c))"

definition frame_tables :: "xmc \<Rightarrow> nat \<Rightarrow> (u32 \<times> u32) list option" where
  "frame_tables c area = do {
     m \<leftarrow> aget (xmcPhysMemAreaTab c) area;
     let e = ma_startAddr m + ma_size m - 1;
     let noPages = drop_bit 22 (0xffffffff - ROUNDUP (PHYS2VIRT (e + 1)) LPAGE_SIZE + 1);
     Some [(PTDL2SIZE * noPages, PTDL2SIZE)]
   }"

definition page_descriptors :: "sizes \<Rightarrow> xmc \<Rightarrow> (u32 \<times> u32) list" where
  "page_descriptors z c = (sz_physPage_ptr z * word_of_nat (length (xmcMemRegTab c)), ALIGNMENT) #
     concat (map (\<lambda>m. if has_flag (mr_flags m) XMC_REG_FLAG_PGTAB
       then [(sz_physPage z * (mr_size m div PAGE_BYTES), ALIGNMENT)] else []) (xmcMemRegTab c))"

definition mem_blocks :: "sizes \<Rightarrow> nat \<Rightarrow> (u32 \<times> u32) list" where
  "mem_blocks z n = [(sz_kDevice z * word_of_nat n, ALIGNMENT), (sz_memBlockData z * word_of_nat n, ALIGNMENT)]"

definition object_tables :: "sizes \<Rightarrow> xmc \<Rightarrow> (u32 \<times> u32) list" where
  "object_tables z c = [(sz_console z * no_partitions c, ALIGNMENT), (sz_partitionStatus z * no_partitions c, ALIGNMENT),
     (sz_logStream z * no_partitions c, ALIGNMENT)]"

definition channel_memory :: "sizes \<Rightarrow> xmcCommChannel \<Rightarrow> (u32 \<times> u32) list" where
  "channel_memory z ch = (case ch of
       SamplingChannel l v n \<Rightarrow> [(word_of_int l, ALIGNMENT), (word_of_int n * 4, ALIGNMENT), (word_of_int n * 4, ALIGNMENT)]
     | QueuingChannel l n \<Rightarrow> (sz_msg z * word_of_int n, ALIGNMENT) # replicate (nat n) (word_of_int l, ALIGNMENT))"

definition comm_memory :: "sizes \<Rightarrow> xmc \<Rightarrow> (u32 \<times> u32) list" where
  "comm_memory z c = [(sz_channel z * word_of_nat (length (xmcCommChannelTab c)), ALIGNMENT),
     (sz_port z * word_of_nat (length (xmcCommPorts c)), ALIGNMENT)] @ concat (map (channel_memory z) (xmcCommChannelTab c))"

definition sched_tables :: "sizes \<Rightarrow> xmc \<Rightarrow> (u32 \<times> u32) list" where
  "sched_tables z c = [(sz_partition z * no_partitions c, ALIGNMENT), (sz_schedData z * NO_CPUS, ALIGNMENT)]"

definition thread_memory :: "sizes \<Rightarrow> (u32 \<times> u32) list" where
  "thread_memory z = [(sz_kThread z, ALIGNMENT), (sz_guest z, ALIGNMENT)]"

definition partition_memory :: "sizes \<Rightarrow> xmcPartition \<Rightarrow> (u32 \<times> u32) list" where
  "partition_memory z p = [(pc_noVCpus p * sz_kThread_ptr z, ALIGNMENT), (pct_size p * pc_noVCpus p, PAGE_BYTES)] @
     concat (map (\<lambda>_. thread_memory z) [0..<unat (pc_noVCpus p)])"

definition loader_stack :: "(u32 \<times> u32) list" where
  "loader_stack = [(LDR_STACK_SIZE, PAGE_BYTES)]"

text \<open>The requests in the order of Setup; each partition takes the stack of its loader at its first
  reset, at boot or later.\<close>

definition boot_requests :: "sizes \<Rightarrow> nat \<Rightarrow> xmc \<Rightarrow> nat \<Rightarrow> (u32 \<times> u32) list option" where
  "boot_requests z blocks c area = do {
     frames \<leftarrow> frame_tables c area;
     Some (frames @ page_descriptors z c @ mem_blocks z blocks @ object_tables z c @ comm_memory z c @ sched_tables z c @
       concat (map (\<lambda>p. partition_memory z p @ loader_stack) (xmcPartitionTab c)))
   }"

section \<open>The reservations of the configuration compiler\<close>

definition RsvBlock :: "u32 \<Rightarrow> u32 \<Rightarrow> (u32 \<times> u32) list \<Rightarrow> (u32 \<times> u32) list" where
  "RsvBlock sz align bs = (if sz = 0 \<or> align = 0 then bs else bs @ [(sz, align)])"

definition rsv_threads :: "sizes \<Rightarrow> xmcPartition \<Rightarrow> (u32 \<times> u32) list" where
  "rsv_threads z p = (pc_noVCpus p * sz_kThread_ptr z, ALIGNMENT) #
     concat (map (\<lambda>_. [(sz_kThread z, ALIGNMENT), (sz_guest z, ALIGNMENT)]) [0..<unat (pc_noVCpus p)])"

definition rsv_receivers :: "sizes \<Rightarrow> xmcCommChannel \<Rightarrow> (u32 \<times> u32) list" where
  "rsv_receivers z ch = (case ch of
       SamplingChannel l v n \<Rightarrow> if n \<noteq> 0 then [(word_of_int n * sz_kThread_ptr z, ALIGNMENT), (word_of_int n * 4, ALIGNMENT)] else []
     | QueuingChannel l n \<Rightarrow> [])"

definition ArchMmuRsvMem :: "xmc \<Rightarrow> nat \<Rightarrow> (u32 \<times> u32) list option" where
  "ArchMmuRsvMem c area = do {
     m \<leftarrow> aget (xmcPhysMemAreaTab c) area;
     let e = ROUNDUP (PHYS2VIRT (ma_startAddr m) + ma_size m) LPAGE_SIZE;
     Some [(drop_bit 22 (0xffffffff - e + 1) * PTDL2SIZE, PTDL2SIZE)]
   }"

definition rsv_pct :: "xmcPartition \<Rightarrow> u32 \<times> u32" where
  "rsv_pct p = (pc_noVCpus p * (sizeof_pct + 32 * word_of_int (pc_noPhysicalMemoryAreas p) +
     (if pc_noPorts p mod 32 \<noteq> 0 then word_of_int (pc_noPorts p div 32) + 4 else word_of_int (pc_noPorts p div 32))), PAGE_BYTES)"

definition rsv_buffers :: "sizes \<Rightarrow> xmcCommChannel \<Rightarrow> (u32 \<times> u32) list" where
  "rsv_buffers z ch = (case ch of
       SamplingChannel l v n \<Rightarrow> [(word_of_int l, ALIGNMENT)]
     | QueuingChannel l n \<Rightarrow> (word_of_int n * sz_msg z, ALIGNMENT) # replicate (nat n) (word_of_int l, ALIGNMENT))"

text \<open>The calls of RsvBlock in the order of GenerateRsvMem.\<close>

definition rsv_calls :: "sizes \<Rightarrow> nat \<Rightarrow> xmc \<Rightarrow> nat \<Rightarrow> (u32 \<times> u32) list option" where
  "rsv_calls z blocks c area = do {
     frames \<leftarrow> ArchMmuRsvMem c area;
     Some (concat (map (rsv_threads z) (xmcPartitionTab c)) @
       [(no_partitions c * sz_partition z, ALIGNMENT)] @
       concat (map (rsv_receivers z) (xmcCommChannelTab c)) @
       [(word_of_nat (length (xmcMemRegTab c)) * sz_physPage_ptr z, ALIGNMENT)] @
       concat (map (\<lambda>m. if has_flag (mr_flags m) XMC_REG_FLAG_PGTAB
         then [(mr_size m div PAGE_BYTES * sz_physPage z, ALIGNMENT)] else []) (xmcMemRegTab c)) @
       frames @
       map rsv_pct (xmcPartitionTab c) @
       map (\<lambda>_. (18 * PAGE_BYTES, PAGE_BYTES)) (xmcPartitionTab c) @
       [(word_of_nat blocks * sz_kDevice z, ALIGNMENT), (word_of_nat blocks * sz_memBlockData z, ALIGNMENT),
        (NO_CPUS * sz_schedData z, ALIGNMENT), (no_partitions c * sz_console z, ALIGNMENT),
        (no_partitions c * sz_partitionStatus z, ALIGNMENT), (no_partitions c * sz_logStream z, ALIGNMENT),
        (word_of_nat (length (xmcCommChannelTab c)) * sz_channel z, ALIGNMENT),
        (word_of_nat (length (xmcCommPorts c)) * sz_port z, ALIGNMENT)] @
       concat (map (rsv_buffers z) (xmcCommChannelTab c)))
   }"

definition GenerateRsvMem :: "sizes \<Rightarrow> nat \<Rightarrow> xmc \<Rightarrow> nat \<Rightarrow> (u32 \<times> u32) list option" where
  "GenerateRsvMem z blocks c area =
     map_option (\<lambda>cs. fold (\<lambda>(sz, align). RsvBlock sz align) cs []) (rsv_calls z blocks c area)"

text \<open>PrintBlocks sorts the blocks by alignment and emits, for each, an entry of the table and the
  directives .align and .zero that place it in the section behind the last one; \<open>pos\<close> is where the
  section is. The map of the file ends the table with a zero.\<close>

fun place :: "nat \<Rightarrow> (u32 \<times> u32) list \<Rightarrow> xmcRsvMem list" where
  "place pos [] = []"
| "place pos ((sz, align) # bs) =
     (let a = (pos + unat align - 1) div unat align * unat align
      in \<lparr>rm_obj = word_of_nat a, rm_usedAlign = align, rm_size = sz\<rparr> # place (a + unat sz) bs)"

fun place_end :: "nat \<Rightarrow> (u32 \<times> u32) list \<Rightarrow> nat" where
  "place_end pos [] = pos"
| "place_end pos ((sz, align) # bs) = place_end ((pos + unat align - 1) div unat align * unat align + unat sz) bs"

definition sorted_blocks :: "(u32 \<times> u32) list \<Rightarrow> (u32 \<times> u32) list" where
  "sorted_blocks bs = sort_key snd bs"

definition PrintBlocks :: "nat \<Rightarrow> (u32 \<times> u32) list \<Rightarrow> xmcRsvMem list" where
  "PrintBlocks pos bs = place pos (sorted_blocks bs) @ [\<lparr>rm_obj = 0, rm_usedAlign = 0, rm_size = 0\<rparr>]"

end
