(* ===== verification/RsvBase.thy ===== *)
theory RsvBase
  imports RsvMem
begin

text \<open>
  The reservations of the configuration compiler are what the boot of the kernel takes: both lists hold
  the same blocks, a request succeeds while a block of its size and alignment is left, and the blocks
  of the pool are apart.
\<close>

section \<open>Both sides list the same blocks\<close>

definition nonzero :: "u32 \<times> u32 \<Rightarrow> bool" where
  "nonzero rq \<longleftrightarrow> fst rq \<noteq> 0"

lemma mset_concat_append: "mset (concat (map (\<lambda>x. f x @ g x) xs)) = mset (concat (map f xs)) + mset (concat (map g xs))"
  by (induction xs) simp_all

lemma mset_concat_cons: "mset (concat (map (\<lambda>x. f x # g x) xs)) = mset (map f xs) + mset (concat (map g xs))"
  by (induction xs) simp_all

lemma concat_single: "concat (map (\<lambda>x. [f x]) xs) = map f xs"
  by (induction xs) simp_all

lemma filter_concat_map: "filter P (concat (map f xs)) = concat (map (\<lambda>x. filter P (f x)) xs)"
  by (induction xs) simp_all

lemma fold_RsvBlock: "fold (\<lambda>(sz, align). RsvBlock sz align) cs bs = bs @ filter (\<lambda>(sz, align). sz \<noteq> 0 \<and> align \<noteq> 0) cs"
  by (induction cs arbitrary: bs) (auto simp: RsvBlock_def)

lemma rsv_pct_size: "rsv_pct p = (pct_size p * pc_noVCpus p, PAGE_BYTES)"
  by (simp add: rsv_pct_def pct_size_def algebra_simps)

lemma channel_blocks:
  assumes "sz_kThread_ptr z = 4"
  shows "mset (filter nonzero (channel_memory z ch)) = mset (filter nonzero (rsv_receivers z ch)) + mset (filter nonzero (rsv_buffers z ch))"
  using assms by (cases ch) (auto simp: channel_memory_def rsv_receivers_def rsv_buffers_def nonzero_def mult.commute)

lemma concat_channel_blocks:
  assumes "sz_kThread_ptr z = 4"
  shows "mset (filter nonzero (concat (map (channel_memory z) cs))) =
    mset (filter nonzero (concat (map (rsv_receivers z) cs))) + mset (filter nonzero (concat (map (rsv_buffers z) cs)))"
proof (induction cs)
  case (Cons ch cs)
  then show ?case using channel_blocks [OF assms, of ch] by simp
qed simp

lemma partition_blocks:
  "mset (partition_memory z p @ loader_stack) = mset (rsv_threads z p) + {#rsv_pct p#} + {#(18 * PAGE_BYTES, PAGE_BYTES)#}"
  by (simp add: partition_memory_def rsv_threads_def thread_memory_def loader_stack_def rsv_pct_size LDR_STACK_SIZE_def
      PAGE_BYTES_def)

lemma concat_partition_blocks:
  "mset (concat (map (\<lambda>p. partition_memory z p @ loader_stack) ps)) =
    mset (concat (map (rsv_threads z) ps)) + mset (map rsv_pct ps) + mset (map (\<lambda>_. (18 * PAGE_BYTES, PAGE_BYTES)) ps)"
  by (induction ps) (use partition_blocks in \<open>simp_all add: ac_simps\<close>)

lemma frame_blocks: "frame_tables c area = ArchMmuRsvMem c area"
  by (simp add: frame_tables_def ArchMmuRsvMem_def Let_def PHYS2VIRT_def algebra_simps)

lemma page_blocks:
  "page_descriptors z c = (word_of_nat (length (xmcMemRegTab c)) * sz_physPage_ptr z, ALIGNMENT) #
     concat (map (\<lambda>m. if has_flag (mr_flags m) XMC_REG_FLAG_PGTAB
         then [(mr_size m div PAGE_BYTES * sz_physPage z, ALIGNMENT)] else []) (xmcMemRegTab c))"
  by (simp add: page_descriptors_def mult.commute cong: if_cong)

lemma filter_calls:
  assumes "rsv_calls z n c area = Some cs"
  shows "filter (\<lambda>(sz, align). sz \<noteq> 0 \<and> align \<noteq> 0) cs = filter nonzero cs"
proof -
  have a: "ALIGNMENT \<noteq> 0" "PAGE_BYTES \<noteq> 0" "PTDL2SIZE \<noteq> 0" by (simp_all add: ALIGNMENT_def PAGE_BYTES_def PTDL2SIZE_def)
  have b: "snd x \<noteq> 0" if "x \<in> set (rsv_receivers z ch)" for x ch
    using that a by (cases ch) (auto simp: rsv_receivers_def split: if_splits)
  have b': "snd x \<noteq> 0" if "x \<in> set (rsv_buffers z ch)" for x ch
    using that a by (cases ch) (auto simp: rsv_buffers_def)
  have "snd x \<noteq> 0" if "x \<in> set cs" for x
    using assms that a
    by (auto simp: rsv_calls_def bind_eq_Some_iff ArchMmuRsvMem_def Let_def rsv_threads_def rsv_pct_def
        dest: b b' split: if_splits)
  then show ?thesis by (intro filter_cong) (simp_all add: nonzero_def split_beta)
qed

text \<open>The compiler reserves the blocks the kernel asks for, and no others.\<close>

lemma reserved_blocks:
  assumes "GenerateRsvMem z n c area = Some bs" "sz_kThread_ptr z = 4"
  obtains rqs where "boot_requests z n c area = Some rqs" "mset bs = filter_mset nonzero (mset rqs)"
proof -
  obtain cs where cs: "rsv_calls z n c area = Some cs" "bs = filter nonzero cs"
    using assms(1) by (auto simp: GenerateRsvMem_def fold_RsvBlock filter_calls)
  obtain fs where fs: "ArchMmuRsvMem c area = Some fs" using cs(1) by (auto simp: rsv_calls_def bind_eq_Some_iff)
  obtain rqs where rqs: "boot_requests z n c area = Some rqs" using fs by (simp add: boot_requests_def frame_blocks)
  have "filter_mset nonzero (mset rqs) = filter_mset nonzero (mset cs)"
    using rqs cs(1) fs concat_channel_blocks [OF assms(2), of "xmcCommChannelTab c", unfolded mset_filter]
    by (auto simp: boot_requests_def rsv_calls_def frame_blocks page_blocks comm_memory_def concat_partition_blocks
        mem_blocks_def object_tables_def sched_tables_def mult.commute ac_simps)
  then show ?thesis using that rqs cs(2) by simp
qed

section \<open>Allocation\<close>

text \<open>A table of unused and used blocks before its end, and the requests it can still serve.\<close>

definition rsv_end :: xmcRsvMem where
  "rsv_end = \<lparr>rm_obj = 0, rm_usedAlign = 0, rm_size = 0\<rparr>"

definition rm_key :: "xmcRsvMem \<Rightarrow> u32 \<times> u32" where
  "rm_key r = (rm_size r, rm_usedAlign r)"

definition take_block :: "nat \<Rightarrow> xmcRsvMem list \<Rightarrow> xmcRsvMem list" where
  "take_block i rs = rs[i := (rs ! i)\<lparr>rm_usedAlign := rm_usedAlign (rs ! i) OR RSV_MEM_USED\<rparr>]"

lemma bit_used: "bit RSV_MEM_USED n \<longleftrightarrow> n = 31"
proof -
  have e: "RSV_MEM_USED = push_bit 31 1" by (simp add: RSV_MEM_USED_def)
  show ?thesis unfolding e bit_push_bit_iff by (auto simp: bit_1_iff)
qed

lemma used_bit: "has_flag x RSV_MEM_USED \<longleftrightarrow> bit x 31"
  by (auto simp: has_flag_bit bit_used)

lemma fits_key:
  assumes "\<not> bit align 31"
  shows "rm_fits sz align r \<longleftrightarrow> \<not> rm_used r \<and> rm_key r = (sz, align)"
proof -
  have "x AND NOT RSV_MEM_USED = x" if "\<not> bit x 31" for x
  proof (rule bit_eqI)
    fix n
    show "bit (x AND NOT RSV_MEM_USED) n = bit x n"
      using that by (auto simp: bit_and_iff bit_not_iff bit_used dest: bit_imp_le_length)
  qed
  then show ?thesis by (auto simp: rm_fits_def rm_key_def rm_used_def used_bit)
qed

definition unused :: "xmcRsvMem list \<Rightarrow> xmcRsvMem list" where
  "unused rs = filter (\<lambda>r. \<not> rm_used r) rs"

definition servable :: "xmcRsvMem list \<Rightarrow> (u32 \<times> u32) multiset" where
  "servable rs = mset (map rm_key (unused rs))"

lemma take_used: "rm_used (r\<lparr>rm_usedAlign := rm_usedAlign r OR RSV_MEM_USED\<rparr>)"
  by (simp add: rm_used_def used_bit bit_or_iff bit_used)

lemma take_block_simps [simp]:
  "take_block 0 (r # rs) = r\<lparr>rm_usedAlign := rm_usedAlign r OR RSV_MEM_USED\<rparr> # rs"
  "take_block (Suc i) (r # rs) = r # take_block i rs"
  "length (take_block i rs) = length rs"
  by (simp_all add: take_block_def)

lemma take_block_obj [simp]: "map rm_obj (take_block i rs) = map rm_obj rs"
proof (intro nth_equalityI)
  fix k assume "k < length (map rm_obj (take_block i rs))"
  then show "map rm_obj (take_block i rs) ! k = map rm_obj rs ! k" by (cases "k = i") (auto simp: take_block_def)
qed simp

lemma servable_take:
  "i < length rs \<Longrightarrow> \<not> rm_used (rs ! i) \<Longrightarrow> servable rs = add_mset (rm_key (rs ! i)) (servable (take_block i rs))"
proof (induction rs arbitrary: i)
  case (Cons r rs)
  then show ?case by (cases i) (auto simp: servable_def unused_def take_used)
qed simp

lemma AllocRsvMem_takes:
  assumes "(sz, align) \<in># servable rs" "\<not> bit align 31" "0 \<notin> set (map rm_obj rs)"
  obtains i where "i < length rs" "\<not> rm_used (rs ! i)" "rm_key (rs ! i) = (sz, align)"
    "AllocRsvMem tab sz align (rs @ [rsv_end]) = Some (rm_obj (rs ! i) + tab, take_block i rs @ [rsv_end])"
  using assms
proof (induction rs arbitrary: thesis)
  case (Cons r rs)
  show ?case
  proof (cases "rm_fits sz align r")
    case True
    then show ?thesis using Cons.prems(1) [of 0] Cons.prems(4) by (auto simp: fits_key [OF Cons.prems(3)])
  next
    case False
    then have "(sz, align) \<in># servable rs"
      using Cons.prems(2) by (auto simp: servable_def unused_def fits_key [OF Cons.prems(3)] split: if_splits)
    then obtain i where i: "i < length rs" "\<not> rm_used (rs ! i)" "rm_key (rs ! i) = (sz, align)"
      "AllocRsvMem tab sz align (rs @ [rsv_end]) = Some (rm_obj (rs ! i) + tab, take_block i rs @ [rsv_end])"
      using Cons.IH Cons.prems(3,4) by auto
    then show ?thesis using Cons.prems(1) [of "Suc i"] Cons.prems(4) False by auto
  qed
qed (simp add: servable_def unused_def)

text \<open>The block that serves each request, an index of the table; the table afterwards.\<close>

definition served :: "u32 \<Rightarrow> (u32 \<times> u32) list \<Rightarrow> xmcRsvMem list \<Rightarrow> u32 list \<Rightarrow> xmcRsvMem list \<Rightarrow> (nat \<Rightarrow> nat) \<Rightarrow> bool" where
  "served tab rqs rs ps rs' f \<longleftrightarrow> length ps = length rqs \<and> map rm_obj rs' = map rm_obj rs \<and>
     servable rs = filter_mset nonzero (mset rqs) + servable rs' \<and>
     inj_on f {k. k < length rqs \<and> nonzero (rqs ! k)} \<and>
     (\<forall>k < length rqs. nonzero (rqs ! k) \<longrightarrow> f k < length rs \<and> \<not> rm_used (rs ! f k) \<and> rm_key (rs ! f k) = rqs ! k \<and>
        ps ! k = rm_obj (rs ! f k) + tab)"

lemma served_skip:
  assumes "served tab rqs rs ps rs' f" "\<not> nonzero rq"
  shows "served tab (rq # rqs) rs (0 # ps) rs' (\<lambda>k. f (k - 1))"
proof -
  have "k = 0 \<or> (\<exists>j. k = Suc j)" for k by (cases k) auto
  then show ?thesis
    using assms unfolding served_def inj_on_def by (auto simp: less_Suc_eq_0_disj)
qed

lemma served_take:
  assumes s: "served tab rqs (take_block i rs) ps rs' f" and i: "i < length rs" "\<not> rm_used (rs ! i)" "rm_key (rs ! i) = rq"
    and n: "nonzero rq"
  shows "served tab (rq # rqs) rs ((rm_obj (rs ! i) + tab) # ps) rs' (case_nat i f)"
proof -
  have k: "f k < length rs \<and> f k \<noteq> i \<and> take_block i rs ! f k = rs ! f k" if "k < length rqs" "nonzero (rqs ! k)" for k
  proof -
    have "f k < length rs" "\<not> rm_used (take_block i rs ! f k)" using s that by (auto simp: served_def)
    then show ?thesis using i(1) take_used [of "rs ! i"] by (cases "f k = i") (auto simp: take_block_def)
  qed
  show ?thesis
    using s i n servable_take [OF i(1,2)] k unfolding served_def inj_on_def
    by (auto simp: less_Suc_eq_0_disj split: nat.splits)
qed

lemma get_all_serves:
  assumes "filter_mset nonzero (mset rqs) \<subseteq># servable rs" "\<forall>rq \<in> set rqs. \<not> bit (snd rq) 31" "0 \<notin> set (map rm_obj rs)"
    "\<forall>r \<in> set rs. rm_obj r + tab \<noteq> 0"
  shows "\<exists>ps rs' f. get_all tab rqs (rs @ [rsv_end]) = Some (Inr (ps, rs' @ [rsv_end])) \<and> served tab rqs rs ps rs' f"
  using assms
proof (induction rqs arbitrary: rs)
  case Nil
  then show ?case by (auto simp: served_def)
next
  case (Cons rq rqs)
  obtain sz align where rq: "rq = (sz, align)" by (cases rq)
  show ?case
  proof (cases "nonzero rq")
    case False
    then obtain ps rs' f where "get_all tab rqs (rs @ [rsv_end]) = Some (Inr (ps, rs' @ [rsv_end]))" "served tab rqs rs ps rs' f"
      using Cons.IH [of rs] Cons.prems by auto
    then show ?thesis using served_skip [OF _ False, of tab rqs rs ps rs' f] False
      by (auto simp: rq GET_MEMA_def nonzero_def)
  next
    case True
    have m: "add_mset rq (filter_mset nonzero (mset rqs)) \<subseteq># servable rs" using Cons.prems(1) True by simp
    then have "(sz, align) \<in># servable rs" by (auto simp: rq dest: mset_subset_eqD)
    then obtain i where i: "i < length rs" "\<not> rm_used (rs ! i)" "rm_key (rs ! i) = (sz, align)"
      "AllocRsvMem tab sz align (rs @ [rsv_end]) = Some (rm_obj (rs ! i) + tab, take_block i rs @ [rsv_end])"
      using AllocRsvMem_takes [of sz align rs] Cons.prems(2,3) by (auto simp: rq)
    have "rm_obj r + tab \<noteq> 0" if "r \<in> set (take_block i rs)" for r
    proof -
      have "rm_obj r \<in> set (map rm_obj (take_block i rs))" using that by (metis imageI set_map)
      then show ?thesis using Cons.prems(4) by auto
    qed
    moreover have "filter_mset nonzero (mset rqs) \<subseteq># servable (take_block i rs)"
      using m servable_take [OF i(1,2)] i(3) by (simp add: rq)
    ultimately obtain ps rs' f where "get_all tab rqs (take_block i rs @ [rsv_end]) = Some (Inr (ps, rs' @ [rsv_end]))"
      "served tab rqs (take_block i rs) ps rs' f"
      using Cons.IH [of "take_block i rs"] Cons.prems(2,3) by auto
    moreover have "rm_obj (rs ! i) + tab \<noteq> 0" using Cons.prems(4) i(1) by simp
    ultimately show ?thesis using served_take [OF _ i(1,2), of tab rqs ps rs' f rq] i(3,4) True
      by (auto simp: rq GET_MEMA_def nonzero_def)
  qed
qed

section \<open>The layout of the pool\<close>

lemma roundup_le: "pos \<le> (pos + a - 1) div a * a" if "0 < a" for a :: nat
proof -
  have "pos + a - 1 = (pos + a - 1) div a * a + (pos + a - 1) mod a" by simp
  moreover have "(pos + a - 1) mod a < a" using that by simp
  ultimately show ?thesis using that by linarith
qed

lemma place_end_ge: "\<forall>b \<in> set bs. snd b \<noteq> 0 \<Longrightarrow> pos \<le> place_end pos bs"
proof (induction pos bs rule: place_end.induct)
  case (2 pos sz align bs)
  then have "pos \<le> (pos + unat align - 1) div unat align * unat align" by (intro roundup_le) (auto simp: unat_gt_0)
  then show ?case using 2 by simp
qed simp

lemma length_place [simp]: "length (place pos bs) = length bs"
  by (induction pos bs rule: place.induct) (simp_all add: Let_def)

lemma place_keys: "map rm_key (place pos bs) = bs"
  by (induction pos bs rule: place.induct) (simp_all add: Let_def rm_key_def)

lemma place_spans:
  assumes "\<forall>b \<in> set bs. snd b \<noteq> 0" "place_end pos bs < 2 ^ 32" "i < length bs"
  shows "pos \<le> unat (rm_obj (place pos bs ! i)) \<and> unat (snd (bs ! i)) dvd unat (rm_obj (place pos bs ! i)) \<and>
    unat (rm_obj (place pos bs ! i)) + unat (fst (bs ! i)) \<le> place_end pos bs \<and>
    (\<forall>j. i < j \<longrightarrow> j < length bs \<longrightarrow>
       unat (rm_obj (place pos bs ! i)) + unat (fst (bs ! i)) \<le> unat (rm_obj (place pos bs ! j)))"
  using assms
proof (induction pos bs arbitrary: i rule: place.induct)
  case (2 pos sz align bs)
  define a where "a = (pos + unat align - 1) div unat align * unat align"
  have al: "pos \<le> a" unfolding a_def using 2(2) by (intro roundup_le) (auto simp: unat_gt_0)
  have le: "a + unat sz \<le> place_end (a + unat sz) bs" using 2(2) by (intro place_end_ge) simp
  have u: "unat (word_of_nat a :: u32) = a" 
  proof (rule unat_u32)
    have "place_end pos ((sz, align) # bs) = place_end (a + unat sz) bs" by (simp add: a_def)
    then show "a < 2 ^ 32" using le 2(3) by linarith
  qed
  have pl: "place pos ((sz, align) # bs) = \<lparr>rm_obj = word_of_nat a, rm_usedAlign = align, rm_size = sz\<rparr> # place (a + unat sz) bs"
    "place_end pos ((sz, align) # bs) = place_end (a + unat sz) bs"
    unfolding a_def by (simp_all only: place.simps place_end.simps Let_def)
  have "place_end (a + unat sz) bs < 2 ^ 32" using 2(3) by (simp add: a_def)
  note IH = 2(1) [OF a_def _ this]
  have d: "unat align dvd a" by (simp add: a_def)
  show ?case
  proof (cases i)
    case 0
    have "a + unat sz \<le> unat (rm_obj (place (a + unat sz) bs ! j))" if "j < length bs" for j
      using IH [OF _ that] 2(2) by simp
    then show ?thesis using al le u d 0 unfolding pl by (auto simp: nth_Cons')
  next
    case (Suc k)
    then show ?thesis using IH [of k] 2(2,4) al unfolding pl by (auto simp: nth_Cons')
  qed
qed simp

end
