(* ===== verification/RsvProps.thy ===== *)
theory RsvProps
  imports RsvBase Samples
begin

text \<open>The pool of reserved memory suffices for the boot: the theorem and its example.\<close>

section \<open>The pool suffices\<close>

lemma request_align:
  assumes "boot_requests z n c area = Some rqs" "rq \<in> set rqs"
  shows "snd rq = 4 \<or> snd rq = 4096"
proof -
  have "snd rq = 4" if "rq \<in> set (channel_memory z ch)" for ch
    using that by (cases ch) (auto simp: channel_memory_def ALIGNMENT_def)
  then show ?thesis using assms
    by (auto simp: boot_requests_def bind_eq_Some_iff frame_tables_def Let_def page_descriptors_def mem_blocks_def
        object_tables_def comm_memory_def sched_tables_def partition_memory_def thread_memory_def loader_stack_def
        ALIGNMENT_def PAGE_BYTES_def PTDL2SIZE_def split: if_splits)
qed

lemma small_align:
  assumes "a = 4 \<or> a = (4096 :: u32)"
  shows "\<not> bit a 31" "a \<noteq> 0" "unat a dvd 4096"
  using assms by (auto simp: bit_numeral_rec)

lemma InitRsvMem_fresh:
  assumes "\<forall>r \<in> set rs. rm_obj r \<noteq> 0 \<and> \<not> bit (rm_usedAlign r) 31"
  shows "InitRsvMem (rs @ [rsv_end]) = Some (rs @ [rsv_end])" "unused rs = rs"
proof -
  have c: "x AND NOT RSV_MEM_USED = x" if "\<not> bit x 31" for x
  proof (rule bit_eqI)
    fix n
    show "bit (x AND NOT RSV_MEM_USED) n = bit x n"
      using that by (auto simp: bit_and_iff bit_not_iff bit_used dest: bit_imp_le_length)
  qed
  show "InitRsvMem (rs @ [rsv_end]) = Some (rs @ [rsv_end])" using assms by (induction rs) (auto simp: rsv_end_def c)
  show "unused rs = rs" using assms by (auto simp: unused_def rm_used_def used_bit)
qed

lemma RsvMemDebug_unused:
  "0 \<notin> set (map rm_obj rs) \<Longrightarrow> RsvMemDebug (rs @ [rsv_end]) = Some (unused rs)"
  by (induction rs) (auto simp: rsv_end_def unused_def)

text \<open>The blocks of the pool, with the facts the theorem needs.\<close>

lemma pool_blocks:
  assumes "boot_requests z n c area = Some rqs" "mset bs = filter_mset nonzero (mset rqs)" "0 < pos"
    "place_end pos (sorted_blocks bs) + unat tab < 2 ^ 32" "4096 dvd unat tab"
  defines "rs \<equiv> place pos (sorted_blocks bs)"
  shows "\<And>i. i < length rs \<Longrightarrow> rm_obj (rs ! i) \<noteq> 0 \<and> \<not> bit (rm_usedAlign (rs ! i)) 31"
    "\<And>i. i < length rs \<Longrightarrow> pos \<le> unat (rm_obj (rs ! i)) \<and>
       unat (rm_obj (rs ! i)) + unat (rm_size (rs ! i)) \<le> place_end pos (sorted_blocks bs)"
    "\<And>i. i < length rs \<Longrightarrow> unat (rm_obj (rs ! i) + tab) = unat (rm_obj (rs ! i)) + unat tab \<and>
       unat (rm_usedAlign (rs ! i)) dvd unat (rm_obj (rs ! i) + tab)"
    "\<And>i j. i < j \<Longrightarrow> j < length rs \<Longrightarrow> unat (rm_obj (rs ! i)) + unat (rm_size (rs ! i)) \<le> unat (rm_obj (rs ! j))"
proof -
  have k: "rm_key (rs ! i) = sorted_blocks bs ! i" if "i < length rs" for i
    using that place_keys [of pos "sorted_blocks bs"] unfolding rs_def by (metis length_map nth_map)
  have bs: "set (sorted_blocks bs) = {rq \<in> set rqs. nonzero rq}"
    using arg_cong [OF assms(2), of set_mset] by (simp add: sorted_blocks_def)
  have al: "\<forall>b \<in> set (sorted_blocks bs). snd b \<noteq> 0" using request_align [OF assms(1)] small_align by (auto simp: bs)
  have sz: "fst (sorted_blocks bs ! i) \<noteq> 0" "snd (sorted_blocks bs ! i) = 4 \<or> snd (sorted_blocks bs ! i) = 4096"
    if "i < length rs" for i
    using that bs request_align [OF assms(1)] nth_mem [of i "sorted_blocks bs"] by (auto simp: rs_def nonzero_def)
  have n: "length rs = length (sorted_blocks bs)" by (simp add: rs_def)
  have lt: "place_end pos (sorted_blocks bs) < 2 ^ 32" using assms(4) by simp
  have sp: "pos \<le> unat (rm_obj (rs ! i))" "unat (rm_usedAlign (rs ! i)) dvd unat (rm_obj (rs ! i))"
    "unat (rm_obj (rs ! i)) + unat (rm_size (rs ! i)) \<le> place_end pos (sorted_blocks bs)"
    "rm_size (rs ! i) \<noteq> 0" "rm_usedAlign (rs ! i) = 4 \<or> rm_usedAlign (rs ! i) = 4096" if "i < length rs" for i
    using place_spans [OF al lt, of i] that k [OF that] sz [OF that] n unfolding rs_def by (simp_all add: rm_key_def prod_eq_iff)
  show "rm_obj (rs ! i) \<noteq> 0 \<and> \<not> bit (rm_usedAlign (rs ! i)) 31" if "i < length rs" for i
    using sp(1) [OF that] small_align(1) [OF sp(5) [OF that]] assms(3) by auto
  show "pos \<le> unat (rm_obj (rs ! i)) \<and> unat (rm_obj (rs ! i)) + unat (rm_size (rs ! i)) \<le> place_end pos (sorted_blocks bs)"
    if "i < length rs" for i using sp(1,3) [OF that] by simp
  show "unat (rm_obj (rs ! i) + tab) = unat (rm_obj (rs ! i)) + unat tab \<and>
       unat (rm_usedAlign (rs ! i)) dvd unat (rm_obj (rs ! i) + tab)" if "i < length rs" for i
  proof -
    have "unat (rm_obj (rs ! i)) + unat tab < 2 ^ 32" using sp(3) [OF that] assms(4) by linarith
    then have u: "unat (rm_obj (rs ! i) + tab) = unat (rm_obj (rs ! i)) + unat tab" 
      using unat_u32 [of "unat (rm_obj (rs ! i)) + unat tab"] by simp
    moreover have "unat (rm_usedAlign (rs ! i)) dvd unat tab" using small_align(3) [OF sp(5) [OF that]] assms(5) by (rule dvd_trans)
    ultimately show ?thesis using sp(2) [OF that] by simp
  qed
  show "unat (rm_obj (rs ! i)) + unat (rm_size (rs ! i)) \<le> unat (rm_obj (rs ! j))" if "i < j" "j < length rs" for i j
    using place_spans [OF al lt, of i] that k [of i] n unfolding rs_def by (simp add: rm_key_def prod_eq_iff)
qed

text \<open>Where the blocks of the requests lie, for the block \<open>f k\<close> of request \<open>k\<close>.\<close>

definition block_of :: "u32 \<Rightarrow> xmcRsvMem list \<Rightarrow> u32 \<times> u32 \<Rightarrow> u32 \<Rightarrow> nat \<Rightarrow> bool" where
  "block_of tab tb rq p i \<longleftrightarrow> i < length tb \<and> p = rm_obj (tb ! i) + tab \<and> rq = rm_key (tb ! i)"

lemma block_inside:
  assumes "block_of tab tb rq p i"
    and "\<And>i. i < length tb \<Longrightarrow> lo \<le> unat (rm_obj (tb ! i)) \<and> unat (rm_obj (tb ! i)) + unat (rm_size (tb ! i)) \<le> hi"
    and "\<And>i. i < length tb \<Longrightarrow> unat (rm_obj (tb ! i) + tab) = unat (rm_obj (tb ! i)) + unat tab \<and>
       unat (rm_usedAlign (tb ! i)) dvd unat (rm_obj (tb ! i) + tab)"
  shows "lo + unat tab \<le> unat p \<and> unat (snd rq) dvd unat p \<and> unat p + unat (fst rq) \<le> hi + unat tab"
  using assms(1) assms(2,3) [of i] by (auto simp: block_of_def rm_key_def)

lemma blocks_apart:
  assumes "block_of tab tb rq p i" "block_of tab tb rq' p' j" "i \<noteq> j"
    and "\<And>i. i < length tb \<Longrightarrow> unat (rm_obj (tb ! i) + tab) = unat (rm_obj (tb ! i)) + unat tab \<and>
       unat (rm_usedAlign (tb ! i)) dvd unat (rm_obj (tb ! i) + tab)"
    and "\<And>i j. i < j \<Longrightarrow> j < length tb \<Longrightarrow> unat (rm_obj (tb ! i)) + unat (rm_size (tb ! i)) \<le> unat (rm_obj (tb ! j))"
  shows "unat p + unat (fst rq) \<le> unat p' \<or> unat p' + unat (fst rq') \<le> unat p"
proof -
  have "i < j \<or> j < i" using assms(3) by linarith
  then show ?thesis using assms(1,2) assms(4) [of i] assms(4) [of j] assms(5) [of i j] assms(5) [of j i]
    by (auto simp: block_of_def rm_key_def)
qed

text \<open>Before the first request the table holds one unused block for each request of the boot.\<close>

lemma pool_fresh:
  assumes "mset bs = filter_mset nonzero (mset rqs)" "tb = place pos (sorted_blocks bs)"
    and "\<And>i. i < length tb \<Longrightarrow> rm_obj (tb ! i) \<noteq> 0 \<and> \<not> bit (rm_usedAlign (tb ! i)) 31"
  shows "InitRsvMem (PrintBlocks pos bs) = Some (tb @ [rsv_end])" "0 \<notin> set (map rm_obj tb)"
    "servable tb = filter_mset nonzero (mset rqs)"
proof -
  have fresh: "\<forall>r \<in> set tb. rm_obj r \<noteq> 0 \<and> \<not> bit (rm_usedAlign r) 31" using assms(3) by (auto simp: in_set_conv_nth)
  show "InitRsvMem (PrintBlocks pos bs) = Some (tb @ [rsv_end])"
    using InitRsvMem_fresh(1) [OF fresh] by (simp add: PrintBlocks_def assms(2) rsv_end_def)
  show "0 \<notin> set (map rm_obj tb)" using fresh by auto
  have "servable tb = mset (map rm_key tb)" by (simp only: servable_def InitRsvMem_fresh(2) [OF fresh])
  then show "servable tb = filter_mset nonzero (mset rqs)"
    by (simp only: assms(2) place_keys) (simp add: sorted_blocks_def assms(1))
qed

text \<open>C38: The memory the configuration compiler reserves is enough for the boot of the kernel. Whatever
  part of its requests the kernel makes and in whatever order, each gets a block of its own size and
  alignment, inside the pool and apart from the blocks of the others, the pool is never exhausted, and
  the blocks left over are those of the requests not made; after a complete boot there is none. The
  pool is placed behind the tables of a page-aligned configuration, below the end of the address space,
  and a pointer has four bytes.\<close>

theorem reserved_memory_suffices:
  assumes gen: "GenerateRsvMem z n c area = Some bs" and boot: "boot_requests z n c area = Some rqs0"
    and ptr: "sz_kThread_ptr z = 4" and sub: "mset rqs \<subseteq># mset rqs0"
    and pos: "0 < pos" and room: "place_end pos (sorted_blocks bs) + unat tab < 2 ^ 32" and tab: "4096 dvd unat tab"
  shows "\<exists>tb ps rs left. InitRsvMem (PrintBlocks pos bs) = Some tb \<and> get_all tab rqs tb = Some (Inr (ps, rs)) \<and>
    RsvMemDebug rs = Some left \<and>
    mset (map rm_key left) = filter_mset nonzero (mset rqs0) - filter_mset nonzero (mset rqs) \<and> length ps = length rqs \<and>
    (\<forall>k < length rqs. nonzero (rqs ! k) \<longrightarrow> pos + unat tab \<le> unat (ps ! k) \<and> unat (snd (rqs ! k)) dvd unat (ps ! k) \<and>
       unat (ps ! k) + unat (fst (rqs ! k)) \<le> place_end pos (sorted_blocks bs) + unat tab) \<and>
    (\<forall>k < length rqs. \<forall>l < k. nonzero (rqs ! k) \<longrightarrow> nonzero (rqs ! l) \<longrightarrow>
       unat (ps ! k) + unat (fst (rqs ! k)) \<le> unat (ps ! l) \<or> unat (ps ! l) + unat (fst (rqs ! l)) \<le> unat (ps ! k))"
proof -
  define tb where "tb = place pos (sorted_blocks bs)"
  have ms: "mset bs = filter_mset nonzero (mset rqs0)" using reserved_blocks [OF gen ptr] boot by (metis option.inject)
  note pool = pool_blocks [OF boot ms pos room tab, folded tb_def]
  note fresh = pool_fresh [OF ms tb_def pool(1)]
  have nz: "\<forall>r \<in> set tb. rm_obj r + tab \<noteq> 0"
  proof
    fix r assume "r \<in> set tb"
    then obtain i where "i < length tb" "r = tb ! i" by (auto simp: in_set_conv_nth)
    then have "0 < unat (rm_obj r + tab)" using pool(2,3) [of i] pos by simp
    then show "rm_obj r + tab \<noteq> 0" by (simp add: unat_gt_0)
  qed
  have al: "\<forall>rq \<in> set rqs. \<not> bit (snd rq) 31"
    using small_align(1) [OF request_align [OF boot]] mset_subset_eqD [OF sub] by simp
  obtain ps rs f where g: "get_all tab rqs (tb @ [rsv_end]) = Some (Inr (ps, rs @ [rsv_end]))" "served tab rqs tb ps rs f"
    using get_all_serves [OF _ al fresh(2) nz] multiset_filter_mono [OF sub] by (auto simp: fresh(3))
  note s = g(2) [unfolded served_def]
  have blk: "block_of tab tb (rqs ! k) (ps ! k) (f k)" if "k < length rqs" "nonzero (rqs ! k)" for k
    using s that by (simp add: block_of_def)
  have "RsvMemDebug (rs @ [rsv_end]) = Some (unused rs)" using s fresh(2) by (intro RsvMemDebug_unused) simp
  moreover have "mset (map rm_key (unused rs)) = filter_mset nonzero (mset rqs0) - filter_mset nonzero (mset rqs)"
  proof -
    have "servable rs = servable tb - filter_mset nonzero (mset rqs)" using s by simp
    then show ?thesis by (simp only: fresh(3)) (simp add: servable_def)
  qed
  moreover have "unat (ps ! k) + unat (fst (rqs ! k)) \<le> unat (ps ! l) \<or> unat (ps ! l) + unat (fst (rqs ! l)) \<le> unat (ps ! k)"
    if "k < length rqs" "l < k" "nonzero (rqs ! k)" "nonzero (rqs ! l)" for k l
  proof -
    have l: "l < length rqs" using that by simp
    have "inj_on f {k. k < length rqs \<and> nonzero (rqs ! k)}" using s by simp
    then have "f k \<noteq> f l" using inj_onD [of f _ k l] that l by fastforce
    then show ?thesis by (rule blocks_apart [OF blk [OF that(1,3)] blk [OF l that(4)] _ pool(3,4)])
  qed
  ultimately show ?thesis
    using fresh(1) g(1) s block_inside [OF blk pool(2,3)] by blast
qed

text \<open>The small system of Samples, two partitions of one thread each.\<close>

definition demo_sizes :: sizes where
  "demo_sizes = \<lparr>sz_kThread_ptr = 4, sz_kThread = 0x2000, sz_guest = 0x300, sz_partition = 64, sz_physPage_ptr = 4,
     sz_physPage = 32, sz_kDevice = 24, sz_memBlockData = 12, sz_schedData = 40, sz_console = 4, sz_partitionStatus = 48,
     sz_logStream = 100, sz_channel = 60, sz_port = 40, sz_msg = 24\<rparr>"

definition demo_blocks :: "(u32 \<times> u32) list" where
  "demo_blocks = the (GenerateRsvMem demo_sizes 1 (demo_cfg CYCLIC_SCHED) 0)"

definition demo_requests :: "(u32 \<times> u32) list" where
  "demo_requests = the (boot_requests demo_sizes 1 (demo_cfg CYCLIC_SCHED) 0)"

theorem reserved_memory_suffices_witness:
  "\<exists>tb ps rs. InitRsvMem (PrintBlocks 5000 demo_blocks) = Some tb \<and>
     get_all 0x1400000 (rev demo_requests) tb = Some (Inr (ps, rs)) \<and> RsvMemDebug rs = Some [] \<and> 20 < length ps"
proof -
  have g: "GenerateRsvMem demo_sizes 1 (demo_cfg CYCLIC_SCHED) 0 = Some demo_blocks" by code_simp
  have b: "boot_requests demo_sizes 1 (demo_cfg CYCLIC_SCHED) 0 = Some demo_requests" by code_simp
  have p: "sz_kThread_ptr demo_sizes = 4" by code_simp
  have e: "sorted_blocks demo_blocks = [(4, 4), (8192, 4), (768, 4), (4, 4), (8192, 4), (768, 4), (128, 4), (4, 4), (4, 4),
      (4, 4), (1024, 4), (24, 4), (12, 4), (40, 4), (8, 4), (96, 4), (200, 4), (120, 4), (160, 4), (4, 4), (48, 4), (4, 4),
      (4, 4), (77824, 4096), (344, 4096), (344, 4096), (73728, 4096), (73728, 4096)]" by code_simp
  have r: "place_end 5000 (sorted_blocks demo_blocks) + unat (0x1400000 :: u32) < 2 ^ 32" by (simp add: e)
  have t: "4096 dvd unat (0x1400000 :: u32)" by simp
  have n: "20 < length (rev demo_requests)" by code_simp
  show ?thesis
    using reserved_memory_suffices [OF g b p _ _ r t, of "rev demo_requests"] n by auto
qed

end
