(* ===== verification/Boot.thy ===== *)
theory Boot
  imports Reset MemBlock
begin

text \<open>
  The boot of the hypervisor after the tables are linked: SetupVirtMM of core/kernel/mmu/virtmm.c,
  the mapping of the memory blocks (InitMemBlock of core/drivers/memblock.c), the devices of
  core/drivers/kdevice.c, the object directory of core/kernel/objdir.c, CreateLocalInfo and
  SetupPartitions of core/kernel/setup.c. What GET_MEMAZ returns is a parameter (theory RsvMem has
  the allocator). None is a failed assertion or an index outside a table; a panic is a value.
\<close>

section \<open>The frames and the memory blocks\<close>

definition SetupVirtMM :: "u32 \<Rightarrow> nat \<Rightarrow> 'a mstate_scheme \<Rightarrow> 'a mstate_scheme option" where
  "SetupVirtMM rsv area s = do {
     m \<leftarrow> aget (xmcPhysMemAreaTab (cfg s)) area;
     ASSERT (ma_startAddr m = XM_LOAD_ADDR);
     (frames, n, s) \<leftarrow> SetupVmMap rsv area s;
     Some (s\<lparr>vmmStartAddr := frames, noFrames := n\<rparr>)
   }"

datatype boot_panic = OutOfFrames | NoCpu | BadObject

definition SIZE2PAGES :: "u32 \<Rightarrow> nat" where
  "SIZE2PAGES sz = unat (drop_bit 12 (((NOT sz + 1) AND (PAGE_BYTES - 1)) + sz))"

definition block_attrs :: u32 where
  "block_attrs = PG_ATTR_PRESENT OR PG_ATTR_RW"

definition map_block :: "u32 \<Rightarrow> u32 \<Rightarrow> nat \<Rightarrow> 'a mstate_scheme \<Rightarrow> 'a mstate_scheme option" where
  "map_block start addr n s = ofold (\<lambda>i. VmMapPage (start + 4096 * word_of_nat i) (addr + 4096 * word_of_nat i) block_attrs) [0..<n] s"

text \<open>The area of each block is the entry of the area table its configuration names; the result is
  the address of each block in the kernel's space.\<close>

fun InitMemBlock :: "nat list \<Rightarrow> 'a mstate_scheme \<Rightarrow> (boot_panic + u32 list \<times> 'a mstate_scheme) option" where
  "InitMemBlock [] s = Some (Inr ([], s))"
| "InitMemBlock (b # bs) s = do {
     m \<leftarrow> aget (xmcPhysMemAreaTab (cfg s)) b;
     let n = SIZE2PAGES (ma_size m);
     (addr, s) \<leftarrow> VmmAlloc (int n) s;
     if addr = 0 then Some (Inl OutOfFrames)
     else do {
       s \<leftarrow> map_block (ma_startAddr m) addr n s;
       map_option (map_sum id (apfst (Cons addr))) (InitMemBlock bs s)
     }
   }"

section \<open>Devices and objects\<close>

definition NO_KDEV :: nat where "NO_KDEV = 7"
definition XM_DEV_INVALID_ID :: "16 word" where "XM_DEV_INVALID_ID = 0xFFFF"

type_synonym 'k devTab = "(u32 \<Rightarrow> 'k option) option list"

definition LookUpKDev :: "16 word \<times> 16 word \<Rightarrow> 'k devTab \<Rightarrow> 'k option" where
  "LookUpKDev dev GetKDevTab = (case dev of (i, subId) \<Rightarrow>
     if unat i \<ge> NO_KDEV \<or> i = XM_DEV_INVALID_ID then None
     else (case GetKDevTab ! unat i of None \<Rightarrow> None | Some f \<Rightarrow> f (word_of_nat (unat subId))))"

text \<open>Each driver enters its function in the table; what it returns is not looked at.\<close>

definition SetupKDev :: "('k devTab \<times> 's \<Rightarrow> ('k devTab \<times> 's) option) list \<Rightarrow> 's \<Rightarrow> ('k devTab \<times> 's) option" where
  "SetupKDev kDevSetup s = ofold (\<lambda>f. f) kDevSetup (replicate NO_KDEV None, s)"

fun SetupObjDir :: "('s \<Rightarrow> (s32 \<times> 's) option) list \<Rightarrow> 's \<Rightarrow> (boot_panic + 's) option" where
  "SetupObjDir [] s = Some (Inr s)"
| "SetupObjDir (f # fs) s = do {
     (r, s) \<leftarrow> f s;
     if r < 0 then Some (Inl BadObject) else SetupObjDir fs s
   }"

section \<open>Partitions\<close>

definition CreateLocalInfo :: "nat \<Rightarrow> 'a rstate_scheme \<Rightarrow> boot_panic + 'a rstate_scheme" where
  "CreateLocalInfo nrCpus s =
     (if nrCpus = 0 then Inl NoCpu
      else Inr (s\<lparr>irqNestingCounter := 0, lt_flags := 0, lt_nextAct := 0,
                  dlist := (dlist s)(lt_globalActiveKTimers s := \<lparr>l_head = NULL, l_noElem = 0\<rparr>), cKThread := NULL,
                  idleKThread := NULL, sched_flags := 0, globalIrqMask := - 1\<rparr>))"

fun outcome_fold :: "('b \<Rightarrow> 's \<Rightarrow> (unit, 's) outcome option) \<Rightarrow> 'b list \<Rightarrow> 's \<Rightarrow> (unit, 's) outcome option" where
  "outcome_fold f [] s = Some (Ret () s)"
| "outcome_fold f (x # xs) s = and_then (f x s) (\<lambda>_. outcome_fold f xs)"

definition boot_partition :: "'a rstate_scheme hm_event \<Rightarrow> nat \<Rightarrow> (nat \<Rightarrow> u32) \<Rightarrow> (nat \<Rightarrow> nat \<Rightarrow> threadMem) \<Rightarrow>
    (nat \<Rightarrow> nat \<Rightarrow> u32) \<Rightarrow> nat \<Rightarrow> 'a rstate_scheme \<Rightarrow> (unit, 'a rstate_scheme) outcome option" where
  "boot_partition hm fuel pct mem tss e s = do {
     c \<leftarrow> aget (xmcPartitionTab (cfg s)) e;
     let i = unat (pc_id c);
     s \<leftarrow> CreatePartition c (pct e) (mem e) (tss e) s;
     bp \<leftarrow> aget (xmcBootPartTab s) e;
     if has_flag (bp_flags bp) XM_PART_BOOT
     then and_then (ResetPartition hm fuel i XM_COLD_RESET (resetStatusInit s) s)
       (\<lambda>_ s. Some (Ret () (s\<lparr>partitionTab := (partitionTab s)[i := (partitionTab s ! i)\<lparr>p_opMode := XM_OPMODE_IDLE\<rparr>]\<rparr>)))
     else Some (Ret () s)
   }"

text \<open>With fixed priorities the interrupts of all scheduled partitions stay open in the global mask.\<close>

definition fp_global_mask :: "xmc \<Rightarrow> u32 option" where
  "fp_global_mask c = do {
     es \<leftarrow> fp_entries c;
     ofold (\<lambda>e m. map_option (\<lambda>p. m AND NOT (pc_hwIrqs p)) (aget (xmcPartitionTab c) (unat (fps_partitionId e)))) es (- 1)
   }"

definition SetupPartitions :: "'a rstate_scheme hm_event \<Rightarrow> nat \<Rightarrow> (nat \<Rightarrow> u32) \<Rightarrow> (nat \<Rightarrow> nat \<Rightarrow> threadMem) \<Rightarrow>
    (nat \<Rightarrow> nat \<Rightarrow> u32) \<Rightarrow> 'a rstate_scheme \<Rightarrow> (unit, 'a rstate_scheme) outcome option" where
  "SetupPartitions hm fuel pct mem tss s =
     and_then (outcome_fold (boot_partition hm fuel pct mem tss) [0..<length (xmcPartitionTab (cfg s))] s)
       (\<lambda>_ s. if cpu_schedPolicy (xmcCpuCfg (cfg s)) = FP_SCHED
              then map_option (\<lambda>m. Ret () (s\<lparr>globalIrqMask := globalIrqMask s AND m\<rparr>)) (fp_global_mask (cfg s))
              else Some (Ret () s))"

end
