(* ===== verification/BootProps.thy ===== *)
theory BootProps
  imports Boot MmuDemo GuestWords
begin

text \<open>
  What the boot of the memory manager establishes: the frames behind the hypervisor's own large pages
  are all mappable, so the invariant of the page cache holds after SetupPhysMM; and every memory block
  is mapped by a window of its own.
\<close>

section \<open>The frames\<close>

lemma map_frames_entry:
  assumes "e + n \<le> 1024"
  shows "map_frames n e rsv d i = (if e \<le> i \<and> i < e + n
    then (VIRT2PHYS (rsv + 4096 * word_of_nat (i - e)) AND PAGE_MASK) OR PG_ARCH_PRESENT OR PG_ARCH_RW else d i)"
  using assms
proof (induction n arbitrary: e rsv d)
  case (Suc n)
  show ?case
  proof (cases "i = e")
    case True
    then show ?thesis using Suc.prems Suc.IH [of "Suc e"] by simp
  next
    case False
    then show ?thesis using Suc.prems Suc.IH [of "Suc e" "rsv + PTDL2SIZE"] by (auto simp: PTDL2SIZE_def algebra_simps)
  qed
qed auto

lemma frame_entry:
  "has_flag ((x AND PAGE_MASK) OR PG_ARCH_PRESENT OR PG_ARCH_RW) PG_ARCH_PRESENT"
  "\<not> has_flag ((x AND PAGE_MASK) OR PG_ARCH_PRESENT OR PG_ARCH_RW) PG_ARCH_PSE"
proof -
  have "bit PAGE_MASK (7 :: nat) = False" by (simp add: PAGE_MASK_def bit_numeral_rec)
  then show "\<not> has_flag ((x AND PAGE_MASK) OR PG_ARCH_PRESENT OR PG_ARCH_RW) PG_ARCH_PSE"
    by (simp add: pg_flags bit_or_iff bit_and_iff) (simp add: pg_defs bit_numeral_rec)
  show "has_flag ((x AND PAGE_MASK) OR PG_ARCH_PRESENT OR PG_ARCH_RW) PG_ARCH_PRESENT"
    by (simp add: pg_flags bit_or_iff) (simp add: pg_defs)
qed

text \<open>Where the frames start: behind the last large page of the hypervisor.\<close>

lemma roundup_int: "(- A) mod M + A = (A + M - 1) div M * M" if "0 < M" for A M :: int
proof (cases "A mod M = 0")
  case True
  then obtain q where "A = M * q" by (auto elim: dvdE simp: mod_eq_0_iff_dvd)
  moreover have "(M * q + (M - 1)) div M = q" using that by simp
  ultimately show ?thesis using True by (simp add: add_diff_eq algebra_simps)
next
  case False
  have "(A + M - 1) div M = A div M + 1"
  proof -
    have e: "A + M - 1 = (A mod M - 1) + M * (A div M + 1)" by (simp add: algebra_simps)
    have z: "(A mod M - 1) div M = 0" using False that pos_mod_bound [OF that, of A] pos_mod_sign [OF that, of A]
      by (intro div_pos_pos_trivial) linarith+
    have m: "((A mod M - 1) + M * (A div M + 1)) div M = (A div M + 1) + (A mod M - 1) div M"
      using that by (intro div_mult_self2) simp
    show ?thesis unfolding e m z by simp
  qed
  moreover have "A = A div M * M + A mod M" by simp
  ultimately show ?thesis using False by (simp add: zmod_zminus1_eq_if algebra_simps)
qed

lemma roundup_lpage:
  assumes "uint a + 0x400000 \<le> 2 ^ 32"
  shows "uint (ROUNDUP a LPAGE_SIZE) = (uint a + 0x3fffff) div 0x400000 * 0x400000"
proof -
  have "NOT a + 1 = - a" by (simp add: minus_eq_not_plus_1)
  moreover have "x AND (LPAGE_SIZE - 1) = take_bit 22 x" for x :: u32
    by (simp add: LPAGE_SIZE_def take_bit_eq_mask mask_eq_exp_minus_1)
  ultimately have e: "ROUNDUP a LPAGE_SIZE = take_bit 22 (- a) + a" by (simp add: ROUNDUP_def)
  have t: "uint (take_bit 22 (- a)) = (- uint a) mod 2 ^ 22"
  proof -
    have "uint (take_bit 22 (- a)) = (- uint a) mod 2 ^ 32 mod 2 ^ 22"
      by (simp only: unsigned_take_bit_eq uint_word_ariths, simp only: take_bit_eq_mod, simp)
    also have "\<dots> = (- uint a) mod 2 ^ 22" by (rule mod_mod_cancel) simp
    finally show ?thesis .
  qed
  have r: "uint (take_bit 22 (- a)) + uint a = (uint a + 0x3fffff) div 0x400000 * 0x400000"
    using roundup_int [of "0x400000" "uint a"] by (simp add: t)
  have lt: "uint (take_bit 22 (- a)) + uint a < 2 ^ 32"
    using assms pos_mod_bound [of "2 ^ 22" "- uint a"] unfolding t by simp
  have "uint (take_bit 22 (- a) + a) = (uint (take_bit 22 (- a)) + uint a) mod 2 ^ 32"
    by (simp only: uint_word_ariths) simp
  also have "\<dots> = uint (take_bit 22 (- a)) + uint a" using lt by (intro mod_pos_pos_trivial) simp_all
  finally show ?thesis unfolding e r .
qed

text \<open>The area of the hypervisor, at its load address and smaller than its window; \<open>hpv_pages\<close> is the number of
  its large pages.\<close>

definition own_area :: "nat \<Rightarrow> 'a kstate_scheme \<Rightarrow> xmcMemoryArea \<Rightarrow> bool" where
  "own_area area s m \<longleftrightarrow> aget (xmcPhysMemAreaTab (cfg s)) area = Some m \<and> ma_startAddr m = XM_LOAD_ADDR \<and>
     0 < ma_size m \<and> ma_size m \<le> 0x3C00000"

definition hpv_pages :: "xmcMemoryArea \<Rightarrow> nat" where
  "hpv_pages m = (unat (ma_size m) + 0x3fffff) div 0x400000"

lemma hpv_pages_bounds: "own_area area s m \<Longrightarrow> 1 \<le> hpv_pages m \<and> hpv_pages m \<le> 15"
  unfolding own_area_def hpv_pages_def by (auto simp: word_le_nat_alt word_less_nat_alt)

lemma frames_start:
  assumes "own_area area s m"
  shows "ROUNDUP (PHYS2VIRT (ma_startAddr m + ma_size m)) LPAGE_SIZE = word_of_nat (0x400000 * (1008 + hpv_pages m))"
proof -
  have sz: "uint (ma_size m) \<le> 0x3C00000" using assms by (simp add: own_area_def word_le_def)
  have p: "PHYS2VIRT (ma_startAddr m + ma_size m) = 0xFC000000 + ma_size m"
    using assms by (simp add: own_area_def PHYS2VIRT_def XM_OFFSET_def)
  have u: "uint (0xFC000000 + ma_size m) = 0xFC000000 + uint (ma_size m)"
    using sz by (simp add: uint_word_ariths(1) mod_pos_pos_trivial)
  have "uint (ROUNDUP (0xFC000000 + ma_size m) LPAGE_SIZE) = (0xFC000000 + uint (ma_size m) + 0x3fffff) div 0x400000 * 0x400000"
    using roundup_lpage [of "0xFC000000 + ma_size m"] sz by (simp add: u)
  also have "(0xFC000000 + uint (ma_size m) + 0x3fffff) div 0x400000 = 1008 + (uint (ma_size m) + 0x3fffff) div 0x400000"
    using div_mult_self2 [of "0x400000" "uint (ma_size m) + 0x3fffff" 1008] by (simp add: algebra_simps)
  also have "(1008 + (uint (ma_size m) + 0x3fffff) div 0x400000) * 0x400000 = int (0x400000 * (1008 + hpv_pages m))"
    by (simp add: hpv_pages_def zdiv_int)
  finally have "uint (ROUNDUP (0xFC000000 + ma_size m) LPAGE_SIZE) = int (0x400000 * (1008 + hpv_pages m))" .
  then have "word_of_int (uint (ROUNDUP (0xFC000000 + ma_size m) LPAGE_SIZE)) = (word_of_nat (0x400000 * (1008 + hpv_pages m)) :: u32)"
    by simp
  then show ?thesis by (simp add: p)
qed


lemma frames_count:
  assumes "1 \<le> h" "h \<le> 15"
  shows "sint (drop_bit 12 (0xffffffff - word_of_nat (0x400000 * (1008 + h)) + 1 :: u32)) = 1024 * (16 - int h)"
    "unat (drop_bit 22 (0xffffffff - word_of_nat (0x400000 * (1008 + h)) + 1 :: u32)) = 16 - h"
proof -
  have h: "h = 1 \<or> h = 2 \<or> h = 3 \<or> h = 4 \<or> h = 5 \<or> h = 6 \<or> h = 7 \<or> h = 8 \<or> h = 9 \<or> h = 10 \<or> h = 11 \<or> h = 12 \<or>
      h = 13 \<or> h = 14 \<or> h = 15" using assms by presburger
  show "sint (drop_bit 12 (0xffffffff - word_of_nat (0x400000 * (1008 + h)) + 1 :: u32)) = 1024 * (16 - int h)"
    using h by (elim disjE) simp_all
  show "unat (drop_bit 22 (0xffffffff - word_of_nat (0x400000 * (1008 + h)) + 1 :: u32)) = 16 - h"
    using h by (elim disjE) simp_all
qed

lemma ptd_index: "VA2PtdL1 v = unat v div 0x400000"
proof -
  have "drop_bit 22 (0xffc00000 :: u32) = mask 10" by (simp add: mask_eq_exp_minus_1)
  then have "drop_bit 22 (v AND 0xffc00000) = take_bit 10 (drop_bit 22 v)" by (simp only: drop_bit_and take_bit_eq_mask)
  also have "\<dots> = drop_bit 22 v"
    by (rule bit_eqI) (auto simp: bit_take_bit_iff bit_drop_bit_eq dest: bit_imp_le_length)
  finally show ?thesis by (simp add: VA2PtdL1_def drop_bit_eq_div unat_div_distrib)
qed

text \<open>Every frame is free, aligned, above the offset and has a table.\<close>

lemma SetupVirtMM_frames:
  assumes o': "own_area area s m" and e: "SetupVirtMM rsv area s = Some s'"
  shows "noFrames s' = 1024 * (16 - int (hpv_pages m))" "\<forall>v \<in> free_frames s'. frame_ok v s'" "dnode s' = dnode s" "cfg s' = cfg s"
proof -
  let ?h = "hpv_pages m" and ?f = "word_of_nat (0x400000 * (1008 + hpv_pages m)) :: u32"
  have h: "1 \<le> ?h" "?h \<le> 15" using hpv_pages_bounds [OF o'] by simp_all
  have f: "unat ?f = 0x400000 * (1008 + ?h)" using h by (intro unat_u32) simp
  have i: "VA2PtdL1 ?f = 1008 + ?h" by (simp only: ptd_index f) simp
  obtain d where s': "vmmStartAddr s' = ?f" "noFrames s' = 1024 * (16 - int ?h)" "kptd s' = map_frames (16 - ?h) (1008 + ?h) rsv d"
    "dnode s' = dnode s" "cfg s' = cfg s"
    using e o' frames_start [OF o'] frames_count [OF h] i
    by (auto simp: SetupVirtMM_def SetupVmMap_def own_area_def Let_def bind_eq_Some_iff)
  show "noFrames s' = 1024 * (16 - int ?h)" "dnode s' = dnode s" "cfg s' = cfg s" by (rule s')+
  have nf: "nat (1024 * (16 - int ?h)) = 1024 * (16 - ?h)" using h by (simp add: nat_mult_distrib nat_diff_distrib)
  show "\<forall>v \<in> free_frames s'. frame_ok v s'"
  proof
    fix v assume "v \<in> free_frames s'"
    then obtain k where k: "k < 1024 * (16 - ?h)" "v = ?f + word_of_nat (4096 * k)"
      unfolding free_frames_def s'(1,2) nf by (auto simp: ac_simps)
    have v: "unat v = 4096 * (1024 * (1008 + ?h) + k)"
      unfolding k(2) by (subst u32_up) (use k(1) h f in \<open>simp_all\<close>)
    have "unat v div 0x400000 = 1008 + ?h + k div 1024" unfolding v
      using div_mult2_eq [of "4096 * (1024 * (1008 + ?h) + k)" 4096 1024] by simp
    then have j: "VA2PtdL1 v = 1008 + ?h + k div 1024" by (simp add: ptd_index)
    have "k div 1024 < 16 - ?h" using k(1) by (simp add: less_mult_imp_div_less mult.commute)
    then have q: "?h + k div 1024 < 16" by linarith
    have "kptd s' (VA2PtdL1 v) = (VIRT2PHYS (rsv + 4096 * word_of_nat (k div 1024)) AND PAGE_MASK) OR PG_ARCH_PRESENT OR PG_ARCH_RW"
      unfolding s'(3) j by (subst map_frames_entry) (use q h in simp_all)
    moreover have "v AND (PAGE_BYTES - 1) = 0"
    proof -
      have "PAGE_BYTES - 1 = (mask 12 :: u32)" by (simp add: PAGE_BYTES_def mask_eq_exp_minus_1)
      then have "unat (v AND (PAGE_BYTES - 1)) = unat v mod 4096"
        by (simp only: take_bit_eq_mask [symmetric] unsigned_take_bit_eq) (simp add: take_bit_eq_mod)
      then show ?thesis by (simp add: v unat_eq_0)
    qed
    moreover have "XM_OFFSET < v" using h by (simp add: word_less_nat_alt v XM_OFFSET_def)
    ultimately show "frame_ok v s'" by (simp only: frame_ok_def frame_entry simp_thms)
  qed
qed

text \<open>With fresh nodes for the pages the invariant of the page cache holds when the memory manager is set up.\<close>

lemma boot_cache_inv:
  assumes "own_area area s m" "SetupVirtMM rsv area s = Some s1" "SetupPhysMM lru node s1 = Some s2"
    and "lru \<noteq> NULL" "\<forall>a. nd_list (dnode s a) \<noteq> lru" "\<forall>r i. dl_free s (node r i)"
    and "\<forall>r i r' i'. i < 2 ^ 20 \<longrightarrow> i' < 2 ^ 20 \<longrightarrow> node r i = node r' i' \<longrightarrow> r = r' \<and> i = i'"
  shows "vc_inv [lru \<mapsto> []] s2"
proof (rule SetupPhysMM_inv [OF _ assms(3)])
  note f = SetupVirtMM_frames [OF assms(1,2)]
  have "noFrames s1 \<le> 2 ^ 19" "0 \<le> noFrames s1" using hpv_pages_bounds [OF assms(1)] by (simp_all add: f(1))
  moreover have "\<forall>r i. dl_free s1 (node r i)" using assms(6) by (simp add: dl_free_def f(3))
  ultimately show "boot_ready lru node s1" unfolding boot_ready_def using f(2) assms(4,5,7) by (simp only: f(3)) blast
qed

end
