(* ===== verification/Spec2Isabelle.thy ===== *)
theory Spec2Isabelle
  imports Hypercalls KernelProps SchedProps SchedLive LogProps CommProps SamplingProps KlibcProps MmuProps PageTypes MachineProps CallProps ConfProps ConfConv
    Watchdog RsvProps BootProps
begin

text \<open>
  A verification library for the XtratuM hypervisor: the kernel of src/core for x86 and the
  configuration compiler of src/user/tools/xmcparser.

  XtratuM runs partitions, guests that are isolated in time and space, on one machine. Everything is
  static: a compiler turns an XML description into tables, the kernel is linked with them and never
  allocates after the boot. The kernel schedules the virtual processors of the partitions by a plan of
  slots or by fixed priorities, emulates timers and interrupts, checks every update of a page table,
  copies messages between partitions, keeps logs, and watches partitions with a health monitor. A
  partition reaches it by hypercalls, by interrupts and by traps.

  The configuration of the build that is modelled is the default one for x86: one processor, the i8259
  interrupt controller, the i8253 timer, CONFIG_DEBUG, the cyclic and the fixed-priority scheduler,
  audit events, memory blocks as the only device, no TTNoC.

  \<^bold>\<open>Conventions.\<close> A structure of the source is a record, the state of the kernel a record that is
  extended from component to component (kstate, sstate for the scheduler, gstate for the guests, cstate
  for the ports, mstate for memory, astate for the processor, vstate, rstate, hstate, istate, ostate).
  Fixed-width integers are words, s32 values that are compared as signed are integers in the range of
  the source, times are integers (a signed count of microseconds of 64 bits). An address of a kernel
  object is a natural number, a pointer into guest memory a 32-bit word. A function returns an option:
  None is a failed assertion, a null pointer, an index outside a table or a loop without an end; its
  return code is a value beside the new state. Calls that may lose the processor or never come back
  return an outcome (theory Reset): returned, switched away, entered a guest, halted, restarted. The
  compiler returns a sum: Inl is the message with which the tool stops.

  \<^bold>\<open>The theories and the code\<close>, in the order in which they build on each other:

  \<^item> Prelude: types, return codes, assertions; lemmas on flags, lists, words and loops over lists.
  \<^item> DynList: core/include/list.h, the linked lists over an explicit store. The locale deque states the
    contract with sequences, and is interpreted for the operations of the source.
  \<^item> Bitmap, Klibc, Bitwise: bit arrays of guests (core/include/guest.h), core/klibc/string.c and
    stdlib.c, the bit scans of core/include/bitwise.h. Each has its reference function.
  \<^item> KThread, KTimer: core/include/kthread.h and core/kernel/ktimer.c with the handlers of
    core/kernel/kthread.c. The locale engine_frame says what the engine of the timers leaves alone; it is
    interpreted for the data of the scheduler.
  \<^item> Pic: core/kernel/arch/pic.c. Sched, PartState: core/kernel/sched.c and core/include/sched.h. The
    locale ready_policy is the contract of a scheduling policy with Schedule, and both policies meet it.
  \<^item> MemBlock, LogStream: core/drivers/memblock.c and core/include/logstream.h. The locale log_device is
    the contract of a device with a log; the memory block meets it.
  \<^item> Guest, GuestWords: the memory of the running partition and its check, core/include/gaccess.h.
  \<^item> CommPorts, CommInv, CommNotify: core/objects/commports.c. The locale msg_queue is a bounded queue of
    messages and is interpreted for the pool and the lists of a channel.
  \<^item> PhysMM, PhysInv, VCache, MmuCalls, MmuInv: core/kernel/mmu (physmm.c, virtmm.c, hypercalls.c): areas
    and pages, the cache of mapped pages with its invariant vc_inv, the calls on page tables.
  \<^item> Arch, ArchCalls, VmMap: core/kernel/arch (kthread.c, hypercalls.c, vmmap.c, physmm.c) and
    core/kernel/mmu/vmmap.c: registers, segment and interrupt tables, the page tables a partition starts with.
  \<^item> Reset, HealthMon, Watchdog: the creation and reset of partitions (core/kernel/kthread.c, setup.c),
    core/objects/hm.c, core/kernel/panic.c, and when the action for an expired watchdog leaves the schedule
    and the timers alone.
  \<^item> Irqs, Objects, Hypercalls: core/kernel/irqs.c, arch/irqs.c, arch/pit.c; the objects of core/objects;
    core/kernel/hypercalls.c with its table, the batches and the dispatch.
  \<^item> RsvMem, RsvBase, Boot: core/kernel/rsvmem.c with the requests of the boot code and the reservations
    of user/tools/xmcparser (cgen.c, rsvmem.c, x86.c); the boot of the frames, the memory blocks, the devices,
    the objects and the partitions.
  \<^item> ConfCheck, ConfBuild, ConfConv: user/tools/xmcparser (checks.c, process_xml.c, xmc.c, conv.c, x86.c):
    the handlers of the elements, the checks, sorting and linking. ConfInv, ConfPlan, ConfMem and ConfRead
    carry the invariants of the tables through the whole description.
  \<^item> Samples, MmuDemo, SysDemo, ConfSamples: the small systems on which the theorems are applied.

  \<^bold>\<open>What is shown\<close>, by theory:

  \<^item> SchedProps, SchedLive: isolation in time. What the cyclic policy chooses owns the slot of the current
    time; a ready owner gets it; no start of a slot is slept through; frames do not drift; over two major
    frames every owner that stays ready is served. The fixed-priority policy picks the first ready thread.
    Halted and suspended partitions do not run.
  \<^item> KernelProps: lists are first-in first-out; one pass over a timer queue fires what is due; a fault of
    DisarmVTimer.
  \<^item> LogProps: inserting, reading and restarting a log against the list of its records.
  \<^item> CommProps, SamplingProps: queuing channels are bounded queues and sampling channels hold the newest
    message, through the whole calls; ports of others are out of reach; what the check of a parameter gives.
  \<^item> MmuProps, PageTypes, BootProps: isolation in space. An installed entry maps memory of the caller; the
    types of pages; the window of a mapped page; a fault of SetPageTypeSys. The boot establishes the
    invariant of the cache.
  \<^item> MachineProps: the frame of an interrupt is undone by the return; the lowest pending interrupt is
    delivered; a thread finds its machine state after a switch away and back; the log's checksums.
  \<^item> CallProps: only system partitions manage others; a batch of quiet calls does what the calls do one by
    one; a batch that contains itself never ends.
  \<^item> ConfProps, ConfConv: what the kernel may rely on in an accepted configuration, under the conditions the
    compiler does not check, and accepted configurations that break it.
  \<^item> RsvProps: the reserved memory suffices for the boot, whatever the order of the requests.

  \<^bold>\<open>Assumptions, bounds and fuel.\<close> RaiseHmPartEvent is called by the timer of a watchdog deep below the
  scheduler; in KTimer and Sched it is the argument hm. The theorems on schedule and timers assume that it
  leaves their data alone (hm_sched, hm_frame). Watchdog proves this of the modelled health monitor
  where the configured action is to ignore or propagate the event or to shut the partition down. The other
  actions halt, suspend or reset a partition or change the plan; they are meant to interfere, and for them
  those theorems say nothing. hm_level n is the health monitor with at most n events raised inside one
  another. SetHwTimer and TimerHandler call each other: fuel counts the calls of TimerHandler.
  A deadline ahead of the clock needs none (SetHwTimer_future), and the theorems hold for every fuel with
  which there is a result. The depth of hypercall counts batches inside batches and
  stands for the stack of the kernel: at depth 0 there is none left and no result. A batch of calls that are
  not batches needs depth 2; for a batch that contains itself no depth is enough, which is a theorem. A plan
  switch to a plan without a major frame enters the endless loop of the idle task, a missing result. TestSp
  has no result for a guest stack above CONFIG_XM_OFFSET, where the source would read its own memory.

  \<^bold>\<open>Not modelled.\<close> The lookaside buffer of the processor; the relation between the bytes a guest sees
  (gmem) and the physical words the page-table calls change (pmem); output to consoles; several
  processors, the APIC and ACPI; the TTNoC drivers and ports; the set up of the processor and the two
  sequences Setup and LocalSetup; the assembly entry points but for the dispatch of hypercalls; reading
  XML and attributes with floating point numbers, and printing C; the packing tools and boot loaders;
  the library and the runtime of partitions. qsort is taken to be stable. The spin locks have no effect
  on one processor. PROJECT.json lists each part with its reason.
\<close>

end
